(* ===== verification/Prelude.thy ===== *)
theory Prelude
  imports Complex_Main "HOL-Library.AList"
begin

text \<open>
  Shared vocabulary of the development: the JavaScript containers and the database tables
  the program uses, as HOL lists, with the lemmas the component theories rest on.

  \<^item> A JavaScript \<open>Map\<close> is an association list in insertion order: \<open>get\<close> is
    \<^theory_text>\<open>map_of\<close>, \<open>set\<close> is \<^theory_text>\<open>AList.update\<close> (it replaces in place or appends).
  \<^item> A database table is the list of its rows, oldest first. The four Prisma operations the
    program uses on tables are \<open>findFirst\<close> (\<^theory_text>\<open>List.find\<close>), \<open>updateMany\<close>
    (\<^theory_text>\<open>update_where\<close>), \<open>deleteMany\<close> (\<^theory_text>\<open>delete_where\<close>) and \<open>create\<close> (append a row).
  \<^item> A unique index is a key function; the locale \<^theory_text>\<open>unique_key\<close> holds what every table
    operation does to it.
  \<^item> Time is an integer number of milliseconds since the epoch, what \<open>Date.now()\<close> returns.
\<close>

named_theorems table_simps "what the table operations return"
named_theorems frame_simps "parts of the state an operation leaves alone"

type_synonym ms = int

type_synonym 'v jsmap = "(string \<times> 'v) list"

subsection \<open>Truthiness\<close>

text \<open>An optional string is truthy in JavaScript when it is present and not empty.\<close>

definition truthy :: "string option \<Rightarrow> string option" where
  "truthy x = (case x of None \<Rightarrow> None | Some s \<Rightarrow> if s = [] then None else Some s)"

lemma truthy_simps [simp]:
  "truthy None = None"
  "truthy (Some []) = None"
  "truthy (Some (c # cs)) = Some (c # cs)"
  by (simp_all add: truthy_def)

lemma truthy_Some_iff: "truthy x = Some s \<longleftrightarrow> x = Some s \<and> s \<noteq> []"
  by (auto simp: truthy_def split: option.splits if_splits)

text \<open>The operator \<open>a ?? b\<close>.\<close>

definition or_else :: "'a option \<Rightarrow> 'a \<Rightarrow> 'a" where
  "or_else x d = (case x of None \<Rightarrow> d | Some v \<Rightarrow> v)"

lemma or_else_simps [simp]: "or_else None d = d" "or_else (Some v) d = v"
  by (simp_all add: or_else_def)

definition or_opt :: "'a option \<Rightarrow> 'a option \<Rightarrow> 'a option" where
  "or_opt x y = (case x of None \<Rightarrow> y | Some v \<Rightarrow> Some v)"

lemma or_opt_simps [simp]: "or_opt None y = y" "or_opt (Some v) y = Some v"
  by (simp_all add: or_opt_def)

subsection \<open>JavaScript maps\<close>

lemma map_of_update [simp]: "map_of (AList.update k v m) = (map_of m)(k \<mapsto> v)"
  by (simp add: update_conv')

lemma dom_map_of_update:
  "dom (map_of (AList.update k v m)) = insert k (dom (map_of m))"
  by (simp only: map_of_update dom_fun_upd) simp

subsection \<open>Tables\<close>

definition update_where :: "('r \<Rightarrow> bool) \<Rightarrow> ('r \<Rightarrow> 'r) \<Rightarrow> 'r list \<Rightarrow> 'r list" where
  "update_where P f rows = map (\<lambda>r. if P r then f r else r) rows"

definition delete_where :: "('r \<Rightarrow> bool) \<Rightarrow> 'r list \<Rightarrow> 'r list" where
  "delete_where P rows = filter (\<lambda>r. \<not> P r) rows"

lemma update_where_simps [simp, table_simps]:
  "update_where P f [] = []"
  "update_where P f (r # rows) = (if P r then f r else r) # update_where P f rows"
  by (simp_all add: update_where_def)

lemma delete_where_simps [simp, table_simps]:
  "delete_where P [] = []"
  "delete_where P (r # rows) = (if P r then delete_where P rows else r # delete_where P rows)"
  by (simp_all add: delete_where_def)

lemma length_update_where [simp, table_simps]: "length (update_where P f rows) = length rows"
  by (simp add: update_where_def)

lemma set_update_where:
  "set (update_where P f rows) = (\<lambda>r. if P r then f r else r) ` set rows"
  by (simp add: update_where_def)

lemma update_where_mem:
  "r \<in> set (update_where P f rows) \<Longrightarrow>
     (\<exists>r0 \<in> set rows. P r0 \<and> r = f r0) \<or> (r \<in> set rows \<and> \<not> P r)"
  by (auto simp: update_where_def split: if_splits)

lemma update_where_id: "(\<And>r. r \<in> set rows \<Longrightarrow> \<not> P r) \<Longrightarrow> update_where P f rows = rows"
  by (induction rows) auto

lemma update_where_append [simp, table_simps]:
  "update_where P f (xs @ ys) = update_where P f xs @ update_where P f ys"
  by (simp add: update_where_def)

text \<open>A filter that reads nothing the update writes is untouched by it.\<close>

lemma filter_update_where_frame [frame_simps]:
  assumes "\<And>r. P r \<Longrightarrow> \<not> Q r" and "\<And>r. P r \<Longrightarrow> \<not> Q (f r)"
  shows "filter Q (update_where P f rows) = filter Q rows"
  using assms by (induction rows) auto

lemma find_Some_iff_mem: "List.find P xs = Some x \<Longrightarrow> x \<in> set xs \<and> P x"
  by (induction xs) (auto split: if_splits)

lemma find_None_D: "List.find P xs = None \<Longrightarrow> x \<in> set xs \<Longrightarrow> \<not> P x"
  by (auto simp: find_None_iff)

lemma find_append: "List.find P (xs @ ys) = or_opt (List.find P xs) (List.find P ys)"
  by (induction xs) auto

lemma find_cong_mem:
  "(\<And>x. x \<in> set xs \<Longrightarrow> P x = Q x) \<Longrightarrow> List.find P xs = List.find Q xs"
  by (induction xs) auto

lemma find_update_where_frame:
  assumes "\<And>r. P r \<Longrightarrow> \<not> Q r" and "\<And>r. P r \<Longrightarrow> \<not> Q (f r)"
  shows "List.find Q (update_where P f rows) = List.find Q rows"
  using assms by (induction rows) auto

text \<open>An update that keeps a query's answer on every row commutes with the query.\<close>

lemma find_update_where:
  assumes "\<And>r. P r \<Longrightarrow> Q (f r) = Q r"
  shows "List.find Q (update_where P f rows) =
    map_option (\<lambda>r. if P r then f r else r) (List.find Q rows)"
  using assms by (induction rows) auto

subsection \<open>Unique indexes\<close>

text \<open>
  A column with a unique index, possibly nullable: rows whose key is null never clash.
\<close>

locale unique_key =
  fixes key :: "'r \<Rightarrow> 'k option"
begin

definition unique :: "'r list \<Rightarrow> bool" where
  "unique rows \<longleftrightarrow> distinct (List.map_filter key rows)"

definition free :: "'k option \<Rightarrow> 'r list \<Rightarrow> bool" where
  "free k rows \<longleftrightarrow> (case k of None \<Rightarrow> True | Some v \<Rightarrow> \<forall>r \<in> set rows. key r \<noteq> Some v)"

lemma unique_Nil [simp]: "unique []"
  by (simp add: unique_def map_filter_simps)

lemma map_filter_mem: "v \<in> set (List.map_filter key rows) \<longleftrightarrow> (\<exists>r \<in> set rows. key r = Some v)"
  by (induction rows) (auto simp: map_filter_simps split: option.splits)

lemma unique_Cons: "unique (r # rows) \<longleftrightarrow> free (key r) rows \<and> unique rows"
  by (auto simp: unique_def free_def map_filter_simps map_filter_mem split: option.splits)

lemma unique_append1: "unique (rows @ [r]) \<longleftrightarrow> free (key r) rows \<and> unique rows"
  by (induction rows) (auto simp: unique_Cons free_def split: option.splits)

lemma unique_update_keep:
  assumes "\<And>r. P r \<Longrightarrow> key (f r) = key r"
  shows "unique (update_where P f rows) = unique rows"
proof -
  have "List.map_filter key (update_where P f rows) = List.map_filter key rows"
    using assms by (induction rows) (auto simp: map_filter_simps split: option.splits)
  then show ?thesis by (simp add: unique_def)
qed

lemma unique_delete: "unique rows \<Longrightarrow> unique (delete_where P rows)"
  by (induction rows) (auto simp: unique_Cons free_def delete_where_def split: option.splits)

lemma unique_eq:
  "unique rows \<Longrightarrow> r \<in> set rows \<Longrightarrow> r' \<in> set rows \<Longrightarrow> key r = Some v \<Longrightarrow> key r' = Some v \<Longrightarrow> r = r'"
  by (induction rows) (auto simp: unique_Cons free_def split: option.splits)

text \<open>A lookup by a unique key finds the row wherever it stands in the table.\<close>

lemma unique_find:
  "unique rows \<Longrightarrow> r \<in> set rows \<Longrightarrow> key r = Some v \<Longrightarrow>
     List.find (\<lambda>x. key x = Some v) rows = Some r"
  by (induction rows) (auto simp: unique_Cons free_def split: option.splits)

lemma unique_filter:
  assumes "unique rows" and "r \<in> set rows" and "key r = Some v"
  shows "filter (\<lambda>x. key x = Some v) rows = [r]"
proof -
  have "filter (\<lambda>x. key x = Some v) rows = []" if "free (Some v) rows" for rows
    using that by (auto simp: free_def filter_empty_conv)
  with assms show ?thesis
    by (induction rows) (auto simp: unique_Cons free_def)
qed

end

end
