(* ===== verification/WorkflowTypes.thy ===== *)
theory WorkflowTypes
  imports Prelude
begin

text \<open>
  The data of the workflow core (\<open>packages/workflows-core/src/types.ts\<close>) and the Prisma enums
  the workflow tables share with it.
\<close>

datatype step_type =
    TRIGGER_WEBHOOK | TRIGGER_CRON | TRIGGER_EVENT | HTTP_REQUEST | CONDITION | CODE
  | TRANSFORMER | SEND_NOTIFICATION | AGENT_EXECUTE | AGENT_HANDOFF | CRM_UPSERT
  | WHATSAPP_SEND | GOOGLE_EVENT | MS_EVENT | AI_TEXT_EXTRACT | DELAY

datatype dag_route = ALWAYS | IF_TRUE | IF_FALSE | ON_SUCCESS | ON_FAILURE | FALLBACK

record dag_node =
  node_id :: string
  node_is_trigger :: "bool option"
  node_type :: "step_type option"

record dag_edge =
  edge_route :: "dag_route option"
  edge_source :: string
  edge_target :: string

definition is_trigger_type :: "step_type \<Rightarrow> bool" where
  "is_trigger_type t \<longleftrightarrow> t = TRIGGER_WEBHOOK \<or> t = TRIGGER_CRON \<or> t = TRIGGER_EVENT"

end
