(* ===== verification/DagValidator.thy ===== *)
theory DagValidator
  imports WorkflowTypes JsText
begin

text \<open>
  \<open>packages/workflows-core/src/parser/dagValidator.ts\<close>: the check every workflow canvas passes
  before it is stored. The two depth-first searches and Kahn's sort are written with the code's
  own worklists; \<open>Map\<close>s are association lists, \<open>Set\<close>s are sets.

  The lemmas show that the cycle search terminates, that what it returns is a cycle and that it
  misses none; that the reachability search computes the nodes reachable from the root; that
  Kahn's loop returns every node of an acyclic graph, each after all its predecessors; and that
  \<open>validateDag\<close> accepts exactly the graphs \<^theory_text>\<open>dag_ok\<close> describes.
\<close>

subsection \<open>Errors, options and results\<close>

datatype graph_error =
    EmptyGraph
  | EmptyNodeId
  | DuplicateNodeId string
  | MissingSource string
  | MissingTarget string
  | IsolatedNodes "string list"
  | CyclicDependency "string list"
  | NoRoot
  | MultipleRoots "string list"
  | UnreachableNodes string "string list"
  | NotTopological

record dag_options =
  require_connected :: "bool option"
  require_single_trigger :: "bool option"

record dag_result =
  root_node_ids :: "string list"
  topological_order :: "string list"

subsection \<open>The cycle search\<close>

text \<open>\<open>adjacency.get(n) ?? []\<close>\<close>

definition get_targets :: "string list jsmap \<Rightarrow> string \<Rightarrow> string list" where
  "get_targets adj n = or_else (map_of adj n) []"

text \<open>The sets \<open>visiting\<close> and \<open>visited\<close> and the array \<open>stack\<close> the calls share.\<close>

type_synonym dfs_state = "string set \<times> string set \<times> string list"

definition seen :: "dfs_state \<Rightarrow> string set" where
  "seen st = (case st of (vg, vd, sk) \<Rightarrow> vg \<union> vd)"

lemma seen_simp [simp]: "seen (vg, vd, sk) = vg \<union> vd"
  by (simp add: seen_def)

function (sequential) get_cycle_path ::
    "string list jsmap \<Rightarrow> string \<Rightarrow> dfs_state \<Rightarrow> string list option \<times> dfs_state"
  and visit_targets ::
    "string list jsmap \<Rightarrow> string list \<Rightarrow> dfs_state \<Rightarrow> string list option \<times> dfs_state"
where
  "get_cycle_path adj n (vg, vd, sk) =
     (if n \<in> vg then
        (Some (case index_of n sk of Some i \<Rightarrow> drop i sk @ [n] | None \<Rightarrow> [n, n]), (vg, vd, sk))
      else if n \<in> vd then (None, (vg, vd, sk))
      else case visit_targets adj (get_targets adj n) (insert n vg, vd, sk @ [n]) of
             (Some c, st) \<Rightarrow> (Some c, st)
           | (None, (vg', vd', sk')) \<Rightarrow> (None, (vg' - {n}, insert n vd', butlast sk')))"
| "visit_targets adj [] st = (None, st)"
| "visit_targets adj (t # ts) st =
     (case get_cycle_path adj t st of
        (Some c, st') \<Rightarrow> (Some c, st')
      | (None, st') \<Rightarrow> visit_targets adj ts st')"
  by pat_completeness auto

text \<open>
  Termination: a call from a node with edges marks it as being visited, so fewer keys of the
  map are unseen; a node without edges makes no call. That marking never shrinks is proved on
  the domain first.
\<close>

lemma dfs_seen_mono:
  "get_cycle_path_visit_targets_dom (Inl (adj, n, st)) \<Longrightarrow>
     seen st \<subseteq> seen (snd (get_cycle_path adj n st))"
  "get_cycle_path_visit_targets_dom (Inr (adj, ts, st)) \<Longrightarrow>
     seen st \<subseteq> seen (snd (visit_targets adj ts st))"
proof (induction adj n st and adj ts st rule: get_cycle_path_visit_targets.pinduct)
  case (1 adj n vg vd sk)
  obtain r vg' vd' sk' where v:
      "visit_targets adj (get_targets adj n) (insert n vg, vd, sk @ [n]) = (r, vg', vd', sk')"
    by (cases "visit_targets adj (get_targets adj n) (insert n vg, vd, sk @ [n])") auto
  with 1 show ?case
    by (cases "n \<in> vg"; cases "n \<in> vd"; cases r) (auto simp: get_cycle_path.psimps)
next
  case (2 adj st)
  then show ?case by (simp add: visit_targets.psimps)
next
  case (3 adj t ts st)
  then show ?case
    by (fastforce simp: visit_targets.psimps split: prod.splits option.splits)
qed

definition unseen :: "string list jsmap \<Rightarrow> dfs_state \<Rightarrow> nat" where
  "unseen adj st = card (fst ` set adj - seen st)"

lemma unseen_mono: "seen st \<subseteq> seen st' \<Longrightarrow> unseen adj st' \<le> unseen adj st"
  unfolding unseen_def by (rule card_mono) auto

lemma unseen_insert:
  assumes "n \<in> fst ` set adj" and "n \<notin> vg" and "n \<notin> vd"
  shows "unseen adj (insert n vg, vd, sk') < unseen adj (vg, vd, sk)"
  unfolding unseen_def by (rule psubset_card_mono) (use assms in auto)

lemma get_targets_key: "get_targets adj n \<noteq> [] \<Longrightarrow> n \<in> fst ` set adj"
  by (auto simp: get_targets_def or_else_def dom_map_of_conv_image_fst[symmetric]
      split: option.splits)

termination get_cycle_path
proof (relation "measures
    [\<lambda>x. case x of Inl (adj, n, st) \<Rightarrow> unseen adj st | Inr (adj, ts, st) \<Rightarrow> unseen adj st,
     \<lambda>x. case x of Inl (adj, n, st) \<Rightarrow> 1 | Inr (adj, ts, st) \<Rightarrow> 2 * length ts]", goal_cases)
  case 1
  show ?case by simp
next
  case (2 adj n vg vd sk)
  show ?case
  proof (cases "get_targets adj n = []")
    case True
    have "unseen adj (insert n vg, vd, sk @ [n]) \<le> unseen adj (vg, vd, sk)"
      by (rule unseen_mono) auto
    with True show ?thesis by auto
  next
    case False
    then show ?thesis
      using unseen_insert[OF get_targets_key, of adj n vg vd "sk @ [n]" sk] 2 by auto
  qed
next
  case (3 adj t ts st)
  show ?case by simp
next
  case (4 adj t ts st r st')
  then have "snd (get_cycle_path adj t st) = st'" by (metis snd_conv)
  with 4 have "unseen adj st' \<le> unseen adj st"
    using dfs_seen_mono(1)[of adj t st] unseen_mono[of st st' adj] by simp
  then show ?case by auto
qed

lemmas dfs_induct = get_cycle_path_visit_targets.induct

text \<open>The top-level loop starts every search with an empty stack.\<close>

fun find_cycle :: "string list jsmap \<Rightarrow> string list \<Rightarrow> string set \<Rightarrow> string set \<Rightarrow> string list option" where
  "find_cycle adj [] vg vd = None"
| "find_cycle adj (n # ns) vg vd =
     (case get_cycle_path adj n (vg, vd, []) of
        (Some c, _) \<Rightarrow> Some c
      | (None, (vg', vd', _)) \<Rightarrow> find_cycle adj ns vg' vd')"

subsection \<open>What the cycle search returns\<close>

definition adj_rel :: "string list jsmap \<Rightarrow> (string \<times> string) set" where
  "adj_rel adj = {(u, v). v \<in> set (get_targets adj u)}"

lemma adj_rel_iff [simp]: "(u, v) \<in> adj_rel adj \<longleftrightarrow> v \<in> set (get_targets adj u)"
  by (simp add: adj_rel_def)

text \<open>A cycle path: a walk along edges that ends where it starts.\<close>

definition cycle_path :: "string list jsmap \<Rightarrow> string list \<Rightarrow> bool" where
  "cycle_path adj c \<longleftrightarrow> 2 \<le> length c \<and> hd c = last c \<and>
     successively (\<lambda>u v. v \<in> set (get_targets adj u)) c"

definition stack_ok :: "string list jsmap \<Rightarrow> dfs_state \<Rightarrow> bool" where
  "stack_ok adj st = (case st of (vg, vd, sk) \<Rightarrow>
     set sk = vg \<and> distinct sk \<and> successively (\<lambda>u v. v \<in> set (get_targets adj u)) sk)"

definition enters :: "string list jsmap \<Rightarrow> dfs_state \<Rightarrow> string \<Rightarrow> bool" where
  "enters adj st n = (case st of (vg, vd, sk) \<Rightarrow> sk = [] \<or> n \<in> set (get_targets adj (last sk)))"

lemma successively_drop: "successively P xs \<Longrightarrow> successively P (drop i xs)"
  by (metis append_take_drop_id successively_append_iff)

text \<open>Without a cycle the search leaves the stack and the visiting set as it found them.\<close>

lemma dfs_restores_stack:
  "stack_ok adj st \<Longrightarrow> enters adj st n \<Longrightarrow> get_cycle_path adj n st = (None, st') \<Longrightarrow>
     fst st' = fst st \<and> snd (snd st') = snd (snd st)"
  "stack_ok adj st \<Longrightarrow> \<forall>t \<in> set ts. enters adj st t \<Longrightarrow> visit_targets adj ts st = (None, st') \<Longrightarrow>
     fst st' = fst st \<and> snd (snd st') = snd (snd st)"
proof (induction adj n st and adj ts st arbitrary: st' and st' rule: dfs_induct)
  case (1 adj n vg vd sk)
  show ?case
  proof (cases "n \<in> vg \<or> n \<in> vd")
    case True
    with 1 show ?thesis by (auto split: if_splits)
  next
    case False
    then obtain st1 where st1: "visit_targets adj (get_targets adj n) (insert n vg, vd, sk @ [n]) = (None, st1)"
      using 1 by (auto split: prod.splits option.splits)
    have "stack_ok adj (insert n vg, vd, sk @ [n])"
      using 1 False by (auto simp: stack_ok_def enters_def successively_append_iff)
    moreover have "\<forall>t \<in> set (get_targets adj n). enters adj (insert n vg, vd, sk @ [n]) t"
      by (simp add: enters_def)
    ultimately have "fst st1 = insert n vg \<and> snd (snd st1) = sk @ [n]"
      using 1 False st1 by auto
    with 1 False st1 show ?thesis by (auto split: prod.splits)
  qed
next
  case (2 adj st)
  then show ?case by simp
next
  case (3 adj t ts st)
  then obtain st1 where st1: "get_cycle_path adj t st = (None, st1)" "visit_targets adj ts st1 = (None, st')"
    by (auto split: prod.splits option.splits)
  have e: "fst st1 = fst st \<and> snd (snd st1) = snd (snd st)"
    using 3 st1 by auto
  have "stack_ok adj st1" and "\<forall>t \<in> set ts. enters adj st1 t"
    using 3 e by (auto simp: stack_ok_def enters_def split: prod.splits)
  then have "fst st' = fst st1 \<and> snd (snd st') = snd (snd st1)"
    using "3.IH"(2)[OF st1(1)[symmetric] refl] st1(2) by simp
  with e show ?case by simp
qed

lemma dfs_keeps_stack_ok:
  assumes "stack_ok adj st" and "enters adj st n" and "get_cycle_path adj n st = (None, st')"
  shows "stack_ok adj st'" and "enters adj st' t = enters adj st t"
  using dfs_restores_stack(1)[OF assms] assms(1)
  by (auto simp: stack_ok_def enters_def split: prod.splits)

lemma dfs_sound:
  "stack_ok adj st \<Longrightarrow> enters adj st n \<Longrightarrow> get_cycle_path adj n st = (Some c, st') \<Longrightarrow> cycle_path adj c"
  "stack_ok adj st \<Longrightarrow> \<forall>t \<in> set ts. enters adj st t \<Longrightarrow> visit_targets adj ts st = (Some c, st') \<Longrightarrow>
     cycle_path adj c"
proof (induction adj n st and adj ts st arbitrary: st' and st' rule: dfs_induct)
  case (1 adj n vg vd sk)
  consider (hit) "n \<in> vg" | (old) "n \<notin> vg" "n \<in> vd" | (new) "n \<notin> vg" "n \<notin> vd" by blast
  then show ?case
  proof cases
    case hit
    then have "n \<in> set sk" using "1.prems"(1) by (simp add: stack_ok_def)
    then obtain i where i: "index_of n sk = Some i"
      using index_of_None[of n sk] by blast
    then have le: "i < length sk" "sk ! i = n" by (auto dest: index_of_Some)
    from "1.prems"(3) hit i have c: "c = drop i sk @ [n]" by simp
    have "successively (\<lambda>u v. v \<in> set (get_targets adj u)) (drop i sk)"
      using "1.prems"(1) by (simp add: stack_ok_def successively_drop)
    moreover have "n \<in> set (get_targets adj (last (drop i sk)))"
      using "1.prems"(2) le by (auto simp: enters_def)
    ultimately have "successively (\<lambda>u v. v \<in> set (get_targets adj u)) c"
      using c by (simp add: successively_append_iff)
    with c le show ?thesis by (simp add: cycle_path_def hd_drop_conv_nth)
  next
    case old
    with 1 show ?thesis by simp
  next
    case new
    then obtain st1 where st1: "visit_targets adj (get_targets adj n) (insert n vg, vd, sk @ [n]) = (Some c, st1)"
      using 1 by (auto split: prod.splits option.splits)
    have "stack_ok adj (insert n vg, vd, sk @ [n])"
      using 1 new by (auto simp: stack_ok_def enters_def successively_append_iff)
    moreover have "\<forall>t \<in> set (get_targets adj n). enters adj (insert n vg, vd, sk @ [n]) t"
      by (simp add: enters_def)
    ultimately show ?thesis using 1 new st1 by blast
  qed
next
  case (2 adj st)
  then show ?case by simp
next
  case (3 adj t ts st)
  obtain r st1 where p: "get_cycle_path adj t st = (r, st1)"
    by (rule prod.exhaust)
  show ?case
  proof (cases r)
    case (Some c')
    with 3 p show ?thesis by auto
  next
    case None
    with 3 p show ?thesis
      using dfs_keeps_stack_ok[of adj st t st1] by auto
  qed
qed

text \<open>
  What a search without a result has established: the visited nodes are closed under edges and
  none of them lies on a cycle.
\<close>

definition cleared :: "string list jsmap \<Rightarrow> string set \<Rightarrow> string set \<Rightarrow> bool" where
  "cleared adj vg vd \<longleftrightarrow> vg \<inter> vd = {} \<and> adj_rel adj `` vd \<subseteq> vd \<and>
     (\<forall>v \<in> vd. (v, v) \<notin> (adj_rel adj)\<^sup>+)"

lemma closed_rtrancl: "R `` A \<subseteq> A \<Longrightarrow> (x, y) \<in> R\<^sup>* \<Longrightarrow> x \<in> A \<Longrightarrow> y \<in> A"
  by (rotate_tac 1, induction rule: rtrancl_induct) auto

lemma cleared_insert:
  assumes "cleared adj (insert n vg) vd" and "set (get_targets adj n) \<subseteq> vd" and "n \<notin> vg"
  shows "cleared adj vg (insert n vd)"
proof -
  let ?R = "adj_rel adj"
  have closed: "?R `` vd \<subseteq> vd" and fresh: "n \<notin> vd"
    using assms(1) by (auto simp: cleared_def)
  have "(n, n) \<notin> ?R\<^sup>+"
  proof
    assume "(n, n) \<in> ?R\<^sup>+"
    then obtain y where "(n, y) \<in> ?R" "(y, n) \<in> ?R\<^sup>*" by (meson tranclD)
    then have "n \<in> vd" using closed_rtrancl[OF closed] assms(2) by auto
    with fresh show False ..
  qed
  with assms show ?thesis by (auto simp: cleared_def)
qed

lemma dfs_complete:
  "cleared adj (fst st) (fst (snd st)) \<Longrightarrow> get_cycle_path adj n st = (None, (vg', vd', sk')) \<Longrightarrow>
     cleared adj (fst st) vd' \<and> vg' = fst st \<and> insert n (fst (snd st)) \<subseteq> vd'"
  "cleared adj (fst st) (fst (snd st)) \<Longrightarrow> visit_targets adj ts st = (None, (vg', vd', sk')) \<Longrightarrow>
     cleared adj (fst st) vd' \<and> vg' = fst st \<and> set ts \<union> fst (snd st) \<subseteq> vd'"
proof (induction adj n st and adj ts st arbitrary: vg' vd' sk' and vg' vd' sk' rule: dfs_induct)
  case (1 adj n vg vd sk)
  show ?case
  proof (cases "n \<in> vg \<or> n \<in> vd")
    case True
    with "1.prems" show ?thesis by (auto split: if_splits)
  next
    case False
    then obtain vg1 vd1 sk1 where v:
        "visit_targets adj (get_targets adj n) (insert n vg, vd, sk @ [n]) = (None, (vg1, vd1, sk1))"
      and eq: "vg' = vg1 - {n}" "vd' = insert n vd1"
      using "1.prems"(2) by (auto split: prod.splits option.splits)
    have "cleared adj (insert n vg) vd"
      using "1.prems"(1) False by (auto simp: cleared_def)
    then have ih: "cleared adj (insert n vg) vd1 \<and> vg1 = insert n vg \<and>
        set (get_targets adj n) \<union> vd \<subseteq> vd1"
      using "1.IH"[OF _ _ _ v] False by simp
    with False have "cleared adj vg (insert n vd1)"
      by (intro cleared_insert) auto
    with ih eq False show ?thesis by auto
  qed
next
  case (2 adj st)
  then show ?case by simp
next
  case (3 adj t ts st)
  obtain vg1 vd1 sk1 where p: "get_cycle_path adj t st = (None, (vg1, vd1, sk1))"
      and q: "visit_targets adj ts (vg1, vd1, sk1) = (None, (vg', vd', sk'))"
    using "3.prems"(2) by (auto split: prod.splits option.splits)
  from "3.IH"(1)[OF "3.prems"(1) p]
  have a: "cleared adj (fst st) vd1 \<and> vg1 = fst st \<and> insert t (fst (snd st)) \<subseteq> vd1" .
  then have "cleared adj (fst (vg1, vd1, sk1)) (fst (snd (vg1, vd1, sk1)))" by simp
  from "3.IH"(2)[OF p[symmetric] refl this q] a show ?case by auto
qed

text \<open>The search over all nodes, from empty sets, is sound and complete.\<close>

lemma find_cycle_sound: "find_cycle adj ns {} vd = Some c \<Longrightarrow> cycle_path adj c"
proof (induction ns arbitrary: vd)
  case (Cons n ns)
  have ok: "stack_ok adj ({}, vd, [])" "enters adj ({}, vd, []) n"
    by (simp_all add: stack_ok_def enters_def)
  obtain r vg' vd' sk' where p: "get_cycle_path adj n ({}, vd, []) = (r, (vg', vd', sk'))"
    by (metis prod_cases4)
  show ?case
  proof (cases r)
    case None
    with dfs_restores_stack(1)[OF ok] p have "vg' = {}" by auto
    with Cons p None show ?thesis by simp
  next
    case (Some c')
    with Cons p dfs_sound(1)[OF ok] show ?thesis by simp
  qed
qed simp

lemma find_cycle_complete:
  assumes "find_cycle adj ns {} vd = None" and "cleared adj {} vd"
  shows "\<exists>vd'. cleared adj {} vd' \<and> set ns \<union> vd \<subseteq> vd'"
  using assms
proof (induction ns arbitrary: vd)
  case Nil
  then show ?case by auto
next
  case (Cons n ns)
  then obtain vg1 vd1 sk1 where p: "get_cycle_path adj n ({}, vd, []) = (None, (vg1, vd1, sk1))"
      and q: "find_cycle adj ns vg1 vd1 = None"
    by (auto split: prod.splits option.splits)
  from dfs_complete(1)[OF _ p] Cons.prems(2)
  have c: "cleared adj {} vd1" "vg1 = {}" "insert n vd \<subseteq> vd1" by simp_all
  then obtain vd' where "cleared adj {} vd'" "set ns \<union> vd1 \<subseteq> vd'"
    using Cons.IH[of vd1] q by blast
  with c show ?case by (intro exI[of _ vd']) auto
qed

subsection \<open>The reachability search\<close>

text \<open>
  The loop of \<open>assertConnectedFromRoot\<close>. The head of the list is the top of the array
  \<open>stack\<close>, so the nodes pushed one by one stand in front in reverse.
\<close>

function reach_loop :: "string list jsmap \<Rightarrow> string list \<Rightarrow> string set \<Rightarrow> string set" where
  "reach_loop adj [] S = S"
| "reach_loop adj (c # st) S =
     (if c = [] \<or> c \<in> S then reach_loop adj st S
      else reach_loop adj (rev (filter (\<lambda>n. n \<notin> insert c S) (get_targets adj c)) @ st) (insert c S))"
  by pat_completeness auto
termination
proof (relation "measures
    [\<lambda>(adj, st, S). card (fst ` set adj - S), \<lambda>(adj, st, S). length st]", goal_cases)
  case 1
  show ?case by simp
next
  case (2 adj c st S)
  then show ?case by simp
next
  case (3 adj c st S)
  show ?case
  proof (cases "get_targets adj c = []")
    case True
    have "card (fst ` set adj - insert c S) \<le> card (fst ` set adj - S)"
      by (rule card_mono) auto
    with True show ?thesis by auto
  next
    case False
    then have "card (fst ` set adj - insert c S) < card (fst ` set adj - S)"
      using 3 get_targets_key by (intro psubset_card_mono) auto
    then show ?thesis by simp
  qed
qed

lemma reach_loop_sound:
  "reach_loop adj st S \<subseteq> S \<union> (adj_rel adj)\<^sup>* `` set st"
proof (induction adj st S rule: reach_loop.induct)
  case (2 adj c st S)
  show ?case
  proof (cases "c = [] \<or> c \<in> S")
    case True
    with 2 show ?thesis by auto
  next
    case False
    have "(adj_rel adj)\<^sup>* `` set (get_targets adj c) \<subseteq> (adj_rel adj)\<^sup>* `` {c}"
      by (auto intro: converse_rtrancl_into_rtrancl)
    with False 2(2) show ?thesis by (auto dest!: subsetD)
  qed
qed simp

lemma reach_loop_closed:
  assumes "[] \<notin> set st" and "\<And>u. [] \<notin> set (get_targets adj u)"
    and "adj_rel adj `` S \<subseteq> S \<union> set st"
  shows "S \<union> set st \<subseteq> reach_loop adj st S \<and>
    adj_rel adj `` reach_loop adj st S \<subseteq> reach_loop adj st S"
  using assms
proof (induction adj st S rule: reach_loop.induct)
  case (1 adj S)
  then show ?case by simp
next
  case (2 adj c st S)
  show ?case
  proof (cases "c = [] \<or> c \<in> S")
    case True
    with 2(1)[OF True] "2.prems" show ?thesis by auto
  next
    case False
    let ?st = "rev (filter (\<lambda>n. n \<notin> insert c S) (get_targets adj c)) @ st"
    have "[] \<notin> set ?st" using "2.prems"(1,2) by auto
    moreover have "adj_rel adj `` insert c S \<subseteq> insert c S \<union> set ?st"
      using "2.prems"(3) by auto
    ultimately show ?thesis using 2(2)[OF False] "2.prems"(2) False by auto
  qed
qed

text \<open>Started at one node, the loop returns the nodes reachable from it.\<close>

lemma reach_loop_reachable:
  assumes "r \<noteq> []" and "\<And>u. [] \<notin> set (get_targets adj u)"
  shows "reach_loop adj [r] {} = (adj_rel adj)\<^sup>* `` {r}"
proof
  show "reach_loop adj [r] {} \<subseteq> (adj_rel adj)\<^sup>* `` {r}"
    using reach_loop_sound[of adj "[r]" "{}"] by simp
  have c: "{} \<union> set [r] \<subseteq> reach_loop adj [r] {} \<and>
      adj_rel adj `` reach_loop adj [r] {} \<subseteq> reach_loop adj [r] {}"
    using assms by (intro reach_loop_closed) auto
  show "(adj_rel adj)\<^sup>* `` {r} \<subseteq> reach_loop adj [r] {}"
  proof
    fix y assume "y \<in> (adj_rel adj)\<^sup>* `` {r}"
    then have "(r, y) \<in> (adj_rel adj)\<^sup>*" by simp
    then show "y \<in> reach_loop adj [r] {}"
      by (rule closed_rtrancl[rotated]) (use c in auto)
  qed
qed

subsection \<open>Kahn's topological sort\<close>

text \<open>\<open>indegreeByNode.get(n) ?? 0\<close>\<close>

definition indeg_of :: "int jsmap \<Rightarrow> string \<Rightarrow> int" where
  "indeg_of indeg n = or_else (map_of indeg n) 0"

lemma indeg_of_update [simp]:
  "indeg_of (AList.update t v indeg) n = (if n = t then v else indeg_of indeg n)"
  by (simp add: indeg_of_def)

text \<open>The inner loop over the targets of the dequeued node.\<close>

fun relax_targets :: "string list \<Rightarrow> int jsmap \<Rightarrow> string list \<Rightarrow> int jsmap \<times> string list" where
  "relax_targets [] indeg q = (indeg, q)"
| "relax_targets (t # ts) indeg q =
     (let v = indeg_of indeg t - 1
      in relax_targets ts (AList.update t v indeg) (if v = 0 then q @ [t] else q))"

definition positive_keys :: "int jsmap \<Rightarrow> string set" where
  "positive_keys indeg = {k \<in> fst ` set indeg. 0 < indeg_of indeg k}"

lemma finite_positive_keys [simp]: "finite (positive_keys indeg)"
  by (simp add: positive_keys_def)

lemma indeg_of_key: "indeg_of indeg k \<noteq> 0 \<Longrightarrow> k \<in> fst ` set indeg"
  by (auto simp: indeg_of_def or_else_def dom_map_of_conv_image_fst[symmetric] split: option.splits)

lemma positive_keys_iff: "k \<in> positive_keys indeg \<longleftrightarrow> 0 < indeg_of indeg k"
  using indeg_of_key[of indeg k] by (auto simp: positive_keys_def)

lemma relax_targets_measure:
  "relax_targets ts indeg q = (indeg', q') \<Longrightarrow>
     card (positive_keys indeg') + length q' \<le> card (positive_keys indeg) + length q"
proof (induction ts arbitrary: indeg q)
  case (Cons t ts)
  let ?v = "indeg_of indeg t - 1"
  let ?indeg = "AList.update t ?v indeg"
  have ih: "card (positive_keys indeg') + length q' \<le>
      card (positive_keys ?indeg) + length (if ?v = 0 then q @ [t] else q)"
    using Cons.IH[of ?indeg] Cons.prems by (auto simp: Let_def)
  have sub: "positive_keys ?indeg \<subseteq> positive_keys indeg"
    by (auto simp: positive_keys_iff split: if_splits)
  show ?case
  proof (cases "?v = 0")
    case True
    then have "t \<in> positive_keys indeg - positive_keys ?indeg"
      by (simp add: positive_keys_iff)
    with sub have "card (positive_keys ?indeg) < card (positive_keys indeg)"
      by (intro psubset_card_mono) auto
    with ih True show ?thesis by simp
  next
    case False
    with ih card_mono[OF _ sub] show ?thesis by simp
  qed
qed simp

function topo_loop :: "string list jsmap \<Rightarrow> int jsmap \<Rightarrow> string list \<Rightarrow> string list \<Rightarrow> string list" where
  "topo_loop adj indeg [] order = order"
| "topo_loop adj indeg (n # q) order =
     (case relax_targets (get_targets adj n) indeg q of
        (indeg', q') \<Rightarrow> topo_loop adj indeg' q' (order @ [n]))"
  by pat_completeness auto
termination
proof (relation "measure (\<lambda>(adj, indeg, q, order). card (positive_keys indeg) + length q)", goal_cases)
  case 1
  show ?case by simp
next
  case (2 adj indeg n q order indeg' q')
  then show ?case using relax_targets_measure[of "get_targets adj n" indeg q indeg' q'] by simp
qed

text \<open>What one round of the inner loop does to the counters and the queue.\<close>

lemma relax_targets_indeg:
  "relax_targets ts indeg q = (indeg', q') \<Longrightarrow>
     indeg_of indeg' v = indeg_of indeg v - int (count_list ts v)"
  by (induction ts arbitrary: indeg q) (auto simp: Let_def split: if_splits)

lemma relax_targets_queue:
  assumes "relax_targets ts indeg q = (indeg', q')"
  obtains zs where "q' = q @ zs" and "distinct zs"
    and "\<And>v. v \<in> set zs \<longleftrightarrow> 1 \<le> indeg_of indeg v \<and> indeg_of indeg v \<le> int (count_list ts v)"
proof -
  have "\<exists>zs. q' = q @ zs \<and> distinct zs \<and>
      (\<forall>v. v \<in> set zs \<longleftrightarrow> 1 \<le> indeg_of indeg v \<and> indeg_of indeg v \<le> int (count_list ts v))"
    using assms
  proof (induction ts arbitrary: indeg q)
    case (Cons t ts)
    let ?v = "indeg_of indeg t - 1"
    obtain zs where zs: "q' = (if ?v = 0 then q @ [t] else q) @ zs" "distinct zs"
      "\<forall>v. v \<in> set zs \<longleftrightarrow> 1 \<le> indeg_of (AList.update t ?v indeg) v \<and>
         indeg_of (AList.update t ?v indeg) v \<le> int (count_list ts v)"
      using Cons.IH[of "AList.update t ?v indeg"] Cons.prems by (auto simp: Let_def)
    show ?case
      by (rule exI[of _ "(if ?v = 0 then [t] else []) @ zs"]) (use zs in auto)
  qed auto
  then show thesis using that by blast
qed

definition edge_pairs :: "dag_edge list \<Rightarrow> (string \<times> string) list" where
  "edge_pairs es = map (\<lambda>e. (edge_source e, edge_target e)) es"

text \<open>The edges into a node from nodes that are not yet in the order.\<close>

definition pending :: "(string \<times> string) list \<Rightarrow> string list \<Rightarrow> string \<Rightarrow> (string \<times> string) list" where
  "pending E order v = filter (\<lambda>(s, t). t = v \<and> s \<notin> set order) E"

definition before :: "'a list \<Rightarrow> 'a \<Rightarrow> 'a \<Rightarrow> bool" where
  "before xs a b \<longleftrightarrow> (\<exists>us vs ws. xs = us @ a # vs @ b # ws)"

lemma before_append: "before xs a b \<Longrightarrow> before (xs @ ys) a b"
  unfolding before_def by (metis append.assoc append_Cons)

lemma before_snoc: "a \<in> set xs \<Longrightarrow> before (xs @ [b]) a b"
  unfolding before_def by (metis append.assoc append_Cons split_list)

text \<open>The adjacency map holds, per source, the targets in edge order.\<close>

definition targets_of :: "(string \<times> string) list \<Rightarrow> string \<Rightarrow> string list" where
  "targets_of E u = map snd (filter (\<lambda>(s, t). s = u) E)"

lemma length_pending_snoc:
  assumes "n \<notin> set order"
  shows "int (length (pending E (order @ [n]) v)) =
    int (length (pending E order v)) - int (count_list (targets_of E n) v)"
  using assms by (induction E) (auto simp: pending_def targets_of_def)

definition kahn_inv ::
    "string set \<Rightarrow> (string \<times> string) list \<Rightarrow> int jsmap \<Rightarrow> string list \<Rightarrow> string list \<Rightarrow> bool" where
  "kahn_inv V E indeg q order \<longleftrightarrow>
     distinct (order @ q) \<and> set (order @ q) \<subseteq> V \<and>
     (\<forall>v. indeg_of indeg v = int (length (pending E order v))) \<and>
     (\<forall>v \<in> V. v \<in> set (order @ q) \<longleftrightarrow> indeg_of indeg v = 0) \<and>
     (\<forall>(s, t) \<in> set E. t \<in> set order \<longrightarrow> before order s t)"

lemma kahn_inv_step:
  assumes inv: "kahn_inv V E indeg (n # q) order"
    and adj: "get_targets adj n = targets_of E n"
    and E: "set E \<subseteq> V \<times> V"
    and relax: "relax_targets (get_targets adj n) indeg q = (indeg', q')"
  shows "kahn_inv V E indeg' q' (order @ [n])"
proof -
  obtain zs where q': "q' = q @ zs" and dz: "distinct zs"
    and zs: "\<And>v. v \<in> set zs \<longleftrightarrow>
      1 \<le> indeg_of indeg v \<and> indeg_of indeg v \<le> int (count_list (get_targets adj n) v)"
    using relax_targets_queue[OF relax] by blast
  have dist: "distinct (order @ n # q)" and sub: "set (order @ n # q) \<subseteq> V"
    and deg: "\<And>v. indeg_of indeg v = int (length (pending E order v))"
    and zero: "\<And>v. v \<in> V \<Longrightarrow> v \<in> set (order @ n # q) \<longleftrightarrow> indeg_of indeg v = 0"
    and bef: "\<forall>(s, t) \<in> set E. t \<in> set order \<longrightarrow> before order s t"
    using inv by (auto simp: kahn_inv_def)
  have deg': "indeg_of indeg' v = int (length (pending E (order @ [n]) v))" for v
    using relax_targets_indeg[OF relax, of v] deg[of v] length_pending_snoc[of n order E v] dist adj
    by simp
  have zsV: "set zs \<subseteq> V"
  proof
    fix v assume "v \<in> set zs"
    then have "count_list (get_targets adj n) v \<noteq> 0" using zs[of v] by linarith
    then have "v \<in> set (targets_of E n)" using adj by (metis count_list_0_iff)
    then show "v \<in> V" using E by (auto simp: targets_of_def)
  qed
  have new: "set zs \<inter> set (order @ n # q) = {}"
  proof -
    have "indeg_of indeg v \<noteq> 0" if "v \<in> set zs" for v using zs[of v] that by linarith
    with zero zsV show ?thesis by blast
  qed
  have "distinct ((order @ [n]) @ q')" using dist dz new q' by auto
  moreover have "set ((order @ [n]) @ q') \<subseteq> V" using sub zsV q' by auto
  moreover have "v \<in> set ((order @ [n]) @ q') \<longleftrightarrow> indeg_of indeg' v = 0" if "v \<in> V" for v
  proof -
    have ge: "0 \<le> indeg_of indeg' v" using deg'[of v] by simp
    have d0: "0 \<le> indeg_of indeg v" using deg[of v] by simp
    have eq: "indeg_of indeg' v = indeg_of indeg v - int (count_list (get_targets adj n) v)"
      by (rule relax_targets_indeg[OF relax])
    have "v \<in> set zs \<longleftrightarrow> indeg_of indeg v \<noteq> 0 \<and> indeg_of indeg' v = 0"
      using d0 ge eq unfolding zs[of v] by arith
    moreover have "indeg_of indeg v = 0 \<Longrightarrow> indeg_of indeg' v = 0" using ge eq by linarith
    ultimately show ?thesis using zero[OF that] q' by auto
  qed
  moreover have "\<forall>(s, t) \<in> set E. t \<in> set (order @ [n]) \<longrightarrow> before (order @ [n]) s t"
  proof (clarsimp, intro conjI impI)
    fix s t assume st: "(s, t) \<in> set E"
    show "t = n \<Longrightarrow> before (order @ [n]) s n"
    proof -
      assume "t = n"
      have "indeg_of indeg n = 0" using zero[of n] sub by simp
      then have "pending E order n = []" using deg[of n] by simp
      with st \<open>t = n\<close> have "s \<in> set order" by (auto simp: pending_def filter_empty_conv)
      then show ?thesis by (rule before_snoc)
    qed
    show "t \<in> set order \<Longrightarrow> before (order @ [n]) s t"
      using bef st by (auto intro: before_append)
  qed
  ultimately show ?thesis using deg' by (simp add: kahn_inv_def)
qed

lemma kahn_inv_loop:
  assumes "kahn_inv V E indeg q order" and "\<And>n. n \<in> V \<Longrightarrow> get_targets adj n = targets_of E n"
    and "set E \<subseteq> V \<times> V"
  shows "\<exists>indeg'. kahn_inv V E indeg' [] (topo_loop adj indeg q order)"
  using assms
proof (induction adj indeg q order rule: topo_loop.induct)
  case (1 adj indeg order)
  then show ?case by auto
next
  case (2 adj indeg n q order)
  obtain indeg' q' where r: "relax_targets (get_targets adj n) indeg q = (indeg', q')"
    by (rule prod.exhaust)
  have "n \<in> V" using "2.prems"(1) by (auto simp: kahn_inv_def)
  then have "kahn_inv V E indeg' q' (order @ [n])"
    using kahn_inv_step[OF "2.prems"(1) _ "2.prems"(3) r] "2.prems"(2) by simp
  then show ?case
    using "2.IH"[OF r[symmetric]] "2.prems"(2,3) r by simp
qed

text \<open>
  Once the queue is empty, a node left out has an edge from another node left out; in an acyclic
  graph there is no such node.
\<close>

lemma kahn_total:
  assumes inv: "kahn_inv V E indeg [] order" and fin: "finite V" and E: "set E \<subseteq> V \<times> V"
    and ac: "acyclic (set E)"
  shows "set order = V"
proof (rule ccontr)
  assume "set order \<noteq> V"
  then have "V - set order \<noteq> {}" using inv by (auto simp: kahn_inv_def)
  moreover have "wf (set E)" using finite_acyclic_wf[OF _ ac] by simp
  ultimately obtain v where v: "v \<in> V - set order" "\<And>u. (u, v) \<in> set E \<Longrightarrow> u \<notin> V - set order"
    by (meson all_not_in_conv wfE_min)
  then have "pending E order v = []"
    using E by (auto simp: pending_def filter_empty_conv)
  then have "v \<in> set order" using inv v(1) by (auto simp: kahn_inv_def)
  with v(1) show False by simp
qed

subsection \<open>The validator\<close>

text \<open>The first loop of \<open>validateDag\<close>: node ids are not blank and not repeated.\<close>

fun index_nodes :: "dag_node list \<Rightarrow> dag_node jsmap \<Rightarrow> graph_error + dag_node jsmap" where
  "index_nodes [] m = Inr m"
| "index_nodes (n # ns) m =
     (if js_trim (node_id n) = [] then Inl EmptyNodeId
      else if map_of m (node_id n) \<noteq> None then Inl (DuplicateNodeId (node_id n))
      else index_nodes ns (AList.update (node_id n) n m))"

text \<open>The two maps get an empty entry per node.\<close>

fun init_maps :: "dag_node list \<Rightarrow> string list jsmap \<times> int jsmap \<Rightarrow> string list jsmap \<times> int jsmap" where
  "init_maps [] maps = maps"
| "init_maps (n # ns) (adj, indeg) =
     init_maps ns (AList.update (node_id n) [] adj, AList.update (node_id n) 0 indeg)"

definition assert_edge_endpoints :: "dag_node jsmap \<Rightarrow> dag_edge \<Rightarrow> graph_error option" where
  "assert_edge_endpoints m e =
     (if map_of m (edge_source e) = None then Some (MissingSource (edge_source e))
      else if map_of m (edge_target e) = None then Some (MissingTarget (edge_target e))
      else None)"

fun add_edges ::
    "dag_node jsmap \<Rightarrow> dag_edge list \<Rightarrow> string list jsmap \<times> int jsmap \<Rightarrow>
       graph_error + string list jsmap \<times> int jsmap" where
  "add_edges m [] maps = Inr maps"
| "add_edges m (e # es) (adj, indeg) =
     (case assert_edge_endpoints m e of
        Some err \<Rightarrow> Inl err
      | None \<Rightarrow>
          if edge_source e = edge_target e
          then Inl (CyclicDependency [edge_source e, edge_target e])
          else add_edges m es
            (AList.update (edge_source e) (get_targets adj (edge_source e) @ [edge_target e]) adj,
             AList.update (edge_target e) (indeg_of indeg (edge_target e) + 1) indeg))"

definition assert_no_isolated_nodes :: "dag_node list \<Rightarrow> dag_edge list \<Rightarrow> graph_error option" where
  "assert_no_isolated_nodes ns es =
     (if length ns \<le> 1 then None
      else let connected = edge_source ` set es \<union> edge_target ` set es;
               isolated = map node_id (filter (\<lambda>n. node_id n \<notin> connected) ns)
           in if isolated = [] then None else Some (IsolatedNodes isolated))"

definition assert_connected_from_root ::
    "string \<Rightarrow> string list jsmap \<Rightarrow> dag_node list \<Rightarrow> graph_error option" where
  "assert_connected_from_root root_id adj ns =
     (let reachable = reach_loop adj [root_id] {}
      in if card reachable = length ns then None
         else Some (UnreachableNodes root_id
           (map node_id (filter (\<lambda>n. node_id n \<notin> reachable) ns))))"

definition topological_sort ::
    "dag_node list \<Rightarrow> string list jsmap \<Rightarrow> int jsmap \<Rightarrow> graph_error + string list" where
  "topological_sort ns adj indeg =
     (let queue = map node_id (filter (\<lambda>n. indeg_of indeg (node_id n) = 0) ns);
          order = topo_loop adj indeg queue []
      in if length order = length ns then Inr order else Inl NotTopological)"

definition validate_dag :: "dag_options \<Rightarrow> dag_node list \<Rightarrow> dag_edge list \<Rightarrow> graph_error + dag_result" where
  "validate_dag opts ns es =
     (let single = or_else (require_single_trigger opts) True;
          connected = or_else (require_connected opts) True
      in if ns = [] then Inl EmptyGraph
         else case index_nodes ns [] of Inl e \<Rightarrow> Inl e | Inr by_id \<Rightarrow>
         case add_edges by_id es (init_maps ns ([], [])) of Inl e \<Rightarrow> Inl e | Inr (adj, indeg) \<Rightarrow>
         case assert_no_isolated_nodes ns es of Some e \<Rightarrow> Inl e | None \<Rightarrow>
         case find_cycle adj (map node_id ns) {} {} of Some c \<Rightarrow> Inl (CyclicDependency c) | None \<Rightarrow>
         let roots = map node_id (filter (\<lambda>n. indeg_of indeg (node_id n) = 0) ns)
         in if roots = [] then Inl NoRoot
            else if single \<and> length roots \<noteq> 1 then Inl (MultipleRoots roots)
            else case (if connected then assert_connected_from_root (hd roots) adj ns else None) of
                   Some e \<Rightarrow> Inl e
                 | None \<Rightarrow>
                     (case topological_sort ns adj indeg of
                        Inl e \<Rightarrow> Inl e
                      | Inr order \<Rightarrow>
                          Inr \<lparr>root_node_ids = roots, topological_order = order\<rparr>))"

text \<open>What a valid workflow graph is, with no reference to how it is checked.\<close>

definition edge_rel :: "dag_edge list \<Rightarrow> (string \<times> string) set" where
  "edge_rel es = set (edge_pairs es)"

definition graph_roots :: "dag_node list \<Rightarrow> dag_edge list \<Rightarrow> string list" where
  "graph_roots ns es = filter (\<lambda>v. v \<notin> edge_target ` set es) (map node_id ns)"

definition dag_ok :: "dag_options \<Rightarrow> dag_node list \<Rightarrow> dag_edge list \<Rightarrow> bool" where
  "dag_ok opts ns es \<longleftrightarrow>
     ns \<noteq> [] \<and> (\<forall>n \<in> set ns. js_trim (node_id n) \<noteq> []) \<and> distinct (map node_id ns) \<and>
     edge_rel es \<subseteq> set (map node_id ns) \<times> set (map node_id ns) \<and> acyclic (edge_rel es) \<and>
     (1 < length ns \<longrightarrow> set (map node_id ns) \<subseteq> edge_source ` set es \<union> edge_target ` set es) \<and>
     (or_else (require_single_trigger opts) True \<longrightarrow> length (graph_roots ns es) = 1) \<and>
     (or_else (require_connected opts) True \<longrightarrow>
        set (map node_id ns) \<subseteq> (edge_rel es)\<^sup>* `` {hd (graph_roots ns es)})"

subsection \<open>The validator accepts exactly the valid graphs\<close>

lemma index_nodes_Inr:
  "index_nodes ns m = Inr m' \<Longrightarrow>
     (\<forall>n \<in> set ns. js_trim (node_id n) \<noteq> []) \<and> distinct (map node_id ns) \<and>
     dom (map_of m) \<inter> node_id ` set ns = {} \<and>
     dom (map_of m') = dom (map_of m) \<union> node_id ` set ns"
proof (induction ns arbitrary: m)
  case (Cons n ns)
  let ?m = "AList.update (node_id n) n m"
  have n: "js_trim (node_id n) \<noteq> []" "node_id n \<notin> dom (map_of m)"
    and rest: "index_nodes ns ?m = Inr m'"
    using Cons.prems by (auto split: if_splits)
  show ?case using Cons.IH[OF rest, unfolded dom_map_of_update] n by auto
qed simp

lemma index_nodes_complete:
  "(\<forall>n \<in> set ns. js_trim (node_id n) \<noteq> []) \<Longrightarrow> distinct (map node_id ns) \<Longrightarrow>
     dom (map_of m) \<inter> node_id ` set ns = {} \<Longrightarrow> \<exists>m'. index_nodes ns m = Inr m'"
proof (induction ns arbitrary: m)
  case (Cons n ns)
  let ?m = "AList.update (node_id n) n m"
  have "dom (map_of ?m) \<inter> node_id ` set ns = {}"
    using Cons.prems by auto
  then obtain m' where "index_nodes ns ?m = Inr m'"
    using Cons.IH[of ?m] Cons.prems(1,2) by (metis distinct.simps(2) list.set_intros(2) list.simps(9))
  moreover have "map_of m (node_id n) = None" "js_trim (node_id n) \<noteq> []"
    using Cons.prems by auto
  ultimately show ?case by simp
qed simp

lemma get_targets_update [simp]:
  "get_targets (AList.update u ts adj) v = (if v = u then ts else get_targets adj v)"
  by (simp add: get_targets_def)

lemma init_maps_empty:
  assumes "init_maps ns (adj, indeg) = (adj', indeg')"
    and "\<And>v. get_targets adj v = []" and "\<And>v. indeg_of indeg v = 0"
  shows "get_targets adj' v = []" and "indeg_of indeg' v = 0"
  using assms by (induction ns arbitrary: adj indeg) auto

definition in_edges :: "dag_edge list \<Rightarrow> string \<Rightarrow> dag_edge list" where
  "in_edges es v = filter (\<lambda>e. edge_target e = v) es"

lemma add_edges_Inr:
  "add_edges m es (adj, indeg) = Inr (adj', indeg') \<Longrightarrow>
     (\<forall>e \<in> set es. edge_source e \<in> dom (map_of m) \<and> edge_target e \<in> dom (map_of m) \<and>
        edge_source e \<noteq> edge_target e) \<and>
     (\<forall>u. get_targets adj' u = get_targets adj u @ targets_of (edge_pairs es) u) \<and>
     (\<forall>v. indeg_of indeg' v = indeg_of indeg v + int (length (in_edges es v)))"
proof (induction es arbitrary: adj indeg)
  case Nil
  then show ?case by (simp add: targets_of_def edge_pairs_def in_edges_def)
next
  case (Cons e es)
  let ?adj = "AList.update (edge_source e) (get_targets adj (edge_source e) @ [edge_target e]) adj"
  let ?indeg = "AList.update (edge_target e) (indeg_of indeg (edge_target e) + 1) indeg"
  have ends: "edge_source e \<in> dom (map_of m)" "edge_target e \<in> dom (map_of m)"
      "edge_source e \<noteq> edge_target e" and rest: "add_edges m es (?adj, ?indeg) = Inr (adj', indeg')"
    using Cons.prems by (auto simp: assert_edge_endpoints_def split: if_splits)
  from Cons.IH[OF rest] ends show ?case
    by (auto simp: targets_of_def edge_pairs_def in_edges_def)
qed

lemma add_edges_complete:
  "(\<forall>e \<in> set es. edge_source e \<in> dom (map_of m) \<and> edge_target e \<in> dom (map_of m) \<and>
      edge_source e \<noteq> edge_target e) \<Longrightarrow> \<exists>maps'. add_edges m es maps = Inr maps'"
proof (induction es arbitrary: maps)
  case (Cons e es)
  then show ?case
    by (cases maps) (auto simp: assert_edge_endpoints_def)
qed simp

lemma in_edges_Nil_iff: "in_edges es v = [] \<longleftrightarrow> v \<notin> edge_target ` set es"
  by (auto simp: in_edges_def filter_empty_conv)

lemma targets_of_iff: "v \<in> set (targets_of E u) \<longleftrightarrow> (u, v) \<in> set E"
  by (force simp: targets_of_def)

lemma length_pending_Nil: "length (pending (edge_pairs es) [] v) = length (in_edges es v)"
  by (induction es) (auto simp: pending_def edge_pairs_def in_edges_def)

lemma acyclic_not_closed:
  assumes "acyclic R" and "2 \<le> length c" and "hd c = last c" and "successively (\<lambda>u v. (u, v) \<in> R) c"
  shows False
proof -
  obtain a xs where c: "c = a # xs" "xs \<noteq> []"
    using assms(2) by (cases c rule: list.exhaust; cases "tl c") auto
  have "(a, last (a # xs)) \<in> R\<^sup>+" if "successively (\<lambda>u v. (u, v) \<in> R) (a # xs)" "xs \<noteq> []" for a xs
    using that
  proof (induction xs arbitrary: a)
    case (Cons b xs)
    show ?case
    proof (cases "xs = []")
      case True
      with Cons.prems show ?thesis by auto
    next
      case False
      with Cons have "(b, last (b # xs)) \<in> R\<^sup>+" and "(a, b) \<in> R" by auto
      with False show ?thesis by (auto intro: trancl_into_trancl2)
    qed
  qed simp
  from this[of a xs] assms c show False by (auto simp: acyclic_def)
qed

lemma acyclic_iff_find_cycle:
  assumes rel: "adj_rel adj = R" and R: "R \<subseteq> set ns \<times> set ns"
  shows "find_cycle adj ns {} {} = None \<longleftrightarrow> acyclic R"
proof
  assume none: "find_cycle adj ns {} {} = None"
  then obtain vd where vd: "cleared adj {} vd" "set ns \<subseteq> vd"
    using find_cycle_complete[OF none] by (auto simp: cleared_def)
  show "acyclic R"
  proof (rule acyclicI, intro allI notI)
    fix x assume x: "(x, x) \<in> R\<^sup>+"
    then obtain y where "(x, y) \<in> R" by (meson tranclD)
    with R vd(2) have "x \<in> vd" by auto
    with vd(1) x rel show False by (auto simp: cleared_def)
  qed
next
  assume ac: "acyclic R"
  show "find_cycle adj ns {} {} = None"
  proof (cases "find_cycle adj ns {} {}")
    case (Some c)
    then have "cycle_path adj c" by (rule find_cycle_sound)
    then have "successively (\<lambda>u v. (u, v) \<in> R) c" "2 \<le> length c" "hd c = last c"
      using rel by (auto simp: cycle_path_def adj_rel_def)
    with acyclic_not_closed[OF ac] show ?thesis by blast
  qed simp
qed

text \<open>The facts the two maps satisfy once both loops have run.\<close>

definition maps_ok ::
    "dag_node list \<Rightarrow> dag_edge list \<Rightarrow> string list jsmap \<Rightarrow> int jsmap \<Rightarrow> bool" where
  "maps_ok ns es adj indeg \<longleftrightarrow>
     (\<forall>n \<in> set ns. js_trim (node_id n) \<noteq> []) \<and> distinct (map node_id ns) \<and>
     edge_rel es \<subseteq> set (map node_id ns) \<times> set (map node_id ns) \<and>
     (\<forall>e \<in> set es. edge_source e \<noteq> edge_target e) \<and>
     (\<forall>u. get_targets adj u = targets_of (edge_pairs es) u) \<and>
     (\<forall>v. indeg_of indeg v = int (length (in_edges es v)))"

lemma maps_ok_built:
  assumes "index_nodes ns [] = Inr m" and "add_edges m es (init_maps ns ([], [])) = Inr (adj, indeg)"
  shows "maps_ok ns es adj indeg"
proof -
  obtain adj0 indeg0 where i: "init_maps ns ([], []) = (adj0, indeg0)"
    by (rule prod.exhaust)
  have e: "get_targets adj0 v = []" "indeg_of indeg0 v = 0" for v
    using init_maps_empty[OF i] by (simp_all add: get_targets_def indeg_of_def)
  from add_edges_Inr[of m es adj0 indeg0 adj indeg] assms(2) i e index_nodes_Inr[OF assms(1)]
  show ?thesis
    by (auto simp: maps_ok_def edge_rel_def edge_pairs_def dest!: bspec)
qed

lemma maps_built:
  assumes "\<forall>n \<in> set ns. js_trim (node_id n) \<noteq> []" and "distinct (map node_id ns)"
    and "edge_rel es \<subseteq> set (map node_id ns) \<times> set (map node_id ns)"
    and "\<forall>e \<in> set es. edge_source e \<noteq> edge_target e"
  obtains m adj indeg where "index_nodes ns [] = Inr m"
    and "add_edges m es (init_maps ns ([], [])) = Inr (adj, indeg)"
proof -
  obtain m where m: "index_nodes ns [] = Inr m"
    using index_nodes_complete[of ns "[]"] assms(1,2) by auto
  then have dom: "dom (map_of m) = node_id ` set ns" using index_nodes_Inr[OF m] by simp
  have "\<forall>e \<in> set es. edge_source e \<in> dom (map_of m) \<and> edge_target e \<in> dom (map_of m) \<and>
      edge_source e \<noteq> edge_target e"
    using assms(3,4) unfolding dom by (auto simp: edge_rel_def edge_pairs_def)
  from add_edges_complete[OF this, of "init_maps ns ([], [])"]
  obtain adj indeg where "add_edges m es (init_maps ns ([], [])) = Inr (adj, indeg)" by fastforce
  with m that show thesis by blast
qed

lemma maps_adj_rel:
  assumes ok: "maps_ok ns es adj indeg"
  shows "adj_rel adj = edge_rel es"
  using ok by (auto simp: maps_ok_def adj_rel_def edge_rel_def targets_of_iff)

lemma maps_roots:
  assumes ok: "maps_ok ns es adj indeg"
  shows "map node_id (filter (\<lambda>n. indeg_of indeg (node_id n) = 0) ns) = graph_roots ns es"
  using ok unfolding graph_roots_def filter_map
  by (simp add: maps_ok_def in_edges_Nil_iff comp_def)

lemma maps_roots_Nil:
  assumes "maps_ok ns es adj indeg"
  shows "filter (\<lambda>n. indeg_of indeg (node_id n) = 0) ns = [] \<longleftrightarrow> graph_roots ns es = []"
  unfolding maps_roots[OF assms, symmetric] by simp

lemma maps_find_cycle:
  assumes ok: "maps_ok ns es adj indeg"
  shows "find_cycle adj (map node_id ns) {} {} = None \<longleftrightarrow> acyclic (edge_rel es)"
  using acyclic_iff_find_cycle[OF maps_adj_rel[OF ok], of "map node_id ns"] ok
  by (simp add: maps_ok_def)

lemma maps_connected:
  assumes ok: "maps_ok ns es adj indeg" and r: "r \<in> set (map node_id ns)"
  shows "assert_connected_from_root r adj ns = None \<longleftrightarrow>
    set (map node_id ns) \<subseteq> (edge_rel es)\<^sup>* `` {r}"
proof -
  let ?V = "set (map node_id ns)" and ?R = "(edge_rel es)\<^sup>* `` {r}"
  have blank: "[] \<notin> ?V" using ok by (auto simp: maps_ok_def js_trim_def)
  have sub: "edge_rel es \<subseteq> ?V \<times> ?V" and dist: "distinct (map node_id ns)"
    using ok by (auto simp: maps_ok_def)
  have "[] \<notin> set (get_targets adj u)" for u
    using blank sub maps_adj_rel[OF ok] by (auto simp flip: adj_rel_iff)
  moreover have "r \<noteq> []" using r blank by blast
  ultimately have eq: "reach_loop adj [r] {} = ?R"
    using reach_loop_reachable[of r adj] maps_adj_rel[OF ok] by simp
  have "edge_rel es `` ?V \<subseteq> ?V" using sub by auto
  then have RV: "?R \<subseteq> ?V" using closed_rtrancl[of "edge_rel es" ?V r] r by auto
  have "card ?V = length ns" using distinct_card[OF dist] by simp
  then have "card ?R = length ns \<longleftrightarrow> ?V \<subseteq> ?R"
    using card_subset_eq[OF _ RV] RV by (metis List.finite_set subset_antisym subset_refl)
  then show ?thesis unfolding assert_connected_from_root_def Let_def eq by simp
qed

lemma maps_topological_sort:
  assumes ok: "maps_ok ns es adj indeg" and ac: "acyclic (edge_rel es)"
  obtains order where "topological_sort ns adj indeg = Inr order"
    and "distinct order" and "set order = set (map node_id ns)"
    and "\<forall>e \<in> set es. before order (edge_source e) (edge_target e)"
proof -
  let ?V = "set (map node_id ns)" and ?E = "edge_pairs es"
  let ?q = "map node_id (filter (\<lambda>n. indeg_of indeg (node_id n) = 0) ns)"
  have dist: "distinct (map node_id ns)" and sub: "set ?E \<subseteq> ?V \<times> ?V"
    using ok by (auto simp: maps_ok_def edge_rel_def)
  have start: "kahn_inv ?V ?E indeg ?q []"
    using ok dist unfolding kahn_inv_def
    by (auto simp: maps_ok_def length_pending_Nil distinct_map inj_on_def)
  have "get_targets adj n = targets_of ?E n" for n using ok by (simp add: maps_ok_def)
  from kahn_inv_loop[OF start this sub]
  obtain indeg' where fin: "kahn_inv ?V ?E indeg' [] (topo_loop adj indeg ?q [])" ..
  define order where "order = topo_loop adj indeg ?q []"
  have all: "set order = ?V"
    using kahn_total[OF fin _ sub] ac by (simp add: order_def edge_rel_def)
  moreover have do: "distinct order" using fin by (simp add: kahn_inv_def order_def)
  moreover have "length order = length ns"
    using all do dist distinct_card by (metis length_map)
  moreover have "\<forall>e \<in> set es. before order (edge_source e) (edge_target e)"
  proof
    fix e assume "e \<in> set es"
    then have st: "(edge_source e, edge_target e) \<in> set ?E" by (auto simp: edge_pairs_def)
    with sub all have "edge_target e \<in> set order" by auto
    with fin st show "before order (edge_source e) (edge_target e)"
      by (auto simp: kahn_inv_def order_def)
  qed
  ultimately show thesis
    using that[of order] by (simp add: topological_sort_def order_def Let_def)
qed

text \<open>
  The graph is accepted exactly when it is valid: no valid canvas is refused, and in particular
  the last check, \<open>order.length !== nodes.length\<close>, never fires.
\<close>

lemma edge_ends_in_order:
  assumes "acyclic (edge_rel es)"
  shows "\<forall>e \<in> set es. edge_source e \<noteq> edge_target e"
  using assms by (force simp: edge_rel_def edge_pairs_def acyclic_def)

lemma graph_roots_sub: "set (graph_roots ns es) \<subseteq> set (map node_id ns)"
  by (auto simp: graph_roots_def)

lemma acyclic_has_root:
  assumes "acyclic (edge_rel es)" and "ns \<noteq> []"
    and "edge_rel es \<subseteq> set (map node_id ns) \<times> set (map node_id ns)"
  shows "graph_roots ns es \<noteq> []"
proof -
  have "wf (edge_rel es)" using assms(1) by (intro finite_acyclic_wf) (simp_all add: edge_rel_def)
  moreover have "node_id (hd ns) \<in> set (map node_id ns)" using assms(2) by simp
  ultimately obtain v where v: "v \<in> set (map node_id ns)"
      "\<forall>u. (u, v) \<in> edge_rel es \<longrightarrow> u \<notin> set (map node_id ns)"
    using wf_eq_minimal[of "edge_rel es"] by blast
  have "v \<notin> edge_target ` set es"
  proof
    assume "v \<in> edge_target ` set es"
    then obtain u where "(u, v) \<in> edge_rel es" by (auto simp: edge_rel_def edge_pairs_def)
    with assms(3) v(2) show False by blast
  qed
  with v(1) have "v \<in> set (graph_roots ns es)" by (simp add: graph_roots_def)
  then show ?thesis by force
qed

lemma isolated_iff:
  "assert_no_isolated_nodes ns es = None \<longleftrightarrow>
     (1 < length ns \<longrightarrow> set (map node_id ns) \<subseteq> edge_source ` set es \<union> edge_target ` set es)"
  by (auto simp: assert_no_isolated_nodes_def Let_def filter_empty_conv)

lemma validate_dag_complete:
  assumes "dag_ok opts ns es"
  shows "\<exists>r. validate_dag opts ns es = Inr r"
proof -
  have ne: "ns \<noteq> []" and pre: "\<forall>n \<in> set ns. js_trim (node_id n) \<noteq> []" "distinct (map node_id ns)"
      "edge_rel es \<subseteq> set (map node_id ns) \<times> set (map node_id ns)"
    and ac: "acyclic (edge_rel es)" and iso: "assert_no_isolated_nodes ns es = None"
    using assms by (auto simp: dag_ok_def isolated_iff)
  obtain m adj indeg where m: "index_nodes ns [] = Inr m"
      and e: "add_edges m es (init_maps ns ([], [])) = Inr (adj, indeg)"
    using maps_built[OF pre edge_ends_in_order[OF ac]] .
  have ok: "maps_ok ns es adj indeg" by (rule maps_ok_built[OF m e])
  have roots: "graph_roots ns es \<noteq> []" by (rule acyclic_has_root[OF ac ne pre(3)])
  then have "hd (graph_roots ns es) \<in> set (map node_id ns)"
    using graph_roots_sub[of ns es] hd_in_set by blast
  from maps_connected[OF ok this] assms
  have conn: "or_else (require_connected opts) True \<Longrightarrow>
      assert_connected_from_root (hd (graph_roots ns es)) adj ns = None"
    by (auto simp: dag_ok_def)
  obtain order where "topological_sort ns adj indeg = Inr order"
    using maps_topological_sort[OF ok ac] .
  moreover have "find_cycle adj (map node_id ns) {} {} = None"
    using ac maps_find_cycle[OF ok] by simp
  ultimately show ?thesis
    using m e iso conn roots ne assms
    by (simp add: validate_dag_def maps_roots[OF ok] maps_roots_Nil[OF ok] ac Let_def dag_ok_def)
qed

text \<open>The intermediate values of a run that succeeds.\<close>

lemma validate_dag_InrD:
  assumes "validate_dag opts ns es = Inr r"
  obtains m adj indeg where "index_nodes ns [] = Inr m"
    and "add_edges m es (init_maps ns ([], [])) = Inr (adj, indeg)"
    and "ns \<noteq> []" and "assert_no_isolated_nodes ns es = None" and "acyclic (edge_rel es)"
    and "root_node_ids r = graph_roots ns es" and "graph_roots ns es \<noteq> []"
    and "or_else (require_single_trigger opts) True \<longrightarrow> length (graph_roots ns es) = 1"
    and "or_else (require_connected opts) True \<longrightarrow>
      assert_connected_from_root (hd (graph_roots ns es)) adj ns = None"
    and "topological_sort ns adj indeg = Inr (topological_order r)"
proof -
  from assms obtain m where m: "index_nodes ns [] = Inr m" and ne: "ns \<noteq> []"
    by (auto simp: validate_dag_def Let_def split: if_splits sum.splits)
  from assms m obtain adj indeg where e: "add_edges m es (init_maps ns ([], [])) = Inr (adj, indeg)"
    by (auto simp: validate_dag_def Let_def split: if_splits sum.splits)
  have ok: "maps_ok ns es adj indeg" by (rule maps_ok_built[OF m e])
  have iso: "assert_no_isolated_nodes ns es = None" and cyc: "find_cycle adj (map node_id ns) {} {} = None"
    using assms m e ne by (auto simp: validate_dag_def Let_def split: option.splits)
  have ac: "acyclic (edge_rel es)" using cyc maps_find_cycle[OF ok] by simp
  show thesis
    using assms m e ne iso cyc ac
    by (intro that[OF m e])
      (auto simp: validate_dag_def Let_def maps_roots[OF ok] maps_roots_Nil[OF ok] split: if_splits sum.splits option.splits)
qed

lemma validate_dag_sound:
  assumes "validate_dag opts ns es = Inr r"
  shows "dag_ok opts ns es"
proof -
  obtain m adj indeg where m: "index_nodes ns [] = Inr m"
      and e: "add_edges m es (init_maps ns ([], [])) = Inr (adj, indeg)" and ne: "ns \<noteq> []"
      and iso: "assert_no_isolated_nodes ns es = None" and ac: "acyclic (edge_rel es)"
      and roots: "graph_roots ns es \<noteq> []"
        "or_else (require_single_trigger opts) True \<longrightarrow> length (graph_roots ns es) = 1"
      and conn: "or_else (require_connected opts) True \<longrightarrow>
        assert_connected_from_root (hd (graph_roots ns es)) adj ns = None"
    using validate_dag_InrD[OF assms] .
  have ok: "maps_ok ns es adj indeg" by (rule maps_ok_built[OF m e])
  have "hd (graph_roots ns es) \<in> set (map node_id ns)"
    using graph_roots_sub[of ns es] hd_in_set[OF roots(1)] by blast
  with maps_connected[OF ok] conn ok ne iso ac roots show ?thesis
    by (simp add: dag_ok_def maps_ok_def isolated_iff)
qed

lemma add_edges_cycle:
  "add_edges m es maps = Inl (CyclicDependency c) \<Longrightarrow>
     \<exists>e \<in> set es. edge_source e = edge_target e \<and> c = [edge_source e, edge_target e]"
proof (induction es arbitrary: maps)
  case (Cons e es)
  then show ?case
    by (cases maps) (auto simp: assert_edge_endpoints_def split: if_splits)
qed simp

lemma index_nodes_no_cycle: "index_nodes ns m \<noteq> Inl (CyclicDependency c)"
  by (induction ns arbitrary: m) auto

lemma cycle_path_edges:
  assumes "maps_ok ns es adj indeg" and "cycle_path adj c"
  shows "2 \<le> length c \<and> hd c = last c \<and> successively (\<lambda>u v. (u, v) \<in> edge_rel es) c"
  using assms maps_adj_rel[OF assms(1)]
  by (auto simp: cycle_path_def simp flip: adj_rel_iff)

lemma validate_dag_cycle:
  assumes "validate_dag opts ns es = Inl (CyclicDependency c)"
  shows "2 \<le> length c \<and> hd c = last c \<and> successively (\<lambda>u v. (u, v) \<in> edge_rel es) c"
proof -
  obtain m where m: "index_nodes ns [] = Inr m"
    using assms index_nodes_no_cycle[of ns "[]" c]
    by (auto simp: validate_dag_def Let_def split: if_splits sum.splits)
  show ?thesis
  proof (cases "add_edges m es (init_maps ns ([], []))")
    case (Inl err)
    then have "err = CyclicDependency c"
      using assms m by (auto simp: validate_dag_def Let_def split: if_splits)
    with Inl have "add_edges m es (init_maps ns ([], [])) = Inl (CyclicDependency c)" by simp
    then obtain e where "e \<in> set es" "edge_source e = edge_target e"
        "c = [edge_source e, edge_target e]"
      using add_edges_cycle[of m es "init_maps ns ([], [])" c] by auto
    then show ?thesis by (force simp: edge_rel_def edge_pairs_def)
  next
    case (Inr maps)
    then obtain adj indeg where e: "add_edges m es (init_maps ns ([], [])) = Inr (adj, indeg)"
      by (cases maps) auto
    have "find_cycle adj (map node_id ns) {} {} = Some c"
      using assms m e
      by (auto simp: validate_dag_def Let_def topological_sort_def assert_no_isolated_nodes_def
          assert_connected_from_root_def split: if_splits option.splits)
    then show ?thesis
      using cycle_path_edges[OF maps_ok_built[OF m e]] find_cycle_sound by blast
  qed
qed

subsection \<open>Properties\<close>

text \<open>
  Property C38. \<open>validateDag\<close> accepts a canvas exactly when it is a valid workflow graph: at
  least one node, ids not blank and distinct, edges between existing nodes, no cycle, no isolated
  node, one root (unless \<open>requireSingleTrigger\<close> is off) and every node reachable from it
  (unless \<open>requireConnected\<close> is off).
\<close>

theorem validate_dag_accepts_iff: "(\<exists>r. validate_dag opts ns es = Inr r) = dag_ok opts ns es"
  using validate_dag_complete validate_dag_sound by blast

text \<open>
  The order \<open>validateDag\<close> returns lists every node exactly once, and the source of
  every edge stands before its target; the roots it returns are the nodes no edge enters.
\<close>

theorem validate_dag_topological:
  assumes "validate_dag opts ns es = Inr r"
  shows "distinct (topological_order r) \<and>
    set (topological_order r) = set (map node_id ns) \<and>
    (\<forall>e \<in> set es. before (topological_order r) (edge_source e) (edge_target e)) \<and>
    root_node_ids r = graph_roots ns es"
proof -
  obtain m adj indeg where m: "index_nodes ns [] = Inr m"
      and e: "add_edges m es (init_maps ns ([], [])) = Inr (adj, indeg)"
      and ac: "acyclic (edge_rel es)" and roots: "root_node_ids r = graph_roots ns es"
      and topo: "topological_sort ns adj indeg = Inr (topological_order r)"
    using validate_dag_InrD[OF assms] .
  obtain order where "topological_sort ns adj indeg = Inr order" and o: "distinct order"
      "set order = set (map node_id ns)"
      "\<forall>e \<in> set es. before order (edge_source e) (edge_target e)"
    using maps_topological_sort[OF maps_ok_built[OF m e] ac] .
  with topo have "order = topological_order r" by simp
  with o roots show ?thesis by auto
qed

definition sample_node :: "string \<Rightarrow> dag_node" where
  "sample_node i = \<lparr>node_id = i, node_is_trigger = None, node_type = None\<rparr>"

definition sample_edge :: "string \<Rightarrow> string \<Rightarrow> dag_edge" where
  "sample_edge a b = \<lparr>edge_route = None, edge_source = a, edge_target = b\<rparr>"

definition default_options :: dag_options where
  "default_options = \<lparr>require_connected = None, require_single_trigger = None\<rparr>"

theorem validate_dag_topological_witness:
  "\<exists>r. validate_dag default_options [sample_node ''b'', sample_node ''a'', sample_node ''c'']
      [sample_edge ''a'' ''b'', sample_edge ''b'' ''c''] = Inr r \<and>
    before (topological_order r) ''b'' ''c''"
proof -
  let ?ns = "[sample_node ''b'', sample_node ''a'', sample_node ''c'']"
  let ?es = "[sample_edge ''a'' ''b'', sample_edge ''b'' ''c'']"
  let ?r = "\<lparr>root_node_ids = [''a''], topological_order = [''a'', ''b'', ''c'']\<rparr>"
  have v: "validate_dag default_options ?ns ?es = Inr ?r" by code_simp
  from validate_dag_topological[OF v] have "before (topological_order ?r) ''b'' ''c''"
    by (simp add: sample_edge_def)
  with v show ?thesis by blast
qed

text \<open>
  When \<open>validateDag\<close> refuses a canvas with a \<open>CyclicDependencyError\<close>, the path
  the error carries is a cycle of the canvas: it has at least two entries, ends where it starts
  and follows edges.
\<close>

theorem validate_dag_cycle_real:
  assumes "validate_dag opts ns es = Inl (CyclicDependency c)"
  shows "2 \<le> length c \<and> hd c = last c \<and> successively (\<lambda>u v. (u, v) \<in> edge_rel es) c"
  using validate_dag_cycle[OF assms] .

theorem validate_dag_cycle_real_witness:
  "validate_dag default_options [sample_node ''a'', sample_node ''b'', sample_node ''c'']
     [sample_edge ''a'' ''b'', sample_edge ''b'' ''c'', sample_edge ''c'' ''b''] =
       Inl (CyclicDependency [''b'', ''c'', ''b'']) \<and>
   hd [''b'', ''c'', ''b''] = last [''b'', ''c'', ''b'']"
proof -
  let ?ns = "[sample_node ''a'', sample_node ''b'', sample_node ''c'']"
  let ?es = "[sample_edge ''a'' ''b'', sample_edge ''b'' ''c'', sample_edge ''c'' ''b'']"
  have v: "validate_dag default_options ?ns ?es = Inl (CyclicDependency [''b'', ''c'', ''b''])"
    by code_simp
  with validate_dag_cycle_real[OF v] show ?thesis by blast
qed

end
