(* ===== verification/PolicyEngine.thy ===== *)
theory PolicyEngine
  imports JsText
begin

text \<open>
  \<open>packages/agents-core/src/policy/engine.ts\<close>: the rules that decide what an agent may do, the
  templates a tenant starts from and the in-memory store the administration routes use.

  The lemmas show what a wildcard pattern matches, that a deny rule wins over every allow rule
  wherever it stands, that no rule of another tenant or agent changes a decision, and what each
  template grants.
\<close>

subsection \<open>Rules\<close>

datatype policy_effect = Allow | Deny

record policy_rule =
  rule_action :: string
  rule_agent_id :: "string option"
  rule_effect :: policy_effect
  rule_enabled :: "bool option"
  rule_id :: string
  rule_reason :: "string option"
  rule_tenant_id :: "string option"

record policy_result =
  granted :: bool
  matched_rule_id :: "string option"
  policy_reason :: string

subsection \<open>Action patterns\<close>

text \<open>
  \<open>matchesAction\<close> escapes every special character of the pattern and turns each \<open>*\<close> into
  \<open>.*\<close>; in JavaScript \<open>.\<close> stands for any character but a line terminator.
\<close>

definition line_terminator :: "char \<Rightarrow> bool" where
  "line_terminator c \<longleftrightarrow> of_char c = (10 :: nat) \<or> of_char c = (13 :: nat)"

fun regex_test :: "string \<Rightarrow> string \<Rightarrow> bool" where
  "regex_test [] s = (s = [])"
| "regex_test (p # ps) [] = (p = CHR ''*'' \<and> regex_test ps [])"
| "regex_test (p # ps) (c # s) =
     (if p = CHR ''*''
      then regex_test ps (c # s) \<or> (\<not> line_terminator c \<and> regex_test (p # ps) s)
      else p = c \<and> regex_test ps s)"

definition matches_action :: "string \<Rightarrow> string \<Rightarrow> bool" where
  "matches_action pattern action =
     (if pattern = ''*'' then True
      else if CHR ''*'' \<notin> set pattern then pattern = action
      else regex_test pattern action)"

text \<open>
  The reading of a pattern that does not mention the matcher: the literal pieces between the
  stars, with a run of characters on one line in the place of each star.
\<close>

fun weave :: "string list \<Rightarrow> string list \<Rightarrow> string" where
  "weave [] gaps = []"
| "weave [w] gaps = w"
| "weave (w # w' # ws) (g # gs) = w @ g @ weave (w' # ws) gs"
| "weave (w # w' # ws) [] = w @ weave (w' # ws) []"

definition one_line :: "string \<Rightarrow> bool" where
  "one_line s \<longleftrightarrow> (\<forall>c \<in> set s. \<not> line_terminator c)"

definition glob_denotes :: "string \<Rightarrow> string \<Rightarrow> bool" where
  "glob_denotes pattern s \<longleftrightarrow>
     (\<exists>gaps. length gaps + 1 = length (split_on CHR ''*'' pattern) \<and>
        (\<forall>g \<in> set gaps. one_line g) \<and> s = weave (split_on CHR ''*'' pattern) gaps)"

lemma one_line_simps [simp]:
  "one_line []" "one_line (c # s) \<longleftrightarrow> \<not> line_terminator c \<and> one_line s"
  "one_line (s @ t) \<longleftrightarrow> one_line s \<and> one_line t"
  by (auto simp: one_line_def)

lemma weave_Cons_char: "weave ((c # w) # ws) gaps = c # weave (w # ws) gaps"
  by (cases ws; cases gaps) auto

lemma regex_test_star:
  "regex_test (CHR ''*'' # ps) s \<longleftrightarrow> (\<exists>g t. s = g @ t \<and> one_line g \<and> regex_test ps t)"
proof (induction s)
  case (Cons c s)
  have "regex_test (CHR ''*'' # ps) (c # s) \<longleftrightarrow>
      regex_test ps (c # s) \<or> (\<exists>g t. c # s = (c # g) @ t \<and> one_line (c # g) \<and> regex_test ps t)"
    using Cons by auto
  also have "\<dots> \<longleftrightarrow> (\<exists>g t. c # s = g @ t \<and> one_line g \<and> regex_test ps t)"
    by (metis append_Cons append_Nil list.inject neq_Nil_conv one_line_simps(1))
  finally show ?case .
qed auto

lemma regex_test_char:
  "p \<noteq> CHR ''*'' \<Longrightarrow> regex_test (p # ps) s \<longleftrightarrow> (\<exists>t. s = p # t \<and> regex_test ps t)"
  by (cases s) auto

lemma split_on_cases:
  obtains w ws where "split_on d s = w # ws"
  using split_on_nonempty[of d s] by (cases "split_on d s") auto

lemma glob_denotes_star:
  "glob_denotes (CHR ''*'' # ps) s \<longleftrightarrow> (\<exists>g t. s = g @ t \<and> one_line g \<and> glob_denotes ps t)"
proof -
  obtain w ws where sp: "split_on CHR ''*'' ps = w # ws" by (rule split_on_cases)
  show ?thesis
  proof
    assume "glob_denotes (CHR ''*'' # ps) s"
    then obtain gaps where g: "length gaps = Suc (length ws)" "\<forall>g \<in> set gaps. one_line g"
        "s = weave ([] # w # ws) gaps"
      by (auto simp: glob_denotes_def sp)
    then obtain g gs where "gaps = g # gs" by (cases gaps) auto
    with g show "\<exists>g t. s = g @ t \<and> one_line g \<and> glob_denotes ps t"
      by (auto simp: glob_denotes_def sp)
  next
    assume "\<exists>g t. s = g @ t \<and> one_line g \<and> glob_denotes ps t"
    then obtain g gs where "length gs = length ws" "\<forall>g \<in> set gs. one_line g" "one_line g"
        "s = g @ weave (w # ws) gs"
      by (auto simp: glob_denotes_def sp)
    then show "glob_denotes (CHR ''*'' # ps) s"
      by (auto simp: glob_denotes_def sp intro!: exI[of _ "g # gs"])
  qed
qed

lemma glob_denotes_char:
  "p \<noteq> CHR ''*'' \<Longrightarrow> glob_denotes (p # ps) s \<longleftrightarrow> (\<exists>t. s = p # t \<and> glob_denotes ps t)"
  by (rule split_on_cases[of "CHR ''*''" ps]) (auto simp: glob_denotes_def weave_Cons_char)

lemma regex_test_denotes: "regex_test ps s \<longleftrightarrow> glob_denotes ps s"
proof (induction ps arbitrary: s)
  case Nil
  show ?case by (cases s) (auto simp: glob_denotes_def)
next
  case (Cons p ps)
  then show ?case
    by (cases "p = CHR ''*''")
      (simp_all add: regex_test_star glob_denotes_star regex_test_char glob_denotes_char)
qed

lemma glob_denotes_literal: "CHR ''*'' \<notin> set pattern \<Longrightarrow> glob_denotes pattern s \<longleftrightarrow> s = pattern"
  by (auto simp: glob_denotes_def split_on_absent)

lemma matches_action_denotes:
  "matches_action pattern action \<longleftrightarrow> pattern = ''*'' \<or> glob_denotes pattern action"
  by (auto simp: matches_action_def regex_test_denotes glob_denotes_literal)

lemma matches_prefix_star:
  assumes "CHR ''*'' \<notin> set p" and "p \<noteq> []"
  shows "matches_action (p @ ''*'') action \<longleftrightarrow> (\<exists>r. action = p @ r \<and> one_line r)"
proof -
  have "split_on CHR ''*'' (p @ ''*'') = [p, []]"
    using assms(1) by (induction p) auto
  moreover have one: "(\<exists>gaps. length gaps = Suc 0 \<and> Q gaps) \<longleftrightarrow> (\<exists>g. Q [g])"
    for Q :: "string list \<Rightarrow> bool"
    by (auto simp: length_Suc_conv)
  ultimately have "glob_denotes (p @ ''*'') action \<longleftrightarrow> (\<exists>r. action = p @ r \<and> one_line r)"
    by (auto simp: glob_denotes_def one)
  moreover have "p @ ''*'' \<noteq> ''*''" using assms by simp
  ultimately show ?thesis by (simp add: matches_action_denotes)
qed

subsection \<open>Evaluation\<close>

definition is_rule_enabled :: "policy_rule \<Rightarrow> bool" where
  "is_rule_enabled r = or_else (rule_enabled r) True"

text \<open>The tenant of the context is \<open>None\<close> when it is null or absent: no rule's tenant equals it.\<close>

definition matches_scope :: "policy_rule \<Rightarrow> string \<Rightarrow> string option \<Rightarrow> bool" where
  "matches_scope r agent tenant \<longleftrightarrow>
     (rule_tenant_id r = None \<or> rule_tenant_id r = tenant) \<and>
     (rule_agent_id r = None \<or> rule_agent_id r = Some agent)"

definition rule_applies :: "string \<Rightarrow> string \<Rightarrow> string option \<Rightarrow> policy_rule \<Rightarrow> bool" where
  "rule_applies agent action tenant r \<longleftrightarrow>
     is_rule_enabled r \<and> matches_scope r agent tenant \<and> matches_action (rule_action r) action"

definition quoted :: "string \<Rightarrow> string" where
  "quoted s = CHR 0x27 # s @ [CHR 0x27]"

definition evaluate :: "policy_rule list \<Rightarrow> string \<Rightarrow> string \<Rightarrow> string option \<Rightarrow> policy_result" where
  "evaluate rules agent action tenant =
     (let matching = filter (rule_applies agent action tenant) rules
      in case List.find (\<lambda>r. rule_effect r = Deny) matching of
           Some r \<Rightarrow>
             \<lparr>granted = False, matched_rule_id = Some (rule_id r),
              policy_reason = or_else (rule_reason r)
                (''Action '' @ quoted action @ '' blocked by rule '' @ quoted (rule_id r) @ ''.'')\<rparr>
         | None \<Rightarrow>
         case List.find (\<lambda>r. rule_effect r = Allow) matching of
           Some r \<Rightarrow>
             \<lparr>granted = True, matched_rule_id = Some (rule_id r),
              policy_reason = or_else (rule_reason r)
                (''Action '' @ quoted action @ '' allowed by rule '' @ quoted (rule_id r) @ ''.'')\<rparr>
         | None \<Rightarrow>
             \<lparr>granted = False, matched_rule_id = None,
              policy_reason =
                ''Action '' @ quoted action @ '' denied by default policy (no allow rule found).''\<rparr>)"

text \<open>The engine's state is its rule list.\<close>

definition set_rules :: "policy_rule list \<Rightarrow> policy_rule list \<Rightarrow> policy_rule list" where
  "set_rules new_rules rules = new_rules"

definition add_rule :: "policy_rule \<Rightarrow> policy_rule list \<Rightarrow> policy_rule list" where
  "add_rule r rules = rules @ [r]"

lemma granted_evaluate:
  "granted (evaluate rules agent action tenant) \<longleftrightarrow>
     (\<exists>r \<in> set rules. rule_applies agent action tenant r \<and> rule_effect r = Allow) \<and>
     (\<forall>r \<in> set rules. rule_applies agent action tenant r \<longrightarrow> rule_effect r \<noteq> Deny)"
proof -
  let ?m = "filter (rule_applies agent action tenant) rules"
  show ?thesis
  proof (cases "List.find (\<lambda>r. rule_effect r = Deny) ?m")
    case (Some r)
    then show ?thesis using find_Some_iff_mem[OF Some] by (auto simp: evaluate_def)
  next
    case None
    have nd: "\<forall>r \<in> set rules. rule_applies agent action tenant r \<longrightarrow> rule_effect r \<noteq> Deny"
      using find_None_D[OF None] by auto
    show ?thesis
    proof (cases "List.find (\<lambda>r. rule_effect r = Allow) ?m")
      case (Some r)
      then show ?thesis using find_Some_iff_mem[OF Some] nd None by (auto simp: evaluate_def)
    next
      case none: None
      then show ?thesis using find_None_D[OF none] None by (auto simp: evaluate_def)
    qed
  qed
qed

lemma evaluate_foreign:
  assumes "\<And>r. r \<in> set foreign \<Longrightarrow> \<not> matches_scope r agent tenant"
  shows "evaluate (before @ foreign @ after) agent action tenant =
    evaluate (before @ after) agent action tenant"
proof -
  have "filter (rule_applies agent action tenant) foreign = []"
    using assms by (auto simp: filter_empty_conv rule_applies_def)
  then show ?thesis by (simp add: evaluate_def)
qed

subsection \<open>Templates\<close>

datatype policy_template = AdminTemplate | ReadonlyTemplate | StandardTemplate

definition template_name :: "policy_template \<Rightarrow> string" where
  "template_name t = (case t of AdminTemplate \<Rightarrow> ''admin'' | ReadonlyTemplate \<Rightarrow> ''readonly''
     | StandardTemplate \<Rightarrow> ''standard'')"

definition template_rules :: "policy_template \<Rightarrow> (string \<times> policy_effect \<times> string) list" where
  "template_rules t = (case t of
     ReadonlyTemplate \<Rightarrow>
       [(''tool.http'', Allow, ''Read-only template allows HTTP reads.''),
        (''tool.db-read'', Allow, ''Read-only template allows query-only access.''),
        (''tool.db-write'', Deny, ''Read-only template blocks mutations.''),
        (''tool.send-email'', Deny, ''Read-only template blocks external messages.'')]
   | StandardTemplate \<Rightarrow>
       [(''tool.http'', Allow, ''Standard template allows HTTP tool.''),
        (''tool.db-read'', Allow, ''Standard template allows read access.''),
        (''tool.db-write'', Allow, ''Standard template allows controlled writes.''),
        (''tool.send-email'', Allow, ''Standard template allows email notifications.'')]
   | AdminTemplate \<Rightarrow> [(''tool.*'', Allow, ''Admin template grants full tool access.'')])"

definition template_rule ::
    "policy_template \<Rightarrow> string \<Rightarrow> string \<Rightarrow> nat \<Rightarrow> string \<times> policy_effect \<times> string \<Rightarrow> policy_rule" where
  "template_rule t tenant agent i spec = (case spec of (action, effect, reason) \<Rightarrow>
     \<lparr>rule_action = action, rule_agent_id = Some agent, rule_effect = effect, rule_enabled = None,
      rule_id = template_name t @ ''-'' @ show_nat (i + 1), rule_reason = Some reason,
      rule_tenant_id = Some tenant\<rparr>)"

definition create_policy_template :: "policy_template \<Rightarrow> string \<Rightarrow> string \<Rightarrow> policy_rule list" where
  "create_policy_template t tenant agent =
     map2 (template_rule t tenant agent) [0..<length (template_rules t)] (template_rules t)"

definition template_grants :: "policy_template \<Rightarrow> string \<Rightarrow> bool" where
  "template_grants t action = (case t of
     ReadonlyTemplate \<Rightarrow> action \<in> {''tool.http'', ''tool.db-read''}
   | StandardTemplate \<Rightarrow> action \<in> {''tool.http'', ''tool.db-read'', ''tool.db-write'', ''tool.send-email''}
   | AdminTemplate \<Rightarrow> \<exists>r. action = ''tool.'' @ r \<and> one_line r)"

lemma matches_literal: "CHR ''*'' \<notin> set p \<Longrightarrow> matches_action p action \<longleftrightarrow> p = action"
  by (auto simp: matches_action_def)

lemma template_rule_applies:
  "rule_applies agent' action tenant (template_rule t tn ag i (p, eff, why)) \<longleftrightarrow>
     tenant = Some tn \<and> agent' = ag \<and> matches_action p action"
  by (auto simp: rule_applies_def template_rule_def matches_scope_def is_rule_enabled_def)

lemma template_rule_effect [simp]: "rule_effect (template_rule t tn ag i (p, eff, why)) = eff"
  by (simp add: template_rule_def)

lemma evaluate_template:
  "granted (evaluate (create_policy_template t tn ag) agent action tenant) \<longleftrightarrow>
     tenant = Some tn \<and> agent = ag \<and> template_grants t action"
proof (cases t)
  case AdminTemplate
  have p: "matches_action (''tool.'' @ ''*'') action \<longleftrightarrow> (\<exists>r. action = ''tool.'' @ r \<and> one_line r)"
    by (rule matches_prefix_star) auto
  show ?thesis
    using p AdminTemplate
    by (auto simp: granted_evaluate create_policy_template_def template_rules_def
        template_grants_def template_rule_applies)
qed (auto simp: granted_evaluate create_policy_template_def template_rules_def template_grants_def
    template_rule_applies matches_literal upt_rec)

subsection \<open>The administration store\<close>

record managed_policy = policy_rule +
  policy_name :: string

type_synonym policy_store = "managed_policy jsmap"

definition store_list :: "policy_store \<Rightarrow> string \<Rightarrow> string \<Rightarrow> managed_policy list" where
  "store_list st tenant agent =
     filter (\<lambda>p. rule_tenant_id p = Some tenant \<and> rule_agent_id p = Some agent) (map snd st)"

definition store_upsert :: "managed_policy \<Rightarrow> policy_store \<Rightarrow> managed_policy \<times> policy_store" where
  "store_upsert p st = (p, AList.update (rule_id p) p st)"

definition store_toggle ::
    "string \<Rightarrow> bool \<Rightarrow> policy_store \<Rightarrow> managed_policy option \<times> policy_store" where
  "store_toggle i enabled st = (case map_of st i of
     None \<Rightarrow> (None, st)
   | Some p \<Rightarrow> let p' = p\<lparr>rule_enabled := Some enabled\<rparr>
       in (Some p', AList.update i p' st))"

definition store_ok :: "policy_store \<Rightarrow> bool" where
  "store_ok st \<longleftrightarrow> distinct (map fst st) \<and> (\<forall>(i, p) \<in> set st. rule_id p = i)"

lemma set_update_ok:
  "distinct (map fst st) \<Longrightarrow> set (AList.update k v st) = insert (k, v) {(i, p) \<in> set st. i \<noteq> k}"
  by (induction st) (auto simp: image_iff)

lemma store_ok_update: "store_ok st \<Longrightarrow> rule_id p = k \<Longrightarrow> store_ok (AList.update k p st)"
  by (auto simp: store_ok_def set_update_ok distinct_update)

lemma store_ok_lookup: "store_ok st \<Longrightarrow> map_of st i = Some p \<Longrightarrow> rule_id p = i"
  by (auto simp: store_ok_def dest: map_of_SomeD)

lemma store_list_mem:
  "store_ok st \<Longrightarrow> p \<in> set (store_list st tenant agent) \<longleftrightarrow>
     map_of st (rule_id p) = Some p \<and> rule_tenant_id p = Some tenant \<and> rule_agent_id p = Some agent"
  by (auto simp: store_list_def store_ok_def map_of_eq_Some_iff) force+

lemma store_list_set:
  assumes "store_ok st"
  shows "set (store_list st tenant agent) =
    {p. map_of st (rule_id p) = Some p \<and> rule_tenant_id p = Some tenant \<and> rule_agent_id p = Some agent}"
  using store_list_mem[OF assms] by blast

lemma store_toggle_list:
  assumes "store_ok st" and "store_toggle i enabled st = (r, st')"
  shows "store_ok st' \<and> set (store_list st' tenant agent) =
    (\<lambda>p. if rule_id p = i then p\<lparr>rule_enabled := Some enabled\<rparr> else p) ` set (store_list st tenant agent)"
proof (cases "map_of st i")
  case None
  then have "st' = st" "\<And>p. p \<in> set (store_list st tenant agent) \<Longrightarrow> rule_id p \<noteq> i"
    using assms store_list_mem[OF assms(1)] by (auto simp: store_toggle_def)
  then show ?thesis using assms(1) by (auto simp: image_iff)
next
  case (Some p)
  let ?f = "\<lambda>p. if rule_id p = i then p\<lparr>rule_enabled := Some enabled\<rparr> else p"
  have i: "rule_id p = i" by (rule store_ok_lookup[OF assms(1) Some])
  have st': "map_of st' = (map_of st)(i \<mapsto> p\<lparr>rule_enabled := Some enabled\<rparr>)" and ok: "store_ok st'"
    using assms Some store_ok_update[OF assms(1), of "p\<lparr>rule_enabled := Some enabled\<rparr>" i] i
    by (auto simp: store_toggle_def Let_def)
  have in': "q \<in> set (store_list st' tenant agent) \<longleftrightarrow>
      (if rule_id q = i then q = ?f p \<and> p \<in> set (store_list st tenant agent)
       else q \<in> set (store_list st tenant agent))" for q
    unfolding store_list_mem[OF ok] store_list_mem[OF assms(1)] st' using i Some by auto
  have "q = p" if "q \<in> set (store_list st tenant agent)" "rule_id q = i" for q
    using that Some unfolding store_list_mem[OF assms(1)] by simp
  then have "q \<in> set (store_list st' tenant agent) \<longleftrightarrow> q \<in> ?f ` set (store_list st tenant agent)" for q
    unfolding in' using i by (cases "rule_id q = i") (auto simp: image_iff split: if_splits)
  with ok show ?thesis by blast
qed

subsection \<open>Properties\<close>

text \<open>
  Property C40. A rule's action pattern matches exactly the actions it denotes: the pattern
  \<open>*\<close> matches every action, any other pattern its literal pieces in order, with an arbitrary
  run of characters without a line break for each star.
\<close>

theorem policy_pattern_meaning:
  "matches_action pattern action \<longleftrightarrow> pattern = ''*'' \<or> glob_denotes pattern action"
  by (rule matches_action_denotes)

text \<open>
  Property C39. The engine grants an action exactly when some enabled rule in scope that matches
  it allows it and no such rule denies it: deny overrides allow whatever the order of the rules,
  and an action no rule matches is denied.
\<close>

theorem policy_deny_overrides:
  "granted (evaluate rules agent action tenant) \<longleftrightarrow>
     (\<exists>r \<in> set rules. rule_applies agent action tenant r \<and> rule_effect r = Allow) \<and>
     \<not> (\<exists>r \<in> set rules. rule_applies agent action tenant r \<and> rule_effect r = Deny)"
  by (auto simp: granted_evaluate)

text \<open>
  The rules a template creates for a tenant and an agent grant that agent, in that
  tenant, exactly the template's actions, and grant nothing to any other agent or tenant.
\<close>

theorem policy_template_grants:
  "granted (evaluate (create_policy_template t tn ag) agent action tenant) \<longleftrightarrow>
     tenant = Some tn \<and> agent = ag \<and> template_grants t action"
  by (rule evaluate_template)

text \<open>
  Switching a policy on or off in the administration store keeps the store keyed by
  policy id and changes, in the list of any tenant and agent, only the \<open>enabled\<close> flag of that policy.
\<close>

theorem policy_toggle_frame:
  assumes "store_ok st" and "store_toggle i enabled st = (r, st')"
  shows "store_ok st' \<and> set (store_list st' tenant agent) =
    (\<lambda>p. if rule_id p = i then p\<lparr>rule_enabled := Some enabled\<rparr> else p) ` set (store_list st tenant agent)"
  by (rule store_toggle_list[OF assms])

definition sample_policy :: "string \<Rightarrow> managed_policy" where
  "sample_policy i = \<lparr>rule_action = ''tool.*'', rule_agent_id = Some ''a'', rule_effect = Allow,
     rule_enabled = None, rule_id = i, rule_reason = None, rule_tenant_id = Some ''t'',
     policy_name = ''sample''\<rparr>"

theorem policy_toggle_frame_witness:
  "\<exists>r st'. store_toggle ''p2'' False [(''p1'', sample_policy ''p1''), (''p2'', sample_policy ''p2'')] = (r, st') \<and>
     set (store_list st' ''t'' ''a'') =
       {sample_policy ''p1'', (sample_policy ''p2'')\<lparr>rule_enabled := Some False\<rparr>}"
proof -
  let ?st = "[(''p1'', sample_policy ''p1''), (''p2'', sample_policy ''p2'')]"
  obtain r st' where t: "store_toggle ''p2'' False ?st = (r, st')" by (cases "store_toggle ''p2'' False ?st")
  have "store_ok ?st" by (simp add: store_ok_def sample_policy_def)
  from policy_toggle_frame[OF this t, of "''t''" "''a''"] t show ?thesis
    by (auto simp: store_list_def sample_policy_def)
qed

end
