(* ===== verification/CacheStore.thy ===== *)
theory CacheStore
  imports JsText
begin

text \<open>
  \<open>apps/api/src/common/cache/cache-store.ts\<close>: the cache every API module writes through. The
  store in use is one of three: none, a map in the process, or Redis; when an operation on Redis
  fails outside production the process falls back to its own map for good, in production the
  operation throws.

  Redis is a service: its client is the record of functions \<^theory_text>\<open>redis_client\<close> over an arbitrary
  state, each of which may fail. The locale \<^theory_text>\<open>cache_contract\<close> is what the modules rely on: a cache
  may lose entries at any time but never answers with anything that was not written last under
  that key, and never with a deleted key. It is interpreted on the process map and on the empty store, and
  on the whole switchable cache over a client that is down.
\<close>

subsection \<open>The contract\<close>

locale cache_contract =
  fixes ok :: "'s \<Rightarrow> bool"
    and view :: "'s \<Rightarrow> ms \<Rightarrow> string \<Rightarrow> 'v option"
    and put :: "string \<Rightarrow> 'v \<Rightarrow> int \<Rightarrow> ms \<Rightarrow> 's \<Rightarrow> 's"
    and remove :: "string list \<Rightarrow> ms \<Rightarrow> 's \<Rightarrow> 's"
  assumes ok_put: "ok s \<Longrightarrow> ok (put k v ttl now s)"
    and ok_remove: "ok s \<Longrightarrow> ok (remove ks now s)"
    and view_put: "ok s \<Longrightarrow> view (put k v ttl now s) t k' = Some x \<Longrightarrow>
      k' = k \<and> x = v \<and> t < now + ttl * 1000 \<or> view s t k' = Some x \<and> k' \<noteq> k"
    and view_remove: "ok s \<Longrightarrow> view (remove ks now s) t k = Some x \<Longrightarrow>
      k \<notin> set ks \<and> view s t k = Some x"
    and view_later: "ok s \<Longrightarrow> view s t k = Some x \<Longrightarrow> t' \<le> t \<Longrightarrow> view s t' k = Some x"
begin

text \<open>What the entries of a cache are known to satisfy survives every operation that keeps it.\<close>

definition holds :: "(string \<Rightarrow> 'v \<Rightarrow> bool) \<Rightarrow> ms \<Rightarrow> 's \<Rightarrow> bool" where
  "holds P now s \<longleftrightarrow> (\<forall>k x. view s now k = Some x \<longrightarrow> P k x)"

lemma holds_put: "ok s \<Longrightarrow> holds P t s \<Longrightarrow> P k v \<Longrightarrow> holds P t (put k v ttl now s)"
  unfolding holds_def by (metis view_put)

lemma holds_remove:
  assumes "ok s" and "\<And>k x. view s t k = Some x \<Longrightarrow> k \<notin> set ks \<Longrightarrow> P k x"
  shows "holds P t (remove ks now s)"
  using assms view_remove unfolding holds_def by blast

lemma holds_later: "ok s \<Longrightarrow> holds P t s \<Longrightarrow> t \<le> t' \<Longrightarrow> holds P t' s"
  using view_later unfolding holds_def by blast

lemma removed_gone: "ok s \<Longrightarrow> k \<in> set ks \<Longrightarrow> view (remove ks now s) t k = None"
  using view_remove by (metis option.exhaust)

lemma expired_gone: "ok s \<Longrightarrow> now + ttl * 1000 \<le> t \<Longrightarrow> view (put k v ttl now s) t k = None"
  by (metis linorder_not_le option.exhaust view_put)

end

subsection \<open>The store in the process\<close>

type_synonym 'v mem_store = "(string \<times> (ms \<times> 'v)) list"

fun mem_del :: "string list \<Rightarrow> 'v mem_store \<Rightarrow> nat \<times> 'v mem_store" where
  "mem_del [] m = (0, m)"
| "mem_del (k # ks) m =
     (let deleted = (if map_of m k = None then 0 else 1);
          (n, m') = mem_del ks (AList.delete k m)
      in (deleted + n, m'))"

definition mem_get :: "string \<Rightarrow> ms \<Rightarrow> 'v mem_store \<Rightarrow> 'v option \<times> 'v mem_store" where
  "mem_get k now m = (case map_of m k of
     None \<Rightarrow> (None, m)
   | Some (expires_at, v) \<Rightarrow>
       if expires_at \<le> now then (None, AList.delete k m) else (Some v, m))"

definition mem_set :: "string \<Rightarrow> 'v \<Rightarrow> int \<Rightarrow> ms \<Rightarrow> 'v mem_store \<Rightarrow> 'v mem_store" where
  "mem_set k v ttl_seconds now m = AList.update k (now + ttl_seconds * 1000, v) m"

definition mem_view :: "'v mem_store \<Rightarrow> ms \<Rightarrow> string \<Rightarrow> 'v option" where
  "mem_view m now k = fst (mem_get k now m)"

lemma map_of_mem_del: "map_of (snd (mem_del ks m)) k = (if k \<in> set ks then None else map_of m k)"
  by (induction ks arbitrary: m) (auto simp: Let_def split_beta delete_conv')

lemma mem_view_alt:
  "mem_view m now k = (case map_of m k of
     None \<Rightarrow> None | Some (e, v) \<Rightarrow> if e \<le> now then None else Some v)"
  by (auto simp: mem_view_def mem_get_def split: option.splits prod.splits)

text \<open>Reading drops an expired entry and changes what no later reader sees.\<close>

lemma mem_get_view:
  "now \<le> t \<Longrightarrow> mem_view (snd (mem_get k now m)) t k' = mem_view m t k'"
  by (auto simp: mem_view_alt mem_get_def delete_conv' split: option.splits prod.splits)

interpretation mem: cache_contract "\<lambda>_. True" mem_view mem_set "\<lambda>ks _ m. snd (mem_del ks m)"
  by unfold_locales
    (auto simp: mem_view_alt map_of_mem_del mem_set_def split: option.splits if_splits)

text \<open>\<open>NoopCacheStore\<close>.\<close>

definition noop_view :: "unit \<Rightarrow> ms \<Rightarrow> string \<Rightarrow> 'v option" where
  "noop_view s now k = None"

interpretation noop: cache_contract "\<lambda>_. True" noop_view "\<lambda>_ _ _ _ s. s" "\<lambda>_ _ s. s"
  by unfold_locales (auto simp: noop_view_def)

subsection \<open>The switchable store\<close>

datatype store_kind = NoopStore | InMemoryStore | RedisStore

datatype cache_error =
    CACHE_CONFIGURATION_INVALID | CACHE_DELETE_FAILED | CACHE_READ_FAILED | CACHE_WRITE_FAILED

text \<open>
  \<open>RedisCacheStore\<close>: each operation connects when the client still waits and then runs one
  command; either may fail, and a failed command may have been carried out.
\<close>

record ('r, 'v) redis_client =
  redis_del :: "string list \<Rightarrow> ms \<Rightarrow> 'r \<Rightarrow> (string + nat) \<times> 'r"
  redis_get :: "string \<Rightarrow> ms \<Rightarrow> 'r \<Rightarrow> (string + 'v option) \<times> 'r"
  redis_set :: "string \<Rightarrow> 'v \<Rightarrow> int \<Rightarrow> ms \<Rightarrow> 'r \<Rightarrow> (string + unit) \<times> 'r"

record ('r, 'v) cache_state =
  cs_store :: store_kind
  cs_strict :: bool
  cs_memory :: "'v mem_store"
  cs_redis :: 'r

definition use_fallback_store :: "('r, 'v) cache_state \<Rightarrow> ('r, 'v) cache_state" where
  "use_fallback_store s = s\<lparr>cs_store := InMemoryStore\<rparr>"

text \<open>\<open>fresh\<close> is the client a new \<open>RedisCacheStore\<close> opens.\<close>

definition configure_cache_store ::
    "string option \<Rightarrow> string \<Rightarrow> 'r \<Rightarrow> ('r, 'v) cache_state \<Rightarrow> (cache_error + unit) \<times> ('r, 'v) cache_state" where
  "configure_cache_store redis_url node_env fresh s =
     (let s1 = s\<lparr>cs_strict := (node_env = ''production'')\<rparr>
      in if js_trim (or_else redis_url []) = [] then
           (if cs_strict s1 then (Inl CACHE_CONFIGURATION_INVALID, s1)
            else (Inr (), use_fallback_store s1))
         else (Inr (), s1\<lparr>cs_store := RedisStore, cs_redis := fresh\<rparr>))"

definition redis_store_del ::
    "('r, 'v) redis_client \<Rightarrow> string list \<Rightarrow> ms \<Rightarrow> 'r \<Rightarrow> (string + nat) \<times> 'r" where
  "redis_store_del rc ks now r = (if ks = [] then (Inr 0, r) else redis_del rc ks now r)"

definition store_del ::
    "('r, 'v) redis_client \<Rightarrow> string list \<Rightarrow> ms \<Rightarrow> ('r, 'v) cache_state \<Rightarrow>
       (string + nat) \<times> ('r, 'v) cache_state" where
  "store_del rc ks now s = (case cs_store s of
     NoopStore \<Rightarrow> (Inr 0, s)
   | InMemoryStore \<Rightarrow> (case mem_del ks (cs_memory s) of (n, m) \<Rightarrow> (Inr n, s\<lparr>cs_memory := m\<rparr>))
   | RedisStore \<Rightarrow> (case redis_store_del rc ks now (cs_redis s) of (a, r) \<Rightarrow> (a, s\<lparr>cs_redis := r\<rparr>)))"

definition store_get ::
    "('r, 'v) redis_client \<Rightarrow> string \<Rightarrow> ms \<Rightarrow> ('r, 'v) cache_state \<Rightarrow>
       (string + 'v option) \<times> ('r, 'v) cache_state" where
  "store_get rc k now s = (case cs_store s of
     NoopStore \<Rightarrow> (Inr None, s)
   | InMemoryStore \<Rightarrow> (case mem_get k now (cs_memory s) of (a, m) \<Rightarrow> (Inr a, s\<lparr>cs_memory := m\<rparr>))
   | RedisStore \<Rightarrow> (case redis_get rc k now (cs_redis s) of (a, r) \<Rightarrow> (a, s\<lparr>cs_redis := r\<rparr>)))"

definition store_set ::
    "('r, 'v) redis_client \<Rightarrow> string \<Rightarrow> 'v \<Rightarrow> int \<Rightarrow> ms \<Rightarrow> ('r, 'v) cache_state \<Rightarrow>
       (string + unit) \<times> ('r, 'v) cache_state" where
  "store_set rc k v ttl now s = (case cs_store s of
     NoopStore \<Rightarrow> (Inr (), s)
   | InMemoryStore \<Rightarrow> (Inr (), s\<lparr>cs_memory := mem_set k v ttl now (cs_memory s)\<rparr>)
   | RedisStore \<Rightarrow> (case redis_set rc k v ttl now (cs_redis s) of (a, r) \<Rightarrow> (a, s\<lparr>cs_redis := r\<rparr>)))"

definition delete_cache_keys ::
    "('r, 'v) redis_client \<Rightarrow> string list \<Rightarrow> ms \<Rightarrow> ('r, 'v) cache_state \<Rightarrow>
       (cache_error + unit) \<times> ('r, 'v) cache_state" where
  "delete_cache_keys rc ks now s =
     (if ks = [] then (Inr (), s)
      else case store_del rc ks now s of
        (Inr _, s') \<Rightarrow> (Inr (), s')
      | (Inl _, s') \<Rightarrow>
          if cs_strict s' then (Inl CACHE_DELETE_FAILED, s') else (Inr (), use_fallback_store s'))"

definition read_cache_value ::
    "('r, 'v) redis_client \<Rightarrow> string \<Rightarrow> ms \<Rightarrow> ('r, 'v) cache_state \<Rightarrow>
       (cache_error + 'v option) \<times> ('r, 'v) cache_state" where
  "read_cache_value rc k now s = (case store_get rc k now s of
     (Inr v, s') \<Rightarrow> (Inr v, s')
   | (Inl _, s') \<Rightarrow>
       if cs_strict s' then (Inl CACHE_READ_FAILED, s') else (Inr None, use_fallback_store s'))"

definition write_cache_value ::
    "('r, 'v) redis_client \<Rightarrow> string \<Rightarrow> 'v \<Rightarrow> int \<Rightarrow> ms \<Rightarrow> ('r, 'v) cache_state \<Rightarrow>
       (cache_error + unit) \<times> ('r, 'v) cache_state" where
  "write_cache_value rc k v ttl now s = (case store_set rc k v ttl now s of
     (Inr _, s') \<Rightarrow> (Inr (), s')
   | (Inl _, s') \<Rightarrow>
       if cs_strict s' then (Inl CACHE_WRITE_FAILED, s') else (Inr (), use_fallback_store s'))"

text \<open>\<open>setCacheStoreForTests\<close>.\<close>

definition set_cache_store_for_tests ::
    "store_kind option \<Rightarrow> ('r, 'v) cache_state \<Rightarrow> ('r, 'v) cache_state" where
  "set_cache_store_for_tests st s = s\<lparr>cs_store := or_else st NoopStore\<rparr>"

subsection \<open>What the switchable store promises\<close>

text \<open>
  The documented behaviour of the Redis commands, over a function \<open>rv\<close> that says what a \<open>GET\<close>
  at a time would answer: \<open>SET ... EX\<close> replaces the value until its expiry, \<open>DEL\<close> removes keys,
  \<open>GET\<close> answers the value and changes nothing; a command that failed was carried out or not.
\<close>

definition redis_lawful ::
    "('r, 'v) redis_client \<Rightarrow> ('r \<Rightarrow> ms \<Rightarrow> string \<Rightarrow> 'v option) \<Rightarrow> bool" where
  "redis_lawful rc rv \<longleftrightarrow>
     (\<forall>k v ttl now r a r' t k' x. redis_set rc k v ttl now r = (a, r') \<and> rv r' t k' = Some x \<longrightarrow>
        k' = k \<and> x = v \<and> t < now + ttl * 1000 \<or>
        rv r t k' = Some x \<and> (k' \<noteq> k \<or> (\<exists>e. a = Inl e))) \<and>
     (\<forall>ks now r a r' t k x. redis_del rc ks now r = (a, r') \<and> rv r' t k = Some x \<longrightarrow>
        rv r t k = Some x \<and> (k \<notin> set ks \<or> (\<exists>e. a = Inl e))) \<and>
     (\<forall>k now r a r' t. redis_get rc k now r = (a, r') \<longrightarrow>
        (\<forall>x. a = Inr x \<longrightarrow> rv r now k = x) \<and> rv r' t = rv r t) \<and>
     (\<forall>r t t' k x. rv r t k = Some x \<and> t' \<le> t \<longrightarrow> rv r t' k = Some x)"

lemma redis_lawfulD:
  assumes "redis_lawful rc rv"
  shows "redis_set rc k v ttl now r = (a, r') \<Longrightarrow> rv r' t k' = Some x \<Longrightarrow>
      k' = k \<and> x = v \<and> t < now + ttl * 1000 \<or> rv r t k' = Some x \<and> (k' \<noteq> k \<or> (\<exists>e. a = Inl e))"
    and "redis_del rc ks now r = (b, r') \<Longrightarrow> rv r' t k = Some x \<Longrightarrow>
      rv r t k = Some x \<and> (k \<notin> set ks \<or> (\<exists>e. b = Inl e))"
    and "redis_get rc k now r = (c, r') \<Longrightarrow> (\<forall>x. c = Inr x \<longrightarrow> rv r now k = x) \<and> rv r' t = rv r t"
    and "rv r t k = Some x \<Longrightarrow> t' \<le> t \<Longrightarrow> rv r t' k = Some x"
proof -
  note laws = assms[unfolded redis_lawful_def]
  note s = laws[THEN conjunct1, rule_format]
  note d = laws[THEN conjunct2, THEN conjunct1, rule_format]
  note g = laws[THEN conjunct2, THEN conjunct2, THEN conjunct1, rule_format]
  note m = laws[THEN conjunct2, THEN conjunct2, THEN conjunct2, rule_format]
  show "redis_set rc k v ttl now r = (a, r') \<Longrightarrow> rv r' t k' = Some x \<Longrightarrow>
      k' = k \<and> x = v \<and> t < now + ttl * 1000 \<or> rv r t k' = Some x \<and> (k' \<noteq> k \<or> (\<exists>e. a = Inl e))"
    by (rule s[of k v ttl now r a r' t k' x]) (rule conjI)
  show "redis_del rc ks now r = (b, r') \<Longrightarrow> rv r' t k = Some x \<Longrightarrow>
      rv r t k = Some x \<and> (k \<notin> set ks \<or> (\<exists>e. b = Inl e))"
    by (rule d[of ks now r b r' t k x]) (rule conjI)
  show "redis_get rc k now r = (c, r') \<Longrightarrow> (\<forall>x. c = Inr x \<longrightarrow> rv r now k = x) \<and> rv r' t = rv r t"
    using g[of k now r c r' t] by simp
  show "rv r t k = Some x \<Longrightarrow> t' \<le> t \<Longrightarrow> rv r t' k = Some x"
    by (rule m[of r t k x t']) (rule conjI)
qed

definition cache_view ::
    "('r \<Rightarrow> ms \<Rightarrow> string \<Rightarrow> 'v option) \<Rightarrow> ('r, 'v) cache_state \<Rightarrow> ms \<Rightarrow> string \<Rightarrow> 'v option" where
  "cache_view rv s t k = (case cs_store s of
     NoopStore \<Rightarrow> None
   | InMemoryStore \<Rightarrow> mem_view (cs_memory s) t k
   | RedisStore \<Rightarrow> rv (cs_redis s) t k)"

text \<open>While Redis is in use the fallback map is empty: nothing stale waits in it.\<close>

definition cache_ok :: "('r, 'v) cache_state \<Rightarrow> bool" where
  "cache_ok s \<longleftrightarrow> (cs_store s = RedisStore \<longrightarrow> cs_memory s = [])"

lemma mem_view_Nil [simp]: "mem_view [] t k = None"
  by (simp add: mem_view_alt)

lemma write_cache_value_view:
  assumes "redis_lawful rc rv" and "cache_ok s" and "write_cache_value rc k v ttl now s = (res, s')"
  shows "cache_ok s'" and "cs_strict s' = cs_strict s"
    and "cache_view rv s' t k' = Some x \<Longrightarrow>
      k' = k \<and> x = v \<and> t < now + ttl * 1000 \<or>
      cache_view rv s t k' = Some x \<and> (k' \<noteq> k \<or> (\<exists>e. res = Inl e))"
proof -
  show "cache_ok s'" and "cs_strict s' = cs_strict s"
    using assms(2,3) by (auto simp: write_cache_value_def store_set_def cache_ok_def
        use_fallback_store_def split: store_kind.splits prod.splits sum.splits if_splits)
  show "cache_view rv s' t k' = Some x \<Longrightarrow>
      k' = k \<and> x = v \<and> t < now + ttl * 1000 \<or>
      cache_view rv s t k' = Some x \<and> (k' \<noteq> k \<or> (\<exists>e. res = Inl e))" (is "_ \<Longrightarrow> ?thesis'")
  proof (cases "cs_store s")
    case NoopStore
    then show "cache_view rv s' t k' = Some x \<Longrightarrow> ?thesis'"
      using assms(3) by (auto simp: write_cache_value_def store_set_def cache_view_def)
  next
    case InMemoryStore
    then show "cache_view rv s' t k' = Some x \<Longrightarrow> ?thesis'"
      using assms(3) mem.view_put[of k v ttl now "cs_memory s" t k' x]
      by (auto simp: write_cache_value_def store_set_def cache_view_def)
  next
    case RedisStore
    obtain a r where w: "redis_set rc k v ttl now (cs_redis s) = (a, r)" by (rule prod.exhaust)
    show "cache_view rv s' t k' = Some x \<Longrightarrow> ?thesis'"
      using assms(2,3) RedisStore w redis_lawfulD(1)[OF assms(1) w, of t k' x]
      by (auto simp: write_cache_value_def store_set_def cache_view_def cache_ok_def
          use_fallback_store_def split: sum.splits if_splits)
  qed
qed

lemma delete_cache_keys_view:
  assumes "redis_lawful rc rv" and "cache_ok s" and "delete_cache_keys rc ks now s = (res, s')"
  shows "cache_ok s'" and "cs_strict s' = cs_strict s"
    and "cache_view rv s' t k = Some x \<Longrightarrow>
      cache_view rv s t k = Some x \<and> (k \<notin> set ks \<or> (\<exists>e. res = Inl e))"
proof -
  show "cache_ok s'" and "cs_strict s' = cs_strict s"
    using assms(2,3) by (auto simp: delete_cache_keys_def store_del_def cache_ok_def
        use_fallback_store_def split: store_kind.splits prod.splits sum.splits if_splits)
  show "cache_view rv s' t k = Some x \<Longrightarrow>
      cache_view rv s t k = Some x \<and> (k \<notin> set ks \<or> (\<exists>e. res = Inl e))" (is "_ \<Longrightarrow> ?thesis'")
  proof (cases "cs_store s")
    case NoopStore
    then show "cache_view rv s' t k = Some x \<Longrightarrow> ?thesis'"
      using assms(3) by (auto simp: delete_cache_keys_def store_del_def cache_view_def split: if_splits)
  next
    case InMemoryStore
    then show "cache_view rv s' t k = Some x \<Longrightarrow> ?thesis'"
      using assms(3) mem.view_remove[of ks "cs_memory s" t k x]
      by (auto simp: delete_cache_keys_def store_del_def cache_view_def split: if_splits prod.splits)
  next
    case RedisStore
    obtain a r where w: "redis_del rc ks now (cs_redis s) = (a, r)" by (rule prod.exhaust)
    show "cache_view rv s' t k = Some x \<Longrightarrow> ?thesis'"
      using assms(2,3) RedisStore w redis_lawfulD(2)[OF assms(1) w, of t k x]
      by (auto simp: delete_cache_keys_def store_del_def redis_store_del_def cache_view_def
          cache_ok_def use_fallback_store_def split: sum.splits if_splits)
  qed
qed

lemma read_cache_value_view:
  assumes "redis_lawful rc rv" and "cache_ok s" and "read_cache_value rc k now s = (res, s')"
  shows "cache_ok s'" and "cs_strict s' = cs_strict s"
    and "now \<le> t \<Longrightarrow> cache_view rv s' t k' = Some x \<Longrightarrow> cache_view rv s t k' = Some x"
    and "res = Inr (Some x) \<Longrightarrow> cache_view rv s now k = Some x"
proof -
  show "cache_ok s'" and "cs_strict s' = cs_strict s"
    using assms(2,3) by (auto simp: read_cache_value_def store_get_def cache_ok_def
        use_fallback_store_def split: store_kind.splits prod.splits sum.splits if_splits)
  obtain a r where w: "redis_get rc k now (cs_redis s) = (a, r)" by (rule prod.exhaust)
  note rd = redis_lawfulD(3)[OF assms(1) w]
  show "now \<le> t \<Longrightarrow> cache_view rv s' t k' = Some x \<Longrightarrow> cache_view rv s t k' = Some x"
    using assms(2,3) w rd[of t] mem_get_view[of now t k "cs_memory s" k']
    by (cases "cs_store s")
      (auto simp: read_cache_value_def store_get_def cache_ok_def cache_view_def
        use_fallback_store_def split: prod.splits sum.splits if_splits)
  show "res = Inr (Some x) \<Longrightarrow> cache_view rv s now k = Some x"
    using assms(2,3) w rd
    by (cases "cs_store s")
      (auto simp: read_cache_value_def store_get_def cache_ok_def cache_view_def mem_view_def
        use_fallback_store_def split: prod.splits sum.splits if_splits)
qed

text \<open>Outside production the switchable store keeps the contract, whatever the client does.\<close>

definition switch_ok ::
    "('r, 'v) redis_client \<Rightarrow> ('r \<Rightarrow> ms \<Rightarrow> string \<Rightarrow> 'v option) \<Rightarrow> ('r, 'v) cache_state \<Rightarrow> bool" where
  "switch_ok rc rv s \<longleftrightarrow> redis_lawful rc rv \<and> cache_ok s \<and> \<not> cs_strict s"

lemma write_never_throws:
  "\<not> cs_strict s \<Longrightarrow> fst (write_cache_value rc k v ttl now s) = Inr ()"
  by (cases "cs_store s")
    (auto simp: write_cache_value_def store_set_def split: prod.splits sum.splits)

lemma delete_never_throws:
  "\<not> cs_strict s \<Longrightarrow> fst (delete_cache_keys rc ks now s) = Inr ()"
  by (cases "cs_store s")
    (auto simp: delete_cache_keys_def store_del_def split: prod.splits sum.splits)

lemma cache_view_later:
  "redis_lawful rc rv \<Longrightarrow> cache_view rv s t k = Some x \<Longrightarrow> t' \<le> t \<Longrightarrow> cache_view rv s t' k = Some x"
  using redis_lawfulD(4)[of rc rv "cs_redis s" t k x t'] mem.view_later[of "cs_memory s" t k x t']
  by (auto simp: cache_view_def split: store_kind.splits)

interpretation switch: cache_contract "switch_ok rc rv" "cache_view rv"
    "\<lambda>k v ttl now s. snd (write_cache_value rc k v ttl now s)"
    "\<lambda>ks now s. snd (delete_cache_keys rc ks now s)"
  for rc rv
proof (unfold_locales, goal_cases)
  case (1 s k v ttl now)
  then show ?case using write_cache_value_view(1,2)[of rc rv s k v ttl now]
    by (cases "write_cache_value rc k v ttl now s") (auto simp: switch_ok_def)
next
  case (2 s ks now)
  then show ?case using delete_cache_keys_view(1,2)[of rc rv s ks now]
    by (cases "delete_cache_keys rc ks now s") (auto simp: switch_ok_def)
next
  case (3 s k v ttl now t k' x)
  obtain s' where w: "write_cache_value rc k v ttl now s = (Inr (), s')"
    using write_never_throws[of s rc k v ttl now] 3(1)
    by (cases "write_cache_value rc k v ttl now s") (auto simp: switch_ok_def)
  show ?case using 3 w write_cache_value_view(3)[of rc rv s k v ttl now "Inr ()" s' t k' x]
    by (auto simp: switch_ok_def)
next
  case (4 s ks now t k x)
  obtain s' where w: "delete_cache_keys rc ks now s = (Inr (), s')"
    using delete_never_throws[of s rc ks now] 4(1)
    by (cases "delete_cache_keys rc ks now s") (auto simp: switch_ok_def)
  show ?case using 4 w delete_cache_keys_view(3)[of rc rv s ks now "Inr ()" s' t k x]
    by (auto simp: switch_ok_def)
next
  case (5 s t k x t')
  then show ?case using cache_view_later by (auto simp: switch_ok_def)
qed

text \<open>In production no operation changes the store in use.\<close>

lemma strict_keeps_store:
  assumes "cs_strict s"
  shows "cs_store (snd (write_cache_value rc k v ttl now s)) = cs_store s"
    and "cs_store (snd (delete_cache_keys rc ks now s)) = cs_store s"
    and "cs_store (snd (read_cache_value rc k now s)) = cs_store s"
  using assms by (cases "cs_store s"; auto simp: write_cache_value_def delete_cache_keys_def
      read_cache_value_def store_set_def store_del_def store_get_def use_fallback_store_def
      split: prod.splits sum.splits)+

subsection \<open>Properties\<close>

text \<open>A client that keeps its keys in a map and never fails: Redis as it answers when it is up.\<close>

definition mem_client :: "('v mem_store, 'v) redis_client" where
  "mem_client = \<lparr>redis_del = \<lambda>ks now m. (case mem_del ks m of (n, m') \<Rightarrow> (Inr n, m')),
     redis_get = \<lambda>k now m. (Inr (mem_view m now k), m),
     redis_set = \<lambda>k v ttl now m. (Inr (), mem_set k v ttl now m)\<rparr>"

lemma mem_client_lawful: "redis_lawful mem_client mem_view"
  unfolding redis_lawful_def
proof (intro conjI allI impI, goal_cases)
  case (1 k v ttl now r a r' t k' x)
  then show ?case using mem.view_put[of k v ttl now r t k' x] by (auto simp: mem_client_def)
next
  case (2 ks now r a r' t k x)
  then show ?case using mem.view_remove[of ks r t k x]
    by (cases "mem_del ks r") (simp add: mem_client_def)
next
  case (3 ks now r a r' t k x)
  then show ?case using mem.view_remove[of ks r t k x]
    by (cases "mem_del ks r") (simp add: mem_client_def)
next
  case (6 r t t' k x)
  then show ?case using mem.view_later[of r t k x t'] by simp
qed (simp_all add: mem_client_def)

text \<open>
  Once \<open>deleteCacheKeys\<close> returns without throwing, no later read finds any of the
  keys, in production and outside it, even when Redis failed on the way and the process fell back
  to its own map.
\<close>

theorem cache_delete_forgets:
  assumes "redis_lawful rc rv" and "cache_ok s" and "k \<in> set ks"
    and "delete_cache_keys rc ks now s = (Inr (), s')"
    and "read_cache_value rc k t s' = (Inr answer, s'')"
  shows "answer = None"
proof (cases answer)
  case (Some x)
  have ok: "cache_ok s'" using delete_cache_keys_view(1)[OF assms(1,2,4)] .
  have "cache_view rv s' t k = Some x"
    using read_cache_value_view(4)[OF assms(1) ok assms(5)] Some by simp
  then show ?thesis using delete_cache_keys_view(3)[OF assms(1,2,4)] assms(3) by blast
qed

theorem cache_delete_forgets_witness:
  "\<exists>s' s''. delete_cache_keys mem_client [''k''] 5
      \<lparr>cs_store = RedisStore, cs_strict = True, cs_memory = [], cs_redis = [(''k'', (100, ''v''))]\<rparr>
        = (Inr (), s') \<and>
    read_cache_value mem_client ''k'' 6 s' = (Inr None, s'')"
proof -
  let ?s = "\<lparr>cs_store = RedisStore, cs_strict = True, cs_memory = [],
    cs_redis = [(''k'', (100, ''v''))]\<rparr>"
  let ?s' = "?s\<lparr>cs_redis := []\<rparr>"
  have d: "delete_cache_keys mem_client [''k''] 5 ?s = (Inr (), ?s')"
    by (simp add: delete_cache_keys_def store_del_def redis_store_del_def mem_client_def)
  obtain a s'' where r: "read_cache_value mem_client ''k'' 6 ?s' = (Inr a, s'')"
    by (simp add: read_cache_value_def store_get_def mem_client_def)
  have "a = None"
    by (rule cache_delete_forgets[OF mem_client_lawful _ _ d r]) (simp_all add: cache_ok_def)
  with d r show ?thesis by blast
qed

text \<open>
  A value that was written is the only thing a later read can answer under its key,
  and only before its time to live is over: a cache forgets, but never serves an older value.
\<close>

theorem cache_read_last_write:
  assumes "redis_lawful rc rv" and "cache_ok s"
    and "write_cache_value rc k v ttl now s = (Inr (), s')"
    and "read_cache_value rc k t s' = (Inr (Some x), s'')"
  shows "x = v \<and> t < now + ttl * 1000"
proof -
  have ok: "cache_ok s'" using write_cache_value_view(1)[OF assms(1-3)] .
  have "cache_view rv s' t k = Some x"
    using read_cache_value_view(4)[OF assms(1) ok assms(4)] by simp
  then show ?thesis using write_cache_value_view(3)[OF assms(1-3)] by blast
qed

theorem cache_read_last_write_witness:
  "\<exists>s' s''. write_cache_value mem_client ''k'' ''new'' 60 1000
      \<lparr>cs_store = RedisStore, cs_strict = True, cs_memory = [], cs_redis = [(''k'', (9000, ''old''))]\<rparr>
        = (Inr (), s') \<and>
    read_cache_value mem_client ''k'' 60999 s' = (Inr (Some ''new''), s'')"
proof -
  let ?s = "\<lparr>cs_store = RedisStore, cs_strict = True, cs_memory = [],
    cs_redis = [(''k'', (9000, ''old''))]\<rparr>"
  let ?s' = "?s\<lparr>cs_redis := [(''k'', (61000, ''new''))]\<rparr>"
  have w: "write_cache_value mem_client ''k'' ''new'' 60 1000 ?s = (Inr (), ?s')"
    by (simp add: write_cache_value_def store_set_def mem_client_def mem_set_def)
  obtain x s'' where r: "read_cache_value mem_client ''k'' 60999 ?s' = (Inr (Some x), s'')"
    by (simp add: read_cache_value_def store_get_def mem_client_def mem_view_alt)
  have "x = ''new'' \<and> 60999 < 1000 + 60 * (1000 :: int)"
    by (rule cache_read_last_write[OF mem_client_lawful _ w r]) (simp add: cache_ok_def)
  with w r show ?thesis by blast
qed

end
