(* ===== verification/JsValue.thy ===== *)
theory JsValue
  imports JsText
begin

text \<open>
  JavaScript values that come from outside the type checker: JSON columns, request bodies, step
  outputs. Numbers are exact rationals with the two infinities and \<open>NaN\<close>: rounding to binary64 is
  not modelled. An object is the list of its own properties in insertion order; properties
  inherited from \<open>Object.prototype\<close> are not modelled.
\<close>

datatype js_num = Fin rat | PosInf | NegInf | NaN

datatype js_val =
    JUndef
  | JNull
  | JBool bool
  | JNum js_num
  | JStr string
  | JArr "js_val list"
  | JObj "(string \<times> js_val) list"

fun num_lt :: "js_num \<Rightarrow> js_num \<Rightarrow> bool" where
  "num_lt NaN y = False"
| "num_lt x NaN = False"
| "num_lt (Fin a) (Fin b) = (a < b)"
| "num_lt x PosInf = (x \<noteq> PosInf)"
| "num_lt NegInf y = (y \<noteq> NegInf)"
| "num_lt x y = False"

fun num_eq :: "js_num \<Rightarrow> js_num \<Rightarrow> bool" where
  "num_eq NaN y = False"
| "num_eq x y = (x = y)"

definition num_le :: "js_num \<Rightarrow> js_num \<Rightarrow> bool" where
  "num_le x y = (num_lt x y \<or> num_eq x y)"

text \<open>\<open>o[k]\<close> on an object.\<close>

definition obj_get :: "(string \<times> js_val) list \<Rightarrow> string \<Rightarrow> js_val" where
  "obj_get fields k = or_else (map_of fields k) JUndef"

lemma obj_get_update [simp]:
  "obj_get (AList.update k v fields) k' = (if k' = k then v else obj_get fields k')"
  by (simp add: obj_get_def)

text \<open>\<open>Boolean(v)\<close>.\<close>

fun js_truthy :: "js_val \<Rightarrow> bool" where
  "js_truthy JUndef = False"
| "js_truthy JNull = False"
| "js_truthy (JBool b) = b"
| "js_truthy (JNum n) = (n \<noteq> NaN \<and> n \<noteq> Fin 0)"
| "js_truthy (JStr s) = (s \<noteq> [])"
| "js_truthy (JArr xs) = True"
| "js_truthy (JObj fs) = True"

subsection \<open>Reading a number from a string\<close>

definition digit_value :: "char \<Rightarrow> nat option" where
  "digit_value c =
     (let n = of_char c :: nat
      in if 48 \<le> n \<and> n \<le> 57 then Some (n - 48)
         else if 65 \<le> n \<and> n \<le> 90 then Some (n - 55)
         else if 97 \<le> n \<and> n \<le> 122 then Some (n - 87) else None)"

definition hex_value :: "char \<Rightarrow> nat option" where
  "hex_value c = (case digit_value c of Some d \<Rightarrow> if d < 16 then Some d else None | None \<Rightarrow> None)"

fun digits_value :: "nat \<Rightarrow> string \<Rightarrow> nat \<Rightarrow> nat option" where
  "digits_value base [] acc = Some acc"
| "digits_value base (c # cs) acc = (case digit_value c of
     None \<Rightarrow> None
   | Some d \<Rightarrow> if d < base then digits_value base cs (acc * base + d) else None)"

definition parse_digits :: "nat \<Rightarrow> string \<Rightarrow> nat option" where
  "parse_digits base s = (if s = [] then None else digits_value base s 0)"

definition is_digit :: "char \<Rightarrow> bool" where
  "is_digit c \<longleftrightarrow> (let n = of_char c :: nat in 48 \<le> n \<and> n \<le> 57)"

text \<open>\<open>digits[.digits][e[+-]digits]\<close> or \<open>.digits[...]\<close>, without a sign.\<close>

definition parse_exponent :: "string \<Rightarrow> int option" where
  "parse_exponent s =
     (if s = [] then Some 0
      else if hd s = CHR ''e'' \<or> hd s = CHR ''E'' then
        (if starts_with (tl s) ''+'' then map_option int (parse_digits 10 (drop 2 s))
         else if starts_with (tl s) ''-'' then map_option (\<lambda>n. - int n) (parse_digits 10 (drop 2 s))
         else map_option int (parse_digits 10 (tl s)))
      else None)"

definition scale10 :: "rat \<Rightarrow> int \<Rightarrow> rat" where
  "scale10 m e = (if 0 \<le> e then m * 10 ^ nat e else m / 10 ^ nat (- e))"

text \<open>
  A number too large for binary64 is read as infinity; the first test spares the small ones the
  comparison with the limit.
\<close>

definition to_num :: "rat \<Rightarrow> js_num" where
  "to_num q =
     (if \<bar>q\<bar> < 1000000000000000000000 then Fin q
      else if 2 ^ 1024 - 2 ^ 970 \<le> q then PosInf
      else if q \<le> - (2 ^ 1024 - 2 ^ 970) then NegInf else Fin q)"

definition parse_unsigned :: "string \<Rightarrow> rat option" where
  "parse_unsigned s =
     (let whole = takeWhile is_digit s; rest = dropWhile is_digit s
      in if starts_with rest ''.'' then
           (let frac = takeWhile is_digit (tl rest)
            in if whole = [] \<and> frac = [] then None
               else case (digits_value 10 (whole @ frac) 0, parse_exponent (dropWhile is_digit (tl rest))) of
                      (Some m, Some e) \<Rightarrow> Some (scale10 (of_nat m) (e - int (size frac)))
                    | _ \<Rightarrow> None)
         else if whole = [] then None
         else case (digits_value 10 whole 0, parse_exponent rest) of
                (Some m, Some e) \<Rightarrow> Some (scale10 (of_nat m) e)
              | _ \<Rightarrow> None)"

definition radix_number :: "nat \<Rightarrow> string \<Rightarrow> js_num" where
  "radix_number base ds = (case parse_digits base ds of Some n \<Rightarrow> to_num (of_nat n) | None \<Rightarrow> NaN)"

definition signed_number :: "rat \<Rightarrow> string \<Rightarrow> js_num" where
  "signed_number sign s =
     (if s = ''Infinity'' then (if sign < 0 then NegInf else PosInf)
      else case parse_unsigned s of Some q \<Rightarrow> to_num (sign * q) | None \<Rightarrow> NaN)"

text \<open>\<open>Number(s)\<close>.\<close>

definition js_number :: "string \<Rightarrow> js_num" where
  "js_number s =
     (let t = js_trim s
      in if t = [] then Fin 0
         else if starts_with t ''0x'' \<or> starts_with t ''0X'' then radix_number 16 (drop 2 t)
         else if starts_with t ''0o'' \<or> starts_with t ''0O'' then radix_number 8 (drop 2 t)
         else if starts_with t ''0b'' \<or> starts_with t ''0B'' then radix_number 2 (drop 2 t)
         else if starts_with t ''-'' then signed_number (- 1) (tl t)
         else if starts_with t ''+'' then signed_number 1 (tl t)
         else signed_number 1 t)"

subsection \<open>Printing a number and reading it back\<close>

lemma of_char_digit: "d < 10 \<Longrightarrow> of_char (char_of (48 + d) :: char) = (48 + d :: nat)"
  by (simp add: of_char_of)

lemma digit_value_digit: "d < 10 \<Longrightarrow> digit_value (char_of (48 + d)) = Some d"
  by (simp add: digit_value_def of_char_digit Let_def)

lemma digits_value_append:
  "digits_value b (xs @ ys) acc = Option.bind (digits_value b xs acc) (\<lambda>a. digits_value b ys a)"
  by (induction xs arbitrary: acc) (auto split: option.splits)

lemma digits_value_show: "digits_value 10 (show_nat n) acc = Some (acc * 10 ^ length (show_nat n) + n)"
proof (induction n arbitrary: acc rule: show_nat.induct)
  case (1 n)
  show ?case
  proof (cases "n < 10")
    case True
    then show ?thesis by (subst (1 2) show_nat.simps) (simp add: digit_value_digit)
  next
    case False
    have "show_nat n = show_nat (n div 10) @ [char_of (48 + n mod 10)]"
      using False by (subst show_nat.simps) simp
    moreover have "n mod 10 < 10" by simp
    ultimately show ?thesis
      using 1[OF False] by (simp add: digits_value_append digit_value_digit algebra_simps)
  qed
qed

lemma show_nat_digits: "c \<in> set (show_nat n) \<Longrightarrow> is_digit c"
proof (induction n rule: show_nat.induct)
  case (1 n)
  have d: "is_digit (char_of (48 + d))" if "d < 10" for d :: nat
    unfolding is_digit_def of_char_digit[OF that] Let_def using that by simp
  have "c = char_of (48 + n mod 10) \<or> (\<not> n < 10 \<and> c \<in> set (show_nat (n div 10)))"
    using "1.prems" by (subst (asm) show_nat.simps) (auto split: if_splits)
  then show ?case using 1(1) d[of "n mod 10"] by auto
qed

lemma show_nat_nonempty: "show_nat n \<noteq> []"
  by (subst show_nat.simps) simp

lemma show_nat_hd: "0 < n \<Longrightarrow> hd (show_nat n) \<noteq> CHR ''0''"
proof (induction n rule: show_nat.induct)
  case (1 n)
  show ?case
  proof (cases "n < 10")
    case True
    have "of_char (char_of (48 + n) :: char) \<noteq> (of_char CHR ''0'' :: nat)"
      unfolding of_char_digit[OF True] using "1.prems" by simp
    then have "char_of (48 + n) \<noteq> CHR ''0''" by metis
    then show ?thesis using True by (subst show_nat.simps) simp
  next
    case False
    then have "0 < n div 10" by simp
    with 1(1)[OF False] show ?thesis
      using False show_nat_nonempty[of "n div 10"] by (subst show_nat.simps) simp
  qed
qed

lemma digit_not_space: "is_digit c \<Longrightarrow> \<not> js_space c"
  by (auto simp: is_digit_def js_space_def Let_def)

lemma trim_digits:
  assumes "\<And>c. c \<in> set s \<Longrightarrow> is_digit c"
  shows "js_trim s = s"
proof -
  have d: "dropWhile js_space t = t" if "\<And>c. c \<in> set t \<Longrightarrow> is_digit c" for t
    using that digit_not_space by (cases t) auto
  have "dropWhile js_space (rev s) = rev s" by (rule d) (simp add: assms)
  then show ?thesis by (simp add: js_trim_def d[OF assms])
qed

lemma js_number_show_nat:
  assumes "(of_nat n :: rat) < 2 ^ 1024 - 2 ^ 970"
  shows "js_number (show_nat n) = Fin (of_nat n)"
proof -
  let ?s = "show_nat n"
  have digits: "\<And>c. c \<in> set ?s \<Longrightarrow> is_digit c" by (rule show_nat_digits)
  have hd: "is_digit (hd ?s)" using digits show_nat_nonempty by simp
  have pre: "\<not> starts_with ?s [a, b]" if "\<not> is_digit b" for a b
    using that digits by (fastforce simp: starts_with_append)
  have sign: "\<not> starts_with ?s [a]" if "\<not> is_digit a" for a
    using that digits by (fastforce simp: starts_with_append)
  have nd: "\<not> is_digit CHR ''x''" "\<not> is_digit CHR ''X''" "\<not> is_digit CHR ''o''"
    "\<not> is_digit CHR ''O''" "\<not> is_digit CHR ''b''" "\<not> is_digit CHR ''B''"
    "\<not> is_digit CHR ''-''" "\<not> is_digit CHR ''+''" "\<not> is_digit CHR ''I''"
    by (simp_all add: is_digit_def Let_def)
  have tw: "takeWhile is_digit ?s = ?s" and dw: "dropWhile is_digit ?s = []"
    using digits by (simp_all add: takeWhile_eq_all_conv dropWhile_eq_Nil_conv)
  have "parse_unsigned ?s = Some (of_nat n)"
    by (simp add: tw dw parse_unsigned_def show_nat_nonempty digits_value_show parse_exponent_def scale10_def Let_def)
  moreover have "?s \<noteq> ''Infinity''" using hd nd(9) by auto
  ultimately have "signed_number 1 ?s = Fin (of_nat n)"
    using assms by (simp add: signed_number_def to_num_def not_le order.strict_trans2[of "- _" 0])
  then show ?thesis
    by (simp add: js_number_def trim_digits[OF digits] show_nat_nonempty pre sign nd Let_def)
qed

end
