(* ===== verification/Schema.thy ===== *)
theory Schema
  imports JsValue
begin

text \<open>
  The part of \<open>packages/database/prisma/schema.prisma\<close> the components share: the enums, the
  errors of the database client and the two operations whose outcome depends on the unique
  indexes of a table.

  A create or an update that would leave two rows with the same key fails with code \<open>P2002\<close> and
  changes nothing; an \<open>update\<close> by a unique key that finds no row fails with \<open>P2025\<close>, a row that names none
  of another table by a foreign key with \<open>P2003\<close>.
\<close>

datatype subscription_status = sub_trial | sub_active | sub_past_due | sub_canceled | sub_paused

datatype invoice_status =
  inv_draft | inv_open | inv_paid | inv_uncollectible | inv_void | inv_past_due

datatype billing_event_status = ev_received | ev_processing | ev_processed | ev_failed

datatype role = READONLY | MEMBER | ADMIN | OWNER | SUPER_ADMIN

datatype user_status = UserActive | UserSuspended

datatype membership_status = MembershipActive | MembershipInvited | MembershipRevoked

datatype db_error =
    P2002 string
  | P2003 string
  | P2025 string
  | ValidationError string

text \<open>An error an operation throws: a problem response with its status and detail, the database
  client's error, the error of the cache or of a service, or a plain \<open>Error\<close> with its message.\<close>

datatype api_error =
    Problem nat string
  | Database db_error
  | CacheFailure string
  | External string
  | Failure string

type_synonym 'r index = "string \<times> ('r \<Rightarrow> string option)"

definition index_ok :: "'r list \<Rightarrow> 'r index \<Rightarrow> bool" where
  "index_ok rows ix = distinct (List.map_filter (snd ix) rows)"

definition indexes_ok :: "'r index list \<Rightarrow> 'r list \<Rightarrow> bool" where
  "indexes_ok ixs rows = list_all (index_ok rows) ixs"

text \<open>The table a statement leaves behind, checked against the indexes.\<close>

definition commit_rows :: "'r index list \<Rightarrow> 'r list \<Rightarrow> db_error + 'r list" where
  "commit_rows ixs rows = (case List.find (\<lambda>ix. \<not> index_ok rows ix) ixs of
     Some ix \<Rightarrow> Inl (P2002 (fst ix))
   | None \<Rightarrow> Inr rows)"

definition create_row :: "'r index list \<Rightarrow> 'r \<Rightarrow> 'r list \<Rightarrow> db_error + 'r list" where
  "create_row ixs r rows = commit_rows ixs (rows @ [r])"

definition update_many :: "'r index list \<Rightarrow> ('r \<Rightarrow> bool) \<Rightarrow> ('r \<Rightarrow> 'r) \<Rightarrow> 'r list \<Rightarrow> db_error + 'r list" where
  "update_many ixs P f rows = commit_rows ixs (update_where P f rows)"

definition update_unique ::
    "string \<Rightarrow> 'r index list \<Rightarrow> ('r \<Rightarrow> bool) \<Rightarrow> ('r \<Rightarrow> 'r) \<Rightarrow> 'r list \<Rightarrow> db_error + 'r list" where
  "update_unique table ixs P f rows =
     (if List.find P rows = None then Inl (P2025 table) else update_many ixs P f rows)"

lemma commit_rows_Inr [simp]: "commit_rows ixs rows = Inr rows' \<longleftrightarrow> rows' = rows \<and> indexes_ok ixs rows"
  by (auto simp: commit_rows_def indexes_ok_def list_all_iff find_None_iff find_Some_iff
      split: option.splits)

lemma commit_rows_Inl: "commit_rows ixs rows = Inl e \<Longrightarrow> \<not> indexes_ok ixs rows \<and> (\<exists>n. e = P2002 n)"
  by (auto simp: commit_rows_def indexes_ok_def list_all_iff find_Some_iff split: option.splits)

lemma create_row_Inr [table_simps]:
  "create_row ixs r rows = Inr rows' \<longleftrightarrow> rows' = rows @ [r] \<and> indexes_ok ixs (rows @ [r])"
  by (simp add: create_row_def)

lemma update_many_Inr [table_simps]:
  "update_many ixs P f rows = Inr rows' \<longleftrightarrow>
     rows' = update_where P f rows \<and> indexes_ok ixs (update_where P f rows)"
  by (simp add: update_many_def)

lemma update_unique_Inr [table_simps]:
  "update_unique table ixs P f rows = Inr rows' \<longleftrightarrow>
     (\<exists>r \<in> set rows. P r) \<and> rows' = update_where P f rows \<and> indexes_ok ixs (update_where P f rows)"
  by (auto simp: update_unique_def table_simps find_None_iff)

text \<open>An update that leaves every indexed column alone cannot clash.\<close>

lemma indexes_ok_update_keep:
  assumes "indexes_ok ixs rows" and "\<And>n key r. (n, key) \<in> set ixs \<Longrightarrow> P r \<Longrightarrow> key (f r) = key r"
  shows "indexes_ok ixs (update_where P f rows)"
proof -
  have "List.map_filter key (update_where P f rows) = List.map_filter key rows"
    if "(n, key) \<in> set ixs" for n key
    using assms(2)[OF that] by (induction rows) (auto simp: map_filter_simps split: option.splits)
  then show ?thesis using assms(1) by (fastforce simp: indexes_ok_def index_ok_def list_all_iff)
qed

lemma indexes_ok_unique:
  assumes "indexes_ok ixs rows" and "(n, key) \<in> set ixs"
  shows "unique_key.unique key rows"
  using assms unfolding unique_key.unique_def
  by (fastforce simp: indexes_ok_def index_ok_def list_all_iff)

subsection \<open>Compound keys\<close>

text \<open>A compound key as one text; the length in front keeps the two components apart.\<close>

definition compound_key :: "string \<Rightarrow> string \<Rightarrow> string" where
  "compound_key a b = show_nat (length a) @ '':'' @ a @ b"

lemma show_nat_inject: "show_nat m = show_nat n \<longleftrightarrow> m = n"
proof
  assume "show_nat m = show_nat n"
  then have "Some (0 * 10 ^ length (show_nat m) + m) = Some (0 * 10 ^ length (show_nat n) + n)"
    by (metis digits_value_show)
  then show "m = n" by simp
qed simp

lemma compound_key_inject: "compound_key a b = compound_key c d \<longleftrightarrow> a = c \<and> b = d"
proof
  assume eq: "compound_key a b = compound_key c d"
  have digits: "takeWhile is_digit (compound_key x y) = show_nat (length x)" for x y
    using show_nat_digits[of _ "length x"]
    by (simp add: compound_key_def takeWhile_append2 is_digit_def Let_def)
  from eq have "show_nat (length a) = show_nat (length c)" by (metis digits)
  then have "length a = length c" by (simp add: show_nat_inject)
  moreover from this eq have "a @ b = c @ d" by (simp add: compound_key_def)
  ultimately show "a = c \<and> b = d" by simp
qed simp

subsection \<open>Sequencing\<close>

text \<open>
  An operation maps a state to its outcome (an error it throws, or a result) and the state it
  leaves behind; the state is kept when an error is thrown, as nothing rolls it back. \<open>in_transaction\<close> is
  \<open>prisma.$transaction\<close>: an error restores the state.
\<close>

type_synonym ('s, 'a) operation = "'s \<Rightarrow> (api_error + 'a) \<times> 's"

definition give :: "'a \<Rightarrow> ('s, 'a) operation" where
  "give a s = (Inr a, s)"

text \<open>A query: \<open>findUnique\<close>, \<open>findFirst\<close>, \<open>findMany\<close>.\<close>

definition ask :: "('s \<Rightarrow> 'a) \<Rightarrow> ('s, 'a) operation" where
  "ask g s = (Inr (g s), s)"

definition throw :: "api_error \<Rightarrow> ('s, 'a) operation" where
  "throw e s = (Inl e, s)"

definition then_do :: "('s, 'a) operation \<Rightarrow> ('a \<Rightarrow> ('s, 'b) operation) \<Rightarrow> ('s, 'b) operation" where
  "then_do m f s = (case m s of (Inl e, s') \<Rightarrow> (Inl e, s') | (Inr a, s') \<Rightarrow> f a s')"

definition in_transaction :: "('s, 'a) operation \<Rightarrow> ('s, 'a) operation" where
  "in_transaction m s = (case m s of (Inl e, _) \<Rightarrow> (Inl e, s) | (Inr a, s') \<Rightarrow> (Inr a, s'))"

definition on_table ::
    "('s \<Rightarrow> 'r list) \<Rightarrow> ('r list \<Rightarrow> 's \<Rightarrow> 's) \<Rightarrow> ('r list \<Rightarrow> db_error + 'r list) \<Rightarrow> ('s, unit) operation" where
  "on_table rd wr stmt s = (case stmt (rd s) of
     Inl e \<Rightarrow> (Inl (Database e), s)
   | Inr rows \<Rightarrow> (Inr (), wr rows s))"

text \<open>\<open>try { m } catch (e) { h }\<close>.\<close>

definition try_catch :: "('s, 'a) operation \<Rightarrow> (api_error \<Rightarrow> ('s, 'a) operation) \<Rightarrow> ('s, 'a) operation" where
  "try_catch m h s = (case m s of (Inl e, s') \<Rightarrow> h e s' | (Inr a, s') \<Rightarrow> (Inr a, s'))"

lemma give_eq [simp]: "give a s = (r, s') \<longleftrightarrow> r = Inr a \<and> s' = s"
  by (auto simp: give_def)

lemma ask_eq [simp]: "ask g s = (r, s') \<longleftrightarrow> r = Inr (g s) \<and> s' = s"
  by (auto simp: ask_def)

lemma throw_eq [simp]: "throw e s = (r, s') \<longleftrightarrow> r = Inl e \<and> s' = s"
  by (auto simp: throw_def)

lemma then_do_Inr [simp]:
  "then_do m f s = (Inr b, s'') \<longleftrightarrow> (\<exists>a s'. m s = (Inr a, s') \<and> f a s' = (Inr b, s''))"
  by (auto simp: then_do_def split: prod.splits sum.splits)

lemma then_do_Inl:
  "then_do m f s = (Inl e, s'') \<longleftrightarrow>
     m s = (Inl e, s'') \<or> (\<exists>a s'. m s = (Inr a, s') \<and> f a s' = (Inl e, s''))"
  by (auto simp: then_do_def split: prod.splits sum.splits)

lemma in_transaction_Inr [simp]: "in_transaction m s = (Inr a, s') \<longleftrightarrow> m s = (Inr a, s')"
  by (auto simp: in_transaction_def split: prod.splits sum.splits)

lemma in_transaction_Inl [simp]:
  "in_transaction m s = (Inl e, s') \<longleftrightarrow> s' = s \<and> (\<exists>t. m s = (Inl e, t))"
  by (auto simp: in_transaction_def split: prod.splits sum.splits)

lemma on_table_Inr [simp]:
  "on_table rd wr stmt s = (Inr u, s') \<longleftrightarrow> (\<exists>rows. stmt (rd s) = Inr rows \<and> s' = wr rows s)"
  by (auto simp: on_table_def split: sum.splits)

lemma on_table_Inl [simp]:
  "on_table rd wr stmt s = (Inl e, s') \<longleftrightarrow> s' = s \<and> (\<exists>d. stmt (rd s) = Inl d \<and> e = Database d)"
  by (auto simp: on_table_def split: sum.splits)

text \<open>An operation on a part of the state.\<close>

definition on_part :: "('s \<Rightarrow> 't) \<Rightarrow> ('t \<Rightarrow> 's \<Rightarrow> 's) \<Rightarrow> ('t, 'a) operation \<Rightarrow> ('s, 'a) operation" where
  "on_part rd wr m s = (case m (rd s) of (r, t) \<Rightarrow> (r, wr t s))"

lemma on_part_eq: "on_part rd wr m s = (r, s') \<longleftrightarrow> (\<exists>t. m (rd s) = (r, t) \<and> s' = wr t s)"
  by (auto simp: on_part_def split: prod.splits)

text \<open>A predicate every step keeps, whether it succeeds or throws, the sequence keeps.\<close>

definition keeps :: "('s \<Rightarrow> bool) \<Rightarrow> ('s, 'a) operation \<Rightarrow> bool" where
  "keeps I m \<longleftrightarrow> (\<forall>s. I s \<longrightarrow> I (snd (m s)))"

lemma keepsD: "keeps I m \<Longrightarrow> I s \<Longrightarrow> m s = (r, s') \<Longrightarrow> I s'"
  unfolding keeps_def by (metis snd_conv)

lemma keeps_give [simp, intro]: "keeps I (give a)"
  by (simp add: keeps_def give_def)

lemma keeps_throw [simp, intro]: "keeps I (throw e)"
  by (simp add: keeps_def throw_def)

lemma keeps_then_do [intro]: "keeps I m \<Longrightarrow> (\<And>a. keeps I (f a)) \<Longrightarrow> keeps I (then_do m f)"
  by (fastforce simp: keeps_def then_do_def split: prod.splits sum.splits)

lemma keeps_in_transaction [intro]: "keeps I m \<Longrightarrow> keeps I (in_transaction m)"
  by (fastforce simp: keeps_def in_transaction_def split: prod.splits sum.splits)

lemma keeps_try_catch:
  "keeps I m \<Longrightarrow> (\<And>e. keeps I (h e)) \<Longrightarrow> keeps I (try_catch m h)"
  by (fastforce simp: keeps_def try_catch_def split: prod.split sum.split)

lemma keeps_on_table:
  assumes "\<And>s rows. I s \<Longrightarrow> stmt (rd s) = Inr rows \<Longrightarrow> I (wr rows s)"
  shows "keeps I (on_table rd wr stmt)"
  using assms by (auto simp: keeps_def on_table_def split: sum.splits)

lemma keeps_ask [simp, intro]: "keeps I (ask g)"
  by (simp add: keeps_def ask_def)

lemma keeps_case_option:
  "keeps I a \<Longrightarrow> (\<And>x. keeps I (f x)) \<Longrightarrow> keeps I (case_option a f v)"
  by (cases v) auto

lemma keeps_case_sum:
  "(\<And>x. keeps I (f x)) \<Longrightarrow> (\<And>x. keeps I (g x)) \<Longrightarrow> keeps I (case_sum f g v)"
  by (cases v) auto

lemma keeps_case_prod: "(\<And>x y. keeps I (f x y)) \<Longrightarrow> keeps I (case_prod f v)"
  by (cases v) auto

lemma keeps_case_bool: "keeps I a \<Longrightarrow> keeps I b \<Longrightarrow> keeps I (case_bool a b v)"
  by (cases v) auto

lemma keeps_If: "keeps I a \<Longrightarrow> keeps I b \<Longrightarrow> keeps I (if c then a else b)"
  by auto

lemma keeps_Let: "(\<And>x. keeps I (f x)) \<Longrightarrow> keeps I (Let v f)"
  by (simp add: Let_def)

lemmas keeps_cases = keeps_case_option keeps_case_sum keeps_case_prod keeps_case_bool keeps_If
  keeps_Let keeps_then_do keeps_in_transaction keeps_give keeps_throw keeps_ask

text \<open>Deleting rows cannot make two keys clash.\<close>

lemma indexes_ok_delete: "indexes_ok ixs rows \<Longrightarrow> indexes_ok ixs (delete_where P rows)"
  using unique_key.unique_delete
  unfolding indexes_ok_def index_ok_def list_all_iff unique_key.unique_def by fast

subsection \<open>Users, organizations and memberships\<close>

record org_row =
  org_id :: string
  org_tenant_id :: string
  org_name :: string
  org_settings :: js_val
  org_stripe_customer_id :: "string option"
  org_plan_id :: "string option"

record user_row =
  user_id :: string
  user_email :: string
  user_name :: string
  user_password_hash :: string
  user_status :: user_status
  user_suspended_at :: "ms option"
  user_mfa_enabled :: bool
  user_mfa_secret :: "string option"

record membership_row =
  mem_id :: string
  mem_tenant_id :: string
  mem_organization_id :: string
  mem_user_id :: string
  mem_role :: role
  mem_status :: membership_status
  mem_created_at :: ms

end
