(* ===== verification/PlanLimits.thy ===== *)
theory PlanLimits
  imports JsValue
begin

text \<open>
  \<open>apps/api/src/modules/billing/plan.utils.ts\<close>: how the limits column of a plan, a JSON value with
  no fixed shape, is read.
\<close>

definition as_record :: "js_val \<Rightarrow> (string \<times> js_val) list" where
  "as_record v = (case v of JObj fs \<Rightarrow> fs | _ \<Rightarrow> [])"

definition read_numeric_plan_limit :: "js_val \<Rightarrow> string \<Rightarrow> js_num \<Rightarrow> js_num" where
  "read_numeric_plan_limit limits key fallback =
     (case obj_get (as_record limits) key of
        JNum n \<Rightarrow> if num_lt n (Fin 0) then PosInf else n
      | _ \<Rightarrow> fallback)"

datatype plan_feature = AdvancedAnalytics | Agents | CustomerPortal | PrioritySupport | Workflows

definition feature_key :: "plan_feature \<Rightarrow> string" where
  "feature_key f = (case f of
     AdvancedAnalytics \<Rightarrow> ''advancedAnalytics'' | Agents \<Rightarrow> ''agents''
   | CustomerPortal \<Rightarrow> ''customerPortal'' | PrioritySupport \<Rightarrow> ''prioritySupport''
   | Workflows \<Rightarrow> ''workflows'')"

definition is_plan_feature_enabled :: "js_val \<Rightarrow> plan_feature \<Rightarrow> bool" where
  "is_plan_feature_enabled limits feature =
     (let features = as_record (obj_get (as_record limits) ''features'')
      in case obj_get features (feature_key feature) of
           JBool b \<Rightarrow> b
         | _ \<Rightarrow> num_lt (Fin 0) (read_numeric_plan_limit limits (feature_key feature) (Fin 0)))"

text \<open>A limit is never negative: minus one and every other negative number mean no limit.\<close>

lemma plan_limit_not_negative:
  "\<not> num_lt fallback (Fin 0) \<Longrightarrow> \<not> num_lt (read_numeric_plan_limit limits key fallback) (Fin 0)"
  by (auto simp: read_numeric_plan_limit_def split: js_val.splits)

end
