(* ===== verification/BillingDb.thy ===== *)
theory BillingDb
  imports Schema PlanLimits
begin

text \<open>
  The billing tables (\<open>packages/database/prisma/schema.prisma\<close>: Plan, Subscription, Invoice,
  BillingCredit, UsageRecord) with their unique indexes, and the plan catalogue of
  \<open>apps/api/src/modules/billing/service.ts\<close>.
\<close>

subsection \<open>Tables\<close>

record plan_row =
  plan_id :: string
  plan_code :: string
  plan_name :: string
  plan_description :: string
  plan_stripe_product_id :: "string option"
  plan_stripe_price_id :: "string option"
  plan_limits :: js_val
  plan_monthly_price_cents :: int
  plan_yearly_price_cents :: "int option"
  plan_currency :: string
  plan_active :: bool

record subscription_row =
  sub_id :: string
  sub_tenant_id :: string
  sub_organization_id :: string
  sub_plan_id :: string
  sub_stripe_subscription_id :: "string option"
  sub_stripe_customer_id :: "string option"
  sub_status :: subscription_status
  sub_current_period_end :: "ms option"
  sub_canceled_at :: "ms option"
  sub_grace_period_ends_at :: "ms option"
  sub_updated_at :: ms

record invoice_row =
  inv_id :: string
  inv_tenant_id :: string
  inv_organization_id :: string
  inv_subscription_id :: "string option"
  inv_stripe_invoice_id :: string
  inv_status :: invoice_status
  inv_currency :: string
  inv_amount_due_cents :: int
  inv_amount_paid_cents :: int
  inv_hosted_invoice_url :: "string option"
  inv_invoice_pdf_url :: "string option"
  inv_due_date :: "ms option"
  inv_period_start :: "ms option"
  inv_period_end :: "ms option"
  inv_created_at :: ms

text \<open>\<open>BillingCreditReason\<close>: the value written here and any other the table may hold.\<close>

datatype credit_reason = DOWNGRADE_PRORATION | OtherReason string

record credit_row =
  cred_id :: string
  cred_tenant_id :: string
  cred_organization_id :: string
  cred_subscription_id :: "string option"
  cred_stripe_event_id :: string
  cred_stripe_invoice_id :: "string option"
  cred_amount_cents :: int
  cred_currency :: string
  cred_reason :: credit_reason

record usage_row =
  usage_id :: string
  usage_organization_id :: string
  usage_metric :: string
  usage_quantity :: int
  usage_occurred_at :: ms

record billing_db =
  db_orgs :: "org_row list"
  db_users :: "user_row list"
  db_memberships :: "membership_row list"
  db_plans :: "plan_row list"
  db_subscriptions :: "subscription_row list"
  db_invoices :: "invoice_row list"
  db_credits :: "credit_row list"
  db_usage :: "usage_row list"

definition org_indexes :: "org_row index list" where
  "org_indexes = [(''id'', \<lambda>r. Some (org_id r)), (''tenantId'', \<lambda>r. Some (org_tenant_id r)),
     (''stripeCustomerId'', org_stripe_customer_id)]"

definition plan_indexes :: "plan_row index list" where
  "plan_indexes = [(''id'', \<lambda>r. Some (plan_id r)), (''code'', \<lambda>r. Some (plan_code r)),
     (''stripeProductId'', plan_stripe_product_id), (''stripePriceId'', plan_stripe_price_id)]"

definition subscription_indexes :: "subscription_row index list" where
  "subscription_indexes = [(''id'', \<lambda>r. Some (sub_id r)),
     (''organizationId'', \<lambda>r. Some (sub_organization_id r)),
     (''stripeSubscriptionId'', sub_stripe_subscription_id)]"

definition invoice_indexes :: "invoice_row index list" where
  "invoice_indexes = [(''id'', \<lambda>r. Some (inv_id r)),
     (''stripeInvoiceId'', \<lambda>r. Some (inv_stripe_invoice_id r))]"

definition credit_indexes :: "credit_row index list" where
  "credit_indexes = [(''id'', \<lambda>r. Some (cred_id r)),
     (''stripeEventId'', \<lambda>r. Some (cred_stripe_event_id r))]"

interpretation org_by_id: unique_key "\<lambda>r. Some (org_id r)" .
interpretation org_by_customer: unique_key org_stripe_customer_id .
interpretation plan_by_code: unique_key "\<lambda>r. Some (plan_code r)" .
interpretation sub_by_org: unique_key "\<lambda>r. Some (sub_organization_id r)" .
interpretation credit_by_event: unique_key "\<lambda>r. Some (cred_stripe_event_id r)" .

text \<open>What the database guarantees of the billing tables at every moment.\<close>

definition billing_db_ok :: "billing_db \<Rightarrow> bool" where
  "billing_db_ok db \<longleftrightarrow>
     indexes_ok org_indexes (db_orgs db) \<and> indexes_ok plan_indexes (db_plans db) \<and>
     indexes_ok subscription_indexes (db_subscriptions db) \<and>
     indexes_ok invoice_indexes (db_invoices db) \<and> indexes_ok credit_indexes (db_credits db)"

text \<open>
  What an operation takes from outside at the moment it runs: the clock and the fresh identifiers
  (\<open>cuid()\<close>) of the rows it may create, one per table.
\<close>

record billing_env =
  env_now :: ms
  env_plan_id :: string
  env_subscription_id :: string
  env_invoice_id :: string
  env_credit_id :: string

subsection \<open>The plan catalogue\<close>

record plan_defaults =
  def_description :: string
  def_limits :: js_val
  def_monthly_price_cents :: int
  def_name :: string
  def_stripe_price_id :: string
  def_stripe_product_id :: string
  def_yearly_price_cents :: int

definition plan_limits_json ::
    "int \<Rightarrow> int \<Rightarrow> int \<Rightarrow> int \<Rightarrow> (string \<times> js_val) list \<Rightarrow> int \<Rightarrow> int \<Rightarrow> int \<Rightarrow> js_val" where
  "plan_limits_json agents ai_prompts api_requests emails features tokens storage workflows =
     JObj [(''agents'', JNum (Fin (of_int agents))), (''aiPrompts'', JNum (Fin (of_int ai_prompts))),
       (''apiRequests'', JNum (Fin (of_int api_requests))), (''emails'', JNum (Fin (of_int emails))),
       (''features'', JObj features), (''monthlyTokens'', JNum (Fin (of_int tokens))),
       (''storageGb'', JNum (Fin (of_int storage))), (''workflows'', JNum (Fin (of_int workflows)))]"

definition starter_defaults :: plan_defaults where
  "starter_defaults = \<lparr>def_description = ''Plano de entrada para times pequenos.'',
     def_limits = plan_limits_json 5 5000 5000 2500
       [(''advancedAnalytics'', JBool False), (''agents'', JBool True),
        (''customerPortal'', JBool True), (''workflows'', JBool True)] 250000 100 30,
     def_monthly_price_cents = 4900, def_name = ''Starter'',
     def_stripe_price_id = ''price_starter_monthly'', def_stripe_product_id = ''prod_starter'',
     def_yearly_price_cents = 47040\<rparr>"

definition pro_defaults :: plan_defaults where
  "pro_defaults = \<lparr>def_description = ''Plano para opera'' @ [CHR 0xE7, CHR 0xE3] @
       ''o em escala com automa'' @ [CHR 0xE7, CHR 0xF5] @ ''es avan'' @ [CHR 0xE7] @ ''adas.'',
     def_limits = plan_limits_json 25 25000 25000 10000
       [(''advancedAnalytics'', JBool True), (''agents'', JBool True),
        (''customerPortal'', JBool True), (''workflows'', JBool True)] 2500000 500 250,
     def_monthly_price_cents = 14900, def_name = ''Pro'',
     def_stripe_price_id = ''price_pro_monthly'', def_stripe_product_id = ''prod_pro'',
     def_yearly_price_cents = 143040\<rparr>"

definition enterprise_defaults :: plan_defaults where
  "enterprise_defaults = \<lparr>def_description = ''Plano enterprise com limites ilimitados e suporte priorit'' @
       [CHR 0xE1] @ ''rio.'',
     def_limits = plan_limits_json (-1) (-1) (-1) (-1)
       [(''advancedAnalytics'', JBool True), (''agents'', JBool True),
        (''customerPortal'', JBool True), (''prioritySupport'', JBool True),
        (''workflows'', JBool True)] (-1) (-1) (-1),
     def_monthly_price_cents = 49900, def_name = ''Enterprise'',
     def_stripe_price_id = ''price_enterprise_monthly'', def_stripe_product_id = ''prod_enterprise'',
     def_yearly_price_cents = 479040\<rparr>"

definition default_plan :: "string \<Rightarrow> plan_defaults" where
  "default_plan code =
     (if code = ''enterprise'' then enterprise_defaults
      else if code = ''pro'' then pro_defaults
      else starter_defaults)"

definition normalize_plan_code :: "string \<Rightarrow> string" where
  "normalize_plan_code code =
     (let normalized = js_lower (js_trim code)
      in if normalized = ''professional'' then ''pro'' else normalized)"

definition find_plan_by_code :: "string \<Rightarrow> billing_db \<Rightarrow> plan_row option" where
  "find_plan_by_code code db = List.find (\<lambda>p. plan_code p = code) (db_plans db)"

definition set_plans :: "plan_row list \<Rightarrow> billing_db \<Rightarrow> billing_db" where
  "set_plans rows db = db\<lparr>db_plans := rows\<rparr>"

definition set_orgs :: "org_row list \<Rightarrow> billing_db \<Rightarrow> billing_db" where
  "set_orgs rows db = db\<lparr>db_orgs := rows\<rparr>"

definition set_subscriptions :: "subscription_row list \<Rightarrow> billing_db \<Rightarrow> billing_db" where
  "set_subscriptions rows db = db\<lparr>db_subscriptions := rows\<rparr>"

definition set_invoices :: "invoice_row list \<Rightarrow> billing_db \<Rightarrow> billing_db" where
  "set_invoices rows db = db\<lparr>db_invoices := rows\<rparr>"

definition set_credits :: "credit_row list \<Rightarrow> billing_db \<Rightarrow> billing_db" where
  "set_credits rows db = db\<lparr>db_credits := rows\<rparr>"

text \<open>\<open>ensurePlanByCode\<close>: the plan with that code, created from the catalogue when missing.\<close>

definition ensure_plan_by_code :: "billing_env \<Rightarrow> string \<Rightarrow> (billing_db, plan_row) operation" where
  "ensure_plan_by_code env code =
     (let normalized = normalize_plan_code code; defaults = default_plan normalized;
          new = \<lparr>plan_id = env_plan_id env, plan_code = normalized, plan_name = def_name defaults,
                 plan_description = def_description defaults,
                 plan_stripe_product_id = Some (def_stripe_product_id defaults),
                 plan_stripe_price_id = Some (def_stripe_price_id defaults),
                 plan_limits = def_limits defaults,
                 plan_monthly_price_cents = def_monthly_price_cents defaults,
                 plan_yearly_price_cents = Some (def_yearly_price_cents defaults),
                 plan_currency = ''usd'', plan_active = True\<rparr>
      in then_do (ask (find_plan_by_code normalized)) (\<lambda>found. case found of
           Some plan \<Rightarrow> give plan
         | None \<Rightarrow> then_do (on_table db_plans set_plans (create_row plan_indexes new)) (\<lambda>_. give new)))"

end
