(* ===== verification/BillingSnapshot.thy ===== *)
theory BillingSnapshot
  imports BillingDb CacheStore
begin

text \<open>
  The billing state of an organization as the API's guards see it
  (\<open>apps/api/src/modules/billing/service.ts\<close>: \<open>getBillingSnapshot\<close>, \<open>canUseFeature\<close>, the snapshot
  cache) and the checkout ban counter.

  The state is the database and the cache. \<open>JSON.parse\<close> undoes \<open>JSON.stringify\<close> on a snapshot, so
  the cached text is represented by the snapshot it was printed from (\<^theory_text>\<open>SnapshotText\<close>).
\<close>

subsection \<open>Snapshots\<close>

record billing_snapshot =
  snap_credit_balance_cents :: int
  snap_current_period_end :: "ms option"
  snap_grace_period_ends_at :: "ms option"
  snap_hard_locked :: bool
  snap_is_paid :: bool
  snap_is_within_grace_period :: bool
  snap_organization_id :: string
  snap_plan_code :: string
  snap_plan_id :: string
  snap_plan_limits :: js_val
  snap_plan_name :: string
  snap_seconds_until_hard_lock :: "int option"
  snap_status :: "subscription_status option"
  snap_stripe_customer_id :: "string option"
  snap_subscription_id :: "string option"
  snap_tenant_id :: string

datatype cache_text = SnapshotText billing_snapshot | RawText string

record 'r billing_world =
  bw_db :: billing_db
  bw_cache :: "('r, cache_text) cache_state"

definition on_db :: "(billing_db, 'a) operation \<Rightarrow> ('r billing_world, 'a) operation" where
  "on_db m w = (case m (bw_db w) of (r, db) \<Rightarrow> (r, w\<lparr>bw_db := db\<rparr>))"

definition on_cache ::
    "(('r, cache_text) cache_state \<Rightarrow> (cache_error + 'a) \<times> ('r, cache_text) cache_state) \<Rightarrow>
       ('r billing_world, 'a) operation" where
  "on_cache m w = (case m (bw_cache w) of
     (Inr a, c) \<Rightarrow> (Inr a, w\<lparr>bw_cache := c\<rparr>)
   | (Inl CACHE_READ_FAILED, c) \<Rightarrow> (Inl (CacheFailure ''CACHE_READ_FAILED''), w\<lparr>bw_cache := c\<rparr>)
   | (Inl CACHE_WRITE_FAILED, c) \<Rightarrow> (Inl (CacheFailure ''CACHE_WRITE_FAILED''), w\<lparr>bw_cache := c\<rparr>)
   | (Inl CACHE_DELETE_FAILED, c) \<Rightarrow> (Inl (CacheFailure ''CACHE_DELETE_FAILED''), w\<lparr>bw_cache := c\<rparr>)
   | (Inl CACHE_CONFIGURATION_INVALID, c) \<Rightarrow>
       (Inl (CacheFailure ''CACHE_CONFIGURATION_INVALID''), w\<lparr>bw_cache := c\<rparr>))"

definition snapshot_ttl_seconds :: int where
  "snapshot_ttl_seconds = 60"

definition billing_snapshot_cache_key :: "string \<Rightarrow> string" where
  "billing_snapshot_cache_key reference = ''billing:snapshot:'' @ js_lower (js_trim reference)"

definition serialize_billing_snapshot :: "billing_snapshot \<Rightarrow> cache_text" where
  "serialize_billing_snapshot snapshot = SnapshotText snapshot"

text \<open>Only snapshots are written under these keys; other text stands for what does not parse.\<close>

definition parse_billing_snapshot :: "cache_text \<Rightarrow> billing_snapshot option" where
  "parse_billing_snapshot t = (case t of SnapshotText s \<Rightarrow> Some s | RawText _ \<Rightarrow> None)"

text \<open>\<open>Promise.all\<close>: every write is made, and the first failure is the outcome.\<close>

fun write_all ::
    "('r, 'v) redis_client \<Rightarrow> string list \<Rightarrow> 'v \<Rightarrow> int \<Rightarrow> ms \<Rightarrow> ('r, 'v) cache_state \<Rightarrow>
       (cache_error + unit) \<times> ('r, 'v) cache_state" where
  "write_all rc [] v ttl now c = (Inr (), c)"
| "write_all rc (k # ks) v ttl now c =
     (case write_cache_value rc k v ttl now c of (a, c1) \<Rightarrow>
      case write_all rc ks v ttl now c1 of (b, c2) \<Rightarrow>
        (case a of Inl e \<Rightarrow> Inl e | Inr _ \<Rightarrow> b, c2))"

definition cache_billing_snapshot ::
    "('r, cache_text) redis_client \<Rightarrow> ms \<Rightarrow> billing_snapshot \<Rightarrow> string option \<Rightarrow>
       ('r billing_world, unit) operation" where
  "cache_billing_snapshot rc now snapshot extra =
     (let references = js_set ([snap_organization_id snapshot, snap_tenant_id snapshot] @
            (case truthy extra of None \<Rightarrow> [] | Some r \<Rightarrow> [r]))
      in on_cache (write_all rc (map billing_snapshot_cache_key references)
           (serialize_billing_snapshot snapshot) snapshot_ttl_seconds now))"

definition invalidate_billing_snapshot_cache ::
    "('r, cache_text) redis_client \<Rightarrow> ms \<Rightarrow> string option list \<Rightarrow> ('r billing_world, unit) operation" where
  "invalidate_billing_snapshot_cache rc now references =
     on_cache (delete_cache_keys rc
       (js_set (map billing_snapshot_cache_key
          (List.map_filter (\<lambda>r. case r of None \<Rightarrow> None | Some s \<Rightarrow> if js_trim s = [] then None else Some s)
             references))) now)"

definition day_ms :: int where
  "day_ms = 24 * 60 * 60 * 1000"

definition resolve_grace_period_ends_at :: "subscription_row option \<Rightarrow> int \<Rightarrow> ms option" where
  "resolve_grace_period_ends_at subscription days = (case subscription of
     None \<Rightarrow> None
   | Some s \<Rightarrow> (case sub_grace_period_ends_at s of
       Some t \<Rightarrow> Some t
     | None \<Rightarrow> Some (sub_updated_at s + days * day_ms)))"

definition find_organization_by_reference :: "string \<Rightarrow> billing_db \<Rightarrow> org_row option" where
  "find_organization_by_reference reference db =
     List.find (\<lambda>r. org_id r = reference \<or> org_tenant_id r = reference) (db_orgs db)"

definition get_billing_credit_balance_cents :: "string \<Rightarrow> billing_db \<Rightarrow> int" where
  "get_billing_credit_balance_cents oid db =
     sum_list (map cred_amount_cents
       (filter (\<lambda>c. cred_organization_id c = oid \<and> cred_reason c = DOWNGRADE_PRORATION) (db_credits db)))"

text \<open>\<open>orderBy: updatedAt desc, take: 1\<close>.\<close>

fun newest :: "subscription_row list \<Rightarrow> subscription_row option" where
  "newest [] = None"
| "newest (r # rs) = (case newest rs of
     None \<Rightarrow> Some r
   | Some r' \<Rightarrow> if sub_updated_at r < sub_updated_at r' then Some r' else Some r)"

definition latest_subscription :: "string \<Rightarrow> billing_db \<Rightarrow> subscription_row option" where
  "latest_subscription oid db = newest (filter (\<lambda>s. sub_organization_id s = oid) (db_subscriptions db))"

definition find_plan_by_id :: "string \<Rightarrow> billing_db \<Rightarrow> plan_row option" where
  "find_plan_by_id i db = List.find (\<lambda>p. plan_id p = i) (db_plans db)"

text \<open>The plans the query includes: the subscription's, else the organization's.\<close>

definition included_plan :: "org_row \<Rightarrow> subscription_row option \<Rightarrow> billing_db \<Rightarrow> plan_row option" where
  "included_plan org subscription db =
     or_opt (Option.bind subscription (\<lambda>s. find_plan_by_id (sub_plan_id s) db))
       (Option.bind (org_plan_id org) (\<lambda>i. find_plan_by_id i db))"

definition build_snapshot ::
    "ms \<Rightarrow> int \<Rightarrow> org_row \<Rightarrow> subscription_row option \<Rightarrow> plan_row \<Rightarrow> int \<Rightarrow> billing_snapshot" where
  "build_snapshot now days org subscription plan credit =
     (let ends = resolve_grace_period_ends_at subscription days;
          status = map_option sub_status subscription;
          past_due = (status = Some sub_past_due);
          hard_locked = (past_due \<and> (case ends of None \<Rightarrow> False | Some t \<Rightarrow> t \<le> now))
      in \<lparr>snap_credit_balance_cents = credit,
          snap_current_period_end = Option.bind subscription sub_current_period_end,
          snap_grace_period_ends_at = ends,
          snap_hard_locked = hard_locked,
          snap_is_paid = (status = Some sub_active \<or> status = Some sub_past_due \<or> status = Some sub_paused),
          snap_is_within_grace_period = (past_due \<and> ends \<noteq> None \<and> \<not> hard_locked),
          snap_organization_id = org_id org,
          snap_plan_code = plan_code plan, snap_plan_id = plan_id plan,
          snap_plan_limits = plan_limits plan, snap_plan_name = plan_name plan,
          snap_seconds_until_hard_lock =
            (if past_due then map_option (\<lambda>t. max 0 ((t - now) div 1000)) ends else None),
          snap_status = status,
          snap_stripe_customer_id = org_stripe_customer_id org,
          snap_subscription_id = map_option sub_id subscription,
          snap_tenant_id = org_tenant_id org\<rparr>)"

text \<open>The part of \<open>getBillingSnapshot\<close> behind the cache.\<close>

definition load_billing_snapshot ::
    "billing_env \<Rightarrow> int \<Rightarrow> string \<Rightarrow> (billing_db, billing_snapshot) operation" where
  "load_billing_snapshot env days reference =
     then_do (ask (find_organization_by_reference reference)) (\<lambda>found. case found of
       None \<Rightarrow> throw (Problem 404 ''Organization not found for billing context.'')
     | Some org \<Rightarrow>
         then_do (ask (latest_subscription (org_id org))) (\<lambda>subscription.
         then_do (ask (included_plan org subscription)) (\<lambda>included.
         then_do (case included of Some plan \<Rightarrow> give plan | None \<Rightarrow> ensure_plan_by_code env ''starter'') (\<lambda>plan.
         then_do (ask (get_billing_credit_balance_cents (org_id org))) (\<lambda>credit.
           give (build_snapshot (env_now env) days org subscription plan credit))))))"

definition get_billing_snapshot ::
    "('r, cache_text) redis_client \<Rightarrow> billing_env \<Rightarrow> string \<Rightarrow> int \<Rightarrow>
       ('r billing_world, billing_snapshot) operation" where
  "get_billing_snapshot rc env reference days =
     then_do (on_cache (read_cache_value rc (billing_snapshot_cache_key reference) (env_now env))) (\<lambda>cached.
       case Option.bind cached parse_billing_snapshot of
         Some snapshot \<Rightarrow> give snapshot
       | None \<Rightarrow>
           then_do (on_db (load_billing_snapshot env days reference)) (\<lambda>snapshot.
           then_do (cache_billing_snapshot rc (env_now env) snapshot (Some reference)) (\<lambda>_.
             give snapshot)))"

definition can_use_feature ::
    "('r, cache_text) redis_client \<Rightarrow> billing_env \<Rightarrow> string \<Rightarrow> plan_feature \<Rightarrow> int \<Rightarrow>
       ('r billing_world, bool \<times> billing_snapshot) operation" where
  "can_use_feature rc env reference feature days =
     then_do (get_billing_snapshot rc env reference days) (\<lambda>snapshot.
       give (is_plan_feature_enabled (snap_plan_limits snapshot) feature \<and> \<not> snap_hard_locked snapshot,
             snapshot))"

definition get_agent_limit_for_organization ::
    "('r, cache_text) redis_client \<Rightarrow> billing_env \<Rightarrow> string \<Rightarrow> ('r billing_world, js_num) operation" where
  "get_agent_limit_for_organization rc env reference =
     then_do (get_billing_snapshot rc env reference 3) (\<lambda>snapshot.
       give (read_numeric_plan_limit (snap_plan_limits snapshot) ''agents'' (Fin 5)))"

end
