(* ===== verification/BillingWebhooks.thy ===== *)
theory BillingWebhooks
  imports BillingSnapshot
begin

text \<open>
  The five Stripe event handlers of \<open>apps/api/src/modules/billing/service.ts\<close> and
  \<open>processStripeBillingEvent\<close>, over the billing tables.
\<close>

subsection \<open>Stripe objects\<close>

text \<open>
  The fields of the Stripe objects the handlers read. A reference field holds an id or, when the
  request expanded it, the object, of which only the id is read.
\<close>

datatype expandable = RefId string | RefObject string

definition as_id :: "expandable option \<Rightarrow> string option" where
  "as_id x = (case x of Some (RefId i) \<Rightarrow> Some i | _ \<Rightarrow> None)"

definition ref_id :: "expandable option \<Rightarrow> string option" where
  "ref_id x = (case x of None \<Rightarrow> None | Some (RefId i) \<Rightarrow> Some i | Some (RefObject i) \<Rightarrow> Some i)"

record checkout_session =
  cs_customer :: "expandable option"
  cs_expires_at :: "int option"
  cs_meta_organization_id :: "string option"
  cs_meta_plan_id :: "string option"
  cs_subscription :: "expandable option"

record stripe_period =
  per_start :: "int option"
  per_end :: "int option"

record stripe_invoice =
  si_id :: string
  si_amount_due :: int
  si_amount_paid :: int
  si_currency :: string
  si_customer :: "expandable option"
  si_due_date :: "int option"
  si_hosted_invoice_url :: "string option"
  si_invoice_pdf :: "string option"
  si_lines :: "stripe_period option list"
  si_parent_subscription :: "expandable option"
  si_status :: "string option"

record stripe_price =
  price_id :: string
  price_unit_amount :: "int option"
  price_currency :: string

record stripe_item =
  item_current_period_end :: "int option"
  item_plan_amount :: "int option"
  item_price :: "stripe_price option"

record stripe_subscription =
  ss_id :: string
  ss_billing_cycle_anchor :: "int option"
  ss_cancel_at :: "int option"
  ss_canceled_at :: "int option"
  ss_customer :: "expandable option"
  ss_items :: "stripe_item list"
  ss_latest_invoice :: "expandable option"
  ss_proration_credit_cents :: "string option"
  ss_status :: string
  ss_trial_end :: "int option"

datatype stripe_payload =
    CheckoutCompleted checkout_session
  | PaymentSucceeded stripe_invoice
  | PaymentFailed stripe_invoice
  | SubscriptionDeleted stripe_subscription
  | SubscriptionUpdated stripe_subscription "stripe_item list option"
  | OtherPayload

text \<open>
  The event's type decides how the code reads \<open>event.data.object\<close>, so the payload carries it;
  \<open>SubscriptionUpdated\<close> also has \<open>previous_attributes.items.data\<close>.
\<close>

record stripe_event =
  se_id :: string
  se_type :: string
  se_created :: "int option"
  se_payload :: stripe_payload

record event_context =
  ctx_organization_id :: "string option"
  ctx_tenant_id :: "string option"

subsection \<open>Reading the objects\<close>

text \<open>Zero, like null, is no date.\<close>

definition unix_to_date :: "int option \<Rightarrow> ms option" where
  "unix_to_date v = (case v of None \<Rightarrow> None | Some n \<Rightarrow> if n = 0 then None else Some (n * 1000))"

definition map_stripe_subscription_status :: "string \<Rightarrow> subscription_status" where
  "map_stripe_subscription_status status =
     (if status = ''active'' then sub_active
      else if status = ''canceled'' then sub_canceled
      else if status \<in> {''past_due'', ''incomplete'', ''incomplete_expired'', ''unpaid''} then sub_past_due
      else if status = ''paused'' then sub_paused
      else sub_trial)"

definition resolve_organization_by_stripe_customer :: "string \<Rightarrow> billing_db \<Rightarrow> org_row option" where
  "resolve_organization_by_stripe_customer customer db =
     List.find (\<lambda>r. org_stripe_customer_id r = Some customer) (db_orgs db)"

definition resolve_invoice_status :: "string option \<Rightarrow> invoice_status \<Rightarrow> invoice_status" where
  "resolve_invoice_status candidate fallback =
     (if candidate = Some ''draft'' then inv_draft
      else if candidate = Some ''open'' then inv_open
      else if candidate = Some ''paid'' then inv_paid
      else if candidate = Some ''void'' then inv_void
      else if candidate = Some ''uncollectible'' then inv_uncollectible
      else fallback)"

definition resolve_invoice_periods :: "stripe_invoice \<Rightarrow> ms option \<times> ms option" where
  "resolve_invoice_periods invoice = (case si_lines invoice of
     Some period # _ \<Rightarrow> (unix_to_date (per_start period), unix_to_date (per_end period))
   | _ \<Rightarrow> (None, None))"

definition resolve_invoice_subscription_id :: "stripe_invoice \<Rightarrow> string option" where
  "resolve_invoice_subscription_id invoice = ref_id (si_parent_subscription invoice)"

definition resolve_subscription_period_end :: "stripe_subscription \<Rightarrow> ms option" where
  "resolve_subscription_period_end s =
     (case List.map_filter item_current_period_end (ss_items s) of
        [] \<Rightarrow> unix_to_date (or_opt (ss_trial_end s) (or_opt (ss_cancel_at s) (ss_billing_cycle_anchor s)))
      | n # ns \<Rightarrow> unix_to_date (Some (fold max ns n)))"

definition resolve_subscription_item_unit_amount :: "stripe_item option \<Rightarrow> int option" where
  "resolve_subscription_item_unit_amount item = (case item of
     None \<Rightarrow> None
   | Some i \<Rightarrow> (case Option.bind (item_price i) price_unit_amount of
       Some a \<Rightarrow> Some a
     | None \<Rightarrow> item_plan_amount i))"

definition first_of :: "'a list \<Rightarrow> 'a option" where
  "first_of xs = (case xs of [] \<Rightarrow> None | x # _ \<Rightarrow> Some x)"

text \<open>The credit is a number: the metadata may hold a fraction of a cent.\<close>

definition resolve_proration_credit_cents ::
    "stripe_item list option \<Rightarrow> stripe_subscription \<Rightarrow> rat" where
  "resolve_proration_credit_cents previous s =
     (let from_items =
        (case (resolve_subscription_item_unit_amount (Option.bind previous first_of),
               resolve_subscription_item_unit_amount (first_of (ss_items s))) of
           (Some before, Some current) \<Rightarrow> if current < before then of_int (before - current) else 0
         | _ \<Rightarrow> 0)
      in case js_number (or_else (ss_proration_credit_cents s) []) of
           Fin q \<Rightarrow> if 0 < q then q else from_items
         | _ \<Rightarrow> from_items)"

subsection \<open>Writing the tables\<close>

text \<open>
  \<open>createDowngradeProrationCredit\<close>. The column is an integer: the client refuses a fraction before
  it reaches the database. A second credit for the same Stripe event clashes; the code catches that
  and goes on, but Postgres has aborted the transaction the event is processed in and refuses its
  next statement, the one that marks the event as processed: the throw here stands for that one.
\<close>

definition create_downgrade_proration_credit ::
    "billing_env \<Rightarrow> rat \<Rightarrow> string \<Rightarrow> string \<Rightarrow> string \<Rightarrow> string option \<Rightarrow> string option \<Rightarrow> string \<Rightarrow>
       (billing_db, unit) operation" where
  "create_downgrade_proration_credit env amount currency oid event_id invoice_id sid tenant db =
     (if amount \<le> 0 then (Inr (), db)
      else if of_int \<lfloor>amount\<rfloor> \<noteq> amount then (Inl (Database (ValidationError ''amountCents'')), db)
      else case on_table db_credits set_credits (create_row credit_indexes
             \<lparr>cred_id = env_credit_id env, cred_tenant_id = tenant, cred_organization_id = oid,
              cred_subscription_id = truthy sid, cred_stripe_event_id = event_id,
              cred_stripe_invoice_id = truthy invoice_id, cred_amount_cents = \<lfloor>amount\<rfloor>,
              cred_currency = currency, cred_reason = DOWNGRADE_PRORATION\<rparr>) db of
          (Inl (Database (P2002 _)), db') \<Rightarrow> (Inl (External ''current transaction is aborted''), db')
        | outcome \<Rightarrow> outcome)"

definition build_invoice_create_data ::
    "billing_env \<Rightarrow> invoice_status \<Rightarrow> stripe_invoice \<Rightarrow> string \<Rightarrow> string \<Rightarrow> string \<Rightarrow> invoice_row" where
  "build_invoice_create_data env fallback invoice oid sid tenant =
     (case resolve_invoice_periods invoice of (period_start, period_end) \<Rightarrow>
       \<lparr>inv_id = env_invoice_id env, inv_tenant_id = tenant, inv_organization_id = oid,
        inv_subscription_id = Some sid, inv_stripe_invoice_id = si_id invoice,
        inv_status = resolve_invoice_status (si_status invoice) fallback,
        inv_currency = si_currency invoice, inv_amount_due_cents = si_amount_due invoice,
        inv_amount_paid_cents = si_amount_paid invoice,
        inv_hosted_invoice_url = si_hosted_invoice_url invoice,
        inv_invoice_pdf_url = si_invoice_pdf invoice, inv_due_date = unix_to_date (si_due_date invoice),
        inv_period_start = period_start, inv_period_end = period_end, inv_created_at = env_now env\<rparr>)"

definition build_invoice_update_data ::
    "stripe_invoice \<Rightarrow> invoice_status \<Rightarrow> invoice_row \<Rightarrow> invoice_row" where
  "build_invoice_update_data invoice fallback row =
     (case resolve_invoice_periods invoice of (period_start, period_end) \<Rightarrow>
       row\<lparr>inv_amount_due_cents := si_amount_due invoice,
           inv_amount_paid_cents := si_amount_paid invoice,
           inv_due_date := unix_to_date (si_due_date invoice),
           inv_hosted_invoice_url := si_hosted_invoice_url invoice,
           inv_invoice_pdf_url := si_invoice_pdf invoice,
           inv_period_end := period_end, inv_period_start := period_start,
           inv_status := resolve_invoice_status (si_status invoice) fallback\<rparr>)"

text \<open>\<open>invoice.upsert\<close> by the Stripe invoice id.\<close>

definition upsert_invoice ::
    "billing_env \<Rightarrow> invoice_status \<Rightarrow> stripe_invoice \<Rightarrow> string \<Rightarrow> string \<Rightarrow> string \<Rightarrow>
       (billing_db, unit) operation" where
  "upsert_invoice env fallback invoice oid sid tenant =
     on_table db_invoices set_invoices (\<lambda>rows.
       if \<exists>r \<in> set rows. inv_stripe_invoice_id r = si_id invoice
       then update_many invoice_indexes (\<lambda>r. inv_stripe_invoice_id r = si_id invoice)
              (build_invoice_update_data invoice fallback) rows
       else create_row invoice_indexes
              (build_invoice_create_data env fallback invoice oid sid tenant) rows)"

text \<open>\<open>organization.update\<close> by id.\<close>

definition update_organization ::
    "string \<Rightarrow> (org_row \<Rightarrow> org_row) \<Rightarrow> (billing_db, unit) operation" where
  "update_organization oid f =
     on_table db_orgs set_orgs (update_unique ''organization'' org_indexes (\<lambda>r. org_id r = oid) f)"

text \<open>\<open>subscription.update\<close> by id, \<open>subscription.updateMany\<close> by organization; both stamp \<open>updatedAt\<close>.\<close>

definition update_subscription ::
    "billing_env \<Rightarrow> string \<Rightarrow> (subscription_row \<Rightarrow> subscription_row) \<Rightarrow> (billing_db, unit) operation" where
  "update_subscription env sid f =
     on_table db_subscriptions set_subscriptions
       (update_unique ''subscription'' subscription_indexes (\<lambda>r. sub_id r = sid)
          (\<lambda>r. (f r)\<lparr>sub_updated_at := env_now env\<rparr>))"

definition update_subscriptions_of ::
    "billing_env \<Rightarrow> string \<Rightarrow> (subscription_row \<Rightarrow> subscription_row) \<Rightarrow> (billing_db, unit) operation" where
  "update_subscriptions_of env oid f =
     on_table db_subscriptions set_subscriptions
       (update_many subscription_indexes (\<lambda>r. sub_organization_id r = oid)
          (\<lambda>r. (f r)\<lparr>sub_updated_at := env_now env\<rparr>))"

text \<open>
  \<open>ensureSubscriptionForOrganization\<close>: an upsert by organization. The callers always pass the
  period end and the Stripe subscription id, possibly null, so the update writes both.
\<close>

definition ensure_subscription_for_organization ::
    "billing_env \<Rightarrow> ms option \<Rightarrow> string \<Rightarrow> string \<Rightarrow> string \<Rightarrow> string option \<Rightarrow>
       (billing_db, string) operation" where
  "ensure_subscription_for_organization env period_end oid pid customer stripe_sub =
     then_do (ask (\<lambda>db. List.find (\<lambda>r. org_id r = oid) (db_orgs db))) (\<lambda>found. case found of
       None \<Rightarrow> throw (Problem 404 ''Organization not found while syncing subscription.'')
     | Some org \<Rightarrow>
         then_do (ask (\<lambda>db. List.find (\<lambda>r. sub_organization_id r = org_id org) (db_subscriptions db)))
           (\<lambda>existing. case existing of
             Some row \<Rightarrow>
               then_do (update_subscriptions_of env (org_id org) (\<lambda>r.
                 r\<lparr>sub_plan_id := pid, sub_status := sub_active, sub_stripe_customer_id := Some customer,
                   sub_current_period_end := period_end, sub_stripe_subscription_id := stripe_sub\<rparr>))
                 (\<lambda>_. give (sub_id row))
           | None \<Rightarrow>
               then_do (on_table db_subscriptions set_subscriptions (create_row subscription_indexes
                 \<lparr>sub_id = env_subscription_id env, sub_tenant_id = org_tenant_id org,
                  sub_organization_id = org_id org, sub_plan_id = pid,
                  sub_stripe_subscription_id = stripe_sub, sub_stripe_customer_id = Some customer,
                  sub_status = sub_active, sub_current_period_end = period_end,
                  sub_canceled_at = None, sub_grace_period_ends_at = None,
                  sub_updated_at = env_now env\<rparr>))
                 (\<lambda>_. give (env_subscription_id env))))"

subsection \<open>The handlers\<close>

definition context_of :: "org_row \<Rightarrow> event_context" where
  "context_of org = \<lparr>ctx_organization_id = Some (org_id org), ctx_tenant_id = Some (org_tenant_id org)\<rparr>"

definition find_checkout_organization :: "checkout_session \<Rightarrow> billing_db \<Rightarrow> org_row option" where
  "find_checkout_organization session db =
     or_opt
       (Option.bind (truthy (cs_meta_organization_id session))
          (\<lambda>i. List.find (\<lambda>r. org_id r = i) (db_orgs db)))
       (Option.bind (truthy (as_id (cs_customer session)))
          (\<lambda>c. resolve_organization_by_stripe_customer c db))"

definition handle_checkout_session_completed ::
    "billing_env \<Rightarrow> checkout_session \<Rightarrow> (billing_db, event_context) operation" where
  "handle_checkout_session_completed env session =
     (let customer = as_id (cs_customer session)
      in then_do (ask (find_checkout_organization session)) (\<lambda>found. case found of
           None \<Rightarrow> throw (Problem 404 ''Organization not found for checkout.session.completed event.'')
         | Some org \<Rightarrow>
             then_do (ensure_plan_by_code env ''starter'') (\<lambda>fallback.
             then_do (ask (\<lambda>db. Option.bind (truthy (cs_meta_plan_id session))
                 (\<lambda>i. find_plan_by_id i db))) (\<lambda>plan.
             let pid = or_else (or_opt (map_option plan_id plan) (org_plan_id org)) (plan_id fallback);
                 stripe_sub = as_id (cs_subscription session);
                 org_customer = or_opt customer (org_stripe_customer_id org)
             in then_do (update_organization (org_id org) (\<lambda>r.
                    r\<lparr>org_plan_id := Some pid, org_stripe_customer_id := org_customer\<rparr>)) (\<lambda>_.
                then_do (ensure_subscription_for_organization env (unix_to_date (cs_expires_at session))
                    (org_id org) pid (or_else org_customer []) stripe_sub) (\<lambda>_.
                  give (context_of org)))))))"

text \<open>The organization an invoice or a subscription belongs to.\<close>

definition customer_organization ::
    "string \<Rightarrow> string \<Rightarrow> expandable option \<Rightarrow> (billing_db, string \<times> org_row) operation" where
  "customer_organization object_name event_name customer =
     (case truthy (as_id customer) of
        None \<Rightarrow> throw (Problem 400 (''Stripe '' @ object_name @ '' is missing customer id.''))
      | Some c \<Rightarrow>
          then_do (ask (resolve_organization_by_stripe_customer c)) (\<lambda>found. case found of
            None \<Rightarrow> throw (Problem 404 (''Organization not found for '' @ event_name @ '' event.''))
          | Some org \<Rightarrow> give (c, org)))"

text \<open>\<open>organization.planId ?? (await ensurePlanByCode("starter", db)).id\<close>.\<close>

definition organization_plan_id :: "billing_env \<Rightarrow> org_row \<Rightarrow> (billing_db, string) operation" where
  "organization_plan_id env org = (case org_plan_id org of
     Some pid \<Rightarrow> give pid
   | None \<Rightarrow> then_do (ensure_plan_by_code env ''starter'') (\<lambda>p. give (plan_id p)))"

definition handle_invoice_payment_succeeded ::
    "billing_env \<Rightarrow> stripe_invoice \<Rightarrow> (billing_db, event_context) operation" where
  "handle_invoice_payment_succeeded env invoice =
     then_do (customer_organization ''invoice'' ''invoice.payment_succeeded'' (si_customer invoice))
       (\<lambda>(customer, org).
     then_do (organization_plan_id env org) (\<lambda>pid.
     then_do (ensure_subscription_for_organization env (snd (resolve_invoice_periods invoice))
         (org_id org) pid customer (resolve_invoice_subscription_id invoice)) (\<lambda>sid.
     then_do (update_subscription env sid (\<lambda>r.
         r\<lparr>sub_current_period_end := snd (resolve_invoice_periods invoice),
           sub_grace_period_ends_at := None, sub_status := sub_active\<rparr>)) (\<lambda>_.
     then_do (upsert_invoice env inv_paid invoice (org_id org) sid (org_tenant_id org)) (\<lambda>_.
       give (context_of org))))))"

definition handle_invoice_payment_failed ::
    "int \<Rightarrow> billing_env \<Rightarrow> stripe_invoice \<Rightarrow> (billing_db, event_context) operation" where
  "handle_invoice_payment_failed grace_days env invoice =
     then_do (customer_organization ''invoice'' ''invoice.payment_failed'' (si_customer invoice))
       (\<lambda>(customer, org).
     then_do (organization_plan_id env org) (\<lambda>pid.
     then_do (ensure_subscription_for_organization env (snd (resolve_invoice_periods invoice))
         (org_id org) pid customer (resolve_invoice_subscription_id invoice)) (\<lambda>sid.
     then_do (update_subscription env sid (\<lambda>r.
         r\<lparr>sub_grace_period_ends_at := Some (env_now env + grace_days * day_ms),
           sub_status := sub_past_due\<rparr>)) (\<lambda>_.
     then_do (upsert_invoice env inv_past_due invoice (org_id org) sid (org_tenant_id org)) (\<lambda>_.
       give (context_of org))))))"

definition handle_customer_subscription_deleted ::
    "billing_env \<Rightarrow> stripe_subscription \<Rightarrow> (billing_db, event_context) operation" where
  "handle_customer_subscription_deleted env subscription =
     then_do (customer_organization ''subscription'' ''customer.subscription.deleted''
         (ss_customer subscription)) (\<lambda>(customer, org).
     then_do (ensure_plan_by_code env ''starter'') (\<lambda>starter.
     then_do (update_organization (org_id org) (\<lambda>r. r\<lparr>org_plan_id := Some (plan_id starter)\<rparr>)) (\<lambda>_.
     then_do (update_subscriptions_of env (org_id org) (\<lambda>r.
         r\<lparr>sub_canceled_at := Some (env_now env), sub_plan_id := plan_id starter,
           sub_status := sub_canceled, sub_stripe_subscription_id := Some (ss_id subscription)\<rparr>)) (\<lambda>_.
       give (context_of org)))))"

definition handle_customer_subscription_updated ::
    "billing_env \<Rightarrow> string \<Rightarrow> stripe_subscription \<Rightarrow> stripe_item list option \<Rightarrow>
       (billing_db, event_context) operation" where
  "handle_customer_subscription_updated env event_id subscription previous =
     then_do (customer_organization ''subscription'' ''customer.subscription.updated''
         (ss_customer subscription)) (\<lambda>(customer, org).
     let price = Option.bind (first_of (ss_items subscription)) item_price;
         period_end = resolve_subscription_period_end subscription
     in then_do (ask (\<lambda>db. Option.bind (truthy (map_option price_id price))
            (\<lambda>i. List.find (\<lambda>p. plan_stripe_price_id p = Some i) (db_plans db)))) (\<lambda>mapped.
        then_do (case mapped of Some p \<Rightarrow> give (plan_id p) | None \<Rightarrow> organization_plan_id env org) (\<lambda>pid.
        then_do (update_organization (org_id org) (\<lambda>r. r\<lparr>org_plan_id := Some pid\<rparr>)) (\<lambda>_.
        then_do (ensure_subscription_for_organization env period_end (org_id org) pid customer
            (Some (ss_id subscription))) (\<lambda>sid.
        then_do (update_subscriptions_of env (org_id org) (\<lambda>r.
            r\<lparr>sub_canceled_at := unix_to_date (ss_canceled_at subscription),
              sub_current_period_end := period_end,
              sub_status := map_stripe_subscription_status (ss_status subscription)\<rparr>)) (\<lambda>_.
        then_do (create_downgrade_proration_credit env
            (resolve_proration_credit_cents previous subscription)
            (or_else (or_opt (map_option price_currency price) (map_option plan_currency mapped)) ''usd'')
            (org_id org) event_id (ref_id (ss_latest_invoice subscription)) (Some sid)
            (org_tenant_id org)) (\<lambda>_.
          give (context_of org))))))))"

definition process_stripe_billing_event ::
    "int \<Rightarrow> billing_env \<Rightarrow> stripe_event \<Rightarrow> (billing_db, event_context) operation" where
  "process_stripe_billing_event grace_days env event = (case se_payload event of
     CheckoutCompleted session \<Rightarrow> handle_checkout_session_completed env session
   | PaymentSucceeded invoice \<Rightarrow> handle_invoice_payment_succeeded env invoice
   | PaymentFailed invoice \<Rightarrow> handle_invoice_payment_failed grace_days env invoice
   | SubscriptionDeleted subscription \<Rightarrow> handle_customer_subscription_deleted env subscription
   | SubscriptionUpdated subscription previous \<Rightarrow>
       handle_customer_subscription_updated env (se_id event) subscription previous
   | OtherPayload \<Rightarrow> give \<lparr>ctx_organization_id = None, ctx_tenant_id = None\<rparr>)"

subsection \<open>What each step writes\<close>

lemmas set_table_defs = set_plans_def set_orgs_def set_subscriptions_def set_invoices_def set_credits_def

lemma find_key_eq: "List.find P rows = Some r \<Longrightarrow> r \<in> set rows \<and> P r"
  by (rule find_Some_iff_mem)

lemma sub_unique:
  "indexes_ok subscription_indexes rows \<Longrightarrow> sub_by_org.unique rows"
  using indexes_ok_unique[of subscription_indexes rows "''organizationId''"]
  by (simp add: subscription_indexes_def)

lemma latest_subscription_eq:
  assumes "indexes_ok subscription_indexes (db_subscriptions db)"
    and "s \<in> set (db_subscriptions db)" and "sub_organization_id s = oid"
  shows "latest_subscription oid db = Some s"
proof -
  have "filter (\<lambda>x. Some (sub_organization_id x) = Some oid) (db_subscriptions db) = [s]"
    by (rule sub_by_org.unique_filter[OF sub_unique[OF assms(1)] assms(2)]) (simp add: assms(3))
  then show ?thesis by (simp add: latest_subscription_def)
qed

lemma latest_subscription_mem:
  "latest_subscription oid db = Some s \<Longrightarrow>
     s \<in> set (db_subscriptions db) \<and> sub_organization_id s = oid"
proof -
  have "newest rows = Some s \<Longrightarrow> s \<in> set rows" for rows
    by (induction rows) (auto split: option.splits if_splits)
  then show "latest_subscription oid db = Some s \<Longrightarrow> ?thesis"
    by (fastforce simp: latest_subscription_def)
qed

text \<open>\<open>ensurePlanByCode\<close> touches nothing but the plans.\<close>

lemma ensure_plan_by_code_Inr:
  assumes "ensure_plan_by_code env code db = (Inr p, db')"
  shows "plan_code p = normalize_plan_code code \<and> p \<in> set (db_plans db') \<and>
    (\<exists>new. db' = db\<lparr>db_plans := db_plans db @ new\<rparr>)"
  using assms unfolding ensure_plan_by_code_def Let_def
  by (cases "find_plan_by_code (normalize_plan_code code) db")
    (auto simp: create_row_Inr set_table_defs find_plan_by_code_def dest!: find_key_eq
      intro: exI[of _ "[]"])

lemma organization_plan_id_Inr:
  assumes "organization_plan_id env org db = (Inr pid, db')"
  shows "\<exists>new. db' = db\<lparr>db_plans := db_plans db @ new\<rparr>"
proof (cases "org_plan_id org")
  case None
  then show ?thesis using assms ensure_plan_by_code_Inr
    by (fastforce simp: organization_plan_id_def)
next
  case (Some pid)
  then show ?thesis using assms by (auto simp: organization_plan_id_def intro: exI[of _ "[]"])
qed

lemma find_organization_id:
  assumes "billing_db_ok db" and "org \<in> set (db_orgs db)"
  shows "List.find (\<lambda>r. org_id r = org_id org) (db_orgs db) = Some org"
proof -
  have "org_by_id.unique (db_orgs db)"
    using assms(1) indexes_ok_unique[of org_indexes _ "''id''"]
    by (simp add: billing_db_ok_def org_indexes_def)
  from org_by_id.unique_find[OF this assms(2)] show ?thesis by simp
qed

text \<open>
  The row \<open>ensureSubscriptionForOrganization\<close> leaves for an organization; the rows of every other
  organization, and every other table, stay as they were.
\<close>

definition only_subscription_of :: "string \<Rightarrow> subscription_row \<Rightarrow> billing_db \<Rightarrow> billing_db \<Rightarrow> bool" where
  "only_subscription_of oid s db db' \<longleftrightarrow>
     s \<in> set (db_subscriptions db') \<and> sub_organization_id s = oid \<and>
     indexes_ok subscription_indexes (db_subscriptions db') \<and>
     filter (\<lambda>r. sub_organization_id r \<noteq> oid) (db_subscriptions db') =
       filter (\<lambda>r. sub_organization_id r \<noteq> oid) (db_subscriptions db) \<and>
     db' = db\<lparr>db_subscriptions := db_subscriptions db'\<rparr>"

lemma ensure_subscription_Inr:
  assumes "billing_db_ok db"
    and "ensure_subscription_for_organization env pe oid pid customer stripe_sub db = (Inr sid, db')"
  shows "\<exists>s. only_subscription_of oid s db db' \<and> sub_id s = sid \<and> sub_status s = sub_active \<and>
    sub_plan_id s = pid \<and> sub_stripe_subscription_id s = stripe_sub \<and>
    sub_current_period_end s = pe \<and> sub_stripe_customer_id s = Some customer \<and>
    sub_updated_at s = env_now env \<and>
    sub_grace_period_ends_at s = Option.bind (latest_subscription oid db) sub_grace_period_ends_at"
proof -
  have ok: "indexes_ok subscription_indexes (db_subscriptions db)"
    using assms(1) by (simp add: billing_db_ok_def)
  obtain org where org: "List.find (\<lambda>r. org_id r = oid) (db_orgs db) = Some org"
    using assms(2) by (auto simp: ensure_subscription_for_organization_def split: option.splits)
  then have oid: "org_id org = oid" using find_key_eq by fastforce
  show ?thesis
  proof (cases "List.find (\<lambda>r. sub_organization_id r = oid) (db_subscriptions db)")
    case None
    then have none: "latest_subscription oid db = None"
      using latest_subscription_mem[of oid db] find_None_D[OF None]
      by (cases "latest_subscription oid db") auto
    let ?s = "\<lparr>sub_id = env_subscription_id env, sub_tenant_id = org_tenant_id org,
      sub_organization_id = oid, sub_plan_id = pid, sub_stripe_subscription_id = stripe_sub,
      sub_stripe_customer_id = Some customer, sub_status = sub_active, sub_current_period_end = pe,
      sub_canceled_at = None, sub_grace_period_ends_at = None, sub_updated_at = env_now env\<rparr>"
    have "sid = env_subscription_id env"
      and "indexes_ok subscription_indexes (db_subscriptions db @ [?s])"
      and "db' = db\<lparr>db_subscriptions := db_subscriptions db @ [?s]\<rparr>"
      using assms(2) org None
      by (simp_all add: ensure_subscription_for_organization_def oid create_row_Inr set_table_defs)
    then show ?thesis
      by (intro exI[of _ ?s]) (simp add: only_subscription_of_def none)
  next
    case (Some row)
    then have row: "row \<in> set (db_subscriptions db)" "sub_organization_id row = oid"
      using find_key_eq by fastforce+
    note latest = latest_subscription_eq[OF ok row]
    let ?f = "\<lambda>r. r\<lparr>sub_plan_id := pid, sub_status := sub_active,
      sub_stripe_customer_id := Some customer, sub_current_period_end := pe,
      sub_stripe_subscription_id := stripe_sub, sub_updated_at := env_now env\<rparr>"
    let ?rows = "update_where (\<lambda>r. sub_organization_id r = oid) ?f (db_subscriptions db)"
    have "sid = sub_id row" and "indexes_ok subscription_indexes ?rows"
      and "db' = db\<lparr>db_subscriptions := ?rows\<rparr>"
      using assms(2) org Some
      by (simp_all add: ensure_subscription_for_organization_def oid update_subscriptions_of_def
          update_many_Inr set_table_defs)
    moreover have "?f row \<in> set ?rows"
      using row by (auto simp: set_update_where)
    moreover have "filter (\<lambda>r. sub_organization_id r \<noteq> oid) ?rows =
        filter (\<lambda>r. sub_organization_id r \<noteq> oid) (db_subscriptions db)"
      by (rule filter_update_where_frame) auto
    ultimately show ?thesis
      using row by (intro exI[of _ "?f row"]) (simp add: only_subscription_of_def latest)
  qed
qed

text \<open>Updates that keep the identity of a row keep its place.\<close>

definition same_owner :: "(subscription_row \<Rightarrow> subscription_row) \<Rightarrow> bool" where
  "same_owner f \<longleftrightarrow> (\<forall>r. sub_id (f r) = sub_id r \<and> sub_organization_id (f r) = sub_organization_id r)"

lemma only_subscription_id:
  assumes "only_subscription_of oid s db db'" and "r \<in> set (db_subscriptions db')"
    and "sub_id r = sub_id s"
  shows "r = s"
proof -
  have "unique_key.unique (\<lambda>r. Some (sub_id r)) (db_subscriptions db')"
    using assms(1) indexes_ok_unique[of subscription_indexes _ "''id''"]
    by (simp add: only_subscription_of_def subscription_indexes_def)
  from unique_key.unique_eq[OF this] assms show ?thesis
    by (simp add: only_subscription_of_def)
qed

lemma only_subscription_org:
  assumes "only_subscription_of oid s db db'" and "r \<in> set (db_subscriptions db')"
    and "sub_organization_id r = oid"
  shows "r = s"
proof -
  have "latest_subscription oid db' = Some r" "latest_subscription oid db' = Some s"
    using assms by (auto simp: only_subscription_of_def intro: latest_subscription_eq)
  then show ?thesis by simp
qed

lemma subscriptions_replaced_twice:
  "db1 = db\<lparr>db_subscriptions := a\<rparr> \<Longrightarrow> db2 = db1\<lparr>db_subscriptions := b\<rparr> \<Longrightarrow>
     db2 = db\<lparr>db_subscriptions := b\<rparr>"
  by simp

lemma update_subscription_Inr:
  assumes only: "only_subscription_of oid s db db1" and "same_owner f"
    and upd: "update_subscription env (sub_id s) f db1 = (Inr u, db2)"
  shows "only_subscription_of oid ((f s)\<lparr>sub_updated_at := env_now env\<rparr>) db db2"
proof -
  let ?P = "\<lambda>r. sub_id r = sub_id s" and ?f = "\<lambda>r. (f r)\<lparr>sub_updated_at := env_now env\<rparr>"
  have rows: "db_subscriptions db2 = update_where ?P ?f (db_subscriptions db1)"
    and ok: "indexes_ok subscription_indexes (db_subscriptions db2)"
    and db2: "db2 = db1\<lparr>db_subscriptions := db_subscriptions db2\<rparr>"
    using upd by (auto simp: update_subscription_def update_unique_Inr set_table_defs)
  have "filter (\<lambda>r. sub_organization_id r \<noteq> oid) (update_where ?P ?f (db_subscriptions db1)) =
      filter (\<lambda>r. sub_organization_id r \<noteq> oid) (update_where (\<lambda>_. False) ?f (db_subscriptions db1))"
  proof -
    have "update_where ?P ?f (db_subscriptions db1) =
        update_where (\<lambda>r. r = s) ?f (db_subscriptions db1)"
      using only_subscription_id[OF only] by (auto simp: update_where_def)
    moreover have "filter (\<lambda>r. sub_organization_id r \<noteq> oid)
        (update_where (\<lambda>r. r = s) ?f (db_subscriptions db1)) =
        filter (\<lambda>r. sub_organization_id r \<noteq> oid) (db_subscriptions db1)"
      using only \<open>same_owner f\<close>
      by (intro filter_update_where_frame) (auto simp: only_subscription_of_def same_owner_def)
    ultimately show ?thesis by (simp add: update_where_id)
  qed
  then have frame: "filter (\<lambda>r. sub_organization_id r \<noteq> oid) (db_subscriptions db2) =
      filter (\<lambda>r. sub_organization_id r \<noteq> oid) (db_subscriptions db)"
    using only rows by (simp add: update_where_id only_subscription_of_def)
  have "db2 = db\<lparr>db_subscriptions := db_subscriptions db2\<rparr>"
    using only db2 subscriptions_replaced_twice unfolding only_subscription_of_def by blast
  then show ?thesis
    using only ok frame rows \<open>same_owner f\<close>
    by (auto simp: only_subscription_of_def same_owner_def set_update_where)
qed

lemma update_subscriptions_of_Inr:
  assumes only: "only_subscription_of oid s db db1" and "same_owner f"
    and upd: "update_subscriptions_of env oid f db1 = (Inr u, db2)"
  shows "only_subscription_of oid ((f s)\<lparr>sub_updated_at := env_now env\<rparr>) db db2"
proof -
  let ?P = "\<lambda>r. sub_organization_id r = oid" and ?f = "\<lambda>r. (f r)\<lparr>sub_updated_at := env_now env\<rparr>"
  have rows: "db_subscriptions db2 = update_where ?P ?f (db_subscriptions db1)"
    and ok: "indexes_ok subscription_indexes (db_subscriptions db2)"
    and db2: "db2 = db1\<lparr>db_subscriptions := db_subscriptions db2\<rparr>"
    using upd by (auto simp: update_subscriptions_of_def update_many_Inr set_table_defs)
  have "filter (\<lambda>r. sub_organization_id r \<noteq> oid) (db_subscriptions db2) =
      filter (\<lambda>r. sub_organization_id r \<noteq> oid) (db_subscriptions db1)"
    unfolding rows using \<open>same_owner f\<close>
    by (intro filter_update_where_frame) (auto simp: same_owner_def)
  moreover have "db2 = db\<lparr>db_subscriptions := db_subscriptions db2\<rparr>"
    using only db2 subscriptions_replaced_twice unfolding only_subscription_of_def by blast
  ultimately show ?thesis
    using only ok rows \<open>same_owner f\<close>
    by (auto simp: only_subscription_of_def same_owner_def set_update_where)
qed

end
