(* ===== verification/BillingCorrect.thy ===== *)
theory BillingCorrect
  imports BillingWebhooks
begin

text \<open>
  What the Stripe handlers do to an organization's billing state: the tables keep their unique
  indexes; one event changes one organization only; a failed payment opens a grace window and a
  hard lock after it, a successful one closes both.
\<close>

subsection \<open>The unique indexes hold\<close>

lemma keeps_ensure_plan: "keeps billing_db_ok (ensure_plan_by_code env code)"
  unfolding ensure_plan_by_code_def Let_def
  by (auto intro!: keeps_case_option keeps_then_do keeps_on_table
      simp: billing_db_ok_def set_plans_def create_row_Inr)

lemma keeps_organization_plan_id: "keeps billing_db_ok (organization_plan_id env org)"
  unfolding organization_plan_id_def
  by (auto intro!: keeps_case_option keeps_then_do keeps_ensure_plan)

lemma keeps_update_organization: "keeps billing_db_ok (update_organization oid f)"
  unfolding update_organization_def
  by (auto intro!: keeps_on_table simp: billing_db_ok_def set_orgs_def update_unique_Inr)

lemma keeps_update_subscription: "keeps billing_db_ok (update_subscription env sid f)"
  unfolding update_subscription_def
  by (auto intro!: keeps_on_table simp: billing_db_ok_def set_subscriptions_def update_unique_Inr)

lemma keeps_update_subscriptions_of: "keeps billing_db_ok (update_subscriptions_of env oid f)"
  unfolding update_subscriptions_of_def
  by (auto intro!: keeps_on_table simp: billing_db_ok_def set_subscriptions_def update_many_Inr)

lemma keeps_ensure_subscription:
  "keeps billing_db_ok (ensure_subscription_for_organization env pe oid pid customer stripe_sub)"
  unfolding ensure_subscription_for_organization_def
  by (auto intro!: keeps_case_option keeps_then_do keeps_on_table keeps_update_subscriptions_of
      simp: billing_db_ok_def set_subscriptions_def create_row_Inr)

lemma keeps_upsert_invoice: "keeps billing_db_ok (upsert_invoice env fb invoice oid sid tenant)"
  unfolding upsert_invoice_def
  by (auto intro!: keeps_on_table simp: billing_db_ok_def set_invoices_def create_row_Inr
      update_many_Inr split: if_splits)

lemma keeps_customer_organization: "keeps billing_db_ok (customer_organization a b c)"
  unfolding customer_organization_def
  by (auto intro!: keeps_case_option keeps_then_do)

lemma create_credit_cases:
  obtains "create_downgrade_proration_credit env amount currency oid ev iid sid tenant db = (Inr (), db)"
  | e where "create_downgrade_proration_credit env amount currency oid ev iid sid tenant db = (Inl e, db)"
  | rows where "create_downgrade_proration_credit env amount currency oid ev iid sid tenant db =
       (Inr (), db\<lparr>db_credits := rows\<rparr>)"
      and "\<exists>r. rows = db_credits db @ [r] \<and> cred_stripe_event_id r = ev \<and>
        cred_organization_id r = oid \<and> cred_reason r = DOWNGRADE_PRORATION \<and>
        cred_amount_cents r = \<lfloor>amount\<rfloor> \<and> 0 < amount"
      and "indexes_ok credit_indexes rows"
proof -
  let ?r = "\<lparr>cred_id = env_credit_id env, cred_tenant_id = tenant, cred_organization_id = oid,
    cred_subscription_id = truthy sid, cred_stripe_event_id = ev,
    cred_stripe_invoice_id = truthy iid, cred_amount_cents = \<lfloor>amount\<rfloor>,
    cred_currency = currency, cred_reason = DOWNGRADE_PRORATION\<rparr>"
  consider "amount \<le> 0" | "0 < amount" "of_int \<lfloor>amount\<rfloor> \<noteq> amount"
    | "0 < amount" "of_int \<lfloor>amount\<rfloor> = amount" by fastforce
  then show thesis
  proof cases
    case 1
    then show thesis by (intro that(1)) (simp add: create_downgrade_proration_credit_def)
  next
    case 2
    then have "\<not> amount \<le> 0" by simp
    with 2 show thesis
      by (intro that(2)) (simp add: create_downgrade_proration_credit_def)
  next
    case 3
    then have False': "\<not> amount \<le> 0" "(of_int \<lfloor>amount\<rfloor> \<noteq> amount) = False" by simp_all
    show thesis
    proof (cases "create_row credit_indexes ?r (db_credits db)")
      case (Inl e)
      obtain n where "e = P2002 n" using commit_rows_Inl[OF Inl[unfolded create_row_def]] by blast
      with Inl have "create_downgrade_proration_credit env amount currency oid ev iid sid tenant db =
          (Inl (External ''current transaction is aborted''), db)"
        using 3(1) unfolding create_downgrade_proration_credit_def False' by (simp add: on_table_def)
      then show thesis by (rule that(2))
    next
      case (Inr rows)
      then have rows: "rows = db_credits db @ [?r]" "indexes_ok credit_indexes rows"
        by (auto simp: create_row_Inr)
      have "create_downgrade_proration_credit env amount currency oid ev iid sid tenant db =
          (Inr (), db\<lparr>db_credits := rows\<rparr>)"
        using Inr 3(1) unfolding create_downgrade_proration_credit_def False'
        by (simp add: on_table_def set_credits_def)
      then show thesis using that(3) rows 3 by simp
    qed
  qed
qed

lemma keeps_create_credit:
  "keeps billing_db_ok (create_downgrade_proration_credit env amount currency oid ev iid sid tenant)"
  unfolding keeps_def
proof (intro allI impI)
  fix db assume "billing_db_ok db"
  then show "billing_db_ok (snd (create_downgrade_proration_credit env amount currency oid ev iid sid tenant db))"
    by (cases rule: create_credit_cases[of env amount currency oid ev iid sid tenant db])
      (auto simp: billing_db_ok_def)
qed

lemmas keeps_billing_steps = keeps_case_option keeps_then_do keeps_ensure_plan
  keeps_organization_plan_id keeps_update_organization keeps_update_subscription
  keeps_update_subscriptions_of keeps_ensure_subscription keeps_upsert_invoice
  keeps_customer_organization keeps_create_credit

lemma keeps_process: "keeps billing_db_ok (process_stripe_billing_event days env event)"
  unfolding process_stripe_billing_event_def handle_checkout_session_completed_def
    handle_invoice_payment_succeeded_def handle_invoice_payment_failed_def
    handle_customer_subscription_deleted_def handle_customer_subscription_updated_def Let_def
  by (auto intro!: keeps_billing_steps split: stripe_payload.split)

subsection \<open>One event changes one organization\<close>

text \<open>
  Everything a change for organization \<open>oid\<close> and invoice \<open>iid\<close> may touch: plans and credits only
  grow, and the rows of other organizations stay as they were. An invoice row is updated by the id
  Stripe gives the invoice, whatever organization it bears: that it is one of the organization the
  event is for is up to Stripe, where an invoice has one customer.
\<close>

definition invoice_of_organization :: "string option \<Rightarrow> string option \<Rightarrow> billing_db \<Rightarrow> bool" where
  "invoice_of_organization iid oid db \<longleftrightarrow>
     list_all (\<lambda>r. Some (inv_stripe_invoice_id r) = iid \<longrightarrow> Some (inv_organization_id r) = oid) (db_invoices db)"

definition touches_only :: "string \<Rightarrow> string option \<Rightarrow> billing_db \<Rightarrow> billing_db \<Rightarrow> bool" where
  "touches_only oid iid db db' \<longleftrightarrow>
     filter (\<lambda>r. org_id r \<noteq> oid) (db_orgs db') = filter (\<lambda>r. org_id r \<noteq> oid) (db_orgs db) \<and>
     filter (\<lambda>r. sub_organization_id r \<noteq> oid) (db_subscriptions db') =
       filter (\<lambda>r. sub_organization_id r \<noteq> oid) (db_subscriptions db) \<and>
     filter (\<lambda>r. Some (inv_stripe_invoice_id r) \<noteq> iid) (db_invoices db') =
       filter (\<lambda>r. Some (inv_stripe_invoice_id r) \<noteq> iid) (db_invoices db) \<and>
     (invoice_of_organization iid (Some oid) db \<longrightarrow> invoice_of_organization iid (Some oid) db') \<and>
     filter (\<lambda>r. cred_organization_id r \<noteq> oid) (db_credits db') =
       filter (\<lambda>r. cred_organization_id r \<noteq> oid) (db_credits db) \<and>
     (\<exists>new. db_plans db' = db_plans db @ new) \<and> (\<exists>new. db_credits db' = db_credits db @ new) \<and>
     db_users db' = db_users db \<and> db_memberships db' = db_memberships db \<and> db_usage db' = db_usage db"

lemma touches_only_refl: "touches_only oid iid db db"
  by (simp add: touches_only_def)

lemma touches_only_trans:
  "touches_only oid iid db db1 \<Longrightarrow> touches_only oid iid db1 db2 \<Longrightarrow> touches_only oid iid db db2"
  by (auto simp: touches_only_def invoice_of_organization_def)

lemma touches_ensure_plan:
  "ensure_plan_by_code env code db = (Inr p, db') \<Longrightarrow> touches_only oid iid db db'"
  by (drule ensure_plan_by_code_Inr) (auto simp: touches_only_def invoice_of_organization_def)

lemma touches_organization_plan_id:
  "organization_plan_id env org db = (Inr p, db') \<Longrightarrow> touches_only oid iid db db'"
  by (drule organization_plan_id_Inr) (auto simp: touches_only_def invoice_of_organization_def)

lemma update_organization_Inr:
  "update_organization oid f db = (Inr u, db') \<Longrightarrow>
     db' = db\<lparr>db_orgs := update_where (\<lambda>r. org_id r = oid) f (db_orgs db)\<rparr>"
  by (auto simp: update_organization_def update_unique_Inr set_orgs_def)

lemma touches_update_organization:
  assumes "update_organization oid f db = (Inr u, db')" and "\<And>r. org_id (f r) = org_id r"
  shows "touches_only oid iid db db'"
proof -
  have "filter (\<lambda>r. org_id r \<noteq> oid) (update_where (\<lambda>r. org_id r = oid) f (db_orgs db)) =
      filter (\<lambda>r. org_id r \<noteq> oid) (db_orgs db)"
    by (rule filter_update_where_frame) (simp_all add: assms(2))
  then show ?thesis using update_organization_Inr[OF assms(1)] by (auto simp: touches_only_def invoice_of_organization_def)
qed

lemma only_subscription_touches:
  "only_subscription_of oid s db db' \<Longrightarrow> touches_only oid iid db db'"
proof -
  assume o: "only_subscription_of oid s db db'"
  obtain subs where "db' = db\<lparr>db_subscriptions := subs\<rparr>"
    and "filter (\<lambda>r. sub_organization_id r \<noteq> oid) subs =
      filter (\<lambda>r. sub_organization_id r \<noteq> oid) (db_subscriptions db)"
    using o unfolding only_subscription_of_def by blast
  then show ?thesis by (simp add: touches_only_def invoice_of_organization_def)
qed

lemma touches_upsert_invoice:
  assumes "upsert_invoice env fb invoice oid sid tenant db = (Inr u, db')"
  shows "touches_only oid (Some (si_id invoice)) db db'"
proof -
  have owner: "list_all (\<lambda>r. inv_stripe_invoice_id r = si_id invoice \<longrightarrow> inv_organization_id r = oid)
      (update_where (\<lambda>r. inv_stripe_invoice_id r = si_id invoice) (build_invoice_update_data invoice fb) rows)"
    if "list_all (\<lambda>r. inv_stripe_invoice_id r = si_id invoice \<longrightarrow> inv_organization_id r = oid) rows" for rows
    using that by (induction rows) (auto simp: build_invoice_update_data_def split: prod.split)
  have "filter (\<lambda>r. inv_stripe_invoice_id r \<noteq> si_id invoice)
      (update_where (\<lambda>r. inv_stripe_invoice_id r = si_id invoice)
        (build_invoice_update_data invoice fb) rows) =
      filter (\<lambda>r. inv_stripe_invoice_id r \<noteq> si_id invoice) rows" for rows
    by (rule filter_update_where_frame)
      (simp_all add: build_invoice_update_data_def split: prod.split)
  then show ?thesis
    using assms owner by (auto simp: upsert_invoice_def touches_only_def set_invoices_def update_many_Inr
        invoice_of_organization_def create_row_Inr build_invoice_create_data_def split: if_splits prod.splits)
qed

lemma touches_create_credit:
  assumes "create_downgrade_proration_credit env amount currency oid ev iid sid tenant db = (Inr u, db')"
  shows "touches_only oid i db db'"
  using assms
  by (cases rule: create_credit_cases[of env amount currency oid ev iid sid tenant db])
    (auto simp: touches_only_def invoice_of_organization_def)

lemma create_credit_subscriptions:
  assumes "create_downgrade_proration_credit env amount currency oid ev iid sid tenant db = (Inr u, db')"
  shows "db_subscriptions db' = db_subscriptions db"
  using assms
  by (cases rule: create_credit_cases[of env amount currency oid ev iid sid tenant db]) auto

text \<open>The organization an invoice or a subscription event belongs to.\<close>

lemma customer_organization_Inr:
  "customer_organization object_name event_name customer db = (Inr (c, org), db') \<longleftrightarrow>
     db' = db \<and> truthy (as_id customer) = Some c \<and>
     resolve_organization_by_stripe_customer c db = Some org"
  by (auto simp: customer_organization_def split: option.splits)

lemma resolve_organization_mem:
  "resolve_organization_by_stripe_customer c db = Some org \<Longrightarrow>
     org \<in> set (db_orgs db) \<and> org_stripe_customer_id org = Some c"
  using find_key_eq by (fastforce simp: resolve_organization_by_stripe_customer_def)

text \<open>Adding plans keeps what the other tables answer.\<close>

lemma plans_added:
  assumes "db' = db\<lparr>db_plans := ps\<rparr>"
  shows "latest_subscription oid db' = latest_subscription oid db" and "db_orgs db' = db_orgs db"
    and "db_subscriptions db' = db_subscriptions db" and "db_invoices db' = db_invoices db"
    and "db_credits db' = db_credits db"
  using assms by (simp_all add: latest_subscription_def)

text \<open>
  The common part of the two invoice handlers: the organization's only subscription, active, with
  the invoice's period end and Stripe subscription, then changed by \<open>f\<close>, and the invoice stored.
\<close>

lemma invoice_steps_Inr:
  assumes ok: "billing_db_ok db" and "same_owner f"
    and plan: "organization_plan_id env org db = (Inr pid, db1)"
    and sub: "ensure_subscription_for_organization env pe (org_id org) pid c stripe_sub db1 = (Inr sid, db2)"
    and upd: "update_subscription env sid f db2 = (Inr u, db3)"
    and inv: "upsert_invoice env fb invoice (org_id org) sid (org_tenant_id org) db3 = (Inr u', db4)"
  shows "\<exists>s. latest_subscription (org_id org) db4 = Some ((f s)\<lparr>sub_updated_at := env_now env\<rparr>) \<and>
      sub_status s = sub_active \<and> sub_plan_id s = pid \<and>
      sub_stripe_subscription_id s = stripe_sub \<and> sub_current_period_end s = pe \<and>
      touches_only (org_id org) (Some (si_id invoice)) db db4 \<and> billing_db_ok db4"
proof -
  have ok1: "billing_db_ok db1" and ok4: "billing_db_ok db4"
    using keepsD[OF keeps_organization_plan_id ok plan]
      keepsD[OF keeps_ensure_subscription _ sub] keepsD[OF keeps_update_subscription _ upd]
      keepsD[OF keeps_upsert_invoice _ inv] by auto
  obtain s where s: "only_subscription_of (org_id org) s db1 db2" "sub_id s = sid"
      "sub_status s = sub_active" "sub_plan_id s = pid" "sub_stripe_subscription_id s = stripe_sub"
      "sub_current_period_end s = pe"
    using ensure_subscription_Inr[OF ok1 sub] by blast
  let ?s = "(f s)\<lparr>sub_updated_at := env_now env\<rparr>"
  have o: "only_subscription_of (org_id org) ?s db1 db3"
    using update_subscription_Inr[OF s(1) \<open>same_owner f\<close>] upd s(2) by blast
  have "db_subscriptions db4 = db_subscriptions db3"
    using inv by (auto simp: upsert_invoice_def set_invoices_def split: if_splits)
  then have "latest_subscription (org_id org) db4 = Some ?s"
    using o latest_subscription_eq[of db3 ?s]
    by (simp add: only_subscription_of_def latest_subscription_def)
  moreover have "touches_only (org_id org) (Some (si_id invoice)) db db4"
    using touches_only_trans[OF touches_organization_plan_id[OF plan]]
      touches_only_trans[OF only_subscription_touches[OF o]] touches_upsert_invoice[OF inv]
    by blast
  ultimately show ?thesis using s ok4 by blast
qed

lemma handle_failed_Inr:
  assumes "billing_db_ok db" and "handle_invoice_payment_failed days env invoice db = (Inr ctx, db')"
  shows "\<exists>org s. ctx = context_of org \<and> org \<in> set (db_orgs db) \<and>
      truthy (as_id (si_customer invoice)) = org_stripe_customer_id org \<and>
      latest_subscription (org_id org) db' = Some s \<and> sub_status s = sub_past_due \<and>
      sub_grace_period_ends_at s = Some (env_now env + days * day_ms) \<and>
      touches_only (org_id org) (Some (si_id invoice)) db db'"
proof -
  let ?f = "\<lambda>r. r\<lparr>sub_grace_period_ends_at := Some (env_now env + days * day_ms),
    sub_status := sub_past_due\<rparr>"
  obtain c org pid sid db1 db2 db3 u u' where
      org: "truthy (as_id (si_customer invoice)) = Some c"
        "resolve_organization_by_stripe_customer c db = Some org" "ctx = context_of org"
      and steps: "organization_plan_id env org db = (Inr pid, db1)"
        "ensure_subscription_for_organization env (snd (resolve_invoice_periods invoice)) (org_id org)
           pid c (resolve_invoice_subscription_id invoice) db1 = (Inr sid, db2)"
        "update_subscription env sid ?f db2 = (Inr u, db3)"
        "upsert_invoice env inv_past_due invoice (org_id org) sid (org_tenant_id org) db3 = (Inr u', db')"
    using assms(2) unfolding handle_invoice_payment_failed_def
    by (auto simp: customer_organization_Inr)
  have "same_owner ?f" by (simp add: same_owner_def)
  from invoice_steps_Inr[OF assms(1) this steps] org resolve_organization_mem[OF org(2)]
  show ?thesis by (intro exI[of _ org]) auto
qed

lemma handle_succeeded_Inr:
  assumes "billing_db_ok db" and "handle_invoice_payment_succeeded env invoice db = (Inr ctx, db')"
  shows "\<exists>org s. ctx = context_of org \<and> org \<in> set (db_orgs db) \<and>
      truthy (as_id (si_customer invoice)) = org_stripe_customer_id org \<and>
      latest_subscription (org_id org) db' = Some s \<and> sub_status s = sub_active \<and>
      sub_grace_period_ends_at s = None \<and>
      sub_stripe_subscription_id s = resolve_invoice_subscription_id invoice \<and>
      sub_current_period_end s = snd (resolve_invoice_periods invoice) \<and>
      touches_only (org_id org) (Some (si_id invoice)) db db'"
proof -
  let ?f = "\<lambda>r. r\<lparr>sub_current_period_end := snd (resolve_invoice_periods invoice),
    sub_grace_period_ends_at := None, sub_status := sub_active\<rparr>"
  obtain c org pid sid db1 db2 db3 u u' where
      org: "truthy (as_id (si_customer invoice)) = Some c"
        "resolve_organization_by_stripe_customer c db = Some org" "ctx = context_of org"
      and steps: "organization_plan_id env org db = (Inr pid, db1)"
        "ensure_subscription_for_organization env (snd (resolve_invoice_periods invoice)) (org_id org)
           pid c (resolve_invoice_subscription_id invoice) db1 = (Inr sid, db2)"
        "update_subscription env sid ?f db2 = (Inr u, db3)"
        "upsert_invoice env inv_paid invoice (org_id org) sid (org_tenant_id org) db3 = (Inr u', db')"
    using assms(2) unfolding handle_invoice_payment_succeeded_def
    by (auto simp: customer_organization_Inr)
  have "same_owner ?f" by (simp add: same_owner_def)
  from invoice_steps_Inr[OF assms(1) this steps] org resolve_organization_mem[OF org(2)]
  show ?thesis by (intro exI[of _ org]) auto
qed

lemma handle_deleted_Inr:
  assumes "billing_db_ok db"
    and "handle_customer_subscription_deleted env subscription db = (Inr ctx, db')"
  shows "\<exists>org. ctx = context_of org \<and> org \<in> set (db_orgs db) \<and>
      touches_only (org_id org) None db db' \<and>
      (\<forall>s \<in> set (db_subscriptions db'). sub_organization_id s = org_id org \<longrightarrow>
         sub_status s = sub_canceled \<and> sub_canceled_at s = Some (env_now env) \<and>
         (\<exists>p \<in> set (db_plans db'). plan_code p = ''starter'' \<and> plan_id p = sub_plan_id s)) \<and>
      (\<forall>r \<in> set (db_orgs db'). org_id r = org_id org \<longrightarrow>
         (\<exists>p \<in> set (db_plans db'). plan_code p = ''starter'' \<and> org_plan_id r = Some (plan_id p)))"
proof -
  let ?f = "\<lambda>p r. r\<lparr>sub_canceled_at := Some (env_now env), sub_plan_id := plan_id p,
    sub_status := sub_canceled, sub_stripe_subscription_id := Some (ss_id subscription)\<rparr>"
  obtain c org p db1 db2 u u' where
      org: "resolve_organization_by_stripe_customer c db = Some org" "ctx = context_of org"
      and steps: "ensure_plan_by_code env ''starter'' db = (Inr p, db1)"
        "update_organization (org_id org) (\<lambda>r. r\<lparr>org_plan_id := Some (plan_id p)\<rparr>) db1 = (Inr u, db2)"
        "update_subscriptions_of env (org_id org) (?f p) db2 = (Inr u', db')"
    using assms(2) unfolding handle_customer_subscription_deleted_def
    by (auto simp: customer_organization_Inr)
  let ?P = "\<lambda>r. sub_organization_id r = org_id org"
  let ?g = "\<lambda>r. (?f p r)\<lparr>sub_updated_at := env_now env\<rparr>"
  have db2: "db2 = db1\<lparr>db_orgs := update_where (\<lambda>r. org_id r = org_id org)
      (\<lambda>r. r\<lparr>org_plan_id := Some (plan_id p)\<rparr>) (db_orgs db1)\<rparr>"
    by (rule update_organization_Inr[OF steps(2)])
  have db': "db' = db2\<lparr>db_subscriptions := update_where ?P ?g (db_subscriptions db2)\<rparr>"
    using steps(3) by (auto simp: update_subscriptions_of_def update_many_Inr set_subscriptions_def)
  have "normalize_plan_code ''starter'' = ''starter''" by code_simp
  then have p: "plan_code p = ''starter''" "p \<in> set (db_plans db')"
    using ensure_plan_by_code_Inr[OF steps(1)] by (auto simp: db' db2)
  have "filter (\<lambda>r. sub_organization_id r \<noteq> org_id org) (db_subscriptions db') =
      filter (\<lambda>r. sub_organization_id r \<noteq> org_id org) (db_subscriptions db2)"
    unfolding db' by (simp add: filter_update_where_frame)
  then have "touches_only (org_id org) None db2 db'" by (simp add: touches_only_def invoice_of_organization_def db')
  moreover have "touches_only (org_id org) None db1 db2"
    by (rule touches_update_organization[OF steps(2)]) simp
  ultimately have "touches_only (org_id org) None db db'"
    using touches_only_trans touches_ensure_plan[OF steps(1)] by blast
  moreover have "\<forall>s \<in> set (db_subscriptions db'). sub_organization_id s = org_id org \<longrightarrow>
      sub_status s = sub_canceled \<and> sub_canceled_at s = Some (env_now env) \<and> sub_plan_id s = plan_id p"
    by (auto simp: db' set_update_where split: if_splits)
  moreover have "\<forall>r \<in> set (db_orgs db'). org_id r = org_id org \<longrightarrow> org_plan_id r = Some (plan_id p)"
    by (auto simp: db' db2 set_update_where split: if_splits)
  ultimately show ?thesis
    using p org resolve_organization_mem[OF org(1)] by (intro exI[of _ org]) auto
qed

lemma handle_updated_Inr:
  assumes "billing_db_ok db"
    and "handle_customer_subscription_updated env ev subscription previous db = (Inr ctx, db')"
  shows "\<exists>org s. ctx = context_of org \<and> org \<in> set (db_orgs db) \<and>
      touches_only (org_id org) None db db' \<and>
      latest_subscription (org_id org) db' = Some s \<and>
      sub_status s = map_stripe_subscription_status (ss_status subscription) \<and>
      sub_canceled_at s = unix_to_date (ss_canceled_at subscription) \<and>
      sub_grace_period_ends_at s = Option.bind (latest_subscription (org_id org) db) sub_grace_period_ends_at"
proof -
  let ?pe = "resolve_subscription_period_end subscription"
  let ?f = "\<lambda>r. r\<lparr>sub_canceled_at := unix_to_date (ss_canceled_at subscription),
    sub_current_period_end := ?pe,
    sub_status := map_stripe_subscription_status (ss_status subscription)\<rparr>"
  let ?price = "Option.bind (first_of (ss_items subscription)) item_price"
  let ?mapped = "Option.bind (truthy (map_option price_id ?price))
    (\<lambda>i. List.find (\<lambda>p. plan_stripe_price_id p = Some i) (db_plans db))"
  obtain c org pid db1 db2 db3 db4 sid u u' u'' where
      org: "resolve_organization_by_stripe_customer c db = Some org" "ctx = context_of org"
      and plan: "(case ?mapped of Some p \<Rightarrow> give (plan_id p) | None \<Rightarrow> organization_plan_id env org) db =
          (Inr pid, db1)"
      and steps: "update_organization (org_id org) (\<lambda>r. r\<lparr>org_plan_id := Some pid\<rparr>) db1 = (Inr u, db2)"
        "ensure_subscription_for_organization env ?pe (org_id org) pid c (Some (ss_id subscription)) db2
           = (Inr sid, db3)"
        "update_subscriptions_of env (org_id org) ?f db3 = (Inr u', db4)"
      and credit: "create_downgrade_proration_credit env
          (resolve_proration_credit_cents previous subscription)
          (or_else (or_opt (map_option price_currency ?price) (map_option plan_currency ?mapped)) ''usd'')
          (org_id org) ev (ref_id (ss_latest_invoice subscription)) (Some sid) (org_tenant_id org) db4
            = (Inr u'', db')"
    using assms(2) unfolding handle_customer_subscription_updated_def Let_def
    by (auto simp: customer_organization_Inr)
  have t1: "touches_only (org_id org) None db db1"
    and p1: "\<exists>new. db1 = db\<lparr>db_plans := db_plans db @ new\<rparr>"
    using plan touches_organization_plan_id organization_plan_id_Inr touches_only_refl
    by (auto split: option.splits intro: exI[of _ "[]"])
  have ok2: "billing_db_ok db2"
    using plan keepsD[OF keeps_organization_plan_id assms(1)] assms(1)
      keepsD[OF keeps_update_organization _ steps(1)] by (auto split: option.splits)
  have latest2: "latest_subscription (org_id org) db2 = latest_subscription (org_id org) db"
    using update_organization_Inr[OF steps(1)] p1 by (auto simp: latest_subscription_def)
  obtain s where s: "only_subscription_of (org_id org) s db2 db3"
      "sub_grace_period_ends_at s = Option.bind (latest_subscription (org_id org) db) sub_grace_period_ends_at"
    using ensure_subscription_Inr[OF ok2 steps(2)] latest2 by auto
  have f: "same_owner ?f" by (simp add: same_owner_def)
  let ?s = "(?f s)\<lparr>sub_updated_at := env_now env\<rparr>"
  have o: "only_subscription_of (org_id org) ?s db2 db4"
    by (rule update_subscriptions_of_Inr[OF s(1) f steps(3)])
  have tc: "touches_only (org_id org) None db4 db'"
    by (rule touches_create_credit[OF credit])
  have subs: "db_subscriptions db' = db_subscriptions db4"
    using credit by (rule create_credit_subscriptions)
  have "touches_only (org_id org) None db db'"
    using touches_only_trans[OF t1] touches_only_trans[OF touches_update_organization[OF steps(1)]]
      touches_only_trans[OF only_subscription_touches[OF o] tc] by auto
  moreover have "latest_subscription (org_id org) db' = Some ?s"
    using o latest_subscription_eq[of db4 ?s] subs
    by (simp add: only_subscription_of_def latest_subscription_def)
  ultimately show ?thesis
    using org s(2) resolve_organization_mem[OF org(1)] by (intro exI[of _ org] exI[of _ ?s]) auto
qed

lemma find_checkout_organization_mem:
  "find_checkout_organization session db = Some org \<Longrightarrow> org \<in> set (db_orgs db)"
  by (auto simp: find_checkout_organization_def resolve_organization_by_stripe_customer_def or_opt_def
      bind_eq_Some_conv dest!: find_key_eq split: option.splits)

lemma handle_checkout_Inr:
  assumes "billing_db_ok db" and "handle_checkout_session_completed env session db = (Inr ctx, db')"
  shows "\<exists>org s. ctx = context_of org \<and> org \<in> set (db_orgs db) \<and>
      touches_only (org_id org) None db db' \<and>
      latest_subscription (org_id org) db' = Some s \<and> sub_status s = sub_active \<and>
      sub_stripe_subscription_id s = as_id (cs_subscription session) \<and>
      sub_grace_period_ends_at s = Option.bind (latest_subscription (org_id org) db) sub_grace_period_ends_at"
proof -
  let ?g = "\<lambda>pid org r. r\<lparr>org_plan_id := Some pid,
    org_stripe_customer_id := or_opt (as_id (cs_customer session)) (org_stripe_customer_id org)\<rparr>"
  obtain org p pid db1 db2 sid u where
      org: "find_checkout_organization session db = Some org" "ctx = context_of org"
      and steps: "ensure_plan_by_code env ''starter'' db = (Inr p, db1)"
        "update_organization (org_id org) (?g pid org) db1 = (Inr u, db2)"
        "ensure_subscription_for_organization env (unix_to_date (cs_expires_at session)) (org_id org) pid
           (or_else (or_opt (as_id (cs_customer session)) (org_stripe_customer_id org)) [])
           (as_id (cs_subscription session)) db2 = (Inr sid, db')"
    using assms(2) unfolding handle_checkout_session_completed_def Let_def
    by (auto split: option.splits)
  have ok2: "billing_db_ok db2"
    using keepsD[OF keeps_ensure_plan assms(1) steps(1)]
      keepsD[OF keeps_update_organization _ steps(2)] by auto
  have latest2: "latest_subscription (org_id org) db2 = latest_subscription (org_id org) db"
    using update_organization_Inr[OF steps(2)] ensure_plan_by_code_Inr[OF steps(1)]
    by (auto simp: latest_subscription_def)
  obtain s where s: "only_subscription_of (org_id org) s db2 db'" "sub_status s = sub_active"
      "sub_stripe_subscription_id s = as_id (cs_subscription session)"
      "sub_grace_period_ends_at s = Option.bind (latest_subscription (org_id org) db) sub_grace_period_ends_at"
    using ensure_subscription_Inr[OF ok2 steps(3)] latest2 by auto
  have "touches_only (org_id org) None db db'"
    using touches_only_trans[OF touches_ensure_plan[OF steps(1)]]
      touches_only_trans[OF touches_update_organization[OF steps(2)] only_subscription_touches[OF s(1)]]
    by auto
  moreover have "latest_subscription (org_id org) db' = Some s"
    using s(1) latest_subscription_eq[of db' s] by (simp add: only_subscription_of_def)
  ultimately show ?thesis
    using org s find_checkout_organization_mem[OF org(1)] by (intro exI[of _ org] exI[of _ s]) auto
qed

definition event_invoice_id :: "stripe_event \<Rightarrow> string option" where
  "event_invoice_id event = (case se_payload event of
     PaymentSucceeded invoice \<Rightarrow> Some (si_id invoice)
   | PaymentFailed invoice \<Rightarrow> Some (si_id invoice)
   | _ \<Rightarrow> None)"

lemma process_touches:
  assumes "billing_db_ok db" and "process_stripe_billing_event days env event db = (Inr ctx, db')"
  shows "(\<exists>org \<in> set (db_orgs db). ctx = context_of org \<and>
      touches_only (org_id org) (event_invoice_id event) db db') \<or>
    se_payload event = OtherPayload \<and> db' = db"
proof (cases "se_payload event")
  case (CheckoutCompleted x)
  then show ?thesis using assms handle_checkout_Inr[of db env x]
    by (fastforce simp: process_stripe_billing_event_def event_invoice_id_def)
next
  case (PaymentSucceeded x)
  then show ?thesis using assms handle_succeeded_Inr[of db env x]
    by (fastforce simp: process_stripe_billing_event_def event_invoice_id_def)
next
  case (PaymentFailed x)
  then show ?thesis using assms handle_failed_Inr[of db days env x]
    by (fastforce simp: process_stripe_billing_event_def event_invoice_id_def)
next
  case (SubscriptionDeleted x)
  then show ?thesis using assms handle_deleted_Inr[of db env x]
    by (fastforce simp: process_stripe_billing_event_def event_invoice_id_def)
next
  case (SubscriptionUpdated x y)
  then show ?thesis using assms handle_updated_Inr[of db env "se_id event" x y]
    by (fastforce simp: process_stripe_billing_event_def event_invoice_id_def)
next
  case OtherPayload
  then show ?thesis using assms by (auto simp: process_stripe_billing_event_def)
qed

subsection \<open>What the guards see\<close>

lemma load_snapshot_Inr:
  assumes "load_billing_snapshot env days reference db = (Inr snap, db')"
  shows "\<exists>org plan credit. find_organization_by_reference reference db = Some org \<and>
     credit = get_billing_credit_balance_cents (org_id org) db \<and>
     snap = build_snapshot (env_now env) days org (latest_subscription (org_id org) db) plan credit"
proof -
  obtain org plan credit db1 where
      org: "find_organization_by_reference reference db = Some org"
      and plan: "(case included_plan org (latest_subscription (org_id org) db) db of
        Some plan \<Rightarrow> give plan | None \<Rightarrow> ensure_plan_by_code env ''starter'') db = (Inr plan, db1)"
      and rest: "snap = build_snapshot (env_now env) days org (latest_subscription (org_id org) db) plan
        (get_billing_credit_balance_cents (org_id org) db1)"
    using assms by (auto simp: load_billing_snapshot_def split: option.splits)
  have "get_billing_credit_balance_cents (org_id org) db1 = get_billing_credit_balance_cents (org_id org) db"
    using plan ensure_plan_by_code_Inr
    by (fastforce simp: get_billing_credit_balance_cents_def split: option.splits)
  with org rest show ?thesis by blast
qed

lemma build_snapshot_locked:
  "snap_hard_locked (build_snapshot now days org subscription plan credit) \<longleftrightarrow>
     (\<exists>s t. subscription = Some s \<and> sub_status s = sub_past_due \<and>
        resolve_grace_period_ends_at subscription days = Some t \<and> t \<le> now)"
  by (auto simp: build_snapshot_def Let_def split: option.splits)

lemma context_of_id [simp]: "ctx_organization_id (context_of org) = Some (org_id org)"
  by (simp add: context_of_def)

subsection \<open>Properties\<close>

definition sample_org :: "string \<Rightarrow> string \<Rightarrow> string option \<Rightarrow> org_row" where
  "sample_org oid tid customer = \<lparr>org_id = oid, org_tenant_id = tid, org_name = ''Acme'',
     org_settings = JNull, org_stripe_customer_id = customer, org_plan_id = None\<rparr>"

definition sample_db :: billing_db where
  "sample_db = \<lparr>db_orgs = [sample_org ''o1'' ''t1'' (Some ''cus_1''), sample_org ''o2'' ''t2'' (Some ''cus_2'')],
     db_users = [], db_memberships = [], db_plans = [], db_subscriptions = [], db_invoices = [],
     db_credits = [], db_usage = []\<rparr>"

definition sample_env :: "ms \<Rightarrow> billing_env" where
  "sample_env t = \<lparr>env_now = t, env_plan_id = ''p1'', env_subscription_id = ''s1'',
     env_invoice_id = ''i1'', env_credit_id = ''c1''\<rparr>"

definition sample_invoice :: stripe_invoice where
  "sample_invoice = \<lparr>si_id = ''in_1'', si_amount_due = 4900, si_amount_paid = 0, si_currency = ''usd'',
     si_customer = Some (RefId ''cus_1''), si_due_date = None, si_hosted_invoice_url = None,
     si_invoice_pdf = None, si_lines = [], si_parent_subscription = None, si_status = Some ''open''\<rparr>"

lemma sample_db_ok: "billing_db_ok sample_db"
  by code_simp

definition changes_only :: "string \<Rightarrow> billing_db \<Rightarrow> billing_db \<Rightarrow> bool" where
  "changes_only oid db db' \<longleftrightarrow>
     filter (\<lambda>r. org_id r \<noteq> oid) (db_orgs db') = filter (\<lambda>r. org_id r \<noteq> oid) (db_orgs db) \<and>
     filter (\<lambda>r. sub_organization_id r \<noteq> oid) (db_subscriptions db') =
       filter (\<lambda>r. sub_organization_id r \<noteq> oid) (db_subscriptions db) \<and>
     filter (\<lambda>r. inv_organization_id r \<noteq> oid) (db_invoices db') =
       filter (\<lambda>r. inv_organization_id r \<noteq> oid) (db_invoices db) \<and>
     filter (\<lambda>r. cred_organization_id r \<noteq> oid) (db_credits db') =
       filter (\<lambda>r. cred_organization_id r \<noteq> oid) (db_credits db) \<and>
     (\<exists>new. db_plans db' = db_plans db @ new) \<and> (\<exists>new. db_credits db' = db_credits db @ new) \<and>
     db_users db' = db_users db \<and> db_memberships db' = db_memberships db \<and> db_usage db' = db_usage db"

lemma touches_changes:
  assumes "touches_only oid iid db db'" and "invoice_of_organization iid (Some oid) db"
  shows "changes_only oid db db'"
proof -
  have drop: "filter (\<lambda>r. inv_organization_id r \<noteq> oid) rows =
      filter (\<lambda>r. inv_organization_id r \<noteq> oid) (filter (\<lambda>r. Some (inv_stripe_invoice_id r) \<noteq> iid) rows)"
    if "list_all (\<lambda>r. Some (inv_stripe_invoice_id r) = iid \<longrightarrow> Some (inv_organization_id r) = Some oid) rows" for rows
    using that by (induction rows) auto
  have "invoice_of_organization iid (Some oid) db'" using assms by (simp add: touches_only_def)
  then have "filter (\<lambda>r. inv_organization_id r \<noteq> oid) (db_invoices db') = filter (\<lambda>r. inv_organization_id r \<noteq> oid) (db_invoices db)"
    using assms drop[of "db_invoices db"] drop[of "db_invoices db'"] unfolding invoice_of_organization_def touches_only_def by metis
  with assms(1) show ?thesis by (auto simp: touches_only_def changes_only_def)
qed

text \<open>
  Property C2. One Stripe event changes the billing rows of one organization only, the one its
  context names: the organizations, subscriptions, invoices and credits of every other one stay as
  they were, plans and credits are only added, and all unique indexes hold. The invoice rows of the
  event are found by the id Stripe gives; what is relied on is that such a row, where there is one,
  is of the organization whose customer the event names.
\<close>

theorem billing_event_isolation:
  assumes "billing_db_ok db" and "process_stripe_billing_event days env event db = (Inr ctx, db')"
    and "invoice_of_organization (event_invoice_id event) (ctx_organization_id ctx) db"
  shows "billing_db_ok db' \<and>
    ((\<exists>org \<in> set (db_orgs db). ctx = context_of org \<and> changes_only (org_id org) db db') \<or>
     se_payload event = OtherPayload \<and> db' = db)"
  using process_touches[OF assms(1,2)] keepsD[OF keeps_process assms(1,2)] touches_changes assms(3)
  by (auto simp: context_of_def)

theorem billing_event_isolation_witness:
  "\<exists>ctx db'. process_stripe_billing_event 3 (sample_env 1000)
       \<lparr>se_id = ''evt'', se_type = ''invoice.payment_failed'', se_created = None,
        se_payload = PaymentFailed sample_invoice\<rparr> sample_db = (Inr ctx, db') \<and>
     ctx_organization_id ctx = Some ''o1'' \<and> billing_db_ok db'"
proof -
  let ?e = "\<lparr>se_id = ''evt'', se_type = ''invoice.payment_failed'', se_created = None,
    se_payload = PaymentFailed sample_invoice\<rparr>"
  have "case process_stripe_billing_event 3 (sample_env 1000) ?e sample_db of
      (Inr ctx, db') \<Rightarrow> ctx_organization_id ctx = Some ''o1'' | _ \<Rightarrow> False"
    by code_simp
  then obtain ctx db' where p: "process_stripe_billing_event 3 (sample_env 1000) ?e sample_db = (Inr ctx, db')"
      "ctx_organization_id ctx = Some ''o1''"
    by (auto split: prod.splits sum.splits)
  have "invoice_of_organization (event_invoice_id ?e) (ctx_organization_id ctx) sample_db"
    by (simp add: invoice_of_organization_def sample_db_def)
  from billing_event_isolation[OF sample_db_ok p(1) this] p show ?thesis by blast
qed

text \<open>
  A failed invoice payment at time \<open>t\<close> opens a grace window of the configured days:
  until it ends the organization is past due but not locked, from its end on it is hard locked,
  which is when \<open>canUseFeature\<close> refuses every feature.
\<close>

theorem payment_failed_grace_window:
  assumes "billing_db_ok db" and "handle_invoice_payment_failed days env invoice db = (Inr ctx, db')"
    and "find_organization_by_reference reference db' = Some org"
    and "ctx_organization_id ctx = Some (org_id org)"
    and "load_billing_snapshot env' days' reference db' = (Inr snap, db'')"
  shows "(snap_hard_locked snap \<longleftrightarrow> env_now env + days * day_ms \<le> env_now env') \<and>
    (snap_is_within_grace_period snap \<longleftrightarrow> env_now env' < env_now env + days * day_ms) \<and>
    snap_status snap = Some sub_past_due"
proof -
  obtain s where s: "latest_subscription (org_id org) db' = Some s" "sub_status s = sub_past_due"
      "sub_grace_period_ends_at s = Some (env_now env + days * day_ms)"
    using handle_failed_Inr[OF assms(1,2)] assms(4) by auto
  obtain plan credit where
      "snap = build_snapshot (env_now env') days' org (latest_subscription (org_id org) db') plan credit"
    using load_snapshot_Inr[OF assms(5)] assms(3) by auto
  then show ?thesis
    using s by (simp add: build_snapshot_def Let_def resolve_grace_period_ends_at_def not_le)
qed

theorem payment_failed_grace_window_witness:
  "\<exists>ctx db' snap db''.
     handle_invoice_payment_failed 3 (sample_env 1000) sample_invoice sample_db = (Inr ctx, db') \<and>
     load_billing_snapshot (sample_env (1000 + 3 * day_ms)) 3 ''t1'' db' = (Inr snap, db'') \<and>
     snap_hard_locked snap \<and> \<not> snap_is_within_grace_period snap"
proof -
  let ?org = "(sample_org ''o1'' ''t1'' (Some ''cus_1''))"
  have "case handle_invoice_payment_failed 3 (sample_env 1000) sample_invoice sample_db of
      (Inr ctx, db') \<Rightarrow> ctx_organization_id ctx = Some ''o1'' \<and>
        find_organization_by_reference ''t1'' db' = Some ?org \<and>
        (case load_billing_snapshot (sample_env (1000 + 3 * day_ms)) 3 ''t1'' db' of
           (Inr snap, db'') \<Rightarrow> True | _ \<Rightarrow> False)
    | _ \<Rightarrow> False"
    by code_simp
  then obtain ctx db' snap db'' where
      f: "handle_invoice_payment_failed 3 (sample_env 1000) sample_invoice sample_db = (Inr ctx, db')"
      and c: "ctx_organization_id ctx = Some ''o1''" and o: "find_organization_by_reference ''t1'' db' = Some ?org"
      and l: "load_billing_snapshot (sample_env (1000 + 3 * day_ms)) 3 ''t1'' db' = (Inr snap, db'')"
    by (auto split: prod.splits sum.splits)
  have "ctx_organization_id ctx = Some (org_id ?org)" by (simp add: c sample_org_def)
  from payment_failed_grace_window[OF sample_db_ok f o this l] f l show ?thesis
    by (auto simp: sample_env_def)
qed

text \<open>
  A successful invoice payment ends every lock: the organization's subscription is
  active again with no grace window pending, and its snapshot is paid and not locked at any time.
\<close>

theorem payment_succeeded_unlocks:
  assumes "billing_db_ok db" and "handle_invoice_payment_succeeded env invoice db = (Inr ctx, db')"
    and "find_organization_by_reference reference db' = Some org"
    and "ctx_organization_id ctx = Some (org_id org)"
    and "load_billing_snapshot env' days' reference db' = (Inr snap, db'')"
  shows "\<not> snap_hard_locked snap \<and> snap_is_paid snap \<and> snap_status snap = Some sub_active \<and>
    (\<exists>s. latest_subscription (org_id org) db' = Some s \<and> sub_grace_period_ends_at s = None)"
proof -
  obtain s where s: "latest_subscription (org_id org) db' = Some s" "sub_status s = sub_active"
      "sub_grace_period_ends_at s = None"
    using handle_succeeded_Inr[OF assms(1,2)] assms(4) by auto
  obtain plan credit where
      "snap = build_snapshot (env_now env') days' org (latest_subscription (org_id org) db') plan credit"
    using load_snapshot_Inr[OF assms(5)] assms(3) by auto
  then show ?thesis
    using s by (simp add: build_snapshot_def Let_def)
qed

theorem payment_succeeded_unlocks_witness:
  "\<exists>ctx db' snap db''.
     handle_invoice_payment_succeeded (sample_env 1000) sample_invoice sample_db = (Inr ctx, db') \<and>
     load_billing_snapshot (sample_env 5000) 3 ''o1'' db' = (Inr snap, db'') \<and> snap_is_paid snap"
proof -
  let ?org = "(sample_org ''o1'' ''t1'' (Some ''cus_1''))"
  have "case handle_invoice_payment_succeeded (sample_env 1000) sample_invoice sample_db of
      (Inr ctx, db') \<Rightarrow> ctx_organization_id ctx = Some ''o1'' \<and>
        find_organization_by_reference ''o1'' db' = Some ?org \<and>
        (case load_billing_snapshot (sample_env 5000) 3 ''o1'' db' of
           (Inr snap, db'') \<Rightarrow> True | _ \<Rightarrow> False)
    | _ \<Rightarrow> False"
    by code_simp
  then obtain ctx db' snap db'' where
      f: "handle_invoice_payment_succeeded (sample_env 1000) sample_invoice sample_db = (Inr ctx, db')"
      and c: "ctx_organization_id ctx = Some ''o1''" and o: "find_organization_by_reference ''o1'' db' = Some ?org"
      and l: "load_billing_snapshot (sample_env 5000) 3 ''o1'' db' = (Inr snap, db'')"
    by (auto split: prod.splits sum.splits)
  have "ctx_organization_id ctx = Some (org_id ?org)" by (simp add: c sample_org_def)
  from payment_succeeded_unlocks[OF sample_db_ok f o this l] f l show ?thesis by blast
qed

text \<open>
  When Stripe deletes a subscription, the organization is moved to the starter plan
  and every subscription row it has is canceled, on the starter plan.
\<close>

theorem subscription_deleted_downgrades:
  assumes "billing_db_ok db"
    and "handle_customer_subscription_deleted env subscription db = (Inr ctx, db')"
    and "ctx_organization_id ctx = Some oid" and "s \<in> set (db_subscriptions db')"
    and "sub_organization_id s = oid"
  shows "sub_status s = sub_canceled \<and> sub_canceled_at s = Some (env_now env) \<and>
    (\<exists>p \<in> set (db_plans db'). plan_code p = ''starter'' \<and> plan_id p = sub_plan_id s)"
proof -
  obtain org where org: "ctx = context_of org" "org \<in> set (db_orgs db)"
      and all: "\<forall>s \<in> set (db_subscriptions db'). sub_organization_id s = org_id org \<longrightarrow>
        sub_status s = sub_canceled \<and> sub_canceled_at s = Some (env_now env) \<and>
        (\<exists>p \<in> set (db_plans db'). plan_code p = ''starter'' \<and> plan_id p = sub_plan_id s)"
    using handle_deleted_Inr[OF assms(1,2)] by (elim exE conjE)
  have "org_id org = oid" using assms(3) org(1) by simp
  with all[rule_format, OF assms(4)] assms(5) show ?thesis by simp
qed

definition sample_subscribed_db :: billing_db where
  "sample_subscribed_db =
     snd (handle_invoice_payment_failed 3 (sample_env 1000) sample_invoice sample_db)"

definition sample_subscription :: "string \<Rightarrow> stripe_subscription" where
  "sample_subscription status =
     \<lparr>ss_id = ''sub_9'', ss_billing_cycle_anchor = Some 500, ss_cancel_at = None, ss_canceled_at = None,
      ss_customer = Some (RefId ''cus_1''), ss_items = [], ss_latest_invoice = None,
      ss_proration_credit_cents = None, ss_status = status, ss_trial_end = None\<rparr>"

lemma sample_subscribed_db_ok: "billing_db_ok sample_subscribed_db"
  by code_simp

theorem subscription_deleted_downgrades_witness:
  "\<exists>ctx db' s. handle_customer_subscription_deleted (sample_env 7000) (sample_subscription ''canceled'')
       sample_subscribed_db = (Inr ctx, db') \<and>
     s \<in> set (db_subscriptions db') \<and> sub_id s = ''s1'' \<and> sub_canceled_at s = Some 7000"
proof -
  let ?h = "handle_customer_subscription_deleted (sample_env 7000) (sample_subscription ''canceled'')
    sample_subscribed_db"
  have "case ?h of (Inr ctx, db') \<Rightarrow> ctx_organization_id ctx = Some ''o1'' \<and>
      list_ex (\<lambda>s. sub_id s = ''s1'' \<and> sub_organization_id s = ''o1'') (db_subscriptions db') | _ \<Rightarrow> False"
    by code_simp
  then obtain ctx db' s where h: "?h = (Inr ctx, db')" "ctx_organization_id ctx = Some ''o1''"
      "s \<in> set (db_subscriptions db')" "sub_id s = ''s1''" "sub_organization_id s = ''o1''"
    by (auto simp: list_ex_iff split: prod.splits sum.splits)
  from subscription_deleted_downgrades[OF sample_subscribed_db_ok h(1,2,3,5)] h show ?thesis
    by (auto simp: sample_env_def)
qed

text \<open>
  A \<open>customer.subscription.updated\<close> event does not touch the grace window: when a
  window from an earlier failed payment is still stored, a later event that makes the subscription
  past due again leaves the organization hard locked as soon as that old window is over, with no
  new days of grace.
\<close>

theorem subscription_updated_keeps_old_grace:
  assumes "billing_db_ok db"
    and "handle_customer_subscription_updated env ev subscription previous db = (Inr ctx, db')"
    and "map_stripe_subscription_status (ss_status subscription) = sub_past_due"
    and "find_organization_by_reference reference db' = Some org"
    and "ctx_organization_id ctx = Some (org_id org)"
    and "latest_subscription (org_id org) db = Some old" and "sub_grace_period_ends_at old = Some g"
    and "load_billing_snapshot env' days reference db' = (Inr snap, db'')"
  shows "snap_hard_locked snap \<longleftrightarrow> g \<le> env_now env'"
proof -
  obtain s where s: "latest_subscription (org_id org) db' = Some s" "sub_status s = sub_past_due"
      "sub_grace_period_ends_at s = Some g"
    using handle_updated_Inr[OF assms(1,2)] assms(3,5,6,7) by auto
  obtain plan credit where
      "snap = build_snapshot (env_now env') days org (latest_subscription (org_id org) db') plan credit"
    using load_snapshot_Inr[OF assms(8)] assms(4) by auto
  then show ?thesis
    using s by (auto simp: build_snapshot_locked resolve_grace_period_ends_at_def)
qed

theorem subscription_updated_keeps_old_grace_witness:
  "\<exists>ctx db' snap db''.
     handle_customer_subscription_updated (sample_env (1000 + 30 * day_ms)) ''evt_8''
       (sample_subscription ''past_due'') None sample_subscribed_db = (Inr ctx, db') \<and>
     load_billing_snapshot (sample_env (1000 + 30 * day_ms)) 3 ''o1'' db' = (Inr snap, db'') \<and>
     snap_hard_locked snap"
proof -
  let ?t = "1000 + 30 * day_ms" and ?org = "(sample_org ''o1'' ''t1'' (Some ''cus_1''))\<lparr>org_plan_id := Some ''p1''\<rparr>"
  let ?h = "handle_customer_subscription_updated (sample_env ?t) ''evt_8''
    (sample_subscription ''past_due'') None sample_subscribed_db"
  have "(case ?h of (Inr ctx, db') \<Rightarrow> ctx_organization_id ctx = Some ''o1'' \<and>
        find_organization_by_reference ''o1'' db' = Some ?org \<and>
        (case load_billing_snapshot (sample_env ?t) 3 ''o1'' db' of (Inr snap, db'') \<Rightarrow> True | _ \<Rightarrow> False)
      | _ \<Rightarrow> False) \<and>
      (case latest_subscription ''o1'' sample_subscribed_db of
         Some old \<Rightarrow> sub_grace_period_ends_at old = Some (1000 + 3 * day_ms) | None \<Rightarrow> False)"
    by code_simp
  then obtain ctx db' snap db'' old where
      h: "?h = (Inr ctx, db')" and c: "ctx_organization_id ctx = Some ''o1''"
      and o: "find_organization_by_reference ''o1'' db' = Some ?org"
      and l: "load_billing_snapshot (sample_env ?t) 3 ''o1'' db' = (Inr snap, db'')"
      and old: "latest_subscription ''o1'' sample_subscribed_db = Some old"
        "sub_grace_period_ends_at old = Some (1000 + 3 * day_ms)"
    by (auto split: prod.splits sum.splits option.splits)
  have i: "org_id ?org = ''o1''" by (simp add: sample_org_def)
  have st: "map_stripe_subscription_status (ss_status (sample_subscription ''past_due'')) = sub_past_due"
    by code_simp
  have "snap_hard_locked snap \<longleftrightarrow> 1000 + 3 * day_ms \<le> env_now (sample_env ?t)"
    by (rule subscription_updated_keeps_old_grace[OF sample_subscribed_db_ok h st o _ _ old(2) l])
      (simp_all add: i c old(1))
  with h l show ?thesis by (auto simp: sample_env_def day_ms_def)
qed

end
