(* ===== verification/BillingOperations.thy ===== *)
theory BillingOperations
  imports BillingCorrect
begin

text \<open>
  The rest of \<open>apps/api/src/modules/billing/service.ts\<close>: the checkout ban counter, the calls to
  Stripe (customer, checkout, portal, cancellation) and the listings.

  Stripe is a parameter: its answers are the functions of \<^theory_text>\<open>stripe_api\<close>; the calls made are
  kept in the state, oldest first.
\<close>

subsection \<open>The checkout ban\<close>

record checkout_config =
  cfg_decline_ban_threshold :: int
  cfg_temp_ban_seconds :: int
  cfg_cancel_url :: string
  cfg_success_url :: string
  cfg_portal_return_url :: string

definition checkout_decline_counter_key :: "string \<Rightarrow> string" where
  "checkout_decline_counter_key ip = ''billing:checkout:declines:'' @ ip"

definition checkout_ban_key :: "string \<Rightarrow> string" where
  "checkout_ban_key ip = ''billing:checkout:ban:'' @ ip"

text \<open>The text under a counter key, as \<open>Number\<close> reads it.\<close>

definition text_number :: "cache_text \<Rightarrow> js_num" where
  "text_number t = (case t of RawText s \<Rightarrow> js_number s | SnapshotText _ \<Rightarrow> NaN)"

definition text_truthy :: "cache_text option \<Rightarrow> bool" where
  "text_truthy t = (t \<noteq> None \<and> t \<noteq> Some (RawText []))"

definition num_succ :: "js_num \<Rightarrow> js_num" where
  "num_succ n = (case n of Fin q \<Rightarrow> Fin (q + 1) | x \<Rightarrow> x)"

text \<open>\<open>String(n)\<close>: the counter is a whole number or what \<open>Number\<close> made of unreadable text.\<close>

definition show_count :: "js_num \<Rightarrow> string" where
  "show_count n = (case n of Fin q \<Rightarrow> show_int \<lfloor>q\<rfloor> | NaN \<Rightarrow> ''NaN'' | PosInf \<Rightarrow> ''Infinity'' | NegInf \<Rightarrow> ''-Infinity'')"

definition is_checkout_ip_temporarily_banned ::
    "('r, cache_text) redis_client \<Rightarrow> ms \<Rightarrow> string option \<Rightarrow> ('r billing_world, bool) operation" where
  "is_checkout_ip_temporarily_banned rc now ip = (case truthy ip of
     None \<Rightarrow> give False
   | Some a \<Rightarrow> then_do (on_cache (read_cache_value rc (checkout_ban_key a) now))
       (\<lambda>v. give (text_truthy v)))"

definition clear_checkout_ip_ban ::
    "('r, cache_text) redis_client \<Rightarrow> ms \<Rightarrow> string option \<Rightarrow> ('r billing_world, unit) operation" where
  "clear_checkout_ip_ban rc now ip = (case truthy ip of
     None \<Rightarrow> give ()
   | Some a \<Rightarrow> on_cache (delete_cache_keys rc [checkout_ban_key a, checkout_decline_counter_key a] now))"

definition register_checkout_decline ::
    "('r, cache_text) redis_client \<Rightarrow> checkout_config \<Rightarrow> ms \<Rightarrow> string option \<Rightarrow>
       ('r billing_world, js_num) operation" where
  "register_checkout_decline rc cfg now ip = (case truthy ip of
     None \<Rightarrow> give (Fin 0)
   | Some a \<Rightarrow>
       then_do (on_cache (read_cache_value rc (checkout_decline_counter_key a) now)) (\<lambda>found.
       let current = (case found of None \<Rightarrow> Fin 0 | Some t \<Rightarrow> text_number t); next = num_succ current
       in then_do (on_cache (write_cache_value rc (checkout_decline_counter_key a)
              (RawText (show_count next)) (cfg_temp_ban_seconds cfg) now)) (\<lambda>_.
          then_do (if num_le (Fin (of_int (cfg_decline_ban_threshold cfg))) next
             then on_cache (write_cache_value rc (checkout_ban_key a) (RawText ''1'')
                    (cfg_temp_ban_seconds cfg) now)
             else give ()) (\<lambda>_. give next))))"

subsection \<open>Calls to Stripe\<close>

record checkout_request =
  cr_customer :: string
  cr_price :: string
  cr_locale :: "string option"
  cr_country_code :: string
  cr_organization_id :: string
  cr_plan_id :: string
  cr_tenant_id :: string
  cr_cancel_url :: string
  cr_success_url :: string

datatype stripe_call =
    CreateCustomer string string string string
  | UpdateCustomerCountry string string
  | CreateCheckout checkout_request
  | CreatePortal string string
  | CancelSubscription string

record stripe_api =
  api_create_customer :: "string \<Rightarrow> string \<Rightarrow> string \<Rightarrow> string \<Rightarrow> string + string"
  api_update_country :: "string \<Rightarrow> string \<Rightarrow> string + unit"
  api_create_checkout :: "checkout_request \<Rightarrow> string + string \<times> string option"
  api_create_portal :: "string \<Rightarrow> string \<Rightarrow> string + string"
  api_cancel_subscription :: "string \<Rightarrow> string + unit"

record stripe_world =
  sw_db :: billing_db
  sw_calls :: "stripe_call list"

definition in_db :: "(billing_db, 'a) operation \<Rightarrow> (stripe_world, 'a) operation" where
  "in_db m w = (case m (sw_db w) of (r, db) \<Rightarrow> (r, w\<lparr>sw_db := db\<rparr>))"

definition call_stripe :: "stripe_call \<Rightarrow> string + 'a \<Rightarrow> (stripe_world, 'a) operation" where
  "call_stripe c answer w =
     (case answer of Inl e \<Rightarrow> Inl (External e) | Inr a \<Rightarrow> Inr a, w\<lparr>sw_calls := sw_calls w @ [c]\<rparr>)"

definition provision_stripe_customer_for_organization ::
    "stripe_api \<Rightarrow> billing_env \<Rightarrow> string \<Rightarrow> string \<Rightarrow> string \<Rightarrow> (stripe_world, string) operation" where
  "provision_stripe_customer_for_organization api env email name reference =
     then_do (ask (\<lambda>w. find_organization_by_reference reference (sw_db w))) (\<lambda>found. case found of
       None \<Rightarrow> throw (Problem 404 ''Organization not found when provisioning Stripe customer.'')
     | Some org \<Rightarrow> (case truthy (org_stripe_customer_id org) of
         Some c \<Rightarrow> give c
       | None \<Rightarrow>
           then_do (call_stripe (CreateCustomer email name (org_id org) (org_tenant_id org))
               (api_create_customer api email name (org_id org) (org_tenant_id org))) (\<lambda>customer.
           then_do (in_db (update_organization (org_id org)
               (\<lambda>r. r\<lparr>org_stripe_customer_id := Some customer\<rparr>))) (\<lambda>_.
           then_do (in_db (update_subscriptions_of env (org_id org)
               (\<lambda>r. r\<lparr>sub_stripe_customer_id := Some customer\<rparr>))) (\<lambda>_.
             give customer)))))"

text \<open>The oldest membership with the owner role, and its user.\<close>

definition first_owner :: "string \<Rightarrow> billing_db \<Rightarrow> user_row option" where
  "first_owner oid db =
     Option.bind (first_of (sort_key mem_created_at
         (filter (\<lambda>m. mem_organization_id m = oid \<and> mem_role m = OWNER) (db_memberships db))))
       (\<lambda>m. List.find (\<lambda>u. user_id u = mem_user_id m) (db_users db))"

definition resolve_customer_for_checkout ::
    "stripe_api \<Rightarrow> billing_env \<Rightarrow> string \<Rightarrow> (stripe_world, string) operation" where
  "resolve_customer_for_checkout api env reference =
     then_do (ask (\<lambda>w. find_organization_by_reference reference (sw_db w))) (\<lambda>found. case found of
       None \<Rightarrow> throw (Problem 404 ''Organization not found for checkout.'')
     | Some org \<Rightarrow> (case truthy (org_stripe_customer_id org) of
         Some c \<Rightarrow> give c
       | None \<Rightarrow>
           then_do (ask (\<lambda>w. first_owner (org_id org) (sw_db w))) (\<lambda>owner.
           let email = (case owner of Some u \<Rightarrow> user_email u
                 | None \<Rightarrow> ''billing+'' @ org_tenant_id org @ ''@birthub.local'');
               name = (case owner of Some u \<Rightarrow> user_name u | None \<Rightarrow> org_name org)
           in provision_stripe_customer_for_organization api env email name (org_id org))))"

definition locale_by_prefix :: "string \<Rightarrow> string option" where
  "locale_by_prefix l =
     (if l = ''en'' \<or> l = ''en-us'' then Some ''en''
      else if l = ''es'' then Some ''es''
      else if l = ''fr'' then Some ''fr''
      else if l = ''it'' then Some ''it''
      else if l = ''pt'' \<or> l = ''pt-br'' then Some ''pt-BR''
      else None)"

definition normalize_stripe_locale :: "string option \<Rightarrow> string option" where
  "normalize_stripe_locale l = (case truthy l of
     None \<Rightarrow> None
   | Some s \<Rightarrow>
       (let normalized = js_lower s
        in or_opt (locale_by_prefix normalized) (locale_by_prefix (hd (split_on CHR ''-'' normalized)))))"

definition read_organization_setting :: "js_val \<Rightarrow> string \<Rightarrow> string option" where
  "read_organization_setting settings key = (case settings of
     JObj fs \<Rightarrow> (case obj_get fs key of
       JStr s \<Rightarrow> if js_trim s = [] then None else Some (js_trim s)
     | _ \<Rightarrow> None)
   | _ \<Rightarrow> None)"

definition is_country_code :: "string \<Rightarrow> bool" where
  "is_country_code c \<longleftrightarrow> length c = 2 \<and> list_all (\<lambda>x. 65 \<le> (of_char x :: nat) \<and> (of_char x :: nat) \<le> 90) c"

definition create_checkout_session_for_organization ::
    "stripe_api \<Rightarrow> checkout_config \<Rightarrow> billing_env \<Rightarrow> string option \<Rightarrow> string option \<Rightarrow> string \<Rightarrow> string \<Rightarrow>
       (stripe_world, string \<times> string) operation" where
  "create_checkout_session_for_organization api cfg env country locale_name reference pid =
     then_do (ask (\<lambda>w. find_organization_by_reference reference (sw_db w))) (\<lambda>found. case found of
       None \<Rightarrow> throw (Problem 404 ''Organization not found for checkout.'')
     | Some org \<Rightarrow>
     then_do (ask (\<lambda>w. find_plan_by_id pid (sw_db w))) (\<lambda>plan. case plan of
       None \<Rightarrow> throw (Problem 404 ''Requested plan is not available.'')
     | Some p \<Rightarrow>
     if \<not> plan_active p then throw (Problem 404 ''Requested plan is not available.'')
     else case truthy (plan_stripe_price_id p) of
       None \<Rightarrow> throw (Problem 409 ''Requested plan is missing Stripe price mapping.'')
     | Some price \<Rightarrow>
     then_do (resolve_customer_for_checkout api env reference) (\<lambda>customer.
     let loc = or_opt (normalize_stripe_locale locale_name)
           (normalize_stripe_locale (read_organization_setting (org_settings org) ''locale''));
         code = or_opt (map_option (\<lambda>c. js_upper (js_trim c)) country)
           (map_option js_upper (read_organization_setting (org_settings org) ''countryCode''));
         request = \<lparr>cr_customer = customer, cr_price = price, cr_locale = loc,
           cr_country_code = or_else code [], cr_organization_id = org_id org, cr_plan_id = plan_id p,
           cr_tenant_id = org_tenant_id org, cr_cancel_url = cfg_cancel_url cfg,
           cr_success_url = cfg_success_url cfg @ ''?session_id={CHECKOUT_SESSION_ID}''\<rparr>
     in then_do (case truthy code of
            None \<Rightarrow> give ()
          | Some c \<Rightarrow> if is_country_code c
              then call_stripe (UpdateCustomerCountry customer c) (api_update_country api customer c)
              else give ()) (\<lambda>_.
        then_do (call_stripe (CreateCheckout request) (api_create_checkout api request)) (\<lambda>session.
          case truthy (snd session) of
            None \<Rightarrow> throw (Problem 502 ''Stripe did not return a checkout URL.'')
          | Some url \<Rightarrow> give (fst session, url))))))"

definition create_customer_portal_session_for_organization ::
    "stripe_api \<Rightarrow> checkout_config \<Rightarrow> string \<Rightarrow> (stripe_world, string) operation" where
  "create_customer_portal_session_for_organization api cfg reference =
     then_do (ask (\<lambda>w. find_organization_by_reference reference (sw_db w))) (\<lambda>found.
       case Option.bind found (\<lambda>org. truthy (org_stripe_customer_id org)) of
         None \<Rightarrow> throw (Problem 409 ''Stripe customer is not configured for this organization.'')
       | Some c \<Rightarrow> call_stripe (CreatePortal c (cfg_portal_return_url cfg))
           (api_create_portal api c (cfg_portal_return_url cfg)))"

text \<open>\<open>cancelBillingForOrganization\<close>: whether it canceled, and what.\<close>

definition cancel_billing_for_organization ::
    "stripe_api \<Rightarrow> billing_env \<Rightarrow> string \<Rightarrow> (stripe_world, bool \<times> string option) operation" where
  "cancel_billing_for_organization api env reference =
     then_do (ask (\<lambda>w. find_organization_by_reference reference (sw_db w))) (\<lambda>found. case found of
       None \<Rightarrow> throw (Problem 404 ''Organization not found for billing cancellation.'')
     | Some org \<Rightarrow>
     then_do (ask (\<lambda>w. latest_subscription (org_id org) (sw_db w))) (\<lambda>subscription.
       case Option.bind subscription (\<lambda>s. map_option (Pair (sub_id s)) (truthy (sub_stripe_subscription_id s))) of
         None \<Rightarrow> give (False, None)
       | Some (sid, stripe_sub) \<Rightarrow>
           then_do (call_stripe (CancelSubscription stripe_sub) (api_cancel_subscription api stripe_sub)) (\<lambda>_.
           then_do (in_db (update_subscription env sid (\<lambda>r.
               r\<lparr>sub_canceled_at := Some (env_now env), sub_status := sub_canceled\<rparr>))) (\<lambda>_.
             give (True, Some stripe_sub)))))"

subsection \<open>Listings\<close>

definition list_active_plans :: "billing_db \<Rightarrow> plan_row list" where
  "list_active_plans db = sort_key plan_monthly_price_cents (filter plan_active (db_plans db))"

text \<open>The rows of a page start after the cursor's row; an unknown cursor leaves none.\<close>

definition after_cursor :: "string option \<Rightarrow> invoice_row list \<Rightarrow> invoice_row list" where
  "after_cursor cursor rows = (case truthy cursor of
     None \<Rightarrow> rows
   | Some c \<Rightarrow> drop 1 (dropWhile (\<lambda>r. inv_id r \<noteq> c) rows))"

definition invoices_newest_first :: "string \<Rightarrow> billing_db \<Rightarrow> invoice_row list" where
  "invoices_newest_first oid db =
     sort_key (\<lambda>r. - inv_created_at r) (filter (\<lambda>r. inv_organization_id r = oid) (db_invoices db))"

definition list_invoices_for_organization ::
    "string option \<Rightarrow> string \<Rightarrow> nat \<Rightarrow> (billing_db, invoice_row list \<times> string option) operation" where
  "list_invoices_for_organization cursor reference n =
     then_do (ask (find_organization_by_reference reference)) (\<lambda>found. case found of
       None \<Rightarrow> throw (Problem 404 ''Organization not found while listing invoices.'')
     | Some org \<Rightarrow>
         then_do (ask (\<lambda>db. take (n + 1) (after_cursor cursor (invoices_newest_first (org_id org) db)))) (\<lambda>rows.
           give (take n rows,
             if n < length rows \<and> 0 < n then Some (inv_id (rows ! (n - 1))) else None)))"

definition usage_by_metric :: "usage_row list \<Rightarrow> (string \<times> int) list" where
  "usage_by_metric rows =
     foldl (\<lambda>m r. AList.update (usage_metric r) (or_else (map_of m (usage_metric r)) 0 + usage_quantity r) m)
       [] rows"

definition list_usage_for_organization ::
    "string \<Rightarrow> (billing_db, (string \<times> int) list \<times> usage_row list) operation" where
  "list_usage_for_organization reference =
     then_do (ask (find_organization_by_reference reference)) (\<lambda>found. case found of
       None \<Rightarrow> throw (Problem 404 ''Organization not found while listing usage.'')
     | Some org \<Rightarrow>
         then_do (ask (\<lambda>db. take 300 (sort_key (\<lambda>r. - usage_occurred_at r)
             (filter (\<lambda>r. usage_organization_id r = org_id org) (db_usage db))))) (\<lambda>rows.
           give (usage_by_metric rows, rows)))"

subsection \<open>Paging through the invoices\<close>

text \<open>A client that follows \<open>nextCursor\<close>, at most \<open>fuel\<close> pages.\<close>

fun all_pages :: "nat \<Rightarrow> string option \<Rightarrow> string \<Rightarrow> nat \<Rightarrow> billing_db \<Rightarrow> invoice_row list list" where
  "all_pages 0 cursor reference n db = []"
| "all_pages (Suc fuel) cursor reference n db =
     (case list_invoices_for_organization cursor reference n db of
        (Inr (items, Some c), _) \<Rightarrow> items # all_pages fuel (Some c) reference n db
      | (Inr (items, None), _) \<Rightarrow> [items]
      | (Inl _, _) \<Rightarrow> [])"

lemma after_cursor_suffix:
  assumes "rows = pre @ r # post" and "distinct (map inv_id rows)" and "inv_id r \<noteq> []"
  shows "after_cursor (Some (inv_id r)) rows = post"
proof -
  have "\<forall>x \<in> set pre. inv_id x \<noteq> inv_id r" using assms by (auto simp: image_iff)
  then have "dropWhile (\<lambda>x. inv_id x \<noteq> inv_id r) (pre @ r # post) = r # post"
    by (induction pre) auto
  moreover have "truthy (Some (inv_id r)) = Some (inv_id r)" using assms(3) by (simp add: truthy_Some_iff)
  ultimately show ?thesis using assms(1) by (simp add: after_cursor_def)
qed

lemma list_invoices_page:
  assumes "find_organization_by_reference reference db = Some org" and "0 < n"
    and "after_cursor cursor (invoices_newest_first (org_id org) db) = post"
  shows "list_invoices_for_organization cursor reference n db =
    (Inr (take n post, if n < length post then Some (inv_id (post ! (n - 1))) else None), db)"
  using assms by (auto simp: list_invoices_for_organization_def then_do_def ask_def give_def min_def)

lemma all_pages_concat:
  assumes "find_organization_by_reference reference db = Some org" and "0 < n"
    and "rows = invoices_newest_first (org_id org) db"
    and "distinct (map inv_id rows)" and "\<forall>r \<in> set rows. inv_id r \<noteq> []"
  shows "rows = pre @ post \<Longrightarrow> after_cursor cursor rows = post \<Longrightarrow> length post \<le> fuel \<Longrightarrow>
    concat (all_pages fuel cursor reference n db) = post"
proof (induction fuel arbitrary: pre post cursor)
  case (Suc fuel)
  note page = list_invoices_page[OF assms(1,2), of cursor post] Suc.prems(2)[unfolded assms(3)]
  show ?case
  proof (cases "n < length post")
    case False
    then show ?thesis using page by simp
  next
    case True
    let ?r = "post ! (n - 1)"
    have split: "post = take (n - 1) post @ ?r # drop n post"
      using True \<open>0 < n\<close> id_take_nth_drop[of "n - 1" post] by simp
    have rows: "rows = (pre @ take (n - 1) post) @ ?r # drop n post"
      using split Suc.prems(1) by simp
    have "inv_id ?r \<noteq> []" using assms(5) rows by (metis in_set_conv_decomp)
    then have ac: "after_cursor (Some (inv_id ?r)) rows = drop n post"
      using after_cursor_suffix[OF rows assms(4)] by simp
    have "rows = (pre @ take n post) @ drop n post" using Suc.prems(1) by simp
    from Suc.IH[OF this ac] have "concat (all_pages fuel (Some (inv_id ?r)) reference n db) = drop n post"
      using Suc.prems(3) True \<open>0 < n\<close> by simp
    then show ?thesis using page True by simp
  qed
qed simp

lemma invoice_ids_distinct:
  assumes "billing_db_ok db"
  shows "distinct (map inv_id (invoices_newest_first oid db))"
proof -
  have "distinct (List.map_filter (\<lambda>r. Some (inv_id r)) (db_invoices db))"
    using assms by (simp add: billing_db_ok_def indexes_ok_def invoice_indexes_def index_ok_def)
  then have "distinct (map inv_id (db_invoices db))"
    by (simp add: List.map_filter_def comp_def)
  then have "distinct (map inv_id (filter (\<lambda>r. inv_organization_id r = oid) (db_invoices db)))"
    by (rule distinct_map_filter)
  then show ?thesis by (simp add: invoices_newest_first_def distinct_map)
qed

subsection \<open>Properties\<close>

text \<open>
  Following \<open>nextCursor\<close> from the first page, whatever the page size, lists every
  invoice of the organization exactly once, newest first: no page boundary drops or repeats one.
\<close>

theorem invoice_pages_complete:
  assumes "billing_db_ok db" and "find_organization_by_reference reference db = Some org" and "0 < n"
    and "\<forall>r \<in> set (db_invoices db). inv_id r \<noteq> []" and "length (db_invoices db) \<le> fuel"
  shows "concat (all_pages fuel None reference n db) = invoices_newest_first (org_id org) db"
proof (rule all_pages_concat[OF assms(2,3) refl invoice_ids_distinct[OF assms(1)], where pre = "[]"])
  show "\<forall>r \<in> set (invoices_newest_first (org_id org) db). inv_id r \<noteq> []"
    using assms(4) by (auto simp: invoices_newest_first_def)
  have "length (invoices_newest_first (org_id org) db) \<le> length (db_invoices db)"
    by (simp add: invoices_newest_first_def)
  then show "length (invoices_newest_first (org_id org) db) \<le> fuel" using assms(5) by simp
qed (simp_all add: after_cursor_def)

definition sample_invoice_row :: "string \<Rightarrow> ms \<Rightarrow> invoice_row" where
  "sample_invoice_row i t = \<lparr>inv_id = i, inv_tenant_id = ''t1'', inv_organization_id = ''o1'',
     inv_subscription_id = None, inv_stripe_invoice_id = i, inv_status = inv_paid, inv_currency = ''usd'',
     inv_amount_due_cents = 0, inv_amount_paid_cents = 0, inv_hosted_invoice_url = None,
     inv_invoice_pdf_url = None, inv_due_date = None, inv_period_start = None, inv_period_end = None,
     inv_created_at = t\<rparr>"

theorem invoice_pages_complete_witness:
  "concat (all_pages 3 None ''t1'' 2 (sample_db\<lparr>db_invoices :=
       [sample_invoice_row ''a'' 10, sample_invoice_row ''b'' 30, sample_invoice_row ''c'' 20]\<rparr>)) =
     [sample_invoice_row ''b'' 30, sample_invoice_row ''c'' 20, sample_invoice_row ''a'' 10]"
proof -
  let ?db = "sample_db\<lparr>db_invoices :=
    [sample_invoice_row ''a'' 10, sample_invoice_row ''b'' 30, sample_invoice_row ''c'' 20]\<rparr>"
  let ?org = "sample_org ''o1'' ''t1'' (Some ''cus_1'')"
  have ok: "billing_db_ok ?db" by code_simp
  have o: "find_organization_by_reference ''t1'' ?db = Some ?org" by code_simp
  have "concat (all_pages 3 None ''t1'' 2 ?db) = invoices_newest_first (org_id ?org) ?db"
    by (rule invoice_pages_complete[OF ok o]) (simp_all add: sample_invoice_row_def)
  also have "\<dots> = [sample_invoice_row ''b'' 30, sample_invoice_row ''c'' 20, sample_invoice_row ''a'' 10]"
    by code_simp
  finally show ?thesis .
qed

text \<open>
  The payment of an invoice that belongs to no subscription erases the Stripe
  subscription id of the organization's subscription: a cancellation right after it reports that
  there is nothing to cancel and makes no call to Stripe.
\<close>

theorem one_off_invoice_blocks_cancellation:
  assumes "billing_db_ok db" and "handle_invoice_payment_succeeded env invoice db = (Inr ctx, db')"
    and "si_parent_subscription invoice = None"
    and "find_organization_by_reference reference db' = Some org"
    and "ctx_organization_id ctx = Some (org_id org)"
  shows "cancel_billing_for_organization api env' reference \<lparr>sw_db = db', sw_calls = calls\<rparr> =
    (Inr (False, None), \<lparr>sw_db = db', sw_calls = calls\<rparr>)"
proof -
  obtain s where "latest_subscription (org_id org) db' = Some s" "sub_stripe_subscription_id s = None"
    using handle_succeeded_Inr[OF assms(1,2)] assms(3,5)
    by (auto simp: resolve_invoice_subscription_id_def ref_id_def)
  then show ?thesis
    using assms(4) by (simp add: cancel_billing_for_organization_def then_do_def ask_def give_def)
qed

definition sample_live_db :: billing_db where
  "sample_live_db = snd (handle_invoice_payment_succeeded (sample_env 1000)
     (sample_invoice\<lparr>si_parent_subscription := Some (RefId ''sub_9'')\<rparr>) sample_db)"

theorem one_off_invoice_blocks_cancellation_witness:
  "\<exists>ctx db'. map_option sub_stripe_subscription_id (latest_subscription ''o1'' sample_live_db) =
       Some (Some ''sub_9'') \<and>
     handle_invoice_payment_succeeded ((sample_env 9000)\<lparr>env_invoice_id := ''i2''\<rparr>)
       (sample_invoice\<lparr>si_id := ''in_2''\<rparr>) sample_live_db = (Inr ctx, db') \<and>
     (\<forall>api. cancel_billing_for_organization api (sample_env 9500) ''o1'' \<lparr>sw_db = db', sw_calls = []\<rparr> =
       (Inr (False, None), \<lparr>sw_db = db', sw_calls = []\<rparr>))"
proof -
  let ?i = "sample_invoice\<lparr>si_id := ''in_2''\<rparr>" and ?org = "sample_org ''o1'' ''t1'' (Some ''cus_1'')"
  let ?h = "handle_invoice_payment_succeeded ((sample_env 9000)\<lparr>env_invoice_id := ''i2''\<rparr>) ?i sample_live_db"
  have live: "map_option sub_stripe_subscription_id (latest_subscription ''o1'' sample_live_db) =
      Some (Some ''sub_9'')" and ok: "billing_db_ok sample_live_db" by code_simp+
  have "case ?h of (Inr ctx, db') \<Rightarrow> ctx_organization_id ctx = Some ''o1'' \<and>
      find_organization_by_reference ''o1'' db' = Some ?org | _ \<Rightarrow> False"
    by code_simp
  then obtain ctx db' where h: "?h = (Inr ctx, db')" and c: "ctx_organization_id ctx = Some ''o1''"
      and o: "find_organization_by_reference ''o1'' db' = Some ?org"
    by (auto split: prod.splits sum.splits)
  have "cancel_billing_for_organization api (sample_env 9500) ''o1'' \<lparr>sw_db = db', sw_calls = []\<rparr> =
      (Inr (False, None), \<lparr>sw_db = db', sw_calls = []\<rparr>)" for api
    by (rule one_off_invoice_blocks_cancellation[OF ok h _ o])
      (simp_all add: sample_invoice_def c sample_org_def)
  with live h show ?thesis by auto
qed

end
