(* ===== verification/StripeWebhook.thy ===== *)
theory StripeWebhook
  imports BillingCorrect
begin

text \<open>
  \<open>apps/api/src/modules/webhooks/stripe.router.ts\<close>: the endpoint Stripe delivers its events to.
  A delivery is authenticated, checked against the replay window, serialized by a lock and then
  carried through the states received, processing, processed or failed of its billing event row;
  the billing changes are made in one transaction with the step to processed.

  Parameters of the model: the signature check of the Stripe library, the lock service, the queue
  of the CRM synchronisation, the text of an error, the Redis client and, as in the code, the
  processor of the event. The main result is that the billing tables are at all times what the
  events that were acknowledged produce when each is applied once, in the order of their acknowledgement.
\<close>

subsection \<open>The signature header\<close>

definition parse_stripe_signature_timestamp :: "string \<Rightarrow> api_error + ms" where
  "parse_stripe_signature_timestamp signature =
     (case List.find (\<lambda>f. starts_with f ''t='') (map js_trim (split_on CHR '','' signature)) of
        None \<Rightarrow> Inl (Problem 400 ''Stripe webhook signature is missing the timestamp component.'')
      | Some fragment \<Rightarrow>
          (case js_number (drop 2 fragment) of
             Fin q \<Rightarrow> if of_int \<lfloor>q\<rfloor> = q \<and> 0 < q then Inr (\<lfloor>q\<rfloor> * 1000)
               else Inl (Problem 400 ''Stripe webhook signature contains an invalid timestamp.'')
           | _ \<Rightarrow> Inl (Problem 400 ''Stripe webhook signature contains an invalid timestamp.'')))"

definition within_replay_window :: "ms \<Rightarrow> ms \<Rightarrow> int \<Rightarrow> bool" where
  "within_replay_window now signature_timestamp tolerance_seconds \<longleftrightarrow>
     \<bar>now - signature_timestamp\<bar> \<le> tolerance_seconds * 1000"

subsection \<open>State\<close>

record billing_event_row =
  be_stripe_event_id :: string
  be_type :: string
  be_payload :: stripe_event
  be_status :: billing_event_status
  be_attempt_count :: nat
  be_signature_timestamp :: "ms option"
  be_event_created_at :: "ms option"
  be_processed_at :: "ms option"
  be_failed_at :: "ms option"
  be_last_error :: "string option"
  be_organization_id :: "string option"
  be_tenant_id :: "string option"

definition event_indexes :: "billing_event_row index list" where
  "event_indexes = [(''stripeEventId'', \<lambda>r. Some (be_stripe_event_id r))]"

interpretation event_by_id: unique_key "\<lambda>r. Some (be_stripe_event_id r)" .

record 'r webhook_world =
  ww_billing :: billing_db
  ww_events :: "billing_event_row list"
  ww_cache :: "('r, cache_text) cache_state"
  ww_crm :: "(string \<times> string) list"

text \<open>The event with the fields of \<open>event.data.object\<close> that name the lock, where they are strings.\<close>

record webhook_event = stripe_event +
  wh_customer :: "string option"
  wh_subscription :: "string option"
  wh_organization :: "string option"

record webhook_config =
  wc_node_env :: string
  wc_tolerance_seconds :: int
  wc_webhook_secret :: string

record ('r) webhook_services =
  sv_redis :: "('r, cache_text) redis_client"
  sv_construct :: "string \<Rightarrow> string \<Rightarrow> string \<Rightarrow> string + webhook_event"
  sv_lock :: "string \<Rightarrow> string + unit"
  sv_crm :: "string \<times> string \<Rightarrow> string + unit"
  sv_message :: "api_error \<Rightarrow> string"
  sv_process :: "billing_env \<Rightarrow> stripe_event \<Rightarrow> (billing_db, event_context) operation"

record webhook_request =
  rq_signature :: "string option"
  rq_raw_body :: "string option"

subsection \<open>The handler\<close>

definition idempotency_ttl_seconds :: int where
  "idempotency_ttl_seconds = 86400"

definition billing_status_cache_key :: "string \<Rightarrow> string" where
  "billing_status_cache_key tenant = ''billing-status:'' @ tenant"

definition stripe_webhook_idempotency_key :: "string \<Rightarrow> string" where
  "stripe_webhook_idempotency_key event_id = ''idempotency:stripe_webhook:'' @ event_id"

definition resolve_lock_resource :: "webhook_event \<Rightarrow> string" where
  "resolve_lock_resource e =
     ''locks:stripe:'' @
       or_else (or_opt (wh_customer e) (or_opt (wh_subscription e) (wh_organization e))) (se_id e)"

definition with_stripe_event_lock ::
    "webhook_config \<Rightarrow> 'r webhook_services \<Rightarrow> webhook_event \<Rightarrow> ('s, 'a) operation \<Rightarrow> ('s, 'a) operation" where
  "with_stripe_event_lock cfg sv e callback =
     (if wc_node_env cfg = ''test'' then callback
      else case sv_lock sv (resolve_lock_resource e) of
        Inl err \<Rightarrow> throw (External err)
      | Inr _ \<Rightarrow> callback)"

definition resolve_stripe_event_created_at :: "webhook_event \<Rightarrow> ms option" where
  "resolve_stripe_event_created_at e = map_option (\<lambda>t. t * 1000) (se_created e)"

definition to_webhook_error_message :: "'r webhook_services \<Rightarrow> api_error \<Rightarrow> string" where
  "to_webhook_error_message sv err = take 1000 (sv_message sv err)"

definition set_events :: "billing_event_row list \<Rightarrow> 'r webhook_world \<Rightarrow> 'r webhook_world" where
  "set_events rows w = w\<lparr>ww_events := rows\<rparr>"

definition find_billing_event :: "string \<Rightarrow> 'r webhook_world \<Rightarrow> billing_event_row option" where
  "find_billing_event i w = List.find (\<lambda>r. be_stripe_event_id r = i) (ww_events w)"

definition update_billing_event ::
    "string \<Rightarrow> (billing_event_row \<Rightarrow> billing_event_row) \<Rightarrow> ('r webhook_world, unit) operation" where
  "update_billing_event i f =
     on_table ww_events set_events
       (update_unique ''billingEvent'' event_indexes (\<lambda>r. be_stripe_event_id r = i) f)"

definition plain_event :: "webhook_event \<Rightarrow> stripe_event" where
  "plain_event e = stripe_event.truncate e"

definition create_received_billing_event ::
    "webhook_event \<Rightarrow> ms \<Rightarrow> ('r webhook_world, billing_event_row) operation" where
  "create_received_billing_event e signature_timestamp w =
     (let new = \<lparr>be_stripe_event_id = se_id e, be_type = se_type e, be_payload = plain_event e,
            be_status = ev_received, be_attempt_count = 0,
            be_signature_timestamp = Some signature_timestamp,
            be_event_created_at = resolve_stripe_event_created_at e, be_processed_at = None,
            be_failed_at = None, be_last_error = None, be_organization_id = None, be_tenant_id = None\<rparr>
      in case on_table ww_events set_events (create_row event_indexes new) w of
           (Inr _, w') \<Rightarrow> (Inr new, w')
         | (Inl (Database (P2002 key)), w') \<Rightarrow>
             (case find_billing_event (se_id e) w' of
                Some row \<Rightarrow> (Inr row, w')
              | None \<Rightarrow> (Inl (Database (P2002 key)), w'))
         | (Inl err, w') \<Rightarrow> (Inl err, w'))"

definition mark_billing_event_processing ::
    "webhook_event \<Rightarrow> ms \<Rightarrow> ('r webhook_world, unit) operation" where
  "mark_billing_event_processing e signature_timestamp =
     update_billing_event (se_id e) (\<lambda>r. r\<lparr>be_attempt_count := be_attempt_count r + 1,
       be_event_created_at := resolve_stripe_event_created_at e, be_failed_at := None,
       be_last_error := None, be_payload := plain_event e, be_processed_at := None,
       be_signature_timestamp := Some signature_timestamp, be_status := ev_processing,
       be_type := se_type e\<rparr>)"

definition cache_op ::
    "(('r, cache_text) cache_state \<Rightarrow> (cache_error + 'a) \<times> ('r, cache_text) cache_state) \<Rightarrow>
       ('r webhook_world, 'a) operation" where
  "cache_op m w = (case m (ww_cache w) of
     (Inr a, c) \<Rightarrow> (Inr a, w\<lparr>ww_cache := c\<rparr>)
   | (Inl _, c) \<Rightarrow> (Inl (CacheFailure ''cache''), w\<lparr>ww_cache := c\<rparr>))"

text \<open>A \<open>try\<close> whose \<open>catch\<close> only logs.\<close>

definition attempt :: "('s, unit) operation \<Rightarrow> ('s, unit) operation" where
  "attempt m s = (Inr (), snd (m s))"

text \<open>The transaction: the domain changes and the step to processed, or neither.\<close>

definition process_in_transaction ::
    "'r webhook_services \<Rightarrow> billing_env \<Rightarrow> webhook_event \<Rightarrow> ('r webhook_world, event_context) operation" where
  "process_in_transaction sv env e =
     in_transaction (then_do
       (\<lambda>w. case sv_process sv env (plain_event e) (ww_billing w) of (r, db) \<Rightarrow> (r, w\<lparr>ww_billing := db\<rparr>))
       (\<lambda>ctx. then_do (update_billing_event (se_id e) (\<lambda>r.
            r\<lparr>be_failed_at := None, be_last_error := None,
              be_organization_id := ctx_organization_id ctx, be_processed_at := Some (env_now env),
              be_status := ev_processed, be_tenant_id := ctx_tenant_id ctx\<rparr>))
          (\<lambda>_. give ctx)))"

text \<open>\<open>Promise.all\<close> of the cache deletions: both are made.\<close>

definition invalidate_caches ::
    "'r webhook_services \<Rightarrow> ms \<Rightarrow> event_context \<Rightarrow> ('r webhook_world, unit) operation" where
  "invalidate_caches sv now ctx w =
     (let keys = js_set (map billing_snapshot_cache_key
            (List.map_filter (\<lambda>r. case r of None \<Rightarrow> None | Some s \<Rightarrow> if js_trim s = [] then None else Some s)
               [ctx_organization_id ctx, ctx_tenant_id ctx]))
      in case cache_op (delete_cache_keys (sv_redis sv) keys now) w of (a, w1) \<Rightarrow>
         case truthy (ctx_tenant_id ctx) of
           None \<Rightarrow> (a, w1)
         | Some t \<Rightarrow>
             (case cache_op (delete_cache_keys (sv_redis sv) [billing_status_cache_key t] now) w1 of
                (b, w2) \<Rightarrow> (case a of Inl err \<Rightarrow> Inl err | Inr _ \<Rightarrow> b, w2)))"

definition enqueue_crm_sync ::
    "'r webhook_services \<Rightarrow> string \<Rightarrow> string \<Rightarrow> ('r webhook_world, unit) operation" where
  "enqueue_crm_sync sv oid tid w = (case sv_crm sv (oid, tid) of
     Inl err \<Rightarrow> (Inl (External err), w)
   | Inr _ \<Rightarrow> (Inr (), w\<lparr>ww_crm := ww_crm w @ [(oid, tid)]\<rparr>))"

definition post_commit ::
    "webhook_config \<Rightarrow> 'r webhook_services \<Rightarrow> ms \<Rightarrow> webhook_event \<Rightarrow> event_context \<Rightarrow>
       ('r webhook_world, unit) operation" where
  "post_commit cfg sv now e ctx =
     then_do (if truthy (ctx_tenant_id ctx) \<noteq> None \<or> truthy (ctx_organization_id ctx) \<noteq> None
        then invalidate_caches sv now ctx else give ()) (\<lambda>_.
       case (truthy (ctx_organization_id ctx), truthy (ctx_tenant_id ctx)) of
         (Some oid, Some tid) \<Rightarrow>
           if wc_node_env cfg \<noteq> ''test'' \<and>
              (se_type e = ''checkout.session.completed'' \<or> se_type e = ''customer.subscription.updated'')
           then enqueue_crm_sync sv oid tid else give ()
       | _ \<Rightarrow> give ())"

text \<open>The outcome: whether the delivery was recognized as a repetition.\<close>

definition handle_new_attempt ::
    "webhook_config \<Rightarrow> 'r webhook_services \<Rightarrow> billing_env \<Rightarrow> webhook_event \<Rightarrow> ms \<Rightarrow>
       ('r webhook_world, bool) operation" where
  "handle_new_attempt cfg sv env e signature_timestamp =
     then_do (mark_billing_event_processing e signature_timestamp) (\<lambda>_. \<lambda>w.
       case process_in_transaction sv env e w of
         (Inl err, w1) \<Rightarrow>
           (case update_billing_event (se_id e) (\<lambda>r. r\<lparr>be_failed_at := Some (env_now env),
                be_last_error := Some (to_webhook_error_message sv err), be_status := ev_failed\<rparr>) w1 of
              (Inl err', w2) \<Rightarrow> (Inl err', w2)
            | (Inr _, w2) \<Rightarrow> (Inl err, w2))
       | (Inr ctx, w1) \<Rightarrow>
           then_do (attempt (cache_op (write_cache_value (sv_redis sv)
               (stripe_webhook_idempotency_key (se_id e)) (RawText ''processed'')
               idempotency_ttl_seconds (env_now env)))) (\<lambda>_.
           then_do (attempt (post_commit cfg sv (env_now env) e ctx)) (\<lambda>_.
             give False)) w1)"

text \<open>Inside the lock, after the cache check.\<close>

definition handle_uncached ::
    "webhook_config \<Rightarrow> 'r webhook_services \<Rightarrow> billing_env \<Rightarrow> webhook_event \<Rightarrow> ms \<Rightarrow>
       ('r webhook_world, bool) operation" where
  "handle_uncached cfg sv env e ts =
     then_do (ask (find_billing_event (se_id e))) (\<lambda>found.
     then_do (case found of Some row \<Rightarrow> give row
        | None \<Rightarrow> create_received_billing_event e ts) (\<lambda>row.
       if be_status row = ev_processed
       then then_do (attempt (cache_op (write_cache_value (sv_redis sv)
              (stripe_webhook_idempotency_key (se_id e)) (RawText ''processed'')
              idempotency_ttl_seconds (env_now env)))) (\<lambda>_. give True)
       else handle_new_attempt cfg sv env e ts))"

definition handle_locked ::
    "webhook_config \<Rightarrow> 'r webhook_services \<Rightarrow> billing_env \<Rightarrow> webhook_event \<Rightarrow> ms \<Rightarrow>
       ('r webhook_world, bool) operation" where
  "handle_locked cfg sv env e ts =
     then_do (cache_op (read_cache_value (sv_redis sv)
         (stripe_webhook_idempotency_key (se_id e)) (env_now env))) (\<lambda>cached.
       if cached \<noteq> None \<and> cached \<noteq> Some (RawText [])
       then then_do (ask (find_billing_event (se_id e))) (\<lambda>record.
         if map_option be_status record = Some ev_processed then give True
         else then_do (cache_op (delete_cache_keys (sv_redis sv)
             [stripe_webhook_idempotency_key (se_id e)] (env_now env))) (\<lambda>_.
           handle_uncached cfg sv env e ts))
       else handle_uncached cfg sv env e ts)"

definition authenticate ::
    "webhook_config \<Rightarrow> 'r webhook_services \<Rightarrow> ms \<Rightarrow> webhook_request \<Rightarrow> api_error + webhook_event \<times> ms" where
  "authenticate cfg sv now request =
     (case truthy (rq_signature request) of
        None \<Rightarrow> Inl (Problem 400 ''Missing Stripe signature header.'')
      | Some signature \<Rightarrow> (case rq_raw_body request of
          None \<Rightarrow> Inl (Problem 400 ''Stripe webhook payload must be read as raw body.'')
        | Some body \<Rightarrow> (case parse_stripe_signature_timestamp signature of
            Inl err \<Rightarrow> Inl err
          | Inr signature_timestamp \<Rightarrow>
              (case sv_construct sv body signature (wc_webhook_secret cfg) of
                 Inl _ \<Rightarrow> Inl (Problem 400 ''Invalid Stripe webhook signature.'')
               | Inr e \<Rightarrow>
                   if within_replay_window now signature_timestamp (wc_tolerance_seconds cfg)
                   then Inr (e, signature_timestamp)
                   else Inl (Problem 400 ''Stripe webhook timestamp is outside the replay protection window.'')))))"

definition handle_stripe_webhook ::
    "webhook_config \<Rightarrow> 'r webhook_services \<Rightarrow> billing_env \<Rightarrow> webhook_request \<Rightarrow>
       ('r webhook_world, bool) operation" where
  "handle_stripe_webhook cfg sv env request =
     (case authenticate cfg sv (env_now env) request of
        Inl err \<Rightarrow> throw err
      | Inr (e, signature_timestamp) \<Rightarrow>
          with_stripe_event_lock cfg sv e (handle_locked cfg sv env e signature_timestamp))"

subsection \<open>What a delivery changes\<close>

text \<open>The part of the state the results speak of.\<close>

definition processed_ids :: "'r webhook_world \<Rightarrow> string set" where
  "processed_ids w = be_stripe_event_id ` {r \<in> set (ww_events w). be_status r = ev_processed}"

definition same_tables :: "'r webhook_world \<Rightarrow> 'r webhook_world \<Rightarrow> bool" where
  "same_tables w w' \<longleftrightarrow> ww_billing w' = ww_billing w \<and> ww_events w' = ww_events w"

definition tables_are :: "billing_db \<Rightarrow> billing_event_row list \<Rightarrow> 'r webhook_world \<Rightarrow> bool" where
  "tables_are b ev w \<longleftrightarrow> ww_billing w = b \<and> ww_events w = ev"

lemma keeps_cache_op [intro]: "keeps (tables_are b ev) (cache_op m)"
  by (auto simp: keeps_def cache_op_def tables_are_def split: prod.split sum.split)

lemma keeps_attempt [intro]: "keeps I m \<Longrightarrow> keeps I (attempt m)"
  by (simp add: keeps_def attempt_def)

lemma keeps_enqueue [intro]: "keeps (tables_are b ev) (enqueue_crm_sync sv oid tid)"
  by (auto simp: keeps_def enqueue_crm_sync_def tables_are_def split: sum.split)

lemma keeps_invalidate [intro]: "keeps (tables_are b ev) (invalidate_caches sv now ctx)"
proof -
  have c: "tables_are b ev w \<Longrightarrow> cache_op m w = (r, w') \<Longrightarrow> tables_are b ev w'"
    for m :: "('a, cache_text) cache_state \<Rightarrow> (cache_error + unit) \<times> ('a, cache_text) cache_state"
      and r w w'
    using keepsD[OF keeps_cache_op] by blast
  have "tables_are b ev (snd (invalidate_caches sv now ctx w))" if w: "tables_are b ev w" for w
  proof -
    define keys where "keys = js_set (map billing_snapshot_cache_key
      (List.map_filter (\<lambda>r. case r of None \<Rightarrow> None | Some s \<Rightarrow> if js_trim s = [] then None else Some s)
        [ctx_organization_id ctx, ctx_tenant_id ctx]))"
    obtain r w1 where 1: "cache_op (delete_cache_keys (sv_redis sv) keys now) w = (r, w1)"
      by (rule prod.exhaust)
    show ?thesis
    proof (cases "truthy (ctx_tenant_id ctx)")
      case None
      then show ?thesis using 1 c[OF w 1] by (simp add: invalidate_caches_def keys_def Let_def)
    next
      case (Some t)
      obtain r' w2 where 2: "cache_op (delete_cache_keys (sv_redis sv) [billing_status_cache_key t] now) w1 = (r', w2)"
        by (rule prod.exhaust)
      show ?thesis using 1 2 Some c[OF c[OF w 1] 2]
        by (simp add: invalidate_caches_def keys_def Let_def)
    qed
  qed
  then show ?thesis by (simp add: keeps_def)
qed

lemma keeps_post_commit [intro]: "keeps (tables_are b ev) (post_commit cfg sv now e ctx)"
  unfolding post_commit_def by (intro keeps_then_do) (auto split: option.split)

lemma tables_are_refl: "tables_are (ww_billing w) (ww_events w) w"
  by (simp add: tables_are_def)

lemma keeps_same_tables:
  "(\<And>b ev. keeps (tables_are b ev) m) \<Longrightarrow> m w = (r, w') \<Longrightarrow> same_tables w w'"
  using keepsD[of "tables_are (ww_billing w) (ww_events w)" m w r w'] tables_are_refl
  by (auto simp: tables_are_def same_tables_def)

text \<open>An update of one billing event.\<close>

lemma update_event_Inr:
  assumes "update_billing_event i f w = (Inr u, w')"
  shows "w' = w\<lparr>ww_events := update_where (\<lambda>r. be_stripe_event_id r = i) f (ww_events w)\<rparr> \<and>
    indexes_ok event_indexes (ww_events w') \<and> (\<exists>r \<in> set (ww_events w). be_stripe_event_id r = i)"
  using assms by (auto simp: update_billing_event_def update_unique_Inr set_events_def)

lemma update_event_Inl:
  assumes "update_billing_event i f w = (Inl err, w')"
  shows "w' = w"
  using assms by (auto simp: update_billing_event_def)

lemma update_event_succeeds:
  assumes "indexes_ok event_indexes (ww_events w)" and "\<exists>r \<in> set (ww_events w). be_stripe_event_id r = i"
    and "\<And>r. be_stripe_event_id (f r) = be_stripe_event_id r"
  shows "fst (update_billing_event i f w) = Inr ()"
proof -
  have "indexes_ok event_indexes (update_where (\<lambda>r. be_stripe_event_id r = i) f (ww_events w))"
    by (rule indexes_ok_update_keep[OF assms(1)]) (auto simp: event_indexes_def assms(3))
  then show ?thesis
    using assms(2) by (auto simp: update_billing_event_def on_table_def update_unique_def
        update_many_def commit_rows_def find_None_iff indexes_ok_def list_all_iff
        split: sum.split option.split dest!: find_key_eq)
qed

lemma update_event_processed:
  assumes "update_billing_event i f w = (Inr u, w')"
    and "\<And>r. be_stripe_event_id (f r) = be_stripe_event_id r"
  shows "(\<forall>r. be_status (f r) = ev_processed) \<Longrightarrow> processed_ids w' = insert i (processed_ids w)"
    and "(\<forall>r. be_status (f r) \<noteq> ev_processed) \<Longrightarrow> i \<notin> processed_ids w \<Longrightarrow> processed_ids w' = processed_ids w"
proof -
  have w': "ww_events w' = update_where (\<lambda>r. be_stripe_event_id r = i) f (ww_events w)"
    and row: "\<exists>r \<in> set (ww_events w). be_stripe_event_id r = i"
    using update_event_Inr[OF assms(1)] by auto
  let ?g = "\<lambda>r. if be_stripe_event_id r = i then f r else r"
  have "processed_ids w' = be_stripe_event_id ` {r \<in> ?g ` set (ww_events w). be_status r = ev_processed}"
    by (simp add: processed_ids_def w' set_update_where)
  also have "\<dots> = be_stripe_event_id ` ?g ` {r \<in> set (ww_events w). be_status (?g r) = ev_processed}"
    by (rule arg_cong[where f = "(`) be_stripe_event_id"]) auto
  also have "\<dots> = be_stripe_event_id ` {r \<in> set (ww_events w). be_status (?g r) = ev_processed}"
    unfolding image_image by (rule image_cong[OF refl]) (simp add: assms(2))
  finally have p: "processed_ids w' =
    be_stripe_event_id ` {r \<in> set (ww_events w). be_status (?g r) = ev_processed}" .
  show "(\<forall>r. be_status (f r) = ev_processed) \<Longrightarrow> processed_ids w' = insert i (processed_ids w)"
    unfolding p processed_ids_def[of w] using row by auto
  show "(\<forall>r. be_status (f r) \<noteq> ev_processed) \<Longrightarrow> i \<notin> processed_ids w \<Longrightarrow> processed_ids w' = processed_ids w"
    unfolding p processed_ids_def[of w] by (auto split: if_splits)
qed

text \<open>The billing tables after a delivery are those before it, unless it was acknowledged as new.\<close>

definition applied_once ::
    "(billing_env \<Rightarrow> stripe_event \<Rightarrow> (billing_db, event_context) operation) \<Rightarrow> billing_env \<Rightarrow>
       webhook_event \<Rightarrow> 'r webhook_world \<Rightarrow> 'r webhook_world \<Rightarrow> bool" where
  "applied_once process env e w w' \<longleftrightarrow>
     (\<exists>ctx. process env (plain_event e) (ww_billing w) = (Inr ctx, ww_billing w')) \<and>
     se_id e \<notin> processed_ids w \<and> processed_ids w' = insert (se_id e) (processed_ids w)"

definition not_applied :: "'r webhook_world \<Rightarrow> 'r webhook_world \<Rightarrow> bool" where
  "not_applied w w' \<longleftrightarrow> ww_billing w' = ww_billing w \<and> processed_ids w' = processed_ids w"

lemma not_applied_same: "same_tables w w' \<Longrightarrow> not_applied w w'"
  by (simp add: same_tables_def not_applied_def processed_ids_def)

lemma process_in_transaction_Inr:
  assumes "process_in_transaction sv env e w = (Inr ctx, w')"
  shows "\<exists>db. sv_process sv env (plain_event e) (ww_billing w) = (Inr ctx, db) \<and>
    ww_billing w' = db \<and> processed_ids w' = insert (se_id e) (processed_ids w) \<and>
    indexes_ok event_indexes (ww_events w')"
proof -
  obtain db where db: "sv_process sv env (plain_event e) (ww_billing w) = (Inr ctx, db)"
      and u: "update_billing_event (se_id e) (\<lambda>r. r\<lparr>be_failed_at := None, be_last_error := None,
        be_organization_id := ctx_organization_id ctx, be_processed_at := Some (env_now env),
        be_status := ev_processed, be_tenant_id := ctx_tenant_id ctx\<rparr>) (w\<lparr>ww_billing := db\<rparr>)
        = (Inr (), w')"
    using assms unfolding process_in_transaction_def
    by (auto split: prod.splits)
  have "processed_ids w' = insert (se_id e) (processed_ids (w\<lparr>ww_billing := db\<rparr>))"
    by (rule update_event_processed(1)[OF u]) simp_all
  then show ?thesis
    using db update_event_Inr[OF u] by (auto simp: processed_ids_def)
qed

lemma process_in_transaction_Inl:
  "process_in_transaction sv env e w = (Inl err, w') \<Longrightarrow> w' = w"
  unfolding process_in_transaction_def by simp

lemma indexes_ok_same: "same_tables w w' \<Longrightarrow> indexes_ok event_indexes (ww_events w) \<Longrightarrow>
    indexes_ok event_indexes (ww_events w')"
  by (simp add: same_tables_def)

lemma same_tables_trans: "same_tables w w1 \<Longrightarrow> same_tables w1 w2 \<Longrightarrow> same_tables w w2"
  by (simp add: same_tables_def)

lemma handle_new_attempt_cases:
  assumes ok: "indexes_ok event_indexes (ww_events w)" and new: "se_id e \<notin> processed_ids w"
    and "handle_new_attempt cfg sv env e ts w = (outcome, w')"
  shows "indexes_ok event_indexes (ww_events w') \<and>
    (if outcome = Inr False then applied_once (sv_process sv) env e w w' else not_applied w w')"
proof -
  let ?mark = "mark_billing_event_processing e ts"
  obtain r w1 where m: "?mark w = (r, w1)" by (rule prod.exhaust)
  show ?thesis
  proof (cases r)
    case (Inl err)
    then have "w1 = w" using update_event_Inl m unfolding mark_billing_event_processing_def by blast
    then show ?thesis using assms(3) m Inl ok
      by (auto simp: handle_new_attempt_def then_do_def not_applied_def)
  next
    case (Inr u)
    note m' = m[unfolded Inr mark_billing_event_processing_def]
    have p1: "processed_ids w1 = processed_ids w"
      by (rule update_event_processed(2)[OF m']) (simp_all add: new)
    have ok1: "indexes_ok event_indexes (ww_events w1)" and b1: "ww_billing w1 = ww_billing w"
      using update_event_Inr[OF m'] by auto
    obtain t w2 where t: "process_in_transaction sv env e w1 = (t, w2)" by (rule prod.exhaust)
    show ?thesis
    proof (cases t)
      case (Inl err)
      then have w2: "w2 = w1" using t process_in_transaction_Inl by blast
      let ?f = "\<lambda>r. r\<lparr>be_failed_at := Some (env_now env),
        be_last_error := Some (to_webhook_error_message sv err), be_status := ev_failed\<rparr>"
      obtain f w3 where f: "update_billing_event (se_id e) ?f w1 = (f, w3)" by (rule prod.exhaust)
      have o: "outcome \<noteq> Inr False" and w3: "w' = w3"
        using assms(3) m Inr t Inl f w2
        by (auto simp: handle_new_attempt_def then_do_def split: sum.splits)
      show ?thesis
      proof (cases f)
        case (Inl err')
        then have "w3 = w1" using update_event_Inl f by blast
        then show ?thesis using o w3 p1 b1 ok1 by (simp add: not_applied_def)
      next
        case (Inr u')
        have "processed_ids w3 = processed_ids w1"
          by (rule update_event_processed(2)[OF f[unfolded Inr]]) (simp_all add: new p1)
        moreover have "ww_billing w3 = ww_billing w1" "indexes_ok event_indexes (ww_events w3)"
          using update_event_Inr[OF f[unfolded Inr]] by auto
        ultimately show ?thesis using o w3 p1 b1 by (simp add: not_applied_def)
      qed
    next
      case (Inr ctx)
      have p2: "\<exists>db. sv_process sv env (plain_event e) (ww_billing w1) = (Inr ctx, db) \<and>
          ww_billing w2 = db \<and> processed_ids w2 = insert (se_id e) (processed_ids w1) \<and>
          indexes_ok event_indexes (ww_events w2)"
        using process_in_transaction_Inr t Inr by blast
      let ?after = "then_do (attempt (cache_op (write_cache_value (sv_redis sv)
          (stripe_webhook_idempotency_key (se_id e)) (RawText ''processed'')
          idempotency_ttl_seconds (env_now env)))) (\<lambda>_.
        then_do (attempt (post_commit cfg sv (env_now env) e ctx)) (\<lambda>_. give False))"
      have "?after w2 = (outcome, w')"
        using assms(3) m \<open>r = Inr u\<close> t Inr by (simp add: handle_new_attempt_def then_do_def)
      moreover have "same_tables w2 w'"
        by (rule keeps_same_tables[where m = ?after, OF _ calculation]) (intro keeps_then_do, auto)
      moreover have "outcome = Inr False"
        using calculation(1) by (auto simp: then_do_def attempt_def give_def)
      ultimately show ?thesis
        using p2 p1 b1 new by (auto simp: applied_once_def same_tables_def processed_ids_def)
    qed
  qed
qed

lemma processed_ids_iff:
  assumes "indexes_ok event_indexes (ww_events w)" and "find_billing_event i w = Some row"
  shows "i \<in> processed_ids w \<longleftrightarrow> be_status row = ev_processed"
proof -
  have row: "row \<in> set (ww_events w)" "be_stripe_event_id row = i"
    using assms(2) find_key_eq by (fastforce simp: find_billing_event_def)+
  have u: "event_by_id.unique (ww_events w)"
    using indexes_ok_unique[OF assms(1), of "''stripeEventId''"] by (simp add: event_indexes_def)
  have "r = row" if "r \<in> set (ww_events w)" "be_stripe_event_id r = i" for r
    using event_by_id.unique_eq[OF u that(1) row(1)] that(2) row(2) by simp
  then have "i \<in> processed_ids w \<Longrightarrow> be_status row = ev_processed"
    unfolding processed_ids_def by blast
  moreover have "be_status row = ev_processed \<Longrightarrow> i \<in> processed_ids w"
    unfolding processed_ids_def using row by blast
  ultimately show ?thesis by blast
qed

lemma find_none_not_processed: "find_billing_event i w = None \<Longrightarrow> i \<notin> processed_ids w"
  using find_None_D by (fastforce simp: find_billing_event_def processed_ids_def)

lemma create_received_cases:
  assumes "find_billing_event (se_id e) w = None" and ok: "indexes_ok event_indexes (ww_events w)"
    and "create_received_billing_event e ts w = (r, w')"
  shows "ww_billing w' = ww_billing w \<and> processed_ids w' = processed_ids w \<and>
    indexes_ok event_indexes (ww_events w') \<and> (\<forall>row. r = Inr row \<longrightarrow> be_status row = ev_received)"
proof -
  let ?new = "\<lparr>be_stripe_event_id = se_id e, be_type = se_type e, be_payload = plain_event e,
    be_status = ev_received, be_attempt_count = 0, be_signature_timestamp = Some ts,
    be_event_created_at = resolve_stripe_event_created_at e, be_processed_at = None,
    be_failed_at = None, be_last_error = None, be_organization_id = None, be_tenant_id = None\<rparr>"
  show ?thesis
  proof (cases "create_row event_indexes ?new (ww_events w)")
    case (Inl err)
    then obtain n where "err = P2002 n" using commit_rows_Inl[OF Inl[unfolded create_row_def]] by blast
    then show ?thesis
      using assms Inl by (auto simp: create_received_billing_event_def Let_def on_table_def)
  next
    case (Inr rows)
    then have "rows = ww_events w @ [?new]" "indexes_ok event_indexes rows" by (auto simp: create_row_Inr)
    then show ?thesis
      using assms Inr
      by (auto simp: create_received_billing_event_def Let_def on_table_def set_events_def processed_ids_def)
  qed
qed

lemma handle_uncached_cases:
  assumes ok: "indexes_ok event_indexes (ww_events w)"
    and h: "handle_uncached cfg sv env e ts w = (outcome, w')"
  shows "indexes_ok event_indexes (ww_events w') \<and>
    (if outcome = Inr False then applied_once (sv_process sv) env e w w' else not_applied w w')"
proof (cases "find_billing_event (se_id e) w")
  case None
  obtain r w1 where c: "create_received_billing_event e ts w = (r, w1)" by (rule prod.exhaust)
  note c' = create_received_cases[OF None ok c]
  show ?thesis
  proof (cases r)
    case (Inl err)
    then show ?thesis using h None c c'
      by (auto simp: handle_uncached_def then_do_def ask_def not_applied_def)
  next
    case (Inr row)
    then have h1: "handle_new_attempt cfg sv env e ts w1 = (outcome, w')"
      using h None c c' by (auto simp: handle_uncached_def then_do_def ask_def)
    have "se_id e \<notin> processed_ids w1" using c' find_none_not_processed[OF None] by simp
    from handle_new_attempt_cases[OF _ this h1] c' show ?thesis
      by (auto simp: applied_once_def not_applied_def)
  qed
next
  case (Some row)
  show ?thesis
  proof (cases "be_status row = ev_processed")
    case True
    let ?m = "then_do (attempt (cache_op (write_cache_value (sv_redis sv)
        (stripe_webhook_idempotency_key (se_id e)) (RawText ''processed'')
        idempotency_ttl_seconds (env_now env)))) (\<lambda>_. give True)"
    have m: "?m w = (outcome, w')"
      using h Some True by (simp add: handle_uncached_def then_do_def ask_def give_def)
    have "same_tables w w'"
      by (rule keeps_same_tables[where m = ?m, OF _ m]) (intro keeps_then_do, auto)
    moreover have "outcome = Inr True" using m by (auto simp: then_do_def attempt_def give_def)
    ultimately show ?thesis using not_applied_same indexes_ok_same[OF _ ok] by auto
  next
    case False
    then have h1: "handle_new_attempt cfg sv env e ts w = (outcome, w')"
      using h Some by (simp add: handle_uncached_def then_do_def ask_def give_def)
    have "se_id e \<notin> processed_ids w" using processed_ids_iff[OF ok Some] False by simp
    from handle_new_attempt_cases[OF ok this h1] show ?thesis .
  qed
qed

lemma handle_locked_cases:
  assumes ok: "indexes_ok event_indexes (ww_events w)"
    and h: "handle_locked cfg sv env e ts w = (outcome, w')"
  shows "indexes_ok event_indexes (ww_events w') \<and>
    (if outcome = Inr False then applied_once (sv_process sv) env e w w' else not_applied w w')"
proof -
  let ?key = "stripe_webhook_idempotency_key (se_id e)"
  have step: "?thesis" if "same_tables w w1" "handle_uncached cfg sv env e ts w1 = (outcome, w')" for w1
    using handle_uncached_cases[OF indexes_ok_same[OF that(1) ok] that(2)] that(1)
    by (auto simp: applied_once_def not_applied_def same_tables_def processed_ids_def split: if_splits)
  let ?read = "cache_op (read_cache_value (sv_redis sv) ?key (env_now env))"
  let ?del = "cache_op (delete_cache_keys (sv_redis sv) [?key] (env_now env))"
  obtain r w1 where read: "?read w = (r, w1)" by (rule prod.exhaust)
  have s1: "same_tables w w1" by (rule keeps_same_tables[where m = ?read, OF _ read]) auto
  show ?thesis
  proof (cases r)
    case (Inl err)
    then have "outcome \<noteq> Inr False" "w' = w1"
      using h read by (auto simp: handle_locked_def then_do_def)
    then show ?thesis using not_applied_same[OF s1] indexes_ok_same[OF s1 ok] by simp
  next
    case (Inr cached)
    let ?hit = "cached \<noteq> None \<and> cached \<noteq> Some (RawText [])"
    let ?done = "map_option be_status (find_billing_event (se_id e) w1) = Some ev_processed"
    have h1: "(if ?hit then then_do (ask (find_billing_event (se_id e))) (\<lambda>record.
          if map_option be_status record = Some ev_processed then give True
          else then_do ?del (\<lambda>_. handle_uncached cfg sv env e ts))
        else handle_uncached cfg sv env e ts) w1 = (outcome, w')"
      using h read Inr unfolding handle_locked_def by (simp only: then_do_def prod.case sum.case)
    show ?thesis
    proof (cases ?hit)
      case False
      with h1 show ?thesis by (intro step[OF s1]) (simp only: if_False)
    next
      case True
      have h2: "(if ?done then give True
          else then_do ?del (\<lambda>_. handle_uncached cfg sv env e ts)) w1 = (outcome, w')"
        using h1[unfolded if_P[OF True]] by (simp only: then_do_def[of "ask _"] ask_def prod.case sum.case)
      show ?thesis
      proof (cases ?done)
        case True
        have "outcome = Inr True" "w' = w1"
          using h2[unfolded if_P[OF True]] by simp_all
        then show ?thesis using not_applied_same[OF s1] indexes_ok_same[OF s1 ok] by simp
      next
        case False
        obtain d w2 where del: "?del w1 = (d, w2)" by (rule prod.exhaust)
        have "same_tables w1 w2" by (rule keeps_same_tables[where m = ?del, OF _ del]) auto
        then have s2: "same_tables w w2" using s1 same_tables_trans by blast
        have h3: "then_do ?del (\<lambda>_. handle_uncached cfg sv env e ts) w1 = (outcome, w')"
          using h2 by (simp only: if_not_P[OF False])
        show ?thesis
        proof (cases d)
          case (Inl err)
          then have "outcome \<noteq> Inr False" "w' = w2" using h3 del by (auto simp: then_do_def)
          then show ?thesis using not_applied_same[OF s2] indexes_ok_same[OF s2 ok] by simp
        next
          case (Inr u)
          then show ?thesis using step[OF s2] h3 del by (simp add: then_do_def)
        qed
      qed
    qed
  qed
qed

subsection \<open>Sequences of deliveries\<close>

text \<open>
  What a delivery adds to the history: the event and the environment it was applied in, when the
  outcome is a first acknowledgement.
\<close>

definition acknowledged ::
    "webhook_config \<Rightarrow> 'r webhook_services \<Rightarrow> billing_env \<Rightarrow> webhook_request \<Rightarrow> api_error + bool \<Rightarrow>
       (stripe_event \<times> billing_env) list" where
  "acknowledged cfg sv env request outcome =
     (if outcome = Inr False
      then case authenticate cfg sv (env_now env) request of
             Inr (e, _) \<Rightarrow> [(plain_event e, env)]
           | Inl _ \<Rightarrow> []
      else [])"

text \<open>
  The states a server reaches from a billing database \<open>db0\<close> by deliveries one after the other, each
  with its own configuration and services, which may fail, and the events acknowledged on the way.
\<close>

inductive deliveries ::
    "(billing_env \<Rightarrow> stripe_event \<Rightarrow> (billing_db, event_context) operation) \<Rightarrow> billing_db \<Rightarrow>
       'r webhook_world \<Rightarrow> (stripe_event \<times> billing_env) list \<Rightarrow> bool" for process db0 where
  fresh: "ww_billing w = db0 \<Longrightarrow> ww_events w = [] \<Longrightarrow> deliveries process db0 w []"
| deliver: "deliveries process db0 w history \<Longrightarrow> sv_process sv = process \<Longrightarrow>
    handle_stripe_webhook cfg sv env request w = (outcome, w') \<Longrightarrow>
    deliveries process db0 w' (history @ acknowledged cfg sv env request outcome)"

inductive_cases deliveries_cases: "deliveries process db0 w history"

definition replay ::
    "(billing_env \<Rightarrow> stripe_event \<Rightarrow> (billing_db, event_context) operation) \<Rightarrow>
       (stripe_event \<times> billing_env) list \<Rightarrow> billing_db \<Rightarrow> billing_db" where
  "replay process history db = foldl (\<lambda>db (e, env). snd (process env e db)) db history"

lemma plain_event_id [simp]: "se_id (plain_event e) = se_id e"
  by (cases e) (simp add: plain_event_def stripe_event.defs)

lemma handle_stripe_webhook_cases:
  assumes ok: "indexes_ok event_indexes (ww_events w)"
    and h: "handle_stripe_webhook cfg sv env request w = (outcome, w')"
  shows "indexes_ok event_indexes (ww_events w') \<and>
    ((\<exists>e ts. acknowledged cfg sv env request outcome = [(plain_event e, env)] \<and>
        authenticate cfg sv (env_now env) request = Inr (e, ts) \<and>
        applied_once (sv_process sv) env e w w') \<or>
     acknowledged cfg sv env request outcome = [] \<and> not_applied w w')"
proof (cases "authenticate cfg sv (env_now env) request")
  case (Inl err)
  then have "outcome = Inl err" "w' = w" using h by (auto simp: handle_stripe_webhook_def)
  then show ?thesis using ok by (simp add: acknowledged_def not_applied_def)
next
  case (Inr ets)
  obtain e ts where ets: "ets = (e, ts)" by (rule prod.exhaust)
  have l: "with_stripe_event_lock cfg sv e (handle_locked cfg sv env e ts) w = (outcome, w')"
    using h Inr ets by (simp add: handle_stripe_webhook_def)
  consider "handle_locked cfg sv env e ts w = (outcome, w')" | err where "outcome = Inl err" "w' = w"
    using l by (auto simp: with_stripe_event_lock_def split: if_splits sum.splits)
  then show ?thesis
  proof cases
    case 1
    from handle_locked_cases[OF ok 1] Inr ets show ?thesis
      by (auto simp: acknowledged_def split: if_splits)
  next
    case 2
    then show ?thesis using ok by (simp add: acknowledged_def not_applied_def)
  qed
qed

lemma deliveries_invariant:
  "deliveries process db0 w history \<Longrightarrow>
     indexes_ok event_indexes (ww_events w) \<and> ww_billing w = replay process history db0 \<and>
     distinct (map (\<lambda>(e, env). se_id e) history) \<and>
     set (map (\<lambda>(e, env). se_id e) history) = processed_ids w"
proof (induction rule: deliveries.induct)
  case (fresh w)
  then show ?case
    by (simp add: replay_def processed_ids_def indexes_ok_def event_indexes_def index_ok_def map_filter_simps)
next
  case (deliver w history sv cfg env request outcome w')
  then have ok: "indexes_ok event_indexes (ww_events w)" by blast
  consider e where "acknowledged cfg sv env request outcome = [(plain_event e, env)]"
      "applied_once process env e w w'" "indexes_ok event_indexes (ww_events w')"
    | "acknowledged cfg sv env request outcome = []" "not_applied w w'"
      "indexes_ok event_indexes (ww_events w')"
    using handle_stripe_webhook_cases[OF ok deliver.hyps(3)] deliver.hyps(2) by auto
  then show ?case
  proof cases
    case (1 e)
    then obtain ctx where p: "process env (plain_event e) (ww_billing w) = (Inr ctx, ww_billing w')"
        and new: "se_id e \<notin> processed_ids w" "processed_ids w' = insert (se_id e) (processed_ids w)"
      by (auto simp: applied_once_def)
    have "ww_billing w' = replay process (history @ [(plain_event e, env)]) db0"
      using p deliver.IH by (simp add: replay_def)
    then show ?thesis using 1 new deliver.IH by auto
  next
    case 2
    then show ?thesis using deliver.IH by (simp add: not_applied_def)
  qed
qed

subsection \<open>Failures and authentication\<close>

lemma find_after_update:
  assumes "find_billing_event i w = Some row" and "\<And>r. be_stripe_event_id (f r) = be_stripe_event_id r"
    and "ww_events w' = update_where (\<lambda>r. be_stripe_event_id r = i) f (ww_events w)"
  shows "find_billing_event i w' = Some (f row)"
  using assms find_key_eq[of "\<lambda>r. be_stripe_event_id r = i" "ww_events w" row]
  by (simp add: find_billing_event_def find_update_where)

lemma handle_new_attempt_failure:
  assumes ok: "indexes_ok event_indexes (ww_events w)"
    and row: "find_billing_event (se_id e) w = Some row"
    and fails: "sv_process sv env (plain_event e) (ww_billing w) = (Inl err, db)"
  shows "\<exists>w' row'. handle_new_attempt cfg sv env e ts w = (Inl err, w') \<and>
    ww_billing w' = ww_billing w \<and> ww_cache w' = ww_cache w \<and> ww_crm w' = ww_crm w \<and>
    find_billing_event (se_id e) w' = Some row' \<and> be_status row' = ev_failed \<and>
    be_attempt_count row' = be_attempt_count row + 1 \<and> be_failed_at row' = Some (env_now env) \<and>
    be_last_error row' = Some (to_webhook_error_message sv err)"
proof -
  let ?mark = "\<lambda>r. r\<lparr>be_attempt_count := be_attempt_count r + 1,
    be_event_created_at := resolve_stripe_event_created_at e, be_failed_at := None,
    be_last_error := None, be_payload := plain_event e, be_processed_at := None,
    be_signature_timestamp := Some ts, be_status := ev_processing, be_type := se_type e\<rparr>"
  let ?fail = "\<lambda>r. r\<lparr>be_failed_at := Some (env_now env),
    be_last_error := Some (to_webhook_error_message sv err), be_status := ev_failed\<rparr>"
  have present: "\<exists>r \<in> set (ww_events w). be_stripe_event_id r = se_id e"
    using row find_key_eq by (fastforce simp: find_billing_event_def)
  obtain u w1 where m: "update_billing_event (se_id e) ?mark w = (Inr u, w1)"
    using update_event_succeeds[OF ok present, of ?mark]
    by (cases "update_billing_event (se_id e) ?mark w") auto
  note m1 = update_event_Inr[OF m]
  have row1: "find_billing_event (se_id e) w1 = Some (?mark row)"
    by (rule find_after_update[OF row]) (use m1 in auto)
  then have present1: "\<exists>r \<in> set (ww_events w1). be_stripe_event_id r = se_id e"
    using find_key_eq by (fastforce simp: find_billing_event_def)
  have b1: "ww_billing w1 = ww_billing w" "ww_cache w1 = ww_cache w" "ww_crm w1 = ww_crm w"
    using m1 by auto
  have t: "process_in_transaction sv env e w1 = (Inl err, w1)"
    using fails b1 by (auto simp: process_in_transaction_def then_do_Inl)
  obtain u' w2 where f: "update_billing_event (se_id e) ?fail w1 = (Inr u', w2)"
    using update_event_succeeds[OF conjunct1[OF conjunct2[OF m1]] present1, of ?fail]
    by (cases "update_billing_event (se_id e) ?fail w1") auto
  note f1 = update_event_Inr[OF f]
  have "find_billing_event (se_id e) w2 = Some (?fail (?mark row))"
    by (rule find_after_update[OF row1]) (use f1 in auto)
  moreover have "handle_new_attempt cfg sv env e ts w = (Inl err, w2)"
    using m t f by (simp add: handle_new_attempt_def then_do_def mark_billing_event_processing_def)
  moreover have "ww_billing w2 = ww_billing w" "ww_cache w2 = ww_cache w" "ww_crm w2 = ww_crm w"
    using f1 b1 by auto
  ultimately show ?thesis by auto
qed

subsection \<open>Properties\<close>

text \<open>
  Property C1. However often and in whatever order Stripe repeats its deliveries, and whatever
  fails on the way (the cache, the lock, the queue, the processing itself), the billing tables are
  exactly what the acknowledged events produce when each is applied once, in the order of their
  acknowledgement; the events marked processed are those events, and none occurs twice.
\<close>

theorem webhook_exactly_once:
  assumes "deliveries process db0 w history"
  shows "ww_billing w = replay process history db0 \<and>
    distinct (map (\<lambda>(e, env). se_id e) history) \<and>
    set (map (\<lambda>(e, env). se_id e) history) = processed_ids w"
  using deliveries_invariant[OF assms] by blast

definition sample_services :: "(cache_text mem_store) webhook_services" where
  "sample_services = \<lparr>sv_redis = mem_client,
     sv_construct = \<lambda>body signature secret.
       Inr (stripe_event.extend \<lparr>se_id = body, se_type = ''invoice.payment_failed'', se_created = None,
              se_payload = PaymentFailed sample_invoice\<rparr>
            \<lparr>wh_customer = Some ''cus_1'', wh_subscription = None, wh_organization = None\<rparr>),
     sv_lock = \<lambda>_. Inr (), sv_crm = \<lambda>_. Inr (), sv_message = \<lambda>_. ''failed'',
     sv_process = process_stripe_billing_event 3\<rparr>"

definition sample_config :: webhook_config where
  "sample_config = \<lparr>wc_node_env = ''test'', wc_tolerance_seconds = 300, wc_webhook_secret = ''whsec''\<rparr>"

definition sample_world :: "(cache_text mem_store) webhook_world" where
  "sample_world = \<lparr>ww_billing = sample_db, ww_events = [],
     ww_cache = \<lparr>cs_store = RedisStore, cs_strict = False, cs_memory = [], cs_redis = []\<rparr>, ww_crm = []\<rparr>"

definition sample_request :: webhook_request where
  "sample_request = \<lparr>rq_signature = Some ''t=1,v1=abc'', rq_raw_body = Some ''evt_1''\<rparr>"

theorem webhook_exactly_once_witness:
  "\<exists>(w :: (cache_text mem_store) webhook_world) history.
     deliveries (process_stripe_billing_event 3) sample_db w history \<and>
     length history = 1 \<and> ww_billing w = replay (process_stripe_billing_event 3) history sample_db"
proof -
  let ?step = "handle_stripe_webhook sample_config sample_services (sample_env 1000) sample_request"
  have "length (acknowledged sample_config sample_services (sample_env 1000) sample_request
        (fst (?step sample_world))) = 1 \<and>
      acknowledged sample_config sample_services (sample_env 1000) sample_request
        (fst (?step (snd (?step sample_world)))) = []"
    by code_simp
  then obtain o1 w1 o2 w2 where 1: "?step sample_world = (o1, w1)" and 2: "?step w1 = (o2, w2)"
      and l: "length (acknowledged sample_config sample_services (sample_env 1000) sample_request o1 @
        acknowledged sample_config sample_services (sample_env 1000) sample_request o2) = 1"
    by (metis (no_types, lifting) append.right_neutral fst_conv snd_conv surj_pair)
  have "deliveries (process_stripe_billing_event 3) sample_db sample_world []"
    by (rule deliveries.fresh) (simp_all add: sample_world_def)
  from deliveries.deliver[OF deliveries.deliver[OF this _ 1] _ 2]
  have d: "deliveries (process_stripe_billing_event 3) sample_db w2
      (acknowledged sample_config sample_services (sample_env 1000) sample_request o1 @
        acknowledged sample_config sample_services (sample_env 1000) sample_request o2)"
    by (simp add: sample_services_def)
  note r = conjunct1[OF webhook_exactly_once[OF d]]
  show ?thesis by (intro exI conjI) (rule d, rule l, rule r)
qed

text \<open>
  Property C32. When processing an event fails, the error is returned and nothing the processing did
  remains: the billing tables, the cache and the queue are as before, and the event's row is marked
  failed, with the error and one more attempt, so that a later delivery tries again.
\<close>

theorem webhook_failure_rolls_back:
  assumes "indexes_ok event_indexes (ww_events w)"
    and "find_billing_event (se_id e) w = Some row"
    and "sv_process sv env (plain_event e) (ww_billing w) = (Inl err, db)"
  shows "\<exists>w' row'. handle_new_attempt cfg sv env e ts w = (Inl err, w') \<and>
    ww_billing w' = ww_billing w \<and> ww_cache w' = ww_cache w \<and> ww_crm w' = ww_crm w \<and>
    find_billing_event (se_id e) w' = Some row' \<and> be_status row' = ev_failed \<and>
    be_attempt_count row' = be_attempt_count row + 1 \<and> be_failed_at row' = Some (env_now env) \<and>
    be_last_error row' = Some (to_webhook_error_message sv err)"
  by (rule handle_new_attempt_failure[OF assms])

definition sample_webhook_event :: "string option \<Rightarrow> webhook_event" where
  "sample_webhook_event customer =
     stripe_event.extend \<lparr>se_id = ''evt_1'', se_type = ''invoice.payment_failed'', se_created = None,
       se_payload = PaymentFailed (sample_invoice\<lparr>si_customer := map_option RefId customer\<rparr>)\<rparr>
     \<lparr>wh_customer = customer, wh_subscription = None, wh_organization = None\<rparr>"

theorem webhook_failure_rolls_back_witness:
  "\<exists>w'. handle_new_attempt sample_config sample_services (sample_env 1000)
       (sample_webhook_event (Some ''cus_unknown'')) 1000
       (snd (create_received_billing_event (sample_webhook_event (Some ''cus_unknown'')) 1000 sample_world))
     = (Inl (Problem 404 ''Organization not found for invoice.payment_failed event.''), w') \<and>
     ww_billing w' = sample_db"
proof -
  let ?e = "sample_webhook_event (Some ''cus_unknown'')"
  let ?w = "snd (create_received_billing_event ?e 1000 sample_world)"
  let ?err = "Problem 404 ''Organization not found for invoice.payment_failed event.''"
  have ok: "indexes_ok event_indexes (ww_events ?w)" by code_simp
  have "find_billing_event (se_id ?e) ?w \<noteq> None" and b: "ww_billing ?w = sample_db" by code_simp+
  then obtain row where row: "find_billing_event (se_id ?e) ?w = Some row" by blast
  have f: "sv_process sample_services (sample_env 1000) (plain_event ?e) (ww_billing ?w) = (Inl ?err, sample_db)"
    by code_simp
  from webhook_failure_rolls_back[OF ok row f] b show ?thesis by fastforce
qed

text \<open>
  Property C33. The billing tables change only for an event whose signature the Stripe library
  accepted and whose header carries a timestamp within the tolerance of the server's clock.
\<close>

theorem webhook_authenticated:
  assumes "handle_stripe_webhook cfg sv env request w = (outcome, w')"
    and "indexes_ok event_indexes (ww_events w)" and "ww_billing w' \<noteq> ww_billing w"
  shows "\<exists>body signature e ts. rq_raw_body request = Some body \<and> rq_signature request = Some signature \<and>
    sv_construct sv body signature (wc_webhook_secret cfg) = Inr e \<and>
    parse_stripe_signature_timestamp signature = Inr ts \<and>
    \<bar>env_now env - ts\<bar> \<le> wc_tolerance_seconds cfg * 1000"
proof -
  obtain e ts where "authenticate cfg sv (env_now env) request = Inr (e, ts)"
    using handle_stripe_webhook_cases[OF assms(2,1)] assms(3) by (auto simp: not_applied_def)
  then show ?thesis
    by (auto simp: authenticate_def within_replay_window_def truthy_Some_iff
        split: option.splits sum.splits if_splits)
qed

theorem webhook_authenticated_witness:
  "\<exists>outcome w'. handle_stripe_webhook sample_config sample_services (sample_env 1000) sample_request
       sample_world = (outcome, w') \<and> ww_billing w' \<noteq> ww_billing sample_world \<and>
     sv_construct sample_services ''evt_1'' ''t=1,v1=abc'' ''whsec'' \<noteq> Inl []"
proof -
  let ?h = "handle_stripe_webhook sample_config sample_services (sample_env 1000) sample_request sample_world"
  obtain outcome w' where h: "?h = (outcome, w')" by (rule prod.exhaust)
  have "length (db_subscriptions (ww_billing (snd ?h))) = 1" by code_simp
  then have c: "ww_billing w' \<noteq> ww_billing sample_world"
    using h by (auto simp: sample_world_def sample_db_def)
  have "indexes_ok event_indexes (ww_events sample_world)" by code_simp
  from webhook_authenticated[OF h this c]
  have "\<exists>e. sv_construct sample_services ''evt_1'' ''t=1,v1=abc'' ''whsec'' = Inr e"
    by (auto simp: sample_request_def sample_config_def)
  with h c show ?thesis by auto
qed

text \<open>
  The timestamp checked against the replay window is the first \<open>t=\<close> fragment of the
  header: whoever replays an old delivery can put a fresh one in front of the header it came with,
  and the check reads that one.
\<close>

theorem replay_window_reads_first_timestamp:
  assumes "0 < n" and "n < 10 ^ 18"
  shows "parse_stripe_signature_timestamp (''t='' @ show_nat n @ '','' @ old_header) = Inr (int n * 1000)"
proof -
  let ?f = "''t='' @ show_nat n"
  have nc: "CHR '','' \<notin> set ?f"
  proof -
    have "\<not> is_digit CHR '',''" by (simp add: is_digit_def Let_def)
    then show ?thesis using show_nat_digits by auto
  qed
  have split: "split_on c (xs @ c # ys) = xs # split_on c ys" if "c \<notin> set xs" for c xs ys
    using that by (induction xs) auto
  have trim: "js_trim ?f = ?f"
  proof -
    have "dropWhile js_space (rev (show_nat n) @ rev ''t='') = rev (show_nat n) @ rev ''t=''"
    proof -
      have "rev (show_nat n) \<noteq> []" using show_nat_nonempty by simp
      moreover have "\<not> js_space (hd (rev (show_nat n)))"
        using digit_not_space[OF show_nat_digits[OF last_in_set[OF show_nat_nonempty]]]
        by (simp add: hd_rev)
      ultimately show ?thesis by (cases "rev (show_nat n)") auto
    qed
    then show ?thesis by (simp add: js_trim_def js_space_def)
  qed
  have "(of_nat n :: rat) < 10 ^ 18"
    using assms(2) by (metis of_nat_less_iff of_nat_numeral of_nat_power)
  moreover have "(10 :: rat) ^ 18 \<le> 2 ^ 1024 - 2 ^ 970"
    by simp
  ultimately have num: "js_number (show_nat n) = Fin (of_nat n)"
    by (intro js_number_show_nat) (rule order.strict_trans2)
  have "split_on CHR '','' (''t='' @ show_nat n @ '','' @ old_header) = ?f # split_on CHR '','' old_header"
    using split[OF nc, of old_header] by simp
  then show ?thesis
    using num assms(1) trim by (simp add: parse_stripe_signature_timestamp_def)
qed

theorem replay_window_reads_first_timestamp_witness:
  "parse_stripe_signature_timestamp (''t='' @ show_nat 1700000000 @ '','' @ ''t=1500000000,v1=abc'') =
     Inr (1700000000 * 1000) \<and>
   within_replay_window 1700000000000 (1700000000 * 1000) 300"
  using replay_window_reads_first_timestamp[of 1700000000 "''t=1500000000,v1=abc''"]
  by (simp add: within_replay_window_def)

end
