(* ===== verification/Totp.thy ===== *)
theory Totp
  imports JsText "HOL-Library.Word"
begin

text \<open>
  \<open>apps/api/src/modules/auth/mfa.service.ts\<close>: base 32 and the time-based one-time password. The
  accumulators of the two converters are 32-bit words, as JavaScript's shifts make them: they
  overflow, and the round trip shows that the bits that are read survive. HMAC-SHA1 is a parameter
  (a function from key and message to the digest bytes).
\<close>

unbundle bit_operations_syntax

subsection \<open>Base 32\<close>

definition base32_alphabet :: string where
  "base32_alphabet = ''ABCDEFGHIJKLMNOPQRSTUVWXYZ234567''"

text \<open>The inner loop: one output character for each complete group of five bits.\<close>

function emit_groups :: "nat \<Rightarrow> 32 word \<Rightarrow> string \<Rightarrow> nat \<times> string" where
  "emit_groups bits value out =
     (if 5 \<le> bits
      then emit_groups (bits - 5) value
             (out @ [base32_alphabet ! unat (drop_bit (bits - 5) value AND 31)])
      else (bits, out))"
  by pat_completeness auto
termination by (relation "measure fst") auto

declare emit_groups.simps [simp del]

fun base32_loop :: "8 word list \<Rightarrow> nat \<Rightarrow> 32 word \<Rightarrow> string \<Rightarrow> nat \<times> 32 word \<times> string" where
  "base32_loop [] bits value out = (bits, value, out)"
| "base32_loop (b # bs) bits value out =
     (let value' = push_bit 8 value OR ucast b
      in case emit_groups (bits + 8) value' out of
           (bits', out') \<Rightarrow> base32_loop bs bits' value' out')"

definition to_base32 :: "8 word list \<Rightarrow> string" where
  "to_base32 buffer =
     (case base32_loop buffer 0 0 [] of
        (bits, value, out) \<Rightarrow>
          if 0 < bits then out @ [base32_alphabet ! unat (push_bit (5 - bits) value AND 31)] else out)"

definition base32_char :: "char \<Rightarrow> bool" where
  "base32_char c \<longleftrightarrow> c \<in> set base32_alphabet"

text \<open>Trailing padding is dropped, letters are raised, everything else is skipped.\<close>

definition normalize_base32 :: "string \<Rightarrow> string" where
  "normalize_base32 secret =
     filter base32_char (js_upper (rev (dropWhile (\<lambda>c. c = CHR ''='') (rev secret))))"

fun decode_loop :: "string \<Rightarrow> nat \<Rightarrow> 32 word \<Rightarrow> 8 word list \<Rightarrow> 8 word list" where
  "decode_loop [] bits value bytes = bytes"
| "decode_loop (c # cs) bits value bytes =
     (case index_of c base32_alphabet of
        None \<Rightarrow> decode_loop cs bits value bytes
      | Some i \<Rightarrow>
          (let value' = push_bit 5 value OR of_nat i; bits' = bits + 5
           in if 8 \<le> bits'
              then decode_loop cs (bits' - 8) value' (bytes @ [ucast (drop_bit (bits' - 8) value' AND 255)])
              else decode_loop cs bits' value' bytes))"

definition from_base32 :: "string \<Rightarrow> 8 word list" where
  "from_base32 secret = decode_loop (normalize_base32 secret) 0 0 []"

subsection \<open>The one-time password\<close>

definition totp_period_seconds :: int where
  "totp_period_seconds = 30"

type_synonym hmac = "8 word list \<Rightarrow> 8 word list \<Rightarrow> 8 word list"

definition be_bytes :: "32 word \<Rightarrow> 8 word list" where
  "be_bytes w = [ucast (drop_bit 24 w), ucast (drop_bit 16 w), ucast (drop_bit 8 w), ucast w]"

definition read_be :: "8 word list \<Rightarrow> nat \<Rightarrow> 32 word" where
  "read_be bs i = push_bit 24 (ucast (bs ! i)) OR push_bit 16 (ucast (bs ! (i + 1))) OR
     push_bit 8 (ucast (bs ! (i + 2))) OR ucast (bs ! (i + 3))"

definition pad_start :: "nat \<Rightarrow> string \<Rightarrow> string" where
  "pad_start n s = replicate (n - length s) CHR ''0'' @ s"

text \<open>
  \<open>writeUInt32BE\<close> throws outside the unsigned range: a negative counter, and a counter whose low
  half has its top bit set, since \<open>counter & 0xffffffff\<close> is then a negative number.
\<close>

definition hotp :: "hmac \<Rightarrow> string \<Rightarrow> int \<Rightarrow> string option" where
  "hotp hmac_sha1 secret counter =
     (let high = counter div 2 ^ 32; low = counter mod 2 ^ 32
      in if 0 \<le> high \<and> high < 2 ^ 32 \<and> low < 2 ^ 31 then
           (let digest = hmac_sha1 (from_base32 secret)
                  (be_bytes (word_of_int high) @ be_bytes (word_of_int low));
                offset = unat (last digest AND 15);
                binary = unat (read_be digest offset AND 0x7FFFFFFF)
            in Some (pad_start 6 (show_nat (binary mod 10 ^ 6))))
         else None)"

definition six_digits :: "string \<Rightarrow> bool" where
  "six_digits code \<longleftrightarrow>
     length code = 6 \<and> list_all (\<lambda>c. 48 \<le> (of_char c :: nat) \<and> (of_char c :: nat) \<le> 57) code"

definition current_counter :: "ms \<Rightarrow> int" where
  "current_counter now = now div (1000 * totp_period_seconds)"

text \<open>The loop over the windows, oldest first; \<open>None\<close> is the exception of \<open>hotp\<close>.\<close>

fun try_windows :: "hmac \<Rightarrow> string \<Rightarrow> string \<Rightarrow> int list \<Rightarrow> bool option" where
  "try_windows hm secret code [] = Some False"
| "try_windows hm secret code (c # cs) = (case hotp hm secret c of
     None \<Rightarrow> None
   | Some candidate \<Rightarrow> if candidate = code then Some True else try_windows hm secret code cs)"

definition verify_totp_code :: "hmac \<Rightarrow> string \<Rightarrow> int \<Rightarrow> ms \<Rightarrow> string \<Rightarrow> bool option" where
  "verify_totp_code hm code skew now secret =
     (if \<not> six_digits code then Some False
      else try_windows hm secret code
             (map (\<lambda>offset. current_counter now + offset) [- skew .. skew]))"

definition generate_current_totp :: "hmac \<Rightarrow> string \<Rightarrow> ms \<Rightarrow> string option" where
  "generate_current_totp hm secret now = hotp hm secret (current_counter now)"

subsection \<open>The base 32 round trip\<close>

lemma alphabet_length: "length base32_alphabet = 32"
  by (simp add: base32_alphabet_def)

lemma distinct_alphabet: "distinct base32_alphabet"
  by (simp add: base32_alphabet_def)

lemma index_of_nth: "distinct xs \<Longrightarrow> i < length xs \<Longrightarrow> index_of (xs ! i) xs = Some i"
proof (induction xs arbitrary: i)
  case (Cons x xs)
  then show ?case by (cases i) auto
qed simp

definition char32 :: "32 word \<Rightarrow> char" where
  "char32 w = base32_alphabet ! unat (w AND 31)"

lemma and_31: "(w :: 32 word) AND 31 = take_bit 5 w"
  by (simp add: take_bit_eq_mask mask_eq_exp_minus_1)

lemma and_255: "(w :: 32 word) AND 255 = take_bit 8 w"
  by (simp add: take_bit_eq_mask mask_eq_exp_minus_1)

lemma unat_take_5: "unat (take_bit 5 (w :: 32 word)) < 32"
proof -
  have "unat (take_bit 5 w) = take_bit 5 (unat w)" by (simp add: unsigned_take_bit_eq)
  then show ?thesis by (simp add: take_bit_eq_mod)
qed

lemma index_char32: "index_of (char32 w) base32_alphabet = Some (unat (take_bit 5 w))"
  unfolding char32_def and_31
  by (rule index_of_nth[OF distinct_alphabet]) (simp add: alphabet_length unat_take_5)

lemma char32_mem: "char32 w \<in> set base32_alphabet"
  using index_char32[of w] index_of_None[of "char32 w" base32_alphabet] by simp

text \<open>One character of the decoder.\<close>

lemma decode_char32:
  "decode_loop (char32 w # cs) bits v bytes =
     (let v' = push_bit 5 v OR take_bit 5 w; bits' = bits + 5
      in if 8 \<le> bits'
         then decode_loop cs (bits' - 8) v' (bytes @ [ucast (take_bit 8 (drop_bit (bits' - 8) v'))])
         else decode_loop cs bits' v' bytes)"
  by (simp add: decode_loop.simps(2) index_char32 and_255 Let_def)

declare decode_loop.simps(2) [simp del]

text \<open>The characters the encoder writes from a state of its loop on.\<close>

definition encode_from :: "8 word list \<Rightarrow> nat \<Rightarrow> 32 word \<Rightarrow> string" where
  "encode_from bs bits v = (case base32_loop bs bits v [] of
     (bits', v', out) \<Rightarrow> if 0 < bits' then out @ [char32 (push_bit (5 - bits') v')] else out)"

lemma to_base32_encode_from: "to_base32 bs = encode_from bs 0 0"
  by (simp add: to_base32_def encode_from_def char32_def split: prod.splits)

lemma emit_groups_acc:
  "emit_groups bits v (pre @ out) = apsnd ((@) pre) (emit_groups bits v out)"
proof (induction bits v out rule: emit_groups.induct)
  case (1 bits v out)
  then show ?case by (simp add: emit_groups.simps[of bits])
qed

lemma base32_loop_acc:
  "base32_loop bs bits v (pre @ out) = apsnd (apsnd ((@) pre)) (base32_loop bs bits v out)"
proof (induction bs arbitrary: bits v out)
  case (Cons b bs)
  then show ?case by (simp add: emit_groups_acc Let_def split: prod.splits)
qed simp

lemma encode_from_Cons:
  assumes "emit_groups (bits + 8) (push_bit 8 v OR ucast b) [] = (bits', cs)"
  shows "encode_from (b # bs) bits v = cs @ encode_from bs bits' (push_bit 8 v OR ucast b)"
  using assms base32_loop_acc[of bs bits' "push_bit 8 v OR ucast b" cs "[]"]
  by (simp add: encode_from_def Let_def split: prod.splits)

lemma emit_one:
  assumes "5 \<le> bits" "bits < 10"
  shows "emit_groups bits v [] = (bits - 5, [char32 (drop_bit (bits - 5) v)])"
proof -
  have "\<not> 5 \<le> bits - 5" using assms by simp
  then show ?thesis using assms
    by (simp only: emit_groups.simps[of bits] emit_groups.simps[of "bits - 5"] char32_def if_True if_False append_Nil)
qed

lemma emit_two:
  assumes "10 \<le> bits" "bits < 15"
  shows "emit_groups bits v [] =
     (bits - 10, [char32 (drop_bit (bits - 5) v), char32 (drop_bit (bits - 10) v)])"
proof -
  have c: "5 \<le> bits" "5 \<le> bits - 5" "\<not> 5 \<le> bits - 10" and e: "bits - 5 - 5 = bits - 10"
    using assms by auto
  have "emit_groups bits v [] = emit_groups (bits - 5) v [char32 (drop_bit (bits - 5) v)]"
    by (subst emit_groups.simps) (simp add: c char32_def)
  also have "\<dots> = emit_groups (bits - 10) v [char32 (drop_bit (bits - 5) v), char32 (drop_bit (bits - 10) v)]"
    by (subst emit_groups.simps) (simp add: c(2) e char32_def)
  also have "\<dots> = (bits - 10, [char32 (drop_bit (bits - 5) v), char32 (drop_bit (bits - 10) v)])"
    by (subst emit_groups.simps) (simp only: c(3) if_False)
  finally show ?thesis .
qed

text \<open>
  The encoder holds \<open>bits\<close> bits of the byte it read lst; the decoder, which has read everything
  the encoder wrote, holds the other ones.
\<close>

definition linked :: "nat \<Rightarrow> 32 word \<Rightarrow> nat \<Rightarrow> 32 word \<Rightarrow> 8 word \<Rightarrow> bool" where
  "linked bits ev dbits dv lst \<longleftrightarrow>
     (if bits = 0 then dbits = 0
      else bits < 5 \<and> dbits = 8 - bits \<and> (\<forall>i < bits. bit ev i = bit lst i) \<and>
        (\<forall>i < 8 - bits. bit dv i = bit lst (i + bits)))"

lemma less_8_cases: "(n :: nat) < 8 \<Longrightarrow> n = 0 \<or> n = 1 \<or> n = 2 \<or> n = 3 \<or> n = 4 \<or> n = 5 \<or> n = 6 \<or> n = 7"
  by arith

lemma less_bits_cases:
  "((n :: nat) < 7) = (n = 0 \<or> n = 1 \<or> n = 2 \<or> n = 3 \<or> n = 4 \<or> n = 5 \<or> n = 6)"
  "(n < 6) = (n = 0 \<or> n = 1 \<or> n = 2 \<or> n = 3 \<or> n = 4 \<or> n = 5)"
  "(n < 5) = (n = 0 \<or> n = 1 \<or> n = 2 \<or> n = 3 \<or> n = 4)"
  "(n < 4) = (n = 0 \<or> n = 1 \<or> n = 2 \<or> n = 3)"
  "(n < 3) = (n = 0 \<or> n = 1 \<or> n = 2)"
  "(n < 2) = (n = 0 \<or> n = 1)"
  by arith+

lemma byte_eqI:
  fixes a b :: "8 word"
  assumes "bit a 0 = bit b 0" "bit a 1 = bit b 1" "bit a 2 = bit b 2" "bit a 3 = bit b 3"
    "bit a 4 = bit b 4" "bit a 5 = bit b 5" "bit a 6 = bit b 6" "bit a 7 = bit b 7"
  shows "a = b"
  by (rule bit_word_eqI) (use assms in \<open>auto dest: less_8_cases\<close>)

lemma Suc_Suc_0: "Suc (Suc 0) = 2"
  by simp

lemma bit_byte_high: "8 \<le> n \<Longrightarrow> \<not> bit (b :: 8 word) n"
  by (auto dest: bit_imp_le_length)

lemmas read_bits = all_conj_distrib bit_byte_high Suc_Suc_0 bit_unsigned_iff bit_take_bit_iff bit_drop_bit_eq bit_push_bit_iff bit_or_iff

lemma link_0: "linked 3 (push_bit 8 ev OR ucast b) 5
    (push_bit 5 dv OR take_bit 5 (drop_bit 3 (push_bit 8 ev OR ucast b))) b"
  unfolding linked_def by (simp add: less_bits_cases read_bits)

lemma link_3:
  fixes b :: "8 word"
  assumes "linked 3 ev d dv lst"
  defines "w \<equiv> push_bit 8 ev OR ucast b"
  defines "v \<equiv> push_bit 5 dv OR take_bit 5 (drop_bit 6 w)"
  shows "ucast (take_bit 8 (drop_bit 2 v)) = lst" "linked 1 w 7 (push_bit 5 v OR take_bit 5 (drop_bit 1 w)) b"
   subgoal by (rule byte_eqI) (use assms(1) in \<open>simp_all add: linked_def less_bits_cases v_def w_def read_bits\<close>)
   subgoal by (simp add: linked_def less_bits_cases v_def w_def read_bits)
  done

lemma link_1:
  fixes b :: "8 word"
  assumes "linked 1 ev d dv lst"
  defines "w \<equiv> push_bit 8 ev OR ucast b"
  defines "v \<equiv> push_bit 5 dv OR take_bit 5 (drop_bit 4 w)"
  shows "ucast (take_bit 8 (drop_bit 4 v)) = lst" "linked 4 w 4 v b"
   subgoal by (rule byte_eqI) (use assms(1) in \<open>simp_all add: linked_def less_bits_cases v_def w_def read_bits\<close>)
   subgoal by (simp add: linked_def less_bits_cases v_def w_def read_bits)
  done

lemma link_4:
  fixes b :: "8 word"
  assumes "linked 4 ev d dv lst"
  defines "w \<equiv> push_bit 8 ev OR ucast b"
  defines "v \<equiv> push_bit 5 dv OR take_bit 5 (drop_bit 7 w)"
  shows "ucast (take_bit 8 (drop_bit 1 v)) = lst" "linked 2 w 6 (push_bit 5 v OR take_bit 5 (drop_bit 2 w)) b"
   subgoal by (rule byte_eqI) (use assms(1) in \<open>simp_all add: linked_def less_bits_cases v_def w_def read_bits\<close>)
   subgoal by (simp add: linked_def less_bits_cases v_def w_def read_bits)
  done

lemma link_2:
  fixes b :: "8 word"
  assumes "linked 2 ev d dv lst"
  defines "w \<equiv> push_bit 8 ev OR ucast b"
  defines "v \<equiv> push_bit 5 dv OR take_bit 5 (drop_bit 5 w)"
  shows "ucast (take_bit 8 (drop_bit 3 v)) = lst" "ucast (take_bit 8 (push_bit 5 v OR take_bit 5 w)) = b"
   subgoal by (rule byte_eqI) (use assms(1) in \<open>simp_all add: linked_def less_bits_cases v_def w_def read_bits\<close>)
   subgoal by (rule byte_eqI) (simp_all add: v_def w_def read_bits)
  done

lemma link_end:
  assumes "linked bits ev d dv lst" "0 < bits"
  shows "ucast (take_bit 8 (drop_bit (5 - bits) (push_bit 5 dv OR take_bit 5 (push_bit (5 - bits) ev)))) = lst"
proof (rule bit_word_eqI)
  fix n assume "n < LENGTH(8)"
  then have n: "n < 8" by simp
  have b: "bits < 5" "\<forall>i < bits. bit ev i = bit lst i" "\<forall>i < 8 - bits. bit dv i = bit lst (i + bits)"
    using assms by (auto simp: linked_def)
  show "bit (ucast (take_bit 8 (drop_bit (5 - bits) (push_bit 5 dv OR take_bit 5 (push_bit (5 - bits) ev)))) :: 8 word) n = bit lst n"
  proof (cases "n < bits")
    case True
    then show ?thesis using b n by (auto simp: read_bits)
  next
    case False
    have "bit dv (n - bits) = bit lst n" using b(3)[rule_format, of "n - bits"] False n by simp
    then show ?thesis using b(1) n False by (auto simp: read_bits)
  qed
qed

lemma decode_encode_from:
  assumes "linked bits ev d dv lst"
  shows "decode_loop (encode_from bs bits ev) d dv out = out @ (if bits = 0 then [] else [lst]) @ bs"
  using assms
proof (induction bs arbitrary: bits ev d dv lst out)
  case Nil
  show ?case
  proof (cases "bits = 0")
    case False
    with Nil have "d = 8 - bits" "bits < 5" by (auto simp: linked_def)
    then have "8 \<le> d + 5" "d + 5 - 8 = 5 - bits" "0 < bits" using False by auto
    then show ?thesis using link_end[OF Nil]
      by (simp add: encode_from_def decode_char32 Let_def del: take_bit_or drop_bit_or)
  qed (simp add: encode_from_def)
next
  case (Cons b bs)
  define w where "w = push_bit 8 ev OR ucast b"
  note step = encode_from_Cons[of _ ev b, folded w_def]
  have "bits = 0 \<or> bits = 1 \<or> bits = 2 \<or> bits = 3 \<or> bits = 4"
    using Cons.prems by (auto simp: linked_def split: if_splits)
  then consider "bits = 0" | "bits = 3" | "bits = 1" | "bits = 4" | "bits = 2" by blast
  then show ?case
  proof cases
    case 1
    then have "d = 0" using Cons.prems by (simp add: linked_def)
    then show ?thesis using Cons.IH[OF link_0] 1 step[OF emit_one, of 0 bs]
      by (simp add: decode_char32 Let_def w_def)
  next
    case 2
    then have "d = 5" using Cons.prems by (simp add: linked_def)
    then show ?thesis using Cons.IH[OF link_3(2)] 2 step[OF emit_two, of 3 bs] link_3(1) Cons.prems
      by (simp add: decode_char32 Let_def w_def)
  next
    case 3
    then have "d = 7" using Cons.prems by (simp add: linked_def)
    then show ?thesis using Cons.IH[OF link_1(2)] 3 step[OF emit_one, of 1 bs] link_1(1) Cons.prems
      by (simp add: decode_char32 Let_def w_def)
  next
    case 4
    then have "d = 4" using Cons.prems by (simp add: linked_def)
    then show ?thesis using Cons.IH[OF link_4(2)] 4 step[OF emit_two, of 4 bs] link_4(1) Cons.prems
      by (simp add: decode_char32 Let_def w_def)
  next
    case 5
    then have "d = 6" using Cons.prems by (simp add: linked_def)
    then show ?thesis using Cons.IH[of 0 _ 0] 5 step[OF emit_two, of 2 bs] link_2 Cons.prems
      by (simp add: decode_char32 Let_def w_def linked_def[of 0])
  qed
qed

lemma upper_alphabet: "c \<in> set base32_alphabet \<Longrightarrow> upper_char c = [c]"
proof -
  have "list_all (\<lambda>c. upper_char c = [c]) base32_alphabet" by code_simp
  then show "c \<in> set base32_alphabet \<Longrightarrow> upper_char c = [c]" by (simp add: list_all_iff)
qed

lemma no_pad_in_alphabet: "CHR ''='' \<notin> set base32_alphabet"
  by code_simp

lemma normalize_alphabet:
  assumes "set s \<subseteq> set base32_alphabet"
  shows "normalize_base32 s = s"
proof -
  have "rev s = [] \<or> hd (rev s) \<noteq> CHR ''=''"
    using assms no_pad_in_alphabet by (cases "rev s") (auto dest: arg_cong[where f = set])
  then have "dropWhile (\<lambda>c. c = CHR ''='') (rev s) = rev s"
    by (cases "rev s") auto
  moreover have "js_upper s = s"
    unfolding js_upper_def using assms by (induction s) (auto simp: upper_alphabet)
  moreover have "filter base32_char s = s"
    by (rule filter_True) (use assms in \<open>auto simp: base32_char_def\<close>)
  ultimately show ?thesis by (simp add: normalize_base32_def)
qed

lemma emit_groups_alphabet:
  "set out \<subseteq> set base32_alphabet \<Longrightarrow> set (snd (emit_groups bits v out)) \<subseteq> set base32_alphabet"
proof (induction bits v out rule: emit_groups.induct)
  case (1 bits v out)
  then show ?case
    using char32_mem[of "drop_bit (bits - 5) v", unfolded char32_def]
    by (simp add: emit_groups.simps[of bits])
qed

lemma encode_from_alphabet: "set (encode_from bs bits v) \<subseteq> set base32_alphabet"
proof (induction bs arbitrary: bits v)
  case Nil
  show ?case by (auto simp: encode_from_def char32_mem split: if_splits)
next
  case (Cons b bs)
  let ?v = "push_bit 8 v OR ucast b"
  obtain k cs where e: "emit_groups (bits + 8) ?v [] = (k, cs)" by fastforce
  have "set cs \<subseteq> set base32_alphabet" using emit_groups_alphabet[of "[]" "bits + 8" ?v] e by simp
  then show ?case using Cons encode_from_Cons[OF e] by simp
qed

text \<open>
  A secret survives its base 32 encoding: \<open>fromBase32\<close> gives back the bytes given to
  \<open>toBase32\<close>, for every byte string, although both accumulate in a 32-bit integer that overflows
  after a few bytes. So the key \<open>hotp\<close> derives from a stored secret is the random key that
  \<open>generateTotpSecret\<close> drew.
\<close>

theorem base32_roundtrip: "from_base32 (to_base32 buffer) = buffer"
proof -
  have "linked 0 0 0 0 0" by (simp add: linked_def)
  from decode_encode_from[OF this, of buffer "[]"] show ?thesis
    by (simp add: from_base32_def to_base32_encode_from normalize_alphabet encode_from_alphabet)
qed

subsection \<open>The accepted codes\<close>

lemma show_nat_short:
  "n < 10 ^ k \<Longrightarrow> 0 < k \<Longrightarrow>
     length (show_nat n) \<le> k \<and> list_all (\<lambda>c. 48 \<le> (of_char c :: nat) \<and> (of_char c :: nat) \<le> 57) (show_nat n)"
proof (induction n arbitrary: k rule: show_nat.induct)
  case (1 n)
  show ?case
  proof (cases "n < 10")
    case True
    then show ?thesis using 1 by (simp add: show_nat.simps[of n])
  next
    case False
    then have "1 < k" using 1(2,3) by (cases "k = 1") auto
    then obtain j where j: "k = Suc j" "0 < j" by (cases k) auto
    have "n div 10 < 10 ^ j" using 1(2) j by (simp add: div_less_iff_less_mult mult.commute)
    then show ?thesis using 1(1)[OF False, of j] False j
      by (simp add: show_nat.simps[of n])
  qed
qed

lemma hotp_six_digits: "hotp hm secret c = Some code \<Longrightarrow> six_digits code"
proof -
  have "six_digits (pad_start 6 (show_nat (n mod 10 ^ 6)))" for n
    using show_nat_short[of "n mod 10 ^ 6" 6]
    by (auto simp: six_digits_def pad_start_def list_all_iff)
  then show "hotp hm secret c = Some code \<Longrightarrow> six_digits code"
    by (auto simp: hotp_def Let_def split: if_splits)
qed

lemma hotp_total: "0 \<le> c \<Longrightarrow> c < 2 ^ 31 \<Longrightarrow> \<exists>code. hotp hm secret c = Some code"
  by (simp add: hotp_def Let_def)

lemma try_windows_True:
  "list_all (\<lambda>c. hotp hm secret c \<noteq> None) cs \<Longrightarrow>
     try_windows hm secret code cs = Some (\<exists>c \<in> set cs. hotp hm secret c = Some code)"
  by (induction cs) auto

text \<open>
  Which codes \<open>verifyTotpCode\<close> accepts: as long as the counters of the window fit the
  31 bits the counter buffer can hold, it never throws, and it accepts a string exactly when it is
  the code of one of the time steps at most \<open>clockSkewWindows\<close> away from the current one.
\<close>

theorem totp_accepts_iff:
  assumes "skew \<le> current_counter now" and "current_counter now + skew < 2 ^ 31"
  shows "verify_totp_code hm code skew now secret =
    Some (\<exists>c. \<bar>c - current_counter now\<bar> \<le> skew \<and> hotp hm secret c = Some code)"
proof -
  let ?cs = "map (\<lambda>offset. current_counter now + offset) [- skew .. skew]"
  have mem: "c \<in> set ?cs \<longleftrightarrow> \<bar>c - current_counter now\<bar> \<le> skew" for c
    by (auto simp: image_iff intro: bexI[of _ "c - current_counter now"])
  have "list_all (\<lambda>c. hotp hm secret c \<noteq> None) ?cs"
    unfolding list_all_iff mem using assms hotp_total[of _ hm secret] by fastforce
  from try_windows_True[OF this, of code, unfolded Bex_def mem]
  have "try_windows hm secret code ?cs =
      Some (\<exists>c. \<bar>c - current_counter now\<bar> \<le> skew \<and> hotp hm secret c = Some code)"
    .
  then show ?thesis using hotp_six_digits[of hm secret _ code]
    by (auto simp: verify_totp_code_def)
qed

definition sample_hmac :: hmac where
  "sample_hmac key msg = key @ msg @ replicate 20 7"

theorem totp_accepts_iff_witness:
  "verify_totp_code sample_hmac ''117901'' 1 60000 ''GEZDGNBV'' =
     Some (\<exists>c. \<bar>c - current_counter 60000\<bar> \<le> 1 \<and> hotp sample_hmac ''GEZDGNBV'' c = Some ''117901'')"
  by (rule totp_accepts_iff) (simp_all add: current_counter_def totp_period_seconds_def)

text \<open>
  A code shown by an authenticator is accepted while the server's clock is within
  \<open>clockSkewWindows\<close> steps of 30 seconds of the authenticator's, in either direction: the code
  generated at \<open>t\<close> exists and verifies at \<open>now\<close>.
\<close>

theorem totp_skew_window:
  assumes "\<bar>now - t\<bar> \<le> 30000 * skew" and "30000 * skew \<le> now" and "now + 30000 * skew < 30000 * 2 ^ 31"
  shows "\<exists>code. generate_current_totp hm secret t = Some code \<and>
    verify_totp_code hm code skew now secret = Some True"
proof -
  have c: "current_counter x = x div 30000" for x
    by (simp add: current_counter_def totp_period_seconds_def)
  have lo: "skew \<le> now div 30000" using assms(2) by linarith
  have hi: "now div 30000 + skew < 2 ^ 31" using assms(3) by linarith
  have near: "\<bar>t div 30000 - now div 30000\<bar> \<le> skew" using assms(1) by linarith
  have "0 \<le> t div 30000" "t div 30000 < 2 ^ 31" using lo hi near by linarith+
  then obtain code where "hotp hm secret (t div 30000) = Some code" using hotp_total by blast
  then show ?thesis
    using totp_accepts_iff[of skew now hm code secret] lo hi near
    by (auto simp: c generate_current_totp_def)
qed

end
