(* ===== verification/Crypto.thy ===== *)
theory Crypto
  imports Totp JsValue
begin

text \<open>
  \<open>apps/api/src/modules/auth/crypto.ts\<close>: the stored form of passwords, API keys and encrypted
  secrets. The cryptographic primitives (SHA-256, scrypt, HMAC, AES-GCM) and the optional module
  \<open>bcryptjs\<close> are parameters; the formats around them are modelled, with the conversions to and
  from base 64 of Node's \<open>Buffer\<close>. Random bytes are arguments of the functions that draw them.
\<close>

subsection \<open>Base 64 in the URL alphabet\<close>

definition base64_alphabet :: string where
  "base64_alphabet = ''ABCDEFGHIJKLMNOPQRSTUVWXYZabcdefghijklmnopqrstuvwxyz0123456789-_''"

definition char64 :: "nat \<Rightarrow> char" where
  "char64 i = base64_alphabet ! i"

fun encode64 :: "nat list \<Rightarrow> nat list" where
  "encode64 [] = []"
| "encode64 [a] = [a div 4, a mod 4 * 16]"
| "encode64 [a, b] = [a div 4, a mod 4 * 16 + b div 16, b mod 16 * 4]"
| "encode64 (a # b # c # bs) =
     [a div 4, a mod 4 * 16 + b div 16, b mod 16 * 4 + c div 64, c mod 64] @ encode64 bs"

fun decode64 :: "nat list \<Rightarrow> nat list" where
  "decode64 [] = []"
| "decode64 [i] = []"
| "decode64 [i, j] = [i * 4 + j div 16]"
| "decode64 [i, j, k] = [i * 4 + j div 16, j mod 16 * 16 + k div 4]"
| "decode64 (i # j # k # l # is) =
     [i * 4 + j div 16, j mod 16 * 16 + k div 4, k mod 4 * 64 + l] @ decode64 is"

text \<open>\<open>buffer.toString("base64url")\<close>: no padding.\<close>

definition to_base64url :: "8 word list \<Rightarrow> string" where
  "to_base64url bs = map char64 (encode64 (map unat bs))"

text \<open>\<open>Buffer.from(s, "base64url")\<close>: reads up to the first padding character, takes the two last
  digits in either alphabet and skips what is not a digit.\<close>

definition index64 :: "char \<Rightarrow> nat option" where
  "index64 c = (if c = CHR ''+'' then Some 62 else if c = CHR ''/'' then Some 63
     else index_of c base64_alphabet)"

definition from_base64url :: "string \<Rightarrow> 8 word list" where
  "from_base64url s =
     map of_nat (decode64 (List.map_filter index64 (takeWhile (\<lambda>c. c \<noteq> CHR ''='') s)))"

subsection \<open>Passwords\<close>

record bcrypt_module =
  bcrypt_compare :: "string \<Rightarrow> string \<Rightarrow> bool"
  bcrypt_gen_salt :: "nat \<Rightarrow> 8 word list \<Rightarrow> string"
  bcrypt_hash :: "string \<Rightarrow> string \<Rightarrow> string"

record crypto =
  sha256 :: "string \<Rightarrow> string"
  scrypt :: "string \<Rightarrow> string \<Rightarrow> 8 word list"
  bcrypt :: "bcrypt_module option"

definition is_bcrypt_hash :: "string \<Rightarrow> bool" where
  "is_bcrypt_hash v \<longleftrightarrow> starts_with v ''$2a$'' \<or> starts_with v ''$2b$'' \<or> starts_with v ''$2y$''"

text \<open>An element of a destructured array; an index out of range gives \<open>undefined\<close>.\<close>

definition item :: "'a list \<Rightarrow> nat \<Rightarrow> 'a option" where
  "item xs i = (if i < length xs then Some (xs ! i) else None)"

definition finite_number :: "string option \<Rightarrow> rat option" where
  "finite_number s = (case s of None \<Rightarrow> None | Some t \<Rightarrow> (case js_number t of Fin q \<Rightarrow> Some q | _ \<Rightarrow> None))"

definition bcrypt_cost :: "string \<Rightarrow> rat option" where
  "bcrypt_cost v = (if \<not> is_bcrypt_hash v then None else finite_number (item (split_on CHR ''$'' v) 2))"

definition is_scrypt_hash :: "string \<Rightarrow> bool" where
  "is_scrypt_hash v \<longleftrightarrow> starts_with v ''scrypt$''"

definition hash_with_scrypt :: "crypto \<Rightarrow> string \<Rightarrow> nat \<Rightarrow> 8 word list \<Rightarrow> string" where
  "hash_with_scrypt cr password cost random =
     (let salt = to_base64url random; derived_key = scrypt cr password salt
      in ''scrypt$'' @ show_nat cost @ ''$'' @ salt @ ''$'' @ to_base64url derived_key)"

definition verify_scrypt_hash :: "crypto \<Rightarrow> string \<Rightarrow> string \<Rightarrow> bool" where
  "verify_scrypt_hash cr password stored_hash =
     (let parts = split_on CHR ''$'' stored_hash
      in case (truthy (item parts 2), truthy (item parts 3)) of
        (Some salt, Some expected_hash) \<Rightarrow>
          (let actual = scrypt cr password salt; expected = from_base64url expected_hash
           in length actual = length expected \<and> actual = expected)
      | _ \<Rightarrow> False)"

definition scrypt_cost :: "string \<Rightarrow> rat option" where
  "scrypt_cost v = (if \<not> is_scrypt_hash v then None else finite_number (item (split_on CHR ''$'' v) 1))"

definition hash_password :: "crypto \<Rightarrow> string \<Rightarrow> nat \<Rightarrow> 8 word list \<Rightarrow> string" where
  "hash_password cr password salt_rounds random =
     (case bcrypt cr of
        Some b \<Rightarrow> bcrypt_hash b password (bcrypt_gen_salt b salt_rounds random)
      | None \<Rightarrow> hash_with_scrypt cr password salt_rounds random)"

record password_check =
  is_valid :: bool
  needs_rehash :: bool

definition cost_below :: "rat option \<Rightarrow> nat \<Rightarrow> bool" where
  "cost_below c minimum = (case c of None \<Rightarrow> False | Some q \<Rightarrow> q < of_nat minimum)"

definition verify_password_hash :: "crypto \<Rightarrow> string \<Rightarrow> string \<Rightarrow> nat \<Rightarrow> password_check" where
  "verify_password_hash cr password stored_hash minimum_salt_rounds =
     (if is_bcrypt_hash stored_hash then
        (case bcrypt cr of
           None \<Rightarrow> \<lparr>is_valid = False, needs_rehash = False\<rparr>
         | Some b \<Rightarrow>
             (let valid = bcrypt_compare b password stored_hash
              in \<lparr>is_valid = valid,
                  needs_rehash = (valid \<and> cost_below (bcrypt_cost stored_hash) minimum_salt_rounds)\<rparr>))
      else if is_scrypt_hash stored_hash then
        (let valid = verify_scrypt_hash cr password stored_hash
         in \<lparr>is_valid = valid,
             needs_rehash = (valid \<and> cost_below (scrypt_cost stored_hash) minimum_salt_rounds)\<rparr>)
      else
        \<lparr>is_valid = (sha256 cr password = stored_hash), needs_rehash = (sha256 cr password = stored_hash)\<rparr>)"

subsection \<open>Tokens and API keys\<close>

definition create_access_token :: "8 word list \<Rightarrow> string" where
  "create_access_token random = ''atk_'' @ to_base64url random"

definition create_refresh_token :: "8 word list \<Rightarrow> string" where
  "create_refresh_token random = ''rtk_'' @ to_base64url random"

record api_key_material =
  km_hash :: string
  km_key :: string
  km_last4 :: string
  km_prefix :: string

definition last_chars :: "nat \<Rightarrow> string \<Rightarrow> string" where
  "last_chars n s = drop (length s - n) s"

definition create_api_key :: "crypto \<Rightarrow> string \<Rightarrow> 8 word list \<Rightarrow> api_key_material" where
  "create_api_key cr prefix random =
     (let key = prefix @ ''_'' @ to_base64url random
      in \<lparr>km_hash = sha256 cr key, km_key = key, km_last4 = last_chars 4 key, km_prefix = prefix\<rparr>)"

subsection \<open>Encrypted values\<close>

text \<open>
  AES-256-GCM is a parameter: sealing a text under a key and an initialization vector gives the
  authentication tag and the encrypted bytes; opening gives the text back or fails.
\<close>

record aead =
  derive_key :: "string \<Rightarrow> 8 word list"
  seal :: "8 word list \<Rightarrow> 8 word list \<Rightarrow> string \<Rightarrow> 8 word list \<times> 8 word list"
  open_sealed :: "8 word list \<Rightarrow> 8 word list \<Rightarrow> 8 word list \<Rightarrow> 8 word list \<Rightarrow> string option"

definition encrypt_sensitive_value :: "aead \<Rightarrow> string \<Rightarrow> string \<Rightarrow> 8 word list \<Rightarrow> string" where
  "encrypt_sensitive_value ae v secret iv =
     (case seal ae (derive_key ae secret) iv v of
        (auth_tag, encrypted) \<Rightarrow>
          to_base64url iv @ ''.'' @ to_base64url auth_tag @ ''.'' @ to_base64url encrypted)"

text \<open>\<open>None\<close> is an exception: a missing part, or a tag that does not authenticate.\<close>

definition decrypt_sensitive_value :: "aead \<Rightarrow> string \<Rightarrow> string \<Rightarrow> string option" where
  "decrypt_sensitive_value ae payload secret =
     (let parts = split_on CHR ''.'' payload
      in case (truthy (item parts 0), truthy (item parts 1), truthy (item parts 2)) of
        (Some iv, Some auth_tag, Some encrypted) \<Rightarrow>
          open_sealed ae (derive_key ae secret) (from_base64url iv) (from_base64url auth_tag)
            (from_base64url encrypted)
      | _ \<Rightarrow> None)"

subsection \<open>Recovery codes\<close>

definition code_char :: "char \<Rightarrow> bool" where
  "code_char c \<longleftrightarrow>
     (let n = of_char c :: nat in (65 \<le> n \<and> n \<le> 90) \<or> (48 \<le> n \<and> n \<le> 57))"

definition recovery_code :: "8 word list \<Rightarrow> string" where
  "recovery_code random = take 10 (filter code_char (js_upper (to_base64url random)))"

definition generate_recovery_codes :: "8 word list list \<Rightarrow> string list" where
  "generate_recovery_codes draws = map recovery_code draws"

definition hash_recovery_code :: "crypto \<Rightarrow> string \<Rightarrow> string" where
  "hash_recovery_code cr code = sha256 cr (''recovery:'' @ code)"

subsection \<open>The base 64 round trip\<close>

lemma decode_encode64: "list_all (\<lambda>n. n < 256) bs \<Longrightarrow> decode64 (encode64 bs) = bs"
proof (induction bs rule: encode64.induct)
  case (4 a b c bs)
  have "c div 64 < 4" "b div 16 < 16" using 4 by (auto simp: div_less_iff_less_mult)
  then have "(b mod 16 * 4 + c div 64) mod 4 * 64 + c mod 64 = c"
    "(b mod 16 * 4 + c div 64) div 4 = b mod 16" "(a mod 4 * 16 + b div 16) mod 16 = b div 16"
    "(a mod 4 * 16 + b div 16) div 16 = a mod 4"
    by auto
  then show ?case using 4 by simp
next
  case (3 a b)
  have "b div 16 < 16" using 3 by (simp add: div_less_iff_less_mult)
  then have "(a mod 4 * 16 + b div 16) mod 16 = b div 16" "(a mod 4 * 16 + b div 16) div 16 = a mod 4"
    by auto
  then show ?case by simp
qed simp_all

lemma encode64_less: "list_all (\<lambda>n. n < 256) bs \<Longrightarrow> list_all (\<lambda>i. i < 64) (encode64 bs)"
proof (induction bs rule: encode64.induct)
  case (2 a)
  then show ?case by auto
next
  case (3 a b)
  have "b div 16 < 16" "a mod 4 < 4" "b mod 16 < 16" "a div 4 < 64" using 3 by auto
  then have "a mod 4 * 16 + b div 16 < 64" "b mod 16 * 4 < 64" by linarith+
  then show ?case using \<open>a div 4 < 64\<close> by simp
next
  case (4 a b c bs)
  have "c div 64 < 4" "b div 16 < 16" "a mod 4 < 4" "b mod 16 < 16" "a div 4 < 64" using 4 by auto
  then have "a mod 4 * 16 + b div 16 < 64" "b mod 16 * 4 + c div 64 < 64" by linarith+
  then show ?case using \<open>a div 4 < 64\<close> 4 by simp
qed simp

lemma alphabet64: "length base64_alphabet = 64" "distinct base64_alphabet"
  "CHR ''='' \<notin> set base64_alphabet" "CHR ''+'' \<notin> set base64_alphabet"
  "CHR ''/'' \<notin> set base64_alphabet" "CHR ''$'' \<notin> set base64_alphabet"
  "CHR ''.'' \<notin> set base64_alphabet"
  by (simp_all add: base64_alphabet_def)

lemma char64_mem: "i < 64 \<Longrightarrow> char64 i \<in> set base64_alphabet"
  using alphabet64(1) by (simp add: char64_def)

lemma index_char64: "i < 64 \<Longrightarrow> index64 (char64 i) = Some i"
proof -
  assume i: "i < 64"
  have "char64 i \<noteq> CHR ''+''" "char64 i \<noteq> CHR ''/''"
    using char64_mem[OF i] alphabet64(4,5) by (metis, metis)
  then show ?thesis
    using index_of_nth[OF alphabet64(2), of i] i by (simp add: index64_def char64_def alphabet64(1))
qed

lemma bytes_less: "list_all (\<lambda>n. n < 256) (map unat (bs :: 8 word list))"
proof -
  have "unat b < 256" for b :: "8 word"
    using unsigned_less[of b, where ?'a = nat] by simp
  then show ?thesis by (simp add: list_all_iff)
qed

lemma base64url_mem: "c \<in> set (to_base64url bs) \<Longrightarrow> c \<in> set base64_alphabet"
  using encode64_less[OF bytes_less, of bs] char64_mem by (auto simp: to_base64url_def list_all_iff)

lemma base64url_roundtrip: "from_base64url (to_base64url bs) = bs"
proof -
  have less: "list_all (\<lambda>i. i < 64) (encode64 (map unat bs))" by (rule encode64_less[OF bytes_less])
  have t: "takeWhile (\<lambda>c. c \<noteq> CHR ''='') (to_base64url bs) = to_base64url bs"
    unfolding takeWhile_eq_all_conv using base64url_mem alphabet64(3) by metis
  have "List.map_filter index64 (map char64 is) = is" if "list_all (\<lambda>i. i < 64) is" for "is"
    using that by (induction "is") (auto simp: map_filter_simps index_char64)
  from this[OF less] have "from_base64url (to_base64url bs) = map of_nat (map unat bs)"
    unfolding from_base64url_def t
    using decode_encode64[OF bytes_less, of bs] by (simp only: to_base64url_def)
  then show ?thesis by (simp add: comp_def)
qed

lemma base64url_nonempty: "to_base64url bs = [] \<longleftrightarrow> bs = []"
  by (cases "map unat bs" rule: encode64.cases) (auto simp: to_base64url_def)

lemma truthy_base64url: "bs \<noteq> [] \<Longrightarrow> truthy (Some (to_base64url bs)) = Some (to_base64url bs)"
  by (simp add: truthy_Some_iff base64url_nonempty)

text \<open>Four fields between separators none of them contains come apart again.\<close>

lemma split_three:
  "d \<notin> set a \<Longrightarrow> d \<notin> set b \<Longrightarrow> d \<notin> set c \<Longrightarrow> split_on d (a @ d # b @ d # c) = [a, b, c]"
  by (simp add: split_on_append split_on_absent)

lemma split_four:
  "d \<notin> set a \<Longrightarrow> d \<notin> set b \<Longrightarrow> d \<notin> set c \<Longrightarrow> d \<notin> set e \<Longrightarrow>
     split_on d (a @ d # b @ d # c @ d # e) = [a, b, c, e]"
  by (simp add: split_on_append split_on_absent)

lemma show_nat_no_dollar: "CHR ''$'' \<notin> set (show_nat n)"
  using show_nat_digits[of "CHR ''$''" n] by (auto simp: is_digit_def)

lemma split_scrypt_hash:
  "split_on CHR ''$'' (hash_with_scrypt cr p cost random) =
     [''scrypt'', show_nat cost, to_base64url random, to_base64url (scrypt cr p (to_base64url random))]"
proof -
  have d: "CHR ''$'' \<notin> set (to_base64url bs)" for bs using base64url_mem alphabet64(6) by metis
  have "hash_with_scrypt cr p cost random = ''scrypt'' @ CHR ''$'' # show_nat cost @ CHR ''$'' #
      to_base64url random @ CHR ''$'' # to_base64url (scrypt cr p (to_base64url random))"
    by (simp add: hash_with_scrypt_def Let_def)
  then show ?thesis using split_four[OF _ show_nat_no_dollar d d, of "''scrypt''" cost random]
    by simp
qed

lemma scrypt_hash_format:
  "is_scrypt_hash (hash_with_scrypt cr p cost random)" "\<not> is_bcrypt_hash (hash_with_scrypt cr p cost random)"
  by (simp_all add: is_scrypt_hash_def is_bcrypt_hash_def hash_with_scrypt_def Let_def)

lemma scrypt_hash_cost:
  assumes "cost < 2 ^ 53"
  shows "scrypt_cost (hash_with_scrypt cr p cost random) = Some (of_nat cost)"
proof -
  have "rat_of_nat cost < rat_of_nat (2 ^ 53)" using assms by (simp only: of_nat_less_iff)
  also have "\<dots> \<le> 2 ^ 1024 - 2 ^ 970" by simp
  finally show ?thesis
    by (simp add: scrypt_cost_def scrypt_hash_format split_scrypt_hash item_def finite_number_def
      js_number_show_nat del: power_numeral)
qed

text \<open>
  The stored scrypt hash of a password, made with a salt of random bytes, is verified
  exactly by the passwords that derive the same key under that salt, the password itself among
  them; and a verified hash is to be renewed exactly when its recorded cost is below the configured
  minimum. So the format written by \<open>hashWithScrypt\<close> is read back by \<open>verifyScryptHash\<close> and
  \<open>scryptCost\<close>, and a freshly made hash is never renewed at once.
\<close>

theorem scrypt_password_roundtrip:
  assumes "bcrypt cr = None" and "random \<noteq> []" and "\<And>p s. scrypt cr p s \<noteq> []"
    and "rounds < 2 ^ 53"
  shows "verify_password_hash cr p' (hash_password cr p rounds random) minimum =
    \<lparr>is_valid = (scrypt cr p' (to_base64url random) = scrypt cr p (to_base64url random)),
     needs_rehash = (scrypt cr p' (to_base64url random) = scrypt cr p (to_base64url random) \<and>
       rounds < minimum)\<rparr>"
proof -
  have h: "hash_password cr p rounds random = hash_with_scrypt cr p rounds random"
    using assms(1) by (simp add: hash_password_def)
  have "verify_scrypt_hash cr p' (hash_with_scrypt cr p rounds random) \<longleftrightarrow>
      scrypt cr p' (to_base64url random) = scrypt cr p (to_base64url random)"
    using assms(2,3)
    by (auto simp: verify_scrypt_hash_def split_scrypt_hash item_def truthy_base64url base64url_roundtrip Let_def)
  then show ?thesis
    unfolding h verify_password_hash_def by (simp add: scrypt_hash_format scrypt_hash_cost[OF assms(4)] cost_below_def Let_def)
qed

definition sample_crypto :: crypto where
  "sample_crypto = \<lparr>sha256 = (\<lambda>s. s @ ''#''), scrypt = (\<lambda>p s. 9 # map (\<lambda>c. of_char c) (p @ s)), bcrypt = None\<rparr>"

theorem scrypt_password_roundtrip_witness:
  "verify_password_hash sample_crypto ''secret'' (hash_password sample_crypto ''secret'' 12 [1, 2]) 13 =
     \<lparr>is_valid = True, needs_rehash = True\<rparr>"
proof -
  have "verify_password_hash sample_crypto ''secret'' (hash_password sample_crypto ''secret'' 12 [1, 2]) 13 =
    \<lparr>is_valid = (scrypt sample_crypto ''secret'' (to_base64url [1, 2]) = scrypt sample_crypto ''secret'' (to_base64url [1, 2])),
     needs_rehash = (scrypt sample_crypto ''secret'' (to_base64url [1, 2]) = scrypt sample_crypto ''secret'' (to_base64url [1, 2]) \<and>
       12 < (13 :: nat))\<rparr>"
    by (rule scrypt_password_roundtrip) (simp_all add: sample_crypto_def)
  then show ?thesis by simp
qed

text \<open>
  A secret encrypted with \<open>encryptSensitiveValue\<close> (the TOTP secrets and connector
  credentials at rest) is given back by \<open>decryptSensitiveValue\<close> under the same encryption key,
  whenever the cipher opens what it sealed and neither the initialization vector nor the tag nor
  the encrypted text is empty.
\<close>

theorem encrypted_value_roundtrip:
  assumes "seal ae (derive_key ae secret) iv v = (tag, encrypted)"
    and "open_sealed ae (derive_key ae secret) iv tag encrypted = Some v"
    and "iv \<noteq> []" "tag \<noteq> []" "encrypted \<noteq> []"
  shows "decrypt_sensitive_value ae (encrypt_sensitive_value ae v secret iv) secret = Some v"
proof -
  have d: "CHR ''.'' \<notin> set (to_base64url bs)" for bs using base64url_mem alphabet64(7) by metis
  have "split_on CHR ''.'' (encrypt_sensitive_value ae v secret iv) =
      [to_base64url iv, to_base64url tag, to_base64url encrypted]"
    using assms(1) by (simp add: encrypt_sensitive_value_def split_three[OF d d d])
  then show ?thesis
    using assms(2-)
    by (simp add: decrypt_sensitive_value_def item_def truthy_base64url base64url_roundtrip)
qed

definition sample_aead :: aead where
  "sample_aead = \<lparr>derive_key = map of_char, seal = (\<lambda>k iv v. (k @ iv, map of_char v)),
     open_sealed = (\<lambda>k iv tag e. if tag = k @ iv then Some (map (\<lambda>b. char_of (unat b)) e) else None)\<rparr>"

theorem encrypted_value_roundtrip_witness:
  "decrypt_sensitive_value sample_aead (encrypt_sensitive_value sample_aead ''AB'' ''key'' [1, 2, 3]) ''key'' =
     Some ''AB''"
  by (rule encrypted_value_roundtrip[where tag = "map of_char ''key'' @ [1, 2, 3]" and encrypted = "map of_char ''AB''"])
    (simp_all add: sample_aead_def char_of_def bit_0)

end
