(* ===== verification/AuthDb.thy ===== *)
theory AuthDb
  imports Schema Crypto
begin

text \<open>
  The tables the authentication service works on, with their unique indexes
  (\<open>packages/database/prisma/schema.prisma\<close>), and what an operation takes from outside: the clock,
  the configuration, the cryptographic primitives and the random bytes and row identifiers it draws.
  A row's identifier is a \<open>cuid()\<close>; the tables are kept oldest row first.
\<close>

record tenant_row = org_row +
  org_slug :: string

record session_row =
  ses_id :: string
  ses_tenant_id :: string
  ses_token :: string
  ses_refresh_token_hash :: "string option"
  ses_csrf_token :: "string option"
  ses_organization_id :: string
  ses_user_id :: string
  ses_expires_at :: ms
  ses_refresh_expires_at :: "ms option"
  ses_last_activity_at :: ms
  ses_revoked_at :: "ms option"
  ses_replaced_by :: "string option"
  ses_ip_address :: "string option"
  ses_user_agent :: "string option"
  ses_created_at :: ms

datatype api_key_status = KeyActive | KeyRevoked

record api_key_row =
  key_id :: string
  key_tenant_id :: string
  key_organization_id :: string
  key_user_id :: string
  key_label :: string
  key_prefix :: string
  key_hash :: string
  key_last4 :: string
  key_scopes :: "string list"
  key_status :: api_key_status
  key_expires_at :: "ms option"
  key_grace_expires_at :: "ms option"
  key_rotated_from :: "string option"
  key_revoked_at :: "ms option"
  key_last_used_at :: "ms option"
  key_created_at :: ms

record mfa_challenge_row =
  chl_id :: string
  chl_tenant_id :: string
  chl_organization_id :: string
  chl_user_id :: string
  chl_token_hash :: string
  chl_expires_at :: ms
  chl_consumed_at :: "ms option"

record recovery_code_row =
  rec_id :: string
  rec_tenant_id :: string
  rec_user_id :: string
  rec_code_hash :: string
  rec_used_at :: "ms option"

record login_alert_row =
  alert_tenant_id :: string
  alert_organization_id :: string
  alert_user_id :: string
  alert_ip_address :: "string option"
  alert_user_agent :: "string option"

text \<open>What an audit entry says of the change: the state before and after.\<close>

datatype audit_diff =
    StatusDiff user_status user_status
  | RoleDiff role role
  | MembershipDiff membership_status membership_status

record audit_row =
  aud_tenant_id :: string
  aud_actor_id :: "string option"
  aud_action :: string
  aud_entity_type :: string
  aud_entity_id :: string
  aud_diff :: audit_diff

record auth_db =
  adb_orgs :: "tenant_row list"
  adb_users :: "user_row list"
  adb_memberships :: "membership_row list"
  adb_sessions :: "session_row list"
  adb_api_keys :: "api_key_row list"
  adb_challenges :: "mfa_challenge_row list"
  adb_recovery_codes :: "recovery_code_row list"
  adb_login_alerts :: "login_alert_row list"
  adb_audit_logs :: "audit_row list"

subsection \<open>Unique indexes\<close>

definition user_indexes :: "user_row index list" where
  "user_indexes = [(''id'', \<lambda>r. Some (user_id r)), (''email'', \<lambda>r. Some (user_email r))]"

definition membership_indexes :: "membership_row index list" where
  "membership_indexes = [(''id'', \<lambda>r. Some (mem_id r)),
     (''organizationId_userId'', \<lambda>r. Some (compound_key (mem_organization_id r) (mem_user_id r)))]"

definition session_indexes :: "session_row index list" where
  "session_indexes = [(''id'', \<lambda>r. Some (ses_id r)), (''token'', \<lambda>r. Some (ses_token r)),
     (''refreshTokenHash'', ses_refresh_token_hash)]"

definition api_key_indexes :: "api_key_row index list" where
  "api_key_indexes = [(''id'', \<lambda>r. Some (key_id r)), (''keyHash'', \<lambda>r. Some (key_hash r))]"

definition challenge_indexes :: "mfa_challenge_row index list" where
  "challenge_indexes = [(''id'', \<lambda>r. Some (chl_id r)), (''tokenHash'', \<lambda>r. Some (chl_token_hash r))]"

definition recovery_code_indexes :: "recovery_code_row index list" where
  "recovery_code_indexes = [(''id'', \<lambda>r. Some (rec_id r)),
     (''userId_codeHash'', \<lambda>r. Some (compound_key (rec_user_id r) (rec_code_hash r)))]"

text \<open>What the database guarantees of the authentication tables at every moment.\<close>

definition auth_db_ok :: "auth_db \<Rightarrow> bool" where
  "auth_db_ok db \<longleftrightarrow>
     indexes_ok user_indexes (adb_users db) \<and> indexes_ok membership_indexes (adb_memberships db) \<and>
     indexes_ok session_indexes (adb_sessions db) \<and> indexes_ok api_key_indexes (adb_api_keys db) \<and>
     indexes_ok challenge_indexes (adb_challenges db) \<and>
     indexes_ok recovery_code_indexes (adb_recovery_codes db)"

interpretation session_by_id: unique_key "\<lambda>r. Some (ses_id r)" .
interpretation session_by_token: unique_key "\<lambda>r. Some (ses_token r)" .
interpretation session_by_refresh: unique_key ses_refresh_token_hash .
interpretation api_key_by_id: unique_key "\<lambda>r. Some (key_id r)" .
interpretation api_key_by_hash: unique_key "\<lambda>r. Some (key_hash r)" .
interpretation challenge_by_token: unique_key "\<lambda>r. Some (chl_token_hash r)" .
interpretation challenge_by_id: unique_key "\<lambda>r. Some (chl_id r)" .
interpretation recovery_by_id: unique_key "\<lambda>r. Some (rec_id r)" .
interpretation user_by_id: unique_key "\<lambda>r. Some (user_id r)" .

subsection \<open>The environment of an operation\<close>

record auth_config =
  cfg_token_ttl_minutes :: int
  cfg_session_ttl_hours :: int
  cfg_rotation_grace_hours :: int
  cfg_mfa_challenge_ttl_seconds :: int
  cfg_clock_skew_windows :: int
  cfg_mfa_encryption_key :: string
  cfg_mfa_issuer :: string
  cfg_salt_rounds :: nat
  cfg_api_key_prefix :: string

record auth_draws =
  draw_access_token :: "8 word list"
  draw_refresh_token :: "8 word list"
  draw_csrf_token :: "8 word list"
  draw_session_id :: string
  draw_challenge_token :: "8 word list"
  draw_challenge_id :: string
  draw_salt :: "8 word list"
  draw_totp_secret :: "8 word list"
  draw_totp_iv :: "8 word list"
  draw_recovery_codes :: "(string \<times> 8 word list) list"
  draw_api_key :: "8 word list"
  draw_api_key_id :: string

record auth_env =
  ae_now :: ms
  ae_config :: auth_config
  ae_crypto :: crypto
  ae_aead :: aead
  ae_hmac :: hmac
  ae_draws :: auth_draws

subsection \<open>Statements\<close>

definition on_users where "on_users = on_table adb_users (\<lambda>rows db. db\<lparr>adb_users := rows\<rparr>)"
definition on_memberships where
  "on_memberships = on_table adb_memberships (\<lambda>rows db. db\<lparr>adb_memberships := rows\<rparr>)"
definition on_sessions where
  "on_sessions = on_table adb_sessions (\<lambda>rows db. db\<lparr>adb_sessions := rows\<rparr>)"
definition on_api_keys where
  "on_api_keys = on_table adb_api_keys (\<lambda>rows db. db\<lparr>adb_api_keys := rows\<rparr>)"
definition on_challenges where
  "on_challenges = on_table adb_challenges (\<lambda>rows db. db\<lparr>adb_challenges := rows\<rparr>)"
definition on_recovery_codes where
  "on_recovery_codes = on_table adb_recovery_codes (\<lambda>rows db. db\<lparr>adb_recovery_codes := rows\<rparr>)"
definition on_login_alerts where
  "on_login_alerts = on_table adb_login_alerts (\<lambda>rows db. db\<lparr>adb_login_alerts := rows\<rparr>)"
definition on_audit_logs where
  "on_audit_logs = on_table adb_audit_logs (\<lambda>rows db. db\<lparr>adb_audit_logs := rows\<rparr>)"

lemmas statement_defs = on_users_def on_memberships_def on_sessions_def on_api_keys_def
  on_challenges_def on_recovery_codes_def on_login_alerts_def on_audit_logs_def

text \<open>\<open>findUnique\<close> by the compound key of a membership.\<close>

definition find_membership :: "string \<Rightarrow> string \<Rightarrow> auth_db \<Rightarrow> membership_row option" where
  "find_membership organization user db =
     List.find (\<lambda>m. mem_organization_id m = organization \<and> mem_user_id m = user) (adb_memberships db)"

definition find_user :: "string \<Rightarrow> auth_db \<Rightarrow> user_row option" where
  "find_user user db = List.find (\<lambda>u. user_id u = user) (adb_users db)"

end
