(* ===== verification/Auth.thy ===== *)
theory Auth
  imports AuthDb
begin

text \<open>
  \<open>apps/api/src/modules/auth/auth.service.ts\<close>: roles, sessions, logins with a second factor, API
  keys and the administrative changes of users. Every operation is a state transformer over
  \<^theory_text>\<open>auth_db\<close>; a thrown error keeps what was written before it, unless a transaction rolls it back.
\<close>

subsection \<open>Roles\<close>

fun role_priority :: "role \<Rightarrow> nat" where
  "role_priority SUPER_ADMIN = 5"
| "role_priority OWNER = 4"
| "role_priority ADMIN = 3"
| "role_priority MEMBER = 2"
| "role_priority READONLY = 1"

lemma role_priority_inject: "role_priority a = role_priority b \<Longrightarrow> a = b"
  by (cases a; cases b) simp_all

text \<open>The order of the roles is the order of their priorities.\<close>

instantiation role :: linorder
begin

definition less_eq_role :: "role \<Rightarrow> role \<Rightarrow> bool" where
  "less_eq_role a b \<longleftrightarrow> role_priority a \<le> role_priority b"

definition less_role :: "role \<Rightarrow> role \<Rightarrow> bool" where
  "less_role a b \<longleftrightarrow> role_priority a < role_priority b"

instance
  by standard (auto simp: less_eq_role_def less_role_def dest: role_priority_inject)

end

definition can_manage_role :: "role \<Rightarrow> role \<Rightarrow> bool" where
  "can_manage_role current target =
     (if current = SUPER_ADMIN then True
      else if current = OWNER then True
      else if current = ADMIN then target = MEMBER \<or> target = READONLY
      else False)"

subsection \<open>Organizations and memberships\<close>

definition resolve_tenant_id_for_organization :: "string \<Rightarrow> auth_db \<Rightarrow> string option" where
  "resolve_tenant_id_for_organization organization db =
     map_option org_tenant_id
       (List.find (\<lambda>t. org_id t = organization \<or> org_tenant_id t = organization) (adb_orgs db))"

definition find_tenant_by_reference :: "string \<Rightarrow> auth_db \<Rightarrow> tenant_row option" where
  "find_tenant_by_reference reference db =
     List.find (\<lambda>t. org_id t = reference \<or> org_slug t = reference \<or> org_tenant_id t = reference)
       (adb_orgs db)"

definition resolve_organization_id :: "string \<Rightarrow> auth_db \<Rightarrow> string option" where
  "resolve_organization_id tenant db = map_option org_id (find_tenant_by_reference tenant db)"

record tenant_access =
  acc_organization_id :: string
  acc_role :: role
  acc_tenant_id :: string
  acc_tenant_slug :: string

datatype tenant_decision = TenantForbidden | TenantNotFound | TenantOk tenant_access

definition resolve_authorized_tenant_context :: "string \<Rightarrow> string \<Rightarrow> auth_db \<Rightarrow> tenant_decision" where
  "resolve_authorized_tenant_context reference user db =
     (case find_tenant_by_reference reference db of
        None \<Rightarrow> TenantNotFound
      | Some t \<Rightarrow>
          (case find_membership (org_id t) user db of
             None \<Rightarrow> TenantForbidden
           | Some m \<Rightarrow>
               if mem_status m \<noteq> MembershipActive then TenantForbidden
               else TenantOk \<lparr>acc_organization_id = org_id t, acc_role = mem_role m,
                      acc_tenant_id = org_tenant_id t, acc_tenant_slug = org_slug t\<rparr>))"

definition get_role_for_user :: "string \<Rightarrow> string \<Rightarrow> auth_db \<Rightarrow> role option" where
  "get_role_for_user organization user db =
     (case find_membership organization user db of
        None \<Rightarrow> None
      | Some m \<Rightarrow> if mem_status m \<noteq> MembershipActive then None else Some (mem_role m))"

definition assert_role :: "role \<Rightarrow> string \<Rightarrow> string \<Rightarrow> auth_db \<Rightarrow> bool" where
  "assert_role minimum organization user db =
     (case get_role_for_user organization user db of
        None \<Rightarrow> False
      | Some r \<Rightarrow> role_priority minimum \<le> role_priority r)"

subsection \<open>Sessions\<close>

record session_tokens =
  tok_csrf :: string
  tok_expires_at :: ms
  tok_refresh :: string
  tok_access :: string

definition now_plus_hours :: "ms \<Rightarrow> int \<Rightarrow> ms" where
  "now_plus_hours now hours = now + hours * 60 * 60 * 1000"

definition now_plus_minutes :: "ms \<Rightarrow> int \<Rightarrow> ms" where
  "now_plus_minutes now minutes = now + minutes * 60 * 1000"

definition issue_tokens :: "auth_env \<Rightarrow> session_tokens" where
  "issue_tokens env = \<lparr>
     tok_csrf = to_base64url (draw_csrf_token (ae_draws env)),
     tok_expires_at = now_plus_minutes (ae_now env) (cfg_token_ttl_minutes (ae_config env)),
     tok_refresh = create_refresh_token (draw_refresh_token (ae_draws env)),
     tok_access = create_access_token (draw_access_token (ae_draws env))\<rparr>"

definition new_session ::
    "auth_env \<Rightarrow> string option \<Rightarrow> string \<Rightarrow> string \<Rightarrow> string option \<Rightarrow> string \<Rightarrow> session_row" where
  "new_session env ip organization tenant agent user = \<lparr>
     ses_id = draw_session_id (ae_draws env),
     ses_tenant_id = tenant,
     ses_token = sha256 (ae_crypto env) (tok_access (issue_tokens env)),
     ses_refresh_token_hash = Some (sha256 (ae_crypto env) (tok_refresh (issue_tokens env))),
     ses_csrf_token = Some (tok_csrf (issue_tokens env)),
     ses_organization_id = organization,
     ses_user_id = user,
     ses_expires_at = tok_expires_at (issue_tokens env),
     ses_refresh_expires_at =
       Some (now_plus_hours (ae_now env) (cfg_session_ttl_hours (ae_config env))),
     ses_last_activity_at = ae_now env,
     ses_revoked_at = None,
     ses_replaced_by = None,
     ses_ip_address = ip,
     ses_user_agent = agent,
     ses_created_at = ae_now env\<rparr>"

definition create_session ::
    "auth_env \<Rightarrow> string option \<Rightarrow> string \<Rightarrow> string \<Rightarrow> string option \<Rightarrow> string \<Rightarrow>
       (auth_db, string \<times> session_tokens) operation" where
  "create_session env ip organization tenant agent user =
     then_do (on_sessions (create_row session_indexes
         (new_session env ip organization tenant agent user)))
       (\<lambda>_. give (draw_session_id (ae_draws env), issue_tokens env))"

definition open_session_of :: "string \<Rightarrow> string \<Rightarrow> session_row \<Rightarrow> bool" where
  "open_session_of organization user s \<longleftrightarrow>
     ses_organization_id s = organization \<and> ses_revoked_at s = None \<and> ses_user_id s = user"

definition revoke_all_sessions_for_identity ::
    "ms \<Rightarrow> string \<Rightarrow> string \<Rightarrow> (auth_db, nat) operation" where
  "revoke_all_sessions_for_identity now organization user =
     then_do (ask (\<lambda>db. length (filter (open_session_of organization user) (adb_sessions db)))) (\<lambda>n.
     then_do (on_sessions (update_many session_indexes (open_session_of organization user)
         (\<lambda>s. s\<lparr>ses_revoked_at := Some now\<rparr>))) (\<lambda>_.
     give n))"

definition update_session :: "string \<Rightarrow> (session_row \<Rightarrow> session_row) \<Rightarrow> (auth_db, unit) operation" where
  "update_session i f = on_sessions (update_unique ''Session'' session_indexes (\<lambda>s. ses_id s = i) f)"

definition revoke_current_session :: "ms \<Rightarrow> string \<Rightarrow> (auth_db, unit) operation" where
  "revoke_current_session now i = update_session i (\<lambda>s. s\<lparr>ses_revoked_at := Some now\<rparr>)"

definition revoke_all_sessions :: "ms \<Rightarrow> string \<Rightarrow> string \<Rightarrow> (auth_db, nat) operation" where
  "revoke_all_sessions = revoke_all_sessions_for_identity"

definition list_active_sessions :: "string \<Rightarrow> string \<Rightarrow> auth_db \<Rightarrow> session_row list" where
  "list_active_sessions organization user db =
     sort_key (\<lambda>s. - ses_last_activity_at s) (filter (open_session_of organization user) (adb_sessions db))"

definition revoke_session_by_id :: "ms \<Rightarrow> string \<Rightarrow> string \<Rightarrow> string \<Rightarrow> (auth_db, nat) operation" where
  "revoke_session_by_id now organization i user =
     (let hit = (\<lambda>s. ses_id s = i \<and> ses_organization_id s = organization \<and> ses_user_id s = user)
      in then_do (ask (\<lambda>db. length (filter hit (adb_sessions db)))) (\<lambda>n.
         then_do (on_sessions (update_many session_indexes hit (\<lambda>s. s\<lparr>ses_revoked_at := Some now\<rparr>)))
           (\<lambda>_. give n)))"

subsection \<open>Login\<close>

text \<open>The newest session of the user; of equally old ones the first row.\<close>

definition latest_session :: "string \<Rightarrow> string \<Rightarrow> auth_db \<Rightarrow> session_row option" where
  "latest_session organization user db =
     (case sort_key (\<lambda>s. - ses_created_at s)
         (filter (\<lambda>s. ses_organization_id s = organization \<and> ses_user_id s = user) (adb_sessions db)) of
        [] \<Rightarrow> None
      | s # _ \<Rightarrow> Some s)"

definition create_new_device_alert ::
    "string option \<Rightarrow> string \<Rightarrow> string \<Rightarrow> string option \<Rightarrow> string \<Rightarrow> (auth_db, unit) operation" where
  "create_new_device_alert ip organization tenant agent user =
     then_do (ask (latest_session organization user)) (\<lambda>latest. case latest of
       None \<Rightarrow> give ()
     | Some s \<Rightarrow>
         if ses_ip_address s \<noteq> ip \<or> ses_user_agent s \<noteq> agent
         then on_login_alerts (create_row [] \<lparr>alert_tenant_id = tenant,
                alert_organization_id = organization, alert_user_id = user,
                alert_ip_address = ip, alert_user_agent = agent\<rparr>)
         else give ())"

datatype login_result =
    MfaRequired ms string
  | LoggedIn string string string session_tokens string

definition login_membership :: "string \<Rightarrow> string \<Rightarrow> auth_db \<Rightarrow> (membership_row \<times> user_row) option" where
  "login_membership organization email db =
     (case List.find (\<lambda>m. mem_organization_id m = organization \<and> mem_status m = MembershipActive \<and>
         (case find_user (mem_user_id m) db of None \<Rightarrow> False | Some u \<Rightarrow> user_email u = email))
         (adb_memberships db) of
        None \<Rightarrow> None
      | Some m \<Rightarrow> map_option (\<lambda>u. (m, u)) (find_user (mem_user_id m) db))"

definition update_user :: "string \<Rightarrow> (user_row \<Rightarrow> user_row) \<Rightarrow> (auth_db, unit) operation" where
  "update_user i f = on_users (update_unique ''User'' user_indexes (\<lambda>u. user_id u = i) f)"

definition login_with_password ::
    "auth_env \<Rightarrow> string \<Rightarrow> string option \<Rightarrow> string \<Rightarrow> string \<Rightarrow> string option \<Rightarrow>
       (auth_db, login_result) operation" where
  "login_with_password env email ip organization password agent =
     then_do (ask (login_membership organization email)) (\<lambda>found. case found of
       None \<Rightarrow> throw (Failure ''INVALID_CREDENTIALS'')
     | Some (m, user) \<Rightarrow>
         if user_status user = UserSuspended then throw (Failure ''ACCOUNT_SUSPENDED'')
         else let check = verify_password_hash (ae_crypto env) password (user_password_hash user)
                    (cfg_salt_rounds (ae_config env))
         in if \<not> is_valid check then throw (Failure ''INVALID_CREDENTIALS'')
         else
           then_do (if needs_rehash check
             then update_user (mem_user_id m) (\<lambda>u. u\<lparr>user_password_hash :=
                    hash_password (ae_crypto env) password (cfg_salt_rounds (ae_config env))
                      (draw_salt (ae_draws env))\<rparr>)
             else give ()) (\<lambda>_.
           then_do (create_new_device_alert ip organization (mem_tenant_id m) agent (mem_user_id m)) (\<lambda>_.
           if user_mfa_enabled user then
             (let token = ''mfa_'' @ to_base64url (draw_challenge_token (ae_draws env));
                  expires = ae_now env + cfg_mfa_challenge_ttl_seconds (ae_config env) * 1000
              in then_do (on_challenges (create_row challenge_indexes \<lparr>
                     chl_id = draw_challenge_id (ae_draws env), chl_tenant_id = mem_tenant_id m,
                     chl_organization_id = organization, chl_user_id = mem_user_id m,
                     chl_token_hash = sha256 (ae_crypto env) token, chl_expires_at = expires,
                     chl_consumed_at = None\<rparr>)) (\<lambda>_.
                 give (MfaRequired expires token)))
           else
             then_do (create_session env ip organization (mem_tenant_id m) agent (mem_user_id m))
               (\<lambda>(session, tokens).
                 give (LoggedIn organization session (mem_tenant_id m) tokens (mem_user_id m))))))"

subsection \<open>The second factor\<close>

record mfa_request =
  mfa_challenge_token :: string
  mfa_recovery_code :: "string option"
  mfa_totp_code :: "string option"
  mfa_ip :: "string option"
  mfa_agent :: "string option"

text \<open>The decrypted secret of the user against a code; a secret that does not decrypt throws.\<close>

definition check_totp :: "auth_env \<Rightarrow> string \<Rightarrow> string \<Rightarrow> (auth_db, bool) operation" where
  "check_totp env code stored_secret =
     (case decrypt_sensitive_value (ae_aead env) stored_secret (cfg_mfa_encryption_key (ae_config env)) of
        None \<Rightarrow> throw (External ''decrypt'')
      | Some secret \<Rightarrow>
          (case verify_totp_code (ae_hmac env) code (cfg_clock_skew_windows (ae_config env))
              (ae_now env) secret of
             None \<Rightarrow> throw (External ''ERR_OUT_OF_RANGE'')
           | Some ok \<Rightarrow> give ok))"

definition unused_code :: "string \<Rightarrow> string \<Rightarrow> recovery_code_row \<Rightarrow> bool" where
  "unused_code h user r \<longleftrightarrow> rec_code_hash r = h \<and> rec_used_at r = None \<and> rec_user_id r = user"

definition use_recovery_code :: "auth_env \<Rightarrow> string \<Rightarrow> string \<Rightarrow> (auth_db, bool) operation" where
  "use_recovery_code env code user =
     then_do (ask (\<lambda>db. List.find (unused_code (hash_recovery_code (ae_crypto env) code) user)
         (adb_recovery_codes db))) (\<lambda>found. case found of
       None \<Rightarrow> give False
     | Some r \<Rightarrow> then_do (on_recovery_codes (update_unique ''MfaRecoveryCode'' recovery_code_indexes
           (\<lambda>x. rec_id x = rec_id r) (\<lambda>x. x\<lparr>rec_used_at := Some (ae_now env)\<rparr>))) (\<lambda>_. give True))"

definition verify_mfa_challenge ::
    "auth_env \<Rightarrow> mfa_request \<Rightarrow> (auth_db, login_result) operation" where
  "verify_mfa_challenge env req =
     then_do (ask (\<lambda>db. List.find (\<lambda>c. chl_token_hash c = sha256 (ae_crypto env) (mfa_challenge_token req))
         (adb_challenges db))) (\<lambda>found. case found of
       None \<Rightarrow> throw (Failure ''INVALID_MFA_CHALLENGE'')
     | Some challenge \<Rightarrow>
         if chl_consumed_at challenge \<noteq> None \<or> chl_expires_at challenge < ae_now env
         then throw (Failure ''MFA_CHALLENGE_EXPIRED'')
         else then_do (ask (find_user (chl_user_id challenge))) (\<lambda>user.
           case (case user of None \<Rightarrow> None | Some u \<Rightarrow> truthy (user_mfa_secret u)) of
             None \<Rightarrow> throw (Failure ''MFA_NOT_CONFIGURED'')
           | Some secret \<Rightarrow>
               then_do (case truthy (mfa_totp_code req) of
                   None \<Rightarrow> give False
                 | Some code \<Rightarrow> check_totp env code secret) (\<lambda>by_totp.
               then_do (case (by_totp, truthy (mfa_recovery_code req)) of
                   (False, Some code) \<Rightarrow> use_recovery_code env code (chl_user_id challenge)
                 | _ \<Rightarrow> give by_totp) (\<lambda>verified.
               if \<not> verified then throw (Failure ''INVALID_MFA_CODE'')
               else
                 then_do (on_challenges (update_unique ''MfaChallenge'' challenge_indexes
                     (\<lambda>c. chl_id c = chl_id challenge) (\<lambda>c. c\<lparr>chl_consumed_at := Some (ae_now env)\<rparr>))) (\<lambda>_.
                 then_do (create_session env (mfa_ip req) (chl_organization_id challenge)
                     (chl_tenant_id challenge) (mfa_agent req) (chl_user_id challenge))
                   (\<lambda>(session, tokens).
                     give (LoggedIn (chl_organization_id challenge) session (chl_tenant_id challenge)
                       tokens (chl_user_id challenge))))))))"

definition build_otpauth_url :: "string \<Rightarrow> string \<Rightarrow> string \<Rightarrow> string" where
  "build_otpauth_url account_name issuer secret =
     ''otpauth://totp/'' @ encode_uri_component issuer @ '':'' @ encode_uri_component account_name @
     ''?secret='' @ encode_uri_component secret @ ''&issuer='' @ encode_uri_component issuer @
     ''&algorithm=SHA1&digits=6&period='' @ show_int totp_period_seconds"

definition standard64 :: "char \<Rightarrow> char" where
  "standard64 c = (if c = CHR ''-'' then CHR ''+'' else if c = CHR ''_'' then CHR ''/'' else c)"

definition to_base64 :: "8 word list \<Rightarrow> string" where
  "to_base64 bs =
     (let s = map standard64 (to_base64url bs) in s @ replicate ((4 - length s mod 4) mod 4) CHR ''='')"

text \<open>The URL holds no character beyond ASCII, so its UTF-8 bytes are its characters.\<close>

definition build_qr_code_data_url :: "string \<Rightarrow> string" where
  "build_qr_code_data_url otpauth_url = ''data:text/plain;base64,'' @ to_base64 (map of_char otpauth_url)"

record mfa_setup =
  setup_otpauth_url :: string
  setup_qr_code_data_url :: string
  setup_recovery_codes :: "string list"

text \<open>The setup stores a new secret, not yet enabled, and replaces all recovery codes.\<close>

definition setup_mfa_for_user ::
    "auth_env \<Rightarrow> string \<Rightarrow> string option \<Rightarrow> string \<Rightarrow> (auth_db, mfa_setup) operation" where
  "setup_mfa_for_user env email tenant user =
     (let secret = to_base32 (draw_totp_secret (ae_draws env));
          encrypted = encrypt_sensitive_value (ae_aead env) secret
            (cfg_mfa_encryption_key (ae_config env)) (draw_totp_iv (ae_draws env));
          codes = generate_recovery_codes (map snd (draw_recovery_codes (ae_draws env)));
          ids = map fst (draw_recovery_codes (ae_draws env));
          url = build_otpauth_url email (cfg_mfa_issuer (ae_config env)) secret
      in then_do (ask (\<lambda>db. List.find (\<lambda>m. mem_user_id m = user) (adb_memberships db))) (\<lambda>m.
         case truthy (or_opt tenant (map_option mem_tenant_id m)) of
           None \<Rightarrow> throw (Failure ''TENANT_NOT_FOUND_FOR_USER'')
         | Some tenant_id \<Rightarrow>
             then_do (in_transaction
               (then_do (update_user user (\<lambda>u. u\<lparr>user_mfa_enabled := False, user_mfa_secret := Some encrypted\<rparr>)) (\<lambda>_.
                then_do (on_recovery_codes (\<lambda>rows. Inr (delete_where (\<lambda>r. rec_user_id r = user) rows))) (\<lambda>_.
                on_recovery_codes (\<lambda>rows. commit_rows recovery_code_indexes (rows @
                  map (\<lambda>(i, code). \<lparr>rec_id = i, rec_tenant_id = tenant_id, rec_user_id = user,
                    rec_code_hash = hash_recovery_code (ae_crypto env) code, rec_used_at = None\<rparr>)
                    (zip ids codes))))))) (\<lambda>_.
             give \<lparr>setup_otpauth_url = url, setup_qr_code_data_url = build_qr_code_data_url url,
               setup_recovery_codes = codes\<rparr>)))"

definition enable_mfa_for_user :: "auth_env \<Rightarrow> string \<Rightarrow> string \<Rightarrow> (auth_db, bool) operation" where
  "enable_mfa_for_user env code user =
     then_do (ask (find_user user)) (\<lambda>found.
     case (case found of None \<Rightarrow> None | Some u \<Rightarrow> truthy (user_mfa_secret u)) of
       None \<Rightarrow> throw (Failure ''MFA_NOT_CONFIGURED'')
     | Some secret \<Rightarrow> then_do (check_totp env code secret) (\<lambda>ok.
         if \<not> ok then give False
         else then_do (update_user user (\<lambda>u. u\<lparr>user_mfa_enabled := True\<rparr>)) (\<lambda>_. give True)))"

subsection \<open>API keys\<close>

record introspection =
  intro_active :: bool
  intro_api_key_id :: "string option"
  intro_scopes :: "string list"
  intro_tenant_id :: "string option"
  intro_user_id :: "string option"

definition past :: "ms \<Rightarrow> ms option \<Rightarrow> bool" where
  "past now t = (case t of None \<Rightarrow> False | Some x \<Rightarrow> x < now)"

definition api_key_usable :: "ms \<Rightarrow> api_key_row \<Rightarrow> bool" where
  "api_key_usable now k \<longleftrightarrow>
     \<not> (past now (key_expires_at k) \<or> past now (key_grace_expires_at k)) \<and>
     \<not> (key_status k = KeyRevoked \<or> key_revoked_at k \<noteq> None)"

definition update_api_key :: "string \<Rightarrow> (api_key_row \<Rightarrow> api_key_row) \<Rightarrow> (auth_db, unit) operation" where
  "update_api_key i f = on_api_keys (update_unique ''ApiKey'' api_key_indexes (\<lambda>k. key_id k = i) f)"

definition introspect_api_key :: "auth_env \<Rightarrow> string \<Rightarrow> (auth_db, introspection) operation" where
  "introspect_api_key env raw_token =
     then_do (ask (\<lambda>db. List.find (\<lambda>k. key_hash k = sha256 (ae_crypto env) raw_token) (adb_api_keys db)))
     (\<lambda>found. case found of
       None \<Rightarrow> give \<lparr>intro_active = False, intro_api_key_id = None, intro_scopes = [],
                 intro_tenant_id = None, intro_user_id = None\<rparr>
     | Some k \<Rightarrow>
         if \<not> api_key_usable (ae_now env) k then
           give \<lparr>intro_active = False, intro_api_key_id = Some (key_id k), intro_scopes = [],
             intro_tenant_id = None, intro_user_id = None\<rparr>
         else then_do (update_api_key (key_id k) (\<lambda>x. x\<lparr>key_last_used_at := Some (ae_now env)\<rparr>)) (\<lambda>_.
           give \<lparr>intro_active = True, intro_api_key_id = Some (key_id k), intro_scopes = key_scopes k,
             intro_tenant_id = Some (key_tenant_id k), intro_user_id = Some (key_user_id k)\<rparr>))"

definition verify_api_key_scope :: "auth_env \<Rightarrow> string \<Rightarrow> string \<Rightarrow> (auth_db, bool) operation" where
  "verify_api_key_scope env scope token =
     then_do (introspect_api_key env token) (\<lambda>i.
     give (intro_active i \<and> scope \<in> set (intro_scopes i)))"

definition new_api_key ::
    "auth_env \<Rightarrow> string \<Rightarrow> string \<Rightarrow> string list \<Rightarrow> string \<Rightarrow> string \<Rightarrow> string option \<Rightarrow> api_key_row" where
  "new_api_key env label organization scopes tenant user rotated_from =
     (let generated = create_api_key (ae_crypto env) (cfg_api_key_prefix (ae_config env))
            (draw_api_key (ae_draws env))
      in \<lparr>key_id = draw_api_key_id (ae_draws env), key_tenant_id = tenant,
          key_organization_id = organization, key_user_id = user, key_label = label,
          key_prefix = km_prefix generated, key_hash = km_hash generated,
          key_last4 = km_last4 generated, key_scopes = scopes, key_status = KeyActive,
          key_expires_at = None, key_grace_expires_at = None, key_rotated_from = rotated_from,
          key_revoked_at = None, key_last_used_at = None, key_created_at = ae_now env\<rparr>)"

definition new_key_text :: "auth_env \<Rightarrow> string" where
  "new_key_text env = km_key (create_api_key (ae_crypto env) (cfg_api_key_prefix (ae_config env))
     (draw_api_key (ae_draws env)))"

definition create_tenant_api_key ::
    "auth_env \<Rightarrow> string \<Rightarrow> string \<Rightarrow> string list \<Rightarrow> string \<Rightarrow> (auth_db, string \<times> string) operation" where
  "create_tenant_api_key env label organization scopes user =
     then_do (ask (resolve_tenant_id_for_organization organization)) (\<lambda>tenant. case truthy tenant of
       None \<Rightarrow> throw (Failure ''TENANT_NOT_FOUND'')
     | Some t \<Rightarrow>
         then_do (on_api_keys (create_row api_key_indexes
             (new_api_key env label organization scopes t user None)))
           (\<lambda>_. give (draw_api_key_id (ae_draws env), new_key_text env)))"

definition list_tenant_api_keys :: "string \<Rightarrow> string \<Rightarrow> auth_db \<Rightarrow> api_key_row list" where
  "list_tenant_api_keys organization user db =
     sort_key (\<lambda>k. - key_created_at k)
       (filter (\<lambda>k. key_organization_id k = organization \<and> key_user_id k = user) (adb_api_keys db))"

definition owned_key :: "string \<Rightarrow> string \<Rightarrow> string \<Rightarrow> api_key_row \<Rightarrow> bool" where
  "owned_key i organization user k \<longleftrightarrow>
     key_id k = i \<and> key_organization_id k = organization \<and> key_user_id k = user"

definition rotate_tenant_api_key ::
    "auth_env \<Rightarrow> string \<Rightarrow> string \<Rightarrow> string \<Rightarrow> (auth_db, string \<times> string) operation" where
  "rotate_tenant_api_key env i organization user =
     then_do (ask (\<lambda>db. List.find (owned_key i organization user) (adb_api_keys db))) (\<lambda>found. case found of
       None \<Rightarrow> throw (Failure ''API_KEY_NOT_FOUND'')
     | Some current \<Rightarrow>
         then_do (in_transaction
           (then_do (update_api_key (key_id current) (\<lambda>k. k\<lparr>
               key_grace_expires_at :=
                 Some (now_plus_hours (ae_now env) (cfg_rotation_grace_hours (ae_config env))),
               key_revoked_at := None, key_status := KeyActive\<rparr>)) (\<lambda>_.
            on_api_keys (create_row api_key_indexes
              ((new_api_key env (key_label current) (key_organization_id current) (key_scopes current)
                (key_tenant_id current) (key_user_id current)
                (Some (key_id current)))\<lparr>key_prefix := key_prefix current\<rparr>)))))
         (\<lambda>_. give (draw_api_key_id (ae_draws env), new_key_text env)))"

definition revoke_tenant_api_key :: "ms \<Rightarrow> string \<Rightarrow> string \<Rightarrow> string \<Rightarrow> (auth_db, unit) operation" where
  "revoke_tenant_api_key now i organization user =
     on_api_keys (update_many api_key_indexes (owned_key i organization user)
       (\<lambda>k. k\<lparr>key_revoked_at := Some now, key_status := KeyRevoked\<rparr>))"

subsection \<open>Authentication of a request\<close>

datatype auth_type = ApiKeyAuth | SessionAuth

record authenticated_context =
  ctx_api_key_id :: "string option"
  ctx_auth_type :: auth_type
  ctx_organization_id :: string
  ctx_session_id :: "string option"
  ctx_tenant_id :: string
  ctx_user_id :: string

definition active_user :: "string \<Rightarrow> auth_db \<Rightarrow> bool" where
  "active_user user db =
     (case find_user user db of None \<Rightarrow> False | Some u \<Rightarrow> user_status u \<noteq> UserSuspended)"

definition authenticate_api_key ::
    "auth_env \<Rightarrow> string \<Rightarrow> (auth_db, authenticated_context option) operation" where
  "authenticate_api_key env token =
     then_do (introspect_api_key env token) (\<lambda>i.
     case (intro_active i, truthy (intro_user_id i), truthy (intro_tenant_id i)) of
       (True, Some user, Some tenant) \<Rightarrow>
         then_do (ask (resolve_organization_id tenant)) (\<lambda>organization. case truthy organization of
           None \<Rightarrow> give None
         | Some org \<Rightarrow>
             then_do (ask (active_user user)) (\<lambda>ok.
             if \<not> ok then give None
             else give (Some \<lparr>ctx_api_key_id = intro_api_key_id i, ctx_auth_type = ApiKeyAuth,
                    ctx_organization_id = org, ctx_session_id = None, ctx_tenant_id = tenant,
                    ctx_user_id = user\<rparr>)))
     | _ \<Rightarrow> give None)"

definition session_usable :: "ms \<Rightarrow> session_row \<Rightarrow> bool" where
  "session_usable now s \<longleftrightarrow> \<not> (ses_revoked_at s \<noteq> None \<or> ses_expires_at s < now)"

definition authenticate_session ::
    "auth_env \<Rightarrow> string \<Rightarrow> (auth_db, authenticated_context option) operation" where
  "authenticate_session env token =
     then_do (ask (\<lambda>db. List.find (\<lambda>s. ses_token s = sha256 (ae_crypto env) token) (adb_sessions db)))
     (\<lambda>found. case found of
       None \<Rightarrow> give None
     | Some s \<Rightarrow>
         if \<not> session_usable (ae_now env) s then give None
         else then_do (ask (active_user (ses_user_id s))) (\<lambda>ok.
           if \<not> ok then give None
           else then_do (update_session (ses_id s) (\<lambda>x. x\<lparr>ses_last_activity_at := ae_now env\<rparr>)) (\<lambda>_.
             give (Some \<lparr>ctx_api_key_id = None, ctx_auth_type = SessionAuth,
               ctx_organization_id = ses_organization_id s, ctx_session_id = Some (ses_id s),
               ctx_tenant_id = ses_tenant_id s, ctx_user_id = ses_user_id s\<rparr>))))"

definition authenticate_request ::
    "auth_env \<Rightarrow> string option \<Rightarrow> string option \<Rightarrow> (auth_db, authenticated_context option) operation" where
  "authenticate_request env api_key_token session_token =
     (case truthy api_key_token of
        Some k \<Rightarrow> authenticate_api_key env k
      | None \<Rightarrow> (case truthy session_token of
          None \<Rightarrow> give None
        | Some t \<Rightarrow> authenticate_session env t))"

subsection \<open>Refresh\<close>

record refreshed =
  ref_organization_id :: string
  ref_session_id :: string
  ref_tenant_id :: string
  ref_tokens :: session_tokens
  ref_user_id :: string

record refresh_result =
  breached :: bool
  refreshed_session :: "refreshed option"

definition refresh_session ::
    "auth_env \<Rightarrow> string option \<Rightarrow> string \<Rightarrow> string option \<Rightarrow> (auth_db, refresh_result) operation" where
  "refresh_session env ip token agent =
     (let h = sha256 (ae_crypto env) token
      in then_do (ask (\<lambda>db. List.find (\<lambda>s. ses_refresh_token_hash s = Some h) (adb_sessions db))) (\<lambda>current.
         case current of
           None \<Rightarrow>
             then_do (ask (\<lambda>db. List.find (\<lambda>s. ses_refresh_token_hash s = Some h \<and> ses_revoked_at s \<noteq> None)
                 (adb_sessions db))) (\<lambda>revoked. case revoked of
               Some r \<Rightarrow> then_do (revoke_all_sessions_for_identity (ae_now env) (ses_organization_id r) (ses_user_id r))
                   (\<lambda>_. give \<lparr>breached = True, refreshed_session = None\<rparr>)
             | None \<Rightarrow> give \<lparr>breached = False, refreshed_session = None\<rparr>)
         | Some c \<Rightarrow>
             if ses_revoked_at c \<noteq> None \<or>
                (case ses_refresh_expires_at c of None \<Rightarrow> True | Some t \<Rightarrow> t < ae_now env)
             then give \<lparr>breached = False, refreshed_session = None\<rparr>
             else then_do (create_session env ip (ses_organization_id c) (ses_tenant_id c) agent (ses_user_id c))
               (\<lambda>(next, tokens).
               then_do (update_session (ses_id c)
                   (\<lambda>s. s\<lparr>ses_replaced_by := Some next, ses_revoked_at := Some (ae_now env)\<rparr>)) (\<lambda>_.
               give \<lparr>breached = False, refreshed_session = Some \<lparr>
                 ref_organization_id = ses_organization_id c, ref_session_id = next,
                 ref_tenant_id = ses_tenant_id c, ref_tokens = tokens, ref_user_id = ses_user_id c\<rparr>\<rparr>))))"

subsection \<open>Administrative changes\<close>

definition audit_tenant :: "string \<Rightarrow> auth_db \<Rightarrow> string" where
  "audit_tenant organization db = or_else (resolve_tenant_id_for_organization organization db) organization"

definition create_audit_log :: "audit_row \<Rightarrow> (auth_db, unit) operation" where
  "create_audit_log row = on_audit_logs (create_row [] row)"

definition suspend_user :: "ms \<Rightarrow> string \<Rightarrow> string \<Rightarrow> string \<Rightarrow> (auth_db, unit) operation" where
  "suspend_user now actor organization target =
     then_do (ask (find_user target)) (\<lambda>found. case found of
       None \<Rightarrow> throw (Failure ''USER_NOT_FOUND'')
     | Some before \<Rightarrow>
         then_do (update_user target (\<lambda>u. u\<lparr>user_status := UserSuspended, user_suspended_at := Some now\<rparr>)) (\<lambda>_.
         then_do (ask (audit_tenant organization)) (\<lambda>tenant.
         create_audit_log \<lparr>aud_tenant_id = tenant, aud_actor_id = Some actor,
           aud_action = ''user.suspended'', aud_entity_type = ''user'', aud_entity_id = target,
           aud_diff = StatusDiff (user_status before) UserSuspended\<rparr>)))"

definition update_membership ::
    "string \<Rightarrow> string \<Rightarrow> (membership_row \<Rightarrow> membership_row) \<Rightarrow> (auth_db, unit) operation" where
  "update_membership organization user f =
     on_memberships (update_unique ''Membership'' membership_indexes
       (\<lambda>m. mem_organization_id m = organization \<and> mem_user_id m = user) f)"

definition update_user_role_with_audit ::
    "string \<Rightarrow> string \<Rightarrow> role \<Rightarrow> string \<Rightarrow> (auth_db, membership_row) operation" where
  "update_user_role_with_audit actor organization new_role target =
     then_do (ask (find_membership organization target)) (\<lambda>found. case found of
       None \<Rightarrow> throw (Failure ''MEMBERSHIP_NOT_FOUND'')
     | Some before \<Rightarrow>
         then_do (update_membership organization target (\<lambda>m. m\<lparr>mem_role := new_role\<rparr>)) (\<lambda>_.
         then_do (ask (audit_tenant organization)) (\<lambda>tenant.
         then_do (create_audit_log \<lparr>aud_tenant_id = tenant, aud_actor_id = Some actor,
             aud_action = ''membership.role.updated'', aud_entity_type = ''membership'',
             aud_entity_id = target, aud_diff = RoleDiff (mem_role before) new_role\<rparr>) (\<lambda>_.
         give (before\<lparr>mem_role := new_role\<rparr>)))))"

end
