(* ===== verification/Guards.thy ===== *)
theory Guards
  imports Auth BillingSnapshot
begin

text \<open>
  What stands between a request and its handler: the credentials read from the headers
  (\<open>apps/api/src/middleware/authentication.ts\<close>), the CSRF check (\<open>middleware/csrf.ts\<close>), the role
  and feature guards (\<open>common/guards\<close>) and the status of an error (\<open>middleware/error-handler.ts\<close>).
\<close>

subsection \<open>The request context\<close>

record plan_status =
  ps_hard_locked :: bool
  ps_limits :: "js_val option"

record request_context =
  rq_api_key_id :: "string option"
  rq_auth_type :: "auth_type option"
  rq_plan_status :: "plan_status option"
  rq_organization_id :: "string option"
  rq_session_id :: "string option"
  rq_tenant_id :: "string option"
  rq_user_id :: "string option"

definition empty_context :: request_context where
  "empty_context = \<lparr>rq_api_key_id = None, rq_auth_type = None, rq_plan_status = None,
     rq_organization_id = None, rq_session_id = None, rq_tenant_id = None, rq_user_id = None\<rparr>"

subsection \<open>Credentials\<close>

text \<open>
  \<open>decodeURIComponent\<close>; \<open>None\<close> is the \<open>URIError\<close>. An escaped unit of one byte, or of two bytes that
  encode a code point below 256, is decoded; a longer code point is outside the strings of the
  model and counts as malformed.
\<close>

fun decode_uri_component :: "string \<Rightarrow> string option" where
  "decode_uri_component [] = Some []"
| "decode_uri_component (c # s) =
     (if c \<noteq> CHR ''%'' then map_option ((#) c) (decode_uri_component s)
      else case s of
        a # b # t \<Rightarrow>
          (case (hex_value a, hex_value b) of
             (Some h, Some l) \<Rightarrow>
               if 16 * h + l < 128 then map_option ((#) (char_of (16 * h + l))) (decode_uri_component t)
               else (case t of
                 p # x # y # u \<Rightarrow>
                   (case (hex_value x, hex_value y) of
                      (Some h2, Some l2) \<Rightarrow>
                        if p = CHR ''%'' \<and> (16 * h + l = 194 \<or> 16 * h + l = 195) \<and> 8 \<le> h2 \<and> h2 < 12
                        then map_option ((#) (char_of ((16 * h + l) mod 4 * 64 + 16 * (h2 - 8) + l2)))
                               (decode_uri_component u)
                        else None
                    | _ \<Rightarrow> None)
               | _ \<Rightarrow> None)
           | _ \<Rightarrow> None)
      | _ \<Rightarrow> None)"

text \<open>One part of the cookie header; parts without a name or without \<open>=\<close> are skipped.\<close>

definition add_cookie :: "string jsmap \<Rightarrow> string \<Rightarrow> string jsmap option" where
  "add_cookie acc part =
     (case split_on CHR ''='' (js_trim part) of
        raw_name # v # vs \<Rightarrow>
          if raw_name = [] then Some acc
          else map_option (\<lambda>d. AList.update raw_name d acc) (decode_uri_component (join_with ''='' (v # vs)))
      | _ \<Rightarrow> Some acc)"

fun add_cookies :: "string list \<Rightarrow> string jsmap \<Rightarrow> string jsmap option" where
  "add_cookies [] acc = Some acc"
| "add_cookies (p # ps) acc = (case add_cookie acc p of None \<Rightarrow> None | Some acc' \<Rightarrow> add_cookies ps acc')"

definition parse_cookies :: "string option \<Rightarrow> string jsmap option" where
  "parse_cookies header =
     (case truthy header of None \<Rightarrow> Some [] | Some h \<Rightarrow> add_cookies (split_on CHR '';'' h) [])"

record bearer_tokens =
  bt_api_key :: "string option"
  bt_session :: "string option"

definition extract_authorization_token :: "string option \<Rightarrow> bearer_tokens" where
  "extract_authorization_token header =
     (let nothing = \<lparr>bt_api_key = None, bt_session = None\<rparr>
      in case truthy header of
           None \<Rightarrow> nothing
         | Some h \<Rightarrow>
             (let parts = split_on CHR '' '' h
              in case (truthy (item parts 0), truthy (item parts 1)) of
                   (Some scheme, Some credential) \<Rightarrow>
                     if js_lower scheme = ''apikey'' then nothing\<lparr>bt_api_key := Some credential\<rparr>
                     else if js_lower scheme \<noteq> ''bearer'' then nothing
                     else if starts_with credential ''bh360_live_'' then nothing\<lparr>bt_api_key := Some credential\<rparr>
                     else nothing\<lparr>bt_session := Some credential\<rparr>
                 | _ \<Rightarrow> nothing))"

record request_headers =
  hd_cookie :: "string option"
  hd_authorization :: "string option"

definition bind_context :: "authenticated_context \<Rightarrow> request_context \<Rightarrow> request_context" where
  "bind_context a rq = rq\<lparr>rq_auth_type := Some (ctx_auth_type a), rq_api_key_id := ctx_api_key_id a,
     rq_organization_id := Some (ctx_organization_id a), rq_session_id := ctx_session_id a,
     rq_tenant_id := Some (ctx_tenant_id a), rq_user_id := Some (ctx_user_id a)\<rparr>"

definition authentication_middleware ::
    "auth_env \<Rightarrow> string \<Rightarrow> request_headers \<Rightarrow> request_context \<Rightarrow> (auth_db, request_context) operation" where
  "authentication_middleware env cookie_name headers rq =
     (case parse_cookies (hd_cookie headers) of
        None \<Rightarrow> throw (External ''URIError'')
      | Some cookies \<Rightarrow>
          (let authorization = extract_authorization_token (hd_authorization headers);
               session_token = or_opt (bt_session authorization) (map_of cookies cookie_name)
           in then_do (authenticate_request env (bt_api_key authorization) session_token) (\<lambda>authenticated.
              case authenticated of
                None \<Rightarrow> give rq
              | Some a \<Rightarrow> give (bind_context a rq))))"

subsection \<open>Guards\<close>

definition is_mutation :: "string \<Rightarrow> bool" where
  "is_mutation m \<longleftrightarrow> m \<in> {''PATCH'', ''POST'', ''PUT'', ''DELETE''}"

record csrf_config =
  csrf_cookie_name :: string
  csrf_ignored_paths :: "string list"

text \<open>The result is the error, or \<open>Inr ()\<close> for \<open>next()\<close>.\<close>

definition csrf_protection ::
    "csrf_config \<Rightarrow> string \<Rightarrow> string \<Rightarrow> request_context \<Rightarrow> string option \<Rightarrow> string option \<Rightarrow> api_error + unit" where
  "csrf_protection cfg http_method path rq cookie_header header_token =
     (if \<not> is_mutation http_method then Inr ()
      else if path \<in> set (csrf_ignored_paths cfg) then Inr ()
      else if rq_auth_type rq \<noteq> Some SessionAuth then Inr ()
      else case parse_cookies cookie_header of
        None \<Rightarrow> Inl (External ''URIError'')
      | Some cookies \<Rightarrow>
          (case (truthy (map_of cookies (csrf_cookie_name cfg)), truthy header_token) of
             (Some c, Some h) \<Rightarrow>
               if c \<noteq> h
               then Inl (Problem 403 ''CSRF token mismatch. Submit the same token via cookie and header.'')
               else Inr ()
           | _ \<Rightarrow> Inl (Problem 403 ''CSRF token mismatch. Submit the same token via cookie and header.'')))"

definition require_authenticated :: "request_context \<Rightarrow> api_error + unit" where
  "require_authenticated rq =
     (if truthy (rq_user_id rq) = None \<or> truthy (rq_organization_id rq) = None \<or>
         truthy (rq_tenant_id rq) = None
      then Inl (Problem 401 ''A valid session or API key is required.'')
      else Inr ())"

definition require_authenticated_session :: "request_context \<Rightarrow> api_error + unit" where
  "require_authenticated_session rq =
     (if rq_auth_type rq \<noteq> Some SessionAuth \<or> truthy (rq_user_id rq) = None \<or>
         truthy (rq_organization_id rq) = None \<or> truthy (rq_tenant_id rq) = None \<or>
         truthy (rq_session_id rq) = None
      then Inl (Problem 401 ''A valid authenticated session is required.'')
      else Inr ())"

definition role_name :: "role \<Rightarrow> string" where
  "role_name r = (case r of READONLY \<Rightarrow> ''READONLY'' | MEMBER \<Rightarrow> ''MEMBER'' | ADMIN \<Rightarrow> ''ADMIN''
     | OWNER \<Rightarrow> ''OWNER'' | SUPER_ADMIN \<Rightarrow> ''SUPER_ADMIN'')"

definition quote :: "string \<Rightarrow> string" where
  "quote s = [CHR 0x27] @ s @ [CHR 0x27]"

definition require_role :: "role \<Rightarrow> request_context \<Rightarrow> auth_db \<Rightarrow> api_error + unit" where
  "require_role minimum rq db =
     (case (truthy (rq_user_id rq), truthy (rq_organization_id rq)) of
        (Some user, Some organization) \<Rightarrow>
          if \<not> assert_role minimum organization user db
          then Inl (Problem 403 (''Role '' @ quote (role_name minimum) @ '' is required for this operation.''))
          else Inr ()
      | _ \<Rightarrow> Inl (Problem 401 ''Authentication is required before role authorization.''))"

definition feature_problem :: "bool \<Rightarrow> plan_feature \<Rightarrow> api_error" where
  "feature_problem locked feature =
     Problem 402 (if locked
       then ''Your subscription is locked due to failed payments. Update billing to continue.''
       else ''The active plan does not include feature '' @ quote (feature_key feature) @ ''.'')"

definition default_grace_period_days :: int where
  "default_grace_period_days = 3"

text \<open>A plan status with limits in the context decides; otherwise the billing snapshot does.\<close>

definition require_feature ::
    "('r, cache_text) redis_client \<Rightarrow> billing_env \<Rightarrow> plan_feature \<Rightarrow> request_context \<Rightarrow>
       ('r billing_world, unit) operation" where
  "require_feature rc env feature rq =
     (case truthy (rq_organization_id rq) of
        None \<Rightarrow> throw (Problem 401 ''Authentication is required before checking plan features.'')
      | Some organization \<Rightarrow>
          (case (case rq_plan_status rq of None \<Rightarrow> None | Some p \<Rightarrow> map_option (\<lambda>l. (l, ps_hard_locked p)) (ps_limits p)) of
             Some (limits, locked) \<Rightarrow>
               if \<not> is_plan_feature_enabled limits feature \<or> locked then throw (feature_problem locked feature)
               else give ()
           | None \<Rightarrow>
               then_do (can_use_feature rc env organization feature default_grace_period_days)
               (\<lambda>(allowed, snapshot).
                 if \<not> allowed then throw (feature_problem (snap_hard_locked snapshot) feature)
                 else give ())))"

subsection \<open>The status of an error\<close>

definition error_status :: "api_error \<Rightarrow> nat" where
  "error_status e = (case e of Problem status _ \<Rightarrow> status | _ \<Rightarrow> 500)"

text \<open>A check in front of an operation.\<close>

definition guarded :: "(auth_db \<Rightarrow> api_error + unit) \<Rightarrow> (auth_db, 'a) operation \<Rightarrow> (auth_db, 'a) operation" where
  "guarded check m db = (case check db of Inl e \<Rightarrow> (Inl e, db) | Inr _ \<Rightarrow> m db)"

lemma guarded_Inr [simp]:
  "guarded check m db = (Inr a, db') \<longleftrightarrow> check db = Inr () \<and> m db = (Inr a, db')"
  by (auto simp: guarded_def split: sum.splits)

lemma guarded_Inl: 
  "guarded check m db = (Inl e, db') \<longleftrightarrow>
     (check db = Inl e \<and> db' = db) \<or> (check db = Inr () \<and> m db = (Inl e, db'))"
  by (auto simp: guarded_def split: sum.splits)

lemma keeps_guarded [intro]: "keeps I m \<Longrightarrow> keeps I (guarded check m)"
  by (auto simp: keeps_def guarded_def split: sum.splits)

lemma require_authenticated_session_ok:
  "require_authenticated_session rq = Inr () \<longleftrightarrow>
     rq_auth_type rq = Some SessionAuth \<and> truthy (rq_user_id rq) \<noteq> None \<and>
     truthy (rq_organization_id rq) \<noteq> None \<and> truthy (rq_tenant_id rq) \<noteq> None \<and>
     truthy (rq_session_id rq) \<noteq> None"
  by (auto simp: require_authenticated_session_def)

lemma require_role_ok:
  "require_role minimum rq db = Inr () \<longleftrightarrow>
     (\<exists>user organization r. truthy (rq_user_id rq) = Some user \<and>
        truthy (rq_organization_id rq) = Some organization \<and>
        get_role_for_user organization user db = Some r \<and> minimum \<le> r)"
  by (auto simp: require_role_def assert_role_def less_eq_role_def split: option.splits)

end
