(* ===== verification/Users.thy ===== *)
theory Users
  imports Guards
begin

text \<open>
  \<open>apps/api/src/modules/users/router.ts\<close>: listing, suspending, re-assigning and removing the members
  of an organization. A route is its guards in front of its handler; the result is the body of the
  answer, an error is what \<open>next(error)\<close> receives.
\<close>

record organization_context =
  oc_id :: string
  oc_tenant_id :: string

text \<open>A route parameter is absent, a text or a list of texts.\<close>

datatype route_param = NoParam | OneParam string | ManyParams "string list"

definition read_user_id :: "route_param \<Rightarrow> api_error + string" where
  "read_user_id p =
     (case p of
        OneParam v \<Rightarrow> if js_trim v \<noteq> [] then Inr v else Inl (Problem 400 ''A valid user id is required.'')
      | ManyParams (v # _) \<Rightarrow> if v \<noteq> [] then Inr v else Inl (Problem 400 ''A valid user id is required.'')
      | _ \<Rightarrow> Inl (Problem 400 ''A valid user id is required.''))"

definition or_throw :: "api_error + 'a \<Rightarrow> ('s, 'a) operation" where
  "or_throw r = (case r of Inl e \<Rightarrow> throw e | Inr a \<Rightarrow> give a)"

definition resolve_organization_context :: "string \<Rightarrow> (auth_db, organization_context) operation" where
  "resolve_organization_context reference =
     then_do (ask (\<lambda>db. List.find (\<lambda>t. org_id t = reference \<or> org_tenant_id t = reference) (adb_orgs db)))
     (\<lambda>found. case found of
        None \<Rightarrow> throw (Problem 404 ''Organization context was not found.'')
      | Some t \<Rightarrow> give \<lparr>oc_id = org_id t, oc_tenant_id = org_tenant_id t\<rparr>)"

subsection \<open>Listing\<close>

record listed_user =
  lu_email :: string
  lu_id :: string
  lu_name :: string
  lu_role :: role
  lu_status :: user_status

record user_filter =
  uf_role :: "role option"
  uf_search :: "string option"
  uf_status :: "user_status option"

definition matches_filter :: "user_filter \<Rightarrow> membership_row \<times> user_row \<Rightarrow> bool" where
  "matches_filter f mu = (case mu of (m, u) \<Rightarrow>
     mem_status m \<noteq> MembershipRevoked \<and>
     (case uf_status f of None \<Rightarrow> True | Some st \<Rightarrow> user_status u = st) \<and>
     (let normalized = js_lower (js_trim (or_else (uf_search f) []))
      in if 0 < length normalized
         then str_includes (js_lower (user_name u @ '' '' @ user_email u)) normalized
         else True))"

definition list_users_for_organization :: "string \<Rightarrow> user_filter \<Rightarrow> auth_db \<Rightarrow> listed_user list" where
  "list_users_for_organization organization f db =
     (let memberships = sort_key mem_created_at (filter (\<lambda>m. mem_organization_id m = organization \<and>
            (case uf_role f of None \<Rightarrow> True | Some r \<Rightarrow> mem_role m = r)) (adb_memberships db));
          with_user = List.map_filter (\<lambda>m. map_option (Pair m) (find_user (mem_user_id m) db)) memberships
      in map (\<lambda>(m, u). \<lparr>lu_email = user_email u, lu_id = mem_user_id m, lu_name = user_name u,
           lu_role = mem_role m, lu_status = user_status u\<rparr>)
         (filter (matches_filter f) with_user))"

subsection \<open>Who may manage whom\<close>

definition assert_manageable_target ::
    "string \<Rightarrow> role option \<Rightarrow> string \<Rightarrow> string \<Rightarrow> (auth_db, role) operation" where
  "assert_manageable_target actor next_role organization target =
     (if actor = target
      then throw (Problem 400 ''Self-management is not allowed on this endpoint.'')
      else then_do (ask (get_role_for_user organization actor)) (\<lambda>actor_role.
        then_do (ask (get_role_for_user organization target)) (\<lambda>target_role.
        case (actor_role, target_role) of
          (Some a, Some t) \<Rightarrow>
            if \<not> can_manage_role a t
            then throw (Problem 403 ''Your role cannot manage the selected user.'')
            else if (case next_role of None \<Rightarrow> False | Some n \<Rightarrow> \<not> can_manage_role a n)
            then throw (Problem 403 ''Your role cannot assign the requested target role.'')
            else give t
        | _ \<Rightarrow> throw (Problem 404 ''Membership context not found for actor or target user.''))))"

definition revoke_api_keys_of :: "ms \<Rightarrow> string \<Rightarrow> string \<Rightarrow> (auth_db, unit) operation" where
  "revoke_api_keys_of now organization user =
     on_api_keys (update_many api_key_indexes
       (\<lambda>k. key_organization_id k = organization \<and> key_user_id k = user)
       (\<lambda>k. k\<lparr>key_revoked_at := Some now, key_status := KeyRevoked\<rparr>))"

definition revoke_user_access :: "ms \<Rightarrow> string \<Rightarrow> string \<Rightarrow> string \<Rightarrow> string \<Rightarrow> (auth_db, unit) operation" where
  "revoke_user_access now actor organization organization_tenant target =
     then_do (ask (find_membership organization target)) (\<lambda>found. case found of
       None \<Rightarrow> throw (Problem 404 ''Membership not found for the selected user.'')
     | Some m \<Rightarrow>
         in_transaction
           (then_do (update_membership organization target (\<lambda>x. x\<lparr>mem_status := MembershipRevoked\<rparr>)) (\<lambda>_.
            then_do (on_sessions (update_many session_indexes (open_session_of organization target)
                (\<lambda>s. s\<lparr>ses_revoked_at := Some now\<rparr>))) (\<lambda>_.
            then_do (revoke_api_keys_of now organization target) (\<lambda>_.
            create_audit_log \<lparr>aud_tenant_id = organization_tenant, aud_actor_id = Some actor,
              aud_action = ''membership.removed'', aud_entity_type = ''membership'',
              aud_entity_id = target,
              aud_diff = MembershipDiff (mem_status m) MembershipRevoked\<rparr>)))))"

subsection \<open>Routes\<close>

text \<open>The guards of every route of the router.\<close>

definition admin_session :: "request_context \<Rightarrow> (auth_db, 'a) operation \<Rightarrow> (auth_db, 'a) operation" where
  "admin_session rq m =
     guarded (\<lambda>_. require_authenticated_session rq) (guarded (require_role ADMIN rq) m)"

definition no_session :: api_error where
  "no_session = Problem 401 ''A valid authenticated session is required.''"

definition handle_role_update ::
    "request_context \<Rightarrow> role \<Rightarrow> route_param \<Rightarrow> (auth_db, membership_row) operation" where
  "handle_role_update rq new_role param =
     (case (truthy (rq_tenant_id rq), truthy (rq_user_id rq)) of
        (Some reference, Some actor) \<Rightarrow>
          then_do (resolve_organization_context reference) (\<lambda>organization.
          then_do (or_throw (read_user_id param)) (\<lambda>target.
          then_do (assert_manageable_target actor (Some new_role) (oc_id organization) target) (\<lambda>_.
          update_user_role_with_audit actor (oc_id organization) new_role target)))
      | _ \<Rightarrow> throw no_session)"

definition list_users_route ::
    "request_context \<Rightarrow> user_filter \<Rightarrow> (auth_db, listed_user list) operation" where
  "list_users_route rq f = admin_session rq
     (case truthy (rq_tenant_id rq) of
        None \<Rightarrow> throw no_session
      | Some reference \<Rightarrow>
          then_do (resolve_organization_context reference) (\<lambda>organization.
          ask (list_users_for_organization (oc_id organization) f)))"

definition suspend_user_route ::
    "ms \<Rightarrow> request_context \<Rightarrow> route_param \<Rightarrow> (auth_db, unit) operation" where
  "suspend_user_route now rq param = admin_session rq
     (case (truthy (rq_tenant_id rq), truthy (rq_user_id rq)) of
        (Some reference, Some actor) \<Rightarrow>
          then_do (resolve_organization_context reference) (\<lambda>organization.
          then_do (or_throw (read_user_id param)) (\<lambda>target.
          then_do (assert_manageable_target actor None (oc_id organization) target) (\<lambda>_.
          then_do (suspend_user now actor (oc_id organization) target) (\<lambda>_.
          then_do (revoke_all_sessions now (oc_id organization) target) (\<lambda>_.
          revoke_api_keys_of now (oc_id organization) target)))))
      | _ \<Rightarrow> throw no_session)"

definition update_role_route ::
    "request_context \<Rightarrow> role \<Rightarrow> route_param \<Rightarrow> (auth_db, membership_row) operation" where
  "update_role_route rq new_role param = admin_session rq (handle_role_update rq new_role param)"

definition remove_user_route ::
    "ms \<Rightarrow> request_context \<Rightarrow> route_param \<Rightarrow> (auth_db, unit) operation" where
  "remove_user_route now rq param = admin_session rq
     (case (truthy (rq_tenant_id rq), truthy (rq_user_id rq)) of
        (Some reference, Some actor) \<Rightarrow>
          then_do (resolve_organization_context reference) (\<lambda>organization.
          then_do (or_throw (read_user_id param)) (\<lambda>target.
          then_do (assert_manageable_target actor None (oc_id organization) target) (\<lambda>_.
          revoke_user_access now actor (oc_id organization) (oc_tenant_id organization) target)))
      | _ \<Rightarrow> throw no_session)"

definition team_members_route :: "request_context \<Rightarrow> (auth_db, listed_user list) operation" where
  "team_members_route rq =
     list_users_route rq \<lparr>uf_role = None, uf_search = None, uf_status = None\<rparr>"

end
