(* ===== verification/AuthInvariant.thy ===== *)
theory AuthInvariant
  imports Users
begin

text \<open>
  What every operation of the authentication service and every route of the users module keeps, over
  all sequences of calls: the unique indexes, and the marks that must never be taken back (a revoked
  session, a consumed challenge).
\<close>

subsection \<open>Marks that stay\<close>

text \<open>
  A table whose rows carry a mark: every update the program makes on it keeps the identity of a row
  and never takes the mark back.
\<close>

locale sticky =
  fixes ident :: "'r \<Rightarrow> 'k" and mark :: "'r \<Rightarrow> bool" and writes :: "('r \<Rightarrow> 'r) set"
  assumes keeps_ident: "f \<in> writes \<Longrightarrow> ident (f r) = ident r"
    and keeps_mark: "f \<in> writes \<Longrightarrow> mark r \<Longrightarrow> mark (f r)"
begin

definition stuck :: "'k \<Rightarrow> 'r list \<Rightarrow> bool" where
  "stuck k rows \<longleftrightarrow> (\<exists>r \<in> set rows. ident r = k \<and> mark r)"

lemma stuckI: "r \<in> set rows \<Longrightarrow> mark r \<Longrightarrow> stuck (ident r) rows"
  by (auto simp: stuck_def)

lemma stuck_append: "stuck k rows \<Longrightarrow> stuck k (rows @ rows')"
  by (auto simp: stuck_def)

lemma stuck_update: "f \<in> writes \<Longrightarrow> stuck k rows \<Longrightarrow> stuck k (update_where P f rows)"
proof -
  assume f: "f \<in> writes" and "stuck k rows"
  then obtain r where r: "r \<in> set rows" "ident r = k" "mark r" by (auto simp: stuck_def)
  have "(if P r then f r else r) \<in> set (update_where P f rows)"
    using r(1) unfolding set_update_where by (rule imageI)
  moreover have "ident (if P r then f r else r) = k" "mark (if P r then f r else r)"
    using r keeps_ident[OF f] keeps_mark[OF f] by auto
  ultimately show ?thesis unfolding stuck_def by blast
qed

lemma stuck_create: "create_row ixs r rows = Inr rows' \<Longrightarrow> stuck k rows \<Longrightarrow> stuck k rows'"
  by (simp add: create_row_Inr stuck_append)

lemma stuck_update_many:
  "f \<in> writes \<Longrightarrow> update_many ixs P f rows = Inr rows' \<Longrightarrow> stuck k rows \<Longrightarrow> stuck k rows'"
  by (simp add: update_many_Inr stuck_update)

lemma stuck_update_unique:
  "f \<in> writes \<Longrightarrow> update_unique t ixs P f rows = Inr rows' \<Longrightarrow> stuck k rows \<Longrightarrow> stuck k rows'"
  by (auto simp: update_unique_Inr stuck_update)

end

definition session_ident :: "session_row \<Rightarrow> string \<times> string \<times> string option" where
  "session_ident s = (ses_id s, ses_token s, ses_refresh_token_hash s)"

definition session_revoked :: "session_row \<Rightarrow> bool" where
  "session_revoked s \<longleftrightarrow> ses_revoked_at s \<noteq> None"

definition challenge_consumed :: "mfa_challenge_row \<Rightarrow> bool" where
  "challenge_consumed c \<longleftrightarrow> chl_consumed_at c \<noteq> None"

definition session_writes :: "(session_row \<Rightarrow> session_row) set" where
  "session_writes = {\<lambda>s. s\<lparr>ses_revoked_at := Some t\<rparr> | t. True} \<union>
     {\<lambda>s. s\<lparr>ses_last_activity_at := t\<rparr> | t. True} \<union>
     {\<lambda>s. s\<lparr>ses_replaced_by := n, ses_revoked_at := Some t\<rparr> | n t. True}"

definition challenge_writes :: "(mfa_challenge_row \<Rightarrow> mfa_challenge_row) set" where
  "challenge_writes = {\<lambda>c. c\<lparr>chl_consumed_at := Some t\<rparr> | t. True}"

interpretation revocation: sticky session_ident session_revoked session_writes
  by unfold_locales (auto simp: session_revoked_def session_writes_def session_ident_def)

interpretation consumption: sticky chl_token_hash challenge_consumed challenge_writes
  by unfold_locales (auto simp: challenge_consumed_def challenge_writes_def)

lemma session_writesI [simp]:
  "(\<lambda>s. s\<lparr>ses_revoked_at := Some t\<rparr>) \<in> session_writes"
  "(\<lambda>s. s\<lparr>ses_last_activity_at := t\<rparr>) \<in> session_writes"
  "(\<lambda>s. s\<lparr>ses_replaced_by := n, ses_revoked_at := Some t\<rparr>) \<in> session_writes"
  by (auto simp: session_writes_def)

lemma challenge_writesI [simp]: "(\<lambda>c. c\<lparr>chl_consumed_at := Some t\<rparr>) \<in> challenge_writes"
  by (auto simp: challenge_writes_def)

subsection \<open>The invariant\<close>

text \<open>The indexes hold, the sessions in \<open>ss\<close> stay revoked, the challenges in \<open>cs\<close> stay consumed.\<close>

definition upheld :: "(string \<times> string \<times> string option) set \<Rightarrow> string set \<Rightarrow> auth_db \<Rightarrow> bool" where
  "upheld ss cs db \<longleftrightarrow> auth_db_ok db \<and> (\<forall>k \<in> ss. revocation.stuck k (adb_sessions db)) \<and>
     (\<forall>k \<in> cs. consumption.stuck k (adb_challenges db))"

named_theorems upheld_rules "statements that keep the invariant"

lemma upheld_sessions_create [upheld_rules]:
  "keeps (upheld ss cs) (on_sessions (create_row session_indexes r))"
  unfolding on_sessions_def
  by (rule keeps_on_table)
    (auto simp: upheld_def auth_db_ok_def create_row_Inr intro: revocation.stuck_append)

lemma upheld_sessions_many [upheld_rules]:
  "f \<in> session_writes \<Longrightarrow> keeps (upheld ss cs) (on_sessions (update_many session_indexes P f))"
  unfolding on_sessions_def
  by (rule keeps_on_table)
    (auto simp: upheld_def auth_db_ok_def update_many_Inr intro: revocation.stuck_update)

lemma upheld_sessions_unique [upheld_rules]:
  "f \<in> session_writes \<Longrightarrow> keeps (upheld ss cs) (on_sessions (update_unique t session_indexes P f))"
  unfolding on_sessions_def
  by (rule keeps_on_table)
    (auto simp: upheld_def auth_db_ok_def update_unique_Inr intro: revocation.stuck_update)

lemma upheld_challenges_create [upheld_rules]:
  "keeps (upheld ss cs) (on_challenges (create_row challenge_indexes r))"
  unfolding on_challenges_def
  by (rule keeps_on_table)
    (auto simp: upheld_def auth_db_ok_def create_row_Inr intro: consumption.stuck_append)

lemma upheld_challenges_unique [upheld_rules]:
  "f \<in> challenge_writes \<Longrightarrow> keeps (upheld ss cs) (on_challenges (update_unique t challenge_indexes P f))"
  unfolding on_challenges_def
  by (rule keeps_on_table)
    (auto simp: upheld_def auth_db_ok_def update_unique_Inr intro: consumption.stuck_update)

lemma upheld_users_unique [upheld_rules]:
  "keeps (upheld ss cs) (on_users (update_unique t user_indexes P f))"
  unfolding on_users_def
  by (rule keeps_on_table) (auto simp: upheld_def auth_db_ok_def update_unique_Inr)

lemma upheld_memberships_unique [upheld_rules]:
  "keeps (upheld ss cs) (on_memberships (update_unique t membership_indexes P f))"
  unfolding on_memberships_def
  by (rule keeps_on_table) (auto simp: upheld_def auth_db_ok_def update_unique_Inr)

lemma upheld_api_keys [upheld_rules]:
  "keeps (upheld ss cs) (on_api_keys (create_row api_key_indexes r))"
  "keeps (upheld ss cs) (on_api_keys (update_many api_key_indexes P f))"
  "keeps (upheld ss cs) (on_api_keys (update_unique t api_key_indexes P f))"
  unfolding on_api_keys_def
  by (rule keeps_on_table,
      auto simp: upheld_def auth_db_ok_def create_row_Inr update_many_Inr update_unique_Inr)+

lemma upheld_recovery_codes [upheld_rules]:
  "keeps (upheld ss cs) (on_recovery_codes (update_unique t recovery_code_indexes P f))"
  "keeps (upheld ss cs) (on_recovery_codes (\<lambda>rows. Inr (delete_where P rows)))"
  "keeps (upheld ss cs) (on_recovery_codes (\<lambda>rows. commit_rows recovery_code_indexes (rows @ new)))"
  unfolding on_recovery_codes_def
  by (rule keeps_on_table,
      auto simp: upheld_def auth_db_ok_def update_unique_Inr indexes_ok_delete)+

lemma upheld_login_alerts [upheld_rules]: "keeps (upheld ss cs) (on_login_alerts stmt)"
  unfolding on_login_alerts_def by (rule keeps_on_table) (auto simp: upheld_def auth_db_ok_def)

lemma upheld_audit_logs [upheld_rules]: "keeps (upheld ss cs) (on_audit_logs stmt)"
  unfolding on_audit_logs_def by (rule keeps_on_table) (auto simp: upheld_def auth_db_ok_def)

lemmas small_steps = create_session_def revoke_all_sessions_for_identity_def update_session_def
  revoke_current_session_def revoke_all_sessions_def revoke_session_by_id_def
  create_new_device_alert_def update_user_def check_totp_def use_recovery_code_def
  update_api_key_def introspect_api_key_def authenticate_api_key_def authenticate_session_def
  create_audit_log_def update_membership_def resolve_organization_context_def or_throw_def
  assert_manageable_target_def revoke_api_keys_of_def admin_session_def suspend_user_def
  update_user_role_with_audit_def revoke_user_access_def

named_theorems upheld_calls "operations that keep the invariant"

lemma upheld_login [upheld_calls]:
  "keeps (upheld ss cs) (login_with_password env email ip organization password agent)"
  unfolding login_with_password_def small_steps by (intro keeps_cases upheld_rules session_writesI)

lemma upheld_verify_mfa [upheld_calls]: "keeps (upheld ss cs) (verify_mfa_challenge env req)"
  unfolding verify_mfa_challenge_def small_steps
  by (intro keeps_cases upheld_rules session_writesI challenge_writesI)

lemma upheld_setup_mfa [upheld_calls]: "keeps (upheld ss cs) (setup_mfa_for_user env email tenant user)"
  unfolding setup_mfa_for_user_def small_steps by (intro keeps_cases upheld_rules)

lemma upheld_enable_mfa [upheld_calls]: "keeps (upheld ss cs) (enable_mfa_for_user env code user)"
  unfolding enable_mfa_for_user_def small_steps by (intro keeps_cases upheld_rules)

lemma upheld_authenticate [upheld_calls]: "keeps (upheld ss cs) (authenticate_request env k t)"
  unfolding authenticate_request_def small_steps by (intro keeps_cases upheld_rules session_writesI)

lemma upheld_refresh [upheld_calls]: "keeps (upheld ss cs) (refresh_session env ip token agent)"
  unfolding refresh_session_def small_steps by (intro keeps_cases upheld_rules session_writesI)

lemma upheld_revoke [upheld_calls]:
  "keeps (upheld ss cs) (revoke_current_session now i)"
  "keeps (upheld ss cs) (revoke_all_sessions now organization user)"
  "keeps (upheld ss cs) (revoke_session_by_id now organization i user)"
  unfolding small_steps by (intro keeps_cases upheld_rules session_writesI)+

lemma upheld_api_key_calls [upheld_calls]:
  "keeps (upheld ss cs) (create_tenant_api_key env label organization scopes user)"
  "keeps (upheld ss cs) (rotate_tenant_api_key env i organization user)"
  "keeps (upheld ss cs) (revoke_tenant_api_key now i organization user)"
  "keeps (upheld ss cs) (verify_api_key_scope env scope token)"
  unfolding create_tenant_api_key_def rotate_tenant_api_key_def revoke_tenant_api_key_def
    verify_api_key_scope_def small_steps
  by (intro keeps_cases upheld_rules)+

lemma upheld_users_routes [upheld_calls]:
  "keeps (upheld ss cs) (suspend_user_route now rq p)"
  "keeps (upheld ss cs) (update_role_route rq r p)"
  "keeps (upheld ss cs) (remove_user_route now rq p)"
  unfolding suspend_user_route_def update_role_route_def remove_user_route_def handle_role_update_def
    small_steps
  by (intro keeps_cases keeps_guarded upheld_rules session_writesI)+

end
