(* ===== verification/AuthCorrect.thy ===== *)
theory AuthCorrect
  imports AuthInvariant
begin

text \<open>
  The properties of authentication: what a session proves, that a refresh token, a second-factor
  challenge and a revoked session are good for nothing afterwards, over every later sequence of
  calls, and what the login, the rotation of an API key and the removal of a user guarantee.
\<close>

subsection \<open>A sample database\<close>

definition sample_draws :: auth_draws where
  "sample_draws = \<lparr>draw_access_token = [1], draw_refresh_token = [2], draw_csrf_token = [3],
     draw_session_id = ''s9'', draw_challenge_token = [4], draw_challenge_id = ''c9'', draw_salt = [5],
     draw_totp_secret = [6], draw_totp_iv = [7], draw_recovery_codes = [(''r9'', [8, 9, 10])],
     draw_api_key = [11, 12, 13], draw_api_key_id = ''k9''\<rparr>"

definition sample_auth_config :: auth_config where
  "sample_auth_config = \<lparr>cfg_token_ttl_minutes = 15, cfg_session_ttl_hours = 24,
     cfg_rotation_grace_hours = 24, cfg_mfa_challenge_ttl_seconds = 300, cfg_clock_skew_windows = 1,
     cfg_mfa_encryption_key = ''key'', cfg_mfa_issuer = ''BirthHub'', cfg_salt_rounds = 12,
     cfg_api_key_prefix = ''bh360_live''\<rparr>"

definition sample_auth_env :: "ms \<Rightarrow> auth_env" where
  "sample_auth_env now = \<lparr>ae_now = now, ae_config = sample_auth_config, ae_crypto = sample_crypto,
     ae_aead = sample_aead, ae_hmac = sample_hmac, ae_draws = sample_draws\<rparr>"

definition sample_tenant :: "string \<Rightarrow> string \<Rightarrow> string \<Rightarrow> tenant_row" where
  "sample_tenant i t slug = \<lparr>org_id = i, org_tenant_id = t, org_name = slug, org_settings = JNull,
     org_stripe_customer_id = None, org_plan_id = None, org_slug = slug\<rparr>"

definition sample_user :: "string \<Rightarrow> string \<Rightarrow> bool \<Rightarrow> user_row" where
  "sample_user i email mfa = \<lparr>user_id = i, user_email = email, user_name = i,
     user_password_hash = ''pw#'', user_status = UserActive, user_suspended_at = None,
     user_mfa_enabled = mfa, user_mfa_secret = (if mfa then Some ''secret'' else None)\<rparr>"

definition sample_member :: "string \<Rightarrow> string \<Rightarrow> string \<Rightarrow> string \<Rightarrow> role \<Rightarrow> membership_row" where
  "sample_member i t org user r = \<lparr>mem_id = i, mem_tenant_id = t, mem_organization_id = org,
     mem_user_id = user, mem_role = r, mem_status = MembershipActive, mem_created_at = 0\<rparr>"

definition sample_session :: "string \<Rightarrow> string \<Rightarrow> ms option \<Rightarrow> session_row" where
  "sample_session i user revoked = \<lparr>ses_id = i, ses_tenant_id = ''t1'', ses_token = ''atk_'' @ i @ ''#'',
     ses_refresh_token_hash = Some (''rtk_'' @ i @ ''#''), ses_csrf_token = None,
     ses_organization_id = ''o1'', ses_user_id = user, ses_expires_at = 1000,
     ses_refresh_expires_at = Some 5000, ses_last_activity_at = 0, ses_revoked_at = revoked,
     ses_replaced_by = None, ses_ip_address = None, ses_user_agent = None, ses_created_at = 0\<rparr>"

definition sample_key :: "string \<Rightarrow> string \<Rightarrow> ms option \<Rightarrow> api_key_row" where
  "sample_key i user revoked = \<lparr>key_id = i, key_tenant_id = ''t1'', key_organization_id = ''o1'',
     key_user_id = user, key_label = i, key_prefix = ''bh360_live'', key_hash = ''bh360_live_'' @ i @ ''#'',
     key_last4 = i, key_scopes = [''agents:read''],
     key_status = (if revoked = None then KeyActive else KeyRevoked), key_expires_at = None,
     key_grace_expires_at = None, key_rotated_from = None, key_revoked_at = revoked,
     key_last_used_at = None, key_created_at = 0\<rparr>"

definition sample_challenge :: "string \<Rightarrow> string \<Rightarrow> mfa_challenge_row" where
  "sample_challenge i user = \<lparr>chl_id = i, chl_tenant_id = ''t1'', chl_organization_id = ''o1'',
     chl_user_id = user, chl_token_hash = ''mfa_'' @ i @ ''#'', chl_expires_at = 1000,
     chl_consumed_at = None\<rparr>"

definition sample_recovery :: "string \<Rightarrow> string \<Rightarrow> recovery_code_row" where
  "sample_recovery i user = \<lparr>rec_id = i, rec_tenant_id = ''t1'', rec_user_id = user,
     rec_code_hash = ''recovery:'' @ i @ ''#'', rec_used_at = None\<rparr>"

text \<open>
  Alice administers the organization \<open>o1\<close>, where Bob is a member with a second factor; Bob owns
  \<open>o2\<close>. Bob has an open and a revoked session, an active and a revoked API key, two open challenges.
\<close>

definition sample_auth_db :: auth_db where
  "sample_auth_db = \<lparr>adb_orgs = [sample_tenant ''o1'' ''t1'' ''acme'', sample_tenant ''o2'' ''t2'' ''bobco''],
     adb_users = [sample_user ''alice'' ''alice@x'' False, sample_user ''bob'' ''bob@x'' True],
     adb_memberships = [sample_member ''m1'' ''t1'' ''o1'' ''alice'' ADMIN,
       sample_member ''m2'' ''t1'' ''o1'' ''bob'' MEMBER, sample_member ''m3'' ''t2'' ''o2'' ''bob'' OWNER],
     adb_sessions = [sample_session ''s1'' ''bob'' None, sample_session ''s2'' ''bob'' (Some 1)],
     adb_api_keys = [sample_key ''k1'' ''bob'' None, sample_key ''k2'' ''bob'' (Some 1)],
     adb_challenges = [sample_challenge ''c1'' ''bob'', sample_challenge ''c2'' ''bob''],
     adb_recovery_codes = [sample_recovery ''R1'' ''bob''],
     adb_login_alerts = [], adb_audit_logs = []\<rparr>"

lemma sample_auth_db_ok: "auth_db_ok sample_auth_db"
  by code_simp

subsection \<open>Sequences of calls\<close>

datatype auth_call =
    Login string "string option" string string "string option"
  | VerifyMfa mfa_request
  | SetupMfa string "string option" string
  | EnableMfa string string
  | Authenticate "string option" "string option"
  | Refresh "string option" string "string option"
  | RevokeCurrent string
  | RevokeAll string string
  | RevokeById string string string
  | CreateKey string string "string list" string
  | RotateKey string string string
  | RevokeKey string string string
  | VerifyScope string string
  | SuspendRoute request_context route_param
  | RoleRoute request_context role route_param
  | RemoveRoute request_context route_param

text \<open>The database after a call, whatever it returned or threw.\<close>

fun after_call :: "auth_env \<Rightarrow> auth_call \<Rightarrow> auth_db \<Rightarrow> auth_db" where
  "after_call env (Login email ip org password agent) db = snd (login_with_password env email ip org password agent db)"
| "after_call env (VerifyMfa req) db = snd (verify_mfa_challenge env req db)"
| "after_call env (SetupMfa email tenant user) db = snd (setup_mfa_for_user env email tenant user db)"
| "after_call env (EnableMfa code user) db = snd (enable_mfa_for_user env code user db)"
| "after_call env (Authenticate k t) db = snd (authenticate_request env k t db)"
| "after_call env (Refresh ip token agent) db = snd (refresh_session env ip token agent db)"
| "after_call env (RevokeCurrent i) db = snd (revoke_current_session (ae_now env) i db)"
| "after_call env (RevokeAll org user) db = snd (revoke_all_sessions (ae_now env) org user db)"
| "after_call env (RevokeById org i user) db = snd (revoke_session_by_id (ae_now env) org i user db)"
| "after_call env (CreateKey label org scopes user) db = snd (create_tenant_api_key env label org scopes user db)"
| "after_call env (RotateKey i org user) db = snd (rotate_tenant_api_key env i org user db)"
| "after_call env (RevokeKey i org user) db = snd (revoke_tenant_api_key (ae_now env) i org user db)"
| "after_call env (VerifyScope scope token) db = snd (verify_api_key_scope env scope token db)"
| "after_call env (SuspendRoute rq p) db = snd (suspend_user_route (ae_now env) rq p db)"
| "after_call env (RoleRoute rq r p) db = snd (update_role_route rq r p db)"
| "after_call env (RemoveRoute rq p) db = snd (remove_user_route (ae_now env) rq p db)"

inductive auth_reaches :: "auth_db \<Rightarrow> auth_db \<Rightarrow> bool" where
  here: "auth_reaches db db"
| call: "auth_reaches db db' \<Longrightarrow> auth_reaches db (after_call env c db')"

lemma after_call_upheld: "upheld ss cs db \<Longrightarrow> upheld ss cs (after_call env c db)"
  by (cases c) (auto simp: upheld_calls[unfolded keeps_def, rule_format])

lemma reaches_upheld: "auth_reaches db db' \<Longrightarrow> upheld ss cs db \<Longrightarrow> upheld ss cs db'"
  by (induction rule: auth_reaches.induct) (auto intro: after_call_upheld)

lemma reaches_ok: "auth_reaches db db' \<Longrightarrow> auth_db_ok db \<Longrightarrow> auth_db_ok db'"
  using reaches_upheld[of db db' "{}" "{}"] by (simp add: upheld_def)

lemma reaches_revoked:
  assumes "auth_reaches db db'" "auth_db_ok db" "s \<in> set (adb_sessions db)" "ses_revoked_at s \<noteq> None"
  shows "\<exists>s' \<in> set (adb_sessions db'). ses_id s' = ses_id s \<and> ses_token s' = ses_token s \<and>
    ses_refresh_token_hash s' = ses_refresh_token_hash s \<and> ses_revoked_at s' \<noteq> None"
proof -
  have "revocation.stuck (session_ident s) (adb_sessions db)"
    using assms(3,4) by (intro revocation.stuckI) (simp_all add: session_revoked_def)
  then have "upheld {session_ident s} {} db" using assms(2) by (simp add: upheld_def)
  then have "upheld {session_ident s} {} db'" by (rule reaches_upheld[OF assms(1)])
  then show ?thesis by (auto simp: upheld_def revocation.stuck_def session_ident_def session_revoked_def)
qed

lemma reaches_consumed:
  assumes "auth_reaches db db'" "auth_db_ok db" "c \<in> set (adb_challenges db)" "chl_consumed_at c \<noteq> None"
  shows "\<exists>c' \<in> set (adb_challenges db'). chl_token_hash c' = chl_token_hash c \<and> chl_consumed_at c' \<noteq> None"
proof -
  have "consumption.stuck (chl_token_hash c) (adb_challenges db)"
    using assms(3,4) by (intro consumption.stuckI) (simp_all add: challenge_consumed_def)
  then have "upheld {} {chl_token_hash c} db" using assms(2) by (simp add: upheld_def)
  then have "upheld {} {chl_token_hash c} db'" by (rule reaches_upheld[OF assms(1)])
  then show ?thesis by (auto simp: upheld_def consumption.stuck_def challenge_consumed_def)
qed

subsection \<open>Lookups by a unique column\<close>

lemma unique_columns:
  assumes "auth_db_ok db"
  shows "session_by_id.unique (adb_sessions db)" "session_by_token.unique (adb_sessions db)"
    "session_by_refresh.unique (adb_sessions db)" "api_key_by_id.unique (adb_api_keys db)"
    "api_key_by_hash.unique (adb_api_keys db)" "challenge_by_token.unique (adb_challenges db)"
    "challenge_by_id.unique (adb_challenges db)" "user_by_id.unique (adb_users db)"
    "recovery_by_id.unique (adb_recovery_codes db)"
proof -
  note ok = assms[unfolded auth_db_ok_def]
  show "session_by_id.unique (adb_sessions db)" "session_by_token.unique (adb_sessions db)"
    "session_by_refresh.unique (adb_sessions db)"
    using ok indexes_ok_unique[of session_indexes "adb_sessions db"]
    by (auto simp: session_indexes_def)
  show "api_key_by_id.unique (adb_api_keys db)" "api_key_by_hash.unique (adb_api_keys db)"
    using ok indexes_ok_unique[of api_key_indexes "adb_api_keys db"] by (auto simp: api_key_indexes_def)
  show "challenge_by_token.unique (adb_challenges db)" "challenge_by_id.unique (adb_challenges db)"
    using ok indexes_ok_unique[of challenge_indexes "adb_challenges db"]
    by (auto simp: challenge_indexes_def)
  show "user_by_id.unique (adb_users db)"
    using ok indexes_ok_unique[of user_indexes "adb_users db"] by (auto simp: user_indexes_def)
  show "recovery_by_id.unique (adb_recovery_codes db)"
    using ok indexes_ok_unique[of recovery_code_indexes "adb_recovery_codes db"]
    by (auto simp: recovery_code_indexes_def)
qed

lemma find_by_token:
  "auth_db_ok db \<Longrightarrow> s \<in> set (adb_sessions db) \<Longrightarrow>
     List.find (\<lambda>x. ses_token x = ses_token s) (adb_sessions db) = Some s"
  using session_by_token.unique_find[OF unique_columns(2)] by simp

lemma find_by_refresh:
  "auth_db_ok db \<Longrightarrow> s \<in> set (adb_sessions db) \<Longrightarrow> ses_refresh_token_hash s = Some h \<Longrightarrow>
     List.find (\<lambda>x. ses_refresh_token_hash x = Some h) (adb_sessions db) = Some s"
  using session_by_refresh.unique_find[OF unique_columns(3)] by simp

lemma find_by_challenge:
  "auth_db_ok db \<Longrightarrow> c \<in> set (adb_challenges db) \<Longrightarrow>
     List.find (\<lambda>x. chl_token_hash x = chl_token_hash c) (adb_challenges db) = Some c"
  using challenge_by_token.unique_find[OF unique_columns(6)] by simp

subsection \<open>Revocation is final\<close>

lemma revoked_session_useless:
  assumes "auth_db_ok db" "s \<in> set (adb_sessions db)" "ses_revoked_at s \<noteq> None"
  shows "sha256 (ae_crypto env) token = ses_token s \<Longrightarrow> authenticate_session env token db = (Inr None, db)"
    and "ses_refresh_token_hash s = Some (sha256 (ae_crypto env) token) \<Longrightarrow>
      refresh_session env ip token agent db = (Inr \<lparr>breached = False, refreshed_session = None\<rparr>, db)"
proof -
  assume "sha256 (ae_crypto env) token = ses_token s"
  then show "authenticate_session env token db = (Inr None, db)"
    using find_by_token[OF assms(1,2)] assms(3)
    by (simp add: authenticate_session_def then_do_def ask_def give_def session_usable_def)
next
  assume "ses_refresh_token_hash s = Some (sha256 (ae_crypto env) token)"
  from find_by_refresh[OF assms(1,2) this]
  show "refresh_session env ip token agent db = (Inr \<lparr>breached = False, refreshed_session = None\<rparr>, db)"
    using assms(3) by (simp add: refresh_session_def then_do_def ask_def give_def Let_def)
qed

lemma authenticate_token: "authenticate_request env None (Some token) db =
    (if token = [] then (Inr None, db) else authenticate_session env token db)"
  by (cases token) (simp_all add: authenticate_request_def give_def)

text \<open>
  Property C34. A revoked session is dead for good: whatever calls of the authentication service and
  of the users routes follow, in any order and with any clock, its access token authenticates no
  request and its refresh token opens no session.
\<close>

theorem revoked_session_stays_dead:
  assumes "auth_db_ok db" and "s \<in> set (adb_sessions db)" and "ses_revoked_at s \<noteq> None"
    and "auth_reaches db db'"
    and "ses_token s = sha256 (ae_crypto env) token"
    and "ses_refresh_token_hash s = Some (sha256 (ae_crypto env) refresh_token)"
  shows "authenticate_request env None (Some token) db' = (Inr None, db') \<and>
    refresh_session env ip refresh_token agent db' =
      (Inr \<lparr>breached = False, refreshed_session = None\<rparr>, db')"
proof -
  obtain s' where s': "s' \<in> set (adb_sessions db')" "ses_token s' = ses_token s"
    "ses_refresh_token_hash s' = ses_refresh_token_hash s" "ses_revoked_at s' \<noteq> None"
    using reaches_revoked[OF assms(4,1,2,3)] by blast
  note dead = revoked_session_useless[OF reaches_ok[OF assms(4,1)] s'(1,4)]
  show ?thesis
    using dead(1)[of env token] dead(2)[of env refresh_token] assms(5,6) s'(2,3)
    by (simp add: authenticate_token)
qed

theorem revoked_session_stays_dead_witness:
  "authenticate_request (sample_auth_env 9) None (Some ''atk_s2'') (after_call (sample_auth_env 5) (RevokeAll ''o1'' ''bob'') sample_auth_db) =
     (Inr None, after_call (sample_auth_env 5) (RevokeAll ''o1'' ''bob'') sample_auth_db) \<and>
   refresh_session (sample_auth_env 9) None ''rtk_s2'' None (after_call (sample_auth_env 5) (RevokeAll ''o1'' ''bob'') sample_auth_db) =
     (Inr \<lparr>breached = False, refreshed_session = None\<rparr>, after_call (sample_auth_env 5) (RevokeAll ''o1'' ''bob'') sample_auth_db)"
  by (rule revoked_session_stays_dead[where s = "sample_session ''s2'' ''bob'' (Some 1)",
        OF sample_auth_db_ok _ _ auth_reaches.call[OF auth_reaches.here]])
    (simp_all add: sample_auth_db_def sample_session_def sample_auth_env_def sample_crypto_def)

subsection \<open>Refresh tokens\<close>

lemma refresh_success:
  assumes "auth_db_ok db" and "refresh_session env ip token agent db = (Inr r, db1)"
    and "refreshed_session r = Some n"
  shows "auth_db_ok db1"
    and "\<exists>s \<in> set (adb_sessions db1). ses_revoked_at s \<noteq> None \<and>
      ses_refresh_token_hash s = Some (sha256 (ae_crypto env) token)"
proof -
  show "auth_db_ok db1"
    using keepsD[OF upheld_refresh[of "{}" "{}"] _ assms(2)] assms(1) by (simp add: upheld_def)
  let ?h = "sha256 (ae_crypto env) token"
  obtain c where c: "List.find (\<lambda>s. ses_refresh_token_hash s = Some ?h) (adb_sessions db) = Some c"
    using assms(2,3)
    by (auto simp: refresh_session_def Let_def split: option.splits if_splits)
  then have mem: "c \<in> set (adb_sessions db)" "ses_refresh_token_hash c = Some ?h"
    using find_Some_iff_mem by fastforce+
  let ?f = "\<lambda>s. s\<lparr>ses_replaced_by := Some (draw_session_id (ae_draws env)), ses_revoked_at := Some (ae_now env)\<rparr>"
  have "adb_sessions db1 = update_where (\<lambda>s. ses_id s = ses_id c) ?f
      (adb_sessions db @ [new_session env ip (ses_organization_id c) (ses_tenant_id c) agent (ses_user_id c)])"
    using assms(2,3) c
    by (auto simp: refresh_session_def Let_def create_session_def update_session_def on_sessions_def
        create_row_Inr update_unique_Inr split: option.splits if_splits)
  then have "?f c \<in> set (adb_sessions db1)" using mem by (auto simp: set_update_where intro!: image_eqI[of _ _ c])
  then show "\<exists>s \<in> set (adb_sessions db1). ses_revoked_at s \<noteq> None \<and> ses_refresh_token_hash s = Some ?h"
    using mem by (intro bexI[of _ "?f c"]) simp_all
qed

text \<open>
  Property C35. A refresh token is good for one refresh: after it has opened a new session, presenting
  it again, after any sequence of other calls, opens no session, is answered as an ordinary invalid
  token (no breach reported) and changes nothing. This is rule 1 of the rotation rules of
  docs/adrs/ADR-011-session-storage.md (one use) and the failure of rule 2: the ADR asks that
  the reuse of a rotated token revoke the whole family, and here the sessions that the rotation
  opened stay as they are.
\<close>

theorem refresh_token_single_use:
  assumes "auth_db_ok db" and "refresh_session env ip token agent db = (Inr r, db1)"
    and "refreshed_session r = Some n" and "auth_reaches db1 db2"
    and "ae_crypto env2 = ae_crypto env"
  shows "refresh_session env2 ip2 token agent2 db2 =
    (Inr \<lparr>breached = False, refreshed_session = None\<rparr>, db2)"
proof -
  obtain s where s: "s \<in> set (adb_sessions db1)" "ses_revoked_at s \<noteq> None"
    "ses_refresh_token_hash s = Some (sha256 (ae_crypto env) token)"
    using refresh_success(2)[OF assms(1-3)] by blast
  have ok: "auth_db_ok db1" using refresh_success(1)[OF assms(1-3)] .
  obtain s' where s': "s' \<in> set (adb_sessions db2)" "ses_refresh_token_hash s' = ses_refresh_token_hash s"
    "ses_revoked_at s' \<noteq> None"
    using reaches_revoked[OF assms(4) ok s(1,2)] by blast
  show ?thesis
    using revoked_session_useless(2)[OF reaches_ok[OF assms(4) ok] s'(1,3), of env2 token] s(3) s'(2) assms(5)
    by simp
qed

definition refreshed_once :: "(api_error + refresh_result) \<times> auth_db" where
  "refreshed_once = refresh_session (sample_auth_env 5) None ''rtk_s1'' None sample_auth_db"

lemma refreshed_once_ok:
  "fst refreshed_once = Inr \<lparr>breached = False, refreshed_session = Some \<lparr>
     ref_organization_id = ''o1'', ref_session_id = ''s9'', ref_tenant_id = ''t1'',
     ref_tokens = issue_tokens (sample_auth_env 5), ref_user_id = ''bob''\<rparr>\<rparr>"
  by code_simp

theorem refresh_token_single_use_witness:
  "refresh_session (sample_auth_env 6) None ''rtk_s1'' None (snd refreshed_once) =
     (Inr \<lparr>breached = False, refreshed_session = None\<rparr>, snd refreshed_once)"
proof (rule refresh_token_single_use[OF sample_auth_db_ok])
  show "refresh_session (sample_auth_env 5) None ''rtk_s1'' None sample_auth_db =
      (Inr \<lparr>breached = False, refreshed_session = Some \<lparr>
       ref_organization_id = ''o1'', ref_session_id = ''s9'', ref_tenant_id = ''t1'',
       ref_tokens = issue_tokens (sample_auth_env 5), ref_user_id = ''bob''\<rparr>\<rparr>, snd refreshed_once)"
    using refreshed_once_ok by (simp add: refreshed_once_def prod_eq_iff)
  show "auth_reaches (snd refreshed_once) (snd refreshed_once)" by (rule auth_reaches.here)
qed (simp_all add: sample_auth_env_def)

text \<open>
  The answer of a refresh never reports a breach: the branch of \<open>refreshSession\<close> that
  detects the reuse of a rotated token and revokes every session of the identity is reached only
  when no row has the token's hash, and then looks for such a row again. The rotated row keeps its
  hash, so reuse is answered as an ordinary invalid token and the sessions stay open.
\<close>

theorem refresh_never_reports_breach:
  "case fst (refresh_session env ip token agent db) of Inr r \<Rightarrow> \<not> breached r | Inl _ \<Rightarrow> True"
proof (cases "List.find (\<lambda>s. ses_refresh_token_hash s = Some (sha256 (ae_crypto env) token)) (adb_sessions db)")
  case None
  then have "List.find (\<lambda>s. ses_refresh_token_hash s = Some (sha256 (ae_crypto env) token) \<and>
      ses_revoked_at s \<noteq> None) (adb_sessions db) = None"
    by (auto simp: find_None_iff)
  then show ?thesis using None by (simp add: refresh_session_def then_do_def ask_def give_def Let_def)
next
  case (Some c)
  then show ?thesis
    by (simp add: refresh_session_def then_do_def ask_def give_def Let_def split: prod.splits sum.splits)
qed

subsection \<open>What a session proves\<close>

lemma touch_session:
  assumes "auth_db_ok db" "s \<in> set (adb_sessions db)"
  shows "\<exists>db'. update_session (ses_id s) (\<lambda>x. x\<lparr>ses_last_activity_at := now\<rparr>) db = (Inr (), db')"
proof -
  have "indexes_ok session_indexes
      (update_where (\<lambda>x. ses_id x = ses_id s) (\<lambda>x. x\<lparr>ses_last_activity_at := now\<rparr>) (adb_sessions db))"
    by (rule indexes_ok_update_keep) (use assms(1) in \<open>auto simp: auth_db_ok_def session_indexes_def\<close>)
  then show ?thesis using assms(2)
    by (auto simp: update_session_def on_sessions_def update_unique_Inr)
qed

definition session_context :: "session_row \<Rightarrow> authenticated_context" where
  "session_context s = \<lparr>ctx_api_key_id = None, ctx_auth_type = SessionAuth,
     ctx_organization_id = ses_organization_id s, ctx_session_id = Some (ses_id s),
     ctx_tenant_id = ses_tenant_id s, ctx_user_id = ses_user_id s\<rparr>"

text \<open>
  An access token authenticates a request exactly when a session stores its hash, is
  neither revoked nor past its end, and its user exists and is not suspended; the request then acts
  as that session's user in that session's organization and tenant.
\<close>

theorem session_authentication_iff:
  assumes "auth_db_ok db" and "token \<noteq> []"
  shows "fst (authenticate_request env None (Some token) db) = Inr (Some ctx) \<longleftrightarrow>
    (\<exists>s \<in> set (adb_sessions db). ses_token s = sha256 (ae_crypto env) token \<and>
       ses_revoked_at s = None \<and> ae_now env \<le> ses_expires_at s \<and>
       active_user (ses_user_id s) db \<and> ctx = session_context s)"
proof (cases "List.find (\<lambda>s. ses_token s = sha256 (ae_crypto env) token) (adb_sessions db)")
  case None
  then have "\<not> (\<exists>s \<in> set (adb_sessions db). ses_token s = sha256 (ae_crypto env) token)"
    by (auto simp: find_None_iff)
  then show ?thesis using None assms(2)
    by (auto simp: authenticate_token authenticate_session_def then_do_def ask_def give_def)
next
  case (Some s)
  then have s: "s \<in> set (adb_sessions db)" "ses_token s = sha256 (ae_crypto env) token"
    using find_Some_iff_mem by fastforce+
  have only: "x = s" if "x \<in> set (adb_sessions db)" "ses_token x = sha256 (ae_crypto env) token" for x
    using find_by_token[OF assms(1) that(1)] that(2) Some by simp
  obtain db' where t: "update_session (ses_id s) (\<lambda>x. x\<lparr>ses_last_activity_at := ae_now env\<rparr>) db = (Inr (), db')"
    using touch_session[OF assms(1) s(1)] by blast
  have "fst (authenticate_request env None (Some token) db) = Inr (Some ctx) \<longleftrightarrow>
      session_usable (ae_now env) s \<and> active_user (ses_user_id s) db \<and> ctx = session_context s"
    using Some t assms(2)
    by (auto simp: authenticate_token authenticate_session_def then_do_def ask_def give_def session_context_def)
  also have "\<dots> \<longleftrightarrow> ses_token s = sha256 (ae_crypto env) token \<and> ses_revoked_at s = None \<and>
      ae_now env \<le> ses_expires_at s \<and> active_user (ses_user_id s) db \<and> ctx = session_context s"
    unfolding session_usable_def using s(2) by (simp add: not_less)
  also have "\<dots> \<longleftrightarrow> (\<exists>x \<in> set (adb_sessions db). ses_token x = sha256 (ae_crypto env) token \<and>
      ses_revoked_at x = None \<and> ae_now env \<le> ses_expires_at x \<and> active_user (ses_user_id x) db \<and>
      ctx = session_context x)" (is "?a \<longleftrightarrow> ?b")
  proof
    show "?a \<Longrightarrow> ?b" using s(1) by blast
    assume ?b
    then obtain x where x: "x \<in> set (adb_sessions db)" "ses_token x = sha256 (ae_crypto env) token"
      and "ses_revoked_at x = None \<and> ae_now env \<le> ses_expires_at x \<and> active_user (ses_user_id x) db \<and>
        ctx = session_context x" by blast
    then show ?a using only[OF x] by simp
  qed
  finally show ?thesis .
qed

theorem session_authentication_iff_witness:
  "fst (authenticate_request (sample_auth_env 9) None (Some ''atk_s1'') sample_auth_db) =
     Inr (Some (session_context (sample_session ''s1'' ''bob'' None)))"
  by (rule session_authentication_iff[OF sample_auth_db_ok, THEN iffD2], simp)
    (rule bexI[of _ "sample_session ''s1'' ''bob'' None"], code_simp, simp add: sample_auth_db_def)

end
