(* ===== verification/AuthFactors.thy ===== *)
theory AuthFactors
  imports AuthCorrect
begin

text \<open>
  The login and its second factor, and the life of an API key: what a successful login has checked,
  that challenges and recovery codes work once, what the rotation of a key leaves valid.
\<close>

subsection \<open>Login\<close>

lemma sessions_frame:
  "keeps (\<lambda>db. adb_sessions db = S) (update_user i f)"
  "keeps (\<lambda>db. adb_sessions db = S) (create_new_device_alert ip organization tenant agent user)"
  "keeps (\<lambda>db. adb_sessions db = S) (on_challenges stmt)"
  unfolding update_user_def create_new_device_alert_def statement_defs
  by (intro keeps_cases keeps_on_table; simp)+

lemma login_membership_Some:
  assumes "login_membership organization email db = Some (m, u)"
  shows "m \<in> set (adb_memberships db) \<and> mem_organization_id m = organization \<and>
    mem_status m = MembershipActive \<and> find_user (mem_user_id m) db = Some u \<and> user_email u = email"
  using assms
  by (auto simp: login_membership_def split: option.splits dest!: find_Some_iff_mem)

text \<open>
  Property C36. What a login has checked when it succeeds: an active membership of the organization,
  an active user with that e-mail address, and the password against the stored hash. With the second
  factor enabled no session exists yet, only a challenge; otherwise exactly one session is added, the
  user's, in that organization.
\<close>

theorem login_checks_every_factor:
  assumes "login_with_password env email ip organization password agent db = (Inr r, db')"
  shows "\<exists>m u. m \<in> set (adb_memberships db) \<and> mem_organization_id m = organization \<and>
    mem_status m = MembershipActive \<and> find_user (mem_user_id m) db = Some u \<and> user_email u = email \<and>
    user_status u = UserActive \<and>
    is_valid (verify_password_hash (ae_crypto env) password (user_password_hash u)
      (cfg_salt_rounds (ae_config env))) \<and>
    (case r of
       MfaRequired expires token \<Rightarrow> user_mfa_enabled u \<and> adb_sessions db' = adb_sessions db
     | LoggedIn org i tenant tokens user \<Rightarrow> \<not> user_mfa_enabled u \<and> user = mem_user_id m \<and>
         adb_sessions db' =
           adb_sessions db @ [new_session env ip organization (mem_tenant_id m) agent (mem_user_id m)])"
proof -
  obtain m u where mu: "login_membership organization email db = Some (m, u)"
    using assms by (auto simp: login_with_password_def split: option.splits)
  let ?check = "verify_password_hash (ae_crypto env) password (user_password_hash u)
      (cfg_salt_rounds (ae_config env))"
  have guards: "user_status u \<noteq> UserSuspended" "is_valid ?check"
    using assms mu by (auto simp: login_with_password_def Let_def split: if_splits)
  have active: "user_status u = UserActive" using guards(1) by (cases "user_status u") auto
  from assms mu guards obtain db1 db2 where
    step1: "(if needs_rehash ?check
      then update_user (mem_user_id m) (\<lambda>u. u\<lparr>user_password_hash :=
             hash_password (ae_crypto env) password (cfg_salt_rounds (ae_config env))
               (draw_salt (ae_draws env))\<rparr>) else give ()) db = (Inr (), db1)" and
    step2: "create_new_device_alert ip organization (mem_tenant_id m) agent (mem_user_id m) db1 = (Inr (), db2)" and
    rest: "(if user_mfa_enabled u then
         (let token = ''mfa_'' @ to_base64url (draw_challenge_token (ae_draws env));
              expires = ae_now env + cfg_mfa_challenge_ttl_seconds (ae_config env) * 1000
          in then_do (on_challenges (create_row challenge_indexes \<lparr>
                 chl_id = draw_challenge_id (ae_draws env), chl_tenant_id = mem_tenant_id m,
                 chl_organization_id = organization, chl_user_id = mem_user_id m,
                 chl_token_hash = sha256 (ae_crypto env) token, chl_expires_at = expires,
                 chl_consumed_at = None\<rparr>)) (\<lambda>_.
             give (MfaRequired expires token)))
       else
         then_do (create_session env ip organization (mem_tenant_id m) agent (mem_user_id m))
           (\<lambda>(session, tokens).
             give (LoggedIn organization session (mem_tenant_id m) tokens (mem_user_id m)))) db2 = (Inr r, db')"
    unfolding login_with_password_def by (auto simp del: if_split_asm)
  have "adb_sessions db1 = adb_sessions db"
    using step1 keepsD[OF sessions_frame(1) refl] by (cases "needs_rehash ?check") auto
  moreover have "adb_sessions db2 = adb_sessions db1"
    using keepsD[OF sessions_frame(2) refl step2] .
  ultimately have s2: "adb_sessions db2 = adb_sessions db" by simp
  have "case r of
       MfaRequired expires token \<Rightarrow> user_mfa_enabled u \<and> adb_sessions db' = adb_sessions db
     | LoggedIn org i tenant tokens user \<Rightarrow> \<not> user_mfa_enabled u \<and> user = mem_user_id m \<and>
         adb_sessions db' =
           adb_sessions db @ [new_session env ip organization (mem_tenant_id m) agent (mem_user_id m)]"
  proof (cases "user_mfa_enabled u")
    case True
    then show ?thesis using rest s2 by (auto simp: Let_def statement_defs)
  next
    case False
    then show ?thesis using rest s2
      by (auto simp: create_session_def statement_defs create_row_Inr)
  qed
  then show ?thesis using login_membership_Some[OF mu] active guards(2) by blast
qed

definition alice_login :: "(api_error + login_result) \<times> auth_db" where
  "alice_login = login_with_password (sample_auth_env 5) ''alice@x'' None ''o1'' ''pw'' None sample_auth_db"

lemma alice_login_ok:
  "fst alice_login = Inr (LoggedIn ''o1'' ''s9'' ''t1'' (issue_tokens (sample_auth_env 5)) ''alice'')"
  by code_simp

theorem login_checks_every_factor_witness:
  "\<exists>m u. m \<in> set (adb_memberships sample_auth_db) \<and> mem_organization_id m = ''o1'' \<and>
    mem_status m = MembershipActive \<and> find_user (mem_user_id m) sample_auth_db = Some u \<and>
    user_email u = ''alice@x'' \<and> user_status u = UserActive \<and>
    is_valid (verify_password_hash (ae_crypto (sample_auth_env 5)) ''pw'' (user_password_hash u)
      (cfg_salt_rounds (ae_config (sample_auth_env 5)))) \<and>
    \<not> user_mfa_enabled u \<and> ''alice'' = mem_user_id m \<and>
    adb_sessions (snd alice_login) = adb_sessions sample_auth_db @
      [new_session (sample_auth_env 5) None ''o1'' (mem_tenant_id m) None (mem_user_id m)]"
proof -
  have "login_with_password (sample_auth_env 5) ''alice@x'' None ''o1'' ''pw'' None sample_auth_db =
      (Inr (LoggedIn ''o1'' ''s9'' ''t1'' (issue_tokens (sample_auth_env 5)) ''alice''), snd alice_login)"
    using alice_login_ok by (simp add: alice_login_def prod_eq_iff)
  from login_checks_every_factor[OF this] show ?thesis by simp
qed

subsection \<open>Challenges\<close>

lemma challenges_frame:
  "keeps (\<lambda>db. adb_challenges db = C) (check_totp env code secret)"
  "keeps (\<lambda>db. adb_challenges db = C) (use_recovery_code env code user)"
  "keeps (\<lambda>db. adb_challenges db = C) (create_session env ip organization tenant agent user)"
  unfolding check_totp_def use_recovery_code_def create_session_def statement_defs
  by (intro keeps_cases keeps_on_table; simp)+

lemma verify_mfa_success:
  assumes "verify_mfa_challenge env req db = (Inr r, db1)"
  shows "\<exists>c. List.find (\<lambda>c. chl_token_hash c = sha256 (ae_crypto env) (mfa_challenge_token req))
      (adb_challenges db) = Some c \<and> chl_consumed_at c = None \<and> ae_now env \<le> chl_expires_at c \<and>
    adb_challenges db1 = update_where (\<lambda>x. chl_id x = chl_id c)
      (\<lambda>x. x\<lparr>chl_consumed_at := Some (ae_now env)\<rparr>) (adb_challenges db)"
proof -
  obtain c where c: "List.find (\<lambda>c. chl_token_hash c = sha256 (ae_crypto env) (mfa_challenge_token req))
      (adb_challenges db) = Some c"
    using assms by (auto simp: verify_mfa_challenge_def split: option.splits)
  have open_c: "chl_consumed_at c = None" "ae_now env \<le> chl_expires_at c"
    using assms c by (auto simp: verify_mfa_challenge_def not_less split: if_splits)
  from assms c open_c obtain secret by_totp verified dba dbb dbc session tokens where
    totp: "(case truthy (mfa_totp_code req) of None \<Rightarrow> give False
       | Some code \<Rightarrow> check_totp env code secret) db = (Inr by_totp, dba)" and
    recovery: "(case (by_totp, truthy (mfa_recovery_code req)) of
         (False, Some code) \<Rightarrow> use_recovery_code env code (chl_user_id c)
       | _ \<Rightarrow> give by_totp) dba = (Inr verified, dbb)" and
    consume: "on_challenges (update_unique ''MfaChallenge'' challenge_indexes
         (\<lambda>x. chl_id x = chl_id c) (\<lambda>x. x\<lparr>chl_consumed_at := Some (ae_now env)\<rparr>)) dbb = (Inr (), dbc)" and
    session: "create_session env (mfa_ip req) (chl_organization_id c) (chl_tenant_id c)
         (mfa_agent req) (chl_user_id c) dbc = (Inr (session, tokens), db1)"
    unfolding verify_mfa_challenge_def
    by (auto simp del: if_split_asm simp: not_less split: option.splits if_splits prod.splits)
  have "keeps (\<lambda>x. adb_challenges x = adb_challenges db)
      (case truthy (mfa_totp_code req) of None \<Rightarrow> give False | Some code \<Rightarrow> check_totp env code secret)"
    by (intro keeps_cases challenges_frame)
  from keepsD[OF this refl totp] have a: "adb_challenges dba = adb_challenges db" .
  have "keeps (\<lambda>x. adb_challenges x = adb_challenges dba) (case (by_totp, truthy (mfa_recovery_code req)) of
       (False, Some code) \<Rightarrow> use_recovery_code env code (chl_user_id c) | _ \<Rightarrow> give by_totp)"
    by (intro keeps_cases challenges_frame)
  from keepsD[OF this refl recovery] have b: "adb_challenges dbb = adb_challenges dba" .
  have d: "adb_challenges db1 = adb_challenges dbc"
    using keepsD[OF challenges_frame(3) refl session] .
  have "adb_challenges dbc = update_where (\<lambda>x. chl_id x = chl_id c)
      (\<lambda>x. x\<lparr>chl_consumed_at := Some (ae_now env)\<rparr>) (adb_challenges dbb)"
    using consume by (auto simp: statement_defs update_unique_Inr)
  then show ?thesis using c open_c a b d by simp
qed

text \<open>
  A challenge of the second factor is good for one session: once it has been answered
  with success, answering it again is refused as expired, whatever calls came in between and whatever
  codes are sent.
\<close>

theorem mfa_challenge_single_use:
  assumes "auth_db_ok db" and "verify_mfa_challenge env req db = (Inr r, db1)"
    and "auth_reaches db1 db2" and "ae_crypto env2 = ae_crypto env"
    and "mfa_challenge_token req2 = mfa_challenge_token req"
  shows "verify_mfa_challenge env2 req2 db2 = (Inl (Failure ''MFA_CHALLENGE_EXPIRED''), db2)"
proof -
  let ?h = "sha256 (ae_crypto env) (mfa_challenge_token req)"
  obtain c where c: "List.find (\<lambda>c. chl_token_hash c = ?h) (adb_challenges db) = Some c"
    and upd: "adb_challenges db1 = update_where (\<lambda>x. chl_id x = chl_id c)
      (\<lambda>x. x\<lparr>chl_consumed_at := Some (ae_now env)\<rparr>) (adb_challenges db)"
    using verify_mfa_success[OF assms(2)] by blast
  have mem: "c \<in> set (adb_challenges db)" "chl_token_hash c = ?h" using find_Some_iff_mem[OF c] by auto
  have ok1: "auth_db_ok db1"
    using keepsD[OF upheld_verify_mfa[of "{}" "{}"] _ assms(2)] assms(1) by (simp add: upheld_def)
  have "c\<lparr>chl_consumed_at := Some (ae_now env)\<rparr> \<in> set (adb_challenges db1)"
    unfolding upd set_update_where using mem(1) by (intro image_eqI[of _ _ c]) simp_all
  from reaches_consumed[OF assms(3) ok1 this] obtain c' where
    c': "c' \<in> set (adb_challenges db2)" "chl_token_hash c' = ?h" "chl_consumed_at c' \<noteq> None"
    using mem(2) by auto
  have "List.find (\<lambda>x. chl_token_hash x = ?h) (adb_challenges db2) = Some c'"
    using find_by_challenge[OF reaches_ok[OF assms(3) ok1] c'(1)] c'(2) by simp
  then show ?thesis using c'(3) assms(4,5)
    by (simp add: verify_mfa_challenge_def then_do_def ask_def throw_def)
qed

definition bob_request :: "string \<Rightarrow> mfa_request" where
  "bob_request c = \<lparr>mfa_challenge_token = ''mfa_'' @ c, mfa_recovery_code = Some ''R1'',
     mfa_totp_code = None, mfa_ip = None, mfa_agent = None\<rparr>"

definition bob_verified :: "(api_error + login_result) \<times> auth_db" where
  "bob_verified = verify_mfa_challenge (sample_auth_env 5) (bob_request ''c1'') sample_auth_db"

lemma bob_verified_ok:
  "verify_mfa_challenge (sample_auth_env 5) (bob_request ''c1'') sample_auth_db =
     (Inr (LoggedIn ''o1'' ''s9'' ''t1'' (issue_tokens (sample_auth_env 5)) ''bob''), snd bob_verified)"
proof -
  have "fst bob_verified = Inr (LoggedIn ''o1'' ''s9'' ''t1'' (issue_tokens (sample_auth_env 5)) ''bob'')"
    by code_simp
  then show ?thesis by (simp add: bob_verified_def prod_eq_iff)
qed

theorem mfa_challenge_single_use_witness:
  "verify_mfa_challenge (sample_auth_env 6) (bob_request ''c1'') (snd bob_verified) =
     (Inl (Failure ''MFA_CHALLENGE_EXPIRED''), snd bob_verified)"
  by (rule mfa_challenge_single_use[OF sample_auth_db_ok bob_verified_ok auth_reaches.here])
    (simp_all add: sample_auth_env_def)

subsection \<open>Recovery codes\<close>

lemma use_recovery_code_once:
  assumes "auth_db_ok db" and "use_recovery_code env code user db = (Inr True, db')"
  shows "List.find (unused_code (hash_recovery_code (ae_crypto env) code) user) (adb_recovery_codes db') = None"
proof -
  let ?h = "hash_recovery_code (ae_crypto env) code"
  let ?key = "\<lambda>r. Some (compound_key (rec_user_id r) (rec_code_hash r))"
  obtain r where r: "List.find (unused_code ?h user) (adb_recovery_codes db) = Some r"
    using assms(2) by (auto simp: use_recovery_code_def split: option.splits)
  then have mem: "r \<in> set (adb_recovery_codes db)" "unused_code ?h user r"
    using find_Some_iff_mem by fastforce+
  have upd: "adb_recovery_codes db' = update_where (\<lambda>x. rec_id x = rec_id r)
      (\<lambda>x. x\<lparr>rec_used_at := Some (ae_now env)\<rparr>) (adb_recovery_codes db)"
    using assms(2) r by (auto simp: use_recovery_code_def statement_defs update_unique_Inr)
  have u: "unique_key.unique ?key (adb_recovery_codes db)"
    by (rule indexes_ok_unique[of recovery_code_indexes _ "''userId_codeHash''"])
      (use assms(1) in \<open>simp_all add: auth_db_ok_def recovery_code_indexes_def\<close>)
  have "\<not> unused_code ?h user x" if x: "x \<in> set (adb_recovery_codes db')" for x
  proof
    assume un: "unused_code ?h user x"
    obtain y where y: "y \<in> set (adb_recovery_codes db)"
      and xy: "x = (if rec_id y = rec_id r then y\<lparr>rec_used_at := Some (ae_now env)\<rparr> else y)"
      using x unfolding upd set_update_where by blast
    have "rec_id y \<noteq> rec_id r" using un xy by (auto simp: unused_code_def)
    with xy un have "unused_code ?h user y" by simp
    then have "?key y = ?key r" using mem(2) by (simp add: unused_code_def)
    then have "y = r" using unique_key.unique_eq[OF u y mem(1)] by simp
    then show False using \<open>rec_id y \<noteq> rec_id r\<close> by simp
  qed
  then show ?thesis by (simp add: find_None_iff)
qed

lemma verify_mfa_by_recovery:
  assumes "verify_mfa_challenge env req db = (Inr r, db1)" and "auth_db_ok db"
    and "truthy (mfa_totp_code req) = None" and "truthy (mfa_recovery_code req) = Some code"
  shows "\<exists>c. List.find (\<lambda>c. chl_token_hash c = sha256 (ae_crypto env) (mfa_challenge_token req))
      (adb_challenges db) = Some c \<and>
    List.find (unused_code (hash_recovery_code (ae_crypto env) code) (chl_user_id c)) (adb_recovery_codes db1) = None"
proof -
  obtain c where c: "List.find (\<lambda>c. chl_token_hash c = sha256 (ae_crypto env) (mfa_challenge_token req))
      (adb_challenges db) = Some c"
    using assms(1) by (auto simp: verify_mfa_challenge_def split: option.splits)
  with assms obtain dba dbb session tokens where
    recovery: "use_recovery_code env code (chl_user_id c) db = (Inr True, dba)" and
    consume: "on_challenges (update_unique ''MfaChallenge'' challenge_indexes
         (\<lambda>x. chl_id x = chl_id c) (\<lambda>x. x\<lparr>chl_consumed_at := Some (ae_now env)\<rparr>)) dba = (Inr (), dbb)" and
    session: "create_session env (mfa_ip req) (chl_organization_id c) (chl_tenant_id c)
         (mfa_agent req) (chl_user_id c) dbb = (Inr (session, tokens), db1)"
    unfolding verify_mfa_challenge_def
    by (auto simp del: if_split_asm split: option.splits if_splits prod.splits)
  have "adb_recovery_codes db1 = adb_recovery_codes dbb" "adb_recovery_codes dbb = adb_recovery_codes dba"
    using session consume by (auto simp: create_session_def statement_defs)
  then show ?thesis using use_recovery_code_once[OF assms(2) recovery] c by simp
qed

text \<open>
  A recovery code is good for one login: after a challenge of a user has been answered
  with it, answering another challenge of the same user with that code alone fails and changes
  nothing.
\<close>

theorem recovery_code_single_use:
  assumes "auth_db_ok db" and "verify_mfa_challenge env req db = (Inr r, db1)"
    and "truthy (mfa_totp_code req) = None" and "truthy (mfa_recovery_code req) = Some code"
    and "c \<in> set (adb_challenges db)" and "chl_token_hash c = sha256 (ae_crypto env) (mfa_challenge_token req)"
    and "c2 \<in> set (adb_challenges db1)" and "chl_token_hash c2 = sha256 (ae_crypto env2) (mfa_challenge_token req2)"
    and "chl_user_id c2 = chl_user_id c" and "ae_crypto env2 = ae_crypto env"
    and "truthy (mfa_totp_code req2) = None" and "truthy (mfa_recovery_code req2) = Some code"
  shows "\<exists>e \<in> {''MFA_CHALLENGE_EXPIRED'', ''MFA_NOT_CONFIGURED'', ''INVALID_MFA_CODE''}.
    verify_mfa_challenge env2 req2 db1 = (Inl (Failure e), db1)"
proof -
  have none: "List.find (unused_code (hash_recovery_code (ae_crypto env) code) (chl_user_id c))
      (adb_recovery_codes db1) = None"
    using verify_mfa_by_recovery[OF assms(2,1,3,4)] find_by_challenge[OF assms(1,5)] assms(6) by auto
  have ok1: "auth_db_ok db1"
    using keepsD[OF upheld_verify_mfa[of "{}" "{}"] _ assms(2)] assms(1) by (simp add: upheld_def)
  have c2: "List.find (\<lambda>x. chl_token_hash x = sha256 (ae_crypto env2) (mfa_challenge_token req2))
      (adb_challenges db1) = Some c2"
    using find_by_challenge[OF ok1 assms(7)] assms(8) by simp
  have use: "use_recovery_code env2 code (chl_user_id c2) db1 = (Inr False, db1)"
    using none assms(9,10) by (simp add: use_recovery_code_def then_do_def ask_def give_def)
  show ?thesis
  proof (cases "chl_consumed_at c2 \<noteq> None \<or> chl_expires_at c2 < ae_now env2")
    case True
    then show ?thesis using c2 by (auto simp: verify_mfa_challenge_def then_do_def ask_def throw_def)
  next
    case False
    then show ?thesis using c2 use assms(11,12)
      by (simp add: verify_mfa_challenge_def then_do_def ask_def throw_def give_def split: option.splits)
  qed
qed

theorem recovery_code_single_use_witness:
  "\<exists>e \<in> {''MFA_CHALLENGE_EXPIRED'', ''MFA_NOT_CONFIGURED'', ''INVALID_MFA_CODE''}.
     verify_mfa_challenge (sample_auth_env 6) (bob_request ''c2'') (snd bob_verified) =
       (Inl (Failure e), snd bob_verified)"
proof -
  have "adb_challenges (snd bob_verified) =
      [(sample_challenge ''c1'' ''bob'')\<lparr>chl_consumed_at := Some 5\<rparr>, sample_challenge ''c2'' ''bob'']"
    by code_simp
  then show ?thesis
    by (intro recovery_code_single_use[OF sample_auth_db_ok bob_verified_ok, where
          c = "sample_challenge ''c1'' ''bob''" and ?c2.0 = "sample_challenge ''c2'' ''bob''" and code = "''R1''"])
      (simp_all add: bob_request_def sample_auth_db_def sample_challenge_def sample_auth_env_def sample_crypto_def)
qed

subsection \<open>API keys\<close>

lemma find_by_hash:
  "auth_db_ok db \<Longrightarrow> k \<in> set (adb_api_keys db) \<Longrightarrow>
     List.find (\<lambda>x. key_hash x = key_hash k) (adb_api_keys db) = Some k"
  using api_key_by_hash.unique_find[OF unique_columns(5)] by simp

lemma touch_api_key:
  assumes "auth_db_ok db" "k \<in> set (adb_api_keys db)"
  shows "\<exists>rows. update_api_key (key_id k) (\<lambda>x. x\<lparr>key_last_used_at := t\<rparr>) db =
    (Inr (), db\<lparr>adb_api_keys := rows\<rparr>)"
proof -
  have "indexes_ok api_key_indexes
      (update_where (\<lambda>x. key_id x = key_id k) (\<lambda>x. x\<lparr>key_last_used_at := t\<rparr>) (adb_api_keys db))"
    by (rule indexes_ok_update_keep) (use assms(1) in \<open>auto simp: auth_db_ok_def api_key_indexes_def\<close>)
  then show ?thesis using assms(2)
    by (auto simp: update_api_key_def on_api_keys_def update_unique_Inr)
qed

definition key_context :: "api_key_row \<Rightarrow> string \<Rightarrow> authenticated_context" where
  "key_context k organization = \<lparr>ctx_api_key_id = Some (key_id k), ctx_auth_type = ApiKeyAuth,
     ctx_organization_id = organization, ctx_session_id = None, ctx_tenant_id = key_tenant_id k,
     ctx_user_id = key_user_id k\<rparr>"

lemma frame_api_keys:
  "active_user u (db\<lparr>adb_api_keys := rows\<rparr>) = active_user u db"
  "resolve_organization_id t (db\<lparr>adb_api_keys := rows\<rparr>) = resolve_organization_id t db"
  by (simp_all add: active_user_def find_user_def resolve_organization_id_def find_tenant_by_reference_def)

text \<open>
  A presented API key decides alone, whatever session token comes with it: it
  authenticates exactly when a row stores its hash, the key is active, not revoked and past neither
  its expiry nor its rotation grace, its tenant resolves to an organization and its user exists and
  is not suspended.
\<close>

theorem api_key_authentication_iff:
  assumes "auth_db_ok db" and "token \<noteq> []"
  shows "fst (authenticate_request env (Some token) session_token db) = Inr (Some ctx) \<longleftrightarrow>
    (\<exists>k \<in> set (adb_api_keys db). \<exists>organization. key_hash k = sha256 (ae_crypto env) token \<and>
       api_key_usable (ae_now env) k \<and> key_user_id k \<noteq> [] \<and> key_tenant_id k \<noteq> [] \<and>
       resolve_organization_id (key_tenant_id k) db = Some organization \<and> organization \<noteq> [] \<and>
       active_user (key_user_id k) db \<and> ctx = key_context k organization)"
proof -
  have eq: "authenticate_request env (Some token) session_token db = authenticate_api_key env token db"
    using assms(2) by (cases token) (simp_all add: authenticate_request_def)
  show ?thesis
  proof (cases "List.find (\<lambda>k. key_hash k = sha256 (ae_crypto env) token) (adb_api_keys db)")
    case None
    then have "\<not> (\<exists>k \<in> set (adb_api_keys db). key_hash k = sha256 (ae_crypto env) token)"
      by (auto simp: find_None_iff)
    then show ?thesis using None unfolding eq
      by (auto simp: authenticate_api_key_def introspect_api_key_def then_do_def ask_def give_def)
  next
    case (Some k)
    then have k: "k \<in> set (adb_api_keys db)" "key_hash k = sha256 (ae_crypto env) token"
      using find_Some_iff_mem by fastforce+
    have only: "x = k" if "x \<in> set (adb_api_keys db)" "key_hash x = sha256 (ae_crypto env) token" for x
      using find_by_hash[OF assms(1) that(1)] that(2) Some by simp
    obtain rows where t: "update_api_key (key_id k) (\<lambda>x. x\<lparr>key_last_used_at := Some (ae_now env)\<rparr>) db =
        (Inr (), db\<lparr>adb_api_keys := rows\<rparr>)"
      using touch_api_key[OF assms(1) k(1)] by blast
    have "fst (authenticate_api_key env token db) = Inr (Some ctx) \<longleftrightarrow>
        api_key_usable (ae_now env) k \<and> key_user_id k \<noteq> [] \<and> key_tenant_id k \<noteq> [] \<and>
        (\<exists>organization. resolve_organization_id (key_tenant_id k) db = Some organization \<and>
          organization \<noteq> [] \<and> active_user (key_user_id k) db \<and> ctx = key_context k organization)"
    proof (cases "api_key_usable (ae_now env) k")
      case True
      show ?thesis
        using True Some t
        by (auto simp: authenticate_api_key_def introspect_api_key_def then_do_def ask_def give_def
            frame_api_keys key_context_def truthy_def split: option.splits)
    next
      case False
      then show ?thesis using Some
        by (simp add: authenticate_api_key_def introspect_api_key_def then_do_def ask_def give_def)
    qed
    also have "\<dots> \<longleftrightarrow> (\<exists>k \<in> set (adb_api_keys db). \<exists>organization. key_hash k = sha256 (ae_crypto env) token \<and>
       api_key_usable (ae_now env) k \<and> key_user_id k \<noteq> [] \<and> key_tenant_id k \<noteq> [] \<and>
       resolve_organization_id (key_tenant_id k) db = Some organization \<and> organization \<noteq> [] \<and>
       active_user (key_user_id k) db \<and> ctx = key_context k organization)"
      using k only by blast
    finally show ?thesis unfolding eq .
  qed
qed

theorem api_key_authentication_iff_witness:
  "fst (authenticate_request (sample_auth_env 5) (Some ''bh360_live_k1'') None sample_auth_db) =
     Inr (Some (key_context (sample_key ''k1'' ''bob'' None) ''o1''))"
  by (rule api_key_authentication_iff[OF sample_auth_db_ok, THEN iffD2], simp)
    (rule bexI[of _ "sample_key ''k1'' ''bob'' None"], rule exI[of _ "''o1''"], code_simp,
      simp add: sample_auth_db_def)

lemma rotate_success:
  assumes "auth_db_ok db" and "rotate_tenant_api_key env i organization user db = (Inr (new_id, text), db1)"
    and "k \<in> set (adb_api_keys db)" and "owned_key i organization user k"
  shows "text = new_key_text env \<and>
    adb_api_keys db1 = update_where (\<lambda>x. key_id x = i) (\<lambda>x. x\<lparr>
        key_grace_expires_at := Some (now_plus_hours (ae_now env) (cfg_rotation_grace_hours (ae_config env))),
        key_revoked_at := None, key_status := KeyActive\<rparr>) (adb_api_keys db) @
      [(new_api_key env (key_label k) organization (key_scopes k) (key_tenant_id k) user
        (Some i))\<lparr>key_prefix := key_prefix k\<rparr>]"
proof -
  obtain c where c: "List.find (owned_key i organization user) (adb_api_keys db) = Some c"
    using assms(2) by (auto simp: rotate_tenant_api_key_def split: option.splits)
  then have c_mem: "c \<in> set (adb_api_keys db)" "owned_key i organization user c"
    using find_Some_iff_mem by fastforce+
  have "c = k"
    using api_key_by_id.unique_eq[OF unique_columns(4)[OF assms(1)] c_mem(1) assms(3)] c_mem(2) assms(4)
    by (simp add: owned_key_def)
  then show ?thesis using assms(2,4) c
    by (auto simp: rotate_tenant_api_key_def update_api_key_def on_api_keys_def update_unique_Inr
        create_row_Inr owned_key_def)
qed

text \<open>
  Rotating an API key makes a new key, valid at once with the same scopes, and leaves
  the old one valid until the end of the grace period, unless its own expiry is earlier. This holds
  for every key its owner names, a revoked one included: \<open>rotateTenantApiKey\<close> does not look at the
  status and clears the revocation, so rotating a revoked key makes its old text authenticate again.
\<close>

theorem rotated_key_lives_through_grace:
  assumes "auth_db_ok db" and "rotate_tenant_api_key env i organization user db = (Inr (new_id, text), db1)"
    and "k \<in> set (adb_api_keys db)" and "owned_key i organization user k"
  shows "(\<exists>old \<in> set (adb_api_keys db1). key_id old = i \<and> key_hash old = key_hash k \<and>
      (\<forall>now. api_key_usable now old \<longleftrightarrow> \<not> past now (key_expires_at k) \<and>
         now \<le> now_plus_hours (ae_now env) (cfg_rotation_grace_hours (ae_config env)))) \<and>
    (\<exists>new \<in> set (adb_api_keys db1). key_hash new = sha256 (ae_crypto env) text \<and>
      key_scopes new = key_scopes k \<and> key_rotated_from new = Some i \<and> (\<forall>now. api_key_usable now new))"
proof -
  let ?f = "\<lambda>x. x\<lparr>
        key_grace_expires_at := Some (now_plus_hours (ae_now env) (cfg_rotation_grace_hours (ae_config env))),
        key_revoked_at := None, key_status := KeyActive\<rparr>"
  let ?n = "(new_api_key env (key_label k) organization (key_scopes k) (key_tenant_id k) user
      (Some i))\<lparr>key_prefix := key_prefix k\<rparr>"
  note r = rotate_success[OF assms]
  have "?f k \<in> set (adb_api_keys db1)"
    using r assms(3,4) by (auto simp: set_update_where owned_key_def intro!: image_eqI[of _ _ k])
  then have old: "\<exists>old \<in> set (adb_api_keys db1). key_id old = i \<and> key_hash old = key_hash k \<and>
      (\<forall>now. api_key_usable now old \<longleftrightarrow> \<not> past now (key_expires_at k) \<and>
         now \<le> now_plus_hours (ae_now env) (cfg_rotation_grace_hours (ae_config env)))"
    using assms(4)
    by (intro bexI[of _ "?f k"]) (auto simp: api_key_usable_def past_def owned_key_def not_less)
  have "?n \<in> set (adb_api_keys db1)" using r by simp
  then have new: "\<exists>new \<in> set (adb_api_keys db1). key_hash new = sha256 (ae_crypto env) text \<and>
      key_scopes new = key_scopes k \<and> key_rotated_from new = Some i \<and> (\<forall>now. api_key_usable now new)"
    by (intro bexI[of _ ?n])
      (use r in \<open>simp_all add: new_api_key_def new_key_text_def create_api_key_def Let_def api_key_usable_def past_def\<close>)
  show ?thesis using old new ..
qed

definition bob_rotated :: "(api_error + string \<times> string) \<times> auth_db" where
  "bob_rotated = rotate_tenant_api_key (sample_auth_env 5) ''k2'' ''o1'' ''bob'' sample_auth_db"

text \<open>The witness rotates a revoked key.\<close>

theorem rotated_key_lives_through_grace_witness:
  "\<not> api_key_usable 5 (sample_key ''k2'' ''bob'' (Some 1)) \<and>
   (\<exists>old \<in> set (adb_api_keys (snd bob_rotated)). key_id old = ''k2'' \<and> key_hash old = ''bh360_live_k2#'' \<and>
      (\<forall>now. api_key_usable now old \<longleftrightarrow> now \<le> 86400005))"
proof -
  have "fst bob_rotated = Inr (''k9'', new_key_text (sample_auth_env 5))" by code_simp
  then have "rotate_tenant_api_key (sample_auth_env 5) ''k2'' ''o1'' ''bob'' sample_auth_db =
      (Inr (''k9'', new_key_text (sample_auth_env 5)), snd bob_rotated)"
    by (simp add: bob_rotated_def prod_eq_iff)
  from rotated_key_lives_through_grace[OF sample_auth_db_ok this, of "sample_key ''k2'' ''bob'' (Some 1)"]
  show ?thesis
    by (simp add: sample_auth_db_def sample_key_def owned_key_def past_def sample_auth_env_def sample_auth_config_def
        now_plus_hours_def api_key_usable_def)
qed

end
