(* ===== verification/UsersCorrect.thy ===== *)
theory UsersCorrect
  imports AuthFactors
begin

text \<open>
  What the routes of the users module guarantee: nobody assigns or changes a role above what the
  own role may manage, a removed member and a suspended user lose their access; and what they leave
  open, the second-factor challenges of a removed member.
\<close>

subsection \<open>Roles\<close>

lemma assert_manageable_target_Inr [simp]:
  "assert_manageable_target actor next organization target db = (Inr t, db') \<longleftrightarrow>
     db' = db \<and> actor \<noteq> target \<and> get_role_for_user organization target db = Some t \<and>
     (\<exists>a. get_role_for_user organization actor db = Some a \<and> can_manage_role a t \<and>
        (case next of None \<Rightarrow> True | Some n \<Rightarrow> can_manage_role a n))"
  by (auto simp: assert_manageable_target_def split: option.splits if_splits)

lemma resolve_organization_context_Inr:
  "resolve_organization_context reference db = (Inr oc, db') \<longleftrightarrow> db' = db \<and>
     (\<exists>t. List.find (\<lambda>t. org_id t = reference \<or> org_tenant_id t = reference) (adb_orgs db) = Some t \<and>
        oc = \<lparr>oc_id = org_id t, oc_tenant_id = org_tenant_id t\<rparr>)"
  by (auto simp: resolve_organization_context_def split: option.splits)

lemma or_throw_Inr [simp]: "or_throw r db = (Inr a, db') \<longleftrightarrow> r = Inr a \<and> db' = db"
  by (auto simp: or_throw_def split: sum.splits)

lemma can_manage_role_at_most_member:
  "can_manage_role ADMIN r \<Longrightarrow> r \<le> MEMBER"
  by (cases r) (auto simp: can_manage_role_def less_eq_role_def)

lemma can_manage_role_needs_admin: "can_manage_role a r \<Longrightarrow> ADMIN \<le> a"
  by (cases a) (auto simp: can_manage_role_def less_eq_role_def)

text \<open>The tenant the request acts in, as the routes resolve it.\<close>

definition acting_organization :: "request_context \<Rightarrow> auth_db \<Rightarrow> string \<Rightarrow> bool" where
  "acting_organization rq db organization \<longleftrightarrow> (\<exists>reference t. truthy (rq_tenant_id rq) = Some reference \<and>
     List.find (\<lambda>t. org_id t = reference \<or> org_tenant_id t = reference) (adb_orgs db) = Some t \<and>
     organization = org_id t)"

lemma find_membership_update:
  "find_membership o1 u1 (db\<lparr>adb_memberships := update_where
       (\<lambda>m. mem_organization_id m = organization \<and> mem_user_id m = user) (\<lambda>m. m\<lparr>mem_role := r\<rparr>)
       (adb_memberships db)\<rparr>) =
   map_option (\<lambda>m. if mem_organization_id m = organization \<and> mem_user_id m = user
     then m\<lparr>mem_role := r\<rparr> else m) (find_membership o1 u1 db)"
  by (simp add: find_membership_def find_update_where)

text \<open>
  Property C37. A role change that succeeds stays within the caller's authority: the caller is not
  the target, both are active members of the organization the request acts in, the caller's role may
  manage the target's old role and the new one, and nobody else's membership changes. In particular
  an ADMIN only ever moves MEMBERs and READONLYs among these two roles.
\<close>

theorem role_change_within_authority:
  assumes "update_role_route rq new_role param db = (Inr m, db')"
  shows "\<exists>actor target organization a t. truthy (rq_user_id rq) = Some actor \<and> read_user_id param = Inr target \<and>
    acting_organization rq db organization \<and> actor \<noteq> target \<and>
    get_role_for_user organization actor db = Some a \<and> get_role_for_user organization target db = Some t \<and>
    can_manage_role a t \<and> can_manage_role a new_role \<and>
    get_role_for_user organization target db' = Some new_role \<and>
    (\<forall>o' u'. (o', u') \<noteq> (organization, target) \<longrightarrow> find_membership o' u' db' = find_membership o' u' db) \<and>
    (a = ADMIN \<longrightarrow> t \<le> MEMBER \<and> new_role \<le> MEMBER)"
proof -
  obtain reference actor where rq: "truthy (rq_tenant_id rq) = Some reference" "truthy (rq_user_id rq) = Some actor"
    using assms
    by (auto simp: update_role_route_def admin_session_def handle_role_update_def no_session_def
        split: option.splits)
  with assms obtain tn target t where
    tn: "List.find (\<lambda>t. org_id t = reference \<or> org_tenant_id t = reference) (adb_orgs db) = Some tn" and
    target: "read_user_id param = Inr target" and
    manage: "assert_manageable_target actor (Some new_role) (org_id tn) target db = (Inr t, db)" and
    upd: "update_user_role_with_audit actor (org_id tn) new_role target db = (Inr m, db')"
    by (auto simp: update_role_route_def admin_session_def handle_role_update_def
        resolve_organization_context_Inr)
  let ?org = "org_id tn"
  obtain a where a: "actor \<noteq> target" "get_role_for_user ?org target db = Some t"
    "get_role_for_user ?org actor db = Some a" "can_manage_role a t" "can_manage_role a new_role"
    using manage by auto
  have mem: "find_membership o' u' db' = map_option (\<lambda>m. if mem_organization_id m = ?org \<and> mem_user_id m = target
      then m\<lparr>mem_role := new_role\<rparr> else m) (find_membership o' u' db)" for o' u'
  proof -
    have "adb_memberships db' = update_where
        (\<lambda>m. mem_organization_id m = ?org \<and> mem_user_id m = target) (\<lambda>m. m\<lparr>mem_role := new_role\<rparr>)
        (adb_memberships db)"
      using upd by (auto simp: update_user_role_with_audit_def update_membership_def create_audit_log_def
          statement_defs update_unique_Inr split: option.splits)
    then show ?thesis using find_membership_update[where db = db and organization = ?org and user = target and r = new_role, of o' u']
      by (simp add: find_membership_def)
  qed
  have keys: "mem_organization_id x = o' \<and> mem_user_id x = u'" if "find_membership o' u' db = Some x" for o' u' x
    using that find_Some_iff_mem by (fastforce simp: find_membership_def)
  have "get_role_for_user ?org target db' = Some new_role"
    using a(2) keys[of ?org target] by (auto simp: get_role_for_user_def mem split: option.splits if_splits)
  moreover have "find_membership o' u' db' = find_membership o' u' db" if "(o', u') \<noteq> (?org, target)" for o' u'
    using that keys[of o' u'] by (cases "find_membership o' u' db") (auto simp: mem)
  moreover have "acting_organization rq db ?org" using rq(1) tn by (auto simp: acting_organization_def)
  ultimately show ?thesis using rq(2) target a can_manage_role_at_most_member by blast
qed

definition alice_context :: request_context where
  "alice_context = empty_context\<lparr>rq_auth_type := Some SessionAuth, rq_organization_id := Some ''o1'',
     rq_session_id := Some ''s0'', rq_tenant_id := Some ''t1'', rq_user_id := Some ''alice''\<rparr>"

definition bob_demoted :: "(api_error + membership_row) \<times> auth_db" where
  "bob_demoted = update_role_route alice_context READONLY (OneParam ''bob'') sample_auth_db"

theorem role_change_within_authority_witness:
  "\<exists>actor target organization a t. truthy (rq_user_id alice_context) = Some actor \<and>
    read_user_id (OneParam ''bob'') = Inr target \<and>
    acting_organization alice_context sample_auth_db organization \<and> actor \<noteq> target \<and>
    get_role_for_user organization actor sample_auth_db = Some a \<and>
    get_role_for_user organization target sample_auth_db = Some t \<and>
    can_manage_role a t \<and> can_manage_role a READONLY \<and>
    get_role_for_user organization target (snd bob_demoted) = Some READONLY \<and>
    (\<forall>o' u'. (o', u') \<noteq> (organization, target) \<longrightarrow>
       find_membership o' u' (snd bob_demoted) = find_membership o' u' sample_auth_db) \<and>
    (a = ADMIN \<longrightarrow> t \<le> MEMBER \<and> READONLY \<le> MEMBER)"
proof -
  have "fst bob_demoted = Inr ((sample_member ''m2'' ''t1'' ''o1'' ''bob'' MEMBER)\<lparr>mem_role := READONLY\<rparr>)"
    by code_simp
  then have "update_role_route alice_context READONLY (OneParam ''bob'') sample_auth_db =
      (Inr ((sample_member ''m2'' ''t1'' ''o1'' ''bob'' MEMBER)\<lparr>mem_role := READONLY\<rparr>), snd bob_demoted)"
    by (simp add: bob_demoted_def prod_eq_iff)
  from role_change_within_authority[OF this] show ?thesis .
qed

subsection \<open>Removal\<close>

lemma revoke_all_open:
  assumes "s \<in> set (update_where (open_session_of org u) (\<lambda>s. s\<lparr>ses_revoked_at := Some now\<rparr>) rows)"
    and "ses_organization_id s = org" "ses_user_id s = u"
  shows "ses_revoked_at s \<noteq> None"
  using update_where_mem[OF assms(1)]
proof
  assume "\<exists>r0 \<in> set rows. open_session_of org u r0 \<and> s = r0\<lparr>ses_revoked_at := Some now\<rparr>"
  then obtain r0 where "s = r0\<lparr>ses_revoked_at := Some now\<rparr>" by blast
  then show ?thesis by simp
next
  assume "s \<in> set rows \<and> \<not> open_session_of org u s"
  then show ?thesis using assms(2,3) unfolding open_session_of_def by simp
qed

lemma revoke_all_keys:
  assumes "k \<in> set (update_where (\<lambda>k. key_organization_id k = org \<and> key_user_id k = u)
      (\<lambda>k. k\<lparr>key_revoked_at := Some now, key_status := KeyRevoked\<rparr>) rows)"
    and "key_organization_id k = org" "key_user_id k = u"
  shows "\<not> api_key_usable t k"
  using update_where_mem[OF assms(1)]
proof
  assume "\<exists>r0 \<in> set rows. (key_organization_id r0 = org \<and> key_user_id r0 = u) \<and>
    k = r0\<lparr>key_revoked_at := Some now, key_status := KeyRevoked\<rparr>"
  then obtain r0 where "k = r0\<lparr>key_revoked_at := Some now, key_status := KeyRevoked\<rparr>" by blast
  then show ?thesis unfolding api_key_usable_def by simp
next
  assume "k \<in> set rows \<and> \<not> (key_organization_id k = org \<and> key_user_id k = u)"
  then show ?thesis using assms(2,3) by simp
qed

text \<open>
  Removing a member ends the access: afterwards the user has no role in the organization
  the request acts in, every session the user had there is revoked, and none of the user's API keys
  of that organization is usable at any time.
\<close>

theorem removed_member_loses_access:
  assumes "remove_user_route now rq param db = (Inr (), db')"
  shows "\<exists>target organization. read_user_id param = Inr target \<and> acting_organization rq db organization \<and>
    get_role_for_user organization target db' = None \<and>
    (\<forall>s \<in> set (adb_sessions db'). ses_organization_id s = organization \<longrightarrow> ses_user_id s = target \<longrightarrow>
       ses_revoked_at s \<noteq> None) \<and>
    (\<forall>k \<in> set (adb_api_keys db'). key_organization_id k = organization \<longrightarrow> key_user_id k = target \<longrightarrow>
       (\<forall>t. \<not> api_key_usable t k))"
proof -
  obtain reference actor where rq: "truthy (rq_tenant_id rq) = Some reference" "truthy (rq_user_id rq) = Some actor"
    using assms by (auto simp: remove_user_route_def admin_session_def no_session_def split: option.splits)
  with assms obtain tn target where
    tn: "List.find (\<lambda>t. org_id t = reference \<or> org_tenant_id t = reference) (adb_orgs db) = Some tn" and
    target: "read_user_id param = Inr target" and
    revoke: "revoke_user_access now actor (org_id tn) (org_tenant_id tn) target db = (Inr (), db')"
    by (auto simp: remove_user_route_def admin_session_def resolve_organization_context_Inr)
  let ?org = "org_id tn"
  have rows: "adb_memberships db' = update_where (\<lambda>m. mem_organization_id m = ?org \<and> mem_user_id m = target)
        (\<lambda>x. x\<lparr>mem_status := MembershipRevoked\<rparr>) (adb_memberships db)"
    "adb_sessions db' = update_where (open_session_of ?org target) (\<lambda>s. s\<lparr>ses_revoked_at := Some now\<rparr>) (adb_sessions db)"
    "adb_api_keys db' = update_where (\<lambda>k. key_organization_id k = ?org \<and> key_user_id k = target)
        (\<lambda>k. k\<lparr>key_revoked_at := Some now, key_status := KeyRevoked\<rparr>) (adb_api_keys db)"
    using revoke
    by (auto simp: revoke_user_access_def update_membership_def revoke_api_keys_of_def create_audit_log_def
        statement_defs update_unique_Inr update_many_Inr split: option.splits)
  have "find_membership ?org target db' = map_option (\<lambda>x. if mem_organization_id x = ?org \<and> mem_user_id x = target
      then x\<lparr>mem_status := MembershipRevoked\<rparr> else x) (find_membership ?org target db)"
    unfolding find_membership_def rows(1) by (rule find_update_where) simp
  then have "get_role_for_user ?org target db' = None"
    by (auto simp: get_role_for_user_def find_membership_def dest!: find_Some_iff_mem split: option.splits)
  moreover have "\<forall>s \<in> set (adb_sessions db'). ses_organization_id s = ?org \<longrightarrow> ses_user_id s = target \<longrightarrow>
       ses_revoked_at s \<noteq> None"
    unfolding rows(2) using revoke_all_open by blast
  moreover have "\<forall>k \<in> set (adb_api_keys db'). key_organization_id k = ?org \<longrightarrow> key_user_id k = target \<longrightarrow>
       (\<forall>t. \<not> api_key_usable t k)"
    unfolding rows(3) using revoke_all_keys by blast
  moreover have "acting_organization rq db ?org" using rq(1) tn by (auto simp: acting_organization_def)
  ultimately show ?thesis
    by (intro exI[of _ target] exI[of _ ?org] conjI) (use target in simp_all)
qed

definition bob_removed :: "(api_error + unit) \<times> auth_db" where
  "bob_removed = remove_user_route 5 alice_context (OneParam ''bob'') sample_auth_db"

lemma bob_removed_ok: "remove_user_route 5 alice_context (OneParam ''bob'') sample_auth_db = (Inr (), snd bob_removed)"
proof -
  have "fst bob_removed = Inr ()" by code_simp
  then show ?thesis by (simp add: bob_removed_def prod_eq_iff)
qed

theorem removed_member_loses_access_witness:
  "\<exists>target organization. read_user_id (OneParam ''bob'') = Inr target \<and>
    acting_organization alice_context sample_auth_db organization \<and>
    get_role_for_user organization target (snd bob_removed) = None \<and>
    (\<forall>s \<in> set (adb_sessions (snd bob_removed)). ses_organization_id s = organization \<longrightarrow> ses_user_id s = target \<longrightarrow>
       ses_revoked_at s \<noteq> None) \<and>
    (\<forall>k \<in> set (adb_api_keys (snd bob_removed)). key_organization_id k = organization \<longrightarrow> key_user_id k = target \<longrightarrow>
       (\<forall>t. \<not> api_key_usable t k))"
  by (rule removed_member_loses_access[OF bob_removed_ok])

subsection \<open>Suspension\<close>

text \<open>No credential of any kind authenticates a user who is not active.\<close>

lemma introspect_frame:
  assumes "introspect_api_key env token db = (r, db')"
  shows "adb_users db' = adb_users db"
proof -
  have "keeps (\<lambda>x. adb_users x = adb_users db) (introspect_api_key env token)"
    unfolding introspect_api_key_def update_api_key_def statement_defs
    by (intro keeps_cases keeps_on_table) simp
  from keepsD[OF this refl assms] show ?thesis .
qed

lemma authenticated_active:
  assumes "authenticate_request env k t db = (Inr (Some ctx), db')"
  shows "active_user (ctx_user_id ctx) db"
proof (cases "truthy k")
  case (Some key)
  with assms obtain i db1 user where
    i: "introspect_api_key env key db = (Inr i, db1)" and
    u: "active_user user db1" "ctx_user_id ctx = user"
    by (auto simp: authenticate_request_def authenticate_api_key_def
        split: option.splits prod.splits bool.splits if_splits)
  then show ?thesis using introspect_frame[OF i] by (simp add: active_user_def find_user_def)
next
  case None
  with assms show ?thesis
    by (auto simp: authenticate_request_def authenticate_session_def split: option.splits if_splits)
qed

text \<open>
  A suspended user is locked out everywhere: after an administrator of one organization
  suspends a user there, no session token and no API key authenticates a request as that user, at any
  time, in any organization, also not in those the administrator has no authority over, since the
  suspension is stored on the user and not on the membership.
\<close>

theorem suspended_user_locked_out:
  assumes "suspend_user_route now rq param db = (Inr (), db')" and "read_user_id param = Inr target"
  shows "case fst (authenticate_request env key token db') of
      Inr (Some ctx) \<Rightarrow> ctx_user_id ctx \<noteq> target | _ \<Rightarrow> True"
proof -
  obtain reference actor where rq: "truthy (rq_tenant_id rq) = Some reference" "truthy (rq_user_id rq) = Some actor"
    using assms(1) by (auto simp: suspend_user_route_def admin_session_def no_session_def split: option.splits)
  with assms(1,2) obtain o' db1 db2 n where
    suspend: "suspend_user now actor o' target db = (Inr (), db1)" and
    sessions: "revoke_all_sessions now o' target db1 = (Inr n, db2)" and
    keys: "revoke_api_keys_of now o' target db2 = (Inr (), db')"
    by (auto simp: suspend_user_route_def admin_session_def resolve_organization_context_Inr)
  have "adb_users db' = adb_users db2" "adb_users db2 = adb_users db1"
    using keys sessions
    by (auto simp: revoke_api_keys_of_def revoke_all_sessions_def revoke_all_sessions_for_identity_def statement_defs)
  moreover have "adb_users db1 = update_where (\<lambda>u. user_id u = target)
      (\<lambda>u. u\<lparr>user_status := UserSuspended, user_suspended_at := Some now\<rparr>) (adb_users db)"
    using suspend by (auto simp: suspend_user_def update_user_def create_audit_log_def statement_defs
        update_unique_Inr split: option.splits)
  ultimately have "find_user target db' = map_option (\<lambda>u. if user_id u = target
      then u\<lparr>user_status := UserSuspended, user_suspended_at := Some now\<rparr> else u) (find_user target db)"
    unfolding find_user_def by (simp add: find_update_where)
  then have "\<not> active_user target db'"
    by (auto simp: active_user_def find_user_def dest!: find_Some_iff_mem split: option.splits)
  moreover have "active_user (ctx_user_id ctx) db'"
    if "fst (authenticate_request env key token db') = Inr (Some ctx)" for ctx
    using authenticated_active[of env key token db' ctx "snd (authenticate_request env key token db')"] that
    by (simp add: prod_eq_iff)
  ultimately show ?thesis by (auto split: sum.splits option.splits)
qed

definition bob_suspended :: "(api_error + unit) \<times> auth_db" where
  "bob_suspended = suspend_user_route 5 alice_context (OneParam ''bob'') sample_auth_db"

lemma bob_suspended_ok: "suspend_user_route 5 alice_context (OneParam ''bob'') sample_auth_db = (Inr (), snd bob_suspended)"
proof -
  have "fst bob_suspended = Inr ()" by code_simp
  then show ?thesis by (simp add: bob_suspended_def prod_eq_iff)
qed

text \<open>Bob owns another organization; Alice only administers the one where he is a member.\<close>

theorem suspended_user_locked_out_witness:
  "get_role_for_user ''o2'' ''bob'' sample_auth_db = Some OWNER \<and> get_role_for_user ''o2'' ''alice'' sample_auth_db = None \<and>
   (\<forall>env key token. case fst (authenticate_request env key token (snd bob_suspended)) of
      Inr (Some ctx) \<Rightarrow> ctx_user_id ctx \<noteq> ''bob'' | _ \<Rightarrow> True)"
proof (intro conjI allI)
  show "get_role_for_user ''o2'' ''bob'' sample_auth_db = Some OWNER" by code_simp
  show "get_role_for_user ''o2'' ''alice'' sample_auth_db = None" by code_simp
  show "case fst (authenticate_request env key token (snd bob_suspended)) of
      Inr (Some ctx) \<Rightarrow> ctx_user_id ctx \<noteq> ''bob'' | _ \<Rightarrow> True" for env key token
    by (rule suspended_user_locked_out[OF bob_suspended_ok]) code_simp
qed

subsection \<open>Pending challenges\<close>

text \<open>
  Two databases an operation cannot tell apart: it gives the same result on both and leaves them
  indistinguishable.
\<close>

definition same_factors :: "auth_db \<Rightarrow> auth_db \<Rightarrow> bool" where
  "same_factors db db' \<longleftrightarrow> adb_users db = adb_users db' \<and> adb_challenges db = adb_challenges db' \<and>
     adb_recovery_codes db = adb_recovery_codes db' \<and>
     map session_ident (adb_sessions db) = map session_ident (adb_sessions db')"

definition blind :: "(auth_db, 'a) operation \<Rightarrow> bool" where
  "blind m \<longleftrightarrow> (\<forall>db db'. same_factors db db' \<longrightarrow>
     fst (m db) = fst (m db') \<and> same_factors (snd (m db)) (snd (m db')))"

lemma blindI:
  "(\<And>db db'. same_factors db db' \<Longrightarrow> fst (m db) = fst (m db')) \<Longrightarrow>
   (\<And>db db'. same_factors db db' \<Longrightarrow> same_factors (snd (m db)) (snd (m db'))) \<Longrightarrow> blind m"
  by (simp add: blind_def)

lemma blind_give: "blind (give a)" and blind_throw: "blind (throw e)"
  by (simp_all add: blind_def give_def throw_def)

lemma blind_then_do:
  assumes "blind m" and "\<And>a. blind (f a)"
  shows "blind (then_do m f)"
proof -
  have "fst (then_do m f db) = fst (then_do m f db') \<and> same_factors (snd (then_do m f db)) (snd (then_do m f db'))"
    if s: "same_factors db db'" for db db'
  proof (cases "m db"; cases "m db'")
    fix r1 d1 r2 d2 assume eq: "m db = (r1, d1)" "m db' = (r2, d2)"
    have "fst (m db) = fst (m db') \<and> same_factors (snd (m db)) (snd (m db'))"
      using assms(1) s unfolding blind_def by blast
    then have "r1 = r2" "same_factors d1 d2" using eq by simp_all
    then show ?thesis using assms(2) eq
      by (cases r1) (auto simp: then_do_def blind_def)
  qed
  then show ?thesis by (simp add: blind_def)
qed

lemma blind_ask:
  "(\<And>db db'. same_factors db db' \<Longrightarrow> g db = g db') \<Longrightarrow> blind (ask g)"
  by (simp add: blind_def ask_def)

lemma blind_case_option: "blind a \<Longrightarrow> (\<And>x. blind (f x)) \<Longrightarrow> blind (case_option a f v)"
  by (cases v) simp_all

lemma blind_case_prod: "(\<And>x y. blind (g x y)) \<Longrightarrow> blind (case_prod g p)"
  by (cases p) simp

lemma blind_case_bool: "blind a \<Longrightarrow> blind b \<Longrightarrow> blind (case_bool a b c)"
  by (cases c) simp_all

lemma blind_If: "blind a \<Longrightarrow> blind b \<Longrightarrow> blind (if c then a else b)"
  by simp

lemma blind_on_challenges: "blind (on_challenges stmt)"
  by (rule blindI) (auto simp: on_challenges_def on_table_def same_factors_def split: sum.splits)

lemma blind_on_recovery_codes: "blind (on_recovery_codes stmt)"
  by (rule blindI) (auto simp: on_recovery_codes_def on_table_def same_factors_def split: sum.splits)

text \<open>Whether a session can be created depends on the identities in the table only.\<close>

lemma session_commit_ident:
  assumes "map session_ident rows = map session_ident rows'"
  shows "(\<exists>e. commit_rows session_indexes rows = Inl e \<and> commit_rows session_indexes rows' = Inl e) \<or>
    (commit_rows session_indexes rows = Inr rows \<and> commit_rows session_indexes rows' = Inr rows')"
proof -
  have keys: "List.map_filter (\<lambda>r. Some (ses_id r)) rows = List.map_filter (\<lambda>r. Some (ses_id r)) rows'"
    "List.map_filter (\<lambda>r. Some (ses_token r)) rows = List.map_filter (\<lambda>r. Some (ses_token r)) rows'"
    "List.map_filter ses_refresh_token_hash rows = List.map_filter ses_refresh_token_hash rows'"
    using assms
    by (induction rows rows' rule: list_induct2')
      (auto simp: map_filter_simps session_ident_def split: option.splits)
  have "List.find (\<lambda>ix. \<not> index_ok rows ix) session_indexes = List.find (\<lambda>ix. \<not> index_ok rows' ix) session_indexes"
    using keys by (simp add: session_indexes_def index_ok_def)
  then show ?thesis
    unfolding commit_rows_def by (cases "List.find (\<lambda>ix. \<not> index_ok rows' ix) session_indexes") simp_all
qed

lemma blind_create_session_row: "blind (on_sessions (create_row session_indexes r))"
proof -
  have "fst (on_sessions (create_row session_indexes r) db) = fst (on_sessions (create_row session_indexes r) db') \<and>
      same_factors (snd (on_sessions (create_row session_indexes r) db)) (snd (on_sessions (create_row session_indexes r) db'))"
    if s: "same_factors db db'" for db db'
  proof -
    have "map session_ident (adb_sessions db @ [r]) = map session_ident (adb_sessions db' @ [r])"
      using s by (simp add: same_factors_def)
    from session_commit_ident[OF this] show ?thesis
      using s unfolding on_sessions_def on_table_def create_row_def same_factors_def by (elim disjE exE) (simp_all del: commit_rows_Inr)
  qed
  then show ?thesis by (simp add: blind_def)
qed

lemmas blind_rules = blind_case_option blind_case_prod blind_case_bool blind_If blind_then_do blind_give blind_throw blind_on_challenges
  blind_on_recovery_codes blind_create_session_row

lemma blind_verify_mfa: "blind (verify_mfa_challenge env req)"
  unfolding verify_mfa_challenge_def check_totp_def use_recovery_code_def create_session_def
  by (intro blind_rules; rule blind_ask; simp add: same_factors_def find_user_def)

text \<open>
  The removal of a member leaves the member's pending second-factor challenges as they
  were: every challenge gets the same answer after the removal as before it. A removed member who
  still holds an open challenge completes the login and receives a session of the organization, whose
  access token then authenticates.
\<close>

theorem removal_keeps_challenges_answerable:
  assumes "remove_user_route now rq param db = (Inr (), db')"
  shows "fst (verify_mfa_challenge env req db') = fst (verify_mfa_challenge env req db)"
proof -
  have "same_factors db' db"
    using assms
    by (auto simp: remove_user_route_def admin_session_def resolve_organization_context_Inr
        revoke_user_access_def update_membership_def revoke_api_keys_of_def create_audit_log_def
        statement_defs update_unique_Inr update_many_Inr no_session_def same_factors_def update_where_def
        session_ident_def split: option.splits)
  then show ?thesis using blind_verify_mfa by (auto simp: blind_def)
qed

theorem removal_keeps_challenges_answerable_witness:
  "get_role_for_user ''o1'' ''bob'' (snd bob_removed) = None \<and>
   fst (verify_mfa_challenge (sample_auth_env 5) (bob_request ''c1'') (snd bob_removed)) =
     Inr (LoggedIn ''o1'' ''s9'' ''t1'' (issue_tokens (sample_auth_env 5)) ''bob'')"
proof
  show "get_role_for_user ''o1'' ''bob'' (snd bob_removed) = None" by code_simp
  show "fst (verify_mfa_challenge (sample_auth_env 5) (bob_request ''c1'') (snd bob_removed)) =
      Inr (LoggedIn ''o1'' ''s9'' ''t1'' (issue_tokens (sample_auth_env 5)) ''bob'')"
    using removal_keeps_challenges_answerable[OF bob_removed_ok, of "sample_auth_env 5" "bob_request ''c1''"]
    by (simp add: bob_verified_ok)
qed

end
