(* ===== verification/Json.thy ===== *)
theory Json
  imports JsValue
begin

text \<open>
  What the workflow engine uses of \<open>JSON.stringify\<close>, \<open>Number\<close>, property access and dates. A number
  is printed with the decimals of its exact value (at most thirty): the numbers of the program are
  read from decimal text, for which that is the shortest text that reads back.
\<close>

subsection \<open>Printing numbers\<close>

fun decimals :: "nat \<Rightarrow> rat \<Rightarrow> nat" where
  "decimals 0 q = 0"
| "decimals (Suc n) q = (if q = of_int \<lfloor>q\<rfloor> then 0 else Suc (decimals n (q * 10)))"

definition strip_zeros :: "string \<Rightarrow> string" where
  "strip_zeros s = rev (dropWhile (\<lambda>c. c = CHR ''0'') (rev s))"

text \<open>ECMAScript's \<open>Number::toString\<close> for a positive number.\<close>

definition show_positive :: "rat \<Rightarrow> string" where
  "show_positive q =
     (let e = decimals 30 q; m = nat \<lfloor>q * 10 ^ e\<rfloor>; all = show_nat m; ds = strip_zeros all;
          k = int (length ds); n = int (length all) - int e
      in if k \<le> n \<and> n \<le> 21 then ds @ replicate (nat (n - k)) CHR ''0''
         else if 0 < n \<and> n \<le> 21 then take (nat n) ds @ ''.'' @ drop (nat n) ds
         else if - 6 < n \<and> n \<le> 0 then ''0.'' @ replicate (nat (- n)) CHR ''0'' @ ds
         else (if k = 1 then ds else hd ds # ''.'' @ tl ds) @ ''e'' @
           (if 0 < n then ''+'' else ''-'') @ show_nat (nat \<bar>n - 1\<bar>))"

definition show_num :: "js_num \<Rightarrow> string" where
  "show_num x = (case x of NaN \<Rightarrow> ''NaN'' | PosInf \<Rightarrow> ''Infinity'' | NegInf \<Rightarrow> ''-Infinity''
     | Fin q \<Rightarrow> if q = 0 then ''0'' else if q < 0 then CHR ''-'' # show_positive (- q) else show_positive q)"

subsection \<open>JSON.stringify\<close>

definition hex_lower :: "nat \<Rightarrow> char" where
  "hex_lower n = ''0123456789abcdef'' ! n"

definition escape_char :: "char \<Rightarrow> string" where
  "escape_char c =
     (let n = of_char c :: int; b = CHR 0x5C
      in if n = 34 \<or> n = 92 then [b, c]
         else if n = 8 then [b, CHR ''b''] else if n = 9 then [b, CHR ''t'']
         else if n = 10 then [b, CHR ''n''] else if n = 12 then [b, CHR ''f'']
         else if n = 13 then [b, CHR ''r'']
         else if n < 32 then [b, CHR ''u'', CHR ''0'', CHR ''0'', hex_lower (nat (n div 16)), hex_lower (nat (n mod 16))]
         else [c])"

definition quote_json :: "string \<Rightarrow> string" where
  "quote_json s = CHR 0x22 # concat (map escape_char s) @ [CHR 0x22]"

text \<open>\<open>None\<close> is \<open>undefined\<close>: left out of an object, \<open>null\<close> in an array.\<close>

fun stringify :: "js_val \<Rightarrow> string option" where
  "stringify JUndef = None"
| "stringify JNull = Some ''null''"
| "stringify (JBool b) = Some (if b then ''true'' else ''false'')"
| "stringify (JNum x) = Some (case x of Fin q \<Rightarrow> show_num x | _ \<Rightarrow> ''null'')"
| "stringify (JStr s) = Some (quote_json s)"
| "stringify (JArr xs) =
     Some (''['' @ join_with '','' (map (\<lambda>x. or_else (stringify x) ''null'') xs) @ '']'')"
| "stringify (JObj fs) =
     Some (''{'' @ join_with '','' (List.map_filter (\<lambda>x. x)
       (map (\<lambda>(k, v). map_option (\<lambda>t. quote_json k @ '':'' @ t) (stringify v)) fs)) @ ''}'')"

text \<open>The bytes of a text in UTF-8.\<close>

definition utf8_length :: "string \<Rightarrow> int" where
  "utf8_length s = sum_list (map (\<lambda>c. if (of_char c :: int) < 128 then 1 else 2) s)"

subsection \<open>Numbers from values\<close>

text \<open>\<open>Number(v)\<close>; an array or an object is converted to its text first.\<close>

fun js_to_string :: "js_val \<Rightarrow> string" where
  "js_to_string JUndef = ''undefined''"
| "js_to_string JNull = ''null''"
| "js_to_string (JBool b) = (if b then ''true'' else ''false'')"
| "js_to_string (JNum x) = show_num x"
| "js_to_string (JStr s) = s"
| "js_to_string (JArr xs) =
     join_with '','' (map (\<lambda>x. if x = JUndef \<or> x = JNull then [] else js_to_string x) xs)"
| "js_to_string (JObj fs) = ''[object Object]''"

definition js_to_number :: "js_val \<Rightarrow> js_num" where
  "js_to_number v = (case v of
     JUndef \<Rightarrow> NaN | JNull \<Rightarrow> Fin 0 | JBool b \<Rightarrow> (if b then Fin 1 else Fin 0) | JNum x \<Rightarrow> x
   | _ \<Rightarrow> js_number (js_to_string v))"

text \<open>\<open>a === b\<close> where at least one side is a primitive value: objects are equal to none.\<close>

fun strict_equal :: "js_val \<Rightarrow> js_val \<Rightarrow> bool" where
  "strict_equal JUndef b = (b = JUndef)"
| "strict_equal JNull b = (b = JNull)"
| "strict_equal (JBool x) b = (b = JBool x)"
| "strict_equal (JNum x) b = (case b of JNum y \<Rightarrow> num_eq x y | _ \<Rightarrow> False)"
| "strict_equal (JStr x) b = (b = JStr x)"
| "strict_equal (JArr xs) b = False"
| "strict_equal (JObj fs) b = False"

subsection \<open>Property access\<close>

text \<open>The element of an array under a canonical index.\<close>

definition array_index :: "string \<Rightarrow> 'a list \<Rightarrow> 'a option" where
  "array_index k xs = (case parse_digits 10 k of
     Some i \<Rightarrow> if i < length xs \<and> show_nat i = k then Some (xs ! i) else None
   | None \<Rightarrow> None)"

text \<open>\<open>k in v\<close> with \<open>v[k]\<close>: \<open>None\<close> when the property is missing or \<open>v\<close> is not an object.\<close>

definition own_property :: "js_val \<Rightarrow> string \<Rightarrow> js_val option" where
  "own_property v k = (case v of
     JObj fs \<Rightarrow> map_of fs k
   | JArr xs \<Rightarrow> if k = ''length'' then Some (JNum (Fin (of_nat (length xs)))) else array_index k xs
   | _ \<Rightarrow> None)"

subsection \<open>Dates\<close>

text \<open>\<open>toISOString\<close> for the years 0 to 9999: the calendar date of a day number, counted from
  the first of March of the year 0.\<close>

definition civil_date :: "int \<Rightarrow> int \<times> int \<times> int" where
  "civil_date days =
     (let z = days + 719468; era = z div 146097; doe = z mod 146097;
          yoe = (doe - doe div 1460 + doe div 36524 - doe div 146096) div 365;
          doy = doe - (365 * yoe + yoe div 4 - yoe div 100); mp = (5 * doy + 2) div 153;
          d = doy - (153 * mp + 2) div 5 + 1; m = (if mp < 10 then mp + 3 else mp - 9)
      in (yoe + era * 400 + (if m \<le> 2 then 1 else 0), m, d))"

definition pad_zeros :: "nat \<Rightarrow> int \<Rightarrow> string" where
  "pad_zeros n i = (let s = show_nat (nat i) in replicate (n - length s) CHR ''0'' @ s)"

definition iso_string :: "ms \<Rightarrow> string" where
  "iso_string t =
     (let days = t div 86400000; r = t mod 86400000
      in case civil_date days of (y, m, d) \<Rightarrow>
        pad_zeros 4 y @ ''-'' @ pad_zeros 2 m @ ''-'' @ pad_zeros 2 d @ ''T'' @
        pad_zeros 2 (r div 3600000) @ '':'' @ pad_zeros 2 (r div 60000 mod 60) @ '':'' @
        pad_zeros 2 (r div 1000 mod 60) @ ''.'' @ pad_zeros 3 (r mod 1000) @ ''Z'')"

subsection \<open>Fixed decimals\<close>

text \<open>\<open>x.toFixed(d)\<close> as a text, and as the number \<open>Number(x.toFixed(d))\<close> reads from it: the nearest
  decimal, ties away from zero.\<close>

definition fixed_units :: "nat \<Rightarrow> rat \<Rightarrow> int" where
  "fixed_units d q = \<lfloor>q * 10 ^ d + 1 / 2\<rfloor>"

definition to_fixed :: "nat \<Rightarrow> rat \<Rightarrow> rat" where
  "to_fixed d q = (if q < 0 then - of_int (fixed_units d (- q)) else of_int (fixed_units d q)) / 10 ^ d"

definition show_fixed :: "nat \<Rightarrow> rat \<Rightarrow> string" where
  "show_fixed d q =
     (let n = fixed_units d \<bar>q\<bar>
      in (if q < 0 then ''-'' else []) @ show_int (n div 10 ^ d) @
         (if d = 0 then [] else CHR ''.'' # pad_zeros d (n mod 10 ^ d)))"

text \<open>\<open>Math.round(x * 100) / 100\<close>.\<close>

definition round_cents :: "rat \<Rightarrow> rat" where
  "round_cents q = of_int \<lfloor>q * 100 + 1 / 2\<rfloor> / 100"

text \<open>An amount without fractions of a cent.\<close>

definition whole_cents :: "rat \<Rightarrow> bool" where
  "whole_cents q \<longleftrightarrow> q * 100 = of_int \<lfloor>q * 100\<rfloor>"

lemma whole_cents_int: "whole_cents q \<longleftrightarrow> (\<exists>n. q * 100 = of_int n)"
  by (auto simp: whole_cents_def)

lemma whole_cents_add: "whole_cents p \<Longrightarrow> whole_cents q \<Longrightarrow> whole_cents (p + q)"
  unfolding whole_cents_int by (metis distrib_right of_int_add)

lemma whole_cents_0 [simp]: "whole_cents 0"
  by (simp add: whole_cents_def)

lemma floor_half: "\<lfloor>of_int n + 1 / 2 :: rat\<rfloor> = n"
  by (simp add: floor_eq_iff)

lemma round_cents_whole:
  assumes "whole_cents q"
  shows "round_cents q = q"
proof -
  from assms obtain n where n: "q * 100 = of_int n" by (auto simp: whole_cents_int)
  then have "round_cents q = of_int n / 100" by (simp only: round_cents_def n floor_half)
  with n show ?thesis by (simp add: nonzero_divide_eq_eq)
qed

lemma to_fixed_4_whole:
  assumes "whole_cents q"
  shows "to_fixed 4 q = q"
proof -
  from assms obtain n where n: "q * 100 = of_int n" by (auto simp: whole_cents_int)
  have units: "fixed_units 4 p = m * 100" if "p * 100 = of_int m" for p m
  proof -
    from that have "p * 10 ^ 4 = of_int (m * 100)" by simp
    then show ?thesis by (simp only: fixed_units_def floor_half)
  qed
  have "fixed_units 4 q = n * 100" "fixed_units 4 (- q) = - n * 100"
    by (rule units, simp add: n)+
  with n show ?thesis by (auto simp: to_fixed_def nonzero_divide_eq_eq)
qed

lemma whole_cents_round: "whole_cents (round_cents q)"
  unfolding whole_cents_int round_cents_def by (intro exI[of _ "\<lfloor>q * 100 + 1 / 2\<rfloor>"]) simp

end
