(* ===== verification/Interpolation.thy ===== *)
theory Interpolation
  imports Json
begin

text \<open>
  The run-time context of a workflow step and the \<open>{{path}}\<close> templates of its configuration
  (\<open>packages/workflows-core/src/types.ts\<close>, \<open>interpolation/interpolate.ts\<close>).
\<close>

record runtime_context =
  ctx_execution_id :: string
  ctx_steps :: "(string \<times> js_val) list"
  ctx_tenant_id :: string
  ctx_trigger_output :: js_val
  ctx_trigger_type :: string
  ctx_workflow_id :: string

text \<open>The context as the object the paths start from.\<close>

definition context_value :: "runtime_context \<Rightarrow> js_val" where
  "context_value ctx = JObj
     [(''executionId'', JStr (ctx_execution_id ctx)), (''steps'', JObj (ctx_steps ctx)),
      (''tenantId'', JStr (ctx_tenant_id ctx)),
      (''trigger'', JObj [(''output'', ctx_trigger_output ctx), (''type'', JStr (ctx_trigger_type ctx))]),
      (''workflowId'', JStr (ctx_workflow_id ctx))]"

definition prop_of :: "js_val \<Rightarrow> string \<Rightarrow> js_val" where
  "prop_of v k = or_else (own_property v k) JUndef"

subsection \<open>Paths\<close>

definition path_segments :: "string \<Rightarrow> string list" where
  "path_segments p =
     filter (\<lambda>s. s \<noteq> []) (split_on (CHR ''.'') (if starts_with p ''$.'' then drop 2 p else p))"

fun walk_path :: "string list \<Rightarrow> js_val \<Rightarrow> js_val option" where
  "walk_path [] v = Some v"
| "walk_path (seg # segs) v = (case own_property v seg of
     None \<Rightarrow> None
   | Some w \<Rightarrow> walk_path segs w)"

definition resolve_path :: "string \<Rightarrow> runtime_context \<Rightarrow> js_val" where
  "resolve_path p ctx = or_else (walk_path (path_segments p) (context_value ctx)) JUndef"

subsection \<open>Templates\<close>

definition brace :: "char \<Rightarrow> bool" where
  "brace c \<longleftrightarrow> of_char c \<in> {123, 125 :: int}"

text \<open>
  A match of \<open>TOKEN_PATTERN\<close> at the start of the text: two opening braces, a run of at least one
  character other than a brace, two closing braces. The result is the run and what follows.
\<close>

definition token_at :: "string \<Rightarrow> (string \<times> string) option" where
  "token_at s =
     (if starts_with s [CHR 0x7B, CHR 0x7B] then
        (let body = drop 2 s; expr = takeWhile (\<lambda>c. \<not> brace c) body;
             rest = dropWhile (\<lambda>c. \<not> brace c) body
         in if expr \<noteq> [] \<and> starts_with rest [CHR 0x7D, CHR 0x7D] then Some (expr, drop 2 rest) else None)
      else None)"

lemma token_at_shorter: "token_at s = Some (e, r) \<Longrightarrow> length r < length s"
proof -
  assume a: "token_at s = Some (e, r)"
  let ?rest = "dropWhile (\<lambda>c. \<not> brace c) (drop 2 s)"
  from a have "r = drop 2 ?rest" "starts_with ?rest [CHR 0x7D, CHR 0x7D]"
    by (auto simp: token_at_def Let_def split: if_splits)
  then obtain t where "?rest = [CHR 0x7D, CHR 0x7D] @ t" by (auto simp: starts_with_append)
  moreover have "length ?rest \<le> length (drop 2 s)" by (rule length_dropWhile_le)
  ultimately show ?thesis using \<open>r = _\<close> by simp
qed

text \<open>\<open>value.replace(TOKEN_PATTERN, f)\<close>.\<close>

function replace_tokens :: "(string \<Rightarrow> string) \<Rightarrow> string \<Rightarrow> string" where
  "replace_tokens f [] = []"
| "replace_tokens f (c # s) = (case token_at (c # s) of
     None \<Rightarrow> c # replace_tokens f s
   | Some (expr, rest) \<Rightarrow> f expr @ replace_tokens f rest)"
  by pat_completeness auto
termination replace_tokens
  by (relation "measure (\<lambda>(f, s). length s)") (auto dest: token_at_shorter)

definition token_text :: "runtime_context \<Rightarrow> string \<Rightarrow> string" where
  "token_text ctx expr =
     (let resolved = resolve_path (js_trim expr) ctx
      in case resolved of
           JUndef \<Rightarrow> [] | JNull \<Rightarrow> [] | JStr s \<Rightarrow> s
         | _ \<Rightarrow> or_else (stringify resolved) ''undefined'')"

definition interpolate_template :: "string \<Rightarrow> runtime_context \<Rightarrow> string" where
  "interpolate_template s ctx = replace_tokens (token_text ctx) s"

fun interpolate_value :: "js_val \<Rightarrow> runtime_context \<Rightarrow> js_val" where
  "interpolate_value (JStr s) ctx = JStr (interpolate_template s ctx)"
| "interpolate_value (JArr xs) ctx = JArr (map (\<lambda>x. interpolate_value x ctx) xs)"
| "interpolate_value (JObj fs) ctx = JObj (map (\<lambda>(k, v). (k, interpolate_value v ctx)) fs)"
| "interpolate_value JUndef ctx = JUndef"
| "interpolate_value JNull ctx = JNull"
| "interpolate_value (JBool b) ctx = JBool b"
| "interpolate_value (JNum n) ctx = JNum n"

subsection \<open>What a template leaves alone\<close>

lemma token_at_Some_brace: "token_at s = Some p \<Longrightarrow> CHR 0x7B \<in> set s"
  by (auto simp: token_at_def Let_def starts_with_append split: if_splits)

lemma replace_tokens_plain: "CHR 0x7B \<notin> set s \<Longrightarrow> replace_tokens f s = s"
  by (induction s) (auto dest: token_at_Some_brace split: option.splits)

text \<open>A token between texts without braces is replaced, the texts stay.\<close>

lemma token_at_token:
  assumes "e \<noteq> []" and "\<forall>c \<in> set e. \<not> brace c"
  shows "token_at ([CHR 0x7B, CHR 0x7B] @ e @ [CHR 0x7D, CHR 0x7D] @ r) = Some (e, r)"
proof -
  have b: "brace CHR 0x7D" by (simp add: brace_def)
  have "takeWhile (\<lambda>c. \<not> brace c) (e @ CHR 0x7D # t) = e" for t
    using assms(2) b by (simp add: takeWhile_append2)
  moreover have "dropWhile (\<lambda>c. \<not> brace c) (e @ CHR 0x7D # t) = CHR 0x7D # t" for t
    using assms(2) b by (simp add: dropWhile_append2)
  ultimately show ?thesis using assms(1) by (simp add: token_at_def Let_def)
qed

lemma replace_tokens_prefix:
  "CHR 0x7B \<notin> set a \<Longrightarrow> replace_tokens f (a @ s) = a @ replace_tokens f s"
proof (induction a)
  case (Cons c a)
  have "token_at (c # a @ s) = None"
    using Cons.prems by (auto simp: token_at_def)
  then show ?case using Cons by simp
qed simp

lemma replace_tokens_token:
  assumes "CHR 0x7B \<notin> set a" and "e \<noteq> []" and "\<forall>c \<in> set e. \<not> brace c"
  shows "replace_tokens f (a @ [CHR 0x7B, CHR 0x7B] @ e @ [CHR 0x7D, CHR 0x7D] @ r) =
    a @ f e @ replace_tokens f r"
  using token_at_token[OF assms(2,3), of r]
  by (simp add: replace_tokens_prefix[OF assms(1)])

lemma walk_path_append:
  "walk_path (xs @ ys) v = Option.bind (walk_path xs v) (\<lambda>w. walk_path ys w)"
  by (induction xs arbitrary: v) (auto split: option.splits)

end
