(* ===== verification/StepNodes.thy ===== *)
theory StepNodes
  imports Interpolation WorkflowTypes Schema
begin

text \<open>
  The nodes of a workflow (\<open>packages/workflows-core/src/nodes\<close>): what each kind of step computes
  from its configuration and the run-time context, and the calls it makes to the world.

  A call to an executor, the dispatcher, the rate limiter or the network is recorded in
  \<open>outbound\<close>; its answer is a parameter of the environment \<open>node_env\<close>. The sandbox of the code
  node, the URL parser and the HMAC are parameters too.
\<close>

record parsed_url =
  url_hostname :: string
  url_host :: string
  url_text :: string

record http_request =
  req_url :: string
  req_method :: string
  req_headers :: "(string \<times> string) list"
  req_body :: "string option"
  req_timeout :: js_num

record http_response =
  resp_status :: nat
  resp_headers :: "(string \<times> string) list"
  resp_text :: string
  resp_json :: "js_val option"

datatype outbound =
    CallAgent js_val
  | CallHandoff js_val
  | CallConnector js_val
  | SendNotification js_val
  | ConsumeRate string
  | Fetch http_request

record node_env =
  env_agent :: bool
  env_handoff :: bool
  env_connector :: bool
  env_dispatcher :: bool
  env_limiter :: bool
  env_reply :: "outbound \<Rightarrow> api_error + js_val"
  env_fetch :: "http_request \<Rightarrow> api_error + http_response"
  env_parse_url :: "string \<Rightarrow> parsed_url option"
  env_run_code :: "string \<Rightarrow> js_val \<Rightarrow> js_val \<Rightarrow> js_num \<Rightarrow> api_error + js_val"
  env_hmac :: "string \<Rightarrow> string \<Rightarrow> string"

text \<open>The notifications waiting for their batch window, by batch key, with the time the timer fires.\<close>

record batch =
  batch_count :: nat
  batch_payload :: js_val
  batch_due :: js_num

record node_state =
  batches :: "batch jsmap"
  outbound_calls :: "outbound list"

definition call_out :: "node_env \<Rightarrow> outbound \<Rightarrow> (node_state, js_val) operation" where
  "call_out E c s = (env_reply E c, s\<lparr>outbound_calls := outbound_calls s @ [c]\<rparr>)"

definition call_fetch :: "node_env \<Rightarrow> http_request \<Rightarrow> (node_state, http_response) operation" where
  "call_fetch E r s = (env_fetch E r, s\<lparr>outbound_calls := outbound_calls s @ [Fetch r]\<rparr>)"

definition summarize_context :: "runtime_context \<Rightarrow> string" where
  "summarize_context ctx =
     ''workflow='' @ ctx_workflow_id ctx @ ''; execution='' @ ctx_execution_id ctx @
     ''; tenant='' @ ctx_tenant_id ctx @ ''; steps='' @ show_nat (length (ctx_steps ctx))"

text \<open>\<open>a ?? b\<close> on values, \<open>{...a, ...b}\<close> and a member that is added when it is truthy.\<close>

definition nullish :: "js_val \<Rightarrow> js_val \<Rightarrow> js_val" where
  "nullish v d = (case v of JUndef \<Rightarrow> d | JNull \<Rightarrow> d | _ \<Rightarrow> v)"

definition spread :: "(string \<times> js_val) list \<Rightarrow> js_val \<Rightarrow> (string \<times> js_val) list" where
  "spread fs v = (case v of
     JObj gs \<Rightarrow> fold (\<lambda>(k, x) acc. AList.update k x acc) gs fs | _ \<Rightarrow> fs)"

definition obj_fields :: "js_val \<Rightarrow> (string \<times> js_val) list" where
  "obj_fields v = (case v of JObj fs \<Rightarrow> fs | _ \<Rightarrow> [])"

definition if_truthy :: "string \<Rightarrow> js_val \<Rightarrow> (string \<times> js_val) list" where
  "if_truthy k cfg = (if js_truthy (prop_of cfg k) then [(k, prop_of cfg k)] else [])"

definition empty_obj :: js_val where
  "empty_obj = JObj []"

subsection \<open>Agents and connectors\<close>

definition execute_agent_node :: "node_env \<Rightarrow> js_val \<Rightarrow> runtime_context \<Rightarrow> (node_state, js_val) operation" where
  "execute_agent_node E config ctx =
     (let i = interpolate_value config ctx
      in call_out E (CallAgent (JObj
           [(''agentId'', prop_of i ''agentId''),
            (''contextSummary'', JStr (summarize_context ctx)),
            (''input'', nullish (prop_of i ''input'') empty_obj)])))"

definition execute_handoff_node :: "node_env \<Rightarrow> js_val \<Rightarrow> runtime_context \<Rightarrow> (node_state, js_val) operation" where
  "execute_handoff_node E config ctx =
     (let i = interpolate_value config ctx
      in call_out E (CallHandoff (JObj (
           [(''context'', nullish (prop_of i ''context'') empty_obj),
            (''contextSummary'', JStr (summarize_context ctx)),
            (''correlationId'', nullish (prop_of i ''correlationId'') (JStr (ctx_execution_id ctx))),
            (''executionId'', JStr (ctx_execution_id ctx)),
            (''sourceAgentId'', prop_of i ''sourceAgentId''),
            (''summary'', prop_of i ''summary''),
            (''tenantId'', JStr (ctx_tenant_id ctx)),
            (''targetAgentId'', prop_of i ''targetAgentId'')]
           @ if_truthy ''threadId'' i
           @ [(''workflowId'', JStr (ctx_workflow_id ctx))]))))"

definition execute_connector_node :: "node_env \<Rightarrow> js_val \<Rightarrow> runtime_context \<Rightarrow> (node_state, js_val) operation" where
  "execute_connector_node E action ctx =
     call_out E (CallConnector (JObj
       [(''action'', interpolate_value action ctx),
        (''contextSummary'', JStr (summarize_context ctx)),
        (''executionId'', JStr (ctx_execution_id ctx)),
        (''tenantId'', JStr (ctx_tenant_id ctx)),
        (''workflowId'', JStr (ctx_workflow_id ctx))]))"

subsection \<open>Conditions\<close>

text \<open>\<open>readPath\<close> of the condition node is the same walk as \<open>resolvePath\<close> of the templates.\<close>

definition read_path :: "string \<Rightarrow> runtime_context \<Rightarrow> js_val" where
  "read_path p ctx = or_else (walk_path (path_segments p) (context_value ctx)) JUndef"

definition compare_values :: "string \<Rightarrow> js_val \<Rightarrow> js_val \<Rightarrow> bool" where
  "compare_values operator v expected =
     (if operator = ''=='' then strict_equal v expected
      else if operator = ''!='' then \<not> strict_equal v expected
      else if operator = ''>'' then num_lt (js_to_number expected) (js_to_number v)
      else if operator = ''>='' then num_le (js_to_number expected) (js_to_number v)
      else if operator = ''<'' then num_lt (js_to_number v) (js_to_number expected)
      else if operator = ''<='' then num_le (js_to_number v) (js_to_number expected)
      else False)"

definition execute_condition_node :: "js_val \<Rightarrow> runtime_context \<Rightarrow> js_val" where
  "execute_condition_node config ctx =
     (let i = interpolate_value config ctx;
          v = read_path (js_to_string (prop_of i ''path'')) ctx;
          expected = prop_of i ''value'';
          operator = prop_of i ''operator''
      in JObj [(''expected'', expected), (''operator'', operator),
               (''result'', JBool (compare_values (js_to_string operator) v expected)), (''value'', v)])"

subsection \<open>Transformers\<close>

definition read_source :: "js_val \<Rightarrow> runtime_context \<Rightarrow> js_val list" where
  "read_source path ctx =
     (if \<not> js_truthy path then []
      else case walk_path (path_segments (js_to_string path)) (context_value ctx) of
             Some (JArr xs) \<Rightarrow> xs | _ \<Rightarrow> [])"

definition should_keep :: "js_val \<Rightarrow> js_val \<Rightarrow> bool" where
  "should_keep item condition =
     (if \<not> js_truthy condition then True
      else if condition = JStr ''truthy'' then js_truthy item
      else if condition = JStr ''non-empty-object'' then
        (case item of JObj fs \<Rightarrow> fs \<noteq> [] | JArr xs \<Rightarrow> xs \<noteq> [] | _ \<Rightarrow> False)
      else True)"

definition execute_transformer_node :: "js_val \<Rightarrow> runtime_context \<Rightarrow> js_val" where
  "execute_transformer_node config ctx =
     (let source = read_source (prop_of config ''sourcePath'') ctx;
          kept = filter (\<lambda>item. should_keep item (prop_of config ''filter'')) source
      in if \<not> js_truthy (prop_of config ''map'') then JArr kept
         else JArr (map (\<lambda>_. interpolate_value (prop_of config ''map'') ctx) kept))"

subsection \<open>Delays\<close>

fun js_floor :: "js_num \<Rightarrow> js_num" where
  "js_floor (Fin q) = Fin (of_int \<lfloor>q\<rfloor>)"
| "js_floor x = x"

definition js_max :: "js_num \<Rightarrow> js_num \<Rightarrow> js_num" where
  "js_max x y = (if x = NaN \<or> y = NaN then NaN else if num_lt x y then y else x)"

definition js_min :: "js_num \<Rightarrow> js_num \<Rightarrow> js_num" where
  "js_min x y = (if x = NaN \<or> y = NaN then NaN else if num_lt y x then y else x)"

text \<open>The release date as the JSON column keeps it; an invalid date is \<open>null\<close> there.\<close>

definition execute_delay_node :: "ms \<Rightarrow> js_val \<Rightarrow> js_val" where
  "execute_delay_node now config =
     (let d = js_max (Fin 1) (js_floor (js_to_number (prop_of config ''duration_ms'')))
      in JObj [(''delayMs'', JNum d),
               (''releaseAt'', case d of Fin q \<Rightarrow> JStr (iso_string (now + \<lfloor>q\<rfloor>)) | _ \<Rightarrow> JNull)])"

subsection \<open>Notifications\<close>

definition finish_send :: "js_val \<Rightarrow> js_val" where
  "finish_send payload = JObj [(''delivered'', JBool True), (''payload'', payload)]"

definition batched_result :: "js_val \<Rightarrow> js_val \<Rightarrow> js_val" where
  "batched_result key payload =
     JObj [(''batchKey'', key), (''batched'', JBool True), (''delivered'', JBool False), (''payload'', payload)]"

definition batch_notification :: "ms \<Rightarrow> js_val \<Rightarrow> (node_state, js_val) operation" where
  "batch_notification now payload s =
     (let key = prop_of payload ''batchKey''; k = js_to_string key
      in case map_of (batches s) k of
           Some b \<Rightarrow>
             (let n = Suc (batch_count b);
                  p = JObj (AList.update ''message'' (JStr (show_nat n @ '' notificacoes agregadas''))
                        (obj_fields payload))
              in (Inr (batched_result key p),
                  s\<lparr>batches := AList.update k (b\<lparr>batch_count := n, batch_payload := p\<rparr>) (batches s)\<rparr>))
         | None \<Rightarrow>
             (let window = js_to_number (nullish (prop_of payload ''batchWindowMs'') (JNum (Fin 5000)));
                  due = (case window of Fin q \<Rightarrow> Fin (of_int now + q) | w \<Rightarrow> w)
              in (Inr (batched_result key payload),
                  s\<lparr>batches := AList.update k
                      \<lparr>batch_count = 1, batch_payload = payload, batch_due = due\<rparr> (batches s)\<rparr>)))"

text \<open>The timer of a batch: the dispatcher's promise is not awaited.\<close>

definition flush_batch :: "string \<Rightarrow> node_state \<Rightarrow> node_state" where
  "flush_batch k s = (case map_of (batches s) k of
     None \<Rightarrow> s
   | Some b \<Rightarrow> s\<lparr>batches := AList.delete k (batches s),
                  outbound_calls := outbound_calls s @ [SendNotification (batch_payload b)]\<rparr>)"

definition execute_notification_node ::
    "node_env \<Rightarrow> ms \<Rightarrow> js_val \<Rightarrow> runtime_context \<Rightarrow> (node_state, js_val) operation" where
  "execute_notification_node E now config ctx =
     (let payload = interpolate_value config ctx
      in if js_truthy (prop_of payload ''batchKey'') \<and> env_dispatcher E then batch_notification now payload
         else if env_dispatcher E then
           then_do (call_out E (SendNotification payload)) (\<lambda>_. give (finish_send payload))
         else give (finish_send payload))"

subsection \<open>Text extraction\<close>

text \<open>The characters a captured value may hold: all but line breaks, comma and semicolon.\<close>

definition value_char :: "char \<Rightarrow> bool" where
  "value_char c \<longleftrightarrow> of_char c \<notin> {10, 13, 44, 59 :: int}"

text \<open>
  \<open>\s*([^\n\r,;]+)\<close> at the start of the text: when the character after the white space cannot
  be captured, the match backs into the white space and captures its last capturable character.
\<close>

definition capture_value :: "string \<Rightarrow> string option" where
  "capture_value s =
     (let spaces = takeWhile js_space s; rest = dropWhile js_space s
      in if rest \<noteq> [] \<and> value_char (hd rest) then Some (takeWhile value_char rest)
         else map_option (\<lambda>c. [c]) (List.find value_char (rev spaces)))"

fun starts_with_nocase :: "string \<Rightarrow> string \<Rightarrow> bool" where
  "starts_with_nocase s [] = True"
| "starts_with_nocase [] (p # ps) = False"
| "starts_with_nocase (c # s) (p # ps) = (lower_char c = lower_char p \<and> starts_with_nocase s ps)"

definition separator :: "char \<Rightarrow> bool" where
  "separator c \<longleftrightarrow> c = CHR '':'' \<or> c = CHR ''='' \<or> c = CHR ''-''"

definition match_field_at :: "string \<Rightarrow> string \<Rightarrow> string option" where
  "match_field_at field s =
     (if starts_with_nocase s field then
        (let rest = dropWhile js_space (drop (length field) s)
         in if rest \<noteq> [] \<and> separator (hd rest) then capture_value (tl rest) else None)
      else None)"

fun find_match :: "string \<Rightarrow> string \<Rightarrow> string option" where
  "find_match field [] = match_field_at field []"
| "find_match field (c # s) = or_opt (match_field_at field (c # s)) (find_match field s)"

definition find_field_value :: "string \<Rightarrow> string \<Rightarrow> js_val" where
  "find_field_value txt field =
     (case find_match field txt of Some v \<Rightarrow> JStr (js_trim v) | None \<Rightarrow> JNull)"

definition max_text_length :: int where
  "max_text_length = 50 * 1024"

definition items_of :: "js_val \<Rightarrow> js_val list" where
  "items_of v = (case v of JArr xs \<Rightarrow> xs | _ \<Rightarrow> [])"

definition execute_text_extract_node :: "js_val \<Rightarrow> runtime_context \<Rightarrow> js_val" where
  "execute_text_extract_node config ctx =
     (let i = interpolate_value config ctx;
          txt = (if js_truthy (prop_of i ''text'') then js_to_string (prop_of i ''text'') else []);
          cut = (if max_text_length < int (length txt) then take (nat max_text_length) txt else txt)
      in JObj (fold (\<lambda>field out. AList.update field (find_field_value cut field) out)
           (map js_to_string (items_of (prop_of i ''fields''))) []))"

subsection \<open>Code\<close>

definition max_memory_bytes :: int where
  "max_memory_bytes = 128 * 1024 * 1024"

definition serialized :: "js_val \<Rightarrow> string" where
  "serialized v = or_else (stringify (nullish v JNull)) ''null''"

definition execute_code_node :: "node_env \<Rightarrow> js_val \<Rightarrow> js_val \<Rightarrow> runtime_context \<Rightarrow> (node_state, js_val) operation" where
  "execute_code_node E config inp ctx =
     (if max_memory_bytes < utf8_length (serialized inp) then throw (Failure ''CODE_NODE_MEMORY_LIMIT_EXCEEDED'')
      else
        (let timeout = js_min (js_max (js_to_number (nullish (prop_of config ''timeout_ms'') (JNum (Fin 1000))))
                         (Fin 1)) (Fin 1000)
         in case env_run_code E (js_to_string (prop_of config ''source'')) inp (context_value ctx) timeout of
              Inl e \<Rightarrow> throw e
            | Inr r \<Rightarrow>
                if max_memory_bytes < utf8_length (serialized r)
                then throw (Failure ''CODE_NODE_MEMORY_LIMIT_EXCEEDED'') else give r))"

subsection \<open>HTTP requests\<close>

definition blocked_hosts :: "string list" where
  "blocked_hosts = [''localhost'', ''0.0.0.0'', ''127.0.0.1'', ''::1'', ''host.docker.internal'']"

definition assert_safe_url :: "node_env \<Rightarrow> string \<Rightarrow> api_error + parsed_url" where
  "assert_safe_url E raw = (case env_parse_url E raw of
     None \<Rightarrow> Inl (Failure ''Invalid URL'')
   | Some u \<Rightarrow>
       (let host = js_lower (url_hostname u)
        in if host \<in> set blocked_hosts then Inl (Failure ''SSRF_GUARD_BLOCKED_HOST'')
           else if ends_with host ''.internal'' then Inl (Failure ''SSRF_GUARD_BLOCKED_INTERNAL_DOMAIN'')
           else Inr u))"

text \<open>The \<open>Headers\<close> object: names are kept in lower case, values without outer white space.\<close>

definition header_space :: "char \<Rightarrow> bool" where
  "header_space c \<longleftrightarrow> of_char c \<in> {9, 10, 13, 32 :: int}"

definition header_value :: "string \<Rightarrow> string" where
  "header_value s = rev (dropWhile header_space (rev (dropWhile header_space s)))"

definition header_append :: "string \<Rightarrow> string \<Rightarrow> string jsmap \<Rightarrow> string jsmap" where
  "header_append k v hs = (case map_of hs (js_lower k) of
     Some old \<Rightarrow> AList.update (js_lower k) (old @ '', '' @ header_value v) hs
   | None \<Rightarrow> AList.update (js_lower k) (header_value v) hs)"

definition header_set :: "string \<Rightarrow> string \<Rightarrow> string jsmap \<Rightarrow> string jsmap" where
  "header_set k v hs = AList.update (js_lower k) (header_value v) hs"

definition new_headers :: "js_val \<Rightarrow> string jsmap" where
  "new_headers v = (case v of
     JObj fs \<Rightarrow> fold (\<lambda>(k, x) hs. header_append k (js_to_string x) hs) fs [] | _ \<Rightarrow> [])"

definition node_headers :: "node_env \<Rightarrow> js_val \<Rightarrow> bool \<Rightarrow> string jsmap" where
  "node_headers E i has_body =
     (let h0 = new_headers (nullish (prop_of i ''headers'') empty_obj);
          bearer = prop_of (prop_of i ''auth'') ''bearer'';
          h1 = (if js_truthy bearer then header_set ''Authorization'' (''Bearer '' @ js_to_string bearer) h0 else h0);
          h2 = (if has_body \<and> map_of h1 ''content-type'' = None
                then header_set ''Content-Type'' ''application/json'' h1 else h1)
      in if has_body \<and> js_truthy (prop_of i ''webhookSecret'') then
           header_set ''X-BirthHub-Signature''
             (env_hmac E (js_to_string (prop_of i ''webhookSecret'')) (or_else (stringify (prop_of i ''body'')) []))
             h2
         else h2)"

definition http_call :: "node_env \<Rightarrow> js_val \<Rightarrow> parsed_url \<Rightarrow> http_request" where
  "http_call E i u =
     (let meth = prop_of i ''method'';
          has_body = (prop_of i ''body'' \<noteq> JUndef \<and> meth \<noteq> JStr ''GET'')
      in \<lparr>req_url = url_text u,
          req_method = js_to_string (nullish meth (JStr ''GET'')),
          req_headers = node_headers E i has_body,
          req_body = (if has_body then stringify (prop_of i ''body'') else None),
          req_timeout = js_min (js_max (js_to_number (nullish (prop_of i ''timeout_ms'') (JNum (Fin 2500))))
                          (Fin 1)) (Fin 10000)\<rparr>)"

definition parse_response_body :: "http_response \<Rightarrow> api_error + js_val" where
  "parse_response_body r =
     (if str_includes (or_else (map_of (resp_headers r) ''content-type'') []) ''application/json'' then
        (case resp_json r of Some v \<Rightarrow> Inr v | None \<Rightarrow> Inl (Failure ''SyntaxError''))
      else Inr (JStr (resp_text r)))"

definition http_result :: "http_response \<Rightarrow> api_error + js_val" where
  "http_result r = (case parse_response_body r of
     Inl e \<Rightarrow> Inl e
   | Inr body \<Rightarrow> Inr (JObj [(''body'', body),
       (''headers'', JObj (map (\<lambda>(k, v). (k, JStr v)) (resp_headers r))),
       (''status'', JNum (Fin (of_nat (resp_status r))))]))"

definition execute_http_node :: "node_env \<Rightarrow> js_val \<Rightarrow> runtime_context \<Rightarrow> (node_state, js_val) operation" where
  "execute_http_node E config ctx =
     (let i = interpolate_value config ctx
      in case assert_safe_url E (js_to_string (prop_of i ''url'')) of
           Inl e \<Rightarrow> throw e
         | Inr u \<Rightarrow>
             then_do
               (if env_limiter E
                then then_do (call_out E (ConsumeRate (''httpreq:'' @ ctx_tenant_id ctx @ '':'' @ url_host u)))
                       (\<lambda>_. give ())
                else give ())
               (\<lambda>_. then_do (call_fetch E (http_call E i u))
                 (\<lambda>r. case http_result r of Inl e \<Rightarrow> throw e | Inr v \<Rightarrow> give v)))"

subsection \<open>One step\<close>

definition crm_action :: "js_val \<Rightarrow> js_val" where
  "crm_action cfg =
     JObj (spread ((''kind'', JStr ''CRM_UPSERT'') # if_truthy ''connectorAccountId'' cfg) cfg)"

definition whatsapp_action :: "js_val \<Rightarrow> js_val" where
  "whatsapp_action cfg =
     JObj ((''kind'', JStr ''WHATSAPP_SEND'') # if_truthy ''connectorAccountId'' cfg
       @ (''message'', prop_of cfg ''message'') # if_truthy ''template'' cfg @ if_truthy ''threadId'' cfg
       @ [(''to'', prop_of cfg ''to'')])"

definition calendar_action :: "string \<Rightarrow> js_val \<Rightarrow> js_val" where
  "calendar_action kind cfg =
     JObj ([(''kind'', JStr kind), (''attendees'', prop_of cfg ''attendees'')]
       @ if_truthy ''calendarId'' cfg @ if_truthy ''connectorAccountId'' cfg @ if_truthy ''description'' cfg
       @ [(''end'', prop_of cfg ''end''), (''start'', prop_of cfg ''start''), (''title'', prop_of cfg ''title'')])"

definition handoff_config :: "js_val \<Rightarrow> js_val" where
  "handoff_config cfg =
     JObj ((''context'', prop_of cfg ''context'') # if_truthy ''correlationId'' cfg
       @ [(''sourceAgentId'', prop_of cfg ''sourceAgentId''), (''summary'', prop_of cfg ''summary''),
          (''targetAgentId'', prop_of cfg ''targetAgentId'')]
       @ if_truthy ''threadId'' cfg)"

definition run_connector :: "node_env \<Rightarrow> js_val \<Rightarrow> runtime_context \<Rightarrow> (node_state, js_val) operation" where
  "run_connector E action ctx =
     (if \<not> env_connector E then throw (Failure ''CONNECTOR_EXECUTOR_NOT_CONFIGURED'')
      else execute_connector_node E action ctx)"

text \<open>The step has passed \<open>stepSchema\<close>: its type is one of the sixteen.\<close>

definition execute_step ::
    "node_env \<Rightarrow> ms \<Rightarrow> step_type \<Rightarrow> js_val \<Rightarrow> runtime_context \<Rightarrow> (node_state, js_val) operation" where
  "execute_step E now t cfg ctx = (case t of
     TRIGGER_WEBHOOK \<Rightarrow> give (ctx_trigger_output ctx)
   | TRIGGER_CRON \<Rightarrow> give (ctx_trigger_output ctx)
   | TRIGGER_EVENT \<Rightarrow> give (ctx_trigger_output ctx)
   | HTTP_REQUEST \<Rightarrow> execute_http_node E cfg ctx
   | CONDITION \<Rightarrow> give (execute_condition_node cfg ctx)
   | CODE \<Rightarrow> execute_code_node E cfg (JObj (ctx_steps ctx)) ctx
   | TRANSFORMER \<Rightarrow> give (execute_transformer_node cfg ctx)
   | SEND_NOTIFICATION \<Rightarrow> execute_notification_node E now cfg ctx
   | AGENT_EXECUTE \<Rightarrow>
       if \<not> env_agent E then throw (Failure ''AGENT_EXECUTOR_NOT_CONFIGURED'')
       else execute_agent_node E cfg ctx
   | AGENT_HANDOFF \<Rightarrow>
       if \<not> env_handoff E then throw (Failure ''HANDOFF_EXECUTOR_NOT_CONFIGURED'')
       else execute_handoff_node E (handoff_config cfg) ctx
   | CRM_UPSERT \<Rightarrow> run_connector E (crm_action cfg) ctx
   | WHATSAPP_SEND \<Rightarrow> run_connector E (whatsapp_action cfg) ctx
   | GOOGLE_EVENT \<Rightarrow> run_connector E (calendar_action ''GOOGLE_EVENT'' cfg) ctx
   | MS_EVENT \<Rightarrow> run_connector E (calendar_action ''MS_EVENT'' cfg) ctx
   | AI_TEXT_EXTRACT \<Rightarrow> give (execute_text_extract_node cfg ctx)
   | DELAY \<Rightarrow> give (execute_delay_node now cfg))"

end
