(* ===== verification/StepSchema.thy ===== *)
theory StepSchema
  imports JsValue WorkflowTypes
begin

text \<open>
  The schemas of \<open>packages/workflows-core/src/schemas/step.schema.ts\<close> and
  \<open>apps/api/src/modules/workflows/schemas.ts\<close> as data. The validator that reads them is the
  \<open>zod\<close> package, a parameter of the definitions that parse with them; an optional member is one
  that may be missing, a default is what the validator puts in the place of a missing one.
\<close>

datatype string_rule = Trimmed | MinLength nat | MaxLength nat | UrlText | Refined "string \<Rightarrow> bool"

datatype number_rule = Integral | Positive | AtLeast int | AtMost int

datatype zod =
    ZString "string_rule list"
  | ZLiteral js_val
  | ZEnum "string list"
  | ZNumber "number_rule list"
  | ZBoolean
  | ZUnknown
  | ZRecord zod
  | ZArray zod "nat option"
  | ZUnion "zod list"
  | ZOptional zod
  | ZDefault js_val zod
  | ZStrict "(string \<times> zod) list"
  | ZDiscriminated string "zod list"
  | ZPartial zod

definition interpolation_guard :: "string \<Rightarrow> bool" where
  "interpolation_guard s \<longleftrightarrow> \<not> str_includes s ''${''"

definition interpolation_string :: zod where
  "interpolation_string = ZString [MinLength 1, Refined interpolation_guard]"

definition interpolation_url_string :: zod where
  "interpolation_url_string = ZString [UrlText, Refined interpolation_guard]"

definition nonempty_string :: zod where
  "nonempty_string = ZString [MinLength 1]"

text \<open>The members every step has next to its configuration.\<close>

definition step_object :: "string \<Rightarrow> zod \<Rightarrow> (string \<times> zod) list \<Rightarrow> zod" where
  "step_object kind config extra =
     ZStrict ((''config'', config) # extra @
       [(''key'', nonempty_string), (''name'', nonempty_string), (''type'', ZLiteral (JStr kind))])"

definition trigger_flag :: "(string \<times> zod) list" where
  "trigger_flag = [(''isTrigger'', ZDefault (JBool True) (ZLiteral (JBool True)))]"

definition trigger_webhook_schema :: zod where
  "trigger_webhook_schema = step_object ''TRIGGER_WEBHOOK''
     (ZStrict [(''method'', ZDefault (JStr ''POST'') (ZEnum [''POST''])), (''path'', nonempty_string)])
     trigger_flag"

definition trigger_cron_schema :: zod where
  "trigger_cron_schema = step_object ''TRIGGER_CRON''
     (ZStrict [(''cron'', ZString [MinLength 5]), (''timezone'', ZDefault (JStr ''UTC'') nonempty_string)])
     trigger_flag"

definition trigger_event_schema :: zod where
  "trigger_event_schema = step_object ''TRIGGER_EVENT'' (ZStrict [(''topic'', nonempty_string)]) trigger_flag"

definition delay_schema :: zod where
  "delay_schema = step_object ''DELAY'' (ZStrict [(''duration_ms'', ZNumber [Integral, Positive])]) []"

definition http_request_schema :: zod where
  "http_request_schema = step_object ''HTTP_REQUEST'' (ZStrict
     [(''auth'', ZOptional (ZStrict [(''bearer'', ZOptional interpolation_string)])),
      (''body'', ZOptional ZUnknown),
      (''headers'', ZDefault (JObj []) (ZRecord interpolation_string)),
      (''method'', ZDefault (JStr ''GET'') (ZEnum [''DELETE'', ''GET'', ''PATCH'', ''POST'', ''PUT''])),
      (''timeout_ms'', ZDefault (JNum (Fin 2500)) (ZNumber [Integral, Positive, AtMost 10000])),
      (''url'', interpolation_url_string),
      (''webhookSecret'', ZOptional interpolation_string)]) []"

definition condition_schema :: zod where
  "condition_schema = step_object ''CONDITION'' (ZStrict
     [(''operator'', ZEnum [''!='', ''<'', ''<='', ''=='', ''>'', ''>='']),
      (''path'', nonempty_string),
      (''value'', ZUnion [ZBoolean, ZNumber [], ZString []])]) []"

definition code_schema :: zod where
  "code_schema = step_object ''CODE'' (ZStrict
     [(''timeout_ms'', ZDefault (JNum (Fin 1000)) (ZNumber [Integral, Positive, AtMost 1000])),
      (''source'', nonempty_string)]) []"

definition transformer_schema :: zod where
  "transformer_schema = step_object ''TRANSFORMER'' (ZStrict
     [(''filter'', ZOptional (ZString [])), (''map'', ZOptional (ZRecord ZUnknown)),
      (''reduce'', ZOptional (ZString [])), (''sourcePath'', ZOptional (ZString []))]) []"

definition notification_schema :: zod where
  "notification_schema = step_object ''SEND_NOTIFICATION'' (ZStrict
     [(''channel'', ZEnum [''email'', ''inapp'']), (''message'', interpolation_string),
      (''batchKey'', ZOptional nonempty_string),
      (''batchWindowMs'', ZDefault (JNum (Fin 5000)) (ZNumber [Integral, Positive, AtMost 60000])),
      (''to'', interpolation_string)]) []"

definition agent_execute_schema :: zod where
  "agent_execute_schema = step_object ''AGENT_EXECUTE'' (ZStrict
     [(''agentId'', nonempty_string), (''input'', ZDefault (JObj []) (ZRecord ZUnknown)),
      (''onError'', ZDefault (JStr ''stop'') (ZEnum [''continue'', ''stop'']))]) []"

definition agent_handoff_schema :: zod where
  "agent_handoff_schema = step_object ''AGENT_HANDOFF'' (ZStrict
     [(''context'', ZDefault (JObj []) (ZRecord ZUnknown)),
      (''correlationId'', ZOptional interpolation_string), (''sourceAgentId'', nonempty_string),
      (''summary'', interpolation_string), (''targetAgentId'', nonempty_string),
      (''threadId'', ZOptional nonempty_string)]) []"

definition crm_upsert_schema :: zod where
  "crm_upsert_schema = step_object ''CRM_UPSERT'' (ZStrict
     [(''connectorAccountId'', ZOptional nonempty_string),
      (''objectType'', ZEnum [''company'', ''contact'', ''deal'']),
      (''operation'', ZDefault (JStr ''upsert'') (ZEnum [''upsert''])),
      (''payload'', ZRecord ZUnknown),
      (''provider'', ZDefault (JStr ''hubspot'') (ZEnum [''hubspot'', ''salesforce'', ''pipedrive''])),
      (''scope'', ZOptional nonempty_string)]) []"

definition whatsapp_send_schema :: zod where
  "whatsapp_send_schema = step_object ''WHATSAPP_SEND'' (ZStrict
     [(''connectorAccountId'', ZOptional nonempty_string), (''message'', interpolation_string),
      (''template'', ZOptional interpolation_string), (''threadId'', ZOptional nonempty_string),
      (''to'', interpolation_string)]) []"

definition calendar_event_config_schema :: zod where
  "calendar_event_config_schema = ZStrict
     [(''attendees'', ZDefault (JArr []) (ZArray interpolation_string None)),
      (''calendarId'', ZOptional interpolation_string),
      (''connectorAccountId'', ZOptional nonempty_string),
      (''description'', ZOptional interpolation_string), (''end'', interpolation_string),
      (''start'', interpolation_string), (''title'', interpolation_string)]"

definition google_event_schema :: zod where
  "google_event_schema = step_object ''GOOGLE_EVENT'' calendar_event_config_schema []"

definition ms_event_schema :: zod where
  "ms_event_schema = step_object ''MS_EVENT'' calendar_event_config_schema []"

definition ai_text_extract_schema :: zod where
  "ai_text_extract_schema = step_object ''AI_TEXT_EXTRACT'' (ZStrict
     [(''fields'', ZArray nonempty_string (Some 1)), (''text'', interpolation_string)]) []"

definition step_schema :: zod where
  "step_schema = ZDiscriminated ''type''
     [trigger_webhook_schema, trigger_cron_schema, trigger_event_schema, delay_schema,
      http_request_schema, condition_schema, code_schema, transformer_schema, notification_schema,
      agent_execute_schema, agent_handoff_schema, crm_upsert_schema, whatsapp_send_schema,
      google_event_schema, ms_event_schema, ai_text_extract_schema]"

definition workflow_canvas_schema :: zod where
  "workflow_canvas_schema = ZStrict
     [(''steps'', ZArray step_schema (Some 1)),
      (''transitions'', ZDefault (JArr []) (ZArray (ZStrict
        [(''route'', ZDefault (JStr ''ALWAYS'')
           (ZEnum [''ALWAYS'', ''IF_TRUE'', ''IF_FALSE'', ''ON_FAILURE'', ''ON_SUCCESS'', ''FALLBACK''])),
         (''source'', nonempty_string), (''target'', nonempty_string)]) None))]"

subsection \<open>The requests of the workflows router\<close>

definition workflow_state_schema :: zod where
  "workflow_state_schema = ZEnum [''ARCHIVED'', ''DRAFT'', ''PUBLISHED'']"

definition workflow_create_schema :: zod where
  "workflow_create_schema = ZStrict
     [(''canvas'', workflow_canvas_schema), (''cronExpression'', ZOptional (ZString [])),
      (''description'', ZOptional (ZString [MaxLength 400])), (''eventTopic'', ZOptional nonempty_string),
      (''maxDepth'', ZDefault (JNum (Fin 50)) (ZNumber [Integral, AtLeast 1, AtMost 50])),
      (''name'', ZString [MinLength 1, MaxLength 120]),
      (''status'', ZDefault (JStr ''DRAFT'') workflow_state_schema),
      (''triggerConfig'', ZDefault (JObj []) (ZRecord ZUnknown)),
      (''triggerType'', ZDefault (JStr ''MANUAL'') (ZEnum [''CRON'', ''EVENT'', ''MANUAL'', ''WEBHOOK'']))]"

definition workflow_update_schema :: zod where
  "workflow_update_schema = ZPartial workflow_create_schema"

definition workflow_run_schema :: zod where
  "workflow_run_schema = ZStrict
     [(''async'', ZDefault (JBool True) ZBoolean), (''payload'', ZDefault (JObj []) (ZRecord ZUnknown))]"

text \<open>The name of a step type in the database and in JSON.\<close>

fun step_type_name :: "step_type \<Rightarrow> string" where
  "step_type_name TRIGGER_WEBHOOK = ''TRIGGER_WEBHOOK''"
| "step_type_name TRIGGER_CRON = ''TRIGGER_CRON''"
| "step_type_name TRIGGER_EVENT = ''TRIGGER_EVENT''"
| "step_type_name HTTP_REQUEST = ''HTTP_REQUEST''"
| "step_type_name CONDITION = ''CONDITION''"
| "step_type_name CODE = ''CODE''"
| "step_type_name TRANSFORMER = ''TRANSFORMER''"
| "step_type_name SEND_NOTIFICATION = ''SEND_NOTIFICATION''"
| "step_type_name AGENT_EXECUTE = ''AGENT_EXECUTE''"
| "step_type_name AGENT_HANDOFF = ''AGENT_HANDOFF''"
| "step_type_name CRM_UPSERT = ''CRM_UPSERT''"
| "step_type_name WHATSAPP_SEND = ''WHATSAPP_SEND''"
| "step_type_name GOOGLE_EVENT = ''GOOGLE_EVENT''"
| "step_type_name MS_EVENT = ''MS_EVENT''"
| "step_type_name AI_TEXT_EXTRACT = ''AI_TEXT_EXTRACT''"
| "step_type_name DELAY = ''DELAY''"

end
