(* ===== verification/EngineDb.thy ===== *)
theory EngineDb
  imports StepNodes StepSchema
begin

text \<open>
  The tables of the workflow engine (Workflow, WorkflowStep, WorkflowTransition,
  WorkflowExecution, StepResult, QuotaUsage) and its two job queues. A queue is the list of the
  \<open>add\<close> calls made to it, oldest first; what BullMQ does with the calls (delay, delivery,
  retries, dropping an id it has seen) is left to the relation that delivers the jobs.
\<close>

datatype workflow_status = WfDraft | WfPublished | WfArchived

datatype trigger_type = TriggerManual | TriggerWebhook | TriggerCron | TriggerEvent

datatype on_error = OnErrorStop | OnErrorContinue

datatype execution_status = ExRunning | ExSuccess | ExFailed | ExCancelled | ExWaiting

datatype result_status = ResSuccess | ResFailed | ResSkipped | ResWaiting

datatype quota_resource = EMAILS_SENT | AI_PROMPTS | WORKFLOW_RUNS | STORAGE_GB | API_REQUESTS

record workflow_row =
  wf_id :: string
  wf_tenant_id :: string
  wf_organization_id :: string
  wf_name :: string
  wf_description :: "string option"
  wf_status :: workflow_status
  wf_definition :: js_val
  wf_trigger_type :: trigger_type
  wf_trigger_config :: js_val
  wf_webhook_secret :: "string option"
  wf_cron_expression :: "string option"
  wf_event_topic :: "string option"
  wf_max_depth :: int
  wf_published_at :: "ms option"
  wf_archived_at :: "ms option"
  wf_created_at :: ms

record step_row =
  st_id :: string
  st_tenant_id :: string
  st_organization_id :: string
  st_workflow_id :: string
  st_key :: string
  st_name :: string
  st_type :: step_type
  st_config :: js_val
  st_on_error :: on_error
  st_cache_ttl :: "int option"
  st_is_trigger :: bool

record transition_row =
  tr_tenant_id :: string
  tr_organization_id :: string
  tr_workflow_id :: string
  tr_source_step_id :: string
  tr_target_step_id :: string
  tr_route :: dag_route

record execution_row =
  ex_id :: string
  ex_tenant_id :: string
  ex_organization_id :: string
  ex_workflow_id :: string
  ex_status :: execution_status
  ex_trigger_type :: trigger_type
  ex_trigger_payload :: js_val
  ex_depth :: int
  ex_started_at :: ms
  ex_completed_at :: "ms option"
  ex_duration_ms :: "int option"
  ex_error_message :: "string option"

record result_row =
  res_tenant_id :: string
  res_organization_id :: string
  res_workflow_id :: string
  res_execution_id :: string
  res_step_id :: string
  res_status :: result_status
  res_attempt :: nat
  res_input :: js_val
  res_output :: js_val
  res_output_size :: int
  res_output_preview :: "string option"
  res_external_url :: "string option"
  res_started_at :: ms
  res_finished_at :: "ms option"
  res_error_message :: "string option"
  res_created_at :: ms

record quota_row =
  quota_tenant_id :: string
  quota_resource :: quota_resource
  quota_period :: string
  quota_count :: int
  quota_limit :: int
  quota_reset_at :: ms

record execution_job =
  job_attempt :: nat
  job_execution_id :: string
  job_organization_id :: string
  job_step_key :: string
  job_tenant_id :: string
  job_trigger_payload :: js_val
  job_trigger_type :: trigger_type
  job_workflow_id :: string

record trigger_job =
  trg_organization_id :: string
  trg_tenant_id :: string
  trg_payload :: js_val
  trg_type :: trigger_type
  trg_workflow_id :: string

record queued_job =
  q_id :: string
  q_delay :: js_num
  q_job :: execution_job

text \<open>A job of the trigger queue, with the pattern it repeats by.\<close>

record queued_trigger =
  qt_name :: string
  qt_id :: string
  qt_repeat :: "string option"
  qt_job :: trigger_job

record engine =
  workflows :: "workflow_row list"
  steps :: "step_row list"
  transitions :: "transition_row list"
  executions :: "execution_row list"
  results :: "result_row list"
  quotas :: "quota_row list"
  jobs :: "queued_job list"
  trigger_jobs :: "queued_trigger list"
  node_memory :: node_state

definition workflow_indexes :: "workflow_row index list" where
  "workflow_indexes = [(''id'', \<lambda>r. Some (wf_id r)),
     (''tenantId_name'', \<lambda>r. Some (compound_key (wf_tenant_id r) (wf_name r)))]"

definition step_indexes :: "step_row index list" where
  "step_indexes = [(''id'', \<lambda>r. Some (st_id r)),
     (''workflowId_key'', \<lambda>r. Some (compound_key (st_workflow_id r) (st_key r)))]"

fun route_name :: "dag_route \<Rightarrow> string" where
  "route_name ALWAYS = ''ALWAYS''"
| "route_name IF_TRUE = ''IF_TRUE''"
| "route_name IF_FALSE = ''IF_FALSE''"
| "route_name ON_SUCCESS = ''ON_SUCCESS''"
| "route_name ON_FAILURE = ''ON_FAILURE''"
| "route_name FALLBACK = ''FALLBACK''"

definition transition_indexes :: "transition_row index list" where
  "transition_indexes = [(''workflowId_sourceStepId_targetStepId_route'', \<lambda>r. Some
     (compound_key (tr_workflow_id r) (compound_key (tr_source_step_id r)
       (compound_key (tr_target_step_id r) (route_name (tr_route r))))))]"

definition execution_indexes :: "execution_row index list" where
  "execution_indexes = [(''id'', \<lambda>r. Some (ex_id r))]"

definition result_key :: "result_row \<Rightarrow> string" where
  "result_key r = compound_key (res_execution_id r) (compound_key (res_step_id r) (show_nat (res_attempt r)))"

definition result_indexes :: "result_row index list" where
  "result_indexes = [(''executionId_stepId_attempt'', \<lambda>r. Some (result_key r))]"

definition find_execution :: "string \<Rightarrow> engine \<Rightarrow> execution_row option" where
  "find_execution i db = List.find (\<lambda>r. ex_id r = i) (executions db)"

definition steps_of :: "string \<Rightarrow> engine \<Rightarrow> step_row list" where
  "steps_of w db = filter (\<lambda>r. st_workflow_id r = w) (steps db)"

definition transitions_of :: "string \<Rightarrow> engine \<Rightarrow> transition_row list" where
  "transitions_of w db = filter (\<lambda>r. tr_workflow_id r = w) (transitions db)"

definition find_workflow :: "string \<Rightarrow> string \<Rightarrow> engine \<Rightarrow> workflow_row option" where
  "find_workflow i tenant db = List.find (\<lambda>r. wf_id r = i \<and> wf_tenant_id r = tenant) (workflows db)"

definition set_executions :: "execution_row list \<Rightarrow> engine \<Rightarrow> engine" where
  "set_executions rows db = db\<lparr>executions := rows\<rparr>"

definition set_results :: "result_row list \<Rightarrow> engine \<Rightarrow> engine" where
  "set_results rows db = db\<lparr>results := rows\<rparr>"

definition set_quotas :: "quota_row list \<Rightarrow> engine \<Rightarrow> engine" where
  "set_quotas rows db = db\<lparr>quotas := rows\<rparr>"

definition update_execution :: "string \<Rightarrow> (execution_row \<Rightarrow> execution_row) \<Rightarrow> (engine, unit) operation" where
  "update_execution i f = on_table executions set_executions
     (update_unique ''WorkflowExecution'' execution_indexes (\<lambda>r. ex_id r = i) f)"

definition add_job :: "queued_job \<Rightarrow> (engine, unit) operation" where
  "add_job q db = (Inr (), db\<lparr>jobs := jobs db @ [q]\<rparr>)"

definition on_nodes :: "(node_state, 'a) operation \<Rightarrow> (engine, 'a) operation" where
  "on_nodes m db = (case m (node_memory db) of (r, n) \<Rightarrow> (r, db\<lparr>node_memory := n\<rparr>))"

lemma result_key_inject:
  "result_key a = result_key b \<longleftrightarrow>
     res_execution_id a = res_execution_id b \<and> res_step_id a = res_step_id b \<and> res_attempt a = res_attempt b"
  by (simp add: result_key_def compound_key_inject show_nat_inject)

interpretation result_by_key: unique_key "\<lambda>r. Some (result_key r)" .
interpretation execution_by_id: unique_key "\<lambda>r. Some (ex_id r)" .

end
