(* ===== verification/Runner.thy ===== *)
theory Runner
  imports EngineDb
begin

text \<open>
  The workflow runner of the worker (\<open>apps/worker/src/engine/runner.ts\<close>): a trigger job starts an
  execution, an execution job runs one attempt of one step, records its result and puts the jobs of
  the next steps, or the retry, on the queue.

  One reading of the clock serves a whole job. The environment gives the node environment, the
  validator of the step schema, the hash, the id of a new execution and the text of a database
  error.
\<close>

record runner_env =
  re_now :: ms
  re_nodes :: node_env
  re_zod :: "zod \<Rightarrow> js_val \<Rightarrow> api_error + js_val"
  re_sha256 :: "string \<Rightarrow> string"
  re_execution_id :: string
  re_database_text :: "db_error \<Rightarrow> string"

definition output_max_bytes :: int where
  "output_max_bytes = 200 * 1024"

definition max_attempts :: nat where
  "max_attempts = 5"

text \<open>\<open>error.message\<close>.\<close>

definition error_message :: "runner_env \<Rightarrow> api_error \<Rightarrow> string" where
  "error_message E e = (case e of
     Problem _ detail \<Rightarrow> detail | Database d \<Rightarrow> re_database_text E d
   | CacheFailure m \<Rightarrow> m | External m \<Rightarrow> m | Failure m \<Rightarrow> m)"

fun trigger_type_name :: "trigger_type \<Rightarrow> string" where
  "trigger_type_name TriggerManual = ''MANUAL''"
| "trigger_type_name TriggerWebhook = ''WEBHOOK''"
| "trigger_type_name TriggerCron = ''CRON''"
| "trigger_type_name TriggerEvent = ''EVENT''"

fun result_status_name :: "result_status \<Rightarrow> string" where
  "result_status_name ResSuccess = ''SUCCESS''"
| "result_status_name ResFailed = ''FAILED''"
| "result_status_name ResSkipped = ''SKIPPED''"
| "result_status_name ResWaiting = ''WAITING''"

subsection \<open>Outputs and routes\<close>

record output_envelope =
  out_external_url :: "string option"
  out_value :: js_val
  out_preview :: "string option"
  out_size :: int

text \<open>A JSON column keeps \<open>undefined\<close> as null.\<close>

definition json_column :: "js_val \<Rightarrow> js_val" where
  "json_column v = (case v of JUndef \<Rightarrow> JNull | _ \<Rightarrow> v)"

definition normalize_output :: "runner_env \<Rightarrow> js_val \<Rightarrow> string \<Rightarrow> string \<Rightarrow> output_envelope" where
  "normalize_output E v execution key =
     (let txt = serialized v; size = utf8_length txt
      in if size \<le> output_max_bytes then
           \<lparr>out_external_url = None, out_value = v, out_preview = None, out_size = size\<rparr>
         else
           \<lparr>out_external_url = Some (''s3://workflow-step-results/'' @ execution @ ''/'' @ key @ ''/'' @
              re_sha256 E txt @ ''.json''),
            out_value = JNull, out_preview = Some (take (nat 1500) txt @ ''...''), out_size = size\<rparr>)"

definition is_condition_true :: "js_val \<Rightarrow> bool" where
  "is_condition_true v = js_truthy (prop_of v ''result'')"

definition should_follow_transition :: "dag_route \<Rightarrow> js_val \<Rightarrow> bool \<Rightarrow> bool" where
  "should_follow_transition route out failed =
     (if failed then route = ON_FAILURE \<or> route = FALLBACK
      else if route = ALWAYS \<or> route = ON_SUCCESS then True
      else if route = IF_TRUE then is_condition_true out
      else if route = IF_FALSE then \<not> is_condition_true out
      else False)"

definition calculate_backoff :: "nat \<Rightarrow> int" where
  "calculate_backoff attempt = min 60000 (2 ^ attempt * 1000)"

subsection \<open>The agent budget\<close>

definition consume_shared_agent_budget :: "string \<Rightarrow> (engine, unit) operation" where
  "consume_shared_agent_budget tenant =
     then_do (ask (\<lambda>db. sort_key (\<lambda>q. - quota_reset_at q)
       (filter (\<lambda>q. quota_resource q = AI_PROMPTS \<and> quota_tenant_id q = tenant) (quotas db)))) (\<lambda>found.
     case found of
       [] \<Rightarrow> give ()
     | q # _ \<Rightarrow>
         if quota_limit q \<le> quota_count q then throw (Failure ''SHARED_RATE_LIMIT_EXCEEDED'')
         else on_table quotas set_quotas (\<lambda>rows. Inr (update_where
           (\<lambda>r. quota_tenant_id r = quota_tenant_id q \<and> quota_resource r = quota_resource q \<and>
                quota_period r = quota_period q)
           (\<lambda>r. r\<lparr>quota_count := quota_count r + 1\<rparr>) rows)))"

subsection \<open>Triggers\<close>

definition new_execution :: "runner_env \<Rightarrow> trigger_job \<Rightarrow> string \<Rightarrow> execution_row" where
  "new_execution E p workflow = \<lparr>
     ex_id = re_execution_id E, ex_tenant_id = trg_tenant_id p, ex_organization_id = trg_organization_id p,
     ex_workflow_id = workflow, ex_status = ExRunning, ex_trigger_type = trg_type p,
     ex_trigger_payload = trg_payload p, ex_depth = 0, ex_started_at = re_now E,
     ex_completed_at = None, ex_duration_ms = None, ex_error_message = None\<rparr>"

definition job_id :: "string \<Rightarrow> string \<Rightarrow> string \<Rightarrow> string" where
  "job_id execution key n = execution @ '':'' @ key @ '':'' @ n"

definition process_trigger_job :: "runner_env \<Rightarrow> trigger_job \<Rightarrow> (engine, unit) operation" where
  "process_trigger_job E p =
     then_do (ask (\<lambda>db. List.find (\<lambda>w. wf_id w = trg_workflow_id p \<and> wf_status w = WfPublished \<and>
       wf_tenant_id w = trg_tenant_id p) (workflows db))) (\<lambda>found.
     case found of
       None \<Rightarrow> give ()
     | Some w \<Rightarrow>
         then_do (on_table executions set_executions
           (create_row execution_indexes (new_execution E p (wf_id w)))) (\<lambda>_.
         then_do (ask (\<lambda>db. List.find (\<lambda>st. is_trigger_type (st_type st)) (steps_of (wf_id w) db))) (\<lambda>trigger.
         case trigger of
           None \<Rightarrow> update_execution (re_execution_id E) (\<lambda>x. x\<lparr>ex_completed_at := Some (re_now E),
             ex_error_message := Some ''Workflow has no trigger step configured.'', ex_status := ExFailed\<rparr>)
         | Some st \<Rightarrow> add_job \<lparr>
             q_id = job_id (re_execution_id E) (st_key st) ''1'',
             q_delay = Fin 0,
             q_job = \<lparr>job_attempt = 1, job_execution_id = re_execution_id E,
               job_organization_id = trg_organization_id p, job_step_key = st_key st,
               job_tenant_id = trg_tenant_id p, job_trigger_payload = trg_payload p,
               job_trigger_type = trg_type p, job_workflow_id = trg_workflow_id p\<rparr>\<rparr>)))"

subsection \<open>One attempt of a step\<close>

definition result_context :: "result_row \<Rightarrow> js_val" where
  "result_context r = JObj [(''input'', res_input r), (''output'', res_output r),
     (''status'', JStr (result_status_name (res_status r)))]"

text \<open>\<open>Object.fromEntries\<close> over the results so far, oldest first: a later result of a step replaces
  an earlier one.\<close>

definition steps_context :: "string \<Rightarrow> engine \<Rightarrow> (string \<times> js_val) list" where
  "steps_context execution db =
     fold (\<lambda>r acc. case List.find (\<lambda>st. st_id st = res_step_id r) (steps db) of
         None \<Rightarrow> acc
       | Some st \<Rightarrow> AList.update (st_key st) (result_context r) acc)
       (sort_key res_created_at (filter (\<lambda>r. res_execution_id r = execution) (results db))) []"

definition step_value :: "step_row \<Rightarrow> js_val" where
  "step_value st = JObj ((''config'', st_config st) #
     (if st_is_trigger st then [(''isTrigger'', JBool True)] else []) @
     [(''key'', JStr (st_key st)), (''name'', JStr (st_name st)), (''type'', JStr (step_type_name (st_type st)))])"

definition step_input_hash :: "runner_env \<Rightarrow> step_row \<Rightarrow> (string \<times> js_val) list \<Rightarrow> js_val \<Rightarrow> string" where
  "step_input_hash E st ctx payload = re_sha256 E (or_else (stringify (JObj
     [(''stepKey'', JStr (st_key st)), (''stepsContext'', JObj ctx), (''triggerPayload'', payload)])) [])"

definition cached_output :: "runner_env \<Rightarrow> execution_job \<Rightarrow> step_row \<Rightarrow> string \<Rightarrow> engine \<Rightarrow> js_val" where
  "cached_output E p st hash db =
     (let ttl = or_else (st_cache_ttl st) 0
      in if 0 < ttl \<and> (st_type st = AGENT_EXECUTE \<or> st_type st = HTTP_REQUEST) then
           (let since = re_now E - ttl * 1000;
                recent = take 10 (sort_key (\<lambda>r. - or_else (res_finished_at r) 0)
                  (filter (\<lambda>r. (case res_finished_at r of Some t \<Rightarrow> since \<le> t | None \<Rightarrow> False) \<and>
                     res_status r = ResSuccess \<and> res_step_id r = st_id st \<and>
                     res_workflow_id r = job_workflow_id p) (results db)))
            in case List.find (\<lambda>r. prop_of (res_input r) ''_cacheHash'' = JStr hash \<and> res_output r \<noteq> JNull) recent of
                 Some r \<Rightarrow> res_output r | None \<Rightarrow> JUndef)
         else JUndef)"

definition runner_context :: "execution_job \<Rightarrow> (string \<times> js_val) list \<Rightarrow> runtime_context" where
  "runner_context p ctx = \<lparr>ctx_execution_id = job_execution_id p, ctx_steps = ctx,
     ctx_tenant_id = job_tenant_id p, ctx_trigger_output = job_trigger_payload p,
     ctx_trigger_type = trigger_type_name (job_trigger_type p), ctx_workflow_id = job_workflow_id p\<rparr>"

text \<open>The step has passed the schema, whose result carries its configuration with the defaults.\<close>

definition run_step :: "runner_env \<Rightarrow> execution_job \<Rightarrow> step_row \<Rightarrow> js_val \<Rightarrow> (string \<times> js_val) list \<Rightarrow>
    (engine, js_val) operation" where
  "run_step E p st parsed ctx =
     then_do (if st_type st = AGENT_EXECUTE then consume_shared_agent_budget (job_tenant_id p) else give ()) (\<lambda>_.
       on_nodes (execute_step (re_nodes E) (re_now E) (st_type st) (prop_of parsed ''config'')
         (runner_context p ctx)))"

definition result_input :: "string \<Rightarrow> js_val \<Rightarrow> js_val" where
  "result_input hash payload = JObj [(''_cacheHash'', JStr hash), (''triggerPayload'', payload)]"

definition success_row :: "runner_env \<Rightarrow> execution_job \<Rightarrow> step_row \<Rightarrow> string \<Rightarrow> js_val \<Rightarrow> result_row" where
  "success_row E p st hash v =
     (let out = normalize_output E v (job_execution_id p) (st_key st) in \<lparr>
        res_tenant_id = job_tenant_id p, res_organization_id = job_organization_id p,
        res_workflow_id = job_workflow_id p, res_execution_id = job_execution_id p, res_step_id = st_id st,
        res_status = (if st_type st = DELAY then ResWaiting else ResSuccess), res_attempt = job_attempt p,
        res_input = result_input hash (job_trigger_payload p), res_output = json_column (out_value out),
        res_output_size = out_size out, res_output_preview = out_preview out,
        res_external_url = out_external_url out, res_started_at = re_now E,
        res_finished_at = Some (re_now E), res_error_message = None, res_created_at = re_now E\<rparr>)"

definition failure_row :: "runner_env \<Rightarrow> execution_job \<Rightarrow> step_row \<Rightarrow> string \<Rightarrow> api_error \<Rightarrow> result_row" where
  "failure_row E p st hash err = \<lparr>
     res_tenant_id = job_tenant_id p, res_organization_id = job_organization_id p,
     res_workflow_id = job_workflow_id p, res_execution_id = job_execution_id p, res_step_id = st_id st,
     res_status = ResFailed, res_attempt = job_attempt p,
     res_input = result_input hash (job_trigger_payload p), res_output = JNull,
     res_output_size = 0, res_output_preview = None, res_external_url = None,
     res_started_at = re_now E, res_finished_at = Some (re_now E),
     res_error_message = Some (error_message E err), res_created_at = re_now E\<rparr>"

definition create_result :: "result_row \<Rightarrow> (engine, unit) operation" where
  "create_result r = on_table results set_results (create_row result_indexes r)"

definition next_job :: "runner_env \<Rightarrow> execution_job \<Rightarrow> js_num \<Rightarrow> step_row \<Rightarrow> queued_job" where
  "next_job E p delay nxt = \<lparr>
     q_id = job_id (job_execution_id p) (st_key nxt) (show_int (re_now E)), q_delay = delay,
     q_job = p\<lparr>job_attempt := 1, job_step_key := st_key nxt\<rparr>\<rparr>"

definition delay_of :: "step_row \<Rightarrow> js_val \<Rightarrow> js_num" where
  "delay_of st out =
     (if st_type st = DELAY then
        (case js_to_number (nullish (prop_of out ''delayMs'') (prop_of (st_config st) ''duration_ms'')) of
           Fin q \<Rightarrow> js_max (Fin 0) (Fin q) | _ \<Rightarrow> Fin 0)
      else Fin 0)"

fun enqueue_next :: "runner_env \<Rightarrow> execution_job \<Rightarrow> js_num \<Rightarrow> step_row list \<Rightarrow> transition_row list \<Rightarrow>
    (engine, unit) operation" where
  "enqueue_next E p delay sts [] = give ()"
| "enqueue_next E p delay sts (t # ts) =
     (case List.find (\<lambda>c. st_id c = tr_target_step_id t) sts of
        None \<Rightarrow> enqueue_next E p delay sts ts
      | Some nxt \<Rightarrow> then_do (add_job (next_job E p delay nxt)) (\<lambda>_. enqueue_next E p delay sts ts))"

definition followed :: "step_row \<Rightarrow> js_val \<Rightarrow> bool \<Rightarrow> transition_row list \<Rightarrow> transition_row list" where
  "followed st out failed ts =
     filter (\<lambda>t. tr_source_step_id t = st_id st \<and> should_follow_transition (tr_route t) out failed) ts"

definition finish_success :: "runner_env \<Rightarrow> execution_row \<Rightarrow> (engine, unit) operation" where
  "finish_success E x = update_execution (ex_id x) (\<lambda>r. r\<lparr>ex_completed_at := Some (re_now E),
     ex_duration_ms := Some (re_now E - ex_started_at x), ex_status := ExSuccess\<rparr>)"

definition fail_execution :: "runner_env \<Rightarrow> string \<Rightarrow> string \<Rightarrow> (engine, unit) operation" where
  "fail_execution E i m = update_execution i (\<lambda>r. r\<lparr>ex_completed_at := Some (re_now E),
     ex_error_message := Some m, ex_status := ExFailed\<rparr>)"

text \<open>The body of the \<open>try\<close>.\<close>

definition attempt_step :: "runner_env \<Rightarrow> execution_job \<Rightarrow> execution_row \<Rightarrow> step_row list \<Rightarrow>
    transition_row list \<Rightarrow> step_row \<Rightarrow> js_val \<Rightarrow> (string \<times> js_val) list \<Rightarrow> string \<Rightarrow>
    (engine, unit) operation" where
  "attempt_step E p x sts trs st parsed ctx hash =
     then_do (ask (cached_output E p st hash)) (\<lambda>cached.
     then_do (if cached = JUndef then run_step E p st parsed ctx else give cached) (\<lambda>out.
     then_do (create_result (success_row E p st hash out)) (\<lambda>_.
     then_do (update_execution (job_execution_id p) (\<lambda>r. r\<lparr>ex_depth := ex_depth x + 1\<rparr>)) (\<lambda>_.
       let nexts = followed st out False trs
       in if nexts = [] then finish_success E x
          else enqueue_next E p (delay_of st out) sts nexts))))"

text \<open>The \<open>catch\<close>.\<close>

definition handle_failure :: "runner_env \<Rightarrow> execution_job \<Rightarrow> execution_row \<Rightarrow> step_row list \<Rightarrow>
    transition_row list \<Rightarrow> step_row \<Rightarrow> string \<Rightarrow> api_error \<Rightarrow> (engine, unit) operation" where
  "handle_failure E p x sts trs st hash err =
     then_do (create_result (failure_row E p st hash err)) (\<lambda>_.
       if job_attempt p < max_attempts then
         add_job \<lparr>q_id = job_id (job_execution_id p) (job_step_key p) (show_nat (job_attempt p + 1)),
           q_delay = Fin (of_int (calculate_backoff (job_attempt p))),
           q_job = p\<lparr>job_attempt := job_attempt p + 1\<rparr>\<rparr>
       else
         let failing = update_execution (ex_id x) (\<lambda>r. r\<lparr>ex_completed_at := Some (re_now E),
               ex_duration_ms := Some (re_now E - ex_started_at x),
               ex_error_message := Some (error_message E err), ex_status := ExFailed\<rparr>)
         in if st_on_error st = OnErrorContinue then
              (let fallbacks = followed st JNull True trs
               in then_do (enqueue_next E p (Fin 0) sts fallbacks) (\<lambda>_.
                    if fallbacks \<noteq> [] then give () else failing))
            else failing)"

definition process_execution_job :: "runner_env \<Rightarrow> execution_job \<Rightarrow> (engine, unit) operation" where
  "process_execution_job E p =
     then_do (ask (find_execution (job_execution_id p))) (\<lambda>execution.
     case execution of
       None \<Rightarrow> give ()
     | Some x \<Rightarrow>
       if ex_status x = ExCancelled then give ()
       else
         then_do (ask (find_workflow (job_workflow_id p) (job_tenant_id p))) (\<lambda>workflow.
         case workflow of
           None \<Rightarrow> fail_execution E (job_execution_id p) ''Workflow definition not found during execution.''
         | Some w \<Rightarrow>
             let max_depth = max 1 (wf_max_depth w)
             in if max_depth \<le> ex_depth x then
                  fail_execution E (job_execution_id p) (''Execution reached max_depth='' @ show_int max_depth @ ''.'')
                else
                  then_do (ask (steps_of (wf_id w))) (\<lambda>sts.
                  then_do (ask (transitions_of (wf_id w))) (\<lambda>trs.
                  case List.find (\<lambda>c. st_key c = job_step_key p) sts of
                    None \<Rightarrow> fail_execution E (job_execution_id p)
                      (''Step '' @ [CHR 0x27] @ job_step_key p @ [CHR 0x27] @ '' not found in workflow.'')
                  | Some st \<Rightarrow>
                      then_do (ask (steps_context (job_execution_id p))) (\<lambda>ctx.
                      case re_zod E step_schema (step_value st) of
                        Inl e \<Rightarrow> throw e
                      | Inr parsed \<Rightarrow>
                          let hash = step_input_hash E st ctx (job_trigger_payload p)
                          in try_catch (attempt_step E p x sts trs st parsed ctx hash)
                               (handle_failure E p x sts trs st hash))))))"

subsection \<open>The agent executor of the worker\<close>

text \<open>\<open>apps/worker/src/worker.ts\<close>: the tenant an agent step of a workflow runs for.\<close>

definition agent_step_tenant :: "js_val \<Rightarrow> js_val" where
  "agent_step_tenant args = nullish (prop_of (prop_of args ''input'') ''tenantId'') (JStr ''default-tenant'')"

end
