(* ===== verification/WorkflowService.thy ===== *)
theory WorkflowService
  imports Runner DagValidator BillingSnapshot PlanLimits
begin

text \<open>
  The workflows of the API (\<open>apps/api/src/modules/workflows/service.ts\<close>, \<open>runnerQueue.ts\<close>) and the
  two ways the outside world starts them (\<open>modules/webhooks/router.ts\<close>: the trigger endpoint,
  \<open>eventBus.ts\<close>).

  The state is the billing state, the tables of the workflow engine and the keys Redis holds to
  recognise a repeated payload. Requests have passed the schemas of \<open>StepSchema\<close>.
\<close>

record 'r workflow_world =
  fw_billing :: "'r billing_world"
  fw_engine :: engine
  fw_dedupe :: "(string \<times> ms) list"

record workflow_env =
  we_now :: ms
  we_billing :: billing_env
  we_sha256 :: "string \<Rightarrow> string"
  we_hmac :: "string \<Rightarrow> string \<Rightarrow> string"
  we_uuid :: string
  we_workflow_id :: string
  we_step_id :: "nat \<Rightarrow> string"
  we_execution_id :: string
  we_global_secret :: string
  we_queue_refuses :: "string \<Rightarrow> string option"

definition on_billing :: "('r billing_world, 'a) operation \<Rightarrow> ('r workflow_world, 'a) operation" where
  "on_billing m w = (case m (fw_billing w) of (r, b) \<Rightarrow> (r, w\<lparr>fw_billing := b\<rparr>))"

definition on_engine :: "(engine, 'a) operation \<Rightarrow> ('r workflow_world, 'a) operation" where
  "on_engine m w = (case m (fw_engine w) of (r, e) \<Rightarrow> (r, w\<lparr>fw_engine := e\<rparr>))"

subsection \<open>Canvases\<close>

record canvas_step =
  cs_key :: string
  cs_name :: string
  cs_type :: step_type
  cs_config :: js_val

record canvas_transition =
  ct_route :: dag_route
  ct_source :: string
  ct_target :: string

record canvas =
  cv_steps :: "canvas_step list"
  cv_transitions :: "canvas_transition list"

text \<open>The canvas as the JSON column keeps it.\<close>

definition canvas_json :: "canvas \<Rightarrow> js_val" where
  "canvas_json c = JObj
     [(''steps'', JArr (map (\<lambda>s. JObj ((''config'', cs_config s) #
         (if is_trigger_type (cs_type s) then [(''isTrigger'', JBool True)] else []) @
         [(''key'', JStr (cs_key s)), (''name'', JStr (cs_name s)), (''type'', JStr (step_type_name (cs_type s)))]))
        (cv_steps c))),
      (''transitions'', JArr (map (\<lambda>t. JObj [(''route'', JStr (route_name (ct_route t))),
         (''source'', JStr (ct_source t)), (''target'', JStr (ct_target t))]) (cv_transitions c)))]"

definition graph_error_message :: "graph_error \<Rightarrow> string" where
  "graph_error_message e = (case e of
     EmptyGraph \<Rightarrow> ''Workflow graph must contain at least one node.''
   | EmptyNodeId \<Rightarrow> ''Node id cannot be empty.''
   | DuplicateNodeId i \<Rightarrow> ''Duplicate node id '' @ [CHR 0x27] @ i @ [CHR 0x27] @ '' found.''
   | MissingSource i \<Rightarrow> ''Transition source '' @ [CHR 0x27] @ i @ [CHR 0x27] @ '' does not exist.''
   | MissingTarget i \<Rightarrow> ''Transition target '' @ [CHR 0x27] @ i @ [CHR 0x27] @ '' does not exist.''
   | IsolatedNodes _ \<Rightarrow> ''Workflow graph contains isolated nodes.''
   | CyclicDependency c \<Rightarrow> ''Workflow graph contains a cycle: '' @ join_with '' -> '' c
   | NoRoot \<Rightarrow> ''Workflow graph has no trigger/root node.''
   | MultipleRoots _ \<Rightarrow> ''Workflow graph must contain exactly one trigger/root node.''
   | UnreachableNodes _ _ \<Rightarrow> ''Workflow graph has unreachable nodes from trigger root.''
   | NotTopological \<Rightarrow> ''Graph is not a valid DAG for topological sorting.'')"

definition canvas_nodes :: "canvas \<Rightarrow> dag_node list" where
  "canvas_nodes c = map (\<lambda>s. \<lparr>node_id = cs_key s, node_is_trigger = Some (is_trigger_type (cs_type s)),
     node_type = Some (cs_type s)\<rparr>) (cv_steps c)"

definition canvas_edges :: "canvas \<Rightarrow> dag_edge list" where
  "canvas_edges c = map (\<lambda>t. \<lparr>edge_route = Some (ct_route t), edge_source = ct_source t,
     edge_target = ct_target t\<rparr>) (cv_transitions c)"

definition ensure_canvas_is_dag :: "canvas \<Rightarrow> ('s, unit) operation" where
  "ensure_canvas_is_dag c =
     (case validate_dag \<lparr>require_connected = None, require_single_trigger = None\<rparr> (canvas_nodes c) (canvas_edges c) of
        Inl e \<Rightarrow> throw (Failure (graph_error_message e))
      | Inr _ \<Rightarrow> give ())"

definition get_trigger_step_key :: "canvas \<Rightarrow> string" where
  "get_trigger_step_key c = (case List.find (\<lambda>s. is_trigger_type (cs_type s)) (cv_steps c) of
     Some s \<Rightarrow> cs_key s | None \<Rightarrow> cs_key (hd (cv_steps c)))"

record identity =
  idn_organization_id :: string
  idn_tenant_id :: string

definition set_steps :: "step_row list \<Rightarrow> engine \<Rightarrow> engine" where
  "set_steps rows db = db\<lparr>steps := rows\<rparr>"

definition set_transitions :: "transition_row list \<Rightarrow> engine \<Rightarrow> engine" where
  "set_transitions rows db = db\<lparr>transitions := rows\<rparr>"

definition set_workflows :: "workflow_row list \<Rightarrow> engine \<Rightarrow> engine" where
  "set_workflows rows db = db\<lparr>workflows := rows\<rparr>"

text \<open>The columns the code leaves out take their defaults: the step stops on error and is not cached.\<close>

definition new_step_row :: "identity \<Rightarrow> string \<Rightarrow> string \<Rightarrow> canvas_step \<Rightarrow> step_row" where
  "new_step_row idn workflow i s = \<lparr>st_id = i, st_tenant_id = idn_tenant_id idn,
     st_organization_id = idn_organization_id idn, st_workflow_id = workflow, st_key = cs_key s,
     st_name = cs_name s, st_type = cs_type s, st_config = cs_config s, st_on_error = OnErrorStop,
     st_cache_ttl = None, st_is_trigger = is_trigger_type (cs_type s)\<rparr>"

text \<open>The loop over the steps; it returns the map from keys to the ids of the rows.\<close>

fun persist_steps :: "(nat \<Rightarrow> string) \<Rightarrow> identity \<Rightarrow> string \<Rightarrow> nat \<Rightarrow> canvas_step list \<Rightarrow> string jsmap \<Rightarrow>
    (engine, string jsmap) operation" where
  "persist_steps ids idn workflow n [] m = give m"
| "persist_steps ids idn workflow n (s # ss) m =
     then_do (on_table steps set_steps (create_row step_indexes (new_step_row idn workflow (ids n) s))) (\<lambda>_.
       persist_steps ids idn workflow (Suc n) ss (AList.update (cs_key s) (ids n) m))"

fun persist_transitions :: "identity \<Rightarrow> string \<Rightarrow> string jsmap \<Rightarrow> canvas_transition list \<Rightarrow> (engine, unit) operation" where
  "persist_transitions idn workflow m [] = give ()"
| "persist_transitions idn workflow m (t # ts) =
     (case (truthy (map_of m (ct_source t)), truthy (map_of m (ct_target t))) of
        (Some a, Some b) \<Rightarrow>
          then_do (on_table transitions set_transitions (create_row transition_indexes
            \<lparr>tr_tenant_id = idn_tenant_id idn, tr_organization_id = idn_organization_id idn,
             tr_workflow_id = workflow, tr_source_step_id = a, tr_target_step_id = b, tr_route = ct_route t\<rparr>))
            (\<lambda>_. persist_transitions idn workflow m ts)
      | _ \<Rightarrow> throw (Failure ''WORKFLOW_TRANSITION_MISSING_ENDPOINT''))"

definition persist_canvas :: "(nat \<Rightarrow> string) \<Rightarrow> identity \<Rightarrow> string \<Rightarrow> canvas \<Rightarrow> (engine, unit) operation" where
  "persist_canvas ids idn workflow c =
     then_do (persist_steps ids idn workflow 0 (cv_steps c) []) (\<lambda>m.
       persist_transitions idn workflow m (cv_transitions c))"

subsection \<open>Queues\<close>

text \<open>\<open>Queue.add\<close> with a job id: the queue may refuse it, with the message of the error it throws.\<close>

definition queue_add :: "(string \<Rightarrow> string option) \<Rightarrow> string \<Rightarrow> ('s, unit) operation \<Rightarrow> ('s, unit) operation" where
  "queue_add refuses i m = (case refuses i of None \<Rightarrow> m | Some e \<Rightarrow> throw (Failure e))"

definition enqueue_workflow_execution :: "(string \<Rightarrow> string option) \<Rightarrow> execution_job \<Rightarrow> (engine, unit) operation" where
  "enqueue_workflow_execution refuses p =
     (let i = job_id (job_execution_id p) (job_step_key p) (show_nat (job_attempt p))
      in queue_add refuses i (add_job \<lparr>q_id = i, q_delay = Fin 0, q_job = p\<rparr>))"

definition add_trigger :: "queued_trigger \<Rightarrow> (engine, unit) operation" where
  "add_trigger q db = (Inr (), db\<lparr>trigger_jobs := trigger_jobs db @ [q]\<rparr>)"

definition enqueue_workflow_trigger :: "(string \<Rightarrow> string option) \<Rightarrow> ms \<Rightarrow> trigger_job \<Rightarrow> (engine, unit) operation" where
  "enqueue_workflow_trigger refuses now p =
     (let i = trg_workflow_id p @ '':'' @ show_int now
      in queue_add refuses i (add_trigger \<lparr>qt_name = ''workflow-trigger'', qt_id = i, qt_repeat = None, qt_job = p\<rparr>))"

definition schedule_cron_workflow :: "string \<Rightarrow> trigger_job \<Rightarrow> (engine, unit) operation" where
  "schedule_cron_workflow cron p = add_trigger \<lparr>qt_name = ''workflow-trigger-cron'',
     qt_id = ''cron:'' @ trg_workflow_id p, qt_repeat = Some cron, qt_job = p\<rparr>"

text \<open>\<open>SET key 1 EX 5 NX\<close>: the key is taken unless it is held.\<close>

definition dedupe_key :: "workflow_env \<Rightarrow> string \<Rightarrow> js_val \<Rightarrow> string" where
  "dedupe_key E tenant payload = ''workflow:trigger:dedupe:'' @ tenant @ '':'' @
     we_sha256 E (or_else (stringify (JObj [(''payload'', payload), (''tenantId'', JStr tenant)])) [])"

definition dedupe_trigger_payload :: "workflow_env \<Rightarrow> string \<Rightarrow> js_val \<Rightarrow> ('r workflow_world, bool) operation" where
  "dedupe_trigger_payload E tenant payload w =
     (let k = dedupe_key E tenant payload
      in case map_of (fw_dedupe w) k of
           Some t \<Rightarrow> if we_now E < t then (Inr False, w)
                     else (Inr True, w\<lparr>fw_dedupe := AList.update k (we_now E + 5000) (fw_dedupe w)\<rparr>)
         | None \<Rightarrow> (Inr True, w\<lparr>fw_dedupe := AList.update k (we_now E + 5000) (fw_dedupe w)\<rparr>))"

definition upsert_cron_trigger :: "workflow_row \<Rightarrow> (engine, unit) operation" where
  "upsert_cron_trigger w = (case truthy (wf_cron_expression w) of
     None \<Rightarrow> give ()
   | Some cron \<Rightarrow> schedule_cron_workflow cron \<lparr>trg_organization_id = wf_organization_id w,
       trg_tenant_id = wf_tenant_id w, trg_payload = JObj [], trg_type = TriggerCron, trg_workflow_id = wf_id w\<rparr>)"

subsection \<open>The operations\<close>

definition resolve_scoped_identity :: "string \<Rightarrow> ('r workflow_world, identity) operation" where
  "resolve_scoped_identity reference =
     then_do (ask (\<lambda>w. find_organization_by_reference reference (bw_db (fw_billing w)))) (\<lambda>found. case found of
       None \<Rightarrow> throw (Failure ''ORGANIZATION_NOT_FOUND'')
     | Some org \<Rightarrow> give \<lparr>idn_organization_id = org_id org, idn_tenant_id = org_tenant_id org\<rparr>)"

definition count_workflows :: "string \<Rightarrow> engine \<Rightarrow> nat" where
  "count_workflows tenant db =
     length (filter (\<lambda>w. wf_archived_at w = None \<and> wf_tenant_id w = tenant) (workflows db))"

definition assert_workflow_limit :: "('r, cache_text) redis_client \<Rightarrow> workflow_env \<Rightarrow> identity \<Rightarrow>
    ('r workflow_world, unit) operation" where
  "assert_workflow_limit rc E idn =
     then_do (on_billing (get_billing_snapshot rc (we_billing E) (idn_tenant_id idn) 3)) (\<lambda>snapshot.
       let limit = read_numeric_plan_limit (snap_plan_limits snapshot) ''workflows'' (Fin 30)
       in case limit of
            Fin q \<Rightarrow>
              then_do (ask (\<lambda>w. count_workflows (idn_tenant_id idn) (fw_engine w))) (\<lambda>current.
                if q \<le> of_nat current then
                  throw (Problem 402 (''The active plan allows '' @ show_num limit @
                    '' workflows. Upgrade to create more.''))
                else give ())
          | _ \<Rightarrow> give ())"

record workflow_create_input =
  wci_canvas :: canvas
  wci_cron_expression :: "string option"
  wci_description :: "string option"
  wci_event_topic :: "string option"
  wci_max_depth :: int
  wci_name :: string
  wci_status :: workflow_status
  wci_trigger_config :: js_val
  wci_trigger_type :: trigger_type

definition create_webhook_secret :: "workflow_env \<Rightarrow> identity \<Rightarrow> string \<Rightarrow> string" where
  "create_webhook_secret E idn name =
     we_sha256 E (idn_tenant_id idn @ '':'' @ name @ '':'' @ show_int (we_now E) @ '':'' @ we_uuid E)"

definition new_workflow_row :: "workflow_env \<Rightarrow> identity \<Rightarrow> workflow_create_input \<Rightarrow> workflow_row" where
  "new_workflow_row E idn i = \<lparr>wf_id = we_workflow_id E, wf_tenant_id = idn_tenant_id idn,
     wf_organization_id = idn_organization_id idn, wf_name = wci_name i,
     wf_description = wci_description i, wf_status = wci_status i, wf_definition = canvas_json (wci_canvas i),
     wf_trigger_type = wci_trigger_type i, wf_trigger_config = wci_trigger_config i,
     wf_webhook_secret = (if wci_trigger_type i = TriggerWebhook
       then Some (create_webhook_secret E idn (wci_name i)) else None),
     wf_cron_expression = wci_cron_expression i, wf_event_topic = wci_event_topic i,
     wf_max_depth = wci_max_depth i,
     wf_published_at = (if wci_status i = WfPublished then Some (we_now E) else None),
     wf_archived_at = (if wci_status i = WfArchived then Some (we_now E) else None),
     wf_created_at = we_now E\<rparr>"

text \<open>The workflow with what \<open>getWorkflowById\<close> includes: its steps, its transitions and its last
  executions.\<close>

record workflow_view =
  view_workflow :: workflow_row
  view_steps :: "step_row list"
  view_transitions :: "transition_row list"
  view_executions :: "(execution_row \<times> result_row list) list"

definition get_workflow_by_id :: "string \<Rightarrow> string \<Rightarrow> engine \<Rightarrow> workflow_view option" where
  "get_workflow_by_id i tenant db = (case find_workflow i tenant db of
     None \<Rightarrow> None
   | Some w \<Rightarrow> Some \<lparr>view_workflow = w, view_steps = steps_of i db, view_transitions = transitions_of i db,
       view_executions = map (\<lambda>x. (x, sort_key res_created_at (filter (\<lambda>r. res_execution_id r = ex_id x) (results db))))
         (take 25 (sort_key (\<lambda>x. - ex_started_at x) (filter (\<lambda>x. ex_workflow_id x = i) (executions db))))\<rparr>)"

definition list_workflows :: "string \<Rightarrow> engine \<Rightarrow> (workflow_row \<times> nat \<times> nat) list" where
  "list_workflows tenant db =
     map (\<lambda>w. (w, length (filter (\<lambda>x. ex_workflow_id x = wf_id w) (executions db)), length (steps_of (wf_id w) db)))
       (sort_key (\<lambda>w. - wf_created_at w) (filter (\<lambda>w. wf_tenant_id w = tenant) (workflows db)))"

definition create_workflow :: "('r, cache_text) redis_client \<Rightarrow> workflow_env \<Rightarrow> string \<Rightarrow> workflow_create_input \<Rightarrow>
    ('r workflow_world, workflow_view) operation" where
  "create_workflow rc E reference i =
     then_do (resolve_scoped_identity reference) (\<lambda>idn.
     then_do (assert_workflow_limit rc E idn) (\<lambda>_.
     then_do (ensure_canvas_is_dag (wci_canvas i)) (\<lambda>_.
     then_do (on_engine (in_transaction (
       then_do (on_table workflows set_workflows (create_row workflow_indexes (new_workflow_row E idn i))) (\<lambda>_.
         persist_canvas (we_step_id E) idn (we_workflow_id E) (wci_canvas i))))) (\<lambda>_.
     then_do (if wci_trigger_type i = TriggerCron then on_engine (upsert_cron_trigger (new_workflow_row E idn i))
              else give ()) (\<lambda>_.
     then_do (ask (\<lambda>w. get_workflow_by_id (we_workflow_id E) (idn_tenant_id idn) (fw_engine w))) (\<lambda>persisted.
       case persisted of None \<Rightarrow> throw (Failure ''WORKFLOW_CREATE_FAILED'') | Some v \<Rightarrow> give v))))))"

record workflow_update_input =
  wui_canvas :: "canvas option"
  wui_cron_expression :: "string option"
  wui_description :: "string option"
  wui_event_topic :: "string option"
  wui_max_depth :: "int option"
  wui_name :: "string option"
  wui_status :: "workflow_status option"
  wui_trigger_config :: "js_val option"
  wui_trigger_type :: "trigger_type option"

definition apply_status :: "ms \<Rightarrow> workflow_status option \<Rightarrow> workflow_row \<Rightarrow> workflow_row" where
  "apply_status now s w = (case s of
     None \<Rightarrow> w
   | Some WfArchived \<Rightarrow> w\<lparr>wf_archived_at := Some now, wf_published_at := None, wf_status := WfArchived\<rparr>
   | Some WfPublished \<Rightarrow> w\<lparr>wf_archived_at := None, wf_published_at := Some now, wf_status := WfPublished\<rparr>
   | Some WfDraft \<Rightarrow> w\<lparr>wf_archived_at := None, wf_published_at := None, wf_status := WfDraft\<rparr>)"

definition apply_update :: "ms \<Rightarrow> workflow_update_input \<Rightarrow> workflow_row \<Rightarrow> workflow_row" where
  "apply_update now i w =
     (apply_status now (wui_status i) w)\<lparr>
        wf_cron_expression := or_opt (wui_cron_expression i) (wf_cron_expression w),
        wf_definition := (case wui_canvas i of None \<Rightarrow> wf_definition w | Some c \<Rightarrow> canvas_json c),
        wf_description := or_opt (wui_description i) (wf_description w),
        wf_event_topic := or_opt (wui_event_topic i) (wf_event_topic w),
        wf_max_depth := or_else (wui_max_depth i) (wf_max_depth w),
        wf_name := or_else (wui_name i) (wf_name w),
        wf_trigger_config := or_else (wui_trigger_config i) (wf_trigger_config w),
        wf_trigger_type := or_else (wui_trigger_type i) (wf_trigger_type w)\<rparr>"

text \<open>Deleting the steps of a workflow takes their transitions and results with them (the foreign
  keys cascade).\<close>

definition delete_steps :: "string \<Rightarrow> engine \<Rightarrow> engine" where
  "delete_steps workflow db =
     (let gone = (\<lambda>i. \<exists>st \<in> set (steps db). st_id st = i \<and> st_workflow_id st = workflow)
      in db\<lparr>steps := delete_where (\<lambda>st. st_workflow_id st = workflow) (steps db),
            transitions := delete_where (\<lambda>t. gone (tr_source_step_id t) \<or> gone (tr_target_step_id t)) (transitions db),
            results := delete_where (\<lambda>r. gone (res_step_id r)) (results db)\<rparr>)"

definition replace_canvas :: "(nat \<Rightarrow> string) \<Rightarrow> identity \<Rightarrow> string \<Rightarrow> canvas \<Rightarrow> (engine, unit) operation" where
  "replace_canvas ids idn workflow c =
     then_do (on_table transitions set_transitions
       (\<lambda>rows. Inr (delete_where (\<lambda>t. tr_workflow_id t = workflow) rows))) (\<lambda>_.
     then_do (\<lambda>db. (Inr (), delete_steps workflow db)) (\<lambda>_.
       persist_canvas ids idn workflow c))"

definition update_workflow :: "workflow_env \<Rightarrow> string \<Rightarrow> string \<Rightarrow> workflow_update_input \<Rightarrow>
    ('r workflow_world, workflow_view) operation" where
  "update_workflow E workflow reference i =
     then_do (resolve_scoped_identity reference) (\<lambda>idn.
     then_do (ask (\<lambda>w. get_workflow_by_id workflow (idn_tenant_id idn) (fw_engine w))) (\<lambda>found.
     case found of
       None \<Rightarrow> throw (Failure ''WORKFLOW_NOT_FOUND'')
     | Some existing \<Rightarrow>
         then_do (case wui_canvas i of None \<Rightarrow> give () | Some c \<Rightarrow> ensure_canvas_is_dag c) (\<lambda>_.
         then_do (on_engine (in_transaction (
           then_do (on_table workflows set_workflows
             (update_unique ''Workflow'' workflow_indexes (\<lambda>r. wf_id r = workflow) (apply_update (we_now E) i))) (\<lambda>_.
             case wui_canvas i of None \<Rightarrow> give () | Some c \<Rightarrow> replace_canvas (we_step_id E) idn workflow c)))) (\<lambda>_.
         let updated = apply_update (we_now E) i (view_workflow existing)
         in then_do (if wf_trigger_type updated = TriggerCron then on_engine (upsert_cron_trigger updated) else give ()) (\<lambda>_.
            then_do (ask (\<lambda>w. get_workflow_by_id workflow (idn_tenant_id idn) (fw_engine w))) (\<lambda>persisted.
              case persisted of None \<Rightarrow> throw (Failure ''WORKFLOW_NOT_FOUND_AFTER_UPDATE'') | Some v \<Rightarrow> give v))))))"

definition archive_workflow :: "workflow_env \<Rightarrow> string \<Rightarrow> string \<Rightarrow> ('r workflow_world, unit) operation" where
  "archive_workflow E workflow reference =
     then_do (resolve_scoped_identity reference) (\<lambda>idn.
       on_engine (on_table workflows set_workflows (update_many workflow_indexes
         (\<lambda>r. wf_id r = workflow \<and> wf_tenant_id r = idn_tenant_id idn)
         (\<lambda>r. r\<lparr>wf_archived_at := Some (we_now E), wf_status := WfArchived\<rparr>))))"

record run_receipt =
  run_execution_id :: string
  run_async :: bool

definition manual_execution :: "workflow_env \<Rightarrow> workflow_row \<Rightarrow> js_val \<Rightarrow> trigger_type \<Rightarrow> execution_row" where
  "manual_execution E w payload t = \<lparr>ex_id = we_execution_id E, ex_tenant_id = wf_tenant_id w,
     ex_organization_id = wf_organization_id w, ex_workflow_id = wf_id w, ex_status = ExRunning,
     ex_trigger_type = t, ex_trigger_payload = payload, ex_depth = 0, ex_started_at = we_now E,
     ex_completed_at = None, ex_duration_ms = None, ex_error_message = None\<rparr>"

definition run_workflow_now :: "workflow_env \<Rightarrow> string \<Rightarrow> string \<Rightarrow> bool \<Rightarrow> js_val \<Rightarrow> trigger_type \<Rightarrow>
    ('r workflow_world, run_receipt) operation" where
  "run_workflow_now E workflow reference async payload t =
     then_do (resolve_scoped_identity reference) (\<lambda>idn.
     then_do (ask (\<lambda>w. get_workflow_by_id workflow (idn_tenant_id idn) (fw_engine w))) (\<lambda>found.
     case found of
       None \<Rightarrow> throw (Failure ''WORKFLOW_NOT_FOUND'')
     | Some v \<Rightarrow>
         let w = view_workflow v
         in if wf_status w \<noteq> WfPublished then throw (Failure ''WORKFLOW_NOT_PUBLISHED'')
            else
              then_do (on_engine (on_table executions set_executions
                (create_row execution_indexes (manual_execution E w payload t)))) (\<lambda>_.
              then_do (on_engine (case List.find (\<lambda>st. is_trigger_type (st_type st)) (view_steps v) of
                  Some st \<Rightarrow> enqueue_workflow_execution (we_queue_refuses E) \<lparr>job_attempt = 1, job_execution_id = we_execution_id E,
                    job_organization_id = wf_organization_id w, job_step_key = st_key st,
                    job_tenant_id = wf_tenant_id w, job_trigger_payload = payload, job_trigger_type = t,
                    job_workflow_id = wf_id w\<rparr>
                | None \<Rightarrow> enqueue_workflow_trigger (we_queue_refuses E) (we_now E) \<lparr>trg_organization_id = wf_organization_id w,
                    trg_tenant_id = wf_tenant_id w, trg_payload = payload, trg_type = t,
                    trg_workflow_id = wf_id w\<rparr>)) (\<lambda>_.
                give \<lparr>run_execution_id = we_execution_id E, run_async = async\<rparr>))))"

subsection \<open>Triggers from outside\<close>

datatype trigger_answer = Deduplicated | Accepted string

definition webhook_signature :: "workflow_env \<Rightarrow> workflow_row \<Rightarrow> js_val \<Rightarrow> string" where
  "webhook_signature E w payload =
     we_hmac E (or_else (wf_webhook_secret w) (we_global_secret E)) (or_else (stringify payload) [])"

definition webhook_trigger :: "workflow_env \<Rightarrow> string \<Rightarrow> string option \<Rightarrow> js_val \<Rightarrow>
    ('r workflow_world, trigger_answer) operation" where
  "webhook_trigger E workflow signature payload =
     then_do (ask (\<lambda>w. List.find (\<lambda>r. wf_id r = workflow) (workflows (fw_engine w)))) (\<lambda>found.
     case found of
       None \<Rightarrow> throw (Problem 404 ''Webhook trigger not found.'')
     | Some w \<Rightarrow>
         if wf_trigger_type w \<noteq> TriggerWebhook then throw (Problem 404 ''Webhook trigger not found.'')
         else if truthy signature \<noteq> Some (webhook_signature E w payload) then
           throw (Problem 401 ''Invalid webhook signature.'')
         else
           then_do (dedupe_trigger_payload E (wf_tenant_id w) payload) (\<lambda>fresh.
             if \<not> fresh then give Deduplicated
             else then_do (run_workflow_now E (wf_id w) (wf_organization_id w) True payload TriggerWebhook)
               (\<lambda>receipt. give (Accepted (run_execution_id receipt)))))"

text \<open>The bridge of the internal events: the workflows of the topic one after the other, the ids of
  their executions drawn in this order; the first error ends it.\<close>

fun run_all :: "workflow_env \<Rightarrow> (nat \<Rightarrow> string) \<Rightarrow> nat \<Rightarrow> workflow_row list \<Rightarrow> js_val \<Rightarrow>
    ('r workflow_world, unit) operation" where
  "run_all E ids n [] payload = give ()"
| "run_all E ids n (w # ws) payload =
     then_do (run_workflow_now (E\<lparr>we_execution_id := ids n\<rparr>) (wf_id w) (wf_organization_id w) True payload TriggerEvent)
       (\<lambda>_. run_all E ids (Suc n) ws payload)"

definition handle_internal_event :: "workflow_env \<Rightarrow> (nat \<Rightarrow> string) \<Rightarrow> string \<Rightarrow> string \<Rightarrow> js_val \<Rightarrow>
    ('r workflow_world, unit) operation" where
  "handle_internal_event E ids topic tenant payload =
     then_do (ask (\<lambda>w. filter (\<lambda>r. wf_event_topic r = Some topic \<and> wf_status r = WfPublished \<and>
       wf_tenant_id r = tenant \<and> wf_trigger_type r = TriggerEvent) (workflows (fw_engine w)))) (\<lambda>found.
       run_all E ids 0 found payload)"

end
