(* ===== verification/RunnerEffect.thy ===== *)
theory RunnerEffect
  imports Runner
begin

text \<open>
  What one job of the workflow runner does to the tables: either nothing but the status of its
  execution changes, or one result is recorded and the jobs that follow from it are queued
  (\<open>job_effect\<close>). The invariants of the runner are proved over this relation.
\<close>

named_theorems engine_simps "how the operations of the runner act on the tables"

subsection \<open>Steps that leave the tables alone\<close>

definition same_tables :: "engine \<Rightarrow> engine \<Rightarrow> bool" where
  "same_tables s s' \<longleftrightarrow> workflows s' = workflows s \<and> steps s' = steps s \<and> transitions s' = transitions s \<and>
     executions s' = executions s \<and> results s' = results s \<and> jobs s' = jobs s"

lemma same_tables_refl [simp]: "same_tables s s"
  by (simp add: same_tables_def)

lemma keeps_on_nodes: "keeps (same_tables s) (on_nodes m)"
  by (simp add: keeps_def on_nodes_def same_tables_def split: prod.splits)

lemma keeps_quotas: "keeps (same_tables s) (on_table quotas set_quotas stmt)"
  by (rule keeps_on_table) (simp add: same_tables_def set_quotas_def)

lemma keeps_budget: "keeps (same_tables s) (consume_shared_agent_budget t)"
  unfolding consume_shared_agent_budget_def by (intro keeps_cases keeps_quotas) (auto split: list.split intro!: keeps_If keeps_quotas)

lemma keeps_run_step: "keeps (same_tables s) (run_step E p st parsed ctx)"
  unfolding run_step_def by (intro keeps_cases keeps_budget keeps_on_nodes)

subsection \<open>The operations as functions\<close>

lemma update_execution_ok:
  assumes "indexes_ok execution_indexes (executions s)" and "find_execution i s = Some x"
    and "\<And>r. ex_id (f r) = ex_id r"
  shows "update_execution i f s =
    (Inr (), s\<lparr>executions := update_where (\<lambda>r. ex_id r = i) f (executions s)\<rparr>)"
proof -
  have "indexes_ok execution_indexes (update_where (\<lambda>r. ex_id r = i) f (executions s))"
    by (rule indexes_ok_update_keep[OF assms(1)]) (auto simp: execution_indexes_def assms(3))
  moreover have "\<exists>r \<in> set (executions s). ex_id r = i"
    using assms(2) find_Some_iff_mem unfolding find_execution_def by fastforce
  ultimately have "update_unique ''WorkflowExecution'' execution_indexes (\<lambda>r. ex_id r = i) f (executions s) =
      Inr (update_where (\<lambda>r. ex_id r = i) f (executions s))"
    by (simp add: update_unique_Inr)
  then show ?thesis by (simp add: update_execution_def set_executions_def)
qed

definition next_jobs :: "runner_env \<Rightarrow> execution_job \<Rightarrow> js_num \<Rightarrow> step_row list \<Rightarrow> transition_row list \<Rightarrow>
    queued_job list" where
  "next_jobs E p delay sts ts =
     List.map_filter (\<lambda>t. map_option (next_job E p delay) (List.find (\<lambda>c. st_id c = tr_target_step_id t) sts)) ts"

lemma enqueue_next_eq:
  "enqueue_next E p delay sts ts s = (Inr (), s\<lparr>jobs := jobs s @ next_jobs E p delay sts ts\<rparr>)"
proof (induction ts arbitrary: s)
  case Nil
  then show ?case by (simp add: next_jobs_def map_filter_simps)
next
  case (Cons t ts)
  then show ?case
    by (cases "List.find (\<lambda>c. st_id c = tr_target_step_id t) sts")
      (auto simp: next_jobs_def map_filter_simps add_job_def)
qed

lemma length_map_filter_le: "length (List.map_filter f xs) \<le> length xs"
  by (induction xs) (auto simp: map_filter_simps split: option.split)

lemma length_next_jobs: "length (next_jobs E p delay sts ts) \<le> length ts"
  unfolding next_jobs_def by (rule length_map_filter_le)

lemma next_jobs_mem:
  assumes "q \<in> set (next_jobs E p delay sts ts)"
  obtains t nxt where "t \<in> set ts" and "nxt \<in> set sts" and "st_id nxt = tr_target_step_id t"
    and "q = next_job E p delay nxt"
proof -
  from assms obtain t nxt where t: "t \<in> set ts"
    and n: "List.find (\<lambda>c. st_id c = tr_target_step_id t) sts = Some nxt" and q: "q = next_job E p delay nxt"
    unfolding next_jobs_def by (auto simp: map_filter_def)
  show ?thesis using that[OF t _ _ q] find_Some_iff_mem[OF n] by simp
qed

lemma create_result_Inr:
  "create_result r s = (Inr u, s') \<longleftrightarrow>
     indexes_ok result_indexes (results s @ [r]) \<and> s' = s\<lparr>results := results s @ [r]\<rparr>"
  by (auto simp: create_result_def table_simps set_results_def)

lemma create_result_Inl:
  "create_result r s = (Inl e, s') \<longleftrightarrow>
     \<not> indexes_ok result_indexes (results s @ [r]) \<and> s' = s \<and> e = Database (P2002 ''executionId_stepId_attempt'')"
proof -
  have "create_row result_indexes r (results s) = Inl d \<longleftrightarrow>
      \<not> indexes_ok result_indexes (results s @ [r]) \<and> d = P2002 ''executionId_stepId_attempt''" for d
    by (auto simp: create_row_def commit_rows_def result_indexes_def indexes_ok_def)
  then show ?thesis by (auto simp: create_result_def)
qed

text \<open>Two results with the same key are the same attempt of the same step of an execution.\<close>

lemma results_ok_append:
  "indexes_ok result_indexes (rows @ [r]) \<longleftrightarrow>
     indexes_ok result_indexes rows \<and>
     (\<forall>x \<in> set rows. \<not> (res_execution_id x = res_execution_id r \<and> res_step_id x = res_step_id r \<and>
        res_attempt x = res_attempt r))"
proof -
  have ok: "indexes_ok result_indexes xs = result_by_key.unique xs" for xs
    by (simp add: indexes_ok_def result_indexes_def index_ok_def result_by_key.unique_def)
  show ?thesis
    unfolding ok result_by_key.unique_append1 result_by_key.free_def by (auto simp: result_key_inject)
qed

subsection \<open>Where a job starts\<close>

text \<open>The guards of \<open>processExecutionJob\<close> have passed and the step has been found and parsed.\<close>

definition ready :: "runner_env \<Rightarrow> execution_job \<Rightarrow> engine \<Rightarrow> execution_row \<Rightarrow> workflow_row \<Rightarrow> step_row \<Rightarrow>
    js_val \<Rightarrow> bool" where
  "ready E p s x w st parsed \<longleftrightarrow>
     find_execution (job_execution_id p) s = Some x \<and> ex_status x \<noteq> ExCancelled \<and>
     find_workflow (job_workflow_id p) (job_tenant_id p) s = Some w \<and>
     ex_depth x < max 1 (wf_max_depth w) \<and>
     List.find (\<lambda>c. st_key c = job_step_key p) (steps_of (wf_id w) s) = Some st \<and>
     re_zod E step_schema (step_value st) = Inr parsed"

definition attempt :: "runner_env \<Rightarrow> execution_job \<Rightarrow> execution_row \<Rightarrow> workflow_row \<Rightarrow> step_row \<Rightarrow>
    js_val \<Rightarrow> (engine, unit) operation" where
  "attempt E p x w st parsed s =
     attempt_step E p x (steps_of (wf_id w) s) (transitions_of (wf_id w) s) st parsed
       (steps_context (job_execution_id p) s)
       (step_input_hash E st (steps_context (job_execution_id p) s) (job_trigger_payload p)) s"

definition recover :: "runner_env \<Rightarrow> execution_job \<Rightarrow> execution_row \<Rightarrow> workflow_row \<Rightarrow> step_row \<Rightarrow>
    engine \<Rightarrow> api_error \<Rightarrow> (engine, unit) operation" where
  "recover E p x w st s =
     handle_failure E p x (steps_of (wf_id w) s) (transitions_of (wf_id w) s) st
       (step_input_hash E st (steps_context (job_execution_id p) s) (job_trigger_payload p))"

lemma process_ready:
  assumes "ready E p s x w st parsed"
  shows "process_execution_job E p s = (case attempt E p x w st parsed s of
     (Inl e, s') \<Rightarrow> recover E p x w st s e s' | (Inr u, s') \<Rightarrow> (Inr u, s'))"
  using assms
  by (simp add: ready_def process_execution_job_def then_do_def ask_def not_le[symmetric] Let_def
      try_catch_def attempt_def recover_def del: max.bounded_iff not_le split: prod.split sum.split)

text \<open>Otherwise the job ends with at most the status of the execution changed.\<close>

lemma process_not_ready:
  assumes "\<nexists>x w st parsed. ready E p s x w st parsed"
    and "process_execution_job E p s = (r, s')"
  shows "s' = s \<or> (\<exists>m. fail_execution E (job_execution_id p) m s = (r, s'))"
  using assms
  by (auto simp: ready_def process_execution_job_def then_do_def ask_def give_def throw_def Let_def
      split: option.splits if_splits sum.splits)

subsection \<open>The effect of a job\<close>

definition same_run :: "execution_job \<Rightarrow> execution_job \<Rightarrow> bool" where
  "same_run p q \<longleftrightarrow> job_execution_id q = job_execution_id p \<and> job_workflow_id q = job_workflow_id p \<and>
     job_tenant_id q = job_tenant_id p \<and> job_organization_id q = job_organization_id p"

definition same_identity :: "(execution_row \<Rightarrow> execution_row) \<Rightarrow> bool" where
  "same_identity f \<longleftrightarrow> (\<forall>x. ex_id (f x) = ex_id x \<and> ex_workflow_id (f x) = ex_workflow_id x \<and>
     ex_tenant_id (f x) = ex_tenant_id x)"

definition same_workflows :: "engine \<Rightarrow> engine \<Rightarrow> bool" where
  "same_workflows s s' \<longleftrightarrow> workflows s' = workflows s \<and> steps s' = steps s \<and> transitions s' = transitions s"

inductive job_effect :: "execution_job \<Rightarrow> engine \<Rightarrow> engine \<Rightarrow> bool" for p where
  quiet: "same_workflows s s' \<Longrightarrow> results s' = results s \<Longrightarrow> jobs s' = jobs s \<Longrightarrow> same_identity f \<Longrightarrow>
    (\<And>x. ex_depth (f x) = ex_depth x) \<Longrightarrow>
    executions s' = update_where (\<lambda>x. ex_id x = job_execution_id p) f (executions s) \<Longrightarrow> job_effect p s s'"
| ran: "same_workflows s s' \<Longrightarrow> find_execution (job_execution_id p) s = Some x \<Longrightarrow>
    find_workflow (job_workflow_id p) (job_tenant_id p) s = Some w \<Longrightarrow>
    ex_depth x < max 1 (wf_max_depth w) \<Longrightarrow> st \<in> set (steps_of (wf_id w) s) \<Longrightarrow>
    res_execution_id r = job_execution_id p \<Longrightarrow> res_step_id r = st_id st \<Longrightarrow> res_attempt r = job_attempt p \<Longrightarrow>
    results s' = results s @ [r] \<Longrightarrow> indexes_ok result_indexes (results s') \<Longrightarrow>
    jobs s' = jobs s @ new \<Longrightarrow> length new \<le> max 1 (length (transitions_of (wf_id w) s)) \<Longrightarrow>
    (\<And>q. q \<in> set new \<Longrightarrow> same_run p (q_job q) \<and>
       (job_attempt (q_job q) = 1 \<or> res_status r = ResFailed \<and> job_attempt p < max_attempts \<and>
          job_attempt (q_job q) = job_attempt p + 1)) \<Longrightarrow>
    same_identity f \<Longrightarrow>
    (\<And>y. ex_depth (f y) = (if res_status r = ResFailed then ex_depth y else ex_depth x + 1)) \<Longrightarrow>
    executions s' = update_where (\<lambda>y. ex_id y = job_execution_id p) f (executions s) \<Longrightarrow> job_effect p s s'"

lemma update_where_cong_id: "update_where P (\<lambda>r. r) rows = rows"
  by (induction rows) auto

lemma update_where_twice:
  "(\<And>r. P (f r) = P r) \<Longrightarrow> update_where P g (update_where P f rows) = update_where P (\<lambda>r. g (f r)) rows"
  by (induction rows) auto

lemma same_tables_same_workflows: "same_tables s s' \<Longrightarrow> same_workflows s s'"
  by (simp add: same_tables_def same_workflows_def)

lemma quiet_same: "same_tables s s' \<Longrightarrow> job_effect p s s'"
  by (rule quiet[where f = "\<lambda>r. r"])
    (simp_all add: same_tables_same_workflows same_tables_def same_identity_def update_where_cong_id)

lemma quiet_fail:
  assumes "fail_execution E (job_execution_id p) m s = (r, s')"
  shows "job_effect p s s'"
proof (cases r)
  case (Inl e)
  with assms have "s' = s" by (auto simp: fail_execution_def update_execution_def)
  then show ?thesis by (simp add: quiet_same)
next
  case (Inr u)
  with assms show ?thesis
    by (intro quiet[where f = "\<lambda>r. r\<lparr>ex_completed_at := Some (re_now E), ex_error_message := Some m, ex_status := ExFailed\<rparr>"])
      (auto simp: fail_execution_def update_execution_def same_workflows_def set_executions_def same_identity_def
        table_simps)
qed

text \<open>What the execution row becomes after a successful attempt and after the last failed one.\<close>

definition advance_row :: "runner_env \<Rightarrow> execution_row \<Rightarrow> bool \<Rightarrow> execution_row \<Rightarrow> execution_row" where
  "advance_row E x final r =
     (if final then r\<lparr>ex_depth := ex_depth x + 1, ex_completed_at := Some (re_now E),
        ex_duration_ms := Some (re_now E - ex_started_at x), ex_status := ExSuccess\<rparr>
      else r\<lparr>ex_depth := ex_depth x + 1\<rparr>)"

definition failing_row :: "runner_env \<Rightarrow> execution_row \<Rightarrow> api_error \<Rightarrow> execution_row \<Rightarrow> execution_row" where
  "failing_row E x err r = r\<lparr>ex_completed_at := Some (re_now E),
     ex_duration_ms := Some (re_now E - ex_started_at x),
     ex_error_message := Some (error_message E err), ex_status := ExFailed\<rparr>"

definition input_hash :: "runner_env \<Rightarrow> execution_job \<Rightarrow> step_row \<Rightarrow> engine \<Rightarrow> string" where
  "input_hash E p st s =
     step_input_hash E st (steps_context (job_execution_id p) s) (job_trigger_payload p)"

text \<open>The output of the attempt: a cached one, or what the step returns.\<close>

definition step_output :: "runner_env \<Rightarrow> execution_job \<Rightarrow> step_row \<Rightarrow> js_val \<Rightarrow> (engine, js_val) operation" where
  "step_output E p st parsed s =
     (let cached = cached_output E p st (input_hash E p st s) s
      in if cached = JUndef then run_step E p st parsed (steps_context (job_execution_id p) s) s
         else (Inr cached, s))"

lemma step_output_same_tables: "step_output E p st parsed s = (r, s1) \<Longrightarrow> same_tables s s1"
  using keepsD[OF keeps_run_step same_tables_refl]
  by (auto simp: step_output_def Let_def split: if_splits)

lemma attempt_step_output:
  "attempt E p x w st parsed s = (case step_output E p st parsed s of
     (Inl e, s1) \<Rightarrow> (Inl e, s1)
   | (Inr v, s1) \<Rightarrow>
       then_do (create_result (success_row E p st (input_hash E p st s) v)) (\<lambda>_.
       then_do (update_execution (job_execution_id p) (\<lambda>r. r\<lparr>ex_depth := ex_depth x + 1\<rparr>)) (\<lambda>_.
         let nexts = followed st v False (transitions_of (wf_id w) s)
         in if nexts = [] then finish_success E x
            else enqueue_next E p (delay_of st v) (steps_of (wf_id w) s) nexts)) s1)"
  by (simp add: attempt_def attempt_step_def step_output_def input_hash_def then_do_def ask_def give_def Let_def
      split: prod.split sum.split)

text \<open>The tables after a successful attempt.\<close>

definition after_success ::
    "runner_env \<Rightarrow> execution_job \<Rightarrow> execution_row \<Rightarrow> workflow_row \<Rightarrow> step_row \<Rightarrow> engine \<Rightarrow> js_val \<Rightarrow> engine \<Rightarrow> engine" where
  "after_success E p x w st s v s1 =
     (let nexts = followed st v False (transitions_of (wf_id w) s)
      in s1\<lparr>results := results s @ [success_row E p st (input_hash E p st s) v],
            executions := update_where (\<lambda>r. ex_id r = job_execution_id p) (advance_row E x (nexts = [])) (executions s),
            jobs := jobs s @ next_jobs E p (delay_of st v) (steps_of (wf_id w) s) nexts\<rparr>)"

lemma attempt_output:
  assumes ok: "indexes_ok execution_indexes (executions s)" and ready: "ready E p s x w st parsed"
    and out: "step_output E p st parsed s = (Inr v, s1)"
  shows "attempt E p x w st parsed s =
    (if indexes_ok result_indexes (results s @ [success_row E p st (input_hash E p st s) v])
     then (Inr (), after_success E p x w st s v s1)
     else (Inl (Database (P2002 ''executionId_stepId_attempt'')), s1))"
proof -
  let ?row = "success_row E p st (input_hash E p st s) v"
  let ?i = "job_execution_id p" and ?f = "\<lambda>r. r\<lparr>ex_depth := ex_depth x + 1\<rparr>"
  have same: "same_tables s s1" by (rule step_output_same_tables[OF out])
  then have tables: "executions s1 = executions s" "results s1 = results s" "jobs s1 = jobs s"
    by (simp_all add: same_tables_def)
  have found: "find_execution ?i s = Some x" and x: "ex_id x = ?i"
    using ready find_Some_iff_mem unfolding ready_def find_execution_def by fastforce+
  have create: "create_result ?row s1 = (if indexes_ok result_indexes (results s @ [?row])
      then (Inr (), s1\<lparr>results := results s @ [?row]\<rparr>)
      else (Inl (Database (P2002 ''executionId_stepId_attempt'')), s1))"
    by (auto simp: create_result_Inl create_result_Inr tables)
  let ?s2 = "s1\<lparr>results := results s @ [?row]\<rparr>"
  let ?s3 = "?s2\<lparr>executions := update_where (\<lambda>r. ex_id r = ?i) ?f (executions s)\<rparr>"
  have "find_execution ?i ?s2 = Some x" using found tables by (simp add: find_execution_def)
  then have depth: "update_execution ?i ?f ?s2 = (Inr (), ?s3)"
    using update_execution_ok[of ?s2 ?i x ?f] ok tables by simp
  have ok3: "indexes_ok execution_indexes (executions ?s3)"
    by simp (rule indexes_ok_update_keep[OF ok], auto simp: execution_indexes_def)
  have found3: "find_execution ?i ?s3 = Some (?f x)"
    using found x find_update_where[of "\<lambda>r. ex_id r = ?i" "\<lambda>r. ex_id r = ?i" ?f "executions s"]
    by (simp add: find_execution_def)
  have finish: "finish_success E x ?s3 = (Inr (), ?s3\<lparr>executions :=
      update_where (\<lambda>r. ex_id r = ?i) (advance_row E x True) (executions s)\<rparr>)"
    using update_execution_ok[OF ok3 found3, of "\<lambda>r. r\<lparr>ex_completed_at := Some (re_now E),
        ex_duration_ms := Some (re_now E - ex_started_at x), ex_status := ExSuccess\<rparr>"]
    by (simp add: finish_success_def x update_where_twice advance_row_def[abs_def])
  show ?thesis
    using finish
    by (simp add: attempt_step_output out then_do_def create depth Let_def enqueue_next_eq tables
        after_success_def next_jobs_def map_filter_simps advance_row_def[abs_def])
qed

lemma attempt_error:
  "step_output E p st parsed s = (Inl e, s1) \<Longrightarrow> attempt E p x w st parsed s = (Inl e, s1)"
  by (simp add: attempt_step_output)

subsection \<open>Failures\<close>

definition retry_job :: "execution_job \<Rightarrow> queued_job" where
  "retry_job p = \<lparr>q_id = job_id (job_execution_id p) (job_step_key p) (show_nat (job_attempt p + 1)),
     q_delay = Fin (of_int (calculate_backoff (job_attempt p))),
     q_job = p\<lparr>job_attempt := job_attempt p + 1\<rparr>\<rparr>"

text \<open>The tables after a failed attempt.\<close>

definition after_failure ::
    "runner_env \<Rightarrow> execution_job \<Rightarrow> execution_row \<Rightarrow> workflow_row \<Rightarrow> step_row \<Rightarrow> engine \<Rightarrow> api_error \<Rightarrow> engine \<Rightarrow> engine" where
  "after_failure E p x w st s err s1 =
     (let s2 = s1\<lparr>results := results s @ [failure_row E p st (input_hash E p st s) err]\<rparr>;
          fallbacks = (if st_on_error st = OnErrorContinue
                       then followed st JNull True (transitions_of (wf_id w) s) else [])
      in if job_attempt p < max_attempts then s2\<lparr>jobs := jobs s @ [retry_job p]\<rparr>
         else if fallbacks \<noteq> [] then
           s2\<lparr>jobs := jobs s @ next_jobs E p (Fin 0) (steps_of (wf_id w) s) fallbacks\<rparr>
         else s2\<lparr>executions := update_where (\<lambda>r. ex_id r = job_execution_id p) (failing_row E x err) (executions s)\<rparr>)"

lemma recover_output:
  assumes ok: "indexes_ok execution_indexes (executions s)" and ready: "ready E p s x w st parsed"
    and same: "same_tables s s1"
  shows "recover E p x w st s err s1 =
    (if indexes_ok result_indexes (results s @ [failure_row E p st (input_hash E p st s) err])
     then (Inr (), after_failure E p x w st s err s1)
     else (Inl (Database (P2002 ''executionId_stepId_attempt'')), s1))"
proof -
  let ?row = "failure_row E p st (input_hash E p st s) err" and ?i = "job_execution_id p"
  have tables: "executions s1 = executions s" "results s1 = results s" "jobs s1 = jobs s"
    using same by (simp_all add: same_tables_def)
  have found: "find_execution ?i s = Some x" and x: "ex_id x = ?i"
    using ready find_Some_iff_mem unfolding ready_def find_execution_def by fastforce+
  let ?s2 = "s1\<lparr>results := results s @ [?row]\<rparr>"
  have create: "create_result ?row s1 = (if indexes_ok result_indexes (results s @ [?row])
      then (Inr (), ?s2) else (Inl (Database (P2002 ''executionId_stepId_attempt'')), s1))"
    by (auto simp: create_result_Inl create_result_Inr tables)
  have "find_execution ?i ?s2 = Some x" using found tables by (simp add: find_execution_def)
  then have fail: "update_execution ?i (failing_row E x err) ?s2 =
      (Inr (), ?s2\<lparr>executions := update_where (\<lambda>r. ex_id r = ?i) (failing_row E x err) (executions s)\<rparr>)"
    using update_execution_ok[of ?s2 ?i x "failing_row E x err"] ok tables by (simp add: failing_row_def)
  have row: "(\<lambda>r. r\<lparr>ex_completed_at := Some (re_now E), ex_duration_ms := Some (re_now E - ex_started_at x),
      ex_error_message := Some (error_message E err), ex_status := ExFailed\<rparr>) = failing_row E x err"
    by (rule ext) (simp add: failing_row_def)
  have "?s2\<lparr>jobs := jobs s\<rparr> = ?s2" using tables by simp
  with fail have fail2: "update_execution ?i (failing_row E x err) (?s2\<lparr>jobs := jobs s\<rparr>) =
      (Inr (), ?s2\<lparr>executions := update_where (\<lambda>r. ex_id r = ?i) (failing_row E x err) (executions s)\<rparr>)"
    by argo
  have hash: "step_input_hash E st (steps_context ?i s) (job_trigger_payload p) = input_hash E p st s"
    by (simp add: input_hash_def)
  show ?thesis
    unfolding recover_def hash handle_failure_def row x
    using fail fail2
    by (simp add: then_do_def create enqueue_next_eq tables Let_def after_failure_def retry_job_def
        add_job_def give_def next_jobs_def map_filter_simps)
qed

lemma advance_row_identity: "same_identity (advance_row E x final)" "ex_depth (advance_row E x final r) = ex_depth x + 1"
  by (simp_all add: same_identity_def advance_row_def)

lemma failing_row_identity: "same_identity (failing_row E x err)" "ex_depth (failing_row E x err r) = ex_depth r"
  by (simp_all add: same_identity_def failing_row_def)

lemma next_jobs_run:
  "q \<in> set (next_jobs E p delay sts ts) \<Longrightarrow> same_run p (q_job q) \<and> job_attempt (q_job q) = 1"
  by (erule next_jobs_mem) (simp add: next_job_def same_run_def)

lemma length_followed: "length (next_jobs E p d sts (followed st v failed ts)) \<le> max 1 (length ts)"
proof -
  have "length (followed st v failed ts) \<le> length ts" by (simp add: followed_def)
  then show ?thesis using length_next_jobs[of E p d sts "followed st v failed ts"] by simp
qed

lemma success_row_fields [engine_simps]:
  "res_execution_id (success_row E p st h v) = job_execution_id p"
  "res_step_id (success_row E p st h v) = st_id st"
  "res_attempt (success_row E p st h v) = job_attempt p"
  "res_status (success_row E p st h v) = (if st_type st = DELAY then ResWaiting else ResSuccess)"
  "res_workflow_id (success_row E p st h v) = job_workflow_id p"
  "res_tenant_id (success_row E p st h v) = job_tenant_id p"
  by (simp_all add: success_row_def Let_def)

lemma failure_row_fields [engine_simps]:
  "res_execution_id (failure_row E p st h e) = job_execution_id p"
  "res_step_id (failure_row E p st h e) = st_id st"
  "res_attempt (failure_row E p st h e) = job_attempt p"
  "res_status (failure_row E p st h e) = ResFailed"
  "res_workflow_id (failure_row E p st h e) = job_workflow_id p"
  "res_tenant_id (failure_row E p st h e) = job_tenant_id p"
  by (simp_all add: failure_row_def)

lemma after_success_effect:
  assumes ready: "ready E p s x w st parsed" and same: "same_tables s s1"
    and ok: "indexes_ok result_indexes (results s @ [success_row E p st (input_hash E p st s) v])"
  shows "job_effect p s (after_success E p x w st s v s1)"
  using ready same ok
  by (intro ran[where x = x and w = w and st = st and r = "success_row E p st (input_hash E p st s) v"
        and f = "advance_row E x (followed st v False (transitions_of (wf_id w) s) = [])"
        and new = "next_jobs E p (delay_of st v) (steps_of (wf_id w) s) (followed st v False (transitions_of (wf_id w) s))"])
    (auto simp: ready_def after_success_def Let_def same_workflows_def same_tables_def engine_simps
      advance_row_identity length_followed[unfolded One_nat_def] dest: next_jobs_run find_Some_iff_mem simp del: max_less_iff_conj)

lemma after_failure_effect:
  assumes ready: "ready E p s x w st parsed" and same: "same_tables s s1"
    and ok: "indexes_ok result_indexes (results s @ [failure_row E p st (input_hash E p st s) err])"
  shows "job_effect p s (after_failure E p x w st s err s1)"
proof -
  let ?r = "failure_row E p st (input_hash E p st s) err" and ?s' = "after_failure E p x w st s err s1"
  let ?P = "\<lambda>new f. results ?s' = results s @ [?r] \<and> jobs ?s' = jobs s @ new \<and>
      length new \<le> max 1 (length (transitions_of (wf_id w) s)) \<and>
      (\<forall>q \<in> set new. same_run p (q_job q) \<and> (job_attempt (q_job q) = 1 \<or>
         job_attempt p < max_attempts \<and> job_attempt (q_job q) = job_attempt p + 1)) \<and>
      same_identity f \<and> (\<forall>y. ex_depth (f y) = ex_depth y) \<and>
      executions ?s' = update_where (\<lambda>y. ex_id y = job_execution_id p) f (executions s)"
  have tables: "executions s1 = executions s" "results s1 = results s" "jobs s1 = jobs s"
    using same by (simp_all add: same_tables_def)
  have id: "same_identity (\<lambda>r. r)" by (simp add: same_identity_def)
  consider "job_attempt p < max_attempts"
    | "\<not> job_attempt p < max_attempts" "st_on_error st = OnErrorContinue"
        "followed st JNull True (transitions_of (wf_id w) s) \<noteq> []"
    | "\<not> job_attempt p < max_attempts"
        "\<not> (st_on_error st = OnErrorContinue \<and> followed st JNull True (transitions_of (wf_id w) s) \<noteq> [])"
    by blast
  then obtain new f where P: "?P new f"
  proof cases
    case 1
    then have "?P [retry_job p] (\<lambda>r. r)"
      by (simp add: after_failure_def Let_def tables id update_where_cong_id retry_job_def same_run_def)
    then show ?thesis using that by blast
  next
    case 2
    then have "?P (next_jobs E p (Fin 0) (steps_of (wf_id w) s)
        (followed st JNull True (transitions_of (wf_id w) s))) (\<lambda>r. r)"
      using length_followed next_jobs_run
      by (simp add: after_failure_def Let_def tables id update_where_cong_id)
    then show ?thesis using that by blast
  next
    case 3
    then have "?P [] (failing_row E x err)"
      by (auto simp: after_failure_def Let_def tables failing_row_identity)
    then show ?thesis using that by blast
  qed
  have "same_workflows s ?s'"
    using same by (simp add: after_failure_def Let_def same_workflows_def same_tables_def)
  with P ready ok show ?thesis
    by (intro ran[where x = x and w = w and st = st and r = ?r and f = f and new = new])
      (auto simp: ready_def engine_simps dest: find_Some_iff_mem simp del: max_less_iff_conj)
qed

text \<open>Every job acts on the tables in one of the two ways.\<close>

lemma process_effect:
  assumes ok: "indexes_ok execution_indexes (executions s)"
    and step: "process_execution_job E p s = (r, s')"
  shows "job_effect p s s'"
proof (cases "\<exists>x w st parsed. ready E p s x w st parsed")
  case False
  then show ?thesis using process_not_ready[OF False step] quiet_fail quiet_same same_tables_refl by metis
next
  case True
  then obtain x w st parsed where ready: "ready E p s x w st parsed" by blast
  have recovered: "job_effect p s s'" if "recover E p x w st s e s1 = (r, s')" "same_tables s s1" for e s1
    using that recover_output[OF ok ready that(2)] after_failure_effect[OF ready that(2)] quiet_same
    by (auto split: if_splits)
  obtain o1 s1 where out: "step_output E p st parsed s = (o1, s1)" by fastforce
  have same: "same_tables s s1" by (rule step_output_same_tables[OF out])
  show ?thesis
  proof (cases o1)
    case (Inl e)
    with out have "attempt E p x w st parsed s = (Inl e, s1)" by (simp add: attempt_error)
    with step have "recover E p x w st s e s1 = (r, s')" by (simp add: process_ready[OF ready])
    then show ?thesis using recovered same by blast
  next
    case (Inr v)
    with out have out': "step_output E p st parsed s = (Inr v, s1)" by simp
    show ?thesis
    proof (cases "indexes_ok result_indexes (results s @ [success_row E p st (input_hash E p st s) v])")
      case True
      with step have "s' = after_success E p x w st s v s1"
        by (simp add: process_ready[OF ready] attempt_output[OF ok ready out'])
      then show ?thesis using after_success_effect[OF ready same True] by simp
    next
      case False
      with step show ?thesis
        using recovered[OF _ same] by (simp add: process_ready[OF ready] attempt_output[OF ok ready out'])
    qed
  qed
qed

end
