(* ===== verification/RunnerInvariant.thy ===== *)
theory RunnerInvariant
  imports RunnerEffect
begin

text \<open>
  The runs of the workflow engine: jobs are delivered in any order, any number of times and at any
  time (BullMQ retries a job that failed and redelivers one whose worker stalled), executions are
  started by trigger jobs and by the API, and the status of an execution may be set to cancelled
  from outside. \<open>engine_ok\<close> is the invariant of these runs; the workflow definitions are fixed.
\<close>

subsection \<open>The invariant\<close>

definition results_of :: "string \<Rightarrow> engine \<Rightarrow> result_row list" where
  "results_of i s = filter (\<lambda>r. res_execution_id r = i) (results s)"

definition done_of :: "string \<Rightarrow> engine \<Rightarrow> result_row list" where
  "done_of i s = filter (\<lambda>r. res_execution_id r = i \<and> res_status r \<noteq> ResFailed) (results s)"

definition jobs_of :: "string \<Rightarrow> engine \<Rightarrow> queued_job list" where
  "jobs_of i s = filter (\<lambda>q. job_execution_id (q_job q) = i) (jobs s)"

definition belongs :: "execution_job \<Rightarrow> execution_row \<Rightarrow> bool" where
  "belongs p x \<longleftrightarrow> ex_id x = job_execution_id p \<and> ex_workflow_id x = job_workflow_id p \<and> ex_tenant_id x = job_tenant_id p"

definition fan_out :: "string \<Rightarrow> engine \<Rightarrow> nat" where
  "fan_out w s = max 1 (length (transitions_of w s))"

definition jobs_ok :: "engine \<Rightarrow> bool" where
  "jobs_ok s \<longleftrightarrow> (\<forall>q \<in> set (jobs s). 1 \<le> job_attempt (q_job q) \<and> job_attempt (q_job q) \<le> max_attempts \<and>
     (\<exists>x \<in> set (executions s). belongs (q_job q) x))"

definition results_ok :: "engine \<Rightarrow> bool" where
  "results_ok s \<longleftrightarrow> (\<forall>r \<in> set (results s). 1 \<le> res_attempt r \<and> res_attempt r \<le> max_attempts \<and>
     (\<exists>x \<in> set (executions s). ex_id x = res_execution_id r \<and>
        (\<exists>st \<in> set (steps_of (ex_workflow_id x) s). st_id st = res_step_id r)))"

definition depth_ok :: "engine \<Rightarrow> bool" where
  "depth_ok s \<longleftrightarrow> (\<forall>x \<in> set (executions s). ex_depth x = int (length (done_of (ex_id x) s)) \<and>
     (\<forall>w \<in> set (workflows s). wf_id w = ex_workflow_id x \<longrightarrow> ex_depth x \<le> max 1 (wf_max_depth w)))"

definition work_ok :: "engine \<Rightarrow> bool" where
  "work_ok s \<longleftrightarrow> (\<forall>x \<in> set (executions s).
     length (jobs_of (ex_id x) s) \<le> 1 + length (results_of (ex_id x) s) * fan_out (ex_workflow_id x) s)"

definition keys_ok :: "engine \<Rightarrow> bool" where
  "keys_ok s \<longleftrightarrow> indexes_ok execution_indexes (executions s) \<and> indexes_ok result_indexes (results s) \<and>
     indexes_ok workflow_indexes (workflows s)"

definition engine_ok :: "engine \<Rightarrow> bool" where
  "engine_ok s \<longleftrightarrow> keys_ok s \<and> jobs_ok s \<and> results_ok s \<and> depth_ok s \<and> work_ok s"

subsection \<open>The steps\<close>

text \<open>A new execution, with at most one job for its first step.\<close>

definition starts :: "execution_row \<Rightarrow> queued_job list \<Rightarrow> engine \<Rightarrow> engine \<Rightarrow> bool" where
  "starts x new s s' \<longleftrightarrow> same_workflows s s' \<and> results s' = results s \<and>
     executions s' = executions s @ [x] \<and> indexes_ok execution_indexes (executions s') \<and> ex_depth x = 0 \<and>
     jobs s' = jobs s @ new \<and> length new \<le> 1 \<and>
     (\<forall>q \<in> set new. belongs (q_job q) x \<and> job_attempt (q_job q) = 1)"

inductive runner_step :: "engine \<Rightarrow> engine \<Rightarrow> bool" where
  deliver: "q \<in> set (jobs s) \<Longrightarrow> process_execution_job E (q_job q) s = (r, s') \<Longrightarrow> runner_step s s'"
| trigger: "process_trigger_job E p s = (r, s') \<Longrightarrow> runner_step s s'"
| start: "starts x new s s' \<Longrightarrow> runner_step s s'"
| cancel: "s' = s\<lparr>executions := update_where (\<lambda>x. ex_id x = i) (\<lambda>x. x\<lparr>ex_status := ExCancelled\<rparr>) (executions s)\<rparr> \<Longrightarrow>
    runner_step s s'"
| outside: "same_tables s s' \<Longrightarrow> runner_step s s'"

inductive runner_reaches :: "engine \<Rightarrow> engine \<Rightarrow> bool" where
  here: "runner_reaches s s"
| more: "runner_reaches s s' \<Longrightarrow> runner_step s' s'' \<Longrightarrow> runner_reaches s s''"

subsection \<open>A job keeps the invariant\<close>

lemma execution_unique:
  assumes "keys_ok s" and "x \<in> set (executions s)" and "y \<in> set (executions s)" and "ex_id x = ex_id y"
  shows "x = y"
proof -
  have "execution_by_id.unique (executions s)"
    using assms(1) by (intro indexes_ok_unique[of execution_indexes _ "''id''"])
      (auto simp: keys_ok_def execution_indexes_def)
  then show ?thesis using execution_by_id.unique_eq assms(2-4) by blast
qed

lemma workflow_unique:
  assumes "keys_ok s" and "x \<in> set (workflows s)" and "y \<in> set (workflows s)" and "wf_id x = wf_id y"
  shows "x = y"
proof -
  have "unique_key.unique (\<lambda>w. Some (wf_id w)) (workflows s)"
    using assms(1) by (intro indexes_ok_unique[of workflow_indexes _ "''id''"])
      (auto simp: keys_ok_def workflow_indexes_def)
  then show ?thesis using unique_key.unique_eq[of "\<lambda>w. Some (wf_id w)"] assms(2-4) by blast
qed

text \<open>An update of one execution that keeps its identity.\<close>

lemma updated_execution:
  assumes "same_identity f" and "x' \<in> set (update_where (\<lambda>x. ex_id x = i) f rows)"
  obtains x where "x \<in> set rows" and "ex_id x' = ex_id x" and "ex_workflow_id x' = ex_workflow_id x"
    and "ex_tenant_id x' = ex_tenant_id x" and "x' = (if ex_id x = i then f x else x)"
  using assms by (auto simp: set_update_where same_identity_def split: if_splits)

lemma updated_execution_back:
  assumes "same_identity f" and "x \<in> set rows"
  obtains x' where "x' \<in> set (update_where (\<lambda>x. ex_id x = i) f rows)" and "ex_id x' = ex_id x"
    and "ex_workflow_id x' = ex_workflow_id x" and "ex_tenant_id x' = ex_tenant_id x"
proof -
  have "(if ex_id x = i then f x else x) \<in> set (update_where (\<lambda>x. ex_id x = i) f rows)"
    using assms(2) by (simp add: set_update_where)
  then show ?thesis by (rule that) (use assms(1) in \<open>auto simp: same_identity_def\<close>)
qed

lemma keys_ok_update:
  assumes "keys_ok s" and "same_identity f" and "same_workflows s s'"
    and "executions s' = update_where (\<lambda>x. ex_id x = i) f (executions s)" and "indexes_ok result_indexes (results s')"
  shows "keys_ok s'"
proof -
  have "indexes_ok execution_indexes (executions s')"
    unfolding assms(4) using assms(1,2)
    by (intro indexes_ok_update_keep) (auto simp: keys_ok_def execution_indexes_def same_identity_def)
  with assms show ?thesis by (simp add: keys_ok_def same_workflows_def)
qed

lemma same_workflows_simps:
  assumes "same_workflows s s'"
  shows "workflows s' = workflows s" "steps_of w s' = steps_of w s" "transitions_of w s' = transitions_of w s"
    "fan_out w s' = fan_out w s"
  using assms by (simp_all add: same_workflows_def steps_of_def transitions_of_def fan_out_def)

lemma quiet_keeps:
  assumes ok: "engine_ok s" and same: "same_workflows s s'" and res: "results s' = results s"
    and js: "jobs s' = jobs s" and f: "same_identity f" and depth: "\<And>x. ex_depth (f x) = ex_depth x"
    and ex: "executions s' = update_where (\<lambda>x. ex_id x = i) f (executions s)"
  shows "engine_ok s'"
proof -
  note simps = same_workflows_simps[OF same] res js
  have keys: "keys_ok s'"
    using ok res by (intro keys_ok_update[OF _ f same ex]) (auto simp: engine_ok_def keys_ok_def)
  have fwd: "\<exists>x \<in> set (executions s). ex_id x' = ex_id x \<and> ex_workflow_id x' = ex_workflow_id x \<and> ex_depth x' = ex_depth x"
    if "x' \<in> set (executions s')" for x'
    using that depth unfolding ex by (auto elim!: updated_execution[OF f] split: if_splits)
  have bwd: "\<exists>x' \<in> set (executions s'). ex_id x' = ex_id x \<and> ex_workflow_id x' = ex_workflow_id x \<and>
      ex_tenant_id x' = ex_tenant_id x" if "x \<in> set (executions s)" for x
    using updated_execution_back[OF f that] unfolding ex by metis
  have "jobs_ok s'"
    unfolding jobs_ok_def js
  proof
    fix q assume "q \<in> set (jobs s)"
    with ok obtain x where "1 \<le> job_attempt (q_job q) \<and> job_attempt (q_job q) \<le> max_attempts"
      "x \<in> set (executions s)" "belongs (q_job q) x" by (auto simp: engine_ok_def jobs_ok_def)
    with bwd[of x] show "1 \<le> job_attempt (q_job q) \<and> job_attempt (q_job q) \<le> max_attempts \<and>
        (\<exists>x \<in> set (executions s'). belongs (q_job q) x)" by (auto simp: belongs_def)
  qed
  moreover have "results_ok s'"
    unfolding results_ok_def res
  proof
    fix r assume "r \<in> set (results s)"
    with ok obtain x st where "1 \<le> res_attempt r \<and> res_attempt r \<le> max_attempts"
      "x \<in> set (executions s)" "ex_id x = res_execution_id r"
      "st \<in> set (steps_of (ex_workflow_id x) s)" "st_id st = res_step_id r"
      by (auto simp: engine_ok_def results_ok_def)
    with bwd[of x] show "1 \<le> res_attempt r \<and> res_attempt r \<le> max_attempts \<and>
        (\<exists>x \<in> set (executions s'). ex_id x = res_execution_id r \<and>
          (\<exists>st \<in> set (steps_of (ex_workflow_id x) s'). st_id st = res_step_id r))"
      by (simp add: simps) metis
  qed
  moreover have "depth_ok s'"
    unfolding depth_ok_def simps done_of_def
  proof
    fix x' assume "x' \<in> set (executions s')"
    then obtain x where "x \<in> set (executions s)" "ex_id x' = ex_id x" "ex_workflow_id x' = ex_workflow_id x"
      "ex_depth x' = ex_depth x" using fwd by blast
    moreover from this ok have "ex_depth x = int (length (filter (\<lambda>r. res_execution_id r = ex_id x \<and> res_status r \<noteq> ResFailed) (results s))) \<and>
        (\<forall>w \<in> set (workflows s). wf_id w = ex_workflow_id x \<longrightarrow> ex_depth x \<le> max 1 (wf_max_depth w))"
      unfolding engine_ok_def depth_ok_def done_of_def by blast
    ultimately show "ex_depth x' = int (length (filter (\<lambda>r. res_execution_id r = ex_id x' \<and> res_status r \<noteq> ResFailed) (results s))) \<and>
        (\<forall>w \<in> set (workflows s). wf_id w = ex_workflow_id x' \<longrightarrow> ex_depth x' \<le> max 1 (wf_max_depth w))"
      by metis
  qed
  moreover have "work_ok s'"
    unfolding work_ok_def simps jobs_of_def results_of_def
  proof
    fix x' assume "x' \<in> set (executions s')"
    then obtain x where "x \<in> set (executions s)" "ex_id x' = ex_id x" "ex_workflow_id x' = ex_workflow_id x"
      using fwd by blast
    with ok show "length (filter (\<lambda>q. job_execution_id (q_job q) = ex_id x') (jobs s))
        \<le> 1 + length (filter (\<lambda>r. res_execution_id r = ex_id x') (results s)) * fan_out (ex_workflow_id x') s"
      by (simp add: engine_ok_def work_ok_def jobs_of_def results_of_def)
  qed
  ultimately show ?thesis using keys by (simp add: engine_ok_def)
qed

lemma ran_keeps:
  assumes ok: "engine_ok s" and same: "same_workflows s s'"
    and p: "1 \<le> job_attempt p" "job_attempt p \<le> max_attempts" "y \<in> set (executions s)" "belongs p y"
    and x: "find_execution (job_execution_id p) s = Some x"
    and w: "find_workflow (job_workflow_id p) (job_tenant_id p) s = Some w"
    and d: "ex_depth x < max 1 (wf_max_depth w)" and st: "st \<in> set (steps_of (wf_id w) s)"
    and r: "res_execution_id r = job_execution_id p" "res_step_id r = st_id st" "res_attempt r = job_attempt p"
    and res: "results s' = results s @ [r]" and fresh: "indexes_ok result_indexes (results s')"
    and js: "jobs s' = jobs s @ new" and len: "length new \<le> fan_out (wf_id w) s"
    and new: "\<And>q. q \<in> set new \<Longrightarrow> same_run p (q_job q) \<and>
       (job_attempt (q_job q) = 1 \<or> res_status r = ResFailed \<and> job_attempt p < max_attempts \<and>
          job_attempt (q_job q) = job_attempt p + 1)"
    and f: "same_identity f"
    and depth: "\<And>y. ex_depth (f y) = (if res_status r = ResFailed then ex_depth y else ex_depth x + 1)"
    and ex: "executions s' = update_where (\<lambda>y. ex_id y = job_execution_id p) f (executions s)"
  shows "engine_ok s'"
proof -
  note simps = same_workflows_simps[OF same] res js
  let ?i = "job_execution_id p"
  have keys: "keys_ok s'"
    using ok by (intro keys_ok_update[OF _ f same ex fresh]) (simp add: engine_ok_def)
  have xmem: "x \<in> set (executions s)" "ex_id x = ?i"
    using x find_Some_iff_mem unfolding find_execution_def by fastforce+
  have y: "y = x" using ok p(3,4) xmem by (intro execution_unique[of s]) (auto simp: engine_ok_def belongs_def)
  have wmem: "w \<in> set (workflows s)" "wf_id w = job_workflow_id p"
    using w find_Some_iff_mem unfolding find_workflow_def by fastforce+
  have wf: "ex_workflow_id x = wf_id w" using p(4) y wmem by (simp add: belongs_def)
  have bwd: "\<exists>x' \<in> set (executions s'). ex_id x' = ex_id z \<and> ex_workflow_id x' = ex_workflow_id z \<and>
      ex_tenant_id x' = ex_tenant_id z" if "z \<in> set (executions s)" for z
    using updated_execution_back[OF f that] unfolding ex by metis
  have fwd: "\<exists>z \<in> set (executions s). ex_id x' = ex_id z \<and> ex_workflow_id x' = ex_workflow_id z \<and>
      ex_depth x' = (if z = x \<and> res_status r \<noteq> ResFailed then ex_depth x + 1 else ex_depth z)"
    if "x' \<in> set (executions s')" for x'
  proof -
    from that obtain z where z: "z \<in> set (executions s)" "ex_id x' = ex_id z" "ex_workflow_id x' = ex_workflow_id z"
      "x' = (if ex_id z = ?i then f z else z)"
      unfolding ex by (auto elim!: updated_execution[OF f])
    have "ex_id z = ?i \<longleftrightarrow> z = x" using ok z(1) xmem execution_unique unfolding engine_ok_def by metis
    with z depth show ?thesis by (intro bexI[of _ z]) auto
  qed
  have "jobs_ok s'"
    unfolding jobs_ok_def js
  proof
    fix q assume "q \<in> set (jobs s @ new)"
    then consider "q \<in> set (jobs s)" | "q \<in> set new" by auto
    then have "1 \<le> job_attempt (q_job q) \<and> job_attempt (q_job q) \<le> max_attempts \<and>
        (\<exists>z \<in> set (executions s). belongs (q_job q) z)"
    proof cases
      case 1
      with ok show ?thesis by (auto simp: engine_ok_def jobs_ok_def)
    next
      case 2
      have "belongs (q_job q) y" using new[OF 2] p(4) by (simp add: same_run_def belongs_def)
      with new[OF 2] p(3) show ?thesis by (auto simp: max_attempts_def)
    qed
    then show "1 \<le> job_attempt (q_job q) \<and> job_attempt (q_job q) \<le> max_attempts \<and>
        (\<exists>z \<in> set (executions s'). belongs (q_job q) z)" using bwd unfolding belongs_def by metis
  qed
  moreover have "results_ok s'"
    unfolding results_ok_def res
  proof
    fix r' assume "r' \<in> set (results s @ [r])"
    then consider "r' \<in> set (results s)" | "r' = r" by auto
    then have "1 \<le> res_attempt r' \<and> res_attempt r' \<le> max_attempts \<and>
        (\<exists>z \<in> set (executions s). ex_id z = res_execution_id r' \<and>
          (\<exists>st \<in> set (steps_of (ex_workflow_id z) s). st_id st = res_step_id r'))"
    proof cases
      case 1
      with ok show ?thesis unfolding engine_ok_def results_ok_def by blast
    next
      case 2
      have "\<exists>st' \<in> set (steps_of (ex_workflow_id x) s). st_id st' = res_step_id r'"
        using st 2 r(2) wf by auto
      with 2 p(1,2) xmem r show ?thesis by auto
    qed
    then show "1 \<le> res_attempt r' \<and> res_attempt r' \<le> max_attempts \<and>
        (\<exists>z \<in> set (executions s'). ex_id z = res_execution_id r' \<and>
          (\<exists>st \<in> set (steps_of (ex_workflow_id z) s'). st_id st = res_step_id r'))"
      using bwd unfolding simps by metis
  qed
  moreover have "depth_ok s'"
    unfolding depth_ok_def simps done_of_def
  proof
    fix x' assume "x' \<in> set (executions s')"
    then obtain z where z: "z \<in> set (executions s)" "ex_id x' = ex_id z" "ex_workflow_id x' = ex_workflow_id z"
      "ex_depth x' = (if z = x \<and> res_status r \<noteq> ResFailed then ex_depth x + 1 else ex_depth z)" using fwd by blast
    have other: "ex_id z \<noteq> ?i" if "z \<noteq> x"
      using that ok z(1) xmem execution_unique unfolding engine_ok_def by metis
    have bound: "\<forall>w \<in> set (workflows s). wf_id w = ex_workflow_id z \<longrightarrow> ex_depth z \<le> max 1 (wf_max_depth w)"
      and count: "ex_depth z = int (length (filter (\<lambda>r. res_execution_id r = ex_id z \<and> res_status r \<noteq> ResFailed) (results s)))"
      using ok z(1) unfolding engine_ok_def depth_ok_def done_of_def by blast+
    have "\<forall>v \<in> set (workflows s). wf_id v = ex_workflow_id x \<longrightarrow> ex_depth x + 1 \<le> max 1 (wf_max_depth v)"
      using d wf ok wmem(1) workflow_unique unfolding engine_ok_def by (metis zless_imp_add1_zle)
    with bound have "\<forall>w \<in> set (workflows s). wf_id w = ex_workflow_id x' \<longrightarrow> ex_depth x' \<le> max 1 (wf_max_depth w)"
      using z by auto
    moreover have "ex_depth x' = int (length (filter (\<lambda>r. res_execution_id r = ex_id x' \<and> res_status r \<noteq> ResFailed) (results s @ [r])))"
      using z count other r(1) xmem(2) by (cases "z = x") auto
    ultimately show "ex_depth x' = int (length (filter (\<lambda>r. res_execution_id r = ex_id x' \<and> res_status r \<noteq> ResFailed) (results s @ [r]))) \<and>
        (\<forall>w \<in> set (workflows s). wf_id w = ex_workflow_id x' \<longrightarrow> ex_depth x' \<le> max 1 (wf_max_depth w))" by blast
  qed
  moreover have "work_ok s'"
    unfolding work_ok_def simps jobs_of_def results_of_def
  proof
    fix x' assume "x' \<in> set (executions s')"
    then obtain z where z: "z \<in> set (executions s)" "ex_id x' = ex_id z" "ex_workflow_id x' = ex_workflow_id z"
      using fwd by blast
    have old: "length (filter (\<lambda>q. job_execution_id (q_job q) = ex_id z) (jobs s)) \<le>
        1 + length (filter (\<lambda>r. res_execution_id r = ex_id z) (results s)) * fan_out (ex_workflow_id z) s"
      using ok z(1) by (simp add: engine_ok_def work_ok_def jobs_of_def results_of_def)
    have own: "filter (\<lambda>q. job_execution_id (q_job q) = i) new = (if i = ?i then new else [])" for i
      using new by (auto simp: same_run_def filter_id_conv filter_empty_conv)
    show "length (filter (\<lambda>q. job_execution_id (q_job q) = ex_id x') (jobs s @ new))
        \<le> 1 + length (filter (\<lambda>r. res_execution_id r = ex_id x') (results s @ [r])) * fan_out (ex_workflow_id x') s"
    proof (cases "ex_id z = ?i")
      case True
      then have "z = x" using ok z(1) xmem execution_unique unfolding engine_ok_def by metis
      with old len wf r(1) z True show ?thesis by (simp add: own)
    next
      case False
      with old z r(1) show ?thesis by (simp add: own)
    qed
  qed
  ultimately show ?thesis using keys by (simp add: engine_ok_def)
qed

subsection \<open>New executions\<close>

lemma executions_ok_append:
  "indexes_ok execution_indexes (rows @ [x]) \<longleftrightarrow>
     indexes_ok execution_indexes rows \<and> (\<forall>y \<in> set rows. ex_id y \<noteq> ex_id x)"
proof -
  have ok: "indexes_ok execution_indexes xs = execution_by_id.unique xs" for xs
    by (simp add: indexes_ok_def execution_indexes_def index_ok_def execution_by_id.unique_def)
  show ?thesis
    unfolding ok execution_by_id.unique_append1 execution_by_id.free_def by auto
qed

lemma starts_keeps:
  assumes ok: "engine_ok s" and st: "starts x new s s'"
  shows "engine_ok s'"
proof -
  from st have same: "same_workflows s s'" and res: "results s' = results s"
    and ex: "executions s' = executions s @ [x]" and keys: "indexes_ok execution_indexes (executions s')"
    and d: "ex_depth x = 0" and js: "jobs s' = jobs s @ new" and len: "length new \<le> 1"
    and new: "\<forall>q \<in> set new. belongs (q_job q) x \<and> job_attempt (q_job q) = 1"
    by (auto simp: starts_def)
  note simps = same_workflows_simps[OF same] res js
  have fresh: "ex_id y \<noteq> ex_id x" if "y \<in> set (executions s)" for y
    using keys that unfolding ex executions_ok_append by blast
  have no_results: "res_execution_id r \<noteq> ex_id x" if "r \<in> set (results s)" for r
    using ok that fresh unfolding engine_ok_def results_ok_def by metis
  have no_jobs: "job_execution_id (q_job q) \<noteq> ex_id x" if "q \<in> set (jobs s)" for q
    using ok that fresh unfolding engine_ok_def jobs_ok_def belongs_def by metis
  have own: "filter (\<lambda>q. job_execution_id (q_job q) = i) new = (if i = ex_id x then new else [])" for i
    using new by (auto simp: belongs_def filter_id_conv filter_empty_conv)
  have "keys_ok s'" using ok keys by (simp add: engine_ok_def keys_ok_def simps)
  moreover have "jobs_ok s'"
    using ok new unfolding engine_ok_def jobs_ok_def js ex by (auto simp: max_attempts_def)
  moreover have "results_ok s'"
    unfolding results_ok_def simps ex
  proof
    fix r assume "r \<in> set (results s)"
    with ok have "1 \<le> res_attempt r \<and> res_attempt r \<le> max_attempts \<and> (\<exists>z \<in> set (executions s).
        ex_id z = res_execution_id r \<and> (\<exists>st \<in> set (steps_of (ex_workflow_id z) s). st_id st = res_step_id r))"
      unfolding engine_ok_def results_ok_def by blast
    then show "1 \<le> res_attempt r \<and> res_attempt r \<le> max_attempts \<and>
        (\<exists>x \<in> set (executions s @ [x]). ex_id x = res_execution_id r \<and>
          (\<exists>st \<in> set (steps_of (ex_workflow_id x) s). st_id st = res_step_id r))"
      by simp
  qed
  moreover have "depth_ok s'"
  proof -
    have "done_of (ex_id x) s' = []" using no_results by (auto simp: done_of_def res filter_empty_conv)
    then show ?thesis using ok d unfolding engine_ok_def depth_ok_def simps ex done_of_def by auto
  qed
  moreover have "work_ok s'"
    unfolding work_ok_def
  proof
    fix y assume "y \<in> set (executions s')"
    then consider "y = x" | "y \<in> set (executions s)" by (auto simp: ex)
    then show "length (jobs_of (ex_id y) s') \<le> 1 + length (results_of (ex_id y) s') * fan_out (ex_workflow_id y) s'"
    proof cases
      case 1
      have "jobs_of (ex_id x) s = []" using no_jobs by (auto simp: jobs_of_def filter_empty_conv)
      then show ?thesis using 1 len by (simp add: jobs_of_def js own)
    next
      case 2
      with ok fresh[OF 2] show ?thesis
        by (simp add: engine_ok_def work_ok_def jobs_of_def results_of_def simps own)
    qed
  qed
  ultimately show ?thesis by (simp add: engine_ok_def)
qed

lemma same_tables_keeps:
  assumes "engine_ok s" and "same_tables s s'"
  shows "engine_ok s'"
proof (rule quiet_keeps[OF assms(1), where f = "\<lambda>x. x" and i = "[]"])
  show "executions s' = update_where (\<lambda>x. ex_id x = []) (\<lambda>x. x) (executions s)"
    using assms(2) by (simp add: same_tables_def update_where_cong_id)
qed (use assms(2) in \<open>simp_all add: same_tables_def same_workflows_def same_identity_def\<close>)

lemma effect_keeps:
  assumes ok: "engine_ok s" and q: "q \<in> set (jobs s)" and effect: "job_effect (q_job q) s s'"
  shows "engine_ok s'"
proof -
  from ok q obtain y where y: "1 \<le> job_attempt (q_job q)" "job_attempt (q_job q) \<le> max_attempts"
    "y \<in> set (executions s)" "belongs (q_job q) y" by (auto simp: engine_ok_def jobs_ok_def)
  from effect show ?thesis
  proof cases
    case (quiet f)
    then show ?thesis by (intro quiet_keeps[OF ok]) auto
  next
    case (ran x w st r new f)
    then show ?thesis by (intro ran_keeps[OF ok _ y]) (auto simp: fan_out_def)
  qed
qed

text \<open>A trigger job leaves the tables alone or starts one execution.\<close>

lemma trigger_cases:
  assumes keys: "keys_ok s" and step: "process_trigger_job E p s = (r, s')"
  shows "s' = s \<or> (\<exists>x new. starts x new s s')"
proof (cases "List.find (\<lambda>w. wf_id w = trg_workflow_id p \<and> wf_status w = WfPublished \<and>
    wf_tenant_id w = trg_tenant_id p) (workflows s)")
  case None
  with step show ?thesis by (simp add: process_trigger_job_def then_do_def ask_def give_def)
next
  case (Some w)
  let ?x = "new_execution E p (wf_id w)" and ?i = "re_execution_id E"
  have w: "wf_id w = trg_workflow_id p" using find_Some_iff_mem[OF Some] by simp
  show ?thesis
  proof (cases "indexes_ok execution_indexes (executions s @ [?x])")
    case False
    then obtain e where "create_row execution_indexes ?x (executions s) = Inl e"
      by (cases "create_row execution_indexes ?x (executions s)") (auto simp: table_simps)
    then show ?thesis using step Some
      by (simp add: process_trigger_job_def then_do_def ask_def give_def on_table_def)
  next
    case True
    let ?s1 = "s\<lparr>executions := executions s @ [?x]\<rparr>"
    let ?f = "\<lambda>x. x\<lparr>ex_completed_at := Some (re_now E),
          ex_error_message := Some ''Workflow has no trigger step configured.'', ex_status := ExFailed\<rparr>"
    have create: "create_row execution_indexes ?x (executions s) = Inr (executions s @ [?x])"
      using True by (simp add: table_simps)
    have fresh: "\<And>y. y \<in> set (executions s) \<Longrightarrow> ex_id y \<noteq> ?i"
      using True by (auto simp: executions_ok_append new_execution_def)
    show ?thesis
    proof (cases "List.find (\<lambda>st. is_trigger_type (st_type st)) (steps_of (wf_id w) ?s1)")
      case None
      then have run: "update_execution ?i ?f ?s1 = (r, s')"
        using step Some create
        by (simp add: process_trigger_job_def then_do_def ask_def give_def on_table_def set_executions_def)
      have found: "find_execution ?i ?s1 = Some ?x"
        using fresh by (auto simp: find_execution_def find_append new_execution_def
            or_opt_def find_None_iff split: option.split dest: find_Some_iff_mem)
      have "update_where (\<lambda>x. ex_id x = ?i) ?f (executions s @ [?x]) = executions s @ [?f ?x]"
        using fresh by (simp add: update_where_id new_execution_def)
      then have "s' = s\<lparr>executions := executions s @ [?f ?x]\<rparr>"
        using run update_execution_ok[of ?s1 ?i ?x ?f] found True by simp
      moreover have "indexes_ok execution_indexes (executions s @ [?f ?x])"
        using True by (simp add: executions_ok_append)
      ultimately have "starts (?f ?x) [] s s'" by (simp add: starts_def same_workflows_def new_execution_def)
      then show ?thesis by blast
    next
      case (Some st)
      then have "starts ?x (drop (length (jobs s)) (jobs s')) s s'"
        using step True create w \<open>List.find _ (workflows s) = Some w\<close>
        by (auto simp: process_trigger_job_def then_do_def ask_def give_def on_table_def set_executions_def
            add_job_def starts_def same_workflows_def new_execution_def belongs_def)
      then show ?thesis by blast
    qed
  qed
qed

lemma step_keeps:
  assumes "runner_step s s'" and ok: "engine_ok s"
  shows "engine_ok s'"
  using assms(1)
proof cases
  case (deliver q E r)
  have "indexes_ok execution_indexes (executions s)" using ok by (simp add: engine_ok_def keys_ok_def)
  then show ?thesis using effect_keeps[OF ok] process_effect deliver by blast
next
  case (trigger E p r)
  then show ?thesis using trigger_cases[of s E p r s'] starts_keeps[OF ok] ok by (auto simp: engine_ok_def)
next
  case (start x new)
  then show ?thesis by (rule starts_keeps[OF ok])
next
  case (cancel i)
  then show ?thesis
    by (intro quiet_keeps[OF ok, of s' "\<lambda>x. x\<lparr>ex_status := ExCancelled\<rparr>" i])
      (auto simp: same_workflows_def same_identity_def)
next
  case outside
  then show ?thesis by (rule same_tables_keeps[OF ok])
qed

lemma reaches_keeps: "runner_reaches s s' \<Longrightarrow> engine_ok s \<Longrightarrow> engine_ok s'"
  by (induction rule: runner_reaches.induct) (auto intro: step_keeps)

subsection \<open>Executions that are cancelled\<close>

definition frozen :: "execution_row \<Rightarrow> engine \<Rightarrow> engine \<Rightarrow> bool" where
  "frozen x s s' \<longleftrightarrow> x \<in> set (executions s') \<and> results_of (ex_id x) s' = results_of (ex_id x) s \<and>
     jobs_of (ex_id x) s' = jobs_of (ex_id x) s"

lemma cancelled_job:
  assumes "keys_ok s" and "x \<in> set (executions s)" and "ex_status x = ExCancelled" and "job_execution_id p = ex_id x"
  shows "process_execution_job E p s = (Inr (), s)"
proof -
  have "find_execution (job_execution_id p) s = Some x"
  proof (cases "find_execution (job_execution_id p) s")
    case None
    with assms(2,4) show ?thesis by (auto simp: find_execution_def find_None_iff)
  next
    case (Some y)
    then have "y \<in> set (executions s)" "ex_id y = ex_id x"
      using assms(4) find_Some_iff_mem unfolding find_execution_def by fastforce+
    then have "y = x" using assms(1,2) execution_unique by blast
    with Some show ?thesis by simp
  qed
  with assms(3) show ?thesis by (simp add: process_execution_job_def then_do_def ask_def give_def)
qed

lemma effect_frozen:
  assumes "job_effect p s s'" and "x \<in> set (executions s)" and "job_execution_id p \<noteq> ex_id x"
  shows "frozen x s s'"
proof -
  have stay: "x \<in> set (update_where (\<lambda>y. ex_id y = job_execution_id p) f (executions s))" for f
    using assms(2,3) by (force simp: set_update_where)
  have own: "filter (\<lambda>q. job_execution_id (q_job q) = ex_id x) new = []"
    if "\<And>q. q \<in> set new \<Longrightarrow> same_run p (q_job q)" for new
    using that assms(3) by (auto simp: same_run_def filter_empty_conv)
  from assms(1) show ?thesis
  proof cases
    case (quiet f)
    then show ?thesis by (simp add: frozen_def results_of_def jobs_of_def stay)
  next
    case (ran y w st r new f)
    have "filter (\<lambda>q. job_execution_id (q_job q) = ex_id x) new = []"
      by (rule own) (use ran(13) in blast)
    with ran assms(3) show ?thesis by (simp add: frozen_def results_of_def jobs_of_def stay)
  qed
qed

lemma step_frozen:
  assumes step: "runner_step s s'" and ok: "engine_ok s" and x: "x \<in> set (executions s)" "ex_status x = ExCancelled"
  shows "frozen x s s'"
proof -
  have keys: "keys_ok s" using ok by (simp add: engine_ok_def)
  have started: "frozen x s s'" if st: "starts y new s s'" for y new
  proof -
    from st have ex: "executions s' = executions s @ [y]" and js: "jobs s' = jobs s @ new"
      and res: "results s' = results s" and new: "\<forall>q \<in> set new. belongs (q_job q) y"
      and keys': "indexes_ok execution_indexes (executions s')" by (auto simp: starts_def)
    have "ex_id y \<noteq> ex_id x" using keys' x(1) unfolding ex executions_ok_append by metis
    with new have "filter (\<lambda>q. job_execution_id (q_job q) = ex_id x) new = []"
      by (auto simp: belongs_def filter_empty_conv)
    with x(1) show ?thesis by (simp add: frozen_def results_of_def jobs_of_def ex js res)
  qed
  from step show ?thesis
  proof cases
    case (deliver q E r)
    show ?thesis
    proof (cases "job_execution_id (q_job q) = ex_id x")
      case True
      with deliver cancelled_job[OF keys x] have "s' = s" by simp
      with x(1) show ?thesis by (simp add: frozen_def)
    next
      case False
      have "job_effect (q_job q) s s'" using process_effect deliver(2) keys by (auto simp: keys_ok_def)
      then show ?thesis by (rule effect_frozen[OF _ x(1) False])
    qed
  next
    case (trigger E p r)
    from trigger_cases[OF keys trigger] show ?thesis
    proof
      assume "s' = s"
      with x(1) show ?thesis by (simp add: frozen_def)
    qed (use started in blast)
  next
    case (start y new)
    then show ?thesis by (rule started)
  next
    case (cancel i)
    have "x = x\<lparr>ex_status := ExCancelled\<rparr>" using x(2) by simp
    then have "x \<in> set (update_where (\<lambda>x. ex_id x = i) (\<lambda>x. x\<lparr>ex_status := ExCancelled\<rparr>) (executions s))"
      unfolding set_update_where by (intro rev_image_eqI[OF x(1)]) presburger
    then show ?thesis using cancel by (simp add: frozen_def results_of_def jobs_of_def)
  next
    case outside
    then show ?thesis using x(1) by (simp add: frozen_def results_of_def jobs_of_def same_tables_def)
  qed
qed

lemma reaches_frozen:
  assumes "runner_reaches s s'" and "engine_ok s" and "x \<in> set (executions s)" and "ex_status x = ExCancelled"
  shows "frozen x s s'"
  using assms
proof (induction rule: runner_reaches.induct)
  case (here s)
  then show ?case by (simp add: frozen_def)
next
  case (more s s' s'')
  have first: "frozen x s s'" by (rule more.IH[OF more.prems])
  have ok: "engine_ok s'" by (rule reaches_keeps[OF more.hyps(1) more.prems(1)])
  have mem: "x \<in> set (executions s')" using first by (simp add: frozen_def)
  have "frozen x s' s''" by (rule step_frozen[OF more.hyps(2) ok mem more.prems(3)])
  with first show ?case by (simp add: frozen_def)
qed

end
