(* ===== verification/RunnerCorrect.thy ===== *)
theory RunnerCorrect
  imports RunnerInvariant
begin

text \<open>
  The properties of the workflow runner: how much work an execution can cause whatever the order
  and number of deliveries, what a successful, a failed and a repeated attempt leave behind.
\<close>

subsection \<open>A sample workflow\<close>

definition sample_nodes :: node_env where
  "sample_nodes = \<lparr>env_agent = True, env_handoff = True, env_connector = True, env_dispatcher = True,
     env_limiter = True, env_reply = (\<lambda>_. Inr JNull), env_fetch = (\<lambda>_. Inl (Failure ''offline'')),
     env_parse_url = (\<lambda>u. Some \<lparr>url_hostname = u, url_host = u, url_text = u\<rparr>),
     env_run_code = (\<lambda>_ _ _ _. Inl (Failure ''no sandbox'')), env_hmac = (\<lambda>k m. k @ m)\<rparr>"

definition sample_runner :: runner_env where
  "sample_runner = \<lparr>re_now = 1000, re_nodes = sample_nodes, re_zod = (\<lambda>_ v. Inr v),
     re_sha256 = (\<lambda>_. ''h''), re_execution_id = ''e9'', re_database_text = (\<lambda>_. ''db'')\<rparr>"

definition sample_workflow :: workflow_row where
  "sample_workflow = \<lparr>wf_id = ''w1'', wf_tenant_id = ''t1'', wf_organization_id = ''o1'', wf_name = ''w'',
     wf_description = None, wf_status = WfPublished, wf_definition = JNull, wf_trigger_type = TriggerWebhook,
     wf_trigger_config = JNull, wf_webhook_secret = None, wf_cron_expression = None, wf_event_topic = None,
     wf_max_depth = 50, wf_published_at = None, wf_archived_at = None, wf_created_at = 0\<rparr>"

definition sample_step :: "string \<Rightarrow> step_type \<Rightarrow> js_val \<Rightarrow> step_row" where
  "sample_step k t cfg = \<lparr>st_id = k, st_tenant_id = ''t1'', st_organization_id = ''o1'', st_workflow_id = ''w1'',
     st_key = k, st_name = k, st_type = t, st_config = cfg, st_on_error = OnErrorStop,
     st_cache_ttl = None, st_is_trigger = is_trigger_type t\<rparr>"

definition sample_transition :: "string \<Rightarrow> string \<Rightarrow> dag_route \<Rightarrow> transition_row" where
  "sample_transition a b r = \<lparr>tr_tenant_id = ''t1'', tr_organization_id = ''o1'', tr_workflow_id = ''w1'',
     tr_source_step_id = a, tr_target_step_id = b, tr_route = r\<rparr>"

definition sample_execution :: execution_row where
  "sample_execution = \<lparr>ex_id = ''e1'', ex_tenant_id = ''t1'', ex_organization_id = ''o1'', ex_workflow_id = ''w1'',
     ex_status = ExRunning, ex_trigger_type = TriggerWebhook, ex_trigger_payload = JObj [], ex_depth = 0,
     ex_started_at = 0, ex_completed_at = None, ex_duration_ms = None, ex_error_message = None\<rparr>"

definition sample_job :: "string \<Rightarrow> nat \<Rightarrow> execution_job" where
  "sample_job k n = \<lparr>job_attempt = n, job_execution_id = ''e1'', job_organization_id = ''o1'', job_step_key = k,
     job_tenant_id = ''t1'', job_trigger_payload = JObj [], job_trigger_type = TriggerWebhook,
     job_workflow_id = ''w1''\<rparr>"

definition sample_queued :: "string \<Rightarrow> queued_job" where
  "sample_queued k = \<lparr>q_id = k, q_delay = Fin 0, q_job = sample_job k 1\<rparr>"

text \<open>A trigger that leads to a message on two paths, one of them through a pause; the request and
  the code step have no transitions.\<close>

definition sample_engine :: engine where
  "sample_engine = \<lparr>workflows = [sample_workflow],
     steps = [sample_step ''go'' TRIGGER_WEBHOOK (JObj []),
              sample_step ''wait'' DELAY (JObj [(''duration_ms'', JNum (Fin 500))]),
              sample_step ''msg'' WHATSAPP_SEND (JObj [(''message'', JStr ''hi''), (''to'', JStr ''x'')]),
              sample_step ''code'' CODE (JObj [(''source'', JStr ''return 1'')])],
     transitions = [sample_transition ''go'' ''wait'' ALWAYS, sample_transition ''go'' ''msg'' ON_SUCCESS,
                    sample_transition ''wait'' ''msg'' ALWAYS, sample_transition ''code'' ''msg'' ON_FAILURE],
     executions = [sample_execution], results = [], quotas = [], jobs = [sample_queued ''go''],
     trigger_jobs = [], node_memory = \<lparr>batches = [], outbound_calls = []\<rparr>\<rparr>"

text \<open>The same workflow before its first execution, after its trigger and after its first step.\<close>

definition idle :: "engine \<Rightarrow> bool" where
  "idle s \<longleftrightarrow> executions s = [] \<and> results s = [] \<and> jobs s = [] \<and> indexes_ok workflow_indexes (workflows s)"

definition sample_idle :: engine where
  "sample_idle = sample_engine\<lparr>executions := [], jobs := []\<rparr>"

definition sample_trigger :: trigger_job where
  "sample_trigger = \<lparr>trg_organization_id = ''o1'', trg_tenant_id = ''t1'', trg_payload = JObj [],
     trg_type = TriggerWebhook, trg_workflow_id = ''w1''\<rparr>"

definition sample_started :: engine where
  "sample_started = snd (process_trigger_job sample_runner sample_trigger sample_idle)"

definition sample_after_go :: engine where
  "sample_after_go = snd (process_execution_job sample_runner (q_job (hd (jobs sample_started))) sample_started)"

lemma sample_idle_ok: "idle sample_idle"
  by code_simp

lemma sample_reaches: "runner_reaches sample_idle sample_after_go"
proof -
  have "runner_step sample_idle sample_started"
    unfolding sample_started_def by (rule trigger) (rule prod.collapse[symmetric])
  moreover have "hd (jobs sample_started) \<in> set (jobs sample_started)" by code_simp
  then have "runner_step sample_started sample_after_go"
    unfolding sample_after_go_def by (rule deliver) (rule prod.collapse[symmetric])
  ultimately show ?thesis by (blast intro: runner_reaches.intros)
qed

lemma idle_engine_ok: "idle s \<Longrightarrow> engine_ok s"
  by (simp add: idle_def engine_ok_def keys_ok_def jobs_ok_def results_ok_def depth_ok_def work_ok_def
      indexes_ok_def index_ok_def execution_indexes_def result_indexes_def map_filter_simps)

lemma idle_reaches: "idle s \<Longrightarrow> runner_reaches s s' \<Longrightarrow> engine_ok s'"
  by (rule reaches_keeps[OF _ idle_engine_ok])

subsection \<open>The work of an execution\<close>

lemma length_keyed:
  assumes "distinct (map key rows)" and "key ` set rows \<subseteq> A \<times> {1..n}" and "finite A"
  shows "length rows \<le> n * card A"
proof -
  have "length rows = card (key ` set rows)"
    using assms(1) by (metis distinct_card length_map list.set_map)
  also have "\<dots> \<le> card (A \<times> {1..n})" using assms(2,3) by (intro card_mono) auto
  finally show ?thesis by (simp add: card_cartesian_product mult.commute)
qed

lemma results_bounded:
  assumes ok: "engine_ok s" and x: "x \<in> set (executions s)"
  shows "length (results_of (ex_id x) s) \<le> max_attempts * length (steps_of (ex_workflow_id x) s)"
proof -
  let ?rows = "results_of (ex_id x) s" and ?ids = "st_id ` set (steps_of (ex_workflow_id x) s)"
  let ?key = "\<lambda>r. (res_step_id r, res_attempt r)"
  have "result_by_key.unique (results s)"
    using ok by (auto simp: engine_ok_def keys_ok_def indexes_ok_def result_indexes_def index_ok_def result_by_key.unique_def)
  then have "distinct (map result_key ?rows)"
    by (simp add: result_by_key.unique_def results_of_def map_filter_def distinct_map_filter o_def)
  moreover have "inj_on ?key (set ?rows)"
    if "distinct (map result_key ?rows)"
    using that by (auto simp: distinct_map inj_on_def results_of_def result_key_inject)
  ultimately have "distinct (map ?key ?rows)" by (simp add: distinct_map)
  moreover have "?key ` set ?rows \<subseteq> ?ids \<times> {1..max_attempts}"
  proof
    fix k assume "k \<in> ?key ` set ?rows"
    then obtain r where r: "r \<in> set (results s)" "res_execution_id r = ex_id x" "k = ?key r"
      by (auto simp: results_of_def)
    with ok obtain z st where z: "z \<in> set (executions s)" "ex_id z = ex_id x"
      "st \<in> set (steps_of (ex_workflow_id z) s)" "st_id st = res_step_id r"
      and a: "1 \<le> res_attempt r" "res_attempt r \<le> max_attempts"
      unfolding engine_ok_def results_ok_def by metis
    have "z = x" using ok x z execution_unique unfolding engine_ok_def by metis
    with z a r show "k \<in> ?ids \<times> {1..max_attempts}" by force
  qed
  ultimately have "length ?rows \<le> max_attempts * card ?ids" by (intro length_keyed) auto
  also have "card ?ids \<le> length (steps_of (ex_workflow_id x) s)"
    by (metis card_image_le card_length dual_order.trans list.set_finite)
  finally show ?thesis by simp
qed

text \<open>
  Property C3. However often and in whatever order BullMQ delivers the jobs, an execution comes to
  an end: it never records more than five results per step of its workflow, and the number of jobs
  it ever puts on the queue is bounded by the size of the workflow.
\<close>

theorem execution_work_bounded:
  assumes "idle s" and "runner_reaches s s'" and "x \<in> set (executions s')"
  shows "length (results_of (ex_id x) s') \<le> 5 * length (steps_of (ex_workflow_id x) s') \<and>
    length (jobs_of (ex_id x) s') \<le>
      1 + 5 * length (steps_of (ex_workflow_id x) s') * max 1 (length (transitions_of (ex_workflow_id x) s'))"
proof -
  have ok: "engine_ok s'" by (rule idle_reaches[OF assms(1,2)])
  have results: "length (results_of (ex_id x) s') \<le> 5 * length (steps_of (ex_workflow_id x) s')"
    using results_bounded[OF ok assms(3)] by (simp add: max_attempts_def)
  have "length (jobs_of (ex_id x) s') \<le> 1 + length (results_of (ex_id x) s') * fan_out (ex_workflow_id x) s'"
    using ok assms(3) by (simp add: engine_ok_def work_ok_def)
  also have "\<dots> \<le> 1 + 5 * length (steps_of (ex_workflow_id x) s') * fan_out (ex_workflow_id x) s'"
    using results by simp
  finally show ?thesis using results by (simp add: fan_out_def)
qed

lemma execution_work_bounded_witness:
  "length (results_of ''e9'' sample_after_go) \<le> 20 \<and> length (jobs_of ''e9'' sample_after_go) \<le> 81"
proof -
  let ?x = "hd (executions sample_after_go)"
  have x: "?x \<in> set (executions sample_after_go)" and i: "ex_id ?x = ''e9''"
    and n: "length (steps_of (ex_workflow_id ?x) sample_after_go) = 4"
      "length (transitions_of (ex_workflow_id ?x) sample_after_go) = 4" by code_simp+
  show ?thesis using execution_work_bounded[OF sample_idle_ok sample_reaches x] by (simp add: i n)
qed

text \<open>
  Property C4. No two results of an execution are the same attempt of the same step, the depth of
  an execution is the number of its results that did not fail (the successful and the waiting ones), and it
  never exceeds the workflow's \<open>maxDepth\<close> (at least one), which it may reach.
\<close>

theorem execution_depth_counts:
  assumes "idle s" and "runner_reaches s s'" and "x \<in> set (executions s')"
  shows "distinct (map (\<lambda>r. (res_step_id r, res_attempt r)) (results_of (ex_id x) s')) \<and>
    ex_depth x = int (length (done_of (ex_id x) s')) \<and>
    (case find_workflow (ex_workflow_id x) (ex_tenant_id x) s' of
      Some w \<Rightarrow> ex_depth x \<le> max 1 (wf_max_depth w) | None \<Rightarrow> True)"
proof (intro conjI)
  have ok: "engine_ok s'" by (rule idle_reaches[OF assms(1,2)])
  show "distinct (map (\<lambda>r. (res_step_id r, res_attempt r)) (results_of (ex_id x) s'))"
  proof -
    have "distinct (map result_key (results s'))"
      using ok by (auto simp: engine_ok_def keys_ok_def indexes_ok_def result_indexes_def index_ok_def map_filter_def o_def)
    then have "distinct (map result_key (results_of (ex_id x) s'))"
      by (simp add: results_of_def distinct_map_filter)
    then show ?thesis by (auto simp: distinct_map inj_on_def results_of_def result_key_inject)
  qed
  show "ex_depth x = int (length (done_of (ex_id x) s'))"
    using ok assms(3) unfolding engine_ok_def depth_ok_def by blast
  show "case find_workflow (ex_workflow_id x) (ex_tenant_id x) s' of
      Some w \<Rightarrow> ex_depth x \<le> max 1 (wf_max_depth w) | None \<Rightarrow> True"
    using ok assms(3) find_Some_iff_mem
    unfolding engine_ok_def depth_ok_def find_workflow_def by (fastforce split: option.split)
qed

lemma execution_depth_counts_witness:
  "ex_depth (hd (executions sample_after_go)) = int (length (done_of ''e9'' sample_after_go)) \<and>
   length (done_of ''e9'' sample_after_go) = 1"
proof -
  let ?x = "hd (executions sample_after_go)"
  have x: "?x \<in> set (executions sample_after_go)" and i: "ex_id ?x = ''e9''"
    and n: "length (done_of ''e9'' sample_after_go) = 1" by code_simp+
  show ?thesis using execution_depth_counts[OF sample_idle_ok sample_reaches x] by (simp add: i n)
qed

end
