(* ===== verification/RunnerAttempts.thy ===== *)
theory RunnerAttempts
  imports RunnerCorrect
begin

text \<open>
  The properties of one attempt of a step: what a successful and a failed one queue next, what a
  second delivery of the same attempt does, and that a cancelled execution stands still.
\<close>

text \<open>
  Property C23. Once an execution is cancelled it stands still: whatever jobs are delivered
  afterwards, its row, its results and the jobs queued for it stay as they are.
\<close>

theorem cancelled_execution_stands_still:
  assumes "idle s0" and "runner_reaches s0 s" and "x \<in> set (executions s)" and "ex_status x = ExCancelled"
    and "runner_reaches s s'"
  shows "x \<in> set (executions s') \<and> results_of (ex_id x) s' = results_of (ex_id x) s \<and>
    jobs_of (ex_id x) s' = jobs_of (ex_id x) s"
  using reaches_frozen[OF assms(5) idle_reaches[OF assms(1,2)] assms(3,4)] by (simp add: frozen_def)

definition sample_cancelled :: engine where
  "sample_cancelled = sample_started\<lparr>executions :=
     update_where (\<lambda>x. ex_id x = ''e9'') (\<lambda>x. x\<lparr>ex_status := ExCancelled\<rparr>) (executions sample_started)\<rparr>"

definition sample_ignored :: engine where
  "sample_ignored = snd (process_execution_job sample_runner (q_job (hd (jobs sample_cancelled))) sample_cancelled)"

lemma cancelled_execution_stands_still_witness:
  "results_of ''e9'' sample_ignored = [] \<and> length (jobs_of ''e9'' sample_ignored) = 1"
proof -
  have started: "runner_reaches sample_idle sample_started"
    unfolding sample_started_def by (rule more[OF here], rule trigger, rule prod.collapse[symmetric])
  have cancelled: "runner_reaches sample_idle sample_cancelled"
    by (rule more[OF started], rule cancel[where i = "''e9''"]) (simp add: sample_cancelled_def)
  have "hd (jobs sample_cancelled) \<in> set (jobs sample_cancelled)" by code_simp
  then have "runner_step sample_cancelled sample_ignored"
    unfolding sample_ignored_def by (rule deliver) (rule prod.collapse[symmetric])
  then have ignored: "runner_reaches sample_cancelled sample_ignored" by (rule more[OF here])
  let ?x = "hd (executions sample_cancelled)"
  have x: "?x \<in> set (executions sample_cancelled)" "ex_status ?x = ExCancelled" "ex_id ?x = ''e9''"
    and before: "results_of ''e9'' sample_cancelled = []" "length (jobs_of ''e9'' sample_cancelled) = 1"
    by code_simp+
  show ?thesis
    using cancelled_execution_stands_still[OF sample_idle_ok cancelled x(1,2) ignored] before
    by (simp add: x(3))
qed

subsection \<open>Success\<close>

lemma execution_after_advance:
  assumes "find_execution i s = Some x"
  shows "\<exists>y \<in> set (update_where (\<lambda>r. ex_id r = i) f (executions s)). y = f x"
proof -
  have "x \<in> set (executions s)" "ex_id x = i"
    using assms find_Some_iff_mem unfolding find_execution_def by fastforce+
  then show ?thesis by (auto simp: set_update_where)
qed

text \<open>
  Property C8. A step that returns a value records one result for this attempt, counts as one
  step of depth, and queues exactly one first attempt for the target of every transition its value
  lets through, in the order of the transitions; with no such transition the execution is done.
\<close>

theorem successful_attempt:
  assumes "keys_ok s" and "ready E p s x w st parsed"
    and "step_output E p st parsed s = (Inr v, s1)"
    and "\<And>r. r \<in> set (results s) \<Longrightarrow> res_execution_id r = job_execution_id p \<Longrightarrow>
      res_step_id r = st_id st \<Longrightarrow> res_attempt r \<noteq> job_attempt p"
  shows "case process_execution_job E p s of (r, s') \<Rightarrow> r = Inr () \<and>
    results s' = results s @ [success_row E p st (input_hash E p st s) v] \<and>
    jobs s' = jobs s @ next_jobs E p (delay_of st v) (steps_of (wf_id w) s)
      (filter (\<lambda>t. tr_source_step_id t = st_id st \<and> should_follow_transition (tr_route t) v False)
         (transitions_of (wf_id w) s)) \<and>
    (\<exists>y \<in> set (executions s'). ex_id y = ex_id x \<and> ex_depth y = ex_depth x + 1 \<and>
       ex_status y = (if \<exists>t \<in> set (transitions_of (wf_id w) s). tr_source_step_id t = st_id st \<and>
         should_follow_transition (tr_route t) v False then ex_status x else ExSuccess))"
proof -
  let ?row = "success_row E p st (input_hash E p st s) v"
  let ?final = "followed st v False (transitions_of (wf_id w) s) = []"
  have ok: "indexes_ok execution_indexes (executions s)" using assms(1) by (simp add: keys_ok_def)
  have "indexes_ok result_indexes (results s @ [?row])"
    using assms(1,4) by (auto simp: results_ok_append keys_ok_def engine_simps)
  then have run: "process_execution_job E p s = (Inr (), after_success E p x w st s v s1)"
    by (simp add: process_ready[OF assms(2)] attempt_output[OF ok assms(2,3)])
  have "find_execution (job_execution_id p) s = Some x" using assms(2) by (simp add: ready_def)
  from execution_after_advance[OF this, of "advance_row E x ?final"]
  have "\<exists>y \<in> set (executions (after_success E p x w st s v s1)). y = advance_row E x ?final x"
    by (simp add: after_success_def Let_def)
  then obtain y where y: "y \<in> set (executions (after_success E p x w st s v s1))" "y = advance_row E x ?final x"
    by blast
  have final: "?final \<longleftrightarrow> \<not> (\<exists>t \<in> set (transitions_of (wf_id w) s). tr_source_step_id t = st_id st \<and>
      should_follow_transition (tr_route t) v False)"
    by (auto simp: followed_def filter_empty_conv)
  have "ex_id y = ex_id x \<and> ex_depth y = ex_depth x + 1 \<and>
      ex_status y = (if \<exists>t \<in> set (transitions_of (wf_id w) s). tr_source_step_id t = st_id st \<and>
         should_follow_transition (tr_route t) v False then ex_status x else ExSuccess)"
    unfolding y(2) final by (auto simp: advance_row_def)
  with y(1) have "\<exists>y \<in> set (executions (after_success E p x w st s v s1)). ex_id y = ex_id x \<and>
      ex_depth y = ex_depth x + 1 \<and>
      ex_status y = (if \<exists>t \<in> set (transitions_of (wf_id w) s). tr_source_step_id t = st_id st \<and>
         should_follow_transition (tr_route t) v False then ex_status x else ExSuccess)"
    by blast
  then show ?thesis by (simp add: run after_success_def Let_def followed_def)
qed

definition sample_go :: step_row where
  "sample_go = sample_step ''go'' TRIGGER_WEBHOOK (JObj [])"

lemma sample_keys: "keys_ok sample_engine"
  by code_simp

lemma sample_ready_go:
  "ready sample_runner (sample_job ''go'' 1) sample_engine sample_execution sample_workflow sample_go (step_value sample_go)"
  by code_simp

lemma successful_attempt_witness:
  "map (job_step_key \<circ> q_job) (jobs (snd (process_execution_job sample_runner (sample_job ''go'' 1) sample_engine))) =
     [''go'', ''wait'', ''msg'']"
proof -
  let ?p = "sample_job ''go'' 1"
  have out: "step_output sample_runner ?p sample_go (step_value sample_go) sample_engine = (Inr (JObj []), sample_engine)"
    by (simp add: step_output_def cached_output_def run_step_def sample_go_def sample_step_def Let_def
        then_do_def give_def on_nodes_def execute_step_def runner_context_def sample_job_def)
  have none: "results sample_engine = []" by (simp add: sample_engine_def)
  have nexts: "map (job_step_key \<circ> q_job) (jobs sample_engine @ next_jobs sample_runner ?p (delay_of sample_go (JObj []))
      (steps_of (wf_id sample_workflow) sample_engine)
      (filter (\<lambda>t. tr_source_step_id t = st_id sample_go \<and> should_follow_transition (tr_route t) (JObj []) False)
         (transitions_of (wf_id sample_workflow) sample_engine))) = [''go'', ''wait'', ''msg'']"
    by code_simp
  have "jobs (snd (process_execution_job sample_runner ?p sample_engine)) = jobs sample_engine @
      next_jobs sample_runner ?p (delay_of sample_go (JObj [])) (steps_of (wf_id sample_workflow) sample_engine)
      (filter (\<lambda>t. tr_source_step_id t = st_id sample_go \<and> should_follow_transition (tr_route t) (JObj []) False)
         (transitions_of (wf_id sample_workflow) sample_engine))"
    using successful_attempt[OF sample_keys sample_ready_go out] by (simp add: none case_prod_beta)
  with nexts show ?thesis by simp
qed

subsection \<open>Failure\<close>

lemma failed_attempt_runs:
  assumes "keys_ok s" and "ready E p s x w st parsed" and "step_output E p st parsed s = (Inl e, s1)"
    and "\<And>r. r \<in> set (results s) \<Longrightarrow> res_execution_id r = job_execution_id p \<Longrightarrow>
      res_step_id r = st_id st \<Longrightarrow> res_attempt r \<noteq> job_attempt p"
  shows "process_execution_job E p s = (Inr (), after_failure E p x w st s e s1)"
proof -
  have ok: "indexes_ok execution_indexes (executions s)" using assms(1) by (simp add: keys_ok_def)
  have "indexes_ok result_indexes (results s @ [failure_row E p st (input_hash E p st s) e])"
    using assms(1,4) by (auto simp: results_ok_append keys_ok_def engine_simps)
  then show ?thesis
    by (simp add: process_ready[OF assms(2)] attempt_error[OF assms(3)]
        recover_output[OF ok assms(2) step_output_same_tables[OF assms(3)]])
qed

text \<open>
  Property C14. A step that throws is recorded as a failed attempt with the message; up to the
  fourth attempt the only thing queued is the next attempt of the same step, between two and sixteen
  seconds later, and the execution goes on running.
\<close>

theorem failed_attempt_retried:
  assumes "keys_ok s" and "ready E p s x w st parsed"
    and "step_output E p st parsed s = (Inl e, s1)"
    and "\<And>r. r \<in> set (results s) \<Longrightarrow> res_execution_id r = job_execution_id p \<Longrightarrow>
      res_step_id r = st_id st \<Longrightarrow> res_attempt r \<noteq> job_attempt p"
    and "1 \<le> job_attempt p" and "job_attempt p < 5"
  shows "case process_execution_job E p s of (r, s') \<Rightarrow> r = Inr () \<and> executions s' = executions s \<and>
    (\<exists>row. results s' = results s @ [row] \<and> res_status row = ResFailed \<and>
       res_error_message row = Some (error_message E e) \<and> res_attempt row = job_attempt p) \<and>
    (\<exists>q. jobs s' = jobs s @ [q] \<and> q_job q = p\<lparr>job_attempt := job_attempt p + 1\<rparr> \<and>
       q_delay q = Fin (2 ^ job_attempt p * 1000))"
proof -
  have a: "job_attempt p \<in> {1, 2, 3, 4}" using assms(5,6) by auto
  then have backoff: "rat_of_int (calculate_backoff (job_attempt p)) = 2 ^ job_attempt p * 1000"
    by (auto simp: calculate_backoff_def)
  have "executions s1 = executions s" using step_output_same_tables[OF assms(3)] by (simp add: same_tables_def)
  with assms(6) show ?thesis
    by (simp add: failed_attempt_runs[OF assms(1-4)] after_failure_def max_attempts_def Let_def engine_simps
        retry_job_def backoff) (simp add: failure_row_def)
qed

definition sample_code :: step_row where
  "sample_code = sample_step ''code'' CODE (JObj [(''source'', JStr ''return 1'')])"

lemma sample_ready_code:
  "ready sample_runner (sample_job ''code'' n) sample_engine sample_execution sample_workflow sample_code (step_value sample_code)"
proof -
  have "ready sample_runner (sample_job ''code'' 1) sample_engine sample_execution sample_workflow sample_code (step_value sample_code)"
    by code_simp
  then show ?thesis by (simp add: ready_def sample_job_def)
qed

lemma sample_code_fails:
  "step_output sample_runner (sample_job ''code'' n) sample_code (step_value sample_code) sample_engine =
     (Inl (Failure ''no sandbox''), sample_engine)"
proof -
  have "utf8_length (serialized (JObj [])) \<le> max_memory_bytes" by code_simp
  moreover have "steps_context (job_execution_id (sample_job ''code'' n)) sample_engine = []"
    by (simp add: steps_context_def sample_engine_def)
  ultimately show ?thesis
    by (simp add: step_output_def cached_output_def run_step_def sample_code_def sample_step_def Let_def
        then_do_def give_def on_nodes_def execute_step_def runner_context_def execute_code_node_def
        sample_runner_def sample_nodes_def throw_def)
qed

lemma failed_attempt_retried_witness:
  "map (job_attempt \<circ> q_job) (jobs (snd (process_execution_job sample_runner (sample_job ''code'' 3) sample_engine))) = [1, 4]"
proof -
  have none: "results sample_engine = []" "map (job_attempt \<circ> q_job) (jobs sample_engine) = [1]"
    by (simp_all add: sample_engine_def sample_queued_def sample_job_def)
  have n: "job_attempt (sample_job ''code'' 3) = 3" by (simp add: sample_job_def)
  show ?thesis
    using failed_attempt_retried[OF sample_keys sample_ready_code[of 3] sample_code_fails[of 3]]
    by (auto simp: none n case_prod_beta)
qed

text \<open>
  The fifth failure ends the matter: a step that stops on error fails the execution
  with the message, whatever failure routes it has, and queues nothing; a step that continues on
  error queues the targets of its failure routes, and fails the execution when it has none.
\<close>

theorem last_attempt_failed:
  assumes "keys_ok s" and "ready E p s x w st parsed"
    and "step_output E p st parsed s = (Inl e, s1)"
    and "\<And>r. r \<in> set (results s) \<Longrightarrow> res_execution_id r = job_execution_id p \<Longrightarrow>
      res_step_id r = st_id st \<Longrightarrow> res_attempt r \<noteq> job_attempt p"
    and "job_attempt p = 5"
  shows "case process_execution_job E p s of (r, s') \<Rightarrow> r = Inr () \<and>
    (let fallbacks = filter (\<lambda>t. tr_source_step_id t = st_id st \<and> tr_route t \<in> {ON_FAILURE, FALLBACK})
           (transitions_of (wf_id w) s)
     in if st_on_error st = OnErrorContinue \<and> fallbacks \<noteq> [] then
          executions s' = executions s \<and>
          jobs s' = jobs s @ next_jobs E p (Fin 0) (steps_of (wf_id w) s) fallbacks
        else jobs s' = jobs s \<and>
          (\<exists>y \<in> set (executions s'). ex_id y = ex_id x \<and> ex_status y = ExFailed \<and>
             ex_error_message y = Some (error_message E e)))"
proof -
  let ?fs = "filter (\<lambda>t. tr_source_step_id t = st_id st \<and> tr_route t \<in> {ON_FAILURE, FALLBACK}) (transitions_of (wf_id w) s)"
  have fs: "followed st JNull True (transitions_of (wf_id w) s) = ?fs"
    by (auto simp: followed_def should_follow_transition_def intro!: filter_cong)
  have tables: "executions s1 = executions s" "jobs s1 = jobs s"
    using step_output_same_tables[OF assms(3)] by (simp_all add: same_tables_def)
  have "find_execution (job_execution_id p) s = Some x" using assms(2) by (simp add: ready_def)
  from execution_after_advance[OF this, of "failing_row E x e"]
  have failed: "\<exists>y \<in> set (update_where (\<lambda>r. ex_id r = job_execution_id p) (failing_row E x e) (executions s)).
      ex_id y = ex_id x \<and> ex_status y = ExFailed \<and> ex_error_message y = Some (error_message E e)"
    by (elim bexE, intro bexI) (simp_all add: failing_row_def)
  show ?thesis
    using failed by (simp add: failed_attempt_runs[OF assms(1-4)] after_failure_def max_attempts_def Let_def fs tables assms(5))
qed

lemma last_attempt_failed_witness:
  "(\<exists>y \<in> set (executions (snd (process_execution_job sample_runner (sample_job ''code'' 5) sample_engine))).
      ex_status y = ExFailed) \<and>
   jobs (snd (process_execution_job sample_runner (sample_job ''code'' 5) sample_engine)) = jobs sample_engine"
proof -
  let ?s' = "snd (process_execution_job sample_runner (sample_job ''code'' 5) sample_engine)"
  have none: "results sample_engine = []" by (simp add: sample_engine_def)
  have n: "job_attempt (sample_job ''code'' 5) = 5" by (simp add: sample_job_def)
  have stop: "st_on_error sample_code = OnErrorStop" by (simp add: sample_code_def sample_step_def)
  show ?thesis
    using last_attempt_failed[OF sample_keys sample_ready_code[of 5] sample_code_fails[of 5]]
    by (auto simp: none n stop case_prod_beta Let_def)
qed

subsection \<open>Repetition\<close>

text \<open>
  A step runs its side effects again whenever an attempt that has its result is
  delivered once more, as it is for a step that two paths lead to: what the step returns or throws
  is dropped, no result is recorded and nothing is queued, and the job itself fails with the unique
  index, so that the queue delivers it again.
\<close>

theorem repeated_attempt_runs_again:
  assumes "keys_ok s" and "ready E p s x w st parsed"
    and "step_output E p st parsed s = (out, s1)"
    and "r \<in> set (results s)" and "res_execution_id r = job_execution_id p"
    and "res_step_id r = st_id st" and "res_attempt r = job_attempt p"
  shows "process_execution_job E p s = (Inl (Database (P2002 ''executionId_stepId_attempt'')), s1) \<and>
    results s1 = results s \<and> jobs s1 = jobs s \<and> executions s1 = executions s"
proof -
  have ok: "indexes_ok execution_indexes (executions s)" using assms(1) by (simp add: keys_ok_def)
  have same: "same_tables s s1" by (rule step_output_same_tables[OF assms(3)])
  have taken: "\<not> indexes_ok result_indexes (results s @ [row])"
    if "res_execution_id row = job_execution_id p" "res_step_id row = st_id st" "res_attempt row = job_attempt p" for row
    using that assms(4-7) by (auto simp: results_ok_append)
  have "recover E p x w st s e s1 = (Inl (Database (P2002 ''executionId_stepId_attempt'')), s1)" for e
    using recover_output[OF ok assms(2) same, of e] taken by (simp add: engine_simps)
  then have "process_execution_job E p s = (Inl (Database (P2002 ''executionId_stepId_attempt'')), s1)"
    using attempt_error[of E p st parsed s _ s1 x w] attempt_output[OF ok assms(2), of _ s1] assms(3) taken
    by (cases out) (simp_all add: process_ready[OF assms(2)] engine_simps)
  then show ?thesis using same by (simp add: same_tables_def)
qed

definition sample_msg :: step_row where
  "sample_msg = sample_step ''msg'' WHATSAPP_SEND (JObj [(''message'', JStr ''hi''), (''to'', JStr ''x'')])"

definition sample_sent :: engine where
  "sample_sent = snd (process_execution_job sample_runner (sample_job ''msg'' 1) sample_engine)"

definition sample_sent_again :: engine where
  "sample_sent_again = snd (step_output sample_runner (sample_job ''msg'' 1) sample_msg (step_value sample_msg) sample_sent)"

text \<open>The message is sent twice, and its step has one result.\<close>

lemma repeated_attempt_runs_again_witness:
  "length (outbound_calls (node_memory sample_sent)) = 1 \<and>
   (case process_execution_job sample_runner (sample_job ''msg'' 1) sample_sent of (r, s') \<Rightarrow>
      r = Inl (Database (P2002 ''executionId_stepId_attempt'')) \<and>
      length (outbound_calls (node_memory s')) = 2 \<and> length (results s') = 1)"
proof -
  have keys: "keys_ok sample_sent" by code_simp
  let ?x = "hd (executions sample_sent)" and ?r = "hd (results sample_sent)"
  have ready: "ready sample_runner (sample_job ''msg'' 1) sample_sent ?x sample_workflow sample_msg (step_value sample_msg)"
    by code_simp
  have out: "step_output sample_runner (sample_job ''msg'' 1) sample_msg (step_value sample_msg) sample_sent =
      (fst (step_output sample_runner (sample_job ''msg'' 1) sample_msg (step_value sample_msg) sample_sent), sample_sent_again)"
    by (simp add: sample_sent_again_def)
  have r: "?r \<in> set (results sample_sent)" "res_execution_id ?r = job_execution_id (sample_job ''msg'' 1)"
    "res_step_id ?r = st_id sample_msg" "res_attempt ?r = job_attempt (sample_job ''msg'' 1)" by code_simp+
  have n: "length (outbound_calls (node_memory sample_sent)) = 1" "length (results sample_sent) = 1"
    "length (outbound_calls (node_memory sample_sent_again)) = 2" by code_simp+
  show ?thesis using repeated_attempt_runs_again[OF keys ready out r] n by simp
qed

end
