(* ===== verification/WorkflowCorrect.thy ===== *)
theory WorkflowCorrect
  imports WorkflowService RunnerAttempts
begin

text \<open>
  The properties of the workflows of the API: what a created workflow looks like in the tables, how
  runs are started, and what follows from it for the runner.
\<close>

subsection \<open>What an operation leaves of the engine\<close>

lemma on_engine_eq: "on_engine m w = (r, w') \<longleftrightarrow> (\<exists>e. m (fw_engine w) = (r, e) \<and> w' = w\<lparr>fw_engine := e\<rparr>)"
  by (auto simp: on_engine_def split: prod.splits)

lemma on_billing_engine: "on_billing m w = (r, w') \<Longrightarrow> fw_engine w' = fw_engine w \<and> fw_dedupe w' = fw_dedupe w"
  by (auto simp: on_billing_def split: prod.splits)

lemma resolve_identity_ok:
  "resolve_scoped_identity reference w = (Inr idn, w') \<longleftrightarrow> w' = w \<and>
     (\<exists>org. find_organization_by_reference reference (bw_db (fw_billing w)) = Some org \<and>
        idn = \<lparr>idn_organization_id = org_id org, idn_tenant_id = org_tenant_id org\<rparr>)"
  by (auto simp: resolve_scoped_identity_def then_do_def ask_def throw_def give_def split: option.splits)

lemma resolve_identity_fails: "resolve_scoped_identity reference w = (Inl e, w') \<Longrightarrow> w' = w"
  by (auto simp: resolve_scoped_identity_def then_do_def ask_def throw_def give_def split: option.splits)

lemma limit_engine:
  assumes "assert_workflow_limit rc E idn w = (r, w')"
  shows "fw_engine w' = fw_engine w \<and> fw_dedupe w' = fw_dedupe w"
proof -
  obtain r1 w1 where run: "on_billing (get_billing_snapshot rc (we_billing E) (idn_tenant_id idn) 3) w = (r1, w1)"
    by fastforce
  have "w' = w1"
    using assms by (cases r1) (auto simp: assert_workflow_limit_def then_do_def run ask_def throw_def give_def Let_def
        split: js_num.splits if_splits)
  with on_billing_engine[OF run] show ?thesis by simp
qed

lemma dag_operation_keeps: "ensure_canvas_is_dag c w = (r, w') \<Longrightarrow> w' = w"
  by (auto simp: ensure_canvas_is_dag_def split: sum.splits)

subsection \<open>Persisting a canvas\<close>

text \<open>The rows and the map of keys that the loop over the steps leaves behind.\<close>

fun step_rows :: "(nat \<Rightarrow> string) \<Rightarrow> identity \<Rightarrow> string \<Rightarrow> nat \<Rightarrow> canvas_step list \<Rightarrow> step_row list" where
  "step_rows ids idn wid n [] = []"
| "step_rows ids idn wid n (s # ss) = new_step_row idn wid (ids n) s # step_rows ids idn wid (Suc n) ss"

fun step_ids :: "(nat \<Rightarrow> string) \<Rightarrow> nat \<Rightarrow> canvas_step list \<Rightarrow> string jsmap \<Rightarrow> string jsmap" where
  "step_ids ids n [] m = m"
| "step_ids ids n (s # ss) m = step_ids ids (Suc n) ss (AList.update (cs_key s) (ids n) m)"

lemma persist_steps_Inr:
  "persist_steps ids idn wid n ss m db = (Inr m', db') \<Longrightarrow>
     db' = db\<lparr>steps := steps db @ step_rows ids idn wid n ss\<rparr> \<and> m' = step_ids ids n ss m"
proof (induction ss arbitrary: n m db)
  case Nil
  then show ?case by simp
next
  case (Cons s ss)
  from Cons.prems have "persist_steps ids idn wid (Suc n) ss (AList.update (cs_key s) (ids n) m)
      (db\<lparr>steps := steps db @ [new_step_row idn wid (ids n) s]\<rparr>) = (Inr m', db')"
    by (auto simp: table_simps set_steps_def)
  from Cons.IH[OF this] show ?case by simp
qed

lemma step_ids_row:
  "map_of (step_ids ids n ss m) k = Some i \<Longrightarrow>
     (\<exists>st \<in> set (step_rows ids idn wid n ss). st_key st = k \<and> st_id st = i) \<or> map_of m k = Some i"
proof (induction ss arbitrary: n m)
  case (Cons s ss)
  then have "(\<exists>st \<in> set (step_rows ids idn wid (Suc n) ss). st_key st = k \<and> st_id st = i) \<or>
      map_of (AList.update (cs_key s) (ids n) m) k = Some i"
    using Cons.IH[of "Suc n" "AList.update (cs_key s) (ids n) m"] by auto
  then show ?case by (auto simp: new_step_row_def split: if_splits)
qed simp

definition canvas_row :: "canvas_step \<Rightarrow> string \<times> string \<times> step_type \<times> js_val \<times> on_error" where
  "canvas_row s = (cs_key s, cs_name s, cs_type s, cs_config s, OnErrorStop)"

definition stored_row :: "step_row \<Rightarrow> string \<times> string \<times> step_type \<times> js_val \<times> on_error" where
  "stored_row st = (st_key st, st_name st, st_type st, st_config st, st_on_error st)"

lemma step_rows_facts:
  "map stored_row (step_rows ids idn wid n ss) = map canvas_row ss"
  "st \<in> set (step_rows ids idn wid n ss) \<Longrightarrow> st_workflow_id st = wid \<and> st_on_error st = OnErrorStop"
  by (induction ss arbitrary: n) (auto simp: stored_row_def canvas_row_def new_step_row_def)

definition connects :: "step_row list \<Rightarrow> canvas_transition \<Rightarrow> transition_row \<Rightarrow> bool" where
  "connects sts c t \<longleftrightarrow> tr_route t = ct_route c \<and>
     (\<exists>a \<in> set sts. st_key a = ct_source c \<and> st_id a = tr_source_step_id t) \<and>
     (\<exists>b \<in> set sts. st_key b = ct_target c \<and> st_id b = tr_target_step_id t)"

lemma persist_transitions_Inr:
  assumes "\<And>k i. map_of m k = Some i \<Longrightarrow> \<exists>st \<in> set sts. st_key st = k \<and> st_id st = i"
  shows "persist_transitions idn wid m ts db = (Inr u, db') \<Longrightarrow>
    \<exists>new. db' = db\<lparr>transitions := transitions db @ new\<rparr> \<and> list_all2 (connects sts) ts new \<and>
      (\<forall>t \<in> set new. tr_workflow_id t = wid)"
proof (induction ts arbitrary: db)
  case Nil
  then show ?case by simp
next
  case (Cons c ts)
  from Cons.prems obtain a b where ab: "map_of m (ct_source c) = Some a" "map_of m (ct_target c) = Some b"
    "truthy (Some a) = Some a" "truthy (Some b) = Some b"
    by (auto split: option.splits simp: truthy_Some_iff)
  let ?row = "\<lparr>tr_tenant_id = idn_tenant_id idn, tr_organization_id = idn_organization_id idn,
             tr_workflow_id = wid, tr_source_step_id = a, tr_target_step_id = b, tr_route = ct_route c\<rparr>"
  from Cons.prems have "persist_transitions idn wid m ts (db\<lparr>transitions := transitions db @ [?row]\<rparr>) = (Inr u, db')"
    by (auto simp: ab table_simps set_transitions_def)
  from Cons.IH[OF this] obtain new where new: "db' = db\<lparr>transitions := transitions db @ ?row # new\<rparr>"
    "list_all2 (connects sts) ts new" "\<forall>t \<in> set new. tr_workflow_id t = wid" by auto
  have "connects sts c ?row" using assms[OF ab(1)] assms[OF ab(2)] by (simp add: connects_def)
  with new show ?case by (intro exI[of _ "?row # new"]) simp
qed

lemma persist_canvas_Inr:
  assumes "persist_canvas ids idn wid c db = (Inr u, db')"
  shows "\<exists>rows new. db' = db\<lparr>steps := steps db @ rows, transitions := transitions db @ new\<rparr> \<and>
    map stored_row rows = map canvas_row (cv_steps c) \<and> list_all2 (connects rows) (cv_transitions c) new \<and>
    (\<forall>st \<in> set rows. st_workflow_id st = wid \<and> st_on_error st = OnErrorStop) \<and> (\<forall>t \<in> set new. tr_workflow_id t = wid)"
proof -
  let ?rows = "step_rows ids idn wid 0 (cv_steps c)"
  from assms obtain m db1 where s: "persist_steps ids idn wid 0 (cv_steps c) [] db = (Inr m, db1)"
    and t: "persist_transitions idn wid m (cv_transitions c) db1 = (Inr u, db')"
    by (auto simp: persist_canvas_def)
  from persist_steps_Inr[OF s] have db1: "db1 = db\<lparr>steps := steps db @ ?rows\<rparr>" and m: "m = step_ids ids 0 (cv_steps c) []"
    by auto
  have "\<exists>st \<in> set ?rows. st_key st = k \<and> st_id st = i" if "map_of m k = Some i" for k i
    using step_ids_row[OF that[unfolded m]] by auto
  from persist_transitions_Inr[OF this t] step_rows_facts(1)[of ids idn wid 0 "cv_steps c"]
    step_rows_facts(2)[of _ ids idn wid 0 "cv_steps c"] show ?thesis
    by (intro exI[of _ ?rows]) (auto simp: db1)
qed

lemma upsert_cron_engine:
  "upsert_cron_trigger x db = (r, db') \<Longrightarrow> r = Inr () \<and> (\<exists>ts. db' = db\<lparr>trigger_jobs := trigger_jobs db @ ts\<rparr>)"
  by (auto simp: upsert_cron_trigger_def schedule_cron_workflow_def add_trigger_def give_def
      intro: exI[of _ "[]"] split: option.splits)

lemma persist_canvas_workflows:
  "persist_canvas ids idn wid c db = (Inr u, db') \<Longrightarrow> same_tables
     (db\<lparr>steps := steps db', transitions := transitions db'\<rparr>) db'"
  by (drule persist_canvas_Inr) (auto simp: same_tables_def)

text \<open>What a successful \<open>createWorkflow\<close> did.\<close>

lemma create_workflow_Inr:
  assumes "create_workflow rc E reference i w = (Inr v, w')"
  obtains idn rows new ts where
    "resolve_scoped_identity reference w = (Inr idn, w)"
    "dag_ok \<lparr>require_connected = None, require_single_trigger = None\<rparr>
       (canvas_nodes (wci_canvas i)) (canvas_edges (wci_canvas i))"
    "fw_engine w' = (fw_engine w)\<lparr>workflows := workflows (fw_engine w) @ [new_workflow_row E idn i],
       steps := steps (fw_engine w) @ rows, transitions := transitions (fw_engine w) @ new,
       trigger_jobs := trigger_jobs (fw_engine w) @ ts\<rparr>"
    "indexes_ok workflow_indexes (workflows (fw_engine w'))"
    "map stored_row rows = map canvas_row (cv_steps (wci_canvas i))"
    "list_all2 (connects rows) (cv_transitions (wci_canvas i)) new"
    "\<forall>st \<in> set rows. st_workflow_id st = we_workflow_id E \<and> st_on_error st = OnErrorStop"
    "\<forall>t \<in> set new. tr_workflow_id t = we_workflow_id E"
    "get_workflow_by_id (we_workflow_id E) (idn_tenant_id idn) (fw_engine w') = Some v"
proof -
  from assms obtain idn w0 w1 w1' w2 w3 where id0: "resolve_scoped_identity reference w = (Inr idn, w0)"
    and lim0: "assert_workflow_limit rc E idn w0 = (Inr (), w1)"
    and dag0: "ensure_canvas_is_dag (wci_canvas i) w1 = (Inr (), w1')"
    and tx0: "on_engine (in_transaction (
       then_do (on_table workflows set_workflows (create_row workflow_indexes (new_workflow_row E idn i))) (\<lambda>_.
         persist_canvas (we_step_id E) idn (we_workflow_id E) (wci_canvas i)))) w1' = (Inr (), w2)"
    and cron: "(if wci_trigger_type i = TriggerCron then on_engine (upsert_cron_trigger (new_workflow_row E idn i))
              else give ()) w2 = (Inr (), w3)"
    and final: "get_workflow_by_id (we_workflow_id E) (idn_tenant_id idn) (fw_engine w3) = Some v" "w' = w3"
    by (auto simp: create_workflow_def split: option.splits)
  have "w0 = w" "w1' = w1" using id0 dag_operation_keeps[OF dag0] by (auto simp: resolve_identity_ok)
  with id0 lim0 dag0 tx0 have id: "resolve_scoped_identity reference w = (Inr idn, w)"
    and lim: "assert_workflow_limit rc E idn w = (Inr (), w1)"
    and dag: "ensure_canvas_is_dag (wci_canvas i) w1 = (Inr (), w1)"
    and tx: "on_engine (in_transaction (
       then_do (on_table workflows set_workflows (create_row workflow_indexes (new_workflow_row E idn i))) (\<lambda>_.
         persist_canvas (we_step_id E) idn (we_workflow_id E) (wci_canvas i)))) w1 = (Inr (), w2)"
    by simp_all
  let ?db = "fw_engine w"
  let ?db1 = "?db\<lparr>workflows := workflows ?db @ [new_workflow_row E idn i]\<rparr>"
  have e1: "fw_engine w1 = ?db" using limit_engine[OF lim] by simp
  from tx obtain db2 where persisted: "persist_canvas (we_step_id E) idn (we_workflow_id E) (wci_canvas i) ?db1 = (Inr (), db2)"
    and ok: "indexes_ok workflow_indexes (workflows ?db @ [new_workflow_row E idn i])" and e2: "fw_engine w2 = db2"
    by (auto simp: on_engine_eq e1 table_simps set_workflows_def)
  from persist_canvas_Inr[OF persisted] obtain rows new where
    db2: "db2 = ?db1\<lparr>steps := steps ?db @ rows, transitions := transitions ?db @ new\<rparr>" and
    facts: "map stored_row rows = map canvas_row (cv_steps (wci_canvas i))" "list_all2 (connects rows) (cv_transitions (wci_canvas i)) new"
      "\<forall>st \<in> set rows. st_workflow_id st = we_workflow_id E \<and> st_on_error st = OnErrorStop"
      "\<forall>t \<in> set new. tr_workflow_id t = we_workflow_id E" by auto
  have "\<exists>ts. fw_engine w3 = db2\<lparr>trigger_jobs := trigger_jobs ?db @ ts\<rparr>"
  proof (cases "wci_trigger_type i = TriggerCron")
    case True
    with cron obtain db3 where u: "upsert_cron_trigger (new_workflow_row E idn i) db2 = (Inr (), db3)" and "fw_engine w3 = db3"
      by (auto simp: on_engine_eq e2)
    with upsert_cron_engine[OF u] show ?thesis by (auto simp: db2)
  next
    case False
    with cron have "w3 = w2" by simp
    then show ?thesis by (intro exI[of _ "[]"]) (simp add: e2 db2)
  qed
  then obtain ts where e3: "fw_engine w3 = db2\<lparr>trigger_jobs := trigger_jobs ?db @ ts\<rparr>" ..
  have "dag_ok \<lparr>require_connected = None, require_single_trigger = None\<rparr> (canvas_nodes (wci_canvas i)) (canvas_edges (wci_canvas i))"
    using dag validate_dag_sound by (auto simp: ensure_canvas_is_dag_def split: sum.splits)
  then show ?thesis
    by (rule that[OF id _ _ _ facts]) (use ok final in \<open>simp_all add: e3 db2\<close>)
qed

lemma filter_all: "(\<And>x. x \<in> set xs \<Longrightarrow> P x) \<Longrightarrow> filter P xs = xs"
  by (induction xs) auto

lemma filter_none: "(\<And>x. x \<in> set xs \<Longrightarrow> \<not> P x) \<Longrightarrow> filter P xs = []"
  by (induction xs) auto

text \<open>
  Property C29. A workflow the API accepts has a valid graph and is stored as its canvas: the
  steps in their order with their keys, types and configurations, a transition row between the
  steps each transition of the canvas names, in the tenant of the caller; every step stops on error.
\<close>

theorem created_workflow_is_the_canvas:
  assumes "create_workflow rc E reference i w = (Inr v, w')"
    and "\<And>st. st \<in> set (steps (fw_engine w)) \<Longrightarrow> st_workflow_id st \<noteq> we_workflow_id E"
    and "\<And>t. t \<in> set (transitions (fw_engine w)) \<Longrightarrow> tr_workflow_id t \<noteq> we_workflow_id E"
  shows "dag_ok \<lparr>require_connected = None, require_single_trigger = None\<rparr>
      (canvas_nodes (wci_canvas i)) (canvas_edges (wci_canvas i)) \<and>
    map (\<lambda>st. (st_key st, st_name st, st_type st, st_config st, st_on_error st)) (view_steps v) =
      map (\<lambda>s. (cs_key s, cs_name s, cs_type s, cs_config s, OnErrorStop)) (cv_steps (wci_canvas i)) \<and>
    list_all2 (connects (view_steps v)) (cv_transitions (wci_canvas i)) (view_transitions v) \<and>
    wf_status (view_workflow v) = wci_status i \<and>
    (case find_organization_by_reference reference (bw_db (fw_billing w)) of
       Some org \<Rightarrow> wf_tenant_id (view_workflow v) = org_tenant_id org | None \<Rightarrow> False)"
proof -
  from create_workflow_Inr[OF assms(1)] obtain idn rows new ts where
    id: "resolve_scoped_identity reference w = (Inr idn, w)"
    and dag: "dag_ok \<lparr>require_connected = None, require_single_trigger = None\<rparr>
       (canvas_nodes (wci_canvas i)) (canvas_edges (wci_canvas i))"
    and e: "fw_engine w' = (fw_engine w)\<lparr>workflows := workflows (fw_engine w) @ [new_workflow_row E idn i],
       steps := steps (fw_engine w) @ rows, transitions := transitions (fw_engine w) @ new,
       trigger_jobs := trigger_jobs (fw_engine w) @ ts\<rparr>"
    and ok: "indexes_ok workflow_indexes (workflows (fw_engine w'))"
    and rows: "map stored_row rows = map canvas_row (cv_steps (wci_canvas i))"
    and new: "list_all2 (connects rows) (cv_transitions (wci_canvas i)) new"
    and ids: "\<forall>st \<in> set rows. st_workflow_id st = we_workflow_id E \<and> st_on_error st = OnErrorStop"
      "\<forall>t \<in> set new. tr_workflow_id t = we_workflow_id E"
    and v: "get_workflow_by_id (we_workflow_id E) (idn_tenant_id idn) (fw_engine w') = Some v" .
  have steps: "steps_of (we_workflow_id E) (fw_engine w') = rows"
    using filter_none[of "steps (fw_engine w)" "\<lambda>st. st_workflow_id st = we_workflow_id E"] assms(2)
      filter_all[of rows "\<lambda>st. st_workflow_id st = we_workflow_id E"] ids(1) by (simp add: steps_of_def e)
  have trs: "transitions_of (we_workflow_id E) (fw_engine w') = new"
    using filter_none[of "transitions (fw_engine w)" "\<lambda>t. tr_workflow_id t = we_workflow_id E"] assms(3)
      filter_all[of new "\<lambda>t. tr_workflow_id t = we_workflow_id E"] ids(2) by (simp add: transitions_of_def e)
  have "new_workflow_row E idn i \<in> set (workflows (fw_engine w'))" by (simp add: e)
  moreover have "wf_id (new_workflow_row E idn i) = we_workflow_id E" by (simp add: new_workflow_row_def)
  moreover from v obtain x where x: "find_workflow (we_workflow_id E) (idn_tenant_id idn) (fw_engine w') = Some x"
    and vx: "view_workflow v = x" "view_steps v = rows" "view_transitions v = new"
    by (auto simp: get_workflow_by_id_def steps trs split: option.splits)
  moreover from x have "x \<in> set (workflows (fw_engine w'))" "wf_id x = we_workflow_id E"
    using find_Some_iff_mem unfolding find_workflow_def by fastforce+
  moreover have "unique_key.unique (\<lambda>w. Some (wf_id w)) (workflows (fw_engine w'))"
    by (rule indexes_ok_unique[OF ok, of "''id''"]) (simp add: workflow_indexes_def)
  ultimately have "x = new_workflow_row E idn i"
    using unique_key.unique_eq[of "\<lambda>w. Some (wf_id w)"] by fastforce
  then show ?thesis
    using dag rows new id
    by (auto simp: vx stored_row_def[abs_def] canvas_row_def[abs_def] new_workflow_row_def resolve_identity_ok)
qed

end
