(* ===== verification/WorkflowRuns.thy ===== *)
theory WorkflowRuns
  imports WorkflowCorrect
begin

text \<open>
  The properties of the runs of a workflow, from the API to the runner: a run starts one execution
  of the caller's tenant, a webhook needs its signature, no route for failures is ever followed,
  and what an edit of the canvas takes with it.
\<close>

subsection \<open>Starting a run\<close>

lemma starts_created:
  assumes "indexes_ok execution_indexes (executions db @ [x])" and "ex_depth x = 0" and "length new \<le> 1"
    and "\<forall>q \<in> set new. belongs (q_job q) x \<and> job_attempt (q_job q) = 1"
    and "db' = db\<lparr>executions := executions db @ [x], jobs := jobs db @ new, trigger_jobs := ts\<rparr>"
  shows "starts x new db db'"
  using assms by (simp add: starts_def same_workflows_def)

lemma find_workflow_Some:
  "find_workflow i tenant db = Some r \<Longrightarrow> r \<in> set (workflows db) \<and> wf_id r = i \<and> wf_tenant_id r = tenant"
  unfolding find_workflow_def by (drule find_Some_iff_mem) simp

text \<open>The execution a run opens, and the job that is to begin it: of the trigger step, or of the trigger queue.\<close>

definition opened_run :: "workflow_env \<Rightarrow> string \<Rightarrow> string \<Rightarrow> 'r workflow_world \<Rightarrow> workflow_row \<Rightarrow> execution_row \<Rightarrow> bool" where
  "opened_run E i reference w r x \<longleftrightarrow> r \<in> set (workflows (fw_engine w)) \<and> wf_id r = i \<and> wf_status r = WfPublished \<and>
     Some (wf_tenant_id r) = map_option org_tenant_id (find_organization_by_reference reference (bw_db (fw_billing w))) \<and>
     ex_id x = we_execution_id E \<and> ex_status x = ExRunning \<and> ex_workflow_id x = i \<and>
     ex_tenant_id x = wf_tenant_id r \<and> ex_organization_id x = wf_organization_id r"

definition trigger_step :: "string \<Rightarrow> 'r workflow_world \<Rightarrow> step_row option" where
  "trigger_step i w = List.find (\<lambda>st. is_trigger_type (st_type st)) (steps_of i (fw_engine w))"

definition first_job_id :: "workflow_env \<Rightarrow> string \<Rightarrow> 'r workflow_world \<Rightarrow> string" where
  "first_job_id E i w = (case trigger_step i w of
     Some st \<Rightarrow> job_id (we_execution_id E) (st_key st) (show_nat 1)
   | None \<Rightarrow> i @ '':'' @ show_int (we_now E))"

definition first_step_job :: "workflow_env \<Rightarrow> workflow_row \<Rightarrow> js_val \<Rightarrow> trigger_type \<Rightarrow> step_row \<Rightarrow> execution_job" where
  "first_step_job E r payload t st = \<lparr>job_attempt = 1, job_execution_id = we_execution_id E,
     job_organization_id = wf_organization_id r, job_step_key = st_key st, job_tenant_id = wf_tenant_id r,
     job_trigger_payload = payload, job_trigger_type = t, job_workflow_id = wf_id r\<rparr>"

definition run_trigger :: "workflow_row \<Rightarrow> js_val \<Rightarrow> trigger_type \<Rightarrow> trigger_job" where
  "run_trigger r payload t = \<lparr>trg_organization_id = wf_organization_id r, trg_tenant_id = wf_tenant_id r,
     trg_payload = payload, trg_type = t, trg_workflow_id = wf_id r\<rparr>"

text \<open>A run is refused before anything is written, or it comes to the queue with its row created.\<close>

lemma run_comes_to_queue:
  obtains (refused) e where "run_workflow_now E i reference async payload t w = (Inl e, w)"
  | (opened) r db1 where "opened_run E i reference w r (manual_execution E r payload t)"
      "indexes_ok execution_indexes (executions (fw_engine w) @ [manual_execution E r payload t])"
      "db1 = (fw_engine w)\<lparr>executions := executions (fw_engine w) @ [manual_execution E r payload t]\<rparr>"
      "run_workflow_now E i reference async payload t w = then_do (on_engine (case trigger_step i w of
           Some st \<Rightarrow> enqueue_workflow_execution (we_queue_refuses E) (first_step_job E r payload t st)
         | None \<Rightarrow> enqueue_workflow_trigger (we_queue_refuses E) (we_now E) (run_trigger r payload t)))
         (\<lambda>_. give \<lparr>run_execution_id = we_execution_id E, run_async = async\<rparr>) (w\<lparr>fw_engine := db1\<rparr>)"
proof -
  let ?db = "fw_engine w"
  obtain o1 w1 where id: "resolve_scoped_identity reference w = (o1, w1)" by fastforce
  show thesis
  proof (cases o1)
    case (Inl e)
    with id have "w1 = w" using resolve_identity_fails by blast
    then show thesis by (intro refused[of e]) (simp add: run_workflow_now_def then_do_def id Inl)
  next
    case (Inr idn)
    with id obtain org where org: "find_organization_by_reference reference (bw_db (fw_billing w)) = Some org"
      and w1: "w1 = w" and idn: "idn_tenant_id idn = org_tenant_id org" by (auto simp: resolve_identity_ok)
    note run = run_workflow_now_def then_do_def[of "resolve_scoped_identity _"] id Inr w1 then_do_def[of "ask _"] ask_def
      get_workflow_by_id_def Let_def
    show thesis
    proof (cases "find_workflow i (idn_tenant_id idn) ?db")
      case None
      then show thesis by (intro refused) (simp add: run throw_def)
    next
      case (Some r)
      note r = find_workflow_Some[OF Some]
      let ?x = "manual_execution E r payload t"
      have x: "opened_run E i reference w r ?x" if "wf_status r = WfPublished"
        using that r org idn by (simp add: opened_run_def manual_execution_def)
      show thesis
      proof (cases "wf_status r = WfPublished")
        case False
        then show thesis by (intro refused) (simp add: run Some throw_def)
      next
        case published: True
        show thesis
        proof (cases "indexes_ok execution_indexes (executions ?db @ [?x])")
          case True
          then have table: "on_table executions set_executions (create_row execution_indexes ?x) ?db =
              (Inr (), ?db\<lparr>executions := executions ?db @ [?x]\<rparr>)" by (simp add: table_simps set_executions_def)
          have create: "on_engine (on_table executions set_executions (create_row execution_indexes ?x)) w =
              (Inr (), w\<lparr>fw_engine := ?db\<lparr>executions := executions ?db @ [?x]\<rparr>\<rparr>)" unfolding on_engine_def table by simp
          show thesis
            by (rule opened[OF x[OF published] True refl])
              (simp add: run Some published then_do_def[of "on_engine (on_table _ _ _)"] create first_step_job_def run_trigger_def
                trigger_step_def r cong: option.case_cong)
        next
          case False
          then obtain d where "create_row execution_indexes ?x (executions ?db) = Inl d"
            by (cases "create_row execution_indexes ?x (executions ?db)") (auto simp: table_simps)
          then have "on_engine (on_table executions set_executions (create_row execution_indexes ?x)) w =
              (Inl (Database d), w)" by (simp add: on_engine_def on_table_def)
          then show thesis by (intro refused) (simp add: run Some published then_do_def[of "on_engine (on_table _ _ _)"])
        qed
      qed
    qed
  qed
qed

text \<open>
  Property C26. What a run leaves. A run that is accepted belongs to a published workflow of the tenant of the caller and opens
  exactly one execution, running at depth zero for the tenant and the organization of the workflow. If the workflow has a
  trigger step there is one more job, the first attempt of this step in this execution; if it has none, no job of
  this execution but one for the trigger queue, which opens another one. A run that is not accepted has changed
  nothing, unless it is the queue that has refused the id of that job: then the running execution is left without any job.
\<close>

theorem run_starts_one_execution:
  "case run_workflow_now E i reference async payload t w of
     (Inl e, w') \<Rightarrow> w' = w \<or> (\<exists>r x m. opened_run E i reference w r x \<and> e = Failure m \<and>
       we_queue_refuses E (first_job_id E i w) = Some m \<and> starts x [] (fw_engine w) (fw_engine w') \<and>
       trigger_jobs (fw_engine w') = trigger_jobs (fw_engine w))
   | (Inr c, w') \<Rightarrow> \<exists>r x new. opened_run E i reference w r x \<and> run_execution_id c = ex_id x \<and>
       we_queue_refuses E (first_job_id E i w) = None \<and> starts x new (fw_engine w) (fw_engine w') \<and>
       (case trigger_step i w of
          Some st \<Rightarrow> map (\<lambda>q. (q_id q, job_step_key (q_job q))) new = [(first_job_id E i w, st_key st)] \<and>
            trigger_jobs (fw_engine w') = trigger_jobs (fw_engine w)
        | None \<Rightarrow> new = [] \<and> (\<exists>q. trigger_jobs (fw_engine w') = trigger_jobs (fw_engine w) @ [q] \<and>
            qt_id q = first_job_id E i w \<and> trg_workflow_id (qt_job q) = i \<and> trg_tenant_id (qt_job q) = wf_tenant_id r))"
proof (cases rule: run_comes_to_queue[of E i reference async payload t w])
  case (refused e)
  then show ?thesis by simp
next
  case (opened r db1)
  let ?x = "manual_execution E r payload t" and ?db = "fw_engine w"
  have r: "wf_id r = i" and fields: "ex_id ?x = we_execution_id E" "ex_depth ?x = 0"
    using opened(1) by (simp_all add: opened_run_def manual_execution_def)
  have job: "first_job_id E i w = (case trigger_step i w of
      Some st \<Rightarrow> job_id (job_execution_id (first_step_job E r payload t st)) (job_step_key (first_step_job E r payload t st)) (show_nat 1)
    | None \<Rightarrow> trg_workflow_id (run_trigger r payload t) @ '':'' @ show_int (we_now E))"
    by (simp add: first_job_id_def first_step_job_def run_trigger_def r split: option.split)
  have left: "starts ?x [] ?db db1" "trigger_jobs db1 = trigger_jobs ?db"
    by (rule starts_created[where ts = "trigger_jobs ?db" and new = "[]"]) (use opened(2,3) fields(2) in simp_all)
  show ?thesis
  proof (cases "we_queue_refuses E (first_job_id E i w)")
    case (Some m)
    then have "run_workflow_now E i reference async payload t w = (Inl (Failure m), w\<lparr>fw_engine := db1\<rparr>)"
      unfolding opened(4)
      by (cases "trigger_step i w") (simp_all add: job then_do_def on_engine_def enqueue_workflow_execution_def
          enqueue_workflow_trigger_def Let_def queue_add_def throw_def first_step_job_def)
    with opened(1) Some left show ?thesis by auto
  next
    case None
    show ?thesis
    proof (cases "trigger_step i w")
      case no_step: None
      let ?q = "\<lparr>qt_name = ''workflow-trigger'', qt_id = first_job_id E i w, qt_repeat = None, qt_job = run_trigger r payload t\<rparr>"
      have "run_workflow_now E i reference async payload t w = (Inr \<lparr>run_execution_id = we_execution_id E, run_async = async\<rparr>,
          w\<lparr>fw_engine := db1\<lparr>trigger_jobs := trigger_jobs ?db @ [?q]\<rparr>\<rparr>)"
        using None unfolding opened(4) by (simp add: job no_step then_do_def on_engine_def enqueue_workflow_trigger_def Let_def queue_add_def
            add_trigger_def give_def left(2))
      moreover have "starts ?x [] ?db (db1\<lparr>trigger_jobs := trigger_jobs ?db @ [?q]\<rparr>)"
        by (rule starts_created[where ts = "trigger_jobs ?db @ [?q]"]) (use opened(2,3) fields(2) in simp_all)
      ultimately show ?thesis
        using opened(1) None no_step fields r by (auto intro!: exI[of _ r] exI[of _ ?x] simp: run_trigger_def)
    next
      case (Some st)
      let ?q = "\<lparr>q_id = first_job_id E i w, q_delay = Fin 0, q_job = first_step_job E r payload t st\<rparr>"
      have "run_workflow_now E i reference async payload t w = (Inr \<lparr>run_execution_id = we_execution_id E, run_async = async\<rparr>,
          w\<lparr>fw_engine := db1\<lparr>jobs := jobs ?db @ [?q]\<rparr>\<rparr>)"
        using None unfolding opened(4) by (simp add: job Some then_do_def on_engine_def enqueue_workflow_execution_def Let_def queue_add_def
            add_job_def give_def opened(3) first_step_job_def)
      moreover have "starts ?x [?q] ?db (db1\<lparr>jobs := jobs ?db @ [?q]\<rparr>)"
        by (rule starts_created[where ts = "trigger_jobs ?db"])
          (use opened(2,3) fields(2) in \<open>simp_all add: belongs_def first_step_job_def manual_execution_def\<close>)
      ultimately show ?thesis
        using opened(1) None Some fields left(2)
        by (auto intro!: exI[of _ r] exI[of _ ?x] exI[of _ "[?q]"] simp: first_step_job_def)
    qed
  qed
qed

subsection \<open>Webhooks\<close>

lemma run_dedupe: "run_workflow_now E i reference async payload t w = (r, w') \<Longrightarrow> fw_dedupe w' = fw_dedupe w"
  by (auto simp: run_workflow_now_def resolve_scoped_identity_def then_do_def ask_def throw_def give_def on_engine_def Let_def
      split: prod.splits sum.splits option.splits if_splits)

text \<open>
  Property C28. A webhook starts a workflow only with the HMAC of the payload under the workflow's
  secret. For the five seconds after, every webhook of the same tenant with the same payload is
  answered as a duplicate and starts nothing, also one of another workflow.
\<close>

theorem webhook_signed_and_deduplicated:
  assumes "webhook_trigger E i signature payload w = (Inr (Accepted x), w')"
    and "r \<in> set (workflows (fw_engine w))" and "wf_id r = i" and "indexes_ok workflow_indexes (workflows (fw_engine w))"
    and "List.find (\<lambda>q. wf_id q = j) (workflows (fw_engine w'')) = Some other" and "wf_trigger_type other = TriggerWebhook"
    and "wf_tenant_id other = wf_tenant_id r" and "fw_dedupe w'' = fw_dedupe w'"
    and "we_now E' < we_now E + 5000" and "we_sha256 E' = we_sha256 E"
    and "signature' = Some (webhook_signature E' other payload)" and "webhook_signature E' other payload \<noteq> []"
  shows "signature = Some (webhook_signature E r payload) \<and>
    webhook_trigger E' j signature' payload w'' = (Inr Deduplicated, w'')"
proof -
  have "unique_key.unique (\<lambda>w. Some (wf_id w)) (workflows (fw_engine w))"
    by (rule indexes_ok_unique[OF assms(4), of "''id''"]) (simp add: workflow_indexes_def)
  from unique_key.unique_find[OF this assms(2), of i] assms(3)
  have r: "List.find (\<lambda>q. wf_id q = i) (workflows (fw_engine w)) = Some r" by simp
  from assms(1) obtain w1 where sig: "truthy signature = Some (webhook_signature E r payload)"
    and d: "dedupe_trigger_payload E (wf_tenant_id r) payload w = (Inr True, w1)"
    and run: "\<exists>c. run_workflow_now E (wf_id r) (wf_organization_id r) True payload TriggerWebhook w1 = (Inr c, w')"
    by (auto simp: webhook_trigger_def r split: if_splits)
  let ?k = "dedupe_key E (wf_tenant_id r) payload"
  have "map_of (fw_dedupe w1) ?k = Some (we_now E + 5000)"
    using d by (auto simp: dedupe_trigger_payload_def Let_def split: option.splits if_splits)
  then have held: "map_of (fw_dedupe w'') ?k = Some (we_now E + 5000)"
    using run run_dedupe assms(8) by metis
  have "dedupe_key E' (wf_tenant_id other) payload = ?k" using assms(7,10) by (simp add: dedupe_key_def)
  with held assms(9) have "dedupe_trigger_payload E' (wf_tenant_id other) payload w'' = (Inr False, w'')"
    by (simp add: dedupe_trigger_payload_def Let_def)
  moreover have "truthy signature' = Some (webhook_signature E' other payload)"
    using assms(11,12) by (simp add: truthy_Some_iff)
  ultimately show ?thesis
    using sig assms(5,6)
    by (simp add: webhook_trigger_def then_do_def ask_def give_def truthy_Some_iff)
qed

subsection \<open>A sample world\<close>

text \<open>The queue refuses, as BullMQ does, a job id with one colon.\<close>

definition one_colon_refused :: "string \<Rightarrow> string option" where
  "one_colon_refused i = (if length (filter (\<lambda>c. c = CHR '':'') i) = 1 then Some ''Custom Id cannot contain :'' else None)"

definition flow_env :: "ms \<Rightarrow> workflow_env" where
  "flow_env now = \<lparr>we_now = now,
     we_billing = \<lparr>env_now = now, env_plan_id = ''p1'', env_subscription_id = ''s1'', env_invoice_id = ''i1'', env_credit_id = ''c1''\<rparr>,
     we_sha256 = (\<lambda>_. ''h''), we_hmac = (\<lambda>k m. k), we_uuid = ''u'', we_workflow_id = ''w9'',
     we_step_id = (\<lambda>n. ''st'' @ show_nat n), we_execution_id = ''e9'', we_global_secret = ''g'',
     we_queue_refuses = one_colon_refused\<rparr>"

definition flow_org :: org_row where
  "flow_org = \<lparr>org_id = ''o1'', org_tenant_id = ''t1'', org_name = ''Acme'', org_settings = JNull,
     org_stripe_customer_id = None, org_plan_id = Some ''p1''\<rparr>"

definition flow_plan :: plan_row where
  "flow_plan = \<lparr>plan_id = ''p1'', plan_code = ''starter'', plan_name = ''Starter'', plan_description = [],
     plan_stripe_product_id = None, plan_stripe_price_id = None,
     plan_limits = JObj [(''workflows'', JNum (Fin 1))], plan_monthly_price_cents = 0,
     plan_yearly_price_cents = None, plan_currency = ''usd'', plan_active = True\<rparr>"

definition flow_world :: "engine \<Rightarrow> (cache_text mem_store) workflow_world" where
  "flow_world db = \<lparr>fw_billing = \<lparr>bw_db = \<lparr>db_orgs = [flow_org], db_users = [], db_memberships = [],
       db_plans = [flow_plan], db_subscriptions = [], db_invoices = [], db_credits = [], db_usage = []\<rparr>,
     bw_cache = \<lparr>cs_store = RedisStore, cs_strict = False, cs_memory = [], cs_redis = []\<rparr>\<rparr>,
     fw_engine = db, fw_dedupe = []\<rparr>"

definition flow_workflow :: "string \<Rightarrow> workflow_row" where
  "flow_workflow i = sample_workflow\<lparr>wf_id := i, wf_name := i, wf_webhook_secret := Some ''k''\<rparr>"

definition flow_engine :: engine where
  "flow_engine = sample_idle\<lparr>workflows := [flow_workflow ''w1'', flow_workflow ''w2'']\<rparr>"

text \<open>A run of a workflow with a trigger step, and one of a workflow with none.\<close>

lemma run_starts_one_execution_witness:
  "(case run_workflow_now (flow_env 1000) ''w1'' ''o1'' True (JObj []) TriggerManual (flow_world flow_engine) of
      (Inl _, _) \<Rightarrow> False | (Inr c, w') \<Rightarrow> run_execution_id c = ''e9'' \<and> length (jobs (fw_engine w')) = Suc (length (jobs flow_engine))) \<and>
   (case run_workflow_now (flow_env 1000) ''w2'' ''o1'' True (JObj []) TriggerManual (flow_world flow_engine) of
      (Inl e, w') \<Rightarrow> e = Failure ''Custom Id cannot contain :'' \<and> jobs (fw_engine w') = jobs flow_engine \<and>
        trigger_jobs (fw_engine w') = trigger_jobs flow_engine \<and>
        map ex_status (executions (fw_engine w')) = map ex_status (executions flow_engine) @ [ExRunning] | (Inr _, _) \<Rightarrow> False)"
proof
  let ?run = "\<lambda>i. run_workflow_now (flow_env 1000) i ''o1'' True (JObj []) TriggerManual (flow_world flow_engine)"
  have e: "fw_engine (flow_world flow_engine) = flow_engine" by (simp add: flow_world_def)
  have 1: "case fst (?run ''w1'') of Inl _ \<Rightarrow> False | Inr c \<Rightarrow> run_execution_id c = ''e9''"
    "trigger_step ''w1'' (flow_world flow_engine) \<noteq> None" by code_simp+
  from run_starts_one_execution[where E = "flow_env 1000" and i = "''w1''" and reference = "''o1''" and async = True
      and payload = "JObj []" and t = TriggerManual and w = "flow_world flow_engine"] 1
  show "case ?run ''w1'' of
      (Inl _, _) \<Rightarrow> False | (Inr c, w') \<Rightarrow> run_execution_id c = ''e9'' \<and> length (jobs (fw_engine w')) = Suc (length (jobs flow_engine))"
    by (auto simp: e starts_def split: prod.splits sum.splits option.splits)
  have 2: "case fst (?run ''w2'') of Inl x \<Rightarrow> x = Failure ''Custom Id cannot contain :'' | Inr c \<Rightarrow> False"
    "length (executions (fw_engine (snd (?run ''w2'')))) = Suc (length (executions flow_engine))" by code_simp+
  from run_starts_one_execution[where E = "flow_env 1000" and i = "''w2''" and reference = "''o1''" and async = True
      and payload = "JObj []" and t = TriggerManual and w = "flow_world flow_engine"] 2
  show "case ?run ''w2'' of
      (Inl x, w') \<Rightarrow> x = Failure ''Custom Id cannot contain :'' \<and> jobs (fw_engine w') = jobs flow_engine \<and>
        trigger_jobs (fw_engine w') = trigger_jobs flow_engine \<and>
        map ex_status (executions (fw_engine w')) = map ex_status (executions flow_engine) @ [ExRunning] | (Inr _, _) \<Rightarrow> False"
    by (auto simp: e starts_def opened_run_def split: prod.splits sum.splits option.splits)
qed

definition flow_triggered :: "(cache_text mem_store) workflow_world" where
  "flow_triggered = snd (webhook_trigger (flow_env 1000) ''w1'' (Some ''k'') (JObj []) (flow_world flow_engine))"

lemma webhook_signed_and_deduplicated_witness:
  "webhook_trigger (flow_env 3000) ''w2'' (Some ''k'') (JObj []) flow_triggered = (Inr Deduplicated, flow_triggered)"
proof -
  have fst: "fst (webhook_trigger (flow_env 1000) ''w1'' (Some ''k'') (JObj []) (flow_world flow_engine)) = Inr (Accepted ''e9'')"
    by code_simp
  then have run: "webhook_trigger (flow_env 1000) ''w1'' (Some ''k'') (JObj []) (flow_world flow_engine) =
      (Inr (Accepted ''e9''), flow_triggered)" by (simp add: flow_triggered_def prod_eq_iff)
  have r: "flow_workflow ''w1'' \<in> set (workflows (fw_engine (flow_world flow_engine)))" "wf_id (flow_workflow ''w1'') = ''w1''"
    by (simp_all add: flow_world_def flow_engine_def flow_workflow_def)
  have ix: "indexes_ok workflow_indexes (workflows (fw_engine (flow_world flow_engine)))" by code_simp
  have o: "List.find (\<lambda>q. wf_id q = ''w2'') (workflows (fw_engine flow_triggered)) = Some (flow_workflow ''w2'')" by code_simp
  have s: "wf_trigger_type (flow_workflow ''w2'') = TriggerWebhook" "wf_tenant_id (flow_workflow ''w2'') = wf_tenant_id (flow_workflow ''w1'')"
    "webhook_signature (flow_env 3000) (flow_workflow ''w2'') (JObj []) = ''k''"
    by (simp_all add: flow_workflow_def sample_workflow_def webhook_signature_def flow_env_def)
  have e: "we_now (flow_env 3000) < we_now (flow_env 1000) + 5000" "we_sha256 (flow_env 3000) = we_sha256 (flow_env 1000)"
    by (simp_all add: flow_env_def)
  have g: "Some ''k'' = Some (webhook_signature (flow_env 3000) (flow_workflow ''w2'') (JObj []))"
    "webhook_signature (flow_env 3000) (flow_workflow ''w2'') (JObj []) \<noteq> []"
    by (simp_all add: s(3))
  show ?thesis
    by (rule conjunct2[OF webhook_signed_and_deduplicated[OF run r ix o s(1,2) refl e g]])
qed

end
