(* ===== verification/WorkflowApi.thy ===== *)
theory WorkflowApi
  imports WorkflowRuns
begin

text \<open>
  The API and the runner together: the steps a tenant's requests, webhooks, events and the worker
  take on the tables, what every reachable state has, and what the operations of a workflow leave of
  its limit and its history.
\<close>

subsection \<open>The steps of the system\<close>

inductive api_step :: "('r, cache_text) redis_client \<Rightarrow> 'r workflow_world \<Rightarrow> 'r workflow_world \<Rightarrow> bool" for rc where
  created: "create_workflow rc E reference i w = (r, w') \<Longrightarrow> api_step rc w w'"
| updated: "update_workflow E k reference u w = (v, w') \<Longrightarrow> api_step rc w w'"
| archived: "archive_workflow E k reference w = (a, w') \<Longrightarrow> api_step rc w w'"
| manual: "run_workflow_now E k reference async payload t w = (c, w') \<Longrightarrow> api_step rc w w'"
| webhook: "webhook_trigger E k signature payload w = (b, w') \<Longrightarrow> api_step rc w w'"
| event: "handle_internal_event E ids topic tenant payload w = (d, w') \<Longrightarrow> api_step rc w w'"
| worker: "runner_step (fw_engine w) e \<Longrightarrow> api_step rc w (w\<lparr>fw_engine := e\<rparr>)"
| elsewhere: "fw_engine w' = fw_engine w \<Longrightarrow> api_step rc w w'"

inductive api_reaches :: "('r, cache_text) redis_client \<Rightarrow> 'r workflow_world \<Rightarrow> 'r workflow_world \<Rightarrow> bool" for rc where
  start: "api_reaches rc w w"
| more: "api_reaches rc w w' \<Longrightarrow> api_step rc w' w'' \<Longrightarrow> api_reaches rc w w''"

subsection \<open>No step continues on error\<close>

definition stops_on_error :: "engine \<Rightarrow> bool" where
  "stops_on_error db \<longleftrightarrow> (\<forall>st \<in> set (steps db). st_on_error st = OnErrorStop)"

abbreviation world_stops :: "'r workflow_world \<Rightarrow> bool" where
  "world_stops w \<equiv> stops_on_error (fw_engine w)"

lemma keeps_on_engine: "keeps stops_on_error m \<Longrightarrow> keeps world_stops (on_engine m)"
  by (auto simp: keeps_def on_engine_def split: prod.split)

lemma keeps_on_billing: "keeps world_stops (on_billing m)"
  by (auto simp: keeps_def on_billing_def split: prod.split)

lemma keeps_engine_table:
  assumes "\<And>rows db. steps (wr rows db) = steps db"
  shows "keeps stops_on_error (on_table rd wr stmt)"
  by (rule keeps_on_table) (simp add: stops_on_error_def assms)

lemma keeps_persist_steps: "keeps stops_on_error (persist_steps ids idn wid n ss m)"
proof (induction ss arbitrary: n m)
  case (Cons s ss)
  have "keeps stops_on_error (on_table steps set_steps (create_row step_indexes (new_step_row idn wid (ids n) s)))"
    by (rule keeps_on_table) (auto simp: table_simps stops_on_error_def set_steps_def new_step_row_def)
  with Cons.IH show ?case by (auto intro: keeps_then_do)
qed simp

lemma keeps_persist_transitions: "keeps stops_on_error (persist_transitions idn wid m ts)"
  by (induction ts) (auto intro!: keeps_then_do keeps_engine_table simp: set_transitions_def split: option.split)

lemma keeps_persist_canvas: "keeps stops_on_error (persist_canvas ids idn wid c)"
  unfolding persist_canvas_def by (intro keeps_then_do keeps_persist_steps keeps_persist_transitions)

lemma keeps_replace_canvas: "keeps stops_on_error (replace_canvas ids idn wid c)"
  unfolding replace_canvas_def
proof (intro keeps_then_do keeps_persist_canvas keeps_engine_table)
  show "keeps stops_on_error (\<lambda>db. (Inr (), delete_steps wid db))"
    by (auto simp: keeps_def stops_on_error_def delete_steps_def Let_def delete_where_def)
qed (simp add: set_transitions_def)

lemma keeps_add:
  "keeps stops_on_error (add_trigger q)" "keeps stops_on_error (add_job j)"
  "keeps stops_on_error (upsert_cron_trigger x)"
  by (auto simp: keeps_def add_trigger_def add_job_def upsert_cron_trigger_def schedule_cron_workflow_def
      stops_on_error_def give_def split: option.split)

lemma keeps_resolve: "keeps world_stops (resolve_scoped_identity reference)"
  unfolding resolve_scoped_identity_def by (intro keeps_then_do keeps_ask) (simp split: option.split)

lemma keeps_limit: "keeps world_stops (assert_workflow_limit rc E idn)"
  unfolding assert_workflow_limit_def Let_def
  by (intro keeps_then_do keeps_on_billing keeps_ask) (auto intro!: keeps_then_do keeps_ask split: js_num.split)

lemma keeps_dag: "keeps I (ensure_canvas_is_dag c)"
  by (simp add: ensure_canvas_is_dag_def split: sum.split)

lemma keeps_create: "keeps world_stops (create_workflow rc E reference i)"
  unfolding create_workflow_def
  by (intro keeps_then_do keeps_resolve keeps_limit keeps_dag keeps_on_engine keeps_in_transaction keeps_engine_table
      keeps_persist_canvas keeps_If keeps_give keeps_ask keeps_add)
    (simp_all add: set_workflows_def split: option.split)

lemma keeps_update: "keeps world_stops (update_workflow E k reference u)"
  unfolding update_workflow_def Let_def
  by (intro keeps_then_do keeps_resolve keeps_ask keeps_case_option keeps_throw keeps_dag keeps_on_engine
      keeps_in_transaction keeps_engine_table keeps_replace_canvas keeps_If keeps_give keeps_add)
    (simp_all add: set_workflows_def)

lemma keeps_archive: "keeps world_stops (archive_workflow E k reference)"
  unfolding archive_workflow_def
  by (intro keeps_then_do keeps_resolve keeps_on_engine keeps_engine_table) (simp add: set_workflows_def)

lemma keeps_run: "keeps world_stops (run_workflow_now E k reference async payload t)"
  unfolding run_workflow_now_def Let_def enqueue_workflow_execution_def enqueue_workflow_trigger_def queue_add_def
  by (intro keeps_then_do keeps_resolve keeps_ask keeps_case_option keeps_throw keeps_If keeps_on_engine
      keeps_engine_table keeps_add keeps_give) (simp add: set_executions_def)

lemma keeps_dedupe: "keeps world_stops (dedupe_trigger_payload E tenant payload)"
  by (auto simp: keeps_def dedupe_trigger_payload_def Let_def split: option.split)

lemma keeps_webhook: "keeps world_stops (webhook_trigger E k signature payload)"
  unfolding webhook_trigger_def
  by (intro keeps_then_do keeps_ask keeps_case_option keeps_throw keeps_If keeps_dedupe keeps_give keeps_run)

lemma keeps_run_all: "keeps world_stops (run_all E ids n ws payload)"
  by (induction ws arbitrary: n) (auto intro!: keeps_then_do keeps_run)

lemma keeps_event: "keeps world_stops (handle_internal_event E ids topic tenant payload)"
  unfolding handle_internal_event_def by (intro keeps_then_do keeps_ask keeps_run_all)

text \<open>The worker never writes the steps of a workflow.\<close>

lemma keeps_steps_table: "(\<And>rows db. steps (wr rows db) = steps db) \<Longrightarrow> keeps (\<lambda>s. steps s = S) (on_table rd wr stmt)"
  by (rule keeps_on_table) simp

lemma keeps_steps_basic:
  "keeps (\<lambda>s. steps s = S) (update_execution k f)" "keeps (\<lambda>s. steps s = S) (create_result row)"
  unfolding update_execution_def create_result_def
  by (rule keeps_steps_table, simp add: set_executions_def set_results_def)+

lemma keeps_steps_queue:
  "keeps (\<lambda>s. steps s = S) (add_job q)" "keeps (\<lambda>s. steps s = S) (on_nodes m)"
  by (auto simp: keeps_def add_job_def on_nodes_def split: prod.split)

lemma keeps_steps_budget: "keeps (\<lambda>s. steps s = S) (consume_shared_agent_budget tenant)"
  unfolding consume_shared_agent_budget_def
proof (intro keeps_then_do keeps_ask)
  fix found :: "quota_row list"
  show "keeps (\<lambda>s. steps s = S) (case found of [] \<Rightarrow> give () | q # x \<Rightarrow>
      if quota_limit q \<le> quota_count q then throw (Failure ''SHARED_RATE_LIMIT_EXCEEDED'')
      else on_table quotas set_quotas (\<lambda>rows. Inr (update_where
        (\<lambda>r. quota_tenant_id r = quota_tenant_id q \<and> quota_resource r = quota_resource q \<and>
             quota_period r = quota_period q)
        (\<lambda>r. r\<lparr>quota_count := quota_count r + 1\<rparr>) rows)))"
    by (cases found) (auto intro: keeps_steps_table simp: set_quotas_def)
qed

lemmas keeps_steps_parts = keeps_steps_basic keeps_steps_queue keeps_steps_budget

lemma keeps_steps_next: "keeps (\<lambda>s. steps s = S) (enqueue_next E p d sts ts)"
  by (induction ts) (auto intro!: keeps_then_do keeps_steps_parts split: option.split)

lemma keeps_steps_execution: "keeps (\<lambda>s. steps s = S) (process_execution_job E p)"
  unfolding process_execution_job_def attempt_step_def handle_failure_def run_step_def fail_execution_def
    finish_success_def Let_def
  by (intro keeps_cases keeps_try_catch keeps_steps_parts keeps_steps_next)

lemma keeps_steps_trigger: "keeps (\<lambda>s. steps s = S) (process_trigger_job E p)"
  unfolding process_trigger_job_def
  by (intro keeps_cases keeps_steps_parts keeps_steps_table) (simp add: set_executions_def)

lemma runner_step_steps: "runner_step s s' \<Longrightarrow> steps s' = steps s"
  by (induction rule: runner_step.induct)
    (auto simp: starts_def same_workflows_def same_tables_def
      dest: keepsD[OF keeps_steps_execution, OF refl] keepsD[OF keeps_steps_trigger, OF refl])

lemma api_step_stops: "api_step rc w w' \<Longrightarrow> world_stops w \<Longrightarrow> world_stops w'"
proof (induction rule: api_step.induct)
  case (worker w e)
  then show ?case by (simp add: runner_step_steps stops_on_error_def)
qed (auto intro: keepsD[OF keeps_create] keepsD[OF keeps_update] keepsD[OF keeps_archive] keepsD[OF keeps_run]
    keepsD[OF keeps_webhook] keepsD[OF keeps_event])

lemma api_reaches_stops: "api_reaches rc w w' \<Longrightarrow> world_stops w \<Longrightarrow> world_stops w'"
  by (induction rule: api_reaches.induct) (auto intro: api_step_stops)

text \<open>
  Property C27. The failure routes of a canvas are dead: in every state the API and the worker can
  reach from empty step tables, the fifth failure of a step fails the execution and queues nothing,
  also when the canvas has a route for failures or a fallback from this step.
\<close>

theorem failure_routes_never_followed:
  assumes "api_reaches rc w0 w" and "steps (fw_engine w0) = []" and "keys_ok (fw_engine w)"
    and "ready E p (fw_engine w) x z st parsed"
    and "step_output E p st parsed (fw_engine w) = (Inl e, s1)"
    and "\<And>r. r \<in> set (results (fw_engine w)) \<Longrightarrow> res_execution_id r = job_execution_id p \<Longrightarrow>
      res_step_id r = st_id st \<Longrightarrow> res_attempt r \<noteq> job_attempt p"
    and "job_attempt p = 5"
  shows "case process_execution_job E p (fw_engine w) of (r, s') \<Rightarrow> jobs s' = jobs (fw_engine w) \<and>
    (\<exists>y \<in> set (executions s'). ex_id y = ex_id x \<and> ex_status y = ExFailed)"
proof -
  let ?s = "fw_engine w"
  have "stops_on_error ?s"
    by (rule api_reaches_stops[OF assms(1)]) (simp add: stops_on_error_def assms(2))
  moreover have "st \<in> set (steps ?s)"
    using assms(4) find_Some_iff_mem unfolding ready_def steps_of_def by fastforce
  ultimately have stop: "st_on_error st = OnErrorStop" by (simp add: stops_on_error_def)
  have found: "find_execution (job_execution_id p) ?s = Some x" using assms(4) by (simp add: ready_def)
  from execution_after_advance[OF found, of "failing_row E x e"]
  have failed: "\<exists>y \<in> set (update_where (\<lambda>r. ex_id r = job_execution_id p) (failing_row E x e) (executions ?s)).
      ex_id y = ex_id x \<and> ex_status y = ExFailed"
    by (elim bexE, intro bexI) (simp_all add: failing_row_def)
  have "executions s1 = executions ?s" "jobs s1 = jobs ?s"
    using step_output_same_tables[OF assms(5)] by (simp_all add: same_tables_def)
  with failed show ?thesis
    by (simp add: failed_attempt_runs[OF assms(3-6)] after_failure_def max_attempts_def Let_def stop assms(7))
qed

subsection \<open>The limit of the plan\<close>

lemma count_workflows_append:
  "count_workflows tenant (db\<lparr>workflows := workflows db @ [r]\<rparr>) =
     count_workflows tenant db + (if wf_archived_at r = None \<and> wf_tenant_id r = tenant then 1 else 0)"
  by (simp add: count_workflows_def)

lemma limit_passed:
  assumes "assert_workflow_limit rc E idn w = (Inr (), w')"
    and "get_billing_snapshot rc (we_billing E) (idn_tenant_id idn) 3 (fw_billing w) = (Inr snapshot, b)"
    and "read_numeric_plan_limit (snap_plan_limits snapshot) ''workflows'' (Fin 30) = Fin q"
  shows "of_nat (count_workflows (idn_tenant_id idn) (fw_engine w)) < q"
  using assms(1)
  by (auto simp: assert_workflow_limit_def on_billing_def assms(2,3) Let_def then_do_def ask_def throw_def give_def
      split: if_splits)

text \<open>
  A workflow is created only below the limit of the plan, so that creating never takes
  the workflows of a tenant that are not archived past it.
\<close>

theorem create_keeps_plan_limit:
  assumes "create_workflow rc E reference i w = (Inr v, w')"
    and "find_organization_by_reference reference (bw_db (fw_billing w)) = Some org"
    and "get_billing_snapshot rc (we_billing E) (org_tenant_id org) 3 (fw_billing w) = (Inr snapshot, b)"
    and "read_numeric_plan_limit (snap_plan_limits snapshot) ''workflows'' (Fin (of_int 30)) = Fin (of_int n)"
  shows "int (count_workflows (org_tenant_id org) (fw_engine w)) < n \<and>
    int (count_workflows (org_tenant_id org) (fw_engine w')) \<le> n \<and>
    count_workflows (org_tenant_id org) (fw_engine w') =
      count_workflows (org_tenant_id org) (fw_engine w) + (if wci_status i = WfArchived then 0 else 1)"
proof -
  from create_workflow_Inr[OF assms(1)] obtain idn rows new ts where
    id: "resolve_scoped_identity reference w = (Inr idn, w)"
    and e: "fw_engine w' = (fw_engine w)\<lparr>workflows := workflows (fw_engine w) @ [new_workflow_row E idn i],
       steps := steps (fw_engine w) @ rows, transitions := transitions (fw_engine w) @ new,
       trigger_jobs := trigger_jobs (fw_engine w) @ ts\<rparr>" .
  have idn: "idn_tenant_id idn = org_tenant_id org" using id assms(2) by (simp add: resolve_identity_ok)
  from assms(1) obtain w1 where "assert_workflow_limit rc E idn w = (Inr (), w1)"
    by (auto simp: create_workflow_def id)
  from limit_passed[OF this, of snapshot b "of_int n"] assms(3,4)
  have "of_nat (count_workflows (org_tenant_id org) (fw_engine w)) < (of_int n :: rat)" by (simp add: idn)
  then have below: "int (count_workflows (org_tenant_id org) (fw_engine w)) < n"
    by (metis of_int_less_iff of_int_of_nat_eq)
  have "count_workflows (org_tenant_id org) (fw_engine w') =
      count_workflows (org_tenant_id org) (fw_engine w) + (if wci_status i = WfArchived then 0 else 1)"
    by (simp add: e count_workflows_def new_workflow_row_def idn)
  with below show ?thesis by simp
qed

lemma update_status_Inr:
  assumes ids: "resolve_scoped_identity reference w = (Inr idn, w)"
    and r: "find_workflow k (idn_tenant_id idn) (fw_engine w) = Some r"
    and ix: "indexes_ok workflow_indexes (workflows (fw_engine w))"
    and u: "wui_canvas u = None" "wui_name u = None" "wf_trigger_type (apply_update (we_now E) u r) \<noteq> TriggerCron"
  shows "\<exists>v. update_workflow E k reference u w = (Inr v, w\<lparr>fw_engine := (fw_engine w)\<lparr>workflows :=
    update_where (\<lambda>x. wf_id x = k) (apply_update (we_now E) u) (workflows (fw_engine w))\<rparr>\<rparr>)"
proof -
  let ?rows = "update_where (\<lambda>x. wf_id x = k) (apply_update (we_now E) u) (workflows (fw_engine w))"
  let ?db = "(fw_engine w)\<lparr>workflows := ?rows\<rparr>"
  have same: "wf_id (apply_update n u x) = wf_id x" "wf_tenant_id (apply_update n u x) = wf_tenant_id x"
    "wf_name (apply_update n u x) = wf_name x" for n x
    using u(2) by (auto simp: apply_update_def apply_status_def split: option.split workflow_status.split)
  have "indexes_ok workflow_indexes ?rows"
    by (rule indexes_ok_update_keep[OF ix]) (auto simp: workflow_indexes_def same)
  moreover note mem = find_workflow_Some[OF r]
  ultimately have "update_unique ''Workflow'' workflow_indexes (\<lambda>x. wf_id x = k) (apply_update (we_now E) u)
      (workflows (fw_engine w)) = Inr ?rows"
    by (auto simp: table_simps)
  then have step: "on_engine (in_transaction (then_do (on_table workflows set_workflows
      (update_unique ''Workflow'' workflow_indexes (\<lambda>x. wf_id x = k) (apply_update (we_now E) u))) (\<lambda>_. give ()))) w =
      (Inr (), w\<lparr>fw_engine := ?db\<rparr>)"
    by (simp add: on_engine_eq set_workflows_def)
  have "apply_update (we_now E) u r \<in> set ?rows"
    using mem by (auto simp: set_update_where)
  then have "find_workflow k (idn_tenant_id idn) ?db \<noteq> None"
    using mem same(1,2)[of "we_now E" r] by (auto simp: find_workflow_def find_None_iff)
  then obtain r' where "find_workflow k (idn_tenant_id idn) ?db = Some r'" by blast
  then show ?thesis
    using step u(1,3)
    by (simp add: update_workflow_def then_do_def ids ask_def get_workflow_by_id_def r give_def Let_def)
qed

text \<open>
  An archived workflow is published again whatever the limit of the plan is: the update
  succeeds and the tenant has one active workflow more, so that archiving and publishing again takes a
  tenant past its limit.
\<close>

theorem unarchive_ignores_limit:
  assumes "find_organization_by_reference reference (bw_db (fw_billing w)) = Some org"
    and "r \<in> set (workflows (fw_engine w))" and "wf_id r = k" and "wf_tenant_id r = org_tenant_id org"
    and "wf_archived_at r = Some t" and "wf_trigger_type r \<noteq> TriggerCron"
    and "indexes_ok workflow_indexes (workflows (fw_engine w))"
  shows "case update_workflow E k reference \<lparr>wui_canvas = None, wui_cron_expression = None, wui_description = None,
      wui_event_topic = None, wui_max_depth = None, wui_name = None, wui_status = Some WfPublished,
      wui_trigger_config = None, wui_trigger_type = None\<rparr> w of (a, w') \<Rightarrow>
    (\<exists>v. a = Inr v) \<and> count_workflows (org_tenant_id org) (fw_engine w') =
      Suc (count_workflows (org_tenant_id org) (fw_engine w))"
proof -
  let ?u = "\<lparr>wui_canvas = None, wui_cron_expression = None, wui_description = None,
      wui_event_topic = None, wui_max_depth = None, wui_name = None, wui_status = Some WfPublished,
      wui_trigger_config = None, wui_trigger_type = None\<rparr>"
  let ?f = "apply_update (we_now E) ?u" and ?rows = "workflows (fw_engine w)"
  have "unique_key.unique (\<lambda>w. Some (wf_id w)) ?rows"
    by (rule indexes_ok_unique[OF assms(7), of "''id''"]) (simp add: workflow_indexes_def)
  then have unique: "x = r" if "x \<in> set ?rows" "wf_id x = k" for x
    using unique_key.unique_eq[of "\<lambda>w. Some (wf_id w)" ?rows x r] that assms(2,3) by simp
  have "find_workflow k (org_tenant_id org) (fw_engine w) \<noteq> None"
    using assms(2-4) by (auto simp: find_workflow_def find_None_iff)
  then obtain r' where r': "find_workflow k (org_tenant_id org) (fw_engine w) = Some r'" by blast
  with find_workflow_Some[OF r'] unique have "r' = r" by blast
  obtain v where run: "update_workflow E k reference ?u w =
      (Inr v, w\<lparr>fw_engine := (fw_engine w)\<lparr>workflows := update_where (\<lambda>x. wf_id x = k) ?f ?rows\<rparr>\<rparr>)"
    using update_status_Inr[of reference w "\<lparr>idn_organization_id = org_id org, idn_tenant_id = org_tenant_id org\<rparr>" k r ?u E]
      assms(1,6,7) r' \<open>r' = r\<close>
    by (auto simp: resolve_identity_ok apply_update_def apply_status_def)
  have f: "wf_archived_at (?f r) = None" "wf_tenant_id (?f r) = wf_tenant_id r"
    by (simp_all add: apply_update_def apply_status_def)
  let ?P = "\<lambda>x. wf_archived_at x = None \<and> wf_tenant_id x = org_tenant_id org"
  have count: "distinct (map wf_id xs) \<Longrightarrow> r \<in> set xs \<Longrightarrow> set xs \<subseteq> set ?rows \<Longrightarrow>
      length (filter ?P (update_where (\<lambda>x. wf_id x = k) ?f xs)) = Suc (length (filter ?P xs))" for xs
  proof (induction xs)
    case (Cons a xs)
    show ?case
    proof (cases "a = r")
      case True
      with Cons.prems(1) assms(3) have "update_where (\<lambda>x. wf_id x = k) ?f xs = xs"
        by (intro update_where_id) (auto simp: image_iff)
      then show ?thesis using True f assms(3-5) by simp
    next
      case False
      with Cons.prems unique have "wf_id a \<noteq> k" by auto
      with False Cons show ?thesis by auto
    qed
  qed simp
  have "distinct (map wf_id ?rows)"
    using assms(7) by (simp add: indexes_ok_def workflow_indexes_def index_ok_def map_filter_def o_def)
  from count[OF this assms(2)] show ?thesis by (simp add: run count_workflows_def)
qed

subsection \<open>Edits of a canvas\<close>

lemma persist_keeps_results:
  "persist_canvas ids idn k c db = (Inr u, db') \<Longrightarrow> results db' = results db \<and> executions db' = executions db"
  by (drule persist_canvas_Inr) auto

text \<open>
  Saving a canvas takes the history with it: every result of every execution of the
  workflow is deleted, also of the executions still running, which stay as they are and go on without
  the outputs of the steps they have run.
\<close>

theorem canvas_edit_erases_results:
  assumes "update_workflow E k reference u w = (Inr v, w')" and "wui_canvas u = Some c"
    and "results_ok (fw_engine w)" and "keys_ok (fw_engine w)"
    and "x \<in> set (executions (fw_engine w))" and "ex_workflow_id x = k"
  shows "results_of (ex_id x) (fw_engine w') = [] \<and> x \<in> set (executions (fw_engine w'))"
proof -
  let ?db = "fw_engine w"
  from assms(1) obtain idn w0 w1 w2 and existing :: workflow_view where
    id: "resolve_scoped_identity reference w = (Inr idn, w0)"
    and dag: "ensure_canvas_is_dag c w0 = (Inr (), w1)"
    and tx: "on_engine (in_transaction (then_do (on_table workflows set_workflows
             (update_unique ''Workflow'' workflow_indexes (\<lambda>r. wf_id r = k) (apply_update (we_now E) u))) (\<lambda>_.
             replace_canvas (we_step_id E) idn k c))) w1 = (Inr (), w2)"
    and cron: "(if wf_trigger_type (apply_update (we_now E) u (view_workflow existing)) = TriggerCron
        then on_engine (upsert_cron_trigger (apply_update (we_now E) u (view_workflow existing))) else give ()) w2 = (Inr (), w')"
    by (auto simp: update_workflow_def assms(2) Let_def split: option.splits)
  have "w0 = w" "w1 = w" using id dag_operation_keeps[OF dag] by (auto simp: resolve_identity_ok)
  with tx obtain rows db2 where "replace_canvas (we_step_id E) idn k c (?db\<lparr>workflows := rows\<rparr>) = (Inr (), db2)"
    and e2: "fw_engine w2 = db2" by (auto simp: on_engine_eq set_workflows_def)
  then obtain db1 where p: "persist_canvas (we_step_id E) idn k c db1 = (Inr (), db2)"
    and db1: "results db1 = results (delete_steps k ?db)" "executions db1 = executions ?db"
    by (auto simp: replace_canvas_def set_transitions_def delete_steps_def Let_def)
  have "results (fw_engine w') = results db2 \<and> executions (fw_engine w') = executions db2"
    using cron by (auto simp: on_engine_eq e2 split: if_splits dest: upsert_cron_engine)
  with persist_keeps_results[OF p] db1 have tables: "results (fw_engine w') = results (delete_steps k ?db)"
    "executions (fw_engine w') = executions ?db" by simp_all
  have "\<exists>st \<in> set (steps ?db). st_id st = res_step_id r \<and> st_workflow_id st = k"
    if r: "r \<in> set (results ?db)" "res_execution_id r = ex_id x" for r
  proof -
    from assms(3) r(1) obtain z st where z: "z \<in> set (executions ?db)" "ex_id z = res_execution_id r"
      "st \<in> set (steps_of (ex_workflow_id z) ?db)" "st_id st = res_step_id r"
      unfolding results_ok_def by blast
    have "z = x" using execution_unique[OF assms(4) z(1) assms(5)] z(2) r(2) by simp
    with z(3,4) assms(6) show ?thesis by (auto simp: steps_of_def)
  qed
  then have "results_of (ex_id x) (fw_engine w') = []"
    by (auto simp: results_of_def tables(1) delete_steps_def Let_def delete_where_def filter_empty_conv)
  with assms(5) tables(2) show ?thesis by simp
qed

subsection \<open>A sample canvas\<close>

text \<open>A trigger, a code step whose sandbox is missing, and the message meant for its failure.\<close>

definition flow_canvas :: canvas where
  "flow_canvas = \<lparr>cv_steps =
     [\<lparr>cs_key = ''go'', cs_name = ''go'', cs_type = TRIGGER_WEBHOOK, cs_config = JObj []\<rparr>,
      \<lparr>cs_key = ''code'', cs_name = ''code'', cs_type = CODE, cs_config = JObj [(''source'', JStr ''return 1'')]\<rparr>,
      \<lparr>cs_key = ''msg'', cs_name = ''msg'', cs_type = WHATSAPP_SEND,
        cs_config = JObj [(''message'', JStr ''hi''), (''to'', JStr ''x'')]\<rparr>],
     cv_transitions = [\<lparr>ct_route = ALWAYS, ct_source = ''go'', ct_target = ''code''\<rparr>,
      \<lparr>ct_route = FALLBACK, ct_source = ''code'', ct_target = ''msg''\<rparr>]\<rparr>"

definition flow_input :: "workflow_status \<Rightarrow> workflow_create_input" where
  "flow_input st = \<lparr>wci_canvas = flow_canvas, wci_cron_expression = None, wci_description = None,
     wci_event_topic = None, wci_max_depth = 50, wci_name = ''n'', wci_status = st, wci_trigger_config = JNull,
     wci_trigger_type = TriggerWebhook\<rparr>"

definition flow_empty :: "(cache_text mem_store) workflow_world" where
  "flow_empty = flow_world (sample_idle\<lparr>workflows := [], steps := [], transitions := []\<rparr>)"

definition flow_created :: "(cache_text mem_store) workflow_world" where
  "flow_created = snd (create_workflow mem_client (flow_env 1000) ''o1'' (flow_input WfPublished) flow_empty)"

definition flow_view :: workflow_view where
  "flow_view = (case fst (create_workflow mem_client (flow_env 1000) ''o1'' (flow_input WfPublished) flow_empty) of
     Inr v \<Rightarrow> v | Inl _ \<Rightarrow> \<lparr>view_workflow = sample_workflow, view_steps = [], view_transitions = [], view_executions = []\<rparr>)"

lemma flow_create_runs: "create_workflow mem_client (flow_env 1000) ''o1'' (flow_input WfPublished) flow_empty =
    (Inr flow_view, flow_created)"
proof -
  have "isl (fst (create_workflow mem_client (flow_env 1000) ''o1'' (flow_input WfPublished) flow_empty)) = False"
    by code_simp
  then obtain v where "fst (create_workflow mem_client (flow_env 1000) ''o1'' (flow_input WfPublished) flow_empty) = Inr v"
    by (cases "fst (create_workflow mem_client (flow_env 1000) ''o1'' (flow_input WfPublished) flow_empty)") auto
  then show ?thesis by (simp add: flow_created_def flow_view_def prod_eq_iff)
qed

lemma created_workflow_is_the_canvas_witness:
  "map (\<lambda>st. (st_key st, st_type st)) (view_steps flow_view) =
     [(''go'', TRIGGER_WEBHOOK), (''code'', CODE), (''msg'', WHATSAPP_SEND)] \<and>
   length (view_transitions flow_view) = 2"
proof -
  have none: "steps (fw_engine flow_empty) = []" "transitions (fw_engine flow_empty) = []"
    by (simp_all add: flow_empty_def flow_world_def)
  let ?k = "\<lambda>(k, n, t, c, e). (k, t)"
  from created_workflow_is_the_canvas[OF flow_create_runs] none
  have *: "map (\<lambda>st. (st_key st, st_name st, st_type st, st_config st, st_on_error st)) (view_steps flow_view) =
      map (\<lambda>s. (cs_key s, cs_name s, cs_type s, cs_config s, OnErrorStop)) (cv_steps (wci_canvas (flow_input WfPublished)))"
    and l: "list_all2 (connects (view_steps flow_view)) (cv_transitions (wci_canvas (flow_input WfPublished))) (view_transitions flow_view)"
    by simp_all
  have "map (\<lambda>st. (st_key st, st_type st)) (view_steps flow_view) =
      map ?k (map (\<lambda>st. (st_key st, st_name st, st_type st, st_config st, st_on_error st)) (view_steps flow_view))"
    by simp
  also have "\<dots> = [(''go'', TRIGGER_WEBHOOK), (''code'', CODE), (''msg'', WHATSAPP_SEND)]"
    unfolding * by (simp add: flow_input_def flow_canvas_def)
  finally show ?thesis using list_all2_lengthD[OF l] by (simp add: flow_input_def flow_canvas_def)
qed

lemma create_keeps_plan_limit_witness:
  "int (count_workflows ''t1'' (fw_engine flow_created)) \<le> 1"
proof -
  have org: "find_organization_by_reference ''o1'' (bw_db (fw_billing flow_empty)) = Some flow_org" by code_simp
  have tenant: "org_tenant_id flow_org = ''t1''" by (simp add: flow_org_def)
  let ?snap = "get_billing_snapshot mem_client (we_billing (flow_env 1000)) (org_tenant_id flow_org) 3 (fw_billing flow_empty)"
  have "(case fst ?snap of Inr s \<Rightarrow> read_numeric_plan_limit (snap_plan_limits s) ''workflows'' (Fin 30) = Fin 1 | Inl _ \<Rightarrow> False)"
    by code_simp
  then obtain s b where "?snap = (Inr s, b)"
    and "read_numeric_plan_limit (snap_plan_limits s) ''workflows'' (Fin (of_int 30)) = Fin (of_int 1)"
    by (cases ?snap) (auto split: sum.splits)
  from create_keeps_plan_limit[OF flow_create_runs org this] show ?thesis by (simp add: tenant)
qed

definition flow_full :: "(cache_text mem_store) workflow_world" where
  "flow_full = flow_world (sample_idle\<lparr>workflows := [flow_workflow ''w1'',
     (flow_workflow ''w2'')\<lparr>wf_status := WfArchived, wf_archived_at := Some 0\<rparr>]\<rparr>)"

definition flow_publish :: workflow_update_input where
  "flow_publish = \<lparr>wui_canvas = None, wui_cron_expression = None, wui_description = None,
      wui_event_topic = None, wui_max_depth = None, wui_name = None, wui_status = Some WfPublished,
      wui_trigger_config = None, wui_trigger_type = None\<rparr>"

text \<open>The plan allows one workflow.\<close>

lemma unarchive_ignores_limit_witness:
  "count_workflows ''t1'' (fw_engine (snd (update_workflow (flow_env 1000) ''w2'' ''o1'' flow_publish flow_full))) = 2"
proof -
  have org: "find_organization_by_reference ''o1'' (bw_db (fw_billing flow_full)) = Some flow_org" by code_simp
  let ?r = "(flow_workflow ''w2'')\<lparr>wf_status := WfArchived, wf_archived_at := Some 0\<rparr>"
  have r: "?r \<in> set (workflows (fw_engine flow_full))" by (simp add: flow_full_def flow_world_def)
  have ix: "indexes_ok workflow_indexes (workflows (fw_engine flow_full))" by code_simp
  have n: "count_workflows ''t1'' (fw_engine flow_full) = 1" by code_simp
  have "org_tenant_id flow_org = ''t1''" by (simp add: flow_org_def)
  then show ?thesis
    using unarchive_ignores_limit[OF org r _ _ _ _ ix, of "''w2''" 0 "flow_env 1000"] n
    by (auto simp: flow_publish_def[symmetric] flow_workflow_def sample_workflow_def case_prod_beta)
qed

text \<open>The workflow after its first execution has started and run its trigger.\<close>

definition flow_running :: "(cache_text mem_store) workflow_world" where
  "flow_running = snd (run_workflow_now (flow_env 2000) ''w9'' ''o1'' True (JObj []) TriggerWebhook flow_created)"

definition flow_after_go :: "(cache_text mem_store) workflow_world" where
  "flow_after_go = flow_running\<lparr>fw_engine :=
     snd (process_execution_job sample_runner (q_job (hd (jobs (fw_engine flow_running)))) (fw_engine flow_running))\<rparr>"

lemma flow_reaches: "api_reaches mem_client flow_empty flow_after_go"
proof -
  have "api_step mem_client flow_empty flow_created" by (rule created[OF flow_create_runs])
  moreover have "api_step mem_client flow_created flow_running"
    unfolding flow_running_def by (rule manual[OF prod.collapse[symmetric]])
  moreover have "hd (jobs (fw_engine flow_running)) \<in> set (jobs (fw_engine flow_running))" by code_simp
  then have "api_step mem_client flow_running flow_after_go"
    unfolding flow_after_go_def by (intro worker deliver[OF _ prod.collapse[symmetric]])
  ultimately show ?thesis by (blast intro: api_reaches.intros)
qed

definition flow_execution :: execution_row where
  "flow_execution = hd (executions (fw_engine flow_after_go))"

definition flow_code_row :: step_row where
  "flow_code_row = hd (tl (steps (fw_engine flow_after_go)))"

definition flow_code_job :: execution_job where
  "flow_code_job = \<lparr>job_attempt = 5, job_execution_id = ''e9'', job_organization_id = ''o1'', job_step_key = ''code'',
     job_tenant_id = ''t1'', job_trigger_payload = JObj [], job_trigger_type = TriggerWebhook, job_workflow_id = ''w9''\<rparr>"

lemma failure_routes_never_followed_witness:
  "length (jobs (snd (process_execution_job sample_runner flow_code_job (fw_engine flow_after_go)))) =
     length (jobs (fw_engine flow_after_go)) \<and>
   length (filter (\<lambda>t. tr_route t = FALLBACK) (transitions (fw_engine flow_after_go))) = 1"
proof -
  let ?s = "fw_engine flow_after_go"
  have none: "steps (fw_engine flow_empty) = []" by (simp add: flow_empty_def flow_world_def)
  have keys: "keys_ok ?s" by code_simp
  let ?z = "hd (workflows ?s)"
  have ready: "ready sample_runner flow_code_job ?s flow_execution ?z flow_code_row (step_value flow_code_row)" by code_simp
  define out where "out = step_output sample_runner flow_code_job flow_code_row (step_value flow_code_row) ?s"
  have "fst out = Inl (Failure ''no sandbox'')" unfolding out_def by code_simp
  then have fails: "step_output sample_runner flow_code_job flow_code_row (step_value flow_code_row) ?s =
      (Inl (Failure ''no sandbox''), snd out)" by (simp add: out_def prod_eq_iff)
  have other: "list_all (\<lambda>r. res_step_id r \<noteq> st_id flow_code_row) (results ?s)" by code_simp
  have n: "job_attempt flow_code_job = 5" by (simp add: flow_code_job_def)
  have "length (filter (\<lambda>t. tr_route t = FALLBACK) (transitions ?s)) = 1" by code_simp
  then show ?thesis
    using failure_routes_never_followed[OF flow_reaches none keys ready fails _ n] other
    by (auto simp: list_all_iff case_prod_beta)
qed

definition flow_edit :: workflow_update_input where
  "flow_edit = \<lparr>wui_canvas = Some flow_canvas, wui_cron_expression = None, wui_description = None,
      wui_event_topic = None, wui_max_depth = None, wui_name = None, wui_status = None,
      wui_trigger_config = None, wui_trigger_type = None\<rparr>"

definition flow_edited :: "(cache_text mem_store) workflow_world" where
  "flow_edited = snd (update_workflow (flow_env 3000) ''w9'' ''o1'' flow_edit flow_after_go)"

lemma canvas_edit_erases_results_witness:
  "length (results_of ''e9'' (fw_engine flow_after_go)) = 1 \<and> results_of ''e9'' (fw_engine flow_edited) = []"
proof -
  let ?s = "fw_engine flow_after_go"
  have "isl (fst (update_workflow (flow_env 3000) ''w9'' ''o1'' flow_edit flow_after_go)) = False" by code_simp
  then obtain v where v: "fst (update_workflow (flow_env 3000) ''w9'' ''o1'' flow_edit flow_after_go) = Inr v"
    by (cases "fst (update_workflow (flow_env 3000) ''w9'' ''o1'' flow_edit flow_after_go)") auto
  then have run: "update_workflow (flow_env 3000) ''w9'' ''o1'' flow_edit flow_after_go = (Inr v, flow_edited)"
    by (simp add: flow_edited_def prod_eq_iff)
  have c: "wui_canvas flow_edit = Some flow_canvas" by (simp add: flow_edit_def)
  have nonempty: "executions ?s \<noteq> []" by code_simp
  have x: "flow_execution \<in> set (executions ?s)" unfolding flow_execution_def by (rule hd_in_set[OF nonempty])
  have xs: "ex_workflow_id flow_execution = ''w9'' \<and> ex_id flow_execution = ''e9''" by code_simp
  have keys: "keys_ok ?s" by code_simp
  have n: "length (results_of ''e9'' ?s) = 1" by code_simp
  have "list_all (\<lambda>r. 1 \<le> res_attempt r \<and> res_attempt r \<le> max_attempts \<and>
     list_ex (\<lambda>x. ex_id x = res_execution_id r \<and>
        list_ex (\<lambda>st. st_id st = res_step_id r) (steps_of (ex_workflow_id x) ?s)) (executions ?s)) (results ?s)"
    by code_simp
  then have "results_ok ?s" by (simp add: results_ok_def list_all_iff list_ex_iff)
  from canvas_edit_erases_results[OF run c this keys x conjunct1[OF xs]] n show ?thesis by (simp add: xs)
qed

end
