(* ===== verification/NodeCorrect.thy ===== *)
theory NodeCorrect
  imports Runner
begin

text \<open>
  The properties of the workflow nodes: what a template inserts, which requests leave the process,
  on whose behalf the executors are called, what a batch of notifications delivers and what the
  text extraction returns.
\<close>

subsection \<open>Templates\<close>

text \<open>
  Interpolation replaces a token by the text of the value its path leads to and goes
  on after it: the inserted text is never read for tokens again, so data of an earlier step cannot
  reach the rest of the context.
\<close>

theorem token_replaced_once:
  assumes "CHR 0x7B \<notin> set a" and "e \<noteq> []" and "list_all (\<lambda>c. \<not> brace c) e"
  shows "interpolate_template (a @ [CHR 0x7B, CHR 0x7B] @ e @ [CHR 0x7D, CHR 0x7D] @ r) ctx =
    a @ (case resolve_path (js_trim e) ctx of
           JUndef \<Rightarrow> [] | JNull \<Rightarrow> [] | JStr t \<Rightarrow> t | v \<Rightarrow> the (stringify v))
      @ interpolate_template r ctx"
proof -
  have "\<forall>c \<in> set e. \<not> brace c" using assms(3) by (simp add: list_all_iff)
  from replace_tokens_token[OF assms(1,2) this]
  show ?thesis
    by (simp add: interpolate_template_def token_text_def Let_def split: js_val.split)
qed

definition sample_context :: "string \<Rightarrow> js_val \<Rightarrow> runtime_context" where
  "sample_context tenant v = \<lparr>ctx_execution_id = ''e1'', ctx_steps = [], ctx_tenant_id = tenant,
     ctx_trigger_output = v, ctx_trigger_type = ''WEBHOOK'', ctx_workflow_id = ''w1''\<rparr>"

definition sample_braces :: string where
  "sample_braces = [CHR 0x7B, CHR 0x7B] @ ''tenantId'' @ [CHR 0x7D, CHR 0x7D]"

text \<open>A payload that itself spells a token comes out as it is.\<close>

lemma token_replaced_once_witness:
  "interpolate_template (''a='' @ [CHR 0x7B, CHR 0x7B] @ '' trigger.output '' @ [CHR 0x7D, CHR 0x7D] @ ''!'')
     (sample_context ''t1'' (JStr sample_braces)) = ''a='' @ sample_braces @ ''!''"
proof -
  have p: "resolve_path (js_trim '' trigger.output '') (sample_context ''t1'' (JStr sample_braces)) = JStr sample_braces"
    by code_simp
  have r: "interpolate_template ''!'' (sample_context ''t1'' (JStr sample_braces)) = ''!''" by code_simp
  have b: "CHR 0x7B \<notin> set ''a=''" "list_all (\<lambda>c. \<not> brace c) '' trigger.output ''" by code_simp+
  show ?thesis
    using token_replaced_once[OF b(1) _ b(2), of "''!''" "sample_context ''t1'' (JStr sample_braces)"]
    by (simp only: p r) simp
qed

subsection \<open>Requests\<close>

definition new_calls :: "node_state \<Rightarrow> node_state \<Rightarrow> outbound list" where
  "new_calls s s' = drop (length (outbound_calls s)) (outbound_calls s')"

lemma http_calls:
  assumes "execute_http_node E cfg ctx s = (r, s')"
  shows "new_calls s s' = [] \<or> (\<exists>u. assert_safe_url E (js_to_string (prop_of (interpolate_value cfg ctx) ''url'')) = Inr u \<and>
    set (new_calls s s') \<subseteq>
      {ConsumeRate (''httpreq:'' @ ctx_tenant_id ctx @ '':'' @ url_host u), Fetch (http_call E (interpolate_value cfg ctx) u)})"
proof (cases "assert_safe_url E (js_to_string (prop_of (interpolate_value cfg ctx) ''url''))")
  case (Inl e)
  with assms show ?thesis by (auto simp: execute_http_node_def Let_def new_calls_def)
next
  case (Inr u)
  with assms show ?thesis
    by (auto simp: execute_http_node_def Let_def new_calls_def then_do_def call_out_def call_fetch_def
        give_def throw_def split: if_splits sum.splits prod.splits)
qed

text \<open>
  A request leaves the process only for a URL whose host name, in lower case, is not
  one of the five blocked ones and does not end in \<open>.internal\<close>, and with a time limit between one
  millisecond and ten seconds.
\<close>

theorem requests_pass_the_guard:
  assumes "execute_http_node E cfg ctx s = (r, s')" and "Fetch q \<in> set (new_calls s s')"
  shows "(\<exists>u. env_parse_url E (js_to_string (prop_of (interpolate_value cfg ctx) ''url'')) = Some u \<and>
      req_url q = url_text u \<and> js_lower (url_hostname u) \<notin> set blocked_hosts \<and>
      \<not> ends_with (js_lower (url_hostname u)) ''.internal'') \<and>
    (case req_timeout q of Fin n \<Rightarrow> 1 \<le> n \<and> n \<le> 10000 | x \<Rightarrow> x = NaN)"
proof -
  let ?i = "interpolate_value cfg ctx"
  from http_calls[OF assms(1)] assms(2) obtain u where
    u: "assert_safe_url E (js_to_string (prop_of ?i ''url'')) = Inr u" and q: "q = http_call E ?i u"
    by auto
  have "\<exists>x. req_timeout q = js_min (js_max x (Fin 1)) (Fin 10000)"
    by (auto simp: q http_call_def Let_def)
  then obtain x where x: "req_timeout q = js_min (js_max x (Fin 1)) (Fin 10000)" ..
  have "case req_timeout q of Fin n \<Rightarrow> 1 \<le> n \<and> n \<le> 10000 | x \<Rightarrow> x = NaN"
    unfolding x by (cases x) (auto simp: js_min_def js_max_def)
  moreover have "req_url q = url_text u" by (simp add: q http_call_def Let_def)
  ultimately show ?thesis
    using u by (auto simp: assert_safe_url_def Let_def split: option.splits if_splits)
qed

definition sample_web :: "string \<Rightarrow> node_env" where
  "sample_web host = \<lparr>env_agent = True, env_handoff = True, env_connector = True, env_dispatcher = True,
     env_limiter = True, env_reply = (\<lambda>_. Inr JNull),
     env_fetch = (\<lambda>_. Inr \<lparr>resp_status = 200, resp_headers = [], resp_text = ''ok'', resp_json = None\<rparr>),
     env_parse_url = (\<lambda>u. Some \<lparr>url_hostname = host, url_host = host, url_text = u\<rparr>),
     env_run_code = (\<lambda>_ _ _ _. Inr JNull), env_hmac = (\<lambda>k m. k @ m)\<rparr>"

definition sample_request :: js_val where
  "sample_request = JObj [(''url'', JStr ''http://h/''), (''method'', JStr ''GET''), (''timeout_ms'', JNum (Fin 50000))]"

definition no_calls :: node_state where
  "no_calls = \<lparr>batches = [], outbound_calls = []\<rparr>"

definition sample_fetch :: "string \<Rightarrow> node_state" where
  "sample_fetch host = snd (execute_http_node (sample_web host) sample_request (sample_context ''t1'' JNull) no_calls)"

lemma sample_fetch_calls:
  "new_calls no_calls (sample_fetch ''h'') =
     [ConsumeRate ''httpreq:t1:h'', Fetch (http_call (sample_web ''h'') (interpolate_value sample_request (sample_context ''t1'' JNull))
        \<lparr>url_hostname = ''h'', url_host = ''h'', url_text = ''http://h/''\<rparr>)]"
  by code_simp

lemma requests_pass_the_guard_witness:
  "case new_calls no_calls (sample_fetch ''h'') of
     [ConsumeRate k, Fetch q] \<Rightarrow> (case req_timeout q of Fin n \<Rightarrow> n \<le> 10000 | _ \<Rightarrow> False)
   | _ \<Rightarrow> False"
proof -
  let ?q = "http_call (sample_web ''h'') (interpolate_value sample_request (sample_context ''t1'' JNull))
        \<lparr>url_hostname = ''h'', url_host = ''h'', url_text = ''http://h/''\<rparr>"
  have run: "execute_http_node (sample_web ''h'') sample_request (sample_context ''t1'' JNull) no_calls =
      (fst (execute_http_node (sample_web ''h'') sample_request (sample_context ''t1'' JNull) no_calls), sample_fetch ''h'')"
    by (simp add: sample_fetch_def)
  have "Fetch ?q \<in> set (new_calls no_calls (sample_fetch ''h''))" by (simp add: sample_fetch_calls)
  from requests_pass_the_guard[OF run this]
  have "case req_timeout ?q of Fin n \<Rightarrow> 1 \<le> n \<and> n \<le> 10000 | x \<Rightarrow> x = NaN" by blast
  moreover have "req_timeout ?q \<noteq> NaN" by code_simp
  ultimately show ?thesis by (auto simp: sample_fetch_calls split: js_num.splits)
qed

text \<open>The guard compares with \<open>::1\<close>, but the host name of a URL has its IPv6 address in brackets:
  the loopback address passes, and so do the other addresses of the private networks.\<close>

lemma guard_passes_ipv6_loopback:
  "length (new_calls no_calls (sample_fetch ''[::1]'')) = 2 \<and> length (new_calls no_calls (sample_fetch ''169.254.169.254'')) = 2 \<and>
   length (new_calls no_calls (sample_fetch ''127.0.0.1'')) = 0"
  by code_simp

subsection \<open>On whose behalf\<close>

lemma new_calls_refl [simp]: "new_calls s s = []"
  by (simp add: new_calls_def)

lemma call_out_calls: "call_out E c s = (r, s') \<Longrightarrow> new_calls s s' = [c]"
  by (auto simp: call_out_def new_calls_def)

lemma notification_calls:
  "execute_notification_node E now cfg ctx s = (r, s') \<Longrightarrow>
     set (new_calls s s') \<subseteq> {SendNotification (interpolate_value cfg ctx)}"
  by (auto simp: execute_notification_node_def batch_notification_def Let_def then_do_def give_def call_out_def
      new_calls_def split: if_splits option.splits sum.splits)

lemma code_calls: "execute_code_node E cfg v ctx s = (r, s') \<Longrightarrow> new_calls s s' = []"
  by (auto simp: execute_code_node_def Let_def split: if_splits sum.splits)

lemma step_calls:
  assumes "execute_step E now t cfg ctx s = (r, s')" and "c \<in> set (new_calls s s')"
  shows "(t = HTTP_REQUEST \<and> (\<exists>k q. c = ConsumeRate k \<or> c = Fetch q)) \<or>
    (t = SEND_NOTIFICATION \<and> (\<exists>p. c = SendNotification p)) \<or>
    (t = AGENT_EXECUTE \<and> call_out E c s = (r, s') \<and> execute_agent_node E cfg ctx s = call_out E c s) \<or>
    (t = AGENT_HANDOFF \<and> execute_handoff_node E (handoff_config cfg) ctx s = call_out E c s) \<or>
    (\<exists>a. execute_connector_node E a ctx s = call_out E c s)"
proof -
  have single: "call_out E d s = (r, s') \<Longrightarrow> c = d" for d
    using assms(2) call_out_calls[of E d s r s'] by simp
  show ?thesis
    using assms single http_calls[of E cfg ctx s r s'] notification_calls[of E now cfg ctx s r s']
      code_calls[of E cfg "JObj (ctx_steps ctx)" ctx s r s']
    by (cases t) (auto simp: execute_step_def run_connector_def execute_agent_node_def execute_handoff_node_def
        execute_connector_node_def Let_def split: if_splits)
qed

text \<open>
  A connector action and a handoff carry the tenant and the execution of the run. An
  agent step does not: the worker runs it for the \<open>tenantId\<close> its configuration puts into the input,
  or for \<open>default-tenant\<close>, whichever tenant the workflow belongs to.
\<close>

theorem executor_tenants:
  assumes "execute_step E now t cfg ctx s = (r, s')" and "c \<in> set (new_calls s s')"
  shows "case c of
      CallConnector a \<Rightarrow> prop_of a ''tenantId'' = JStr (ctx_tenant_id ctx) \<and>
        prop_of a ''executionId'' = JStr (ctx_execution_id ctx)
    | CallHandoff a \<Rightarrow> prop_of a ''tenantId'' = JStr (ctx_tenant_id ctx) \<and>
        prop_of a ''executionId'' = JStr (ctx_execution_id ctx)
    | CallAgent a \<Rightarrow> agent_step_tenant a =
        nullish (prop_of (nullish (prop_of (interpolate_value cfg ctx) ''input'') empty_obj) ''tenantId'')
          (JStr ''default-tenant'')
    | _ \<Rightarrow> True"
proof -
  have inj: "call_out E c s = call_out E d s \<longleftrightarrow> c = d" for d
    by (metis call_out_calls list.inject surj_pair)
  show ?thesis
    using step_calls[OF assms]
    by (auto simp: execute_agent_node_def execute_handoff_node_def execute_connector_node_def Let_def
        eq_commute[of "call_out E _ s" "call_out E c s"] inj prop_of_def own_property_def agent_step_tenant_def)
qed

definition sample_agent_step :: js_val where
  "sample_agent_step = JObj [(''agentId'', JStr ''a''), (''input'', JObj [(''topic'', JStr ''x'')])]"

lemma executor_tenants_witness:
  "case new_calls no_calls (snd (execute_step (sample_web ''h'') 0 AGENT_EXECUTE sample_agent_step (sample_context ''t1'' JNull) no_calls)) of
     [CallAgent a] \<Rightarrow> agent_step_tenant a = JStr ''default-tenant'' | _ \<Rightarrow> False"
proof -
  let ?run = "execute_step (sample_web ''h'') 0 AGENT_EXECUTE sample_agent_step (sample_context ''t1'' JNull) no_calls"
  obtain a where a: "new_calls no_calls (snd ?run) = [CallAgent a]"
    by (simp add: execute_step_def execute_agent_node_def sample_web_def Let_def call_out_def new_calls_def no_calls_def)
  have t: "nullish (prop_of (nullish (prop_of (interpolate_value sample_agent_step (sample_context ''t1'' JNull)) ''input'')
      empty_obj) ''tenantId'') (JStr ''default-tenant'') = JStr ''default-tenant''" by code_simp
  have "CallAgent a \<in> set (new_calls no_calls (snd ?run))" by (simp add: a)
  from executor_tenants[OF prod.collapse[symmetric] this] show ?thesis by (simp add: a t)
qed

subsection \<open>Batched notifications\<close>

fun notify_all :: "node_env \<Rightarrow> (ms \<times> js_val \<times> runtime_context) list \<Rightarrow> node_state \<Rightarrow> node_state" where
  "notify_all E [] s = s"
| "notify_all E ((t, cfg, ctx) # xs) s = notify_all E xs (snd (execute_notification_node E t cfg ctx s))"

definition batch_of :: "string \<Rightarrow> node_state \<Rightarrow> batch option" where
  "batch_of k s = map_of (batches s) k"

definition keyed :: "string \<Rightarrow> ms \<times> js_val \<times> runtime_context \<Rightarrow> bool" where
  "keyed k n \<longleftrightarrow> (case n of (t, cfg, ctx) \<Rightarrow> prop_of (interpolate_value cfg ctx) ''batchKey'' = JStr k)"

definition payload_of :: "ms \<times> js_val \<times> runtime_context \<Rightarrow> js_val" where
  "payload_of n = (case n of (t, cfg, ctx) \<Rightarrow> interpolate_value cfg ctx)"

lemma prop_with_message:
  assumes "prop_of v ''batchKey'' = JStr k"
  shows "prop_of (JObj (AList.update ''message'' m (obj_fields v))) x = (if x = ''message'' then m else prop_of v x)"
proof -
  have "array_index ''batchKey'' xs = None" for xs :: "js_val list" by (simp add: array_index_def parse_digits_def digit_value_def)
  with assms obtain fs where "v = JObj fs"
    by (cases v) (auto simp: prop_of_def own_property_def)
  then show ?thesis by (simp add: prop_of_def own_property_def obj_fields_def)
qed

text \<open>What the store holds for the key after the notifications of a batch.\<close>

definition batch_holds :: "string \<Rightarrow> nat \<Rightarrow> js_val \<Rightarrow> node_state \<Rightarrow> bool" where
  "batch_holds k n v s \<longleftrightarrow> (\<exists>b. batch_of k s = Some b \<and> batch_count b = n \<and>
     prop_of (batch_payload b) ''batchKey'' = JStr k \<and> prop_of (batch_payload b) ''to'' = prop_of v ''to'' \<and>
     (if n = 1 then batch_payload b = v
      else prop_of (batch_payload b) ''message'' = JStr (show_nat n @ '' notificacoes agregadas'')))"

lemma notify_first:
  assumes "env_dispatcher E" and "k \<noteq> []" and "keyed k (t, cfg, ctx)" and "batch_of k s = None"
    and "execute_notification_node E t cfg ctx s = (r, s')"
  shows "batch_holds k 1 (interpolate_value cfg ctx) s' \<and> outbound_calls s' = outbound_calls s"
proof -
  let ?v = "interpolate_value cfg ctx"
  have key: "prop_of ?v ''batchKey'' = JStr k" using assms(3) by (simp add: keyed_def)
  have "batch_notification t ?v s = (r, s')"
    using assms(1,2,5) key by (simp add: execute_notification_node_def)
  with assms(4) show ?thesis
    by (auto simp: batch_notification_def key batch_of_def batch_holds_def Let_def)
qed

lemma notify_next:
  assumes "env_dispatcher E" and "k \<noteq> []" and "keyed k (t, cfg, ctx)" and "batch_holds k n v s" and "0 < n"
    and "execute_notification_node E t cfg ctx s = (r, s')"
  shows "batch_holds k (Suc n) (interpolate_value cfg ctx) s' \<and> outbound_calls s' = outbound_calls s"
proof -
  let ?v = "interpolate_value cfg ctx"
  have key: "prop_of ?v ''batchKey'' = JStr k" using assms(3) by (simp add: keyed_def)
  from assms(4) obtain b where b: "map_of (batches s) k = Some b" "batch_count b = n"
    by (auto simp: batch_holds_def batch_of_def)
  have "batch_notification t ?v s = (r, s')"
    using assms(1,2,6) key by (simp add: execute_notification_node_def)
  with b assms(5) show ?thesis
    by (auto simp: batch_notification_def key batch_of_def batch_holds_def Let_def prop_with_message[OF key])
qed

lemma notify_rest:
  assumes "env_dispatcher E" and "k \<noteq> []" and "list_all (keyed k) xs" and "batch_holds k n v s" and "0 < n"
  shows "batch_holds k (n + length xs) (if xs = [] then v else payload_of (last xs)) (notify_all E xs s) \<and>
    outbound_calls (notify_all E xs s) = outbound_calls s"
  using assms(3-5)
proof (induction xs arbitrary: n v s)
  case Nil
  then show ?case by simp
next
  case (Cons a xs)
  obtain t cfg ctx where a: "a = (t, cfg, ctx)" by (cases a)
  obtain r s' where run: "execute_notification_node E t cfg ctx s = (r, s')" by fastforce
  have k: "keyed k (t, cfg, ctx)" "list_all (keyed k) xs" using Cons.prems(1) by (simp_all add: a)
  have step: "batch_holds k (Suc n) (interpolate_value cfg ctx) s' \<and> outbound_calls s' = outbound_calls s"
    by (rule notify_next[OF assms(1,2) k(1) Cons.prems(2,3) run])
  from Cons.IH[OF k(2) step[THEN conjunct1]] step show ?case
    by (auto simp: a run payload_of_def split: if_splits)
qed

text \<open>
  Notifications that share a batch key within the window leave as one message, sent to
  the recipient of the last of them and saying only how many they were: whoever the earlier ones
  were addressed to gets nothing, and the store has one entry per key for the workflows of all
  tenants.
\<close>

theorem batch_sends_last_recipient:
  assumes "env_dispatcher E" and "k \<noteq> []" and "ns \<noteq> []" and "list_all (keyed k) ns" and "batch_of k s = None"
  shows "\<exists>p. outbound_calls (flush_batch k (notify_all E ns s)) = outbound_calls s @ [SendNotification p] \<and>
    prop_of p ''to'' = prop_of (payload_of (last ns)) ''to'' \<and>
    prop_of p ''message'' = (if length ns = 1 then prop_of (payload_of (last ns)) ''message''
      else JStr (show_nat (length ns) @ '' notificacoes agregadas''))"
proof -
  obtain a xs where ns: "ns = a # xs" using assms(3) by (cases ns) auto
  obtain t cfg ctx where a: "a = (t, cfg, ctx)" by (cases a)
  obtain r s' where run: "execute_notification_node E t cfg ctx s = (r, s')" by fastforce
  have k: "keyed k (t, cfg, ctx)" "list_all (keyed k) xs" using assms(4) by (simp_all add: ns a)
  have first: "batch_holds k 1 (interpolate_value cfg ctx) s' \<and> outbound_calls s' = outbound_calls s"
    by (rule notify_first[OF assms(1,2) k(1) assms(5) run])
  let ?s = "notify_all E ns s"
  have "batch_holds k (length ns) (payload_of (last ns)) ?s \<and> outbound_calls ?s = outbound_calls s"
    using notify_rest[OF assms(1,2) k(2) first[THEN conjunct1]] first
    by (auto simp: ns a run payload_of_def split: if_splits)
  then show ?thesis by (auto simp: batch_holds_def batch_of_def flush_batch_def split: if_splits)
qed

definition sample_notice :: "string \<Rightarrow> js_val" where
  "sample_notice recipient = JObj [(''batchKey'', JStr ''daily''), (''channel'', JStr ''email''), (''message'', JStr ''hi''),
     (''to'', JStr recipient)]"

lemma batch_sends_last_recipient_witness:
  "\<exists>p. outbound_calls (flush_batch ''daily'' (notify_all (sample_web ''h'')
       [(0, sample_notice ''ana'', sample_context ''t1'' JNull), (1, sample_notice ''bob'', sample_context ''t2'' JNull)] no_calls)) =
     [SendNotification p] \<and> prop_of p ''to'' = JStr ''bob''"
proof -
  let ?ns = "[(0, sample_notice ''ana'', sample_context ''t1'' JNull), (1, sample_notice ''bob'', sample_context ''t2'' JNull)]"
  have k: "list_all (keyed ''daily'') ?ns" by code_simp
  have d: "env_dispatcher (sample_web ''h'')" "batch_of ''daily'' no_calls = None" "outbound_calls no_calls = []"
    by (simp_all add: sample_web_def batch_of_def no_calls_def)
  have b: "prop_of (payload_of (1, sample_notice ''bob'', sample_context ''t2'' JNull)) ''to'' = JStr ''bob''" by code_simp
  show ?thesis using batch_sends_last_recipient[OF d(1) _ _ k d(2)] by (auto simp: b d(3))
qed

subsection \<open>Extraction\<close>

lemma starts_with_nocase_append:
  "starts_with_nocase s p \<longleftrightarrow> (\<exists>f r. s = f @ r \<and> map lower_char f = map lower_char p)"
proof (induction s p rule: starts_with_nocase.induct)
  case (3 c s p ps)
  show ?case
  proof
    assume a: "starts_with_nocase (c # s) (p # ps)"
    with 3 obtain f r where "s = f @ r" "map lower_char f = map lower_char ps" by auto
    with a show "\<exists>f r. c # s = f @ r \<and> map lower_char f = map lower_char (p # ps)"
      by (intro exI[of _ "c # f"] exI[of _ r]) simp
  next
    assume "\<exists>f r. c # s = f @ r \<and> map lower_char f = map lower_char (p # ps)"
    then obtain f r where e: "c # s = f @ r" "map lower_char f = map lower_char (p # ps)" by blast
    then obtain f' where "f = c # f'" by (cases f) auto
    with e 3 show "starts_with_nocase (c # s) (p # ps)" by auto
  qed
qed auto

lemma capture_value_sound:
  assumes "capture_value s = Some v"
  shows "\<exists>a b. s = a @ v @ b \<and> list_all js_space a \<and> v \<noteq> [] \<and> list_all value_char v"
proof -
  let ?ws = "takeWhile js_space s" and ?rest = "dropWhile js_space s"
  have ws: "list_all js_space ?ws" by (auto simp: list_all_iff dest: set_takeWhileD)
  show ?thesis
  proof (cases "?rest \<noteq> [] \<and> value_char (hd ?rest)")
    case True
    with assms have v: "v = takeWhile value_char ?rest" by (simp add: capture_value_def Let_def)
    have "s = ?ws @ v @ dropWhile value_char ?rest" by (simp add: v)
    moreover have "v \<noteq> []" using True v by (cases ?rest) auto
    moreover have "list_all value_char v" by (auto simp: v list_all_iff dest: set_takeWhileD)
    ultimately show ?thesis using ws by blast
  next
    case False
    with assms obtain c where v: "v = [c]" and c: "List.find value_char (rev ?ws) = Some c"
      by (auto simp: capture_value_def Let_def split: if_splits)
    from find_Some_iff_mem[OF c] have "c \<in> set ?ws" and vc: "value_char c" by auto
    then obtain a b where ab: "?ws = a @ c # b" by (meson split_list)
    then have "s = a @ [c] @ b @ ?rest" using takeWhile_dropWhile_id[of js_space s] by simp
    moreover have "list_all js_space a" using ws by (simp add: ab)
    ultimately show ?thesis using v vc by (intro exI[of _ a] exI[of _ "b @ ?rest"]) simp
  qed
qed

lemma match_field_sound:
  assumes "match_field_at field s = Some v"
  shows "\<exists>f w c a b. s = f @ w @ [c] @ a @ v @ b \<and> map lower_char f = map lower_char field \<and>
    list_all js_space w \<and> separator c \<and> list_all js_space a \<and> v \<noteq> [] \<and> list_all value_char v"
proof -
  let ?t = "drop (length field) s"
  let ?rest = "dropWhile js_space ?t" and ?w = "takeWhile js_space ?t"
  from assms have start: "starts_with_nocase s field" and rest: "?rest \<noteq> []" "separator (hd ?rest)"
    and v: "capture_value (tl ?rest) = Some v"
    by (auto simp: match_field_at_def Let_def split: if_splits)
  from start obtain f r where s: "s = f @ r" and f: "map lower_char f = map lower_char field"
    by (auto simp: starts_with_nocase_append)
  have "length f = length field" using f by (metis length_map)
  then have r: "?t = r" by (simp add: s)
  from capture_value_sound[OF v] obtain a b where ab: "tl ?rest = a @ v @ b" "list_all js_space a" "v \<noteq> []"
    "list_all value_char v" by blast
  have "r = ?w @ ?rest" by (simp add: r)
  also have "?rest = hd ?rest # a @ v @ b" using rest ab(1) by (metis list.collapse)
  finally have "s = f @ ?w @ [hd ?rest] @ a @ v @ b" by (simp add: s)
  moreover have "list_all js_space ?w" by (auto simp: list_all_iff dest: set_takeWhileD)
  ultimately show ?thesis using f rest(2) ab(2-4) by blast
qed

text \<open>
  The text extraction invents nothing: a value it returns for a field is, up to outer
  white space, a piece of the first 50 KB of the text that stands right after the field's name (in
  any case), white space and one of the separators, and holds no line break, comma or semicolon.
\<close>

theorem extracted_value_stands_in_text:
  assumes "find_field_value txt field = JStr v"
  shows "\<exists>p f w c a u b. txt = p @ f @ w @ [c] @ a @ u @ b \<and> map lower_char f = map lower_char field \<and>
    list_all js_space (w @ a) \<and> separator c \<and> u \<noteq> [] \<and> list_all value_char u \<and> v = js_trim u"
proof -
  from assms obtain u where u: "find_match field txt = Some u" and v: "v = js_trim u"
    by (auto simp: find_field_value_def split: option.splits)
  from u have "\<exists>p s. txt = p @ s \<and> match_field_at field s = Some u"
  proof (induction "txt")
    case Nil
    then show ?case by simp
  next
    case (Cons c s)
    show ?case
    proof (cases "match_field_at field (c # s)")
      case None
      with Cons obtain p t where "s = p @ t" "match_field_at field t = Some u" by auto
      then show ?thesis by (intro exI[of _ "c # p"] exI[of _ t]) simp
    next
      case (Some y)
      with Cons.prems show ?thesis by (intro exI[of _ "[]"] exI[of _ "c # s"]) simp
    qed
  qed
  then obtain p s where ps: "txt = p @ s" "match_field_at field s = Some u" by blast
  from match_field_sound[OF ps(2)] obtain f w c a b where
    "s = f @ w @ [c] @ a @ u @ b" "map lower_char f = map lower_char field" "list_all js_space w" "separator c"
    "list_all js_space a" "u \<noteq> []" "list_all value_char u" by blast
  with ps(1) v show ?thesis
    by (intro exI[of _ p] exI[of _ f] exI[of _ w] exI[of _ c] exI[of _ a] exI[of _ u] exI[of _ b]) simp
qed

lemma extracted_value_stands_in_text_witness:
  "case find_field_value ''Deal - NAME : Ana Lima; age: 3'' ''name'' of JStr v \<Rightarrow> v = ''Ana Lima'' | _ \<Rightarrow> False"
proof -
  have e: "find_field_value ''Deal - NAME : Ana Lima; age: 3'' ''name'' = JStr ''Ana Lima''" by code_simp
  from extracted_value_stands_in_text[OF e] show ?thesis by (simp add: e)
qed

end
