(* ===== verification/AgentMemory.thy ===== *)
theory AgentMemory
  imports PolicyEngine Schema
begin

text \<open>
  The memory of the agents: \<open>packages/agents-core/src/memory/memoryService.ts\<close> and the backend
  the worker gives it (\<open>PrismaAuditMemoryBackend\<close> of \<open>apps/worker/src/agents/runtime.ts\<close>),
  which keeps no table of its own but writes every change to the audit log and reads the latest
  entry back.

  A backend is the record of its four functions. The locale \<^theory_text>\<open>expiring_memory\<close> is what the
  service relies on; it is interpreted on the map of \<open>InMemoryAgentMemoryBackend\<close> and on the audit
  entries. Two entries of the log for one key in the same millisecond have no order in the database;
  the laws ask for a later reading of the clock, and the model takes the older entry first.

  The texts \<open>JSON.stringify\<close> makes are kept as the values they stand for, and times as the
  millisecond their ISO text shows.
\<close>

record ('s, 'v) memory_backend =
  mb_set :: "string \<Rightarrow> 'v \<Rightarrow> int option \<Rightarrow> ms \<Rightarrow> 's \<Rightarrow> 's"
  mb_get :: "string \<Rightarrow> ms \<Rightarrow> 's \<Rightarrow> 'v option \<times> 's"
  mb_del :: "string \<Rightarrow> ms \<Rightarrow> 's \<Rightarrow> nat \<times> 's"
  mb_keys :: "string \<Rightarrow> ms \<Rightarrow> 's \<Rightarrow> string list \<times> 's"

definition first_segment :: "string \<Rightarrow> string" where
  "first_segment k = hd (split_on CHR '':'' k)"

definition expires_at :: "ms \<Rightarrow> int option \<Rightarrow> ms option" where
  "expires_at now ttl = map_option (\<lambda>s. now + s * 1000) ttl"

definition is_live :: "ms \<Rightarrow> ms option \<Rightarrow> bool" where
  "is_live now e = (case e of None \<Rightarrow> True | Some t \<Rightarrow> now < t)"

subsection \<open>The contract of a backend\<close>

text \<open>\<open>fresh s t k\<close>: every write of \<open>k\<close> lies before \<open>t\<close>. \<open>exact p\<close>: the patterns for which the
  listing is complete.\<close>

locale expiring_memory =
  fixes B :: "('s, 'v) memory_backend"
    and ok :: "'s \<Rightarrow> bool"
    and fresh :: "'s \<Rightarrow> ms \<Rightarrow> string \<Rightarrow> bool"
    and view :: "'s \<Rightarrow> ms \<Rightarrow> string \<Rightarrow> 'v option"
    and exact :: "string \<Rightarrow> bool"
  assumes get_view: "ok s \<Longrightarrow> fst (mb_get B k now s) = view s now k"
    and get_keeps: "ok s \<Longrightarrow> ok (snd (mb_get B k now s))"
      "fresh s t k' \<Longrightarrow> fresh (snd (mb_get B k now s)) t k'"
      "ok s \<Longrightarrow> now \<le> t \<Longrightarrow> view (snd (mb_get B k now s)) t k' = view s t k'"
    and set_keeps: "ok s \<Longrightarrow> ok (mb_set B k v ttl now s)"
      "fresh s t k' \<Longrightarrow> k' = k \<longrightarrow> now < t \<Longrightarrow> fresh (mb_set B k v ttl now s) t k'"
    and set_view: "fresh s now k \<Longrightarrow> now \<le> t \<Longrightarrow> view (mb_set B k v ttl now s) t k' =
      (if k' = k then (if is_live t (expires_at now ttl) then Some v else None) else view s t k')"
    and del_keeps: "ok s \<Longrightarrow> ok (snd (mb_del B k now s))"
      "fresh s t k' \<Longrightarrow> k' = k \<longrightarrow> now < t \<Longrightarrow> fresh (snd (mb_del B k now s)) t k'"
    and del_view: "fresh s now k \<Longrightarrow> now \<le> t \<Longrightarrow> view (snd (mb_del B k now s)) t k' =
      (if k' = k then None else view s t k')"
    and keys_keeps: "ok s \<Longrightarrow> ok (snd (mb_keys B p now s))"
      "fresh s t k' \<Longrightarrow> fresh (snd (mb_keys B p now s)) t k'"
      "ok s \<Longrightarrow> now \<le> t \<Longrightarrow> view (snd (mb_keys B p now s)) t k' = view s t k'"
    and keys_view: "ok s \<Longrightarrow> exact p \<Longrightarrow> distinct (fst (mb_keys B p now s)) \<and>
      set (fst (mb_keys B p now s)) = {k. view s now k \<noteq> None \<and> regex_test p k}"

subsection \<open>The map\<close>

type_synonym 'v memory_map = "(string \<times> (ms option \<times> 'v)) list"

definition sweep_expired :: "ms \<Rightarrow> 'v memory_map \<Rightarrow> 'v memory_map" where
  "sweep_expired now m = filter (\<lambda>(k, e, v). is_live now e) m"

definition map_backend :: "('v memory_map, 'v) memory_backend" where
  "map_backend = \<lparr>
     mb_set = \<lambda>k v ttl now m. AList.update k (expires_at now ttl, v) m,
     mb_get = \<lambda>k now m. (map_option snd (map_of (sweep_expired now m) k), sweep_expired now m),
     mb_del = \<lambda>k now m. (if map_of m k = None then 0 else 1, AList.delete k m),
     mb_keys = \<lambda>p now m. (filter (regex_test p) (map fst (sweep_expired now m)), sweep_expired now m)\<rparr>"

subsection \<open>The audit log\<close>

text \<open>The column \<open>diff\<close> of an entry: an object with a value and its expiry, the empty object, an object
  that is a record itself, or any other value without the two properties.\<close>

datatype 'v memory_log_diff = SetDiff "ms option" 'v | EmptyDiff | RecordDiff 'v | OtherDiff js_val

record 'v memory_log_row =
  al_tenant_id :: string
  al_actor_id :: "string option"
  al_action :: string
  al_entity_type :: string
  al_entity_id :: string
  al_diff :: "'v memory_log_diff"
  al_created_at :: ms

definition read_audit_memory_payload :: "'v memory_log_diff \<Rightarrow> ms option \<times> 'v option" where
  "read_audit_memory_payload d = (case d of
     SetDiff e v \<Rightarrow> (e, Some v) | EmptyDiff \<Rightarrow> (None, None) | RecordDiff _ \<Rightarrow> (None, None) | OtherDiff _ \<Rightarrow> (None, None))"

definition memory_row :: "string \<Rightarrow> string \<Rightarrow> 'v memory_log_diff \<Rightarrow> ms \<Rightarrow> 'v memory_log_row" where
  "memory_row action k d now = \<lparr>al_tenant_id = first_segment k, al_actor_id = None, al_action = action,
     al_entity_type = ''agent_memory'', al_entity_id = k, al_diff = d, al_created_at = now\<rparr>"

definition is_memory_row :: "string \<Rightarrow> 'v memory_log_row \<Rightarrow> bool" where
  "is_memory_row tenant r \<longleftrightarrow>
     (al_action r = ''AGENT_MEMORY_DELETE'' \<or> al_action r = ''AGENT_MEMORY_SET'') \<and>
     al_entity_type r = ''agent_memory'' \<and> al_tenant_id r = tenant"

definition row_value :: "ms \<Rightarrow> 'v memory_log_row \<Rightarrow> 'v option" where
  "row_value now r =
     (if al_action r = ''AGENT_MEMORY_DELETE'' then None
      else case read_audit_memory_payload (al_diff r) of (e, v) \<Rightarrow> if is_live now e then v else None)"

definition newest_first :: "'v memory_log_row list \<Rightarrow> 'v memory_log_row list" where
  "newest_first rows = sort_key (\<lambda>r. - al_created_at r) rows"

definition audit_get :: "string \<Rightarrow> ms \<Rightarrow> 'v memory_log_row list \<Rightarrow> 'v option" where
  "audit_get k now entries =
     (case newest_first (filter (\<lambda>r. is_memory_row (first_segment k) r \<and> al_entity_id r = k) entries) of
        [] \<Rightarrow> None | r # _ \<Rightarrow> row_value now r)"

fun latest_by_key :: "'v memory_log_row list \<Rightarrow> (string \<times> 'v memory_log_row) list \<Rightarrow> (string \<times> 'v memory_log_row) list" where
  "latest_by_key [] m = m"
| "latest_by_key (r # rs) m =
     latest_by_key rs (if map_of m (al_entity_id r) = None then AList.update (al_entity_id r) r m else m)"

text \<open>The filter of \<open>keys\<close> asks for the action and the expiry of an entry only.\<close>

definition row_listed :: "ms \<Rightarrow> 'v memory_log_row \<Rightarrow> bool" where
  "row_listed now r \<longleftrightarrow> al_action r \<noteq> ''AGENT_MEMORY_DELETE'' \<and>
     is_live now (fst (read_audit_memory_payload (al_diff r)))"

definition audit_keys :: "string \<Rightarrow> ms \<Rightarrow> 'v memory_log_row list \<Rightarrow> string list" where
  "audit_keys p now entries =
     map fst (filter (\<lambda>(k, r). row_listed now r \<and> regex_test p k)
       (latest_by_key (newest_first (filter (is_memory_row (first_segment p)) entries)) []))"

definition audit_backend :: "('v memory_log_row list, 'v) memory_backend" where
  "audit_backend = \<lparr>
     mb_set = \<lambda>k v ttl now entries. entries @ [memory_row ''AGENT_MEMORY_SET'' k (SetDiff (expires_at now ttl) v) now],
     mb_get = \<lambda>k now entries. (audit_get k now entries, entries),
     mb_del = \<lambda>k now entries. (if audit_get k now entries = None then 0 else 1,
       entries @ [memory_row ''AGENT_MEMORY_DELETE'' k EmptyDiff now]),
     mb_keys = \<lambda>p now entries. (audit_keys p now entries, entries)\<rparr>"

subsection \<open>Both backends keep the contract\<close>

lemma is_live_later: "is_live t e \<Longrightarrow> now \<le> t \<Longrightarrow> is_live now e"
  by (auto simp: is_live_def split: option.splits)

definition map_view :: "'v memory_map \<Rightarrow> ms \<Rightarrow> string \<Rightarrow> 'v option" where
  "map_view m t k = (case map_of m k of None \<Rightarrow> None | Some (e, v) \<Rightarrow> if is_live t e then Some v else None)"

lemma map_of_filter_distinct:
  "distinct (map fst m) \<Longrightarrow> map_of (filter P m) k =
     (case map_of m k of None \<Rightarrow> None | Some x \<Rightarrow> if P (k, x) then Some x else None)"
proof (induction m)
  case (Cons kv m)
  moreover have "map_of m (fst kv) = None" using Cons.prems by (simp add: map_of_eq_None_iff)
  ultimately show ?case by (cases kv) (auto split: option.splits)
qed simp

definition map_ok :: "'v memory_map \<Rightarrow> bool" where
  "map_ok m \<longleftrightarrow> distinct (map fst m)"

lemma map_of_sweep:
  "map_ok m \<Longrightarrow> map_option snd (map_of (sweep_expired now m) k) = map_view m now k"
  by (auto simp: sweep_expired_def map_of_filter_distinct map_view_def map_ok_def split: option.split)

lemma sweep_view: "map_ok m \<Longrightarrow> now \<le> t \<Longrightarrow> map_view (sweep_expired now m) t k = map_view m t k"
  by (auto simp: sweep_expired_def map_of_filter_distinct map_view_def map_ok_def
      dest: is_live_later split: option.split)

lemma sweep_ok: "map_ok m \<Longrightarrow> map_ok (sweep_expired now m)"
  by (auto simp: map_ok_def sweep_expired_def intro: distinct_map_filter)

lemma map_backend_simps [simp]:
  "mb_set map_backend k v ttl now m = AList.update k (expires_at now ttl, v) m"
  "mb_get map_backend k now m = (map_option snd (map_of (sweep_expired now m) k), sweep_expired now m)"
  "mb_del map_backend k now m = (if map_of m k = None then 0 else 1, AList.delete k m)"
  "mb_keys map_backend p now m = (filter (regex_test p) (map fst (sweep_expired now m)), sweep_expired now m)"
  by (simp_all add: map_backend_def)

lemma audit_backend_simps [simp]:
  "mb_set audit_backend k v ttl now es = es @ [memory_row ''AGENT_MEMORY_SET'' k (SetDiff (expires_at now ttl) v) now]"
  "mb_get audit_backend k now es = (audit_get k now es, es)"
  "mb_del audit_backend k now es = (if audit_get k now es = None then 0 else 1,
       es @ [memory_row ''AGENT_MEMORY_DELETE'' k EmptyDiff now])"
  "mb_keys audit_backend p now es = (audit_keys p now es, es)"
  by (simp_all add: audit_backend_def)

text \<open>What the log says of a key: its latest entry.\<close>

definition entries_of :: "string \<Rightarrow> 'v memory_log_row list \<Rightarrow> 'v memory_log_row list" where
  "entries_of k es = filter (\<lambda>r. is_memory_row (first_segment k) r \<and> al_entity_id r = k) es"

definition audit_fresh :: "'v memory_log_row list \<Rightarrow> ms \<Rightarrow> string \<Rightarrow> bool" where
  "audit_fresh es t k \<longleftrightarrow> (\<forall>r \<in> set (entries_of k es). al_created_at r < t)"

definition audit_ok :: "'v memory_log_row list \<Rightarrow> bool" where
  "audit_ok es \<longleftrightarrow> (\<forall>r \<in> set es. \<forall>tenant. is_memory_row tenant r \<longrightarrow>
     tenant = first_segment (al_entity_id r) \<and>
     (al_action r = ''AGENT_MEMORY_SET'' \<longrightarrow> (\<exists>e v. al_diff r = SetDiff e v)))"

lemma newest_first_append:
  "(\<And>r. r \<in> set rows \<Longrightarrow> al_created_at r < al_created_at y) \<Longrightarrow> newest_first (rows @ [y]) = y # newest_first rows"
proof (unfold newest_first_def, induction rows)
  case (Cons r rows)
  then have "sort_key (\<lambda>r. - al_created_at r) (rows @ [y]) = y # sort_key (\<lambda>r. - al_created_at r) rows" by simp
  then show ?case using Cons.prems[of r] by simp
qed simp

lemma audit_get_alt: "audit_get k now es = (case newest_first (entries_of k es) of [] \<Rightarrow> None | r # _ \<Rightarrow> row_value now r)"
  by (simp add: audit_get_def entries_of_def)

lemma entries_of_append:
  "entries_of k' (es @ [memory_row a k d now]) = entries_of k' es @
     (if k' = k \<and> a \<in> {''AGENT_MEMORY_SET'', ''AGENT_MEMORY_DELETE''} then [memory_row a k d now] else [])"
  by (auto simp: entries_of_def is_memory_row_def memory_row_def)

lemma audit_get_append:
  assumes "audit_fresh es now k" and "a \<in> {''AGENT_MEMORY_SET'', ''AGENT_MEMORY_DELETE''}"
  shows "audit_get k' t (es @ [memory_row a k d now]) =
    (if k' = k then row_value t (memory_row a k d now) else audit_get k' t es)"
proof -
  have "newest_first (entries_of k es @ [memory_row a k d now]) = memory_row a k d now # newest_first (entries_of k es)"
    by (rule newest_first_append) (use assms(1) in \<open>auto simp: audit_fresh_def memory_row_def\<close>)
  with assms(2) show ?thesis by (auto simp: audit_get_alt entries_of_append)
qed

lemma row_value_memory:
  "row_value t (memory_row ''AGENT_MEMORY_SET'' k (SetDiff e v) now) = (if is_live t e then Some v else None)"
  "row_value t (memory_row ''AGENT_MEMORY_DELETE'' k EmptyDiff now) = None"
  by (simp_all add: row_value_def memory_row_def read_audit_memory_payload_def)

lemma audit_ok_append:
  "audit_ok es \<Longrightarrow> audit_ok (es @ [memory_row ''AGENT_MEMORY_SET'' k (SetDiff e v) now])"
  "audit_ok es \<Longrightarrow> audit_ok (es @ [memory_row ''AGENT_MEMORY_DELETE'' k EmptyDiff now])"
  by (auto simp: audit_ok_def is_memory_row_def memory_row_def)

lemma memory_row_created: "al_created_at (memory_row a k d now) = now"
  by (simp add: memory_row_def)

lemma audit_fresh_append:
  "audit_fresh es t k' \<Longrightarrow> (k' = k \<longrightarrow> now < t) \<Longrightarrow> audit_fresh (es @ [memory_row a k d now]) t k'"
  by (auto simp: audit_fresh_def entries_of_append memory_row_created)

lemma find_hd_filter: "List.find P xs = (case filter P xs of [] \<Rightarrow> None | x # _ \<Rightarrow> Some x)"
  by (induction xs) auto

lemma map_of_latest: "map_of (latest_by_key rs m) k = or_opt (map_of m k) (List.find (\<lambda>r. al_entity_id r = k) rs)"
  by (induction rs arbitrary: m) (auto simp: or_opt_def split: option.splits)

lemma distinct_latest: "distinct (map fst m) \<Longrightarrow> distinct (map fst (latest_by_key rs m))"
  by (induction rs arbitrary: m) (auto intro: distinct_update)

definition exact_pattern :: "string \<Rightarrow> bool" where
  "exact_pattern p \<longleftrightarrow> (\<exists>t ps. p = t @ CHR '':'' # ps \<and> CHR '':'' \<notin> set t \<and> CHR ''*'' \<notin> set t)"

lemma first_segment_append: "CHR '':'' \<notin> set t \<Longrightarrow> first_segment (t @ CHR '':'' # ps) = t"
proof -
  assume "CHR '':'' \<notin> set t"
  then have "split_on CHR '':'' (t @ CHR '':'' # ps) = t # split_on CHR '':'' ps"
    by (induction t) auto
  then show ?thesis by (simp add: first_segment_def)
qed

lemma regex_test_literal:
  "CHR ''*'' \<notin> set t \<Longrightarrow> regex_test (t @ ps) k \<longleftrightarrow> (\<exists>r. k = t @ r \<and> regex_test ps r)"
proof (induction t arbitrary: k)
  case (Cons c t)
  then show ?case by (cases k) auto
qed simp

lemma exact_first_segment:
  assumes "exact_pattern p" and "regex_test p k"
  shows "first_segment k = first_segment p"
proof -
  from assms(1) obtain t ps where p: "p = t @ CHR '':'' # ps" and t: "CHR '':'' \<notin> set t" "CHR ''*'' \<notin> set t"
    by (auto simp: exact_pattern_def)
  from assms(2) obtain r where "k = t @ r" "regex_test (CHR '':'' # ps) r"
    by (auto simp: p regex_test_literal[OF t(2)])
  then obtain r' where "k = t @ CHR '':'' # r'" by (cases r) auto
  then show ?thesis by (simp add: p first_segment_append[OF t(1)])
qed

lemma audit_keys_mem:
  assumes ok: "audit_ok es" and exact: "exact_pattern p"
  shows "k \<in> set (audit_keys p now es) \<longleftrightarrow> audit_get k now es \<noteq> None \<and> regex_test p k"
proof (cases "regex_test p k")
  case False
  then show ?thesis by (auto simp: audit_keys_def)
next
  case True
  let ?rows = "newest_first (filter (is_memory_row (first_segment p)) es)"
  have entries: "entries_of k es = filter (\<lambda>r. al_entity_id r = k) (filter (is_memory_row (first_segment p)) es)"
    using exact_first_segment[OF exact True] by (auto simp: entries_of_def intro: filter_cong)
  have "List.find (\<lambda>r. al_entity_id r = k) ?rows = (case newest_first (entries_of k es) of [] \<Rightarrow> None | x # _ \<Rightarrow> Some x)"
    by (simp add: find_hd_filter newest_first_def filter_sort entries)
  then have m: "map_of (latest_by_key ?rows []) k = (case newest_first (entries_of k es) of [] \<Rightarrow> None | x # _ \<Rightarrow> Some x)"
    by (simp add: map_of_latest)
  have listed: "row_listed now r \<longleftrightarrow> row_value now r \<noteq> None" if r: "r \<in> set (newest_first (entries_of k es))" for r
  proof -
    from r have mem: "r \<in> set es" "is_memory_row (first_segment k) r" by (auto simp: newest_first_def entries_of_def)
    with ok have "al_action r \<noteq> ''AGENT_MEMORY_DELETE'' \<Longrightarrow> \<exists>e v. al_diff r = SetDiff e v"
      by (auto simp: audit_ok_def is_memory_row_def)
    then show ?thesis by (auto simp: row_listed_def row_value_def read_audit_memory_payload_def split: memory_log_diff.split)
  qed
  have "distinct (map fst (latest_by_key ?rows []))" by (rule distinct_latest) simp
  then have "k \<in> set (audit_keys p now es) \<longleftrightarrow> (\<exists>r. map_of (latest_by_key ?rows []) k = Some r \<and> row_listed now r)"
    using True by (force simp: audit_keys_def)
  also have "\<dots> \<longleftrightarrow> audit_get k now es \<noteq> None"
    using listed by (auto simp: m audit_get_alt split: list.split)
  finally show ?thesis using True by simp
qed

lemma map_keys_mem:
  assumes "map_ok m"
  shows "distinct (filter (regex_test p) (map fst (sweep_expired now m)))"
    and "set (filter (regex_test p) (map fst (sweep_expired now m))) = {k. map_view m now k \<noteq> None \<and> regex_test p k}"
proof -
  show "distinct (filter (regex_test p) (map fst (sweep_expired now m)))"
    using sweep_ok[OF assms, of now] by (simp add: map_ok_def)
  have "k \<in> fst ` set (sweep_expired now m) \<longleftrightarrow> map_view m now k \<noteq> None" for k
    unfolding map_of_sweep[OF assms, symmetric] by (simp add: map_of_eq_None_iff)
  then show "set (filter (regex_test p) (map fst (sweep_expired now m))) = {k. map_view m now k \<noteq> None \<and> regex_test p k}"
    by auto
qed

lemma audit_keys_distinct: "distinct (audit_keys p now es)"
  by (simp add: audit_keys_def distinct_map_filter distinct_latest)

lemma map_view_set:
  "map_view (AList.update k (e, v) m) t k' = (if k' = k then (if is_live t e then Some v else None) else map_view m t k')"
  "map_view (AList.delete k m) t k' = (if k' = k then None else map_view m t k')"
  by (auto simp: map_view_def delete_conv')

lemma map_ok_set: "map_ok m \<Longrightarrow> map_ok (AList.update k x m)" "map_ok m \<Longrightarrow> map_ok (AList.delete k m)"
  by (auto simp: map_ok_def intro: distinct_update distinct_delete)

interpretation map_memory: expiring_memory map_backend map_ok "\<lambda>_ _ _. True" map_view "\<lambda>_. True"
proof unfold_locales
  fix m :: "'a memory_map" and p now
  assume "map_ok m"
  from map_keys_mem[OF this] show "distinct (fst (mb_keys map_backend p now m)) \<and>
      set (fst (mb_keys map_backend p now m)) = {k. map_view m now k \<noteq> None \<and> regex_test p k}" by simp
qed (simp_all add: map_of_sweep sweep_view sweep_ok map_view_set map_ok_set)

interpretation audit_memory: expiring_memory audit_backend audit_ok audit_fresh "\<lambda>es t k. audit_get k t es" exact_pattern
proof unfold_locales
  fix es :: "'a memory_log_row list" and p now
  assume "audit_ok es" "exact_pattern p"
  from audit_keys_mem[OF this] show "distinct (fst (mb_keys audit_backend p now es)) \<and>
      set (fst (mb_keys audit_backend p now es)) = {k. audit_get k now es \<noteq> None \<and> regex_test p k}"
    by (auto simp: audit_keys_distinct)
qed (auto simp: audit_ok_append audit_fresh_append audit_get_append row_value_memory)

subsection \<open>Conversations\<close>

datatype conversation_role = RoleAssistant | RoleSystem | RoleTool | RoleUser

record conversation_message =
  msg_role :: conversation_role
  msg_content :: string
  msg_created_at :: ms

record conversation_context =
  con_session_id :: string
  con_messages :: "conversation_message list"
  con_metadata :: js_val
  con_updated_at :: ms

record learning_record =
  lr_id :: string
  lr_tenant_id :: string
  lr_source_agent_id :: string
  lr_lesson_type :: string
  lr_summary :: string
  lr_evidence :: "string list"
  lr_confidence :: rat
  lr_keywords :: "string list"
  lr_applies_to :: "string list"
  lr_approved :: bool
  lr_created_at :: ms

datatype memory_text = ContextText conversation_context | LearningText learning_record | ValueText js_val

definition default_token_budget :: int where
  "default_token_budget = 8000"

definition estimate_token_count :: "string \<Rightarrow> int" where
  "estimate_token_count s = (int (length s) + 3) div 4"

text \<open>\<open>messages.find\<close> of the system message, and the filter that leaves that object out.\<close>

fun without_system :: "conversation_message list \<Rightarrow> conversation_message list" where
  "without_system [] = []"
| "without_system (m # ms) = (if msg_role m = RoleSystem then ms else m # without_system ms)"

fun select_recent :: "(string \<Rightarrow> int) \<Rightarrow> int \<Rightarrow> int \<Rightarrow> conversation_message list \<Rightarrow>
    conversation_message list \<Rightarrow> conversation_message list" where
  "select_recent est budget current [] selected = selected"
| "select_recent est budget current (m # ms) selected =
     (if budget < current + est (msg_content m) \<and> selected \<noteq> [] then selected
      else select_recent est budget (current + est (msg_content m)) ms (selected @ [m]))"

definition compress_conversation_messages :: "(string \<Rightarrow> int) \<Rightarrow> int \<Rightarrow> conversation_message list \<Rightarrow>
    conversation_message list" where
  "compress_conversation_messages est token_budget messages =
     (if length messages \<le> 1 then messages
      else
        let budget = max 1 token_budget;
            system = List.find (\<lambda>m. msg_role m = RoleSystem) messages;
            current = (case system of None \<Rightarrow> 0 | Some m \<Rightarrow> est (msg_content m));
            ordered = rev (select_recent est budget current (rev (without_system messages)) [])
        in case system of None \<Rightarrow> ordered | Some m \<Rightarrow> m # ordered)"

end
