(* ===== verification/MemoryService.thy ===== *)
theory MemoryService
  imports AgentMemory
begin

text \<open>
  \<open>AgentMemoryService\<close> (\<open>packages/agents-core/src/memory/memoryService.ts\<close>) over any backend. One
  reading of the clock serves a call. The casts of the code are unchecked; a text of another type
  under the key of a conversation or a learning record reads as none here.
\<close>

definition on_backend :: "('s \<Rightarrow> 'a \<times> 's) \<Rightarrow> ('s, 'a) operation" where
  "on_backend f s = (case f s of (a, s') \<Rightarrow> (Inr a, s'))"

definition blank :: "string \<Rightarrow> bool" where
  "blank s \<longleftrightarrow> js_trim s = []"

definition namespaced :: "string \<Rightarrow> string \<Rightarrow> string \<Rightarrow> string" where
  "namespaced tenant agent key = tenant @ CHR '':'' # agent @ CHR '':'' # key"

definition build_namespaced_key :: "string \<Rightarrow> string \<Rightarrow> string \<Rightarrow> api_error + string" where
  "build_namespaced_key tenant agent key =
     (if blank tenant \<or> blank agent \<or> blank key then
        Inl (Failure ''tenantId, agentId and memoryKey are mandatory'')
      else Inr (namespaced tenant agent key))"

definition build_shared_learning_key :: "string \<Rightarrow> string \<Rightarrow> api_error + string" where
  "build_shared_learning_key tenant key =
     (if blank tenant \<or> blank key then Inl (Failure ''tenantId and memoryKey are mandatory'')
      else Inr (namespaced tenant ''shared-learning'' key))"

definition with_key :: "api_error + string \<Rightarrow> (string \<Rightarrow> ('s, 'a) operation) \<Rightarrow> ('s, 'a) operation" where
  "with_key k f = (case k of Inl e \<Rightarrow> throw e | Inr key \<Rightarrow> f key)"

definition memory_store :: "('s, 'v) memory_backend \<Rightarrow> ms \<Rightarrow> string \<Rightarrow> string \<Rightarrow> string \<Rightarrow> 'v \<Rightarrow> int option \<Rightarrow>
    ('s, string) operation" where
  "memory_store B now tenant agent key v ttl =
     with_key (build_namespaced_key tenant agent key) (\<lambda>k.
       on_backend (\<lambda>s. (k, mb_set B k v ttl now s)))"

definition memory_get :: "('s, 'v) memory_backend \<Rightarrow> ms \<Rightarrow> string \<Rightarrow> string \<Rightarrow> string \<Rightarrow> ('s, 'v option) operation" where
  "memory_get B now tenant agent key =
     with_key (build_namespaced_key tenant agent key) (\<lambda>k. on_backend (mb_get B k now))"

definition memory_delete :: "('s, 'v) memory_backend \<Rightarrow> ms \<Rightarrow> string \<Rightarrow> string \<Rightarrow> string \<Rightarrow> ('s, nat) operation" where
  "memory_delete B now tenant agent key =
     with_key (build_namespaced_key tenant agent key) (\<lambda>k. on_backend (mb_del B k now))"

definition list_by_agent :: "('s, 'v) memory_backend \<Rightarrow> ms \<Rightarrow> string \<Rightarrow> string \<Rightarrow> ('s, string list) operation" where
  "list_by_agent B now tenant agent = on_backend (mb_keys B (namespaced tenant agent ''*'') now)"

fun delete_keys :: "('s, 'v) memory_backend \<Rightarrow> ms \<Rightarrow> string list \<Rightarrow> 's \<Rightarrow> nat \<times> 's" where
  "delete_keys B now [] s = (0, s)"
| "delete_keys B now (k # ks) s =
     (let (n, s1) = mb_del B k now s; (m, s2) = delete_keys B now ks s1 in (n + m, s2))"

definition clear_by_agent :: "('s, 'v) memory_backend \<Rightarrow> ms \<Rightarrow> string \<Rightarrow> string \<Rightarrow> ('s, nat) operation" where
  "clear_by_agent B now tenant agent =
     then_do (list_by_agent B now tenant agent) (\<lambda>ks. on_backend (delete_keys B now ks))"

definition conversation_key :: "string \<Rightarrow> string" where
  "conversation_key session = ''conversation:'' @ session"

definition clear_by_session :: "('s, 'v) memory_backend \<Rightarrow> ms \<Rightarrow> string \<Rightarrow> string \<Rightarrow> string \<Rightarrow> ('s, nat) operation" where
  "clear_by_session B now tenant agent session =
     then_do (on_backend (mb_keys B (namespaced tenant agent (conversation_key session @ ''*'')) now)) (\<lambda>ks.
       on_backend (delete_keys B now ks))"

definition clear_by_tenant :: "('s, 'v) memory_backend \<Rightarrow> ms \<Rightarrow> string \<Rightarrow> ('s, nat) operation" where
  "clear_by_tenant B now tenant =
     then_do (on_backend (mb_keys B (tenant @ '':*'') now)) (\<lambda>ks. on_backend (delete_keys B now ks))"

subsection \<open>Shared learning\<close>

definition publish_shared_learning :: "('s, memory_text) memory_backend \<Rightarrow> ms \<Rightarrow> string \<Rightarrow> learning_record \<Rightarrow>
    int option \<Rightarrow> ('s, string) operation" where
  "publish_shared_learning B now tenant r ttl =
     with_key (build_shared_learning_key tenant (lr_id r @ CHR '':'' # lr_source_agent_id r)) (\<lambda>k.
       on_backend (\<lambda>s. (k, mb_set B k (LearningText r) ttl now s)))"

definition as_learning :: "memory_text option \<Rightarrow> learning_record option" where
  "as_learning v = (case v of Some (LearningText r) \<Rightarrow> Some r | _ \<Rightarrow> None)"

definition get_shared_learning :: "('s, memory_text) memory_backend \<Rightarrow> ms \<Rightarrow> string \<Rightarrow> string \<Rightarrow>
    ('s, learning_record option) operation" where
  "get_shared_learning B now tenant key =
     with_key (build_shared_learning_key tenant key) (\<lambda>k.
       then_do (on_backend (mb_get B k now)) (\<lambda>v. give (as_learning v)))"

fun get_all :: "('s, 'v) memory_backend \<Rightarrow> ms \<Rightarrow> string list \<Rightarrow> 's \<Rightarrow> 'v option list \<times> 's" where
  "get_all B now [] s = ([], s)"
| "get_all B now (k # ks) s = (let (v, s1) = mb_get B k now s; (vs, s2) = get_all B now ks s1 in (v # vs, s2))"

definition list_shared_learning :: "('s, memory_text) memory_backend \<Rightarrow> ms \<Rightarrow> string \<Rightarrow>
    ('s, learning_record list) operation" where
  "list_shared_learning B now tenant =
     with_key (build_shared_learning_key tenant ''*'') (\<lambda>p.
       then_do (on_backend (mb_keys B p now)) (\<lambda>ks.
       then_do (on_backend (get_all B now ks)) (\<lambda>vs.
         give (sort_key (\<lambda>r. - lr_created_at r) (List.map_filter as_learning vs)))))"

record learning_query =
  lq_approved_only :: bool
  lq_keywords :: "string list"
  lq_minimum_confidence :: rat

definition learning_matches :: "learning_query \<Rightarrow> learning_record \<Rightarrow> bool" where
  "learning_matches q r =
     (if lq_approved_only q \<and> \<not> lr_approved r then False
      else if lr_confidence r < lq_minimum_confidence q then False
      else let keywords = map (js_lower \<circ> js_trim) (lq_keywords q)
           in keywords = [] \<or> list_ex (\<lambda>k. js_lower (js_trim k) \<in> set keywords) (lr_keywords r))"

definition query_shared_learning :: "('s, memory_text) memory_backend \<Rightarrow> ms \<Rightarrow> string \<Rightarrow> learning_query \<Rightarrow>
    ('s, learning_record list) operation" where
  "query_shared_learning B now tenant q =
     then_do (list_shared_learning B now tenant) (\<lambda>rs. give (filter (learning_matches q) rs))"

subsection \<open>Conversations\<close>

record conversation_options =
  co_metadata :: "js_val option"
  co_token_budget :: "int option"
  co_ttl_seconds :: "int option"

definition upsert_conversation_context :: "('s, memory_text) memory_backend \<Rightarrow> ms \<Rightarrow> string \<Rightarrow> string \<Rightarrow>
    conversation_context \<Rightarrow> conversation_options \<Rightarrow> ('s, conversation_context) operation" where
  "upsert_conversation_context B now tenant agent c opts =
     (let c' = c\<lparr>con_messages := compress_conversation_messages estimate_token_count
                  (or_else (co_token_budget opts) default_token_budget) (con_messages c),
                 con_updated_at := now\<rparr>
      in then_do (memory_store B now tenant agent (conversation_key (con_session_id c)) (ContextText c')
           (co_ttl_seconds opts)) (\<lambda>_. give c'))"

definition as_context :: "memory_text option \<Rightarrow> conversation_context option" where
  "as_context v = (case v of Some (ContextText c) \<Rightarrow> Some c | _ \<Rightarrow> None)"

definition get_conversation_context :: "('s, memory_text) memory_backend \<Rightarrow> ms \<Rightarrow> string \<Rightarrow> string \<Rightarrow> string \<Rightarrow>
    ('s, conversation_context option) operation" where
  "get_conversation_context B now tenant agent session =
     then_do (memory_get B now tenant agent (conversation_key session)) (\<lambda>v. give (as_context v))"

definition append_conversation_message :: "('s, memory_text) memory_backend \<Rightarrow> ms \<Rightarrow> string \<Rightarrow> string \<Rightarrow> string \<Rightarrow>
    conversation_role \<Rightarrow> string \<Rightarrow> ms option \<Rightarrow> conversation_options \<Rightarrow> ('s, conversation_context) operation" where
  "append_conversation_message B now tenant agent session role content created opts =
     then_do (get_conversation_context B now tenant agent session) (\<lambda>found.
     let current = or_else found \<lparr>con_session_id = session, con_messages = [],
           con_metadata = or_else (co_metadata opts) (JObj []), con_updated_at = now\<rparr>;
         m = \<lparr>msg_role = role, msg_content = content, msg_created_at = or_else created now\<rparr>
     in upsert_conversation_context B now tenant agent
          (current\<lparr>con_metadata := or_else (co_metadata opts) (con_metadata current),
             con_messages := con_messages current @ [m], con_updated_at := now\<rparr>) opts)"

subsection \<open>Over any backend\<close>

lemma colon_cut:
  "CHR '':'' \<notin> set x \<Longrightarrow> CHR '':'' \<notin> set x' \<Longrightarrow>
     x @ CHR '':'' # y = x' @ CHR '':'' # y' \<longleftrightarrow> x = x' \<and> y = y'"
proof (induction x arbitrary: x')
  case Nil
  then show ?case by (cases x') auto
next
  case (Cons c x)
  then show ?case by (cases x') auto
qed

lemma namespaced_inject:
  assumes "CHR '':'' \<notin> set t" "CHR '':'' \<notin> set t'" "CHR '':'' \<notin> set a" "CHR '':'' \<notin> set a'"
  shows "namespaced t a k = namespaced t' a' k' \<longleftrightarrow> t = t' \<and> a = a' \<and> k = k'"
proof -
  show ?thesis
    unfolding namespaced_def colon_cut[OF assms(1,2)] colon_cut[OF assms(3,4)] by simp
qed

datatype 'v memory_call = SetCall string 'v "int option" ms | DelCall string ms

fun call_time :: "'v memory_call \<Rightarrow> ms" where
  "call_time (SetCall k v ttl t) = t"
| "call_time (DelCall k t) = t"

fun call_key :: "'v memory_call \<Rightarrow> string" where
  "call_key (SetCall k v ttl t) = k"
| "call_key (DelCall k t) = k"

fun run_calls :: "('s, 'v) memory_backend \<Rightarrow> 'v memory_call list \<Rightarrow> 's \<Rightarrow> 's" where
  "run_calls B [] s = s"
| "run_calls B (SetCall k v ttl t # cs) s = run_calls B cs (mb_set B k v ttl t s)"
| "run_calls B (DelCall k t # cs) s = run_calls B cs (snd (mb_del B k t s))"

text \<open>What a key holds after a sequence of calls, by the last call that names it.\<close>

fun last_value :: "ms \<Rightarrow> string \<Rightarrow> 'v memory_call list \<Rightarrow> 'v option \<Rightarrow> 'v option" where
  "last_value now k [] v = v"
| "last_value now k (SetCall k' x ttl t # cs) v =
     last_value now k cs (if k' = k then (if is_live now (expires_at t ttl) then Some x else None) else v)"
| "last_value now k (DelCall k' t # cs) v = last_value now k cs (if k' = k then None else v)"

context expiring_memory begin

lemma run_calls_view:
  "sorted_wrt (<) (map call_time cs) \<Longrightarrow> (\<And>c. c \<in> set cs \<Longrightarrow> call_time c \<le> now) \<Longrightarrow>
   (\<And>c k. c \<in> set cs \<Longrightarrow> fresh s (call_time c) k) \<Longrightarrow>
   view (run_calls B cs s) now k = last_value now k cs (view s now k)"
proof (induction cs arbitrary: s)
  case (Cons c cs)
  have later: "call_time c < call_time c'" if "c' \<in> set cs" for c'
    using Cons.prems(1) that by auto
  show ?case
  proof (cases c)
    case (SetCall k' v ttl t)
    have f: "fresh (mb_set B k' v ttl t s) (call_time c') q" if "c' \<in> set cs" for c' q
      using set_keeps(2)[OF Cons.prems(3)[of c' q]] that later[OF that] SetCall by auto
    have "view (mb_set B k' v ttl t s) now k =
        (if k = k' then (if is_live now (expires_at t ttl) then Some v else None) else view s now k)"
      using set_view[of s t k' now v ttl k] Cons.prems(2,3)[of c] SetCall by auto
    with Cons.IH[OF _ _ f] Cons.prems SetCall show ?thesis by auto
  next
    case (DelCall k' t)
    have f: "fresh (snd (mb_del B k' t s)) (call_time c') q" if "c' \<in> set cs" for c' q
      using del_keeps(2)[OF Cons.prems(3)[of c' q]] that later[OF that] DelCall by auto
    have "view (snd (mb_del B k' t s)) now k = (if k = k' then None else view s now k)"
      using del_view[of s t k' now k] Cons.prems(2,3)[of c] DelCall by auto
    with Cons.IH[OF _ _ f] Cons.prems DelCall show ?thesis by auto
  qed
qed simp

lemma run_calls_ok: "ok s \<Longrightarrow> ok (run_calls B cs s)"
proof (induction cs arbitrary: s)
  case (Cons c cs)
  then show ?case by (cases c) (simp_all add: set_keeps del_keeps)
qed simp

text \<open>What the service stores is read back, and no other key of a colon-free tenant and agent moves.\<close>

lemma store_then_get:
  assumes "memory_store B now tenant agent key v ttl s = (Inr k, s')" and "ok s" and "fresh s now k" and "now \<le> t"
    and "CHR '':'' \<notin> set tenant" "CHR '':'' \<notin> set tenant'" "CHR '':'' \<notin> set agent" "CHR '':'' \<notin> set agent'"
    and "\<not> blank tenant'" "\<not> blank agent'" "\<not> blank key'"
  shows "fst (memory_get B t tenant' agent' key' s') =
    (if tenant' = tenant \<and> agent' = agent \<and> key' = key
     then Inr (if is_live t (expires_at now ttl) then Some v else None)
     else fst (memory_get B t tenant' agent' key' s))"
proof -
  from assms(1) have k: "k = namespaced tenant agent key" and s': "s' = mb_set B k v ttl now s"
    by (auto simp: memory_store_def with_key_def build_namespaced_key_def on_backend_def split: sum.splits if_splits)
  have get: "fst (memory_get B t tenant' agent' key' x) = Inr (view x t (namespaced tenant' agent' key'))" if "ok x" for x
    using assms(9-11) get_view[OF that]
    by (simp add: memory_get_def with_key_def build_namespaced_key_def on_backend_def case_prod_beta)
  show ?thesis
    unfolding get[OF assms(2)] s' get[OF set_keeps(1)[OF assms(2)]] set_view[OF assms(3,4)]
    using namespaced_inject[OF assms(6,5,8,7), of key' key] by (simp add: k)
qed

lemma delete_keys_view:
  "distinct ks \<Longrightarrow> (\<And>k. k \<in> set ks \<Longrightarrow> fresh s now k) \<Longrightarrow> now \<le> t \<Longrightarrow>
     view (snd (delete_keys B now ks s)) t k = (if k \<in> set ks then None else view s t k)"
proof (induction ks arbitrary: s)
  case (Cons a ks)
  have "fresh (snd (mb_del B a now s)) now q" if "q \<in> set ks" for q
    using del_keeps(2)[OF Cons.prems(2)[of q], of a now] Cons.prems(1) that by auto
  with Cons.IH[of "snd (mb_del B a now s)"] Cons.prems del_view[of s now a t k] show ?case
    by (auto simp: case_prod_beta Let_def)
qed simp

lemma delete_keys_ok: "ok s \<Longrightarrow> ok (snd (delete_keys B now ks s))"
  by (induction ks arbitrary: s) (auto simp: case_prod_beta Let_def del_keeps)

text \<open>A clear by pattern forgets exactly what the pattern matches.\<close>

lemma clear_pattern_view:
  assumes "ok s" and "exact p" and "\<And>k. fresh s now k" and "now \<le> t"
    and "on_backend (mb_keys B p now) s = (Inr ks, s1)"
  shows "view (snd (delete_keys B now ks s1)) t k =
    (if regex_test p k \<and> view s now k \<noteq> None then None else view s t k)"
proof -
  from assms(5) have ks: "ks = fst (mb_keys B p now s)" and s1: "s1 = snd (mb_keys B p now s)"
    by (auto simp: on_backend_def split: prod.splits)
  have "distinct ks" "set ks = {k. view s now k \<noteq> None \<and> regex_test p k}"
    using keys_view[OF assms(1,2), of now] by (simp_all add: ks)
  moreover have "fresh s1 now q" for q unfolding s1 by (rule keys_keeps(2)[OF assms(3)])
  moreover have "view s1 t k = view s t k" unfolding s1 by (rule keys_keeps(3)[OF assms(1,4)])
  ultimately show ?thesis using delete_keys_view[of ks s1 now t k] assms(4) by auto
qed

end

end
