(* ===== verification/MemoryCorrect.thy ===== *)
theory MemoryCorrect
  imports MemoryService
begin

text \<open>
  The properties of the memory of the agents: the audit log is a faithful map with expiry, an agent
  cannot reach what another has stored, what a clear forgets, and what the compression of a
  conversation keeps.
\<close>

subsection \<open>The audit log as a map\<close>

text \<open>
  The audit log is a map with expiry: after any sequence of writes and deletes, taken
  one after the other, a key answers what the last call that names it left there, until it expires,
  and this is also what the backend in the process answers.
\<close>

theorem audit_log_refines_map:
  assumes "sorted_wrt (<) (map call_time cs)" and "\<forall>c \<in> set cs. call_time c \<le> now"
  shows "fst (mb_get audit_backend k now (run_calls audit_backend cs [])) = last_value now k cs None \<and>
    fst (mb_get map_backend k now (run_calls map_backend cs [])) = last_value now k cs None"
proof
  have "audit_get k now (run_calls audit_backend cs []) = last_value now k cs (audit_get k now [])"
    using assms by (intro audit_memory.run_calls_view) (auto simp: audit_fresh_def entries_of_def)
  then show "fst (mb_get audit_backend k now (run_calls audit_backend cs [])) = last_value now k cs None"
    by (simp add: audit_get_alt entries_of_def newest_first_def)
  have "map_ok (run_calls map_backend cs [])" by (rule map_memory.run_calls_ok) (simp add: map_ok_def)
  moreover have "map_view (run_calls map_backend cs []) now k = last_value now k cs (map_view [] now k)"
    using assms by (intro map_memory.run_calls_view) auto
  ultimately show "fst (mb_get map_backend k now (run_calls map_backend cs [])) = last_value now k cs None"
    by (simp add: map_of_sweep map_view_def)
qed

definition sample_calls :: "js_val memory_call list" where
  "sample_calls = [SetCall ''t:a:k'' (JBool True) None 10, SetCall ''t:a:l'' (JBool True) (Some 1) 20,
     SetCall ''t:a:k'' (JBool False) None 30, DelCall ''t:a:m'' 40]"

lemma audit_log_refines_map_witness:
  "fst (mb_get audit_backend ''t:a:k'' 1000 (run_calls audit_backend sample_calls [])) = Some (JBool False) \<and>
   fst (mb_get audit_backend ''t:a:l'' 1020 (run_calls audit_backend sample_calls [])) = None"
  using audit_log_refines_map[of sample_calls 1000 "''t:a:k''"] audit_log_refines_map[of sample_calls 1020 "''t:a:l''"]
  by (simp add: sample_calls_def is_live_def expires_at_def)

subsection \<open>Isolation\<close>

text \<open>
  What an agent stores is what it reads back until it expires, and no other tenant, no
  other agent and no other key of the same agent sees a difference.
\<close>

theorem agent_memory_isolated:
  assumes "memory_store audit_backend now tenant agent key v ttl s = (Inr k, s')"
    and "audit_ok s" and "audit_fresh s now k" and "now \<le> t"
    and "CHR '':'' \<notin> set tenant" "CHR '':'' \<notin> set tenant'" "CHR '':'' \<notin> set agent" "CHR '':'' \<notin> set agent'"
    and "\<not> blank tenant'" "\<not> blank agent'" "\<not> blank key'"
  shows "fst (memory_get audit_backend t tenant' agent' key' s') =
    (if tenant' = tenant \<and> agent' = agent \<and> key' = key
     then Inr (if is_live t (expires_at now ttl) then Some v else None)
     else fst (memory_get audit_backend t tenant' agent' key' s))"
  by (rule audit_memory.store_then_get[OF assms])

definition stored_log :: "js_val memory_log_row list" where
  "stored_log = snd (memory_store audit_backend 10 ''t1'' ''a'' ''k'' (JBool True) None [])"

lemma agent_memory_isolated_witness:
  "fst (memory_get audit_backend 20 ''t1'' ''a'' ''k'' stored_log) = Inr (Some (JBool True)) \<and>
   fst (memory_get audit_backend 20 ''t2'' ''a'' ''k'' stored_log) = Inr None"
proof -
  have run: "memory_store audit_backend 10 ''t1'' ''a'' ''k'' (JBool True) None [] = (Inr ''t1:a:k'', stored_log)"
    unfolding stored_log_def by code_simp
  have empty: "audit_ok ([] :: js_val memory_log_row list)" "audit_fresh ([] :: js_val memory_log_row list) 10 ''t1:a:k''"
    by (simp_all add: audit_ok_def audit_fresh_def entries_of_def)
  have names: "\<not> blank ''t1''" "\<not> blank ''t2''" "\<not> blank ''a''" "\<not> blank ''k''" by code_simp+
  have none: "fst (memory_get audit_backend 20 ''t2'' ''a'' ''k'' ([] :: js_val memory_log_row list)) = Inr None"
    by code_simp
  show ?thesis
    using agent_memory_isolated[OF run empty, of 20 "''t1''" "''a''" "''k''"]
      agent_memory_isolated[OF run empty, of 20 "''t2''" "''a''" "''k''"] names none
    by (simp add: is_live_def expires_at_def)
qed

subsection \<open>Clearing a session\<close>

lemma regex_test_prefix: "one_line rest \<Longrightarrow> regex_test (p @ ''*'') (p @ rest)"
proof (induction p)
  case Nil
  then show ?case by (auto simp: regex_test_star)
next
  case (Cons c p)
  then have rest: "regex_test (p @ ''*'') (p @ rest)" by simp
  show ?case
  proof (cases "c = CHR ''*''")
    case True
    have one: "one_line [CHR ''*'']" by (simp add: line_terminator_def)
    have "\<exists>g t. CHR ''*'' # p @ rest = g @ t \<and> one_line g \<and> regex_test (p @ ''*'') t"
      by (rule exI[of _ "[CHR ''*'']"], rule exI[of _ "p @ rest"]) (simp only: append_Cons append_Nil one rest simp_thms)
    then show ?thesis by (simp only: True append_Cons regex_test_star)
  qed (simp add: rest)
qed

text \<open>
  Clearing a session forgets every session whose name begins with its name: clearing
  the session s1 also takes the conversations of s10 and s1-other.
\<close>

theorem clear_session_takes_prefixes:
  assumes "clear_by_session audit_backend now tenant agent session s = (Inr n, s')"
    and "audit_ok s" and "\<And>k. audit_fresh s now k" and "now \<le> t"
    and "CHR '':'' \<notin> set tenant" and "CHR ''*'' \<notin> set tenant" and "one_line rest"
    and "\<not> blank tenant" and "\<not> blank agent"
  shows "fst (get_conversation_context audit_backend t tenant agent (session @ rest) s') = Inr None"
proof -
  let ?p = "namespaced tenant agent (conversation_key session @ ''*'')"
  let ?k = "namespaced tenant agent (conversation_key (session @ rest))"
  from assms(1) obtain ks s1 where keys: "on_backend (mb_keys audit_backend ?p now) s = (Inr ks, s1)"
    and s': "s' = snd (delete_keys audit_backend now ks s1)"
    by (auto simp: clear_by_session_def on_backend_def split: prod.splits)
  have exact: "exact_pattern ?p"
    using assms(5,6) unfolding exact_pattern_def namespaced_def by blast
  have match: "regex_test ?p ?k"
    using regex_test_prefix[OF assms(7), of "tenant @ CHR '':'' # agent @ CHR '':'' # ''conversation:'' @ session"]
    by (simp add: namespaced_def conversation_key_def)
  have "audit_get ?k t s' = (if regex_test ?p ?k \<and> audit_get ?k now s \<noteq> None then None else audit_get ?k t s)"
    unfolding s' by (rule audit_memory.clear_pattern_view[OF assms(2) exact assms(3,4) keys])
  moreover have "audit_get ?k t s = None" if "audit_get ?k now s = None"
    using that assms(4) is_live_later
    by (auto simp: audit_get_alt row_value_def read_audit_memory_payload_def split: list.splits prod.splits if_splits memory_log_diff.splits)
  ultimately have "audit_get ?k t s' = None" using match by auto
  moreover have "\<not> blank (conversation_key (session @ rest))"
    by (auto simp: blank_def conversation_key_def js_trim_def dropWhile_eq_Nil_conv js_space_def)
  ultimately show ?thesis
    using assms(8,9)
    by (simp add: get_conversation_context_def memory_get_def with_key_def build_namespaced_key_def then_do_def
        on_backend_def give_def as_context_def)
qed

definition two_sessions :: "memory_text memory_log_row list" where
  "two_sessions = run_calls audit_backend
     [SetCall ''t1:a:conversation:s1'' (ContextText \<lparr>con_session_id = ''s1'', con_messages = [], con_metadata = JNull, con_updated_at = 1\<rparr>) None 1,
      SetCall ''t1:a:conversation:s10'' (ContextText \<lparr>con_session_id = ''s10'', con_messages = [], con_metadata = JNull, con_updated_at = 2\<rparr>) None 2] []"

definition one_cleared :: "memory_text memory_log_row list" where
  "one_cleared = snd (clear_by_session audit_backend 5 ''t1'' ''a'' ''s1'' two_sessions)"

lemma clear_session_takes_prefixes_witness:
  "map_option con_session_id (case fst (get_conversation_context audit_backend 9 ''t1'' ''a'' ''s10'' two_sessions) of
     Inr c \<Rightarrow> c | Inl _ \<Rightarrow> None) = Some ''s10'' \<and>
   fst (get_conversation_context audit_backend 9 ''t1'' ''a'' ''s10'' one_cleared) = Inr None"
proof -
  have "fst (clear_by_session audit_backend 5 ''t1'' ''a'' ''s1'' two_sessions) = Inr 2" by code_simp
  then have run: "clear_by_session audit_backend 5 ''t1'' ''a'' ''s1'' two_sessions = (Inr 2, one_cleared)"
    by (simp add: one_cleared_def prod_eq_iff)
  have times: "list_all (\<lambda>r. al_created_at r < 5) two_sessions" by code_simp
  have fresh: "audit_fresh two_sessions 5 k" for k
    using times by (auto simp: audit_fresh_def entries_of_def list_all_iff)
  have ok: "audit_ok two_sessions"
    unfolding two_sessions_def by (rule audit_memory.run_calls_ok) (simp add: audit_ok_def)
  have names: "\<not> blank ''t1''" "\<not> blank ''a''" by code_simp+
  have before: "map_option con_session_id (case fst (get_conversation_context audit_backend 9 ''t1'' ''a'' ''s10'' two_sessions) of
     Inr c \<Rightarrow> c | Inl _ \<Rightarrow> None) = Some ''s10''" by code_simp
  have "one_line ''0''" by (simp add: line_terminator_def)
  from clear_session_takes_prefixes[OF run ok fresh _ _ _ this names, of 9] before show ?thesis by simp
qed

subsection \<open>Compression\<close>

definition tokens :: "(string \<Rightarrow> int) \<Rightarrow> conversation_message list \<Rightarrow> int" where
  "tokens est ms = sum_list (map (est \<circ> msg_content) ms)"

lemma tokens_simps [simp]: "tokens est [] = 0" "tokens est (m # ms) = est (msg_content m) + tokens est ms"
  "tokens est (xs @ ys) = tokens est xs + tokens est ys" "tokens est (rev xs) = tokens est xs"
  by (simp_all add: tokens_def rev_map[symmetric] sum_list_rev)

lemma select_recent_take:
  "\<exists>n \<le> length ms. select_recent est b cur ms sel = sel @ take n ms \<and>
     (sel = [] \<and> ms \<noteq> [] \<longrightarrow> 0 < n) \<and>
     (0 < n \<and> 1 < length sel + n \<longrightarrow> cur + tokens est (take n ms) \<le> b) \<and>
     (n < length ms \<longrightarrow> b < cur + tokens est (take (Suc n) ms))"
proof (induction ms arbitrary: cur sel)
  case (Cons m ms)
  let ?c = "cur + est (msg_content m)"
  show ?case
  proof (cases "b < ?c \<and> sel \<noteq> []")
    case True
    then show ?thesis by (intro exI[of _ 0]) auto
  next
    case False
    from Cons.IH[of ?c "sel @ [m]"] obtain n where n: "n \<le> length ms"
      "select_recent est b ?c ms (sel @ [m]) = (sel @ [m]) @ take n ms"
      "0 < n \<and> 1 < length (sel @ [m]) + n \<longrightarrow> ?c + tokens est (take n ms) \<le> b"
      "n < length ms \<longrightarrow> b < ?c + tokens est (take (Suc n) ms)" by blast
    with False show ?thesis
      by (intro exI[of _ "Suc n"]) (cases "n = 0"; auto)
  qed
qed simp

lemma compression_parts:
  assumes "2 \<le> length messages"
  shows "\<exists>old recent system.
    without_system messages = old @ recent \<and>
    compress_conversation_messages est budget messages = system @ recent \<and>
    system = (case List.find (\<lambda>m. msg_role m = RoleSystem) messages of None \<Rightarrow> [] | Some m \<Rightarrow> [m]) \<and>
    (without_system messages \<noteq> [] \<longrightarrow> recent \<noteq> []) \<and>
    (2 \<le> length recent \<longrightarrow> tokens est (system @ recent) \<le> max 1 budget) \<and>
    (old \<noteq> [] \<longrightarrow> max 1 budget < tokens est (system @ last old # recent))"
proof -
  let ?found = "List.find (\<lambda>m. msg_role m = RoleSystem) messages" and ?b = "max 1 budget"
  define system where "system = (case ?found of None \<Rightarrow> [] | Some m \<Rightarrow> [m])"
  define rest where "rest = without_system messages"
  have cur: "(case ?found of None \<Rightarrow> 0 | Some m \<Rightarrow> est (msg_content m)) = tokens est system"
    by (simp add: system_def split: option.split)
  from select_recent_take[of "rev rest" est ?b "tokens est system" "[]"] obtain n where
    n: "n \<le> length rest" "select_recent est ?b (tokens est system) (rev rest) [] = take n (rev rest)"
    "rest \<noteq> [] \<longrightarrow> 0 < n" "1 < n \<longrightarrow> tokens est system + tokens est (take n (rev rest)) \<le> ?b"
    "n < length rest \<longrightarrow> ?b < tokens est system + tokens est (take (Suc n) (rev rest))" by auto
  define old where "old = take (length rest - n) rest"
  define recent where "recent = drop (length rest - n) rest"
  have split: "rest = old @ recent" and len: "length recent = n" "length old = length rest - n"
    using n(1) by (simp_all add: old_def recent_def)
  have rec: "rev recent = take n (rev rest)" using len by (simp add: split)
  have "compress_conversation_messages est budget messages = system @ recent"
    using assms n(2) rec
    by (auto simp: compress_conversation_messages_def Let_def cur rest_def[symmetric] system_def rev_swap split: option.split)
  moreover have "?b < tokens est (system @ last old # recent)" if "old \<noteq> []"
  proof -
    define first l where "first = butlast old" and "l = last old"
    then have "old = first @ [l]" using that by simp
    then have "take (Suc n) (rev rest) = rev recent @ [last old]"
      by (simp add: split len(1)[symmetric])
    moreover have "n < length rest" using that len by (cases old) auto
    ultimately show ?thesis using n(5) by simp
  qed
  moreover have "2 \<le> length recent \<longrightarrow> tokens est (system @ recent) \<le> ?b"
    using n(4) rec[symmetric] len by simp
  moreover have "rest \<noteq> [] \<longrightarrow> recent \<noteq> []" using n(3) len by auto
  ultimately show ?thesis
    using split by (intro exI[of _ old] exI[of _ recent] exI[of _ system]) (simp add: rest_def system_def)
qed

text \<open>
  Property C30. The compression of a conversation keeps the system message and the longest run of the
  latest messages that fits the budget of tokens: the order stays, the newest message is always
  kept, one message more would not fit.
\<close>

theorem compression_keeps_recent:
  assumes "2 \<le> length messages"
  shows "\<exists>old recent system.
    without_system messages = old @ recent \<and>
    compress_conversation_messages est budget messages = system @ recent \<and>
    system = (case List.find (\<lambda>m. msg_role m = RoleSystem) messages of None \<Rightarrow> [] | Some m \<Rightarrow> [m]) \<and>
    (without_system messages \<noteq> [] \<longrightarrow> recent \<noteq> []) \<and>
    (2 \<le> length recent \<longrightarrow> tokens est (system @ recent) \<le> max 1 budget) \<and>
    (old \<noteq> [] \<longrightarrow> max 1 budget < tokens est (system @ last old # recent))"
  using compression_parts[OF assms] .

definition sample_messages :: "conversation_message list" where
  "sample_messages = map (\<lambda>(r, c, t). \<lparr>msg_role = r, msg_content = c, msg_created_at = t\<rparr>)
     [(RoleSystem, ''rule'', 0), (RoleUser, ''aaaaaaaa'', 1), (RoleAssistant, ''bbbb'', 2), (RoleUser, ''cccc'', 3)]"

text \<open>Four tokens are room for the rule and the two last messages.\<close>

lemma compression_keeps_recent_witness:
  "\<exists>old recent system. without_system sample_messages = old @ recent \<and>
     compress_conversation_messages estimate_token_count 4 sample_messages = system @ recent \<and>
     length recent = 2 \<and> tokens estimate_token_count (system @ recent) \<le> 4"
proof -
  have two: "2 \<le> length sample_messages" by (simp add: sample_messages_def)
  from compression_keeps_recent[OF two, of estimate_token_count 4] obtain old recent system where
    split: "without_system sample_messages = old @ recent"
    and res: "compress_conversation_messages estimate_token_count 4 sample_messages = system @ recent"
    and sys: "system = (case List.find (\<lambda>m. msg_role m = RoleSystem) sample_messages of None \<Rightarrow> [] | Some m \<Rightarrow> [m])"
    and fits: "2 \<le> length recent \<longrightarrow> tokens estimate_token_count (system @ recent) \<le> 4" by auto
  have "length (compress_conversation_messages estimate_token_count 4 sample_messages) = 3" by code_simp
  moreover have "length system = 1" by (simp add: sys sample_messages_def)
  ultimately have "length recent = 2" by (simp add: res)
  with split res fits show ?thesis by auto
qed

subsection \<open>Appending a message\<close>

lemma compress_last:
  assumes "msg_role m \<noteq> RoleSystem"
  shows "last (compress_conversation_messages est b (ms @ [m])) = m \<and> compress_conversation_messages est b (ms @ [m]) \<noteq> []"
proof (cases "ms = []")
  case False
  then have two: "2 \<le> length (ms @ [m])" by (cases ms) auto
  have w: "without_system (xs @ [m]) = without_system xs @ [m]" for xs
    using assms by (induction xs) auto
  from compression_parts[OF two, of est b] obtain old recent system where
    "without_system ms @ [m] = old @ recent" "recent \<noteq> []"
    "compress_conversation_messages est b (ms @ [m]) = system @ recent" by (auto simp: w)
  then show ?thesis by (metis last_appendR last_snoc append_is_Nil_conv)
qed (simp add: compress_conversation_messages_def)

text \<open>
  Property C31. A message appended to a conversation is its last message afterwards, and what the
  next reader of the session gets is exactly the conversation the call returned.
\<close>

theorem appended_message_is_read_back:
  assumes "append_conversation_message audit_backend now tenant agent session role content created opts s = (Inr c, s')"
    and "audit_ok s" and "audit_fresh s now (namespaced tenant agent (conversation_key session))"
    and "role \<noteq> RoleSystem" and "now \<le> t" and "is_live t (expires_at now (co_ttl_seconds opts))"
    and "\<And>x k. fst (get_conversation_context audit_backend now tenant agent session s) = Inr (Some x) \<Longrightarrow> con_session_id x = session"
  shows "last (con_messages c) = \<lparr>msg_role = role, msg_content = content, msg_created_at = or_else created now\<rparr> \<and>
    fst (get_conversation_context audit_backend t tenant agent session s') = Inr (Some c)"
proof -
  let ?m = "\<lparr>msg_role = role, msg_content = content, msg_created_at = or_else created now\<rparr>"
  let ?k = "namespaced tenant agent (conversation_key session)"
  obtain found s0 where get: "get_conversation_context audit_backend now tenant agent session s = (found, s0)" by fastforce
  from assms(1) get obtain x where found: "found = Inr x" by (cases found) (auto simp: append_conversation_message_def then_do_def)
  have s0: "s0 = s"
    using get by (auto simp: get_conversation_context_def memory_get_def with_key_def on_backend_def then_do_def
        give_def throw_def split: sum.splits)
  define base where "base = or_else x \<lparr>con_session_id = session, con_messages = [],
           con_metadata = or_else (co_metadata opts) (JObj []), con_updated_at = now\<rparr>"
  have session: "con_session_id base = session"
    using assms(7) get found by (cases x) (auto simp: base_def)
  from assms(1) get found s0 session have names: "\<not> blank tenant" "\<not> blank agent"
    and c: "con_messages c = compress_conversation_messages estimate_token_count
        (or_else (co_token_budget opts) default_token_budget) (con_messages base @ [?m])"
    and s': "s' = mb_set audit_backend ?k (ContextText c) (co_ttl_seconds opts) now s"
    by (auto simp: append_conversation_message_def upsert_conversation_context_def memory_store_def with_key_def
        build_namespaced_key_def on_backend_def Let_def base_def[symmetric] split: sum.splits if_splits)
  have "audit_get ?k t s' = Some (ContextText c)"
    unfolding s' audit_memory.set_view[OF assms(3,5)] using assms(6) by simp
  moreover have "\<not> blank (conversation_key session)"
    by (auto simp: blank_def conversation_key_def js_trim_def dropWhile_eq_Nil_conv js_space_def)
  ultimately have "fst (get_conversation_context audit_backend t tenant agent session s') = Inr (Some c)"
    using names by (simp add: get_conversation_context_def memory_get_def with_key_def build_namespaced_key_def then_do_def
        on_backend_def give_def as_context_def)
  moreover have "last (con_messages c) = ?m" using compress_last[of ?m] assms(4) by (simp add: c)
  ultimately show ?thesis by simp
qed

definition sample_options :: conversation_options where
  "sample_options = \<lparr>co_metadata = None, co_token_budget = None, co_ttl_seconds = Some 60\<rparr>"

definition appended_context :: conversation_context where
  "appended_context = \<lparr>con_session_id = ''s1'',
     con_messages = [\<lparr>msg_role = RoleUser, msg_content = ''hi'', msg_created_at = 10\<rparr>],
     con_metadata = JObj [], con_updated_at = 10\<rparr>"

definition appended_log :: "memory_text memory_log_row list" where
  "appended_log = snd (append_conversation_message audit_backend 10 ''t1'' ''a'' ''s1'' RoleUser ''hi'' None sample_options [])"

lemma appended_message_is_read_back_witness:
  "fst (get_conversation_context audit_backend 20 ''t1'' ''a'' ''s1'' appended_log) = Inr (Some appended_context)"
proof -
  have "fst (append_conversation_message audit_backend 10 ''t1'' ''a'' ''s1'' RoleUser ''hi'' None sample_options []) =
      Inr appended_context" by code_simp
  then have run: "append_conversation_message audit_backend 10 ''t1'' ''a'' ''s1'' RoleUser ''hi'' None sample_options [] =
      (Inr appended_context, appended_log)" by (simp add: appended_log_def prod_eq_iff)
  have empty: "audit_ok ([] :: memory_text memory_log_row list)" "audit_fresh ([] :: memory_text memory_log_row list) 10 k" for k
    by (simp_all add: audit_ok_def audit_fresh_def entries_of_def)
  have none: "fst (get_conversation_context audit_backend 10 ''t1'' ''a'' ''s1'' []) = Inr None" by code_simp
  have live: "is_live 20 (expires_at 10 (co_ttl_seconds sample_options))"
    by (simp add: sample_options_def is_live_def expires_at_def)
  show ?thesis
    using appended_message_is_read_back[OF run empty, of 20] none live by simp
qed

end
