(* ===== verification/AgentManifest.thy ===== *)
theory AgentManifest
  imports StepSchema Json PolicyEngine
begin

text \<open>
  The manifests of agents and their catalogue (\<open>packages/agents-core/src/manifest\<close>), and the
  marketplace over it (\<open>apps/api/src/modules/marketplace/marketplace-service.ts\<close>). The files below
  the packs directory are given as their contents with their paths; the validator is the \<open>zod\<close>
  package, a parameter. The order of \<open>localeCompare\<close> is given by a sort key.
\<close>

subsection \<open>The schema\<close>

definition manifest_version :: string where
  "manifest_version = ''1.0.0''"

definition trimmed_string :: zod where
  "trimmed_string = ZString [Trimmed, MinLength 1]"

definition json_schema_object :: zod where
  "json_schema_object = ZDefault (JObj [(''type'', JStr ''object'')]) (ZRecord ZUnknown)"

definition tag_list_schema :: zod where
  "tag_list_schema = ZArray trimmed_string (Some 1)"

definition manifest_tags_schema :: zod where
  "manifest_tags_schema = ZStrict [(''domain'', tag_list_schema), (''level'', tag_list_schema),
     (''persona'', tag_list_schema), (''use-case'', tag_list_schema), (''industry'', tag_list_schema)]"

definition skill_manifest_schema :: zod where
  "skill_manifest_schema = ZStrict [(''description'', trimmed_string), (''id'', trimmed_string),
     (''inputSchema'', json_schema_object), (''name'', trimmed_string), (''outputSchema'', json_schema_object)]"

definition tool_manifest_schema :: zod where
  "tool_manifest_schema = ZStrict [(''description'', trimmed_string), (''id'', trimmed_string),
     (''inputSchema'', json_schema_object), (''name'', trimmed_string), (''outputSchema'', json_schema_object),
     (''timeoutMs'', ZDefault (JNum (Fin 15000)) (ZNumber [Integral, Positive]))]"

definition policy_manifest_schema :: zod where
  "policy_manifest_schema = ZStrict [(''actions'', ZArray trimmed_string (Some 1)),
     (''effect'', ZEnum [''allow'', ''deny'']), (''id'', trimmed_string), (''name'', trimmed_string)]"

definition agent_descriptor_schema :: zod where
  "agent_descriptor_schema = ZStrict [(''changelog'', ZDefault (JArr []) (ZArray trimmed_string None)),
     (''description'', trimmed_string), (''id'', trimmed_string),
     (''kind'', ZDefault (JStr ''agent'') (ZEnum [''agent'', ''catalog''])), (''name'', trimmed_string),
     (''prompt'', trimmed_string), (''tenantId'', ZDefault (JStr ''catalog'') trimmed_string),
     (''version'', trimmed_string)]"

definition agent_manifest_schema :: zod where
  "agent_manifest_schema = ZStrict [(''agent'', agent_descriptor_schema),
     (''keywords'', ZArray trimmed_string (Some 5)), (''manifestVersion'', ZLiteral (JStr manifest_version)),
     (''policies'', ZArray policy_manifest_schema (Some 1)), (''skills'', ZArray skill_manifest_schema (Some 1)),
     (''tags'', manifest_tags_schema), (''tools'', ZArray tool_manifest_schema (Some 1))]"

text \<open>A manifest that has passed the schema, but for the literal version.\<close>

record capability_manifest =
  cm_description :: string
  cm_id :: string
  cm_name :: string
  cm_input_schema :: js_val
  cm_output_schema :: js_val

record tool_manifest = capability_manifest +
  tm_timeout_ms :: int

record policy_manifest =
  pm_actions :: "string list"
  pm_effect :: policy_effect
  pm_id :: string
  pm_name :: string

record agent_descriptor =
  ad_changelog :: "string list"
  ad_description :: string
  ad_id :: string
  ad_is_catalog :: bool
  ad_name :: string
  ad_prompt :: string
  ad_tenant_id :: string
  ad_version :: string

record manifest_tags =
  mt_domain :: "string list"
  mt_level :: "string list"
  mt_persona :: "string list"
  mt_use_case :: "string list"
  mt_industry :: "string list"

record agent_manifest =
  am_agent :: agent_descriptor
  am_keywords :: "string list"
  am_policies :: "policy_manifest list"
  am_skills :: "capability_manifest list"
  am_tags :: manifest_tags
  am_tools :: "tool_manifest list"

text \<open>\<open>parseAgentManifest\<close>: the issues of the validator, a path and a message each, in front of them
  the version when it is another one.\<close>

definition format_issue :: "string list \<times> string \<Rightarrow> string" where
  "format_issue i = (if fst i = [] then ''root'' else join_with ''.'' (fst i)) @ '': '' @ snd i"

definition parse_agent_manifest ::
    "(zod \<Rightarrow> js_val \<Rightarrow> (string list \<times> string) list + agent_manifest) \<Rightarrow> js_val \<Rightarrow> string list + agent_manifest" where
  "parse_agent_manifest Z input = (case Z agent_manifest_schema input of
     Inr m \<Rightarrow> Inr m
   | Inl found \<Rightarrow>
       let issues = map format_issue found;
           version = (case input of JObj fs \<Rightarrow> obj_get fs ''manifestVersion'' | _ \<Rightarrow> JUndef)
       in Inl (case version of
            JStr v \<Rightarrow> if v \<noteq> manifest_version then
                (''manifestVersion: versao incompativel ('' @ v @ ''). Esperado '' @ manifest_version @ ''.'') # issues
              else issues
          | _ \<Rightarrow> issues))"

subsection \<open>The catalogue\<close>

record catalog_entry =
  ce_manifest :: agent_manifest
  ce_path :: string

definition is_installable_manifest :: "agent_manifest \<Rightarrow> bool" where
  "is_installable_manifest m \<longleftrightarrow> \<not> ad_is_catalog (am_agent m)"

definition normalize_text :: "string \<Rightarrow> string" where
  "normalize_text s = js_lower (js_trim s)"

text \<open>\<open>replace(/[...]+/g, "-")\<close>: every run of characters of the class becomes one dash.\<close>

function replace_runs :: "(char \<Rightarrow> bool) \<Rightarrow> string \<Rightarrow> string" where
  "replace_runs P [] = []"
| "replace_runs P (c # s) = (if P c then CHR ''-'' # replace_runs P (dropWhile P s) else c # replace_runs P s)"
  by pat_completeness auto

termination replace_runs
  by (relation "measure (\<lambda>(P, s). length s)") (auto simp: less_Suc_eq_le length_dropWhile_le)

definition canonicalize_agent_id :: "string \<Rightarrow> string" where
  "canonicalize_agent_id v = replace_runs (\<lambda>c. c = CHR ''-'')
     (replace_runs (\<lambda>c. c = CHR ''_'' \<or> js_space c) (normalize_text v))"

definition agent_ids_match :: "string \<Rightarrow> string \<Rightarrow> bool" where
  "agent_ids_match l r \<longleftrightarrow> canonicalize_agent_id l = canonicalize_agent_id r"

definition find_manifest_catalog_entry :: "catalog_entry list \<Rightarrow> string \<Rightarrow> catalog_entry option" where
  "find_manifest_catalog_entry catalog agent =
     List.find (\<lambda>e. canonicalize_agent_id (ad_id (am_agent (ce_manifest e))) = canonicalize_agent_id agent) catalog"

definition has_any :: "string list \<Rightarrow> string list option \<Rightarrow> bool" where
  "has_any candidates target = (case target of
     None \<Rightarrow> True
   | Some ts \<Rightarrow> ts = [] \<or> list_ex (\<lambda>t. normalize_text t \<in> set (map normalize_text candidates)) ts)"

definition collect_flat_tags :: "manifest_tags \<Rightarrow> string list" where
  "collect_flat_tags t =
     map normalize_text (mt_domain t @ mt_level t @ mt_persona t @ mt_use_case t @ mt_industry t)"

definition points :: "int \<Rightarrow> bool \<Rightarrow> int" where
  "points n b = (if b then n else 0)"

definition capability_text :: "'a capability_manifest_scheme \<Rightarrow> string" where
  "capability_text c = normalize_text (cm_name c) @ '' '' @ normalize_text (cm_description c)"

definition calculate_search_score :: "agent_manifest \<Rightarrow> string option \<Rightarrow> int" where
  "calculate_search_score m query =
     (let q = (case truthy query of Some s \<Rightarrow> normalize_text s | None \<Rightarrow> []);
          cq = (case truthy query of Some s \<Rightarrow> canonicalize_agent_id s | None \<Rightarrow> []);
          agent = canonicalize_agent_id (ad_id (am_agent m)); name = normalize_text (ad_name (am_agent m));
          description = normalize_text (ad_description (am_agent m))
      in if q = [] then 1
         else points 32 (name = q) + points 28 (agent = cq) + points 20 (str_includes name q) +
           points 14 (str_includes agent cq) + points 12 (str_includes description q) +
           (\<Sum>t \<leftarrow> collect_flat_tags (am_tags m). points 6 (str_includes t q)) +
           (\<Sum>k \<leftarrow> am_keywords m. points 8 (str_includes (normalize_text k) q)) +
           (\<Sum>c \<leftarrow> am_skills m. points 4 (str_includes (capability_text c) q)) +
           (\<Sum>c \<leftarrow> am_tools m. points 3 (str_includes (capability_text c) q)))"

text \<open>Counts per value, in the order the values are first met.\<close>

definition count_in :: "string \<Rightarrow> (string \<times> nat) list \<Rightarrow> (string \<times> nat) list" where
  "count_in v bucket = AList.update v (or_else (map_of bucket v) 0 + 1) bucket"

record search_facets =
  sf_domains :: "(string \<times> nat) list"
  sf_industries :: "(string \<times> nat) list"
  sf_levels :: "(string \<times> nat) list"
  sf_personas :: "(string \<times> nat) list"
  sf_tags :: "(string \<times> nat) list"
  sf_use_cases :: "(string \<times> nat) list"

definition increment_facet :: "((string \<times> nat) list \<Rightarrow> (string \<times> nat) list) \<Rightarrow> string \<Rightarrow>
    (((string \<times> nat) list \<Rightarrow> (string \<times> nat) list) \<Rightarrow> search_facets \<Rightarrow> search_facets) \<Rightarrow> search_facets \<Rightarrow> search_facets" where
  "increment_facet count v upd f = (upd count f)\<lparr>sf_tags := count (sf_tags f)\<rparr>"

definition add_facets :: "catalog_entry \<Rightarrow> search_facets \<Rightarrow> search_facets" where
  "add_facets e f =
     (let t = am_tags (ce_manifest e);
          add = (\<lambda>upd vs f. fold (\<lambda>v f. increment_facet (count_in (normalize_text v)) v upd f) vs f)
      in add sf_industries_update (mt_industry t)
           (add sf_use_cases_update (mt_use_case t)
             (add sf_personas_update (mt_persona t)
               (add sf_levels_update (mt_level t) (add sf_domains_update (mt_domain t) f)))))"

definition build_facets :: "catalog_entry list \<Rightarrow> search_facets" where
  "build_facets es = fold add_facets es \<lparr>sf_domains = [], sf_industries = [], sf_levels = [],
     sf_personas = [], sf_tags = [], sf_use_cases = []\<rparr>"

text \<open>A file below the directory, parsed as JSON, with its path: the first invalid manifest fails the
  whole catalogue.\<close>

fun load_manifest_catalog :: "(zod \<Rightarrow> js_val \<Rightarrow> (string list \<times> string) list + agent_manifest) \<Rightarrow>
    (string \<times> js_val) list \<Rightarrow> string list + catalog_entry list" where
  "load_manifest_catalog Z [] = Inr []"
| "load_manifest_catalog Z ((p, v) # files) = (case parse_agent_manifest Z v of
     Inl issues \<Rightarrow> Inl issues
   | Inr m \<Rightarrow> (case load_manifest_catalog Z files of
       Inl issues \<Rightarrow> Inl issues
     | Inr es \<Rightarrow> Inr (\<lparr>ce_manifest = m, ce_path = p\<rparr> # es)))"

record search_filters =
  fl_domains :: "string list option"
  fl_industries :: "string list option"
  fl_levels :: "string list option"
  fl_personas :: "string list option"
  fl_tags :: "string list option"
  fl_use_cases :: "string list option"

record search_input =
  si_filters :: search_filters
  si_include_catalog :: bool
  si_page :: "int option"
  si_page_size :: "int option"
  si_query :: "string option"

record search_result =
  sr_facets :: search_facets
  sr_page :: int
  sr_page_size :: int
  sr_results :: "(catalog_entry \<times> int) list"
  sr_total :: nat

definition entry_matches :: "search_input \<Rightarrow> catalog_entry \<Rightarrow> bool" where
  "entry_matches i e =
     (let t = am_tags (ce_manifest e); f = si_filters i
      in (si_include_catalog i \<or> is_installable_manifest (ce_manifest e)) \<and>
         has_any (mt_domain t) (fl_domains f) \<and> has_any (mt_level t) (fl_levels f) \<and>
         has_any (mt_persona t) (fl_personas f) \<and> has_any (mt_use_case t) (fl_use_cases f) \<and>
         has_any (mt_industry t) (fl_industries f) \<and> has_any (collect_flat_tags t) (fl_tags f))"

text \<open>By score, the highest first, and among equals by name.\<close>

definition rank_entries :: "(string \<Rightarrow> rat) \<Rightarrow> string option \<Rightarrow> catalog_entry list \<Rightarrow> (catalog_entry \<times> int) list" where
  "rank_entries collate query es =
     sort_key (\<lambda>(e, n). - n) (sort_key (\<lambda>(e, n). collate (ad_name (am_agent (ce_manifest e))))
       (filter (\<lambda>(e, n). 0 < n) (map (\<lambda>e. (e, calculate_search_score (ce_manifest e) query)) es)))"

definition page_of :: "search_input \<Rightarrow> int" where
  "page_of i = max (or_else (si_page i) 1) 1"

definition page_size_of :: "search_input \<Rightarrow> int" where
  "page_size_of i = min (max (or_else (si_page_size i) 12) 1) 100"

definition slice :: "int \<Rightarrow> int \<Rightarrow> 'a list \<Rightarrow> 'a list" where
  "slice start stop xs = take (nat (stop - start)) (drop (nat start) xs)"

definition search_manifest_catalog :: "(string \<Rightarrow> rat) \<Rightarrow> catalog_entry list \<Rightarrow> search_input \<Rightarrow> search_result" where
  "search_manifest_catalog collate catalog i =
     (let page = page_of i; size = page_size_of i; found = filter (entry_matches i) catalog;
          ranked = rank_entries collate (si_query i) found; start = (page - 1) * size
      in \<lparr>sr_facets = build_facets found, sr_page = page, sr_page_size = size,
          sr_results = slice start (start + size) ranked, sr_total = length ranked\<rparr>)"

definition recommendation_score :: "string \<Rightarrow> agent_manifest \<Rightarrow> int" where
  "recommendation_score industry m =
     (let n = normalize_text industry; a = ad_id (am_agent m)
      in 1 + points 15 (n \<in> set (map normalize_text (mt_industry (am_tags m)))) +
         points 9 (n \<in> set (map normalize_text (mt_domain (am_tags m)))) +
         points 10 (str_includes n ''sales'' \<and> (str_includes a ''cro'' \<or> str_includes a ''sales'')))"

definition recommend_agents_for_tenant :: "catalog_entry list \<Rightarrow> string \<Rightarrow> nat \<Rightarrow> (catalog_entry \<times> int) list" where
  "recommend_agents_for_tenant catalog industry limit =
     take limit (sort_key (\<lambda>(e, n). - n) (map (\<lambda>e. (e, recommendation_score industry (ce_manifest e)))
       (filter (\<lambda>e. is_installable_manifest (ce_manifest e)) catalog)))"

end
