(* ===== verification/PlanExecutor.thy ===== *)
theory PlanExecutor
  imports PolicyEngine Schema Json
begin

text \<open>
  \<open>apps/worker/src/executors/planExecutor.ts\<close>: runs the tool calls of a plan one after the
  other under a lock in Redis, with retries, a circuit breaker per tool and ceilings for the
  steps, the cost and the time; the result is kept for an hour and answers every later request
  for the same execution.

  The clock is part of the state: it moves while a tool runs and while the executor waits before a
  retry. Tools, hooks and the random jitter are given by the environment, each run of a tool by
  its number. Amounts of money are rationals.
\<close>

datatype exec_error = ExecError (exec_code: "string option") (exec_message: string)

record planned_call =
  pc_tool :: string
  pc_input :: js_val

record execution_request =
  er_execution_id :: string
  er_agent_id :: string
  er_tenant_id :: string
  er_input :: "(string \<times> js_val) list"
  er_tool_calls :: "planned_call list option"

record plan_step =
  ps_call :: planned_call
  ps_estimated_cost :: rat
  ps_output :: js_val
  ps_started_at :: ms
  ps_finished_at :: ms

datatype trace_type = TracePlan | TraceResult | TraceTool

record trace_node =
  tn_id :: string
  tn_type :: trace_type
  tn_label :: string
  tn_parent :: "string option"

record plan_result =
  pr_execution_id :: string
  pr_tenant_id :: string
  pr_agent_id :: string
  pr_cached :: bool
  pr_cost_total :: rat
  pr_output :: "(string \<times> js_val) list"
  pr_steps :: "plan_step list"
  pr_trace_id :: string
  pr_trace_nodes :: "trace_node list"

record breaker_state =
  bs_failure_count :: nat
  bs_open_until :: "ms option"

text \<open>What a tool object is to the executor: its timeout and its cost.\<close>

record tool_entry =
  te_timeout_ms :: int
  te_cost :: js_num

record executor_options =
  eo_tools :: "string \<Rightarrow> tool_entry option"
  eo_cooldown_ms :: int
  eo_failure_threshold :: nat
  eo_execution_timeout_ms :: "int option"
  eo_max_cost :: "rat option"
  eo_max_plan_steps :: "nat option"
  eo_retry_attempts :: nat

record executor_env =
  ee_run :: "nat \<Rightarrow> string \<Rightarrow> js_val \<Rightarrow> int \<Rightarrow> (exec_error + js_val) \<times> nat"
  ee_draw :: "nat \<Rightarrow> int"
  ee_on_plan :: "planned_call list \<Rightarrow> exec_error option"
  ee_on_step :: "nat \<Rightarrow> plan_step \<Rightarrow> exec_error option"
  ee_on_completed :: "plan_result \<Rightarrow> exec_error option"

text \<open>The calls of the hooks, in their order: what the caller of the executor has been told.\<close>

datatype hook_call = PlanBuilt "planned_call list" | StepCompleted nat plan_step | ExecutionCompleted plan_result

record executor_state =
  xs_now :: ms
  xs_results :: "(string \<times> (ms \<times> plan_result)) list"
  xs_locks :: "(string \<times> ms) list"
  xs_breakers :: "(string \<times> breaker_state) list"
  xs_runs :: nat
  xs_reported :: "hook_call list"

type_synonym 'a executor = "executor_state \<Rightarrow> (exec_error + 'a) \<times> executor_state"

definition x_give :: "'a \<Rightarrow> 'a executor" where
  "x_give a s = (Inr a, s)"

definition x_throw :: "string \<Rightarrow> string \<Rightarrow> 'a executor" where
  "x_throw code m s = (Inl (ExecError (Some code) m), s)"

definition x_fail :: "string \<Rightarrow> 'a executor" where
  "x_fail m s = (Inl (ExecError None m), s)"

definition x_then :: "'a executor \<Rightarrow> ('a \<Rightarrow> 'b executor) \<Rightarrow> 'b executor" where
  "x_then m f s = (case m s of (Inl e, s') \<Rightarrow> (Inl e, s') | (Inr a, s') \<Rightarrow> f a s')"

definition x_hook :: "hook_call \<Rightarrow> exec_error option \<Rightarrow> unit executor" where
  "x_hook h e s = ((case e of None \<Rightarrow> Inr () | Some e \<Rightarrow> Inl e), s\<lparr>xs_reported := xs_reported s @ [h]\<rparr>)"

definition retry_delays_ms :: "int list" where
  "retry_delays_ms = [1000, 5000, 30000]"

definition exec_result_ttl_seconds :: int where
  "exec_result_ttl_seconds = 60 * 60"

definition exec_lock_ttl_seconds :: int where
  "exec_lock_ttl_seconds = 60 * 15"

text \<open>\<open>MockPlanBuilder\<close>, the default planner: the calls the input itself names.\<close>

definition mock_plan :: "(string \<times> js_val) list \<Rightarrow> planned_call list" where
  "mock_plan input = (case obj_get input ''toolCalls'' of
     JArr vs \<Rightarrow> List.map_filter (\<lambda>v. case v of
         JObj fs \<Rightarrow> (case (map_of fs ''tool'', map_of fs ''input'') of
             (Some (JStr t), Some i) \<Rightarrow> Some \<lparr>pc_tool = t, pc_input = i\<rparr> | _ \<Rightarrow> None)
       | _ \<Rightarrow> None) vs
   | _ \<Rightarrow> [])"

subsection \<open>Ceilings\<close>

definition assert_execution_budget :: "executor_options \<Rightarrow> rat \<Rightarrow> rat \<Rightarrow> unit executor" where
  "assert_execution_budget opts est spent =
     (case eo_max_cost opts of
        None \<Rightarrow> x_give ()
      | Some limit \<Rightarrow> if limit < spent + est then
          x_throw ''AGENT_COST_LIMIT_EXCEEDED'' (''Execution exceeded the configured cost ceiling ('' @ show_fixed 2 limit @ '' BRL).'')
        else x_give ())"

definition timeout_message :: "int \<Rightarrow> string" where
  "timeout_message timeout = ''Execution exceeded the configured timeout ('' @ show_int timeout @ ''ms).''"

definition assert_execution_deadline :: "executor_options \<Rightarrow> ms \<Rightarrow> unit executor" where
  "assert_execution_deadline opts started s =
     (case eo_execution_timeout_ms opts of
        None \<Rightarrow> x_give () s
      | Some timeout \<Rightarrow> if timeout \<le> xs_now s - started then
          x_throw ''AGENT_EXECUTION_TIMEOUT'' (timeout_message timeout) s
        else x_give () s)"

definition assert_plan_size :: "executor_options \<Rightarrow> planned_call list \<Rightarrow> unit executor" where
  "assert_plan_size opts calls =
     (case eo_max_plan_steps opts of
        None \<Rightarrow> x_give ()
      | Some limit \<Rightarrow> if limit < length calls then
          x_throw ''AGENT_PLAN_TOO_LARGE'' (''Generated plan has '' @ show_nat (length calls) @ '' step(s), above the configured limit of '' @ show_nat limit @ ''.'')
        else x_give ())"

definition estimate_tool_cost :: "tool_entry \<Rightarrow> rat" where
  "estimate_tool_cost tool = (case te_cost tool of
     Fin q \<Rightarrow> if q < 0 then 0 else round_cents q | _ \<Rightarrow> 0)"

subsection \<open>Circuit breakers\<close>

definition closed_breaker :: breaker_state where
  "closed_breaker = \<lparr>bs_failure_count = 0, bs_open_until = None\<rparr>"

definition get_circuit_breaker_state :: "string \<Rightarrow> executor_state \<Rightarrow> breaker_state \<times> executor_state" where
  "get_circuit_breaker_state tool s =
     (case map_of (xs_breakers s) tool of
        Some b \<Rightarrow>
          (case bs_open_until b of
             Some t \<Rightarrow> if t \<le> xs_now s then
                 (closed_breaker, s\<lparr>xs_breakers := AList.update tool closed_breaker (xs_breakers s)\<rparr>)
               else (b, s)
           | None \<Rightarrow> (b, s))
      | None \<Rightarrow> (closed_breaker, s\<lparr>xs_breakers := AList.update tool closed_breaker (xs_breakers s)\<rparr>))"

definition assert_circuit_open :: "string \<Rightarrow> unit executor" where
  "assert_circuit_open tool s =
     (let (b, s') = get_circuit_breaker_state tool s
      in case bs_open_until b of
           Some t \<Rightarrow> if xs_now s' < t then
               x_throw ''AGENT_TOOL_CIRCUIT_OPEN'' (''Tool '' @ [CHR 0x27] @ tool @ [CHR 0x27] @ '' is temporarily blocked by the circuit breaker.'') s'
             else x_give () s'
         | None \<Rightarrow> x_give () s')"

definition mark_tool_success :: "string \<Rightarrow> executor_state \<Rightarrow> executor_state" where
  "mark_tool_success tool s = s\<lparr>xs_breakers := AList.update tool closed_breaker (xs_breakers s)\<rparr>"

definition mark_tool_failure :: "executor_options \<Rightarrow> string \<Rightarrow> executor_state \<Rightarrow> executor_state" where
  "mark_tool_failure opts tool s =
     (let (b, s') = get_circuit_breaker_state tool s;
          n = bs_failure_count b + 1
      in s'\<lparr>xs_breakers := AList.update tool \<lparr>bs_failure_count = n,
           bs_open_until = (if eo_failure_threshold opts \<le> n then Some (xs_now s' + eo_cooldown_ms opts) else None)\<rparr>
           (xs_breakers s')\<rparr>)"

subsection \<open>Retries\<close>

definition resolve_tool_timeout :: "executor_options \<Rightarrow> tool_entry \<Rightarrow> ms \<Rightarrow> ms \<Rightarrow> exec_error + int" where
  "resolve_tool_timeout opts tool started now =
     (case eo_execution_timeout_ms opts of
        None \<Rightarrow> Inr (te_timeout_ms tool)
      | Some timeout \<Rightarrow>
          let remaining = timeout - (now - started)
          in if remaining \<le> 0 then
               Inl (ExecError (Some ''AGENT_EXECUTION_TIMEOUT'') (timeout_message timeout))
             else Inr (max 1 (min (te_timeout_ms tool) remaining)))"

text \<open>One attempt: the body of the \<open>try\<close> but for the mark.\<close>

definition run_tool :: "executor_env \<Rightarrow> executor_options \<Rightarrow> tool_entry \<Rightarrow> planned_call \<Rightarrow> ms \<Rightarrow> js_val executor" where
  "run_tool E opts tool call started s =
     (case resolve_tool_timeout opts tool started (xs_now s) of
        Inl e \<Rightarrow> (Inl e, s)
      | Inr timeout \<Rightarrow>
          let (out, elapsed) = ee_run E (xs_runs s) (pc_tool call) (pc_input call) timeout
          in (out, s\<lparr>xs_now := xs_now s + int elapsed, xs_runs := xs_runs s + 1\<rparr>))"

definition retry_delay :: "nat \<Rightarrow> int" where
  "retry_delay attempt = retry_delays_ms ! min attempt (length retry_delays_ms - 1)"

text \<open>\<open>Math.floor(Math.random() * (spread + 1))\<close> is a draw from 0 to \<open>spread\<close>.\<close>

definition jitter :: "int \<Rightarrow> int \<Rightarrow> int" where
  "jitter draw delay = delay + draw mod (delay * 15 div 100 + 1)"

definition wait_jitter :: "executor_env \<Rightarrow> nat \<Rightarrow> executor_state \<Rightarrow> executor_state" where
  "wait_jitter E attempt s = s\<lparr>xs_now := xs_now s + jitter (ee_draw E (xs_runs s)) (retry_delay attempt)\<rparr>"

text \<open>The loop, over the attempts that are left.\<close>

fun retry_loop :: "executor_env \<Rightarrow> executor_options \<Rightarrow> tool_entry \<Rightarrow> planned_call \<Rightarrow> ms \<Rightarrow> nat \<Rightarrow> nat \<Rightarrow>
    js_val executor" where
  "retry_loop E opts tool call started attempt 0 s =
     (Inl (ExecError None ''PlanExecutor failed after retries.''), mark_tool_failure opts (pc_tool call) s)"
| "retry_loop E opts tool call started attempt (Suc left) s =
     (case x_then (assert_execution_deadline opts started) (\<lambda>_. assert_circuit_open (pc_tool call)) s of
        (Inl e, s1) \<Rightarrow> (Inl e, s1)
      | (Inr _, s1) \<Rightarrow>
          (case run_tool E opts tool call started s1 of
             (Inr out, s2) \<Rightarrow> (Inr out, mark_tool_success (pc_tool call) s2)
           | (Inl e, s2) \<Rightarrow>
               if exec_code e = Some ''AGENT_TOOL_CIRCUIT_OPEN'' then (Inl e, s2)
               else if left = 0 then (Inl e, mark_tool_failure opts (pc_tool call) s2)
               else retry_loop E opts tool call started (attempt + 1) left (wait_jitter E attempt s2)))"

definition execute_with_retry :: "executor_env \<Rightarrow> executor_options \<Rightarrow> tool_entry \<Rightarrow> planned_call \<Rightarrow> ms \<Rightarrow> js_val executor" where
  "execute_with_retry E opts tool call started =
     retry_loop E opts tool call started 0 (eo_retry_attempts opts)"

subsection \<open>The plan\<close>

definition trace_nodes_of :: "execution_request \<Rightarrow> planned_call \<Rightarrow> nat \<Rightarrow> trace_node list" where
  "trace_nodes_of req call index =
     (let i = ''tool_'' @ er_execution_id req @ ''_'' @ show_nat (index + 1)
      in [\<lparr>tn_id = i, tn_type = TraceTool, tn_label = pc_tool call, tn_parent = Some (''trace_'' @ er_execution_id req)\<rparr>,
          \<lparr>tn_id = i @ ''_result'', tn_type = TraceResult, tn_label = ''result'', tn_parent = Some i\<rparr>])"

record plan_progress =
  pp_steps :: "plan_step list"
  pp_context :: "(string \<times> js_val) list"
  pp_total :: rat
  pp_nodes :: "trace_node list"

definition run_call :: "executor_env \<Rightarrow> executor_options \<Rightarrow> execution_request \<Rightarrow> ms \<Rightarrow> nat \<Rightarrow> planned_call \<Rightarrow>
    plan_progress \<Rightarrow> plan_progress executor" where
  "run_call E opts req started index call p =
     x_then (assert_execution_deadline opts started) (\<lambda>_.
     case eo_tools opts (pc_tool call) of
       None \<Rightarrow> x_fail (''Tool '' @ [CHR 0x27] @ pc_tool call @ [CHR 0x27] @ '' is not registered.'')
     | Some tool \<Rightarrow>
         let est = estimate_tool_cost tool
         in x_then (assert_execution_budget opts est (pp_total p)) (\<lambda>_ s0.
            x_then (execute_with_retry E opts tool call started) (\<lambda>out s1.
              let st = \<lparr>ps_call = call, ps_estimated_cost = est, ps_output = out,
                         ps_started_at = xs_now s0, ps_finished_at = xs_now s1\<rparr>
              in x_then (x_hook (StepCompleted (index + 1) st) (ee_on_step E index st)) (\<lambda>_.
                 x_give \<lparr>pp_steps = pp_steps p @ [st],
                   pp_context = AList.update (''step_'' @ show_nat (index + 1)) out (pp_context p),
                   pp_total = round_cents (pp_total p + est),
                   pp_nodes = pp_nodes p @ trace_nodes_of req call index\<rparr>) s1) s0))"

fun run_calls_from :: "executor_env \<Rightarrow> executor_options \<Rightarrow> execution_request \<Rightarrow> ms \<Rightarrow> nat \<Rightarrow> planned_call list \<Rightarrow>
    plan_progress \<Rightarrow> plan_progress executor" where
  "run_calls_from E opts req started index [] p = x_give p"
| "run_calls_from E opts req started index (c # cs) p =
     x_then (run_call E opts req started index c p) (\<lambda>p'.
       run_calls_from E opts req started (index + 1) cs p')"

definition plan_of :: "execution_request \<Rightarrow> planned_call list" where
  "plan_of req = or_else (er_tool_calls req) (mock_plan (er_input req))"

text \<open>The body of the \<open>try\<close>.\<close>

definition run_plan :: "executor_env \<Rightarrow> executor_options \<Rightarrow> execution_request \<Rightarrow> plan_result executor" where
  "run_plan E opts req s =
     (let started = xs_now s; calls = plan_of req; root = ''trace_'' @ er_execution_id req
      in x_then (assert_plan_size opts calls) (\<lambda>_.
         x_then (x_hook (PlanBuilt calls) (ee_on_plan E calls)) (\<lambda>_.
         x_then (run_calls_from E opts req started 0 calls \<lparr>pp_steps = [], pp_context = er_input req, pp_total = 0,
             pp_nodes = [\<lparr>tn_id = root, tn_type = TracePlan, tn_label = ''agent:'' @ er_agent_id req, tn_parent = None\<rparr>]\<rparr>) (\<lambda>p.
         let r = \<lparr>pr_execution_id = er_execution_id req, pr_tenant_id = er_tenant_id req,
               pr_agent_id = er_agent_id req, pr_cached = False, pr_cost_total = pp_total p,
               pr_output = pp_context p, pr_steps = pp_steps p, pr_trace_id = root, pr_trace_nodes = pp_nodes p\<rparr>
         in (\<lambda>s. x_then (x_hook (ExecutionCompleted r) (ee_on_completed E r)) (\<lambda>_. x_give r)
              (s\<lparr>xs_results := AList.update (er_execution_id req) (xs_now s + exec_result_ttl_seconds * 1000, r)
                 (xs_results s)\<rparr>))))) s)"

subsection \<open>Cache and lock\<close>

definition cached_result :: "string \<Rightarrow> executor_state \<Rightarrow> plan_result option" where
  "cached_result i s = (case map_of (xs_results s) i of
     Some (t, r) \<Rightarrow> if xs_now s < t then Some (r\<lparr>pr_cached := True\<rparr>) else None
   | None \<Rightarrow> None)"

text \<open>\<open>SET key running EX 900 NX\<close>.\<close>

definition take_lock :: "string \<Rightarrow> unit executor" where
  "take_lock i s =
     (if (case map_of (xs_locks s) i of Some t \<Rightarrow> xs_now s < t | None \<Rightarrow> False) then
        x_fail (''Execution '' @ [CHR 0x27] @ i @ [CHR 0x27] @ '' is already running.'') s
      else (Inr (), s\<lparr>xs_locks := AList.update i (xs_now s + exec_lock_ttl_seconds * 1000) (xs_locks s)\<rparr>))"

definition release_lock :: "string \<Rightarrow> executor_state \<Rightarrow> executor_state" where
  "release_lock i s = s\<lparr>xs_locks := AList.delete i (xs_locks s)\<rparr>"

definition execute_plan :: "executor_env \<Rightarrow> executor_options \<Rightarrow> execution_request \<Rightarrow> plan_result executor" where
  "execute_plan E opts req s =
     (case cached_result (er_execution_id req) s of
        Some r \<Rightarrow> (Inr r, s)
      | None \<Rightarrow>
          x_then (take_lock (er_execution_id req)) (\<lambda>_ s1.
            case run_plan E opts req s1 of (a, s2) \<Rightarrow> (a, release_lock (er_execution_id req) s2)) s)"

end
