(* ===== verification/AgentPlan.thy ===== *)
theory AgentPlan
  imports AgentManifest AgentMemory PlanExecutor
begin

text \<open>
  \<open>packages/agents-core/src/runtime/manifestRuntime.ts\<close>: what the worker derives from the manifest
  of an agent before and after an execution: the policy rules its tools run under, the plan with
  one call per tool, whether the output needs an approval, and the output itself.
\<close>

record managed_agent_policy =
  map_actions :: "string list"
  map_effect :: policy_effect
  map_enabled :: "bool option"
  map_id :: string
  map_name :: string
  map_reason :: "string option"

record runtime_tool_call = planned_call +
  rtc_rationale :: string

record runtime_plan =
  rp_logs :: "string list"
  rp_tool_calls :: "runtime_tool_call list"

subsection \<open>Reading the input\<close>

definition read_text :: "js_val \<Rightarrow> string option" where
  "read_text v = (case v of JStr s \<Rightarrow> if js_trim s = [] then None else Some (js_trim s) | _ \<Rightarrow> None)"

text \<open>A property of \<open>input.context\<close>, when that is an object.\<close>

definition context_value :: "(string \<times> js_val) list \<Rightarrow> string \<Rightarrow> js_val" where
  "context_value input k = (case obj_get input ''context'' of JObj fs \<Rightarrow> obj_get fs k | _ \<Rightarrow> JUndef)"

definition first_text :: "js_val list \<Rightarrow> string \<Rightarrow> string" where
  "first_text vs d = (case List.map_filter read_text vs of [] \<Rightarrow> d | s # _ \<Rightarrow> s)"

definition read_objective :: "(string \<times> js_val) list \<Rightarrow> string" where
  "read_objective input = first_text
     (map (obj_get input) [''objective'', ''brief'', ''prompt'', ''task'', ''goal''] @ [context_value input ''objective''])
     ''Executar o agente com rastreabilidade, governanca e proximo passo claro.''"

definition read_primary_owner :: "(string \<times> js_val) list \<Rightarrow> string" where
  "read_primary_owner input = first_text
     (map (obj_get input) [''owner'', ''requestedBy'', ''userId''] @ [context_value input ''owner'']) ''tenant-ops''"

text \<open>What is left of a value: \<open>undefined\<close> becomes \<open>null\<close> at any depth.\<close>

fun normalize_json_value :: "js_val \<Rightarrow> js_val" where
  "normalize_json_value JUndef = JNull"
| "normalize_json_value (JArr vs) = JArr (map normalize_json_value vs)"
| "normalize_json_value (JObj fs) = JObj (map (\<lambda>(k, v). (k, normalize_json_value v)) fs)"
| "normalize_json_value v = v"

subsection \<open>Policy rules\<close>

definition normalize_policy_action :: "string \<Rightarrow> string" where
  "normalize_policy_action action =
     (let t = js_trim action
      in if t = [] then []
         else if t = ''tool:execute'' then ''tool.*''
         else if starts_with ''tool:'' t then ''tool.'' @ drop (length ''tool:'') t
         else if starts_with ''tool.'' t then t
         else map (\<lambda>c. if c = CHR '':'' then CHR ''.'' else c) t)"

definition runtime_rule :: "string \<Rightarrow> policy_effect \<Rightarrow> string \<Rightarrow> policy_rule option" where
  "runtime_rule policy effect action =
     (let n = normalize_policy_action action
      in if n = [] then None
         else Some \<lparr>rule_action = n, rule_agent_id = None, rule_effect = effect, rule_enabled = None,
           rule_id = policy @ '':'' @ n, rule_reason = None, rule_tenant_id = None\<rparr>)"

definition rules_from_manifest :: "agent_manifest \<Rightarrow> policy_rule list" where
  "rules_from_manifest m =
     concat (map (\<lambda>p. List.map_filter (runtime_rule (pm_id p) (pm_effect p)) (pm_actions p)) (am_policies m))"

definition rules_from_managed_policies :: "managed_agent_policy list \<Rightarrow> policy_rule list" where
  "rules_from_managed_policies ps =
     concat (map (\<lambda>p. if or_else (map_enabled p) True = False then []
       else List.map_filter (runtime_rule (map_id p) (map_effect p)) (map_actions p)) ps)"

text \<open>A \<open>Map\<close> by the id of the rule: a later rule takes the place of an earlier one.\<close>

definition build_runtime_policy_rules :: "agent_manifest \<Rightarrow> managed_agent_policy list \<Rightarrow> policy_rule list" where
  "build_runtime_policy_rules m ps =
     map snd (fold (\<lambda>r merged. AList.update (rule_id r) r merged)
       (rules_from_manifest m @ rules_from_managed_policies ps) [])"

subsection \<open>The plan\<close>

definition summarize_learning :: "learning_record list \<Rightarrow> js_val" where
  "summarize_learning rs = JArr (map (\<lambda>r. JObj [(''confidence'', JNum (Fin (lr_confidence r))), (''id'', JStr (lr_id r)),
     (''summary'', JStr (lr_summary r))]) (take 5 rs))"

definition plan_call :: "string option \<Rightarrow> string \<Rightarrow> learning_record list \<Rightarrow> (string \<times> js_val) list \<Rightarrow> tool_manifest \<times> nat \<Rightarrow>
    runtime_tool_call" where
  "plan_call context objective shared input x = (case x of (tool, index) \<Rightarrow>
     \<lparr>pc_tool = cm_id tool,
      pc_input = JObj [(''contextSummary'', case context of None \<Rightarrow> JNull | Some c \<Rightarrow> JStr c),
        (''objective'', JStr objective), (''sequence'', JNum (Fin (of_nat (index + 1)))),
        (''sharedLearning'', summarize_learning shared), (''sourcePayload'', JObj input),
        (''toolDescription'', JStr (cm_description tool)), (''toolName'', JStr (cm_name tool))],
      rtc_rationale = ''Executar '' @ cm_name tool @ '' para avancar o objetivo '' @ quoted objective @ ''.''\<rparr>)"

definition build_agent_runtime_plan :: "agent_manifest \<Rightarrow> string \<Rightarrow> (string \<times> js_val) list \<Rightarrow> string option \<Rightarrow>
    learning_record list \<Rightarrow> runtime_plan" where
  "build_agent_runtime_plan m tenant input context shared =
     (let objective = read_objective input; tools = am_tools m;
          calls = map (plan_call context objective shared input) (zip tools [0..<length tools])
      in \<lparr>rp_logs = [''Resolved manifest '' @ ad_id (am_agent m) @ ''@'' @ ad_version (am_agent m) @ ''.'',
            ''Planning live execution for tenant '' @ tenant @ ''.'',
            ''Loaded '' @ show_nat (length shared) @ '' shared learning record(s).'',
            ''Built '' @ show_nat (length calls) @ '' manifest-native tool call(s).''],
          rp_tool_calls = calls\<rparr>)"

subsection \<open>The output\<close>

definition tool_is_sensitive :: "string \<Rightarrow> bool" where
  "tool_is_sensitive tool \<longleftrightarrow> list_ex (str_includes (js_lower tool))
     [''approval'', ''audit'', ''notification'', ''sync'', ''write'', ''adapter'']"

definition governed_use_cases :: "string list" where
  "governed_use_cases = [''autonomous-monitoring'', ''commercial-operations'', ''multi-agent-execution'']"

datatype artifact_type = ExecutiveReport | TechnicalLog

record output_governance =
  og_reason :: string
  og_require_approval :: bool
  og_type :: artifact_type

definition infer_output_governance :: "agent_manifest \<Rightarrow> runtime_plan \<Rightarrow> output_governance" where
  "infer_output_governance m plan =
     (let approval = list_ex (\<lambda>c. tool_is_sensitive (pc_tool c)) (rp_tool_calls plan) \<or>
            list_ex (\<lambda>t. List.member governed_use_cases t) (mt_use_case (am_tags m))
      in \<lparr>og_reason = (if approval then ''Sensitive toolchain or governed use-case detected.''
            else ''Execution remained within non-sensitive reporting scope.''),
          og_require_approval = approval, og_type = (if approval then ExecutiveReport else TechnicalLog)\<rparr>)"

datatype output_status = StatusCritical | StatusStable | StatusWatch

datatype output_confidence = ConfidenceHigh | ConfidenceLow | ConfidenceMedium

record anticipated_decision =
  dec_decision :: string
  dec_due_window :: string
  dec_owner :: string
  dec_recommended_action :: string
  dec_why_now :: string

record preventive_action =
  pra_action :: string
  pra_checkpoint :: string
  pra_deadline :: string
  pra_expected_impact :: string
  pra_owner :: string

record tool_result =
  trs_finished_at :: string
  trs_output :: js_val
  trs_started_at :: string
  trs_tool :: string

record runtime_output =
  ro_approvals :: "string list"
  ro_confidence :: output_confidence
  ro_decisions :: "anticipated_decision list"
  ro_risks :: "string list"
  ro_indicators :: "string list"
  ro_learning_used :: js_val
  ro_next_checkpoint :: string
  ro_opportunities :: "string list"
  ro_actions :: "preventive_action list"
  ro_shared_learning_count :: nat
  ro_status :: output_status
  ro_summary :: string
  ro_tool_results :: "tool_result list"

definition tool_result_of :: "plan_step \<Rightarrow> tool_result" where
  "tool_result_of st = \<lparr>trs_finished_at = iso_string (ps_finished_at st), trs_output = normalize_json_value (ps_output st),
     trs_started_at = iso_string (ps_started_at st), trs_tool = pc_tool (ps_call st)\<rparr>"

definition build_agent_runtime_output :: "ms \<Rightarrow> agent_manifest \<Rightarrow> runtime_plan \<Rightarrow> (string \<times> js_val) list \<Rightarrow>
    learning_record list \<Rightarrow> plan_step list \<Rightarrow> runtime_output" where
  "build_agent_runtime_output now m plan input shared steps =
     (let owner = read_primary_owner input; approval = og_require_approval (infer_output_governance m plan);
          results = map tool_result_of steps; agent = ad_name (am_agent m)
      in \<lparr>ro_approvals = (if approval then [''Aprovacao humana recomendada antes de compartilhar externamente.''] else []),
          ro_confidence = (if shared \<noteq> [] then ConfidenceHigh else ConfidenceMedium),
          ro_decisions = [\<lparr>dec_decision = ''Publicar ou acionar o proximo passo recomendado'',
            dec_due_window = ''Proxima janela operacional'', dec_owner = owner,
            dec_recommended_action = (if approval then ''Revisar o output e aprovar a acao sensivel.''
              else ''Executar o proximo passo priorizado pelo agente.''),
            dec_why_now = ''A execucao terminou com sinais suficientes para uma decisao operacional.''\<rparr>],
          ro_risks = (if approval then [''O output envolve acao ou artefato sensivel que pede dupla checagem.''] else []),
          ro_indicators = map (\<lambda>c. ''tool-ready:'' @ pc_tool c) (rp_tool_calls plan),
          ro_learning_used = summarize_learning shared, ro_next_checkpoint = iso_string (now + 3600000),
          ro_opportunities = [''Reaproveitar o plano e os aprendizados compartilhados em execucoes correlatas.''],
          ro_actions = [\<lparr>pra_action = (if approval then ''Concluir revisao humana do output''
              else ''Propagar o resultado para o proximo fluxo de trabalho''),
            pra_checkpoint = ''1h'', pra_deadline = iso_string (now + 7200000),
            pra_expected_impact = (if approval then ''Reduzir risco operacional antes da entrega final.''
              else ''Ganhar velocidade com rastreabilidade.''),
            pra_owner = owner\<rparr>],
          ro_shared_learning_count = length shared,
          ro_status = (if approval then StatusWatch else if shared \<noteq> [] then StatusStable else StatusWatch),
          ro_summary = (if approval then agent @ '' concluiu a execucao live e abriu governanca adicional antes da publicacao final.''
            else agent @ '' concluiu a execucao live com '' @ show_nat (length results) @ '' ferramenta(s) do manifesto.''),
          ro_tool_results = results\<rparr>)"

text \<open>The output as the object that is written.\<close>

definition texts :: "string list \<Rightarrow> js_val" where
  "texts ss = JArr (map JStr ss)"

definition confidence_name :: "output_confidence \<Rightarrow> string" where
  "confidence_name c = (case c of ConfidenceHigh \<Rightarrow> ''high'' | ConfidenceLow \<Rightarrow> ''low'' | ConfidenceMedium \<Rightarrow> ''medium'')"

definition status_name :: "output_status \<Rightarrow> string" where
  "status_name s = (case s of StatusCritical \<Rightarrow> ''critical'' | StatusStable \<Rightarrow> ''stable'' | StatusWatch \<Rightarrow> ''watch'')"

definition output_object :: "runtime_output \<Rightarrow> js_val" where
  "output_object r = JObj [(''approvals_or_dependencies'', texts (ro_approvals r)),
     (''confidence'', JStr (confidence_name (ro_confidence r))),
     (''decisions_to_anticipate'', JArr (map (\<lambda>d. JObj [(''decision'', JStr (dec_decision d)),
        (''due_window'', JStr (dec_due_window d)), (''owner'', JStr (dec_owner d)),
        (''recommended_action'', JStr (dec_recommended_action d)), (''why_now'', JStr (dec_why_now d))]) (ro_decisions r))),
     (''emerging_risks'', texts (ro_risks r)), (''executionMode'', JStr ''LIVE''),
     (''leading_indicators'', texts (ro_indicators r)), (''learning_used'', ro_learning_used r),
     (''next_checkpoint'', JStr (ro_next_checkpoint r)), (''opportunities_to_capture'', texts (ro_opportunities r)),
     (''preventive_action_plan'', JArr (map (\<lambda>p. JObj [(''action'', JStr (pra_action p)),
        (''checkpoint'', JStr (pra_checkpoint p)), (''deadline'', JStr (pra_deadline p)),
        (''expected_impact'', JStr (pra_expected_impact p)), (''owner'', JStr (pra_owner p))]) (ro_actions r))),
     (''sharedLearningCount'', JNum (Fin (of_nat (ro_shared_learning_count r)))),
     (''status'', JStr (status_name (ro_status r))), (''summary'', JStr (ro_summary r)),
     (''tool_results'', JArr (map (\<lambda>t. JObj [(''finishedAt'', JStr (trs_finished_at t)), (''output'', trs_output t),
        (''startedAt'', JStr (trs_started_at t)), (''tool'', JStr (trs_tool t))]) (ro_tool_results r)))]"

subsection \<open>What the rules grant\<close>

text \<open>The rule of an id is the last one that has it.\<close>

lemma merged_rules:
  "map_of (fold (\<lambda>r merged. AList.update (rule_id r) r merged) rs merged) i =
     (case List.find (\<lambda>r. rule_id r = i) (rev rs) of Some r \<Rightarrow> Some r | None \<Rightarrow> map_of merged i)"
  by (induction rs arbitrary: merged) (auto simp: find_append or_opt_def split: option.splits)

lemma distinct_merged:
  "distinct (map fst merged) \<Longrightarrow> distinct (map fst (fold (\<lambda>r merged. AList.update (rule_id r) r merged) rs merged))"
  by (induction rs arbitrary: merged) (simp_all add: distinct_update)

lemma build_rules_mem:
  "r \<in> set (build_runtime_policy_rules m ps) \<longleftrightarrow>
     List.find (\<lambda>x. rule_id x = rule_id r) (rev (rules_from_manifest m @ rules_from_managed_policies ps)) = Some r"
proof -
  let ?rs = "rules_from_manifest m @ rules_from_managed_policies ps"
  let ?m = "fold (\<lambda>r merged. AList.update (rule_id r) r merged) ?rs []"
  have d: "distinct (map fst ?m)" by (rule distinct_merged) simp
  have keys: "\<forall>(k, v) \<in> set (fold (\<lambda>r merged. AList.update (rule_id r) r merged) rs merged). k = rule_id v"
    if "\<forall>(k, v) \<in> set merged. k = rule_id v" for rs merged
    using that
  proof (induction rs arbitrary: merged)
    case (Cons r rs)
    have "\<forall>(k, v) \<in> set (AList.update (rule_id r) r merged). k = rule_id v"
      using Cons.prems by (induction merged) auto
    from Cons.IH[OF this] show ?case by simp
  qed simp
  have "r \<in> set (map snd ?m) \<longleftrightarrow> (\<exists>k. (k, r) \<in> set ?m)" by force
  also have "\<dots> \<longleftrightarrow> (rule_id r, r) \<in> set ?m" using keys[of "[]" ?rs] by auto
  also have "\<dots> \<longleftrightarrow> map_of ?m (rule_id r) = Some r" using d by simp
  also have "\<dots> \<longleftrightarrow> List.find (\<lambda>x. rule_id x = rule_id r) (rev ?rs) = Some r"
    unfolding merged_rules by (simp split: option.split)
  finally show ?thesis by (simp add: build_runtime_policy_rules_def)
qed

end
