(* ===== verification/AgentTools.thy ===== *)
theory AgentTools
  imports AgentPlan
begin

text \<open>
  The first half of \<open>apps/worker/src/agents/runtime.ts\<close>: the configuration an installed agent
  carries, the tools an execution is given and their costs, and one run of a tool
  (\<open>BaseTool.run\<close> of \<open>packages/agents-core/src/tools/baseTool.ts\<close>).
\<close>

subsection \<open>Configuration\<close>

datatype runtime_provider = ManifestRuntime | PythonOrchestrator

record agent_config =
  acf_managed_policies :: "managed_agent_policy list"
  acf_provider :: runtime_provider
  acf_source_agent_id :: "string option"

text \<open>A property of a value; only an object has any here.\<close>

definition js_prop :: "js_val \<Rightarrow> string \<Rightarrow> js_val" where
  "js_prop v k = (case v of JObj fs \<Rightarrow> obj_get fs k | _ \<Rightarrow> JUndef)"

definition as_text :: "js_val \<Rightarrow> string option" where
  "as_text v = (case v of JStr s \<Rightarrow> Some s | _ \<Rightarrow> None)"

definition read_managed_policy :: "js_val \<Rightarrow> managed_agent_policy option" where
  "read_managed_policy v =
     (case (js_prop v ''id'', js_prop v ''name'', js_prop v ''effect'', js_prop v ''actions'') of
        (JStr i, JStr n, JStr e, JArr actions) \<Rightarrow>
          Some \<lparr>map_actions = List.map_filter as_text actions, map_effect = (if e = ''deny'' then Deny else Allow),
            map_enabled = (case js_prop v ''enabled'' of JBool b \<Rightarrow> Some b | _ \<Rightarrow> None),
            map_id = i, map_name = n, map_reason = as_text (js_prop v ''reason'')\<rparr>
      | _ \<Rightarrow> None)"

definition parse_agent_config :: "js_val \<Rightarrow> agent_config" where
  "parse_agent_config config =
     \<lparr>acf_managed_policies = (case js_prop config ''managedPolicies'' of
        JArr vs \<Rightarrow> List.map_filter read_managed_policy vs | _ \<Rightarrow> []),
      acf_provider = (if js_prop (js_prop config ''runtime'') ''provider'' = JStr ''python-orchestrator''
        then PythonOrchestrator else ManifestRuntime),
      acf_source_agent_id = as_text (js_prop config ''sourceAgentId'')\<rparr>"

definition read_session_id :: "(string \<times> js_val) list \<Rightarrow> string option" where
  "read_session_id input =
     or_opt (read_text (obj_get input ''sessionId'')) (read_text (context_value input ''sessionId''))"

subsection \<open>The capability tool\<close>

fun read_numbers :: "js_val \<Rightarrow> rat list" where
  "read_numbers (JNum (Fin q)) = [q]"
| "read_numbers (JArr vs) = concat (map read_numbers vs)"
| "read_numbers (JObj fs) = concat (map (\<lambda>(k, v). read_numbers v) fs)"
| "read_numbers v = []"

fun read_strings :: "js_val \<Rightarrow> string list" where
  "read_strings (JStr s) = (if js_trim s = [] then [] else [js_trim s])"
| "read_strings (JArr vs) = concat (map read_strings vs)"
| "read_strings (JObj fs) = concat (map (\<lambda>(k, v). read_strings v) fs)"
| "read_strings v = []"

text \<open>Who runs a tool: the agent of the manifest, the tenant and the execution.\<close>

record tool_context =
  tc_agent_id :: string
  tc_tenant_id :: string
  tc_trace_id :: string

text \<open>\<open>input.sourcePayload ?? input\<close>.\<close>

definition source_payload :: "js_val \<Rightarrow> js_val" where
  "source_payload input = (case js_prop input ''sourcePayload'' of JUndef \<Rightarrow> input | JNull \<Rightarrow> input | v \<Rightarrow> v)"

definition observed_average :: "rat list \<Rightarrow> rat" where
  "observed_average ns = (if ns = [] then 0 else round_cents (sum_list ns / of_nat (length ns)))"

definition capability_output :: "tool_manifest \<Rightarrow> tool_context \<Rightarrow> js_val \<Rightarrow> js_val" where
  "capability_output t c input =
     (let numbers = read_numbers (source_payload input); strings = take 6 (read_strings (source_payload input))
      in JObj [(''agentId'', JStr (tc_agent_id c)), (''capability'', JStr (cm_name t)),
        (''capabilityId'', JStr (cm_id t)), (''confidence'', JStr (if numbers \<noteq> [] then ''medium'' else ''high'')),
        (''evidence'', JArr (map JStr strings)), (''observedAverage'', JNum (Fin (observed_average numbers))),
        (''summary'', JStr (cm_name t @ '' executada com '' @ show_nat (length numbers) @ '' sinal(is) numerico(s) e '' @
           show_nat (length strings) @ '' evidencia(s) textual(is).'')),
        (''tenantId'', JStr (tc_tenant_id c)), (''traceId'', JStr (tc_trace_id c))])"

subsection \<open>The tools of an execution\<close>

text \<open>A tool of the manifest, or one of the four of \<open>agents-core/tools\<close>; a plan never names one of
  these unless the manifest does, and then the manifest's tool has taken its place.\<close>

datatype runtime_tool = BuiltinTool string | CapabilityTool tool_manifest

definition builtin_tools :: "(string \<times> runtime_tool) list" where
  "builtin_tools = map (\<lambda>n. (n, BuiltinTool n)) [''db-read'', ''db-write'', ''http'', ''send-email'']"

definition create_runtime_tools :: "agent_manifest \<Rightarrow> (string \<times> runtime_tool) list" where
  "create_runtime_tools m = fold (\<lambda>t tools. AList.update (cm_id t) (CapabilityTool t) tools) (am_tools m) builtin_tools"

definition tool_cost :: "rat \<Rightarrow> tool_manifest \<Rightarrow> rat" where
  "tool_cost base t = round_cents (base + min (of_int (tm_timeout_ms t) / 60000) 1 * (2 / 25))"

definition build_tool_cost_table :: "rat \<Rightarrow> agent_manifest \<Rightarrow> (string \<times> rat) list" where
  "build_tool_cost_table base m = fold (\<lambda>t table. AList.update (cm_id t) (tool_cost base t) table) (am_tools m)
     [(''db-read'', 2 / 25), (''db-write'', 3 / 25), (''http'', 11 / 50), (''send-email'', 3 / 50)]"

definition cost_of_call :: "rat \<Rightarrow> agent_manifest \<Rightarrow> string \<Rightarrow> rat" where
  "cost_of_call base m tool = or_else (map_of (build_tool_cost_table base m) tool) base"

text \<open>\<open>timeoutMs\<close> of a tool object; a timeout of 0 would leave the default of the class.\<close>

definition runtime_tool_timeout :: "runtime_tool \<Rightarrow> int" where
  "runtime_tool_timeout t = (case t of
     BuiltinTool _ \<Rightarrow> 30000 | CapabilityTool c \<Rightarrow> if tm_timeout_ms c = 0 then 30000 else tm_timeout_ms c)"

definition runtime_tool_entry :: "rat \<Rightarrow> agent_manifest \<Rightarrow> string \<Rightarrow> tool_entry option" where
  "runtime_tool_entry base m tool = map_option (\<lambda>t. \<lparr>te_timeout_ms = runtime_tool_timeout t,
     te_cost = Fin (cost_of_call base m tool)\<rparr>) (map_of (create_runtime_tools m) tool)"

text \<open>\<open>BaseTool.run\<close> with the rules of the execution: the schemas of a capability tool pass every
  object, and its \<open>execute\<close> does not wait, so the timer never wins the race. What a builtin tool
  does is given.\<close>

definition run_runtime_tool :: "(string \<Rightarrow> js_val \<Rightarrow> exec_error + js_val) \<Rightarrow> policy_rule list \<Rightarrow> agent_manifest \<Rightarrow>
    tool_context \<Rightarrow> string \<Rightarrow> js_val \<Rightarrow> exec_error + js_val" where
  "run_runtime_tool builtin rules m c tool input = (case map_of (create_runtime_tools m) tool of
     None \<Rightarrow> Inl (ExecError None [])
   | Some t \<Rightarrow>
       let r = evaluate rules (tc_agent_id c) (''tool.'' @ tool) (Some (tc_tenant_id c))
       in if \<not> granted r then Inl (ExecError (Some ''POLICY_DENIED'') (policy_reason r))
          else case t of BuiltinTool n \<Rightarrow> builtin n input | CapabilityTool d \<Rightarrow> Inr (capability_output d c input))"

subsection \<open>What the tools of a manifest are\<close>

lemma map_of_fold_update:
  "map_of (fold (\<lambda>t m. AList.update (k t) (f t) m) ts m) x =
     (case List.find (\<lambda>t. k t = x) (rev ts) of Some t \<Rightarrow> Some (f t) | None \<Rightarrow> map_of m x)"
  by (induction ts arbitrary: m) (auto simp: find_append or_opt_def split: option.splits)

text \<open>The tool the executor runs under an id: the last one of the manifest with that id.\<close>

definition named_tool :: "agent_manifest \<Rightarrow> string \<Rightarrow> tool_manifest option" where
  "named_tool m tool = List.find (\<lambda>t. cm_id t = tool) (rev (am_tools m))"

lemma named_tool_planned: "t \<in> set (am_tools m) \<Longrightarrow> \<exists>t'. named_tool m (cm_id t) = Some t'"
  unfolding named_tool_def using find_None_iff[of "\<lambda>t'. cm_id t' = cm_id t" "rev (am_tools m)"] by fastforce

lemma named_tool_entry:
  assumes "named_tool m tool = Some t"
  shows "map_of (create_runtime_tools m) tool = Some (CapabilityTool t)"
    and "cost_of_call base m tool = tool_cost base t"
    and "runtime_tool_entry base m tool =
      Some \<lparr>te_timeout_ms = runtime_tool_timeout (CapabilityTool t), te_cost = Fin (tool_cost base t)\<rparr>"
proof -
  show tool: "map_of (create_runtime_tools m) tool = Some (CapabilityTool t)"
    using assms by (simp add: create_runtime_tools_def map_of_fold_update named_tool_def)
  show "cost_of_call base m tool = tool_cost base t"
    using assms by (simp add: cost_of_call_def build_tool_cost_table_def map_of_fold_update named_tool_def)
  with tool show "runtime_tool_entry base m tool =
      Some \<lparr>te_timeout_ms = runtime_tool_timeout (CapabilityTool t), te_cost = Fin (tool_cost base t)\<rparr>"
    by (simp add: runtime_tool_entry_def)
qed

lemma whole_round_cents: "whole_cents (round_cents q)"
  unfolding whole_cents_int round_cents_def by (intro exI[of _ "\<lfloor>q * 100 + 1 / 2\<rfloor>"]) simp

lemma tool_cost_whole [simp]: "whole_cents (tool_cost base t)" "round_cents (tool_cost base t) = tool_cost base t"
  by (simp_all add: tool_cost_def whole_round_cents round_cents_whole)

lemma round_cents_mono: "0 \<le> q \<Longrightarrow> 0 \<le> round_cents q"
  by (simp add: round_cents_def)

lemma tool_cost_nonneg: "0 \<le> base \<Longrightarrow> 0 \<le> tm_timeout_ms t \<Longrightarrow> 0 \<le> tool_cost base t"
  unfolding tool_cost_def by (intro round_cents_mono add_nonneg_nonneg) simp_all

end
