(* ===== verification/AgentBudget.thy ===== *)
theory AgentBudget
  imports Schema Json
begin

text \<open>
  Budgets of agents: \<open>apps/api/src/modules/budget/budget.service.ts\<close> and the two functions of
  \<open>apps/worker/src/agents/runtime.ts\<close> that check a budget before an execution and charge it
  afterwards. Both write the tables AgentBudget and AgentBudgetEvent of \<open>schema.prisma\<close>. Amounts
  are exact rationals; an empty update leaves \<open>updatedAt\<close> alone.
\<close>

record budget_row =
  bdg_id :: string
  bdg_tenant_id :: string
  bdg_organization_id :: string
  bdg_agent_id :: string
  bdg_limit :: rat
  bdg_consumed :: rat
  bdg_alert_level :: "string option"
  bdg_updated_at :: ms

record budget_event =
  bev_id :: string
  bev_tenant_id :: string
  bev_organization_id :: string
  bev_agent_id :: string
  bev_actor_id :: string
  bev_request_id :: "string option"
  bev_kind :: string
  bev_cost :: rat
  bev_mode :: string
  bev_metadata :: js_val
  bev_created_at :: ms

record budget_db =
  bdb_budgets :: "budget_row list"
  bdb_events :: "budget_event list"

text \<open>What a call is given: who calls, for which agent, the time and the ids the database draws.\<close>

record budget_call =
  bc_tenant_id :: string
  bc_organization_id :: string
  bc_agent_id :: string
  bc_actor_id :: string
  bc_request_id :: "string option"
  bc_now :: ms
  bc_budget_id :: string
  bc_event_id :: string
  bc_alert_id :: string

definition budget_indexes :: "budget_row index list" where
  "budget_indexes = [(''id'', \<lambda>r. Some (bdg_id r)),
     (''tenantId_agentId'', \<lambda>r. Some (compound_key (bdg_tenant_id r) (bdg_agent_id r)))]"

definition event_indexes :: "budget_event index list" where
  "event_indexes = [(''id'', \<lambda>e. Some (bev_id e))]"

definition on_budgets :: "(budget_row list \<Rightarrow> db_error + budget_row list) \<Rightarrow> (budget_db, unit) operation" where
  "on_budgets = on_table bdb_budgets (\<lambda>rows db. db\<lparr>bdb_budgets := rows\<rparr>)"

definition add_event :: "budget_event \<Rightarrow> (budget_db, unit) operation" where
  "add_event e = on_table bdb_events (\<lambda>rows db. db\<lparr>bdb_events := rows\<rparr>) (create_row event_indexes e)"

definition default_budget_limit :: rat where
  "default_budget_limit = 100"

definition find_budget :: "string \<Rightarrow> string \<Rightarrow> budget_db \<Rightarrow> budget_row option" where
  "find_budget tenant agent db =
     List.find (\<lambda>r. bdg_tenant_id r = tenant \<and> bdg_agent_id r = agent) (bdb_budgets db)"

text \<open>The row a create leaves, the rest of it from the defaults of the schema.\<close>

definition new_budget :: "budget_call \<Rightarrow> rat \<Rightarrow> budget_row" where
  "new_budget c limit = \<lparr>bdg_id = bc_budget_id c, bdg_tenant_id = bc_tenant_id c,
     bdg_organization_id = bc_organization_id c, bdg_agent_id = bc_agent_id c, bdg_limit = limit,
     bdg_consumed = 0, bdg_alert_level = None, bdg_updated_at = bc_now c\<rparr>"

text \<open>\<open>agentBudget.upsert\<close> by \<open>tenantId_agentId\<close> with an update \<open>f\<close>.\<close>

definition upsert_budget :: "budget_call \<Rightarrow> rat \<Rightarrow> (budget_row \<Rightarrow> budget_row) \<Rightarrow> (budget_db, budget_row) operation" where
  "upsert_budget c limit f =
     then_do (ask (find_budget (bc_tenant_id c) (bc_agent_id c))) (\<lambda>found. case found of
       Some r \<Rightarrow> then_do (on_budgets (update_unique ''agentBudget'' budget_indexes (\<lambda>x. bdg_id x = bdg_id r) f))
         (\<lambda>_. give (f r))
     | None \<Rightarrow> let r = new_budget c limit
         in then_do (on_budgets (create_row budget_indexes r)) (\<lambda>_. give r))"

text \<open>\<open>agentBudget.update\<close> by id.\<close>

definition update_budget :: "budget_call \<Rightarrow> string \<Rightarrow> (budget_row \<Rightarrow> budget_row) \<Rightarrow> (budget_db, unit) operation" where
  "update_budget c i f = on_budgets (update_unique ''agentBudget'' budget_indexes (\<lambda>r. bdg_id r = i)
     (\<lambda>r. (f r)\<lparr>bdg_updated_at := bc_now c\<rparr>))"

definition budget_event_of :: "budget_call \<Rightarrow> string \<Rightarrow> string \<Rightarrow> rat \<Rightarrow> string \<Rightarrow> (string \<times> js_val) list \<Rightarrow> budget_event" where
  "budget_event_of c i kind cost mode metadata = \<lparr>bev_id = i, bev_tenant_id = bc_tenant_id c,
     bev_organization_id = bc_organization_id c, bev_agent_id = bc_agent_id c, bev_actor_id = bc_actor_id c,
     bev_request_id = bc_request_id c, bev_kind = kind, bev_cost = cost, bev_mode = mode,
     bev_metadata = JObj metadata, bev_created_at = bc_now c\<rparr>"

subsection \<open>Views\<close>

record budget_record =
  br_agent_id :: string
  br_consumed :: rat
  br_currency :: string
  br_id :: string
  br_limit :: rat
  br_tenant_id :: string
  br_updated_at :: string

definition to_budget_record :: "budget_row \<Rightarrow> budget_record" where
  "to_budget_record r = \<lparr>br_agent_id = bdg_agent_id r, br_consumed = to_fixed 4 (bdg_consumed r),
     br_currency = ''BRL'', br_id = bdg_id r, br_limit = to_fixed 4 (bdg_limit r),
     br_tenant_id = bdg_tenant_id r, br_updated_at = iso_string (bdg_updated_at r)\<rparr>"

record budget_usage_event =
  bu_agent_id :: string
  bu_cost :: rat
  bu_event_id :: string
  bu_mode :: string
  bu_tenant_id :: string
  bu_timestamp :: string

definition to_budget_usage_event :: "budget_event \<Rightarrow> budget_usage_event" where
  "to_budget_usage_event e =
     (let cost = (if bev_kind e = ''DRY_RUN'' \<or> bev_kind e = ''WARN_80'' \<or> bev_kind e = ''BLOCK_100'' then 0
                  else bev_cost e)
      in \<lparr>bu_agent_id = bev_agent_id e, bu_cost = to_fixed 4 cost, bu_event_id = bev_id e,
          bu_mode = (if bev_mode e = ''DRY_RUN'' then ''DRY_RUN'' else ''LIVE''),
          bu_tenant_id = bev_tenant_id e, bu_timestamp = iso_string (bev_created_at e)\<rparr>)"

record budget_alert =
  ba_agent_id :: string
  ba_level :: string
  ba_message :: string
  ba_tenant_id :: string
  ba_timestamp :: string

definition to_budget_alert :: "budget_event \<Rightarrow> budget_alert option" where
  "to_budget_alert e =
     (if bev_kind e \<noteq> ''WARN_80'' \<and> bev_kind e \<noteq> ''BLOCK_100'' then None
      else
        let given = (case bev_metadata e of JObj fs \<Rightarrow> obj_get fs ''message'' | _ \<Rightarrow> JUndef);
            message = (case given of
                JStr s \<Rightarrow> s
              | _ \<Rightarrow> if bev_kind e = ''WARN_80'' then ''Budget warning for agent '' @ bev_agent_id e @ ''.''
                    else ''Budget blocked for agent '' @ bev_agent_id e @ ''.'')
        in Some \<lparr>ba_agent_id = bev_agent_id e, ba_level = bev_kind e, ba_message = message,
             ba_tenant_id = bev_tenant_id e, ba_timestamp = iso_string (bev_created_at e)\<rparr>)"

subsection \<open>The service\<close>

definition set_limit :: "budget_call \<Rightarrow> rat \<Rightarrow> (budget_db, budget_record) operation" where
  "set_limit c limit =
     then_do (upsert_budget c limit (\<lambda>r. r\<lparr>bdg_limit := limit, bdg_updated_at := bc_now c\<rparr>)) (\<lambda>r.
       give (to_budget_record r))"

definition get_record :: "budget_call \<Rightarrow> (budget_db, budget_record) operation" where
  "get_record c = then_do (upsert_budget c default_budget_limit (\<lambda>r. r)) (\<lambda>r. give (to_budget_record r))"

definition usage_of ::
    "string \<Rightarrow> string \<Rightarrow> budget_db \<Rightarrow> budget_alert list \<times> budget_record list \<times> budget_usage_event list" where
  "usage_of organization tenant db =
     (let rows = sort_key (\<lambda>r. - bdg_updated_at r)
            (filter (\<lambda>r. bdg_organization_id r = organization \<and> bdg_tenant_id r = tenant) (bdb_budgets db));
          es = take 250 (sort_key (\<lambda>e. - bev_created_at e)
            (filter (\<lambda>e. bev_organization_id e = organization \<and> bev_tenant_id e = tenant) (bdb_events db)))
      in (List.map_filter to_budget_alert es, map to_budget_record rows,
          map to_budget_usage_event (filter (\<lambda>e. bev_kind e = ''CONSUME'' \<or> bev_kind e = ''DRY_RUN'') es)))"

definition usage_ratio :: "rat \<Rightarrow> rat \<Rightarrow> rat" where
  "usage_ratio consumed limit = (if limit = 0 then 1 else consumed / limit)"

definition usage_message :: "string \<Rightarrow> string \<Rightarrow> rat \<Rightarrow> string" where
  "usage_message what agent ratio =
     ''Budget '' @ what @ '': agent '' @ agent @ '' reached '' @ show_fixed 1 (ratio * 100) @ ''% usage.''"

definition usage_metadata :: "rat \<Rightarrow> rat \<Rightarrow> (string \<times> js_val) list" where
  "usage_metadata consumed limit = [(''consumedBrl'', JNum (Fin consumed)), (''limitBrl'', JNum (Fin limit))]"

definition budget_exceeded :: "string \<Rightarrow> api_error" where
  "budget_exceeded agent = Failure (''Budget exhausted for agent '' @ agent @ ''.'')"

definition dry_run_event :: "budget_call \<Rightarrow> budget_event" where
  "dry_run_event c = budget_event_of c (bc_event_id c) ''DRY_RUN'' 0 ''DRY_RUN''
     [(''note'', JStr ''Dry-run executions do not consume budget.'')]"

text \<open>The branch of a consumption that would pass the limit.\<close>

definition block_consumption :: "budget_call \<Rightarrow> rat \<Rightarrow> rat \<Rightarrow> budget_row \<Rightarrow> (budget_db, budget_record) operation" where
  "block_consumption c cost consumed r =
     then_do (update_budget c (bdg_id r) (\<lambda>x. x\<lparr>bdg_alert_level := Some ''BLOCK_100''\<rparr>)) (\<lambda>_.
     then_do (add_event (budget_event_of c (bc_event_id c) ''BLOCK_100'' cost ''LIVE''
       (usage_metadata consumed (bdg_limit r) @
        [(''message'', JStr (usage_message ''blocked'' (bc_agent_id c) (usage_ratio consumed (bdg_limit r))))]))) (\<lambda>_.
     throw (budget_exceeded (bc_agent_id c))))"

definition alert_after_charge :: "budget_call \<Rightarrow> rat \<Rightarrow> budget_row \<Rightarrow> (budget_db, unit) operation" where
  "alert_after_charge c consumed r =
     (let ratio = usage_ratio consumed (bdg_limit r)
      in if 4 / 5 \<le> ratio \<and> bdg_alert_level r \<noteq> Some ''WARN_80'' then
           let level = (if 1 \<le> ratio then ''BLOCK_100'' else ''WARN_80'');
               message = usage_message (if level = ''WARN_80'' then ''warning'' else ''blocked'') (bc_agent_id c) ratio
           in then_do (update_budget c (bdg_id r) (\<lambda>x. x\<lparr>bdg_alert_level := Some level\<rparr>)) (\<lambda>_.
              add_event (budget_event_of c (bc_alert_id c) level 0 ''LIVE''
                (usage_metadata consumed (bdg_limit r) @ [(''message'', JStr message)])))
         else give ())"

definition charge_budget :: "budget_call \<Rightarrow> rat \<Rightarrow> rat \<Rightarrow> budget_row \<Rightarrow> (budget_db, budget_record) operation" where
  "charge_budget c cost consumed r =
     (let charged = r\<lparr>bdg_consumed := consumed, bdg_updated_at := bc_now c\<rparr>
      in then_do (update_budget c (bdg_id r) (\<lambda>x. x\<lparr>bdg_consumed := consumed\<rparr>)) (\<lambda>_.
         then_do (add_event (budget_event_of c (bc_event_id c) ''CONSUME'' cost ''LIVE''
           (usage_metadata consumed (bdg_limit r)))) (\<lambda>_.
         then_do (alert_after_charge c consumed charged) (\<lambda>_. give (to_budget_record charged)))))"

definition consume_budget :: "budget_call \<Rightarrow> bool \<Rightarrow> rat \<Rightarrow> (budget_db, budget_record) operation" where
  "consume_budget c dry_run cost = in_transaction
     (then_do (upsert_budget c default_budget_limit (\<lambda>r. r)) (\<lambda>r.
        if dry_run then then_do (add_event (dry_run_event c)) (\<lambda>_. give (to_budget_record r))
        else
          let consumed = to_fixed 4 (bdg_consumed r + cost)
          in if bdg_limit r < consumed then block_consumption c cost consumed r
             else charge_budget c cost consumed r))"

text \<open>\<open>POST /consume\<close> answers 402 for an exhausted budget.\<close>

definition consume_route :: "budget_call \<Rightarrow> bool \<Rightarrow> rat \<Rightarrow> (budget_db, budget_record) operation" where
  "consume_route c dry_run cost db = (case consume_budget c dry_run cost db of
     (Inl (Failure m), db') \<Rightarrow> (Inl (Problem 402 m), db')
   | r \<Rightarrow> r)"

text \<open>The estimate for an agent of the catalogue with so many tools and skills.\<close>

definition estimate_cost :: "(nat \<times> nat) option \<Rightarrow> rat \<times> string" where
  "estimate_cost entry = (case entry of
     None \<Rightarrow> (1 / 2, ''Fallback estimate used because agent was not found in catalog.'')
   | Some (tools, skills) \<Rightarrow>
       (to_fixed 2 (15 / 100 + of_nat tools * (8 / 100) + of_nat skills * (4 / 100)),
        ''Base '' @ show_fixed 2 (15 / 100) @ '' + '' @ show_nat tools @ '' tools + '' @ show_nat skills @ '' skills.''))"

definition csv_header :: string where
  "csv_header = ''eventId,tenantId,agentId,executionMode,costBRL,timestamp,actorId,requestId''"

definition csv_fields :: "budget_event \<Rightarrow> string list" where
  "csv_fields e = [bev_id e, bev_tenant_id e, bev_agent_id e, bev_mode e, show_num (Fin (bev_cost e)),
     iso_string (bev_created_at e), bev_actor_id e, or_else (bev_request_id e) []]"

definition exported_events :: "string \<Rightarrow> string \<Rightarrow> budget_db \<Rightarrow> budget_event list" where
  "exported_events organization tenant db = sort_key bev_created_at
     (filter (\<lambda>e. (bev_kind e = ''CONSUME'' \<or> bev_kind e = ''DRY_RUN'') \<and>
        bev_organization_id e = organization \<and> bev_tenant_id e = tenant) (bdb_events db))"

definition export_usage_csv :: "string \<Rightarrow> string \<Rightarrow> budget_db \<Rightarrow> string" where
  "export_usage_csv organization tenant db = join_with [CHR 0x0A]
     (csv_header # map (\<lambda>e. join_with '','' (csv_fields e)) (exported_events organization tenant db))"

subsection \<open>The worker\<close>

text \<open>\<open>ensureBudgetHeadroom\<close>: not a transaction, its entries stay when it throws.\<close>

definition ensure_budget_headroom :: "budget_call \<Rightarrow> string \<Rightarrow> rat \<Rightarrow> (budget_db, rat \<times> rat) operation" where
  "ensure_budget_headroom c execution cost =
     then_do (upsert_budget c default_budget_limit (\<lambda>r. r)) (\<lambda>r.
     let projected = round_cents (bdg_consumed r + cost)
     in if projected \<le> bdg_limit r then give (bdg_consumed r, bdg_limit r)
        else
          then_do (update_budget c (bdg_id r) (\<lambda>x. x\<lparr>bdg_alert_level := Some ''BLOCK_100''\<rparr>)) (\<lambda>_.
          then_do (add_event (budget_event_of (c\<lparr>bc_request_id := Some execution\<rparr>) (bc_event_id c) ''BLOCK_100'' cost ''LIVE''
            [(''consumedBrl'', JNum (Fin projected)), (''executionId'', JStr execution),
             (''limitBrl'', JNum (Fin (bdg_limit r))),
             (''message'', JStr (''Execution '' @ execution @
                '' blocked before start because the tenant budget would be exceeded.''))])) (\<lambda>_.
          throw (Failure (''Execution would exceed the configured budget for agent '' @ bc_agent_id c @ ''.'')))))"

definition worker_alert_level :: "rat \<Rightarrow> budget_row \<Rightarrow> string option" where
  "worker_alert_level consumed r =
     (if bdg_limit r \<le> consumed then Some ''BLOCK_100''
      else if bdg_limit r * (4 / 5) \<le> consumed then Some ''WARN_80''
      else bdg_alert_level r)"

definition worker_consume_budget :: "budget_call \<Rightarrow> string \<Rightarrow> rat \<Rightarrow> (budget_db, rat \<times> rat \<times> string option) operation" where
  "worker_consume_budget c execution cost = in_transaction
     (then_do (upsert_budget c default_budget_limit (\<lambda>r. r)) (\<lambda>r.
      let consumed = round_cents (bdg_consumed r + cost); level = worker_alert_level consumed r;
          c' = c\<lparr>bc_request_id := Some execution\<rparr>
      in then_do (update_budget c (bdg_id r) (\<lambda>x. x\<lparr>bdg_consumed := consumed, bdg_alert_level := level\<rparr>)) (\<lambda>_.
         then_do (add_event (budget_event_of c' (bc_event_id c) ''CONSUME'' cost ''LIVE''
           [(''consumedBrl'', JNum (Fin consumed)), (''executionId'', JStr execution),
            (''limitBrl'', JNum (Fin (bdg_limit r)))])) (\<lambda>_.
         then_do (if level = Some ''WARN_80'' \<or> level = Some ''BLOCK_100'' then
             add_event (budget_event_of c' (bc_alert_id c) (the level) 0 ''LIVE''
               [(''consumedBrl'', JNum (Fin consumed)), (''executionId'', JStr execution),
                (''limitBrl'', JNum (Fin (bdg_limit r))),
                (''message'', JStr (if level = Some ''WARN_80'' then ''Agent '' @ bc_agent_id c @ '' crossed the 80% budget threshold.''
                   else ''Agent '' @ bc_agent_id c @ '' reached the configured budget cap.''))])
           else give ()) (\<lambda>_.
         give (consumed, bdg_limit r, level))))))"

end
