(* ===== verification/Conversations.thy ===== *)
theory Conversations
  imports Schema Json
begin

text \<open>
  \<open>apps/worker/src/agents/conversations.ts\<close>: the threads and messages a conversation with an agent
  leaves in the tables ConversationThread and ConversationMessage.
\<close>

record thread_row =
  th_id :: string
  th_tenant_id :: string
  th_organization_id :: string
  th_connector_account_id :: "string option"
  th_external_thread_id :: "string option"
  th_channel :: string
  th_status :: string
  th_subject :: "string option"
  th_correlation_id :: "string option"
  th_lead_reference :: "string option"
  th_customer_reference :: "string option"
  th_metadata :: "js_val option"
  th_created_at :: ms

record thread_message_row =
  tmr_id :: string
  tmr_tenant_id :: string
  tmr_organization_id :: string
  tmr_thread_id :: string
  tmr_direction :: string
  tmr_role :: "string option"
  tmr_agent_id :: "string option"
  tmr_external_message_id :: "string option"
  tmr_content :: js_val
  tmr_content_preview :: string
  tmr_metadata :: "js_val option"
  tmr_created_at :: ms

record conversation_db =
  cdb_threads :: "thread_row list"
  cdb_messages :: "thread_message_row list"

definition thread_indexes :: "thread_row index list" where
  "thread_indexes = [(''id'', \<lambda>r. Some (th_id r))]"

definition message_indexes :: "thread_message_row index list" where
  "message_indexes = [(''id'', \<lambda>r. Some (tmr_id r))]"

definition on_threads where
  "on_threads = on_table cdb_threads (\<lambda>rows db. db\<lparr>cdb_threads := rows\<rparr>)"

definition on_messages where
  "on_messages = on_table cdb_messages (\<lambda>rows db. db\<lparr>cdb_messages := rows\<rparr>)"

text \<open>A text that is there and not blank, trimmed.\<close>

definition trimmed :: "string option \<Rightarrow> string option" where
  "trimmed v = truthy (map_option js_trim v)"

record thread_request =
  tr_channel :: string
  tr_connector_account_id :: "string option"
  tr_correlation_id :: "string option"
  tr_customer_reference :: "string option"
  tr_external_thread_id :: "string option"
  tr_lead_reference :: "string option"
  tr_metadata :: "js_val option"
  tr_organization_id :: string
  tr_status :: "string option"
  tr_subject :: "string option"
  tr_tenant_id :: string
  tr_thread_id :: "string option"

definition resolve_existing_thread :: "thread_request \<Rightarrow> conversation_db \<Rightarrow> thread_row option" where
  "resolve_existing_thread q db =
     (let own = filter (\<lambda>r. th_organization_id r = tr_organization_id q) (cdb_threads db)
      in case trimmed (tr_thread_id q) of
           Some i \<Rightarrow> List.find (\<lambda>r. th_id r = i) own
         | None \<Rightarrow> (case trimmed (tr_external_thread_id q) of
             Some i \<Rightarrow> List.find (\<lambda>r. th_external_thread_id r = Some i) own
           | None \<Rightarrow> (case trimmed (tr_correlation_id q) of
               Some i \<Rightarrow> List.find (\<lambda>r. th_correlation_id r = Some i) (sort_key (\<lambda>r. - th_created_at r) own)
             | None \<Rightarrow> None)))"

text \<open>The value of a column that is filled once: kept when the row has a text, else taken over.\<close>

definition fill_once :: "string option \<Rightarrow> string option \<Rightarrow> string option" where
  "fill_once new old = (if truthy new \<noteq> None \<and> truthy old = None then new else old)"

definition refresh_thread :: "thread_request \<Rightarrow> thread_row \<Rightarrow> thread_row" where
  "refresh_thread q r = r\<lparr>th_connector_account_id := fill_once (tr_connector_account_id q) (th_connector_account_id r),
     th_correlation_id := fill_once (tr_correlation_id q) (th_correlation_id r),
     th_external_thread_id := fill_once (tr_external_thread_id q) (th_external_thread_id r),
     th_metadata := or_opt (tr_metadata q) (th_metadata r),
     th_status := or_else (truthy (tr_status q)) (th_status r),
     th_subject := fill_once (tr_subject q) (th_subject r)\<rparr>"

definition new_thread :: "string \<Rightarrow> ms \<Rightarrow> thread_request \<Rightarrow> thread_row" where
  "new_thread i now q = \<lparr>th_id = i, th_tenant_id = tr_tenant_id q, th_organization_id = tr_organization_id q,
     th_connector_account_id = truthy (tr_connector_account_id q),
     th_external_thread_id = truthy (tr_external_thread_id q), th_channel = tr_channel q,
     th_status = or_else (tr_status q) ''open'', th_subject = truthy (tr_subject q),
     th_correlation_id = truthy (tr_correlation_id q), th_lead_reference = truthy (tr_lead_reference q),
     th_customer_reference = truthy (tr_customer_reference q), th_metadata = tr_metadata q, th_created_at = now\<rparr>"

definition ensure_conversation_thread :: "string \<Rightarrow> ms \<Rightarrow> thread_request \<Rightarrow> (conversation_db, thread_row) operation" where
  "ensure_conversation_thread i now q =
     then_do (ask (resolve_existing_thread q)) (\<lambda>found. case found of
       Some r \<Rightarrow> then_do (on_threads (update_unique ''conversationThread'' thread_indexes (\<lambda>x. th_id x = th_id r) (refresh_thread q)))
         (\<lambda>_. give (refresh_thread q r))
     | None \<Rightarrow> then_do (on_threads (create_row thread_indexes (new_thread i now q))) (\<lambda>_. give (new_thread i now q)))"

definition build_content_preview :: "js_val \<Rightarrow> string" where
  "build_content_preview v = take 500 (case v of
     JStr s \<Rightarrow> s | JUndef \<Rightarrow> ''null'' | _ \<Rightarrow> or_else (stringify v) [])"

record message_request =
  mr_agent_id :: "string option"
  mr_content :: js_val
  mr_direction :: string
  mr_external_message_id :: "string option"
  mr_metadata :: "js_val option"
  mr_organization_id :: string
  mr_role :: "string option"
  mr_tenant_id :: string
  mr_thread_id :: string

definition create_conversation_message :: "string \<Rightarrow> ms \<Rightarrow> message_request \<Rightarrow> (conversation_db, thread_message_row) operation" where
  "create_conversation_message i now q =
     (let r = \<lparr>tmr_id = i, tmr_tenant_id = mr_tenant_id q, tmr_organization_id = mr_organization_id q,
            tmr_thread_id = mr_thread_id q, tmr_direction = mr_direction q, tmr_role = truthy (mr_role q),
            tmr_agent_id = truthy (mr_agent_id q), tmr_external_message_id = truthy (mr_external_message_id q),
            tmr_content = mr_content q, tmr_content_preview = build_content_preview (mr_content q),
            tmr_metadata = mr_metadata q, tmr_created_at = now\<rparr>
      in then_do (on_messages (create_row message_indexes r)) (\<lambda>_. give r))"

end
