(* ===== verification/AgentRuntime.thy ===== *)
theory AgentRuntime
  imports AgentTools MemoryService AgentBudget Conversations BillingDb
begin

text \<open>
  The second half of \<open>apps/worker/src/agents/runtime.ts\<close>: one execution of an agent, from the
  resolution of its manifest to the artifact, the charge and the learning record it leaves.

  The state is the tables the worker writes and its part of Redis; the clock of the plan executor
  is the clock of the run. Fresh identifiers are drawn from the environment by the name of the row
  they are for. The catalogue is the one \<open>getManifestCatalog\<close> has loaded.
\<close>

subsection \<open>Tables\<close>

record agent_row =
  agt_id :: string
  agt_tenant_id :: string
  agt_organization_id :: string
  agt_name :: string
  agt_status :: string
  agt_config :: js_val
  agt_updated_at :: ms

datatype agent_execution_status = ExecRunning | ExecSuccess | ExecFailed | ExecWaitingApproval

datatype agent_execution_source = SourceManual | SourceWorkflow

record agent_execution_row =
  agx_id :: string
  agx_tenant_id :: string
  agx_organization_id :: "string option"
  agx_user_id :: "string option"
  agx_agent_id :: string
  agx_status :: agent_execution_status
  agx_source :: agent_execution_source
  agx_input :: js_val
  agx_output :: js_val
  agx_output_hash :: "string option"
  agx_error_message :: "string option"
  agx_metadata :: js_val
  agx_started_at :: ms
  agx_completed_at :: "ms option"

record artifact_row =
  art_id :: string
  art_tenant_id :: string
  art_organization_id :: string
  art_agent_id :: string
  art_created_by :: string
  art_approved_by :: "string option"
  art_type :: artifact_type
  art_status :: string
  art_content :: string
  art_content_hash :: string
  art_created_at :: ms
  art_approved_at :: "ms option"

record agent_db =
  gdb_billing :: billing_db
  gdb_agents :: "agent_row list"
  gdb_executions :: "agent_execution_row list"
  gdb_artifacts :: "artifact_row list"
  gdb_conversations :: conversation_db
  gdb_audit :: "memory_text memory_log_row list"
  gdb_budget :: budget_db
  gdb_redis :: executor_state

definition execution_indexes :: "agent_execution_row index list" where
  "execution_indexes = [(''id'', \<lambda>r. Some (agx_id r))]"

definition artifact_indexes :: "artifact_row index list" where
  "artifact_indexes = [(''id'', \<lambda>r. Some (art_id r))]"

definition on_audit :: "(memory_text memory_log_row list, 'a) operation \<Rightarrow> ('x agent_db_scheme, 'a) operation" where
  "on_audit = on_part gdb_audit (\<lambda>t s. s\<lparr>gdb_audit := t\<rparr>)"

definition on_conversations :: "(conversation_db, 'a) operation \<Rightarrow> ('x agent_db_scheme, 'a) operation" where
  "on_conversations = on_part gdb_conversations (\<lambda>t s. s\<lparr>gdb_conversations := t\<rparr>)"

definition on_budget :: "(budget_db, 'a) operation \<Rightarrow> ('x agent_db_scheme, 'a) operation" where
  "on_budget = on_part gdb_budget (\<lambda>t s. s\<lparr>gdb_budget := t\<rparr>)"

definition on_executions :: "(agent_execution_row list \<Rightarrow> db_error + agent_execution_row list) \<Rightarrow>
    ('x agent_db_scheme, unit) operation" where
  "on_executions = on_table gdb_executions (\<lambda>t s. s\<lparr>gdb_executions := t\<rparr>)"

definition on_artifacts :: "(artifact_row list \<Rightarrow> db_error + artifact_row list) \<Rightarrow> ('x agent_db_scheme, unit) operation" where
  "on_artifacts = on_table gdb_artifacts (\<lambda>t s. s\<lparr>gdb_artifacts := t\<rparr>)"

definition db_now :: "'x agent_db_scheme \<Rightarrow> ms" where
  "db_now s = xs_now (gdb_redis s)"

text \<open>\<open>.catch(() => undefined)\<close>: the error is lost, what was written stays.\<close>

definition swallow :: "('s, unit) operation \<Rightarrow> ('s, unit) operation" where
  "swallow m s = (Inr (), snd (m s))"

subsection \<open>What an execution is given\<close>

record runtime_config =
  rc_default_tool_cost :: rat
  rc_cooldown_ms :: int
  rc_failures :: nat
  rc_timeout_ms :: int
  rc_max_cost :: rat
  rc_max_steps :: nat
  rc_retry_attempts :: nat

record runtime_env =
  rn_catalog :: "catalog_entry list"
  rn_config :: runtime_config
  rn_new_id :: "string \<Rightarrow> string"
  rn_hash :: "string \<Rightarrow> string"
  rn_draw :: "nat \<Rightarrow> int"
  rn_elapsed :: "nat \<Rightarrow> nat"
  rn_builtin :: "string \<Rightarrow> js_val \<Rightarrow> exec_error + js_val"

record runtime_request =
  rr_agent_id :: string
  rr_catalog_agent_id :: "string option"
  rr_context_summary :: "string option"
  rr_execution_id :: string
  rr_input :: "(string \<times> js_val) list"
  rr_organization_id :: "string option"
  rr_tenant_id :: string
  rr_user_id :: "string option"

record runtime_result =
  rres_learning :: learning_record
  rres_logs :: "string list"
  rres_metadata :: js_val
  rres_output :: runtime_output
  rres_artifact_id :: string
  rres_output_hash :: string
  rres_waiting :: bool
  rres_tool_cost :: rat

subsection \<open>Agent, policies, learning\<close>

record agent_resolution =
  ag_installed_id :: "string option"
  ag_manifest :: agent_manifest
  ag_organization_id :: "string option"
  ag_runtime_id :: string

definition find_agent :: "string \<Rightarrow> string \<Rightarrow> 'x agent_db_scheme \<Rightarrow> agent_row option" where
  "find_agent i tenant db = List.find (\<lambda>a. agt_id a = i \<and> agt_tenant_id a = tenant) (gdb_agents db)"

definition resolve_runtime_agent :: "runtime_env \<Rightarrow> string \<Rightarrow> string option \<Rightarrow> string \<Rightarrow>
    ('x agent_db_scheme, agent_resolution) operation" where
  "resolve_runtime_agent E agent catalog_agent tenant =
     then_do (ask (find_agent agent tenant)) (\<lambda>installed.
     let resolved = or_else (or_opt catalog_agent
           (Option.bind installed (\<lambda>a. acf_source_agent_id (parse_agent_config (agt_config a))))) agent
     in case find_manifest_catalog_entry (rn_catalog E) resolved of
          None \<Rightarrow> throw (Failure (''Catalog manifest '' @ quoted resolved @ '' was not found.''))
        | Some e \<Rightarrow> give \<lparr>ag_installed_id = map_option agt_id installed, ag_manifest = ce_manifest e,
            ag_organization_id = map_option agt_organization_id installed,
            ag_runtime_id = or_else (map_option agt_id installed) agent\<rparr>)"

definition resolve_managed_policies :: "string option \<Rightarrow> string \<Rightarrow> 'x agent_db_scheme \<Rightarrow> managed_agent_policy list" where
  "resolve_managed_policies installed tenant db = (case truthy installed of
     None \<Rightarrow> []
   | Some i \<Rightarrow> (case find_agent i tenant db of
       None \<Rightarrow> [] | Some a \<Rightarrow> acf_managed_policies (parse_agent_config (agt_config a))))"

definition minimum_approved_confidence :: rat where
  "minimum_approved_confidence = 7 / 10"

definition shared_learning_limit :: nat where
  "shared_learning_limit = 8"

text \<open>The entries \<open>AGENT_LEARNING_PUBLISHED\<close>: their \<open>diff\<close> is the record itself. Nothing else writes
  under this action, so an entry of another form is passed over.\<close>

definition published_record :: "string list \<Rightarrow> memory_text memory_log_row \<Rightarrow> learning_record option" where
  "published_record keywords r = (case al_diff r of
     RecordDiff (LearningText l) \<Rightarrow>
       if list_ex (\<lambda>k. js_lower k \<in> set (map js_lower keywords)) (lr_keywords l) then Some l else None
   | _ \<Rightarrow> None)"

definition published_learning :: "string \<Rightarrow> string list \<Rightarrow> memory_text memory_log_row list \<Rightarrow> learning_record list" where
  "published_learning tenant keywords es =
     List.map_filter (published_record keywords) (take 50 (newest_first (filter (\<lambda>r.
       al_action r = ''AGENT_LEARNING_PUBLISHED'' \<and> al_entity_type r = ''agent_learning'' \<and> al_tenant_id r = tenant) es)))"

definition merge_learning :: "learning_record list \<Rightarrow> learning_record list" where
  "merge_learning rs = take shared_learning_limit (sort_key (\<lambda>r. - lr_created_at r)
     (filter (\<lambda>r. minimum_approved_confidence \<le> lr_confidence r)
       (map snd (fold (\<lambda>r merged. AList.update (lr_id r) r merged) rs []))))"

definition query_runtime_learning :: "ms \<Rightarrow> string \<Rightarrow> string list \<Rightarrow>
    (memory_text memory_log_row list, learning_record list) operation" where
  "query_runtime_learning now tenant keywords =
     then_do (query_shared_learning audit_backend now tenant \<lparr>lq_approved_only = True, lq_keywords = keywords,
       lq_minimum_confidence = minimum_approved_confidence\<rparr>) (\<lambda>memory.
     then_do (ask (published_learning tenant keywords)) (\<lambda>published.
     give (merge_learning (memory @ published))))"

definition build_learning_record :: "string \<Rightarrow> ms \<Rightarrow> string \<Rightarrow> agent_manifest \<Rightarrow> string \<Rightarrow> string \<Rightarrow> learning_record" where
  "build_learning_record i now agent m preview tenant = \<lparr>lr_id = i, lr_tenant_id = tenant, lr_source_agent_id = agent,
     lr_lesson_type = ''execution-pattern'',
     lr_summary = ad_name (am_agent m) @ '' executou um fluxo live governado e publicou aprendizado reutilizavel.'',
     lr_evidence = [preview], lr_confidence = 41 / 50, lr_keywords = take shared_learning_limit (am_keywords m),
     lr_applies_to = [ad_id (am_agent m)], lr_approved = True, lr_created_at = now\<rparr>"

subsection \<open>Conversation and artifact\<close>

text \<open>The memory of the conversation, then, when the organization is known, its thread and message.\<close>

definition append_runtime_message :: "runtime_env \<Rightarrow> string \<Rightarrow> string \<Rightarrow> string \<Rightarrow> string option \<Rightarrow> string option \<Rightarrow>
    conversation_role \<Rightarrow> string option \<Rightarrow> string \<Rightarrow> ('x agent_db_scheme, unit) operation" where
  "append_runtime_message E side agent content correlation organization role session tenant =
     (case trimmed session of
        None \<Rightarrow> give ()
      | Some sid \<Rightarrow>
          then_do (ask db_now) (\<lambda>now.
          then_do (on_audit (append_conversation_message audit_backend now tenant agent sid role content None
            \<lparr>co_metadata = None, co_token_budget = None, co_ttl_seconds = Some (7 * 24 * 60 * 60)\<rparr>)) (\<lambda>_.
          case truthy organization of
            None \<Rightarrow> give ()
          | Some org \<Rightarrow>
              then_do (on_conversations (ensure_conversation_thread (rn_new_id E (''thread:'' @ side)) now
                \<lparr>tr_channel = ''agent-runtime'', tr_connector_account_id = None,
                 tr_correlation_id = Some (or_else correlation sid), tr_customer_reference = None,
                 tr_external_thread_id = Some sid, tr_lead_reference = None,
                 tr_metadata = Some (JObj [(''agentId'', JStr agent), (''sessionId'', JStr sid)]),
                 tr_organization_id = org, tr_status = None, tr_subject = None, tr_tenant_id = tenant,
                 tr_thread_id = None\<rparr>)) (\<lambda>thread.
              then_do (on_conversations (create_conversation_message (rn_new_id E (''message:'' @ side)) now
                \<lparr>mr_agent_id = Some agent, mr_content = JStr content,
                 mr_direction = (if role = RoleUser then ''inbound'' else ''outbound''), mr_external_message_id = None,
                 mr_metadata = Some (JObj [(''sessionId'', JStr sid)]), mr_organization_id = org,
                 mr_role = Some (if role = RoleUser then ''user'' else ''assistant''), mr_tenant_id = tenant,
                 mr_thread_id = th_id thread\<rparr>)) (\<lambda>_. give ())))))"

definition artifact_type_name :: "artifact_type \<Rightarrow> string" where
  "artifact_type_name t = (case t of ExecutiveReport \<Rightarrow> ''executive-report'' | TechnicalLog \<Rightarrow> ''technical-log'')"

definition add_entry :: "memory_text memory_log_row \<Rightarrow> ('x agent_db_scheme, unit) operation" where
  "add_entry r = on_audit (\<lambda>es. (Inr (), es @ [r]))"

definition create_output_artifact :: "runtime_env \<Rightarrow> string \<Rightarrow> string \<Rightarrow> agent_manifest \<Rightarrow> string \<Rightarrow> bool \<Rightarrow> string \<Rightarrow>
    artifact_type \<Rightarrow> string option \<Rightarrow> ('x agent_db_scheme, string) operation" where
  "create_output_artifact E content execution m org approval tenant type user =
     then_do (ask db_now) (\<lambda>now.
     let a = \<lparr>art_id = rn_new_id E ''artifact'', art_tenant_id = tenant, art_organization_id = org,
           art_agent_id = ad_id (am_agent m), art_created_by = or_else user ''system'', art_approved_by = None,
           art_type = type, art_status = (if approval then ''WAITING_APPROVAL'' else ''COMPLETED''),
           art_content = content, art_content_hash = rn_hash E content, art_created_at = now, art_approved_at = None\<rparr>
     in then_do (on_artifacts (create_row artifact_indexes a)) (\<lambda>_.
        then_do (add_entry \<lparr>al_tenant_id = tenant, al_actor_id = user, al_action = ''AGENT_OUTPUT_CREATED'',
          al_entity_type = ''agent_execution'', al_entity_id = execution,
          al_diff = OtherDiff (JObj [(''outputId'', JStr (art_id a)), (''status'', JStr (art_status a)),
            (''type'', JStr (artifact_type_name type))]), al_created_at = now\<rparr>) (\<lambda>_.
        give (art_id a))))"

text \<open>\<open>JSON.stringify(v, null, 2)\<close>, with the indentation of the line the value starts on.\<close>

fun pretty :: "string \<Rightarrow> js_val \<Rightarrow> string option" where
  "pretty ind (JArr xs) = Some (if xs = [] then ''[]'' else
     ''['' @ CHR 0x0A # join_with ('','' @ [CHR 0x0A]) (map (\<lambda>x. ind @ ''  '' @ or_else (pretty (ind @ ''  '') x) ''null'') xs) @
       CHR 0x0A # ind @ '']'')"
| "pretty ind (JObj fs) =
     (let ps = List.map_filter (\<lambda>x. x)
        (map (\<lambda>(k, v). map_option (\<lambda>t. ind @ ''  '' @ quote_json k @ '': '' @ t) (pretty (ind @ ''  '') v)) fs)
      in Some (if ps = [] then ''{}'' else
        ''{'' @ CHR 0x0A # join_with ('','' @ [CHR 0x0A]) ps @ CHR 0x0A # ind @ ''}''))"
| "pretty ind v = stringify v"

subsection \<open>One execution\<close>

definition persist_logs :: "string \<Rightarrow> string list \<Rightarrow> ('x agent_db_scheme, unit) operation" where
  "persist_logs execution logs = on_executions (update_many execution_indexes (\<lambda>r. agx_id r = execution)
     (\<lambda>r. r\<lparr>agx_metadata := JObj [(''logs'', texts logs)]\<rparr>))"

definition executor_options_of :: "runtime_config \<Rightarrow> agent_manifest \<Rightarrow> executor_options" where
  "executor_options_of c m = \<lparr>eo_tools = runtime_tool_entry (rc_default_tool_cost c) m, eo_cooldown_ms = rc_cooldown_ms c,
     eo_failure_threshold = rc_failures c, eo_execution_timeout_ms = Some (rc_timeout_ms c),
     eo_max_cost = Some (rc_max_cost c), eo_max_plan_steps = Some (rc_max_steps c),
     eo_retry_attempts = rc_retry_attempts c\<rparr>"

text \<open>The hooks only log, so none of them fails.\<close>

definition executor_env_of :: "runtime_env \<Rightarrow> policy_rule list \<Rightarrow> agent_manifest \<Rightarrow> tool_context \<Rightarrow> executor_env" where
  "executor_env_of E rules m c = \<lparr>
     ee_run = \<lambda>n tool input timeout. (run_runtime_tool (rn_builtin E) rules m c tool input, rn_elapsed E n),
     ee_draw = rn_draw E, ee_on_plan = \<lambda>_. None, ee_on_step = \<lambda>_ _. None, ee_on_completed = \<lambda>_. None\<rparr>"

text \<open>A new \<open>PlanExecutor\<close>: its circuit breakers are closed and nobody has been told anything.\<close>

definition run_executor :: "executor_env \<Rightarrow> executor_options \<Rightarrow> execution_request \<Rightarrow>
    ('x agent_db_scheme, plan_result \<times> hook_call list) operation" where
  "run_executor X opts q s =
     (case execute_plan X opts q ((gdb_redis s)\<lparr>xs_breakers := [], xs_reported := []\<rparr>) of
        (r, x) \<Rightarrow> (case r of Inl e \<Rightarrow> Inl (Failure (exec_message e)) | Inr p \<Rightarrow> Inr (p, xs_reported x),
          s\<lparr>gdb_redis := x\<rparr>))"

definition log_of_hook :: "nat \<Rightarrow> hook_call \<Rightarrow> string option" where
  "log_of_hook total_steps h = (case h of
     PlanBuilt cs \<Rightarrow> Some (''Planner confirmou '' @ show_nat (length cs) @ '' chamada(s) de ferramenta.'')
   | StepCompleted n st \<Rightarrow> Some (''Step '' @ show_nat n @ ''/'' @ show_nat total_steps @ '' concluido com '' @
       pc_tool (ps_call st) @ '' (R$ '' @ show_fixed 2 (ps_estimated_cost st) @ '').'')
   | ExecutionCompleted _ \<Rightarrow> None)"

text \<open>The logs the hooks have pushed, also when the execution fails: the last of the writes they make.\<close>

definition with_hook_logs :: "string \<Rightarrow> string list \<Rightarrow> nat \<Rightarrow> ('x agent_db_scheme, plan_result \<times> hook_call list) operation \<Rightarrow>
    ('x agent_db_scheme, plan_result \<times> string list) operation" where
  "with_hook_logs execution logs n m s =
     (case m s of (r, s1) \<Rightarrow>
        (case persist_logs execution (logs @ List.map_filter (log_of_hook n) (xs_reported (gdb_redis s1))) s1 of
           (Inl e, s2) \<Rightarrow> (Inl e, s2)
         | (Inr _, s2) \<Rightarrow> (case r of
             Inl e \<Rightarrow> Inl e
           | Inr (p, hooks) \<Rightarrow> Inr (p, logs @ List.map_filter (log_of_hook n) hooks), s2)))"

definition planned_cost :: "rat \<Rightarrow> agent_manifest \<Rightarrow> runtime_tool_call list \<Rightarrow> rat" where
  "planned_cost base m calls = round_cents (sum_list (map (\<lambda>c. cost_of_call base m (pc_tool c)) calls))"

definition runtime_budget_call :: "runtime_env \<Rightarrow> string \<Rightarrow> string \<Rightarrow> string \<Rightarrow> string \<Rightarrow> string \<Rightarrow> ms \<Rightarrow> budget_call" where
  "runtime_budget_call E step tenant org agent actor now = \<lparr>bc_tenant_id = tenant, bc_organization_id = org,
     bc_agent_id = agent, bc_actor_id = actor, bc_request_id = None, bc_now = now,
     bc_budget_id = rn_new_id E (''budget:'' @ step), bc_event_id = rn_new_id E (''event:'' @ step),
     bc_alert_id = rn_new_id E (''alert:'' @ step)\<rparr>"

definition managed_policy_object :: "managed_agent_policy \<Rightarrow> js_val" where
  "managed_policy_object p = JObj ([(''actions'', texts (map_actions p)),
     (''effect'', JStr (case map_effect p of Allow \<Rightarrow> ''allow'' | Deny \<Rightarrow> ''deny'')), (''id'', JStr (map_id p)),
     (''name'', JStr (map_name p))] @
     (case map_enabled p of None \<Rightarrow> [] | Some b \<Rightarrow> [(''enabled'', JBool b)]) @
     (case map_reason p of None \<Rightarrow> [] | Some r \<Rightarrow> [(''reason'', JStr r)]))"

definition trace_object :: "plan_result \<Rightarrow> js_val" where
  "trace_object p = JObj [(''id'', JStr (pr_trace_id p)), (''nodes'', JArr (map (\<lambda>n. JObj ([(''id'', JStr (tn_id n)),
     (''label'', JStr (tn_label n))] @ (case tn_parent n of None \<Rightarrow> [] | Some i \<Rightarrow> [(''parentId'', JStr i)]) @
     [(''type'', JStr (case tn_type n of TracePlan \<Rightarrow> ''plan'' | TraceResult \<Rightarrow> ''result'' | TraceTool \<Rightarrow> ''tool''))]))
     (pr_trace_nodes p)))]"

text \<open>What is settled before anything is written.\<close>

record runtime_setup =
  rst_resolved :: agent_resolution
  rst_organization :: string
  rst_shared :: "learning_record list"
  rst_managed :: "managed_agent_policy list"
  rst_plan :: runtime_plan

definition prepare_runtime :: "runtime_env \<Rightarrow> runtime_request \<Rightarrow> ('x agent_db_scheme, runtime_setup) operation" where
  "prepare_runtime E q =
     then_do (resolve_runtime_agent E (rr_agent_id q) (rr_catalog_agent_id q) (rr_tenant_id q)) (\<lambda>resolved.
     then_do (ask (\<lambda>s. map_option org_id (List.find (\<lambda>r. org_tenant_id r = rr_tenant_id q) (db_orgs (gdb_billing s))))) (\<lambda>found.
     case truthy (or_opt (or_opt (rr_organization_id q) (ag_organization_id resolved)) found) of
       None \<Rightarrow> throw (Failure (''Organization not found for tenant '' @ rr_tenant_id q @ ''.''))
     | Some org \<Rightarrow>
         then_do (ask db_now) (\<lambda>now.
         then_do (on_audit (query_runtime_learning now (rr_tenant_id q) (am_keywords (ag_manifest resolved)))) (\<lambda>shared.
         then_do (ask (resolve_managed_policies (ag_installed_id resolved) (rr_tenant_id q))) (\<lambda>managed.
         give \<lparr>rst_resolved = resolved, rst_organization = org, rst_shared = shared, rst_managed = managed,
           rst_plan = build_agent_runtime_plan (ag_manifest resolved) (rr_tenant_id q) (rr_input q)
             (rr_context_summary q) shared\<rparr>)))))"

definition setup_manifest :: "runtime_setup \<Rightarrow> agent_manifest" where
  "setup_manifest st = ag_manifest (rst_resolved st)"

definition setup_rules :: "runtime_setup \<Rightarrow> policy_rule list" where
  "setup_rules st = build_runtime_policy_rules (setup_manifest st) (rst_managed st)"

definition preflight_line :: "rat \<Rightarrow> string" where
  "preflight_line cost = ''Budget preflight aprovado para custo estimado de R$ '' @ show_fixed 2 cost @ ''.''"

text \<open>From the message of the user to the budget that is found to be enough: the logs so far.\<close>

definition preflight :: "runtime_env \<Rightarrow> runtime_request \<Rightarrow> runtime_setup \<Rightarrow> ('x agent_db_scheme, string list) operation" where
  "preflight E q st =
     (let agent = ag_runtime_id (rst_resolved st); i = rr_execution_id q; logs = rp_logs (rst_plan st);
          cost = planned_cost (rc_default_tool_cost (rn_config E)) (setup_manifest st) (rp_tool_calls (rst_plan st))
      in then_do (swallow (append_runtime_message E ''user'' agent (or_else (stringify (JObj (rr_input q))) [])
           (Some i) (Some (rst_organization st)) RoleUser (read_session_id (rr_input q)) (rr_tenant_id q))) (\<lambda>_.
         then_do (persist_logs i logs) (\<lambda>_.
         then_do (ask db_now) (\<lambda>now.
         then_do (on_budget (ensure_budget_headroom (runtime_budget_call E ''check'' (rr_tenant_id q) (rst_organization st)
           agent (or_else (rr_user_id q) ''system'') now) i cost)) (\<lambda>_.
         let logs' = logs @ [preflight_line cost]
         in then_do (persist_logs i logs') (\<lambda>_. give logs'))))))"

definition setup_request :: "runtime_request \<Rightarrow> runtime_setup \<Rightarrow> execution_request" where
  "setup_request q st = \<lparr>er_execution_id = rr_execution_id q, er_agent_id = ad_id (am_agent (setup_manifest st)),
     er_tenant_id = rr_tenant_id q, er_input = rr_input q,
     er_tool_calls = Some (map (\<lambda>c. \<lparr>pc_tool = pc_tool c, pc_input = pc_input c\<rparr>) (rp_tool_calls (rst_plan st)))\<rparr>"

definition setup_env :: "runtime_env \<Rightarrow> runtime_request \<Rightarrow> runtime_setup \<Rightarrow> executor_env" where
  "setup_env E q st = executor_env_of E (setup_rules st) (setup_manifest st)
     \<lparr>tc_agent_id = ad_id (am_agent (setup_manifest st)), tc_tenant_id = rr_tenant_id q, tc_trace_id = rr_execution_id q\<rparr>"

definition run_setup :: "runtime_env \<Rightarrow> runtime_request \<Rightarrow> runtime_setup \<Rightarrow> string list \<Rightarrow>
    ('x agent_db_scheme, plan_result \<times> string list) operation" where
  "run_setup E q st logs = with_hook_logs (rr_execution_id q) logs (length (rp_tool_calls (rst_plan st)))
     (run_executor (setup_env E q st) (executor_options_of (rn_config E) (setup_manifest st)) (setup_request q st))"

text \<open>The charge, the artifact, the learning record and the answer to the user.\<close>

definition outcome_output :: "runtime_request \<Rightarrow> runtime_setup \<Rightarrow> plan_result \<Rightarrow> ms \<Rightarrow> runtime_output" where
  "outcome_output q st p now =
     build_agent_runtime_output now (setup_manifest st) (rst_plan st) (rr_input q) (rst_shared st) (pr_steps p)"

definition outcome_text :: "runtime_output \<Rightarrow> string" where
  "outcome_text out = or_else (stringify (output_object out)) []"

definition learning_entry :: "string \<Rightarrow> string option \<Rightarrow> learning_record \<Rightarrow> ms \<Rightarrow> memory_text memory_log_row" where
  "learning_entry tenant user l now = \<lparr>al_tenant_id = tenant, al_actor_id = user, al_action = ''AGENT_LEARNING_PUBLISHED'',
     al_entity_type = ''agent_learning'', al_entity_id = lr_id l, al_diff = RecordDiff (LearningText l), al_created_at = now\<rparr>"

definition outcome_logs :: "string \<Rightarrow> string \<Rightarrow> rat \<Rightarrow> rat \<Rightarrow> rat \<Rightarrow> string list" where
  "outcome_logs learning artifact cost consumed limit =
     [''Shared learning '' @ learning @ '' publicado.'', ''Output artifact '' @ artifact @ '' criado automaticamente.'',
      ''Budget consumido: R$ '' @ show_fixed 2 cost @ '' (saldo '' @ show_fixed 2 consumed @ ''/'' @ show_fixed 2 limit @ '').'']"

definition outcome_metadata :: "rat \<Rightarrow> runtime_setup \<Rightarrow> plan_result \<Rightarrow> rat \<times> rat \<times> string option \<Rightarrow> bool \<Rightarrow> string \<Rightarrow> string \<Rightarrow>
    string list \<Rightarrow> js_val" where
  "outcome_metadata base st p budget approval learning artifact logs = (case budget of (consumed, limit, level) \<Rightarrow>
     JObj [(''budgetConsumedBrl'', JNum (Fin consumed)), (''budgetLimitBrl'', JNum (Fin limit)),
       (''budgetAlertLevel'', case level of None \<Rightarrow> JNull | Some l \<Rightarrow> JStr l),
       (''catalogAgentId'', JStr (ad_id (am_agent (setup_manifest st)))),
       (''executionStatus'', JStr (if approval then ''WAITING_APPROVAL'' else ''SUCCESS'')),
       (''learningRecordId'', JStr learning), (''logs'', texts logs),
       (''managedPolicies'', JArr (map managed_policy_object (rst_managed st))),
       (''outputArtifactId'', JStr artifact), (''runtimeProvider'', JStr ''manifest-runtime''),
       (''plannedCostBrl'', JNum (Fin (planned_cost base (setup_manifest st) (rp_tool_calls (rst_plan st))))),
       (''steps'', JNum (Fin (of_nat (length (pr_steps p))))), (''toolCost'', JNum (Fin (pr_cost_total p))),
       (''trace'', trace_object p)])"

text \<open>What follows the charge.\<close>

definition publish_outcome :: "runtime_env \<Rightarrow> runtime_request \<Rightarrow> runtime_setup \<Rightarrow> plan_result \<Rightarrow> string list \<Rightarrow> ms \<Rightarrow>
    rat \<times> rat \<times> string option \<Rightarrow> ('x agent_db_scheme, runtime_result) operation" where
  "publish_outcome E q st p logs now budget =
     (let out = outcome_output q st p now; text = outcome_text out; approval = ro_approvals out \<noteq> [];
          tenant = rr_tenant_id q; i = rr_execution_id q; agent = ag_runtime_id (rst_resolved st);
          learning = build_learning_record (rn_new_id E ''learning'') now agent (setup_manifest st) (take 400 text) tenant
      in then_do (create_output_artifact E (or_else (pretty [] (output_object out)) []) i (setup_manifest st)
           (rst_organization st) approval tenant (if approval then ExecutiveReport else TechnicalLog) (rr_user_id q)) (\<lambda>artifact.
         then_do (add_entry (learning_entry tenant (rr_user_id q) learning now)) (\<lambda>_.
         then_do (on_audit (publish_shared_learning audit_backend now tenant learning None)) (\<lambda>_.
         then_do (swallow (append_runtime_message E ''assistant'' agent (ro_summary out) (Some i)
           (Some (rst_organization st)) RoleAssistant (read_session_id (rr_input q)) tenant)) (\<lambda>_.
         let logs' = logs @ outcome_logs (lr_id learning) artifact (pr_cost_total p) (fst budget) (fst (snd budget))
         in then_do (persist_logs i logs') (\<lambda>_.
         give \<lparr>rres_learning = learning, rres_logs = logs',
           rres_metadata = outcome_metadata (rc_default_tool_cost (rn_config E)) st p budget approval (lr_id learning) artifact logs',
           rres_output = out, rres_artifact_id = artifact, rres_output_hash = rn_hash E text,
           rres_waiting = approval, rres_tool_cost = pr_cost_total p\<rparr>))))))"

definition settle :: "runtime_env \<Rightarrow> runtime_request \<Rightarrow> runtime_setup \<Rightarrow> plan_result \<Rightarrow> string list \<Rightarrow>
    ('x agent_db_scheme, runtime_result) operation" where
  "settle E q st p logs =
     then_do (ask db_now) (\<lambda>now.
     then_do (on_budget (worker_consume_budget (runtime_budget_call E ''charge'' (rr_tenant_id q) (rst_organization st)
       (ag_runtime_id (rst_resolved st)) (or_else (rr_user_id q) ''system'') now) (rr_execution_id q) (pr_cost_total p)))
       (publish_outcome E q st p logs now))"

definition execute_manifest_agent_runtime :: "runtime_env \<Rightarrow> runtime_request \<Rightarrow>
    ('x agent_db_scheme, runtime_result) operation" where
  "execute_manifest_agent_runtime E q =
     then_do (prepare_runtime E q) (\<lambda>st.
     then_do (preflight E q st) (\<lambda>logs.
     then_do (run_setup E q st logs) (\<lambda>(p, logs').
     settle E q st p logs')))"

end
