(* ===== verification/PlanCorrect.thy ===== *)
theory PlanCorrect
  imports PlanExecutor
begin

text \<open>
  The properties of the plan executor: the ceilings of a plan, how often tools run and how long an
  execution can take, the cached result, the lock, and what the circuit breaker amounts to.
\<close>

lemma x_then_Inr: "x_then m f s = (Inr b, s') \<longleftrightarrow> (\<exists>a s1. m s = (Inr a, s1) \<and> f a s1 = (Inr b, s'))"
  by (auto simp: x_then_def split: prod.splits sum.splits)

lemma x_then_cases:
  assumes "x_then m f s = (r, s')"
  obtains (error) e where "m s = (Inl e, s')" "r = Inl e" | (go) a s1 where "m s = (Inr a, s1)" "f a s1 = (r, s')"
  using assms by (auto simp: x_then_def split: prod.splits sum.splits)

lemma x_give_eq [simp]: "x_give a s = (r, s') \<longleftrightarrow> r = Inr a \<and> s' = s"
  by (auto simp: x_give_def)

lemma x_throw_eq [simp]: "x_throw c m s = (r, s') \<longleftrightarrow> r = Inl (ExecError (Some c) m) \<and> s' = s"
  by (auto simp: x_throw_def)

lemma x_fail_eq [simp]: "x_fail m s = (r, s') \<longleftrightarrow> r = Inl (ExecError None m) \<and> s' = s"
  by (auto simp: x_fail_def)

lemma x_hook_eq [simp]: "x_hook h e s = (r, s') \<longleftrightarrow> r = (case e of None \<Rightarrow> Inr () | Some e \<Rightarrow> Inl e) \<and>
    s' = s\<lparr>xs_reported := xs_reported s @ [h]\<rparr>"
  by (auto simp: x_hook_def split: option.split)

lemma assert_state:
  "assert_execution_budget opts est spent s = (r, s') \<Longrightarrow> s' = s"
  "assert_execution_deadline opts started s = (r, s') \<Longrightarrow> s' = s"
  "assert_plan_size opts calls s = (r, s') \<Longrightarrow> s' = s"
  by (auto simp: assert_execution_budget_def assert_execution_deadline_def assert_plan_size_def split: option.splits if_splits)

lemma breaker_state_fields:
  assumes "get_circuit_breaker_state tool s = (b, s')"
  shows "xs_runs s' = xs_runs s \<and> xs_now s' = xs_now s \<and> xs_results s' = xs_results s \<and> xs_locks s' = xs_locks s"
  using assms by (auto simp: get_circuit_breaker_state_def split: option.splits if_splits)

lemma circuit_fields:
  assumes "assert_circuit_open tool s = (r, s')"
  shows "xs_runs s' = xs_runs s \<and> xs_now s' = xs_now s \<and> xs_results s' = xs_results s \<and> xs_locks s' = xs_locks s"
proof -
  obtain b s1 where g: "get_circuit_breaker_state tool s = (b, s1)" by fastforce
  with assms have "s' = s1" by (auto simp: assert_circuit_open_def split: option.splits if_splits)
  with breaker_state_fields[OF g] show ?thesis by simp
qed

lemma guard_fields:
  assumes "x_then (assert_execution_deadline opts started) (\<lambda>_. assert_circuit_open tool) s = (r, s')"
  shows "xs_runs s' = xs_runs s \<and> xs_now s' = xs_now s \<and> xs_results s' = xs_results s \<and> xs_locks s' = xs_locks s"
  using assms by (elim x_then_cases) (auto dest: assert_state circuit_fields)

lemma mark_fields:
  "xs_runs (mark_tool_failure opts tool s) = xs_runs s" "xs_now (mark_tool_failure opts tool s) = xs_now s"
  "xs_results (mark_tool_failure opts tool s) = xs_results s" "xs_locks (mark_tool_failure opts tool s) = xs_locks s"
  "xs_runs (mark_tool_success tool s) = xs_runs s" "xs_now (mark_tool_success tool s) = xs_now s"
  "xs_results (mark_tool_success tool s) = xs_results s" "xs_locks (mark_tool_success tool s) = xs_locks s"
  using breaker_state_fields[OF prod.collapse[symmetric], of tool s]
  by (simp_all add: mark_tool_failure_def mark_tool_success_def Let_def case_prod_beta)

lemma retry_delay_range: "1000 \<le> retry_delay attempt \<and> retry_delay attempt \<le> 30000"
proof -
  consider "attempt = 0" | "attempt = 1" | "2 \<le> attempt" by linarith
  then show ?thesis by cases (simp_all add: retry_delay_def retry_delays_ms_def numeral_2_eq_2 min_def)
qed

lemma jitter_range: "0 \<le> delay \<Longrightarrow> delay \<le> jitter draw delay \<and> jitter draw delay \<le> delay + delay * 15 div 100"
proof -
  assume "0 \<le> delay"
  then have pos: "0 < delay * 15 div 100 + 1" by (simp add: pos_imp_zdiv_nonneg_iff)
  from pos_mod_bound[OF pos, of draw] pos_mod_sign[OF pos, of draw] show ?thesis unfolding jitter_def by linarith
qed

lemma wait_fields:
  "xs_runs (wait_jitter E attempt s) = xs_runs s" "xs_results (wait_jitter E attempt s) = xs_results s"
  "xs_locks (wait_jitter E attempt s) = xs_locks s" "xs_breakers (wait_jitter E attempt s) = xs_breakers s"
  "xs_now s \<le> xs_now (wait_jitter E attempt s)"
  using jitter_range[of "retry_delay attempt" "ee_draw E (xs_runs s)"] retry_delay_range[of attempt]
  by (simp_all add: wait_jitter_def)

lemma wait_at_most: "xs_now (wait_jitter E attempt s) \<le> xs_now s + 34500"
proof -
  let ?d = "retry_delay attempt"
  have "?d * 15 div 100 \<le> 4500" using retry_delay_range[of attempt] by linarith
  with retry_delay_range[of attempt] jitter_range[of ?d "ee_draw E (xs_runs s)"] show ?thesis
    by (simp add: wait_jitter_def)
qed

lemma run_tool_fields:
  assumes "run_tool E opts tool call started s = (r, s')"
  shows "xs_runs s' \<le> xs_runs s + 1 \<and> xs_results s' = xs_results s \<and> xs_locks s' = xs_locks s \<and>
    xs_breakers s' = xs_breakers s \<and> xs_now s \<le> xs_now s'"
  using assms by (auto simp: run_tool_def Let_def case_prod_beta split: sum.splits)

subsection \<open>Runs\<close>

lemma retry_loop_Suc:
  assumes "retry_loop E opts tool call started attempt (Suc left) s = (r, s')"
  obtains
    (blocked) e where "x_then (assert_execution_deadline opts started) (\<lambda>_. assert_circuit_open (pc_tool call)) s = (Inl e, s')"
      "r = Inl e"
  | (finished) s1 out s2 where "x_then (assert_execution_deadline opts started) (\<lambda>_. assert_circuit_open (pc_tool call)) s = (Inr (), s1)"
      "run_tool E opts tool call started s1 = (Inr out, s2)" "r = Inr out" "s' = mark_tool_success (pc_tool call) s2"
  | (reopened) s1 e where "x_then (assert_execution_deadline opts started) (\<lambda>_. assert_circuit_open (pc_tool call)) s = (Inr (), s1)"
      "run_tool E opts tool call started s1 = (Inl e, s')" "r = Inl e" "exec_code e = Some ''AGENT_TOOL_CIRCUIT_OPEN''"
  | (exhausted) s1 e s2 where "x_then (assert_execution_deadline opts started) (\<lambda>_. assert_circuit_open (pc_tool call)) s = (Inr (), s1)"
      "run_tool E opts tool call started s1 = (Inl e, s2)" "r = Inl e" "left = 0" "s' = mark_tool_failure opts (pc_tool call) s2"
  | (again) s1 e s2 where "x_then (assert_execution_deadline opts started) (\<lambda>_. assert_circuit_open (pc_tool call)) s = (Inr (), s1)"
      "run_tool E opts tool call started s1 = (Inl e, s2)"
      "retry_loop E opts tool call started (attempt + 1) left (wait_jitter E attempt s2) = (r, s')"
proof -
  obtain g s1 where guard: "x_then (assert_execution_deadline opts started) (\<lambda>_. assert_circuit_open (pc_tool call)) s = (g, s1)"
    by fastforce
  show thesis
  proof (cases g)
    case (Inl e)
    with assms guard show thesis by (intro blocked[of e]) auto
  next
    case (Inr u)
    note guard = guard[unfolded Inr]
    obtain out s2 where run: "run_tool E opts tool call started s1 = (out, s2)" by fastforce
    note step = assms[unfolded retry_loop.simps guard run prod.case sum.case]
    show thesis
    proof (cases out)
      case (Inr v)
      with step guard run show thesis by (intro finished[of s1 v s2]) auto
    next
      case (Inl e)
      note step = step[unfolded Inl sum.case]
      consider "exec_code e = Some ''AGENT_TOOL_CIRCUIT_OPEN''" | "exec_code e \<noteq> Some ''AGENT_TOOL_CIRCUIT_OPEN''" "left = 0"
        | "exec_code e \<noteq> Some ''AGENT_TOOL_CIRCUIT_OPEN''" "left \<noteq> 0" by blast
      then show thesis
      proof cases
        case 1
        with step guard run Inl show thesis by (intro reopened[of s1 e]) auto
      next
        case 2
        with step guard run Inl show thesis by (intro exhausted[of s1 e s2]) auto
      next
        case 3
        with step guard run Inl show thesis by (intro again[of s1 e s2]) auto
      qed
    qed
  qed
qed

lemma retry_loop_runs:
  "retry_loop E opts tool call started attempt left s = (r, s') \<Longrightarrow>
     xs_runs s' \<le> xs_runs s + left \<and> xs_results s' = xs_results s \<and> xs_locks s' = xs_locks s \<and> xs_now s \<le> xs_now s'"
proof (induction left arbitrary: attempt s)
  case 0
  then show ?case by (auto simp: mark_fields)
next
  case (Suc left)
  from Suc.prems show ?case
  proof (cases rule: retry_loop_Suc)
    case (again s1 e s2)
    from Suc.IH[OF again(3)] guard_fields[OF again(1)] run_tool_fields[OF again(2)] wait_fields[where E = E and attempt = attempt and s = s2]
    show ?thesis by auto
  qed (auto simp: mark_fields dest!: guard_fields run_tool_fields)
qed

lemma run_call_cases:
  assumes "run_call E opts req started index call p s = (r, s')"
  obtains (refused) e where "r = Inl e" "s' = s"
  | (failed) tool e where "eo_tools opts (pc_tool call) = Some tool"
      "execute_with_retry E opts tool call started s = (Inl e, s')" "r = Inl e"
  | (hooked) tool out e s2 l where "eo_tools opts (pc_tool call) = Some tool"
      "execute_with_retry E opts tool call started s = (Inr out, s2)" "r = Inl e" "s' = s2\<lparr>xs_reported := l\<rparr>"
  | (finished) tool out st s2 l where "eo_tools opts (pc_tool call) = Some tool"
      "assert_execution_budget opts (estimate_tool_cost tool) (pp_total p) s = (Inr (), s)"
      "execute_with_retry E opts tool call started s = (Inr out, s2)" "s' = s2\<lparr>xs_reported := l\<rparr>"
      "ps_call st = call" "ps_estimated_cost st = estimate_tool_cost tool" "ps_output st = out"
      "r = Inr \<lparr>pp_steps = pp_steps p @ [st], pp_context = AList.update (''step_'' @ show_nat (index + 1)) out (pp_context p),
         pp_total = round_cents (pp_total p + estimate_tool_cost tool), pp_nodes = pp_nodes p @ trace_nodes_of req call index\<rparr>"
proof -
  obtain d s0 where d: "assert_execution_deadline opts started s = (d, s0)" by fastforce
  note s0 = assert_state(2)[OF d]
  show thesis
  proof (cases d)
    case (Inl e)
    with assms d s0 show thesis by (intro refused[of e]) (auto simp: run_call_def x_then_def)
  next
    case d_ok: (Inr u)
    show thesis
    proof (cases "eo_tools opts (pc_tool call)")
      case None
      with assms d s0 d_ok show thesis by (intro refused) (auto simp: run_call_def x_then_def x_fail_def)
    next
      case (Some tool)
      obtain b s1 where b: "assert_execution_budget opts (estimate_tool_cost tool) (pp_total p) s = (b, s1)" by fastforce
      note s1 = assert_state(1)[OF b]
      obtain x s2 where x: "execute_with_retry E opts tool call started s = (x, s2)" by fastforce
      show thesis
      proof (cases b)
        case (Inl e)
        with assms d s0 d_ok Some b s1 show thesis by (intro refused[of e]) (auto simp: run_call_def x_then_def Let_def)
      next
        case b_ok: (Inr v)
        show thesis
        proof (cases x)
          case (Inl e)
          with assms d s0 d_ok Some b s1 b_ok x show thesis by (intro failed[of tool e]) (auto simp: run_call_def x_then_def Let_def)
        next
          case (Inr out)
          let ?st = "\<lparr>ps_call = call, ps_estimated_cost = estimate_tool_cost tool, ps_output = out,
                         ps_started_at = xs_now s, ps_finished_at = xs_now s2\<rparr>"
          show thesis
          proof (cases "ee_on_step E index ?st")
            case None
            with assms d s0 d_ok Some b s1 b_ok x Inr show thesis
              by (intro finished[where tool = tool and out = out and st = ?st and ?s2.0 = s2]) (auto simp: run_call_def x_then_def Let_def x_hook_def x_give_def)
          next
            case (Some e)
            with assms d s0 d_ok \<open>eo_tools opts (pc_tool call) = Some tool\<close> b s1 b_ok x Inr show thesis
              by (intro hooked[where tool = tool and out = out and e = e and ?s2.0 = s2]) (auto simp: run_call_def x_then_def Let_def x_hook_def)
          qed
        qed
      qed
    qed
  qed
qed

lemma run_calls_runs:
  "run_calls_from E opts req started index cs p s = (r, s') \<Longrightarrow>
     xs_runs s' \<le> xs_runs s + eo_retry_attempts opts * length cs \<and> xs_results s' = xs_results s \<and>
     xs_locks s' = xs_locks s \<and> xs_now s \<le> xs_now s'"
proof (induction cs arbitrary: index p s)
  case (Cons c cs)
  have one: "xs_runs s1 \<le> xs_runs s + eo_retry_attempts opts \<and> xs_results s1 = xs_results s \<and>
      xs_locks s1 = xs_locks s \<and> xs_now s \<le> xs_now s1"
    if "run_call E opts req started index c p s = (a, s1)" for a s1
    using that by (cases rule: run_call_cases) (auto dest!: retry_loop_runs simp: execute_with_retry_def)
  from Cons.prems show ?case
    unfolding run_calls_from.simps
  proof (cases rule: x_then_cases)
    case (error e)
    from one[OF error(1)] show ?thesis by auto
  next
    case (go a s1)
    from one[OF go(1)] Cons.IH[OF go(2)] show ?thesis by auto
  qed
qed simp

lemma run_plan_runs:
  assumes "run_plan E opts req s = (r, s')"
  shows "xs_runs s' \<le> xs_runs s + eo_retry_attempts opts * length (plan_of req) \<and> xs_locks s' = xs_locks s \<and>
    xs_now s \<le> xs_now s'"
  using assms
  by (auto simp: run_plan_def Let_def elim!: x_then_cases dest!: assert_state run_calls_runs)

lemma take_lock_fields:
  "take_lock i s = (r, s') \<Longrightarrow> xs_runs s' = xs_runs s \<and> xs_now s' = xs_now s \<and> xs_results s' = xs_results s \<and>
     xs_breakers s' = xs_breakers s"
  by (auto simp: take_lock_def split: if_splits)

lemma release_fields [simp]:
  "xs_runs (release_lock i s) = xs_runs s" "xs_now (release_lock i s) = xs_now s"
  "xs_results (release_lock i s) = xs_results s" "xs_breakers (release_lock i s) = xs_breakers s"
  by (simp_all add: release_lock_def)

lemma execute_plan_cases:
  assumes "execute_plan E opts req s = (r, s')"
  obtains (cached) x where "cached_result (er_execution_id req) s = Some x" "r = Inr x" "s' = s"
  | (running) e where "cached_result (er_execution_id req) s = None" "take_lock (er_execution_id req) s = (Inl e, s')"
      "r = Inl e"
  | (ran) s1 s2 where "cached_result (er_execution_id req) s = None" "take_lock (er_execution_id req) s = (Inr (), s1)"
      "run_plan E opts req s1 = (r, s2)" "s' = release_lock (er_execution_id req) s2"
proof (cases "cached_result (er_execution_id req) s")
  case (Some x)
  with assms show thesis by (intro cached) (auto simp: execute_plan_def)
next
  case None
  note step = assms[unfolded execute_plan_def None option.case]
  from step show thesis
  proof (cases rule: x_then_cases)
    case (error e)
    with None show thesis by (intro running)
  next
    case (go a s1)
    then show thesis
      using None by (cases "run_plan E opts req s1") (auto intro!: ran)
  qed
qed

lemma run_plan_cases:
  assumes "run_plan E opts req s = (r, s')"
  obtains (refused) "xs_breakers s' = xs_breakers s" "xs_now s' = xs_now s" "xs_locks s' = xs_locks s"
  | (calls) p x l s1 where "run_calls_from E opts req (xs_now s) 0 (plan_of req) p (s\<lparr>xs_reported := l\<rparr>) = (x, s1)"
      "xs_breakers s' = xs_breakers s1" "xs_now s' = xs_now s1" "xs_locks s' = xs_locks s1"
  using assms
  by (auto simp: run_plan_def Let_def elim!: x_then_cases dest!: assert_state)

text \<open>
  Property C24. However the tools behave, an execution runs tools at most as often as the retries
  allow for each call of its plan: it always comes to an end, with a result or an error.
\<close>

theorem tool_runs_bounded:
  "case execute_plan E opts req s of (r, s') \<Rightarrow>
     xs_runs s' \<le> xs_runs s + eo_retry_attempts opts * length (plan_of req)"
proof -
  obtain r s' where run: "execute_plan E opts req s = (r, s')" by fastforce
  then have "xs_runs s' \<le> xs_runs s + eo_retry_attempts opts * length (plan_of req)"
    by (cases rule: execute_plan_cases) (auto dest!: take_lock_fields run_plan_runs)
  then show ?thesis by (simp add: run)
qed

subsection \<open>Ceilings\<close>

lemma estimate_whole_cents: "whole_cents (estimate_tool_cost tool)"
  by (auto simp: estimate_tool_cost_def whole_cents_round split: js_num.split)

lemma run_calls_progress:
  "run_calls_from E opts req started index cs p s = (Inr p', s') \<Longrightarrow> whole_cents (pp_total p) \<Longrightarrow>
     \<exists>new. pp_steps p' = pp_steps p @ new \<and> map ps_call new = cs \<and>
       pp_total p' = pp_total p + sum_list (map ps_estimated_cost new) \<and>
       (case eo_max_cost opts of None \<Rightarrow> True | Some q \<Rightarrow> cs = [] \<or> pp_total p' \<le> q)"
proof (induction cs arbitrary: index p s)
  case Nil
  then show ?case by (auto split: option.split)
next
  case (Cons c cs)
  from Cons.prems(1) obtain p1 s1 where one: "run_call E opts req started index c p s = (Inr p1, s1)"
    and rest: "run_calls_from E opts req started (index + 1) cs p1 s1 = (Inr p', s')"
    by (auto simp: x_then_Inr)
  from one obtain tool out st where b: "assert_execution_budget opts (estimate_tool_cost tool) (pp_total p) s = (Inr (), s)"
    and st: "ps_call st = c" "ps_estimated_cost st = estimate_tool_cost tool"
    and p1: "pp_steps p1 = pp_steps p @ [st]" "pp_total p1 = round_cents (pp_total p + estimate_tool_cost tool)"
    by (cases rule: run_call_cases) auto
  have total: "pp_total p1 = pp_total p + estimate_tool_cost tool"
    by (simp add: p1(2) round_cents_whole whole_cents_add Cons.prems(2) estimate_whole_cents)
  have limit: "case eo_max_cost opts of None \<Rightarrow> True | Some q \<Rightarrow> pp_total p1 \<le> q"
    using b by (auto simp: total assert_execution_budget_def not_less split: option.splits if_splits)
  have "whole_cents (pp_total p1)" by (simp add: p1(2) whole_cents_round)
  from Cons.IH[OF rest this] obtain new where new: "pp_steps p' = pp_steps p1 @ new" "map ps_call new = cs"
    "pp_total p' = pp_total p1 + sum_list (map ps_estimated_cost new)"
    "case eo_max_cost opts of None \<Rightarrow> True | Some q \<Rightarrow> cs = [] \<or> pp_total p' \<le> q" by blast
  show ?case
    using new limit st total p1(1)
    by (intro exI[of _ "st # new"]) (cases cs; auto split: option.splits)
qed

lemma run_plan_Inr:
  assumes "run_plan E opts req s = (Inr r, s')"
  obtains p l l' s1 where "run_calls_from E opts req (xs_now s) 0 (plan_of req) \<lparr>pp_steps = [], pp_context = er_input req, pp_total = 0,
      pp_nodes = [\<lparr>tn_id = ''trace_'' @ er_execution_id req, tn_type = TracePlan, tn_label = ''agent:'' @ er_agent_id req,
        tn_parent = None\<rparr>]\<rparr> (s\<lparr>xs_reported := l\<rparr>) = (Inr p, s1)"
    "assert_plan_size opts (plan_of req) s = (Inr (), s)"
    "pr_steps r = pp_steps p" "pr_cost_total r = pp_total p" "pr_output r = pp_context p" "pr_execution_id r = er_execution_id req"
    "s' = s1\<lparr>xs_results := AList.update (er_execution_id req) (xs_now s1 + exec_result_ttl_seconds * 1000, r) (xs_results s1),
       xs_reported := l'\<rparr>"
    "pr_cached r = False"
  using assms
  by (auto simp: run_plan_def Let_def x_then_Inr dest: assert_state split: option.splits)

text \<open>
  An execution that succeeds has run exactly the calls of its plan, in their order, no
  more than the limit of steps, at the sum of their estimated costs, which stays within the ceiling.
\<close>

theorem execution_within_ceilings:
  assumes "execute_plan E opts req s = (Inr r, s')" and "cached_result (er_execution_id req) s = None"
  shows "map ps_call (pr_steps r) = plan_of req \<and>
    pr_cost_total r = sum_list (map ps_estimated_cost (pr_steps r)) \<and>
    (case eo_max_plan_steps opts of None \<Rightarrow> True | Some n \<Rightarrow> length (pr_steps r) \<le> n) \<and>
    (case eo_max_cost opts of None \<Rightarrow> True | Some q \<Rightarrow> pr_steps r = [] \<or> pr_cost_total r \<le> q)"
proof -
  from assms obtain s1 s2 where "run_plan E opts req s1 = (Inr r, s2)"
    by (cases rule: execute_plan_cases) auto
  then obtain p l l' s3 where calls: "run_calls_from E opts req (xs_now s1) 0 (plan_of req) \<lparr>pp_steps = [], pp_context = er_input req,
      pp_total = 0, pp_nodes = [\<lparr>tn_id = ''trace_'' @ er_execution_id req, tn_type = TracePlan,
        tn_label = ''agent:'' @ er_agent_id req, tn_parent = None\<rparr>]\<rparr> (s1\<lparr>xs_reported := l\<rparr>) = (Inr p, s3)"
    and size: "assert_plan_size opts (plan_of req) s1 = (Inr (), s1)"
    and r: "pr_steps r = pp_steps p" "pr_cost_total r = pp_total p"
    by (rule run_plan_Inr)
  from run_calls_progress[OF calls] have new: "map ps_call (pp_steps p) = plan_of req"
    "pp_total p = sum_list (map ps_estimated_cost (pp_steps p))"
    "case eo_max_cost opts of None \<Rightarrow> True | Some q \<Rightarrow> plan_of req = [] \<or> pp_total p \<le> q" by auto
  have "case eo_max_plan_steps opts of None \<Rightarrow> True | Some n \<Rightarrow> length (plan_of req) \<le> n"
    using size by (auto simp: assert_plan_size_def split: option.splits if_splits)
  then show ?thesis using new by (auto simp: r split: option.splits dest: arg_cong[of _ _ length])
qed

subsection \<open>Time\<close>

definition on_time :: "executor_options \<Rightarrow> ms \<Rightarrow> executor_state \<Rightarrow> bool" where
  "on_time opts started s \<longleftrightarrow>
     (case eo_execution_timeout_ms opts of None \<Rightarrow> True | Some t \<Rightarrow> xs_now s \<le> started + max 0 t + 34500)"

lemma on_time_reported [simp]: "on_time opts started (s\<lparr>xs_reported := l\<rparr>) = on_time opts started s"
  by (simp add: on_time_def split: option.split)

lemma run_tool_in_time:
  assumes "run_tool E opts tool call started s = (r, s')"
    and "x_then (assert_execution_deadline opts started) (\<lambda>_. assert_circuit_open (pc_tool call)) s0 = (Inr (), s)"
    and "\<And>n t i limit. int (snd (ee_run E n t i limit)) \<le> max 1 limit"
    and "eo_execution_timeout_ms opts = Some timeout"
  shows "xs_now s' \<le> started + timeout"
proof -
  from assms(2,4) have left: "xs_now s0 - started < timeout" and now: "xs_now s = xs_now s0"
    using guard_fields[OF assms(2)]
    by (auto simp: assert_execution_deadline_def x_then_Inr split: if_splits)
  let ?limit = "max 1 (min (te_timeout_ms tool) (timeout - (xs_now s - started)))"
  have "xs_now s' = xs_now s + int (snd (ee_run E (xs_runs s) (pc_tool call) (pc_input call) ?limit))"
    using assms(1,4) left now by (auto simp: run_tool_def resolve_tool_timeout_def Let_def case_prod_beta)
  moreover have "int (snd (ee_run E (xs_runs s) (pc_tool call) (pc_input call) ?limit)) \<le> ?limit"
    using assms(3)[of "xs_runs s" "pc_tool call" "pc_input call" ?limit] by simp
  moreover have "?limit \<le> timeout - (xs_now s - started)" using left now by simp
  ultimately show ?thesis by linarith
qed

lemma retry_loop_in_time:
  assumes "\<And>n t i limit. int (snd (ee_run E n t i limit)) \<le> max 1 limit"
  shows "retry_loop E opts tool call started attempt left s = (r, s') \<Longrightarrow> on_time opts started s \<Longrightarrow> on_time opts started s'"
proof (induction left arbitrary: attempt s)
  case 0
  then show ?case by (auto simp: on_time_def mark_fields split: option.splits)
next
  case (Suc left)
  show ?case
  proof (cases "eo_execution_timeout_ms opts")
    case None
    then show ?thesis by (simp add: on_time_def)
  next
    case (Some timeout)
    note in_time = run_tool_in_time[OF _ _ assms Some]
    from Suc.prems(1) show ?thesis
    proof (cases rule: retry_loop_Suc)
      case (blocked e)
      with guard_fields[OF blocked(1)] Suc.prems(2) show ?thesis by (simp add: on_time_def Some)
    next
      case (finished s1 out s2)
      from in_time[OF finished(2,1)] show ?thesis by (simp add: on_time_def Some finished mark_fields)
    next
      case (reopened s1 e)
      from in_time[OF reopened(2,1)] show ?thesis by (simp add: on_time_def Some)
    next
      case (exhausted s1 e s2)
      from in_time[OF exhausted(2,1)] show ?thesis by (simp add: on_time_def Some exhausted mark_fields)
    next
      case (again s1 e s2)
      have "on_time opts started (wait_jitter E attempt s2)"
        using in_time[OF again(2,1)] wait_at_most[of E attempt s2] by (simp add: on_time_def Some)
      from Suc.IH[OF again(3) this] show ?thesis .
    qed
  qed
qed

lemma run_calls_in_time:
  assumes "\<And>n t i limit. int (snd (ee_run E n t i limit)) \<le> max 1 limit"
  shows "run_calls_from E opts req started index cs p s = (r, s') \<Longrightarrow> on_time opts started s \<Longrightarrow> on_time opts started s'"
proof (induction cs arbitrary: index p s)
  case (Cons c cs)
  have one: "on_time opts started s1" if "run_call E opts req started index c p s = (a, s1)" for a s1
    using that Cons.prems(2)
    by (cases rule: run_call_cases) (auto simp: execute_with_retry_def dest!: retry_loop_in_time[OF assms])
  from Cons.prems(1) show ?case
    unfolding run_calls_from.simps
  proof (cases rule: x_then_cases)
    case (error e)
    from one[OF error(1)] show ?thesis .
  next
    case (go a s1)
    from Cons.IH[OF go(2) one[OF go(1)]] show ?thesis .
  qed
qed auto

text \<open>
  Property C25. With tools that keep their time limit an execution ends within its timeout and at most
  34.5 seconds, the longest wait before a retry, so that its lock of fifteen minutes, when the timeout
  is below 865.5 seconds, is still its own when it ends.
\<close>

theorem execution_time_bounded:
  assumes "execute_plan E opts req s = (r, s')" and "eo_execution_timeout_ms opts = Some timeout"
    and "\<And>n t i limit. int (snd (ee_run E n t i limit)) \<le> max 1 limit"
    and "0 < timeout" and "timeout < 865500"
  shows "xs_now s' \<le> xs_now s + timeout + 34500 \<and>
    (\<forall>s1. take_lock (er_execution_id req) s = (Inr (), s1) \<longrightarrow>
       (\<exists>t. map_of (xs_locks s1) (er_execution_id req) = Some t \<and> xs_now s' < t))"
proof -
  have "xs_now s' \<le> xs_now s + timeout + 34500"
    using assms(1)
  proof (cases rule: execute_plan_cases)
    case (ran s1 s2)
    have now: "xs_now s1 = xs_now s" using take_lock_fields[OF ran(2)] by simp
    have start: "on_time opts (xs_now s) s1" using assms(4) by (simp add: on_time_def assms(2) now)
    have "on_time opts (xs_now s) s2"
      using ran(3)
    proof (cases rule: run_plan_cases)
      case (calls p x l s3)
      have "on_time opts (xs_now s1) (s1\<lparr>xs_reported := l\<rparr>)" using start by (simp add: now)
      from run_calls_in_time[OF assms(3) calls(1) this] show ?thesis by (simp add: now on_time_def calls(3) assms(2))
    next
      case refused
      with start show ?thesis by (simp add: on_time_def now split: option.splits)
    qed
    then show ?thesis using assms(4) by (simp add: on_time_def assms(2) ran(4))
  qed (use assms(4) in \<open>auto dest: take_lock_fields\<close>)
  then show ?thesis
    using assms(4,5) by (auto simp: take_lock_def exec_lock_ttl_seconds_def split: if_splits)
qed

subsection \<open>The cached result\<close>

text \<open>
  For the hour after an execution has succeeded every request with its id gets its
  result, marked as cached, and runs no tool, whatever the request asks for.
\<close>

theorem repeated_execution_is_cached:
  assumes "execute_plan E opts req s = (Inr r, s')" and "cached_result (er_execution_id req) s = None"
    and "er_execution_id req' = er_execution_id req"
    and "xs_results s2 = xs_results s'" and "xs_now s2 < xs_now s' + 3600000"
  shows "execute_plan E' opts' req' s2 = (Inr (r\<lparr>pr_cached := True\<rparr>), s2)"
proof -
  from assms(1,2) obtain s0 s1 where run: "run_plan E opts req s0 = (Inr r, s1)" and s': "s' = release_lock (er_execution_id req) s1"
    by (cases rule: execute_plan_cases) auto
  from run obtain l' s3 where "s1 = s3\<lparr>xs_results := AList.update (er_execution_id req)
      (xs_now s3 + exec_result_ttl_seconds * 1000, r) (xs_results s3), xs_reported := l'\<rparr>"
    by (rule run_plan_Inr)
  then have "map_of (xs_results s2) (er_execution_id req') = Some (xs_now s' + 3600000, r)"
    by (simp add: assms(3,4) s' exec_result_ttl_seconds_def)
  then have "cached_result (er_execution_id req') s2 = Some (r\<lparr>pr_cached := True\<rparr>)"
    using assms(5) by (simp add: cached_result_def)
  then show ?thesis by (simp add: execute_plan_def)
qed

subsection \<open>The circuit breaker\<close>

definition closed_breakers :: "executor_state \<Rightarrow> bool" where
  "closed_breakers s \<longleftrightarrow> (\<forall>tool b. map_of (xs_breakers s) tool = Some b \<longrightarrow> b = closed_breaker)"

lemma closed_breakers_reported [simp]: "closed_breakers (s\<lparr>xs_reported := l\<rparr>) = closed_breakers s"
  by (simp add: closed_breakers_def)

definition no_open_breaker :: "executor_state \<Rightarrow> bool" where
  "no_open_breaker s \<longleftrightarrow> (\<forall>tool b. map_of (xs_breakers s) tool = Some b \<longrightarrow> bs_open_until b = None)"

lemma no_open_breaker_reported [simp]: "no_open_breaker (s\<lparr>xs_reported := l\<rparr>) = no_open_breaker s"
  by (simp add: no_open_breaker_def)

lemma closed_breaker_fields [simp]: "bs_open_until closed_breaker = None" "bs_failure_count closed_breaker = 0"
  by (simp_all add: closed_breaker_def)

lemma closed_no_open: "closed_breakers s \<Longrightarrow> no_open_breaker s"
  unfolding closed_breakers_def no_open_breaker_def using closed_breaker_fields(1) by blast

lemma closed_get:
  assumes "closed_breakers s"
  shows "get_circuit_breaker_state tool s = (b, s') \<Longrightarrow> b = closed_breaker \<and> closed_breakers s'"
  using assms by (auto simp: get_circuit_breaker_state_def closed_breakers_def split: option.splits if_splits)

lemma closed_guard:
  assumes "closed_breakers s"
    and "x_then (assert_execution_deadline opts started) (\<lambda>_. assert_circuit_open tool) s = (r, s')"
  shows "closed_breakers s' \<and> (\<forall>e. r = Inl e \<longrightarrow> exec_code e \<noteq> Some ''AGENT_TOOL_CIRCUIT_OPEN'')"
  using assms(2)
proof (cases rule: x_then_cases)
  case (error e)
  then show ?thesis using assms(1)
    by (auto simp: assert_execution_deadline_def split: option.splits if_splits)
next
  case (go a s1)
  obtain b s2 where g: "get_circuit_breaker_state tool s1 = (b, s2)" by fastforce
  have "s1 = s" by (rule assert_state(2)[OF go(1)])
  with closed_get[OF assms(1), of tool b s2] g have "b = closed_breaker" "closed_breakers s2" by auto
  with go(2) g show ?thesis by (auto simp: assert_circuit_open_def)
qed

lemma closed_marks:
  assumes "closed_breakers s"
  shows "closed_breakers (mark_tool_success tool s)"
    and "2 \<le> eo_failure_threshold opts \<Longrightarrow> no_open_breaker (mark_tool_failure opts tool s)"
proof -
  show "closed_breakers (mark_tool_success tool s)"
    using assms by (auto simp: mark_tool_success_def closed_breakers_def)
  obtain b s1 where g: "get_circuit_breaker_state tool s = (b, s1)" by fastforce
  from closed_get[OF assms g] show "no_open_breaker (mark_tool_failure opts tool s)" if "2 \<le> eo_failure_threshold opts"
    using that closed_no_open[of s1] by (auto simp: mark_tool_failure_def g Let_def no_open_breaker_def)
qed

lemma retry_loop_breaker:
  assumes two: "2 \<le> eo_failure_threshold opts"
    and tools: "\<And>n t i limit e. fst (ee_run E n t i limit) = Inl e \<Longrightarrow> exec_code e \<noteq> Some ''AGENT_TOOL_CIRCUIT_OPEN''"
  shows "retry_loop E opts tool call started attempt left s = (r, s') \<Longrightarrow> closed_breakers s \<Longrightarrow>
    no_open_breaker s' \<and> (\<forall>e. r = Inl e \<longrightarrow> exec_code e \<noteq> Some ''AGENT_TOOL_CIRCUIT_OPEN'') \<and>
    (\<forall>a. r = Inr a \<longrightarrow> closed_breakers s')"
proof (induction left arbitrary: attempt s)
  case 0
  then show ?case using closed_marks(2)[OF 0(2) two] by auto
next
  case (Suc left)
  have fails: "exec_code e \<noteq> Some ''AGENT_TOOL_CIRCUIT_OPEN''"
    if "run_tool E opts tool call started s1 = (Inl e, s2)" for s1 s2 e
    using that tools
    by (auto simp: run_tool_def resolve_tool_timeout_def Let_def case_prod_beta split: sum.splits option.splits if_splits)
  have keep: "closed_breakers s2" if "closed_breakers s1" "run_tool E opts tool call started s1 = (x, s2)" for s1 s2 x
    using that run_tool_fields[OF that(2)] by (simp add: closed_breakers_def)
  note guard = closed_guard[OF Suc.prems(2)]
  from Suc.prems(1) show ?case
  proof (cases rule: retry_loop_Suc)
    case (blocked e)
    with guard[OF blocked(1)] closed_no_open show ?thesis by auto
  next
    case (finished s1 out s2)
    with closed_marks(1)[OF keep[OF _ finished(2)]] guard[OF finished(1)] closed_no_open show ?thesis by auto
  next
    case (reopened s1 e)
    with fails[OF reopened(2)] show ?thesis by simp
  next
    case (exhausted s1 e s2)
    with fails[OF exhausted(2)] closed_marks(2)[OF keep[OF _ exhausted(2)] two] guard[OF exhausted(1)] show ?thesis by auto
  next
    case (again s1 e s2)
    have "closed_breakers (wait_jitter E attempt s2)"
      using keep[OF _ again(2)] guard[OF again(1)] by (simp add: closed_breakers_def wait_fields)
    from Suc.IH[OF again(3) this] show ?thesis .
  qed
qed

lemma run_calls_breaker:
  assumes "2 \<le> eo_failure_threshold opts"
    and "\<And>n t i limit e. fst (ee_run E n t i limit) = Inl e \<Longrightarrow> exec_code e \<noteq> Some ''AGENT_TOOL_CIRCUIT_OPEN''"
  shows "run_calls_from E opts req started index cs p s = (r, s') \<Longrightarrow> closed_breakers s \<Longrightarrow> no_open_breaker s'"
proof (induction cs arbitrary: index p s)
  case Nil
  then show ?case by (auto dest: closed_no_open)
next
  case (Cons c cs)
  have one: "no_open_breaker s1 \<and> (\<forall>p'. a = Inr p' \<longrightarrow> closed_breakers s1)"
    if "run_call E opts req started index c p s = (a, s1)" for a s1
    using that
  proof (cases rule: run_call_cases)
    case (refused e)
    then show ?thesis using closed_no_open[OF Cons.prems(2)] by simp
  qed (use retry_loop_breaker[OF assms _ Cons.prems(2)] in \<open>auto simp: execute_with_retry_def\<close>)
  from Cons.prems(1) show ?case
    unfolding run_calls_from.simps
  proof (cases rule: x_then_cases)
    case (error e)
    with one[OF error(1)] show ?thesis by simp
  next
    case (go a s1)
    with one[OF go(1)] Cons.IH[OF go(2)] show ?thesis by simp
  qed
qed

text \<open>
  The circuit breaker of an executor that serves one execution, as the runtime makes
  them, never opens when its threshold is two failures or more: a failure is counted once the retries
  of a call are used up, and this ends the execution.
\<close>

theorem breaker_never_opens:
  assumes "execute_plan E opts req s = (r, s')" and "xs_breakers s = []" and "2 \<le> eo_failure_threshold opts"
    and "\<And>n t i limit e. fst (ee_run E n t i limit) = Inl e \<Longrightarrow> exec_code e \<noteq> Some ''AGENT_TOOL_CIRCUIT_OPEN''"
  shows "\<forall>tool. bs_open_until (or_else (map_of (xs_breakers s') tool) closed_breaker) = None"
proof -
  have "no_open_breaker s'"
    using assms(1)
  proof (cases rule: execute_plan_cases)
    case (ran s1 s2)
    have closed: "closed_breakers s1" using take_lock_fields[OF ran(2)] assms(2) by (simp add: closed_breakers_def)
    have "no_open_breaker s2"
      using ran(3)
    proof (cases rule: run_plan_cases)
      case (calls p x l s3)
      from run_calls_breaker[OF assms(3,4) calls(1)] closed show ?thesis by (simp add: no_open_breaker_def calls(2))
    next
      case refused
      with closed_no_open[OF closed] show ?thesis by (simp add: no_open_breaker_def)
    qed
    then show ?thesis by (simp add: ran(4) no_open_breaker_def)
  qed (use assms(2) in \<open>auto simp: no_open_breaker_def dest: take_lock_fields\<close>)
  then show ?thesis by (auto simp: no_open_breaker_def or_else_def split: option.splits)
qed

subsection \<open>The lock\<close>

text \<open>
  A second execution with the id of a running one is refused for the fifteen minutes of
  the lock. After that it is let in, and when the first one ends it releases the lock of the second:
  a third is let in beside it at once.
\<close>

theorem lock_belongs_to_nobody:
  assumes "take_lock i s = (Inr (), s1)" and "xs_locks s2 = xs_locks s1" and "xs_now s1 \<le> xs_now s2"
  shows "if xs_now s2 < xs_now s1 + 900000 then take_lock i s2 =
      (Inl (ExecError None (''Execution '' @ [CHR 0x27] @ i @ [CHR 0x27] @ '' is already running.'')), s2)
    else case take_lock i s2 of (r, s3) \<Rightarrow> r = Inr () \<and>
      (\<exists>t. map_of (xs_locks s3) i = Some t \<and> xs_now s3 < t) \<and> fst (take_lock i (release_lock i s3)) = Inr ()"
proof -
  from assms(1) have "map_of (xs_locks s2) i = Some (xs_now s1 + 900000)"
    by (auto simp: assms(2) take_lock_def exec_lock_ttl_seconds_def split: if_splits)
  then show ?thesis
    by (simp add: take_lock_def x_fail_def release_lock_def delete_conv' exec_lock_ttl_seconds_def)
qed

subsection \<open>A sample plan\<close>

definition plan_env :: "exec_error + js_val \<Rightarrow> executor_env" where
  "plan_env out = \<lparr>ee_run = \<lambda>n t i limit. (out, 1), ee_draw = \<lambda>n. 0, ee_on_plan = \<lambda>_. None,
     ee_on_step = \<lambda>_ _. None, ee_on_completed = \<lambda>_. None\<rparr>"

definition plan_options :: executor_options where
  "plan_options = \<lparr>eo_tools = \<lambda>t. if t = ''http'' then Some \<lparr>te_timeout_ms = 30, te_cost = Fin (22 / 100)\<rparr> else None,
     eo_cooldown_ms = 60, eo_failure_threshold = 3, eo_execution_timeout_ms = Some 120, eo_max_cost = Some (1 / 2),
     eo_max_plan_steps = Some 2, eo_retry_attempts = 2\<rparr>"

definition plan_request :: execution_request where
  "plan_request = \<lparr>er_execution_id = ''e'', er_agent_id = ''a'', er_tenant_id = ''t'', er_input = [],
     er_tool_calls = Some [\<lparr>pc_tool = ''http'', pc_input = JNull\<rparr>, \<lparr>pc_tool = ''http'', pc_input = JBool True\<rparr>]\<rparr>"

definition plan_start :: executor_state where
  "plan_start = \<lparr>xs_now = 0, xs_results = [], xs_locks = [], xs_breakers = [], xs_runs = 0, xs_reported = []\<rparr>"

definition plan_end :: executor_state where
  "plan_end = snd (execute_plan (plan_env (Inr JNull)) plan_options plan_request plan_start)"

lemma plan_runs: "\<exists>r. execute_plan (plan_env (Inr JNull)) plan_options plan_request plan_start = (Inr r, plan_end) \<and>
    length (pr_steps r) = 2 \<and> pr_cached r = False"
proof -
  let ?run = "execute_plan (plan_env (Inr JNull)) plan_options plan_request plan_start"
  have "(case fst ?run of Inr r \<Rightarrow> length (pr_steps r) = 2 \<and> pr_cached r = False | Inl _ \<Rightarrow> False)" by code_simp
  then show ?thesis by (cases ?run) (auto simp: plan_end_def split: sum.splits)
qed

lemma plan_uncached: "cached_result (er_execution_id plan_request) plan_start = None"
  by (simp add: cached_result_def plan_start_def)

lemma execution_within_ceilings_witness:
  "\<exists>r. execute_plan (plan_env (Inr JNull)) plan_options plan_request plan_start = (Inr r, plan_end) \<and>
     map ps_call (pr_steps r) = plan_of plan_request \<and> pr_cost_total r \<le> 1 / 2"
proof -
  from plan_runs obtain r where r: "execute_plan (plan_env (Inr JNull)) plan_options plan_request plan_start = (Inr r, plan_end)"
    "length (pr_steps r) = 2" by blast
  from execution_within_ceilings[OF r(1) plan_uncached] r show ?thesis
    by (auto simp: plan_options_def)
qed

lemma repeated_execution_is_cached_witness:
  "\<exists>r. execute_plan (plan_env (Inl (ExecError None ''x''))) plan_options plan_request (plan_end\<lparr>xs_now := 3600000\<rparr>) =
     (Inr (r\<lparr>pr_cached := True\<rparr>), plan_end\<lparr>xs_now := 3600000\<rparr>) \<and> pr_cached r = False"
proof -
  from plan_runs obtain r where r: "execute_plan (plan_env (Inr JNull)) plan_options plan_request plan_start = (Inr r, plan_end)"
    "pr_cached r = False" by blast
  have "xs_now plan_end = 2" by code_simp
  then show ?thesis
    using repeated_execution_is_cached[OF r(1) plan_uncached refl, of "plan_end\<lparr>xs_now := 3600000\<rparr>"] r(2) by auto
qed

definition plan_failed :: executor_state where
  "plan_failed = snd (execute_plan (plan_env (Inl (ExecError None ''x''))) plan_options plan_request plan_start)"

lemma plan_fails: "\<exists>r. execute_plan (plan_env (Inl (ExecError None ''x''))) plan_options plan_request plan_start = (r, plan_failed)"
  by (intro exI[of _ "fst (execute_plan (plan_env (Inl (ExecError None ''x''))) plan_options plan_request plan_start)"])
    (simp add: plan_failed_def)

lemma execution_time_bounded_witness:
  "xs_now plan_failed \<le> 34620 \<and> 1000 \<le> xs_now plan_failed"
proof -
  from plan_fails obtain r where r: "execute_plan (plan_env (Inl (ExecError None ''x''))) plan_options plan_request plan_start =
      (r, plan_failed)" ..
  have limit: "eo_execution_timeout_ms plan_options = Some 120" by (simp add: plan_options_def)
  have quick: "int (snd (ee_run (plan_env (Inl (ExecError None ''x''))) n t i m)) \<le> max 1 m" for n t i m
    by (simp add: plan_env_def)
  have low: "1000 \<le> xs_now plan_failed" by code_simp
  have short: "0 < (120::int)" "(120::int) < 865500" by simp_all
  have high: "xs_now plan_failed \<le> xs_now plan_start + 120 + 34500"
    by (rule conjunct1[OF execution_time_bounded[OF r limit quick short]])
  have zero: "xs_now plan_start = 0" by (simp add: plan_start_def)
  show ?thesis using low high unfolding zero by simp
qed

definition patient_options :: executor_options where
  "patient_options = plan_options\<lparr>eo_execution_timeout_ms := None\<rparr>"

definition plan_broken :: executor_state where
  "plan_broken = snd (execute_plan (plan_env (Inl (ExecError None ''x''))) patient_options plan_request plan_start)"

lemma breaker_never_opens_witness:
  "\<exists>b. map_of (xs_breakers plan_broken) ''http'' = Some b \<and> bs_failure_count b = 1 \<and> bs_open_until b = None"
proof -
  define r where "r = fst (execute_plan (plan_env (Inl (ExecError None ''x''))) patient_options plan_request plan_start)"
  have r: "execute_plan (plan_env (Inl (ExecError None ''x''))) patient_options plan_request plan_start = (r, plan_broken)"
    by (simp add: plan_broken_def r_def)
  have two: "2 \<le> eo_failure_threshold patient_options" and none: "xs_breakers plan_start = []"
    by (simp_all add: patient_options_def plan_options_def plan_start_def)
  have code: "exec_code e \<noteq> Some ''AGENT_TOOL_CIRCUIT_OPEN''"
    if "fst (ee_run (plan_env (Inl (ExecError None ''x''))) n t i m) = Inl e" for n t i m e
    using that by (auto simp: plan_env_def)
  have one: "map_option bs_failure_count (map_of (xs_breakers plan_broken) ''http'') = Some 1" by code_simp
  have "bs_open_until (or_else (map_of (xs_breakers plan_broken) ''http'') closed_breaker) = None"
    by (rule spec[OF breaker_never_opens[OF r none two]]) (erule code)
  with one show ?thesis by auto
qed

definition locked_once :: executor_state where
  "locked_once = snd (take_lock ''e'' plan_start)"

lemma lock_belongs_to_nobody_witness:
  "fst (take_lock ''e'' (release_lock ''e'' (snd (take_lock ''e'' (locked_once\<lparr>xs_now := 900000\<rparr>))))) = Inr () \<and>
   fst (take_lock ''e'' (locked_once\<lparr>xs_now := 899999\<rparr>)) \<noteq> Inr ()"
proof -
  have first: "take_lock ''e'' plan_start = (Inr (), locked_once)"
    by (simp add: locked_once_def take_lock_def plan_start_def)
  have zero: "xs_now locked_once = 0" by (simp add: locked_once_def take_lock_def plan_start_def)
  show ?thesis
    using lock_belongs_to_nobody[OF first, of "locked_once\<lparr>xs_now := 900000\<rparr>"]
      lock_belongs_to_nobody[OF first, of "locked_once\<lparr>xs_now := 899999\<rparr>"]
    by (auto simp: zero case_prod_beta)
qed

end
