(* ===== verification/BudgetCorrect.thy ===== *)
theory BudgetCorrect
  imports AgentBudget
begin

text \<open>
  What the budgets of agents promise: the consumed amount of a budget is the sum of its charges,
  the service charges within the limit or not at all, and the check the worker makes before an
  execution reserves nothing.
\<close>

subsection \<open>The effect of the table operations\<close>

definition budget_db_ok :: "budget_db \<Rightarrow> bool" where
  "budget_db_ok db \<longleftrightarrow> indexes_ok budget_indexes (bdb_budgets db)"

definition consumed_of :: "string \<Rightarrow> string \<Rightarrow> budget_db \<Rightarrow> rat" where
  "consumed_of tenant agent db = (case find_budget tenant agent db of None \<Rightarrow> 0 | Some r \<Rightarrow> bdg_consumed r)"

definition is_charge :: "string \<Rightarrow> string \<Rightarrow> budget_event \<Rightarrow> bool" where
  "is_charge tenant agent e \<longleftrightarrow> bev_kind e = ''CONSUME'' \<and> bev_tenant_id e = tenant \<and> bev_agent_id e = agent"

definition charged_to :: "string \<Rightarrow> string \<Rightarrow> budget_db \<Rightarrow> rat" where
  "charged_to tenant agent db = sum_list (map bev_cost (filter (is_charge tenant agent) (bdb_events db)))"

text \<open>The budget a call works on.\<close>

definition current_budget :: "budget_call \<Rightarrow> budget_db \<Rightarrow> budget_row" where
  "current_budget c db = or_else (find_budget (bc_tenant_id c) (bc_agent_id c) db) (new_budget c default_budget_limit)"

definition others_keep :: "budget_call \<Rightarrow> budget_db \<Rightarrow> budget_db \<Rightarrow> bool" where
  "others_keep c db db' \<longleftrightarrow> (\<forall>t a. (t, a) \<noteq> (bc_tenant_id c, bc_agent_id c) \<longrightarrow>
     find_budget t a db' = find_budget t a db \<and> charged_to t a db' = charged_to t a db)"

lemma others_keep_refl [simp, intro]: "others_keep c db db"
  by (simp add: others_keep_def)

lemma others_keep_trans: "others_keep c db db1 \<Longrightarrow> others_keep c db1 db2 \<Longrightarrow> others_keep c db db2"
  by (auto simp: others_keep_def)

definition keeps_key :: "(budget_row \<Rightarrow> budget_row) \<Rightarrow> bool" where
  "keeps_key f \<longleftrightarrow> (\<forall>r. bdg_id (f r) = bdg_id r \<and> bdg_tenant_id (f r) = bdg_tenant_id r \<and>
     bdg_agent_id (f r) = bdg_agent_id r)"

lemma find_budget_row:
  "find_budget t a db = Some r \<Longrightarrow> r \<in> set (bdb_budgets db) \<and> bdg_tenant_id r = t \<and> bdg_agent_id r = a"
  unfolding find_budget_def by (drule find_Some_iff_mem) simp

lemma budget_id_unique:
  assumes "budget_db_ok db" and "r \<in> set (bdb_budgets db)" and "r' \<in> set (bdb_budgets db)" and "bdg_id r = bdg_id r'"
  shows "r = r'"
proof -
  have "unique_key.unique (\<lambda>r. Some (bdg_id r)) (bdb_budgets db)"
    by (rule indexes_ok_unique[OF assms(1)[unfolded budget_db_ok_def], of "''id''"]) (simp add: budget_indexes_def)
  from unique_key.unique_eq[OF this assms(2,3)] assms(4) show ?thesis by simp
qed

lemma update_by_id:
  assumes ok: "budget_db_ok db" and r: "find_budget t a db = Some r" and f: "keeps_key f"
  defines "rows \<equiv> update_where (\<lambda>x. bdg_id x = bdg_id r) f (bdb_budgets db)"
  shows "budget_db_ok (db\<lparr>bdb_budgets := rows\<rparr>)" and "find_budget t a (db\<lparr>bdb_budgets := rows\<rparr>) = Some (f r)"
    and "(t', a') \<noteq> (t, a) \<Longrightarrow> find_budget t' a' (db\<lparr>bdb_budgets := rows\<rparr>) = find_budget t' a' db"
proof -
  show "budget_db_ok (db\<lparr>bdb_budgets := rows\<rparr>)"
    using ok f unfolding budget_db_ok_def rows_def
    by (auto intro!: indexes_ok_update_keep simp: budget_indexes_def keeps_key_def)
  have found: "find_budget t' a' (db\<lparr>bdb_budgets := rows\<rparr>) =
      map_option (\<lambda>x. if bdg_id x = bdg_id r then f x else x) (find_budget t' a' db)" for t' a'
    unfolding find_budget_def rows_def using f by (simp add: find_update_where keeps_key_def)
  from found[of t a] r show "find_budget t a (db\<lparr>bdb_budgets := rows\<rparr>) = Some (f r)" by simp
  assume other: "(t', a') \<noteq> (t, a)"
  have "bdg_id x \<noteq> bdg_id r" if "find_budget t' a' db = Some x" for x
    using budget_id_unique[OF ok, of x r] find_budget_row[OF that] find_budget_row[OF r] other by auto
  then show "find_budget t' a' (db\<lparr>bdb_budgets := rows\<rparr>) = find_budget t' a' db"
    unfolding found by (cases "find_budget t' a' db") auto
qed

lemma upsert_budget_Inr:
  assumes run: "upsert_budget c limit f db = (Inr r, db')" and ok: "budget_db_ok db" and f: "keeps_key f"
  shows "budget_db_ok db' \<and> find_budget (bc_tenant_id c) (bc_agent_id c) db' = Some r \<and> others_keep c db db' \<and>
    bdb_events db' = bdb_events db \<and>
    r = (case find_budget (bc_tenant_id c) (bc_agent_id c) db of Some r0 \<Rightarrow> f r0 | None \<Rightarrow> new_budget c limit)"
proof (cases "find_budget (bc_tenant_id c) (bc_agent_id c) db")
  case None
  then have r: "r = new_budget c limit" and db': "db' = db\<lparr>bdb_budgets := bdb_budgets db @ [r]\<rparr>"
    and fresh: "indexes_ok budget_indexes (bdb_budgets db @ [r])"
    using run by (auto simp: upsert_budget_def on_budgets_def Let_def table_simps)
  have "find_budget t a db' = or_opt (find_budget t a db) (if t = bc_tenant_id c \<and> a = bc_agent_id c then Some r else None)" for t a
    unfolding find_budget_def db' by (auto simp: find_append r new_budget_def)
  then show ?thesis using None r fresh
    by (auto simp: db' budget_db_ok_def others_keep_def charged_to_def or_opt_def split: option.split)
next
  case (Some r0)
  then have "r = f r0" and db': "db' = db\<lparr>bdb_budgets := update_where (\<lambda>x. bdg_id x = bdg_id r0) f (bdb_budgets db)\<rparr>"
    using run by (auto simp: upsert_budget_def on_budgets_def table_simps)
  with update_by_id[OF ok Some f] Some show ?thesis
    by (auto simp: others_keep_def charged_to_def)
qed

lemma update_budget_Inr:
  assumes run: "update_budget c (bdg_id r) f db = (Inr u, db')" and ok: "budget_db_ok db" and f: "keeps_key f"
    and r: "find_budget (bc_tenant_id c) (bc_agent_id c) db = Some r"
  shows "budget_db_ok db' \<and> find_budget (bc_tenant_id c) (bc_agent_id c) db' = Some ((f r)\<lparr>bdg_updated_at := bc_now c\<rparr>) \<and>
    others_keep c db db' \<and> bdb_events db' = bdb_events db"
proof -
  have g: "keeps_key (\<lambda>r. (f r)\<lparr>bdg_updated_at := bc_now c\<rparr>)" using f by (simp add: keeps_key_def)
  have db': "db' = db\<lparr>bdb_budgets := update_where (\<lambda>x. bdg_id x = bdg_id r)
      (\<lambda>r. (f r)\<lparr>bdg_updated_at := bc_now c\<rparr>) (bdb_budgets db)\<rparr>"
    using run by (auto simp: update_budget_def on_budgets_def table_simps)
  from update_by_id[OF ok r g] show ?thesis by (auto simp: db' others_keep_def charged_to_def)
qed

lemma add_event_Inr:
  assumes "add_event e db = (Inr u, db')"
  shows "bdb_budgets db' = bdb_budgets db \<and> bdb_events db' = bdb_events db @ [e]"
  using assms by (auto simp: add_event_def table_simps)

lemma find_budget_cong: "bdb_budgets db = bdb_budgets db' \<Longrightarrow> find_budget t a db = find_budget t a db'"
  by (simp add: find_budget_def)

lemma charged_to_append:
  "bdb_events db' = bdb_events db @ es \<Longrightarrow>
     charged_to t a db' = charged_to t a db + sum_list (map bev_cost (filter (is_charge t a) es))"
  by (simp add: charged_to_def)

lemma add_event_effect:
  assumes "add_event e db = (Inr u, db')" and "budget_db_ok db"
    and "bev_tenant_id e = bc_tenant_id c" and "bev_agent_id e = bc_agent_id c"
  shows "budget_db_ok db' \<and> others_keep c db db' \<and> (\<forall>t a. find_budget t a db' = find_budget t a db) \<and>
    bdb_events db' = bdb_events db @ [e]"
  using add_event_Inr[OF assms(1)] assms(2-4) charged_to_append[of db' db "[e]"]
  by (auto simp: budget_db_ok_def others_keep_def is_charge_def find_budget_cong[of db' db])

lemma budget_event_simps [simp]:
  "bev_tenant_id (budget_event_of c i kind cost mode m) = bc_tenant_id c"
  "bev_agent_id (budget_event_of c i kind cost mode m) = bc_agent_id c"
  "bev_kind (budget_event_of c i kind cost mode m) = kind"
  "bev_cost (budget_event_of c i kind cost mode m) = cost"
  by (simp_all add: budget_event_of_def)

lemma keeps_key_simps [simp, intro]:
  "keeps_key (\<lambda>r. r)" "keeps_key (\<lambda>r. r\<lparr>bdg_consumed := q\<rparr>)" "keeps_key (\<lambda>r. r\<lparr>bdg_alert_level := l\<rparr>)"
  "keeps_key (\<lambda>r. r\<lparr>bdg_limit := q, bdg_updated_at := t\<rparr>)"
  "keeps_key (\<lambda>r. r\<lparr>bdg_consumed := q, bdg_alert_level := l\<rparr>)"
  by (simp_all add: keeps_key_def)

lemma upsert_current:
  assumes "upsert_budget c default_budget_limit (\<lambda>r. r) db = (Inr r, db')" and "budget_db_ok db"
  shows "budget_db_ok db'" and "find_budget (bc_tenant_id c) (bc_agent_id c) db' = Some r" and "others_keep c db db'"
    and "bdb_events db' = bdb_events db" and "r = current_budget c db"
  using upsert_budget_Inr[OF assms keeps_key_simps(1)]
  by (auto simp: current_budget_def or_else_def split: option.splits)

lemma consumed_of_current: "consumed_of (bc_tenant_id c) (bc_agent_id c) db = bdg_consumed (current_budget c db)"
  by (simp add: consumed_of_def current_budget_def or_else_def new_budget_def split: option.split)

subsection \<open>Charges\<close>

text \<open>What a successful charge of \<open>cost\<close> that takes the budget to \<open>consumed\<close> leaves behind; \<open>alerts\<close> are
  the entries besides the charge itself.\<close>

definition charged :: "budget_call \<Rightarrow> rat \<Rightarrow> rat \<Rightarrow> budget_event list \<Rightarrow> budget_db \<Rightarrow> budget_db \<Rightarrow> bool" where
  "charged c cost consumed alerts db db' \<longleftrightarrow> budget_db_ok db' \<and> others_keep c db db' \<and>
     (\<exists>r. find_budget (bc_tenant_id c) (bc_agent_id c) db' = Some r \<and> bdg_consumed r = consumed \<and>
        bdg_limit r = bdg_limit (current_budget c db)) \<and>
     (\<exists>e. is_charge (bc_tenant_id c) (bc_agent_id c) e \<and> bev_cost e = cost \<and>
        bdb_events db' = bdb_events db @ e # alerts) \<and>
     (\<forall>e \<in> set alerts. bev_kind e \<noteq> ''CONSUME'')"

lemma charged_amounts:
  assumes "charged c cost consumed alerts db db'"
  shows "consumed_of (bc_tenant_id c) (bc_agent_id c) db' = consumed"
    and "charged_to (bc_tenant_id c) (bc_agent_id c) db' = charged_to (bc_tenant_id c) (bc_agent_id c) db + cost"
proof -
  from assms show "consumed_of (bc_tenant_id c) (bc_agent_id c) db' = consumed"
    by (auto simp: charged_def consumed_of_def)
  from assms obtain e where e: "is_charge (bc_tenant_id c) (bc_agent_id c) e" "bev_cost e = cost"
    "bdb_events db' = bdb_events db @ e # alerts" and no: "\<forall>e \<in> set alerts. bev_kind e \<noteq> ''CONSUME''"
    by (auto simp: charged_def)
  from no have "filter (is_charge (bc_tenant_id c) (bc_agent_id c)) alerts = []"
    by (auto simp: filter_empty_conv is_charge_def)
  with e show "charged_to (bc_tenant_id c) (bc_agent_id c) db' = charged_to (bc_tenant_id c) (bc_agent_id c) db + cost"
    by (simp add: charged_to_append[OF e(3)])
qed

lemma alert_after_charge_Inr:
  assumes run: "alert_after_charge c consumed r db = (Inr u, db')" and ok: "budget_db_ok db"
    and r: "find_budget (bc_tenant_id c) (bc_agent_id c) db = Some r"
  shows "\<exists>alerts r'. budget_db_ok db' \<and> others_keep c db db' \<and> find_budget (bc_tenant_id c) (bc_agent_id c) db' = Some r' \<and>
    bdg_consumed r' = bdg_consumed r \<and> bdg_limit r' = bdg_limit r \<and> bdb_events db' = bdb_events db @ alerts \<and>
    (\<forall>e \<in> set alerts. bev_kind e \<noteq> ''CONSUME'') \<and>
    (bdg_alert_level r = Some ''WARN_80'' \<longrightarrow> alerts = [] \<and> r' = r)"
proof (cases "4 / 5 \<le> usage_ratio consumed (bdg_limit r) \<and> bdg_alert_level r \<noteq> Some ''WARN_80''")
  case True
  define e where "e level message = budget_event_of c (bc_alert_id c) level 0 ''LIVE''
    (usage_metadata consumed (bdg_limit r) @ [(''message'', JStr message)])" for level message
  from run True obtain db1 level message where step: "update_budget c (bdg_id r) (\<lambda>x. x\<lparr>bdg_alert_level := Some level\<rparr>) db = (Inr (), db1)"
    and add: "add_event (e level message) db1 = (Inr u, db')" and level: "level = ''BLOCK_100'' \<or> level = ''WARN_80''"
    unfolding alert_after_charge_def e_def Let_def by (cases "1 \<le> usage_ratio consumed (bdg_limit r)") auto
  from update_budget_Inr[OF step ok _ r] have 1: "budget_db_ok db1" "others_keep c db db1" "bdb_events db1 = bdb_events db"
    "find_budget (bc_tenant_id c) (bc_agent_id c) db1 = Some (r\<lparr>bdg_alert_level := Some level, bdg_updated_at := bc_now c\<rparr>)" by simp_all
  from add_event_effect[OF add 1(1), of c] have 2: "budget_db_ok db'" "others_keep c db1 db'"
    "find_budget (bc_tenant_id c) (bc_agent_id c) db' = find_budget (bc_tenant_id c) (bc_agent_id c) db1"
    "bdb_events db' = bdb_events db1 @ [e level message]" by (simp_all add: e_def)
  from others_keep_trans[OF 1(2) 2(2)] 1 2 True level show ?thesis
    by (intro exI[of _ "[e level message]"] exI[of _ "r\<lparr>bdg_alert_level := Some level, bdg_updated_at := bc_now c\<rparr>"])
      (auto simp: e_def)
next
  case False
  with run have "db' = db" by (auto simp: alert_after_charge_def Let_def)
  with ok r show ?thesis by (intro exI[of _ "[]"] exI[of _ r]) auto
qed

lemma consume_budget_Inr:
  assumes run: "consume_budget c False cost db = (Inr v, db')" and ok: "budget_db_ok db"
  defines "b \<equiv> current_budget c db"
  shows "to_fixed 4 (bdg_consumed b + cost) \<le> bdg_limit b"
    and "\<exists>alerts. charged c cost (to_fixed 4 (bdg_consumed b + cost)) alerts db db' \<and>
      (bdg_alert_level b = Some ''WARN_80'' \<longrightarrow> alerts = [] \<and>
        map_option bdg_alert_level (find_budget (bc_tenant_id c) (bc_agent_id c) db') = Some (Some ''WARN_80''))"
proof -
  let ?consumed = "to_fixed 4 (bdg_consumed b + cost)"
  from run obtain r db1 where up: "upsert_budget c default_budget_limit (\<lambda>r. r) db = (Inr r, db1)"
    and rest: "(let consumed = to_fixed 4 (bdg_consumed r + cost)
      in if bdg_limit r < consumed then block_consumption c cost consumed r
         else charge_budget c cost consumed r) db1 = (Inr v, db')"
    by (auto simp: consume_budget_def)
  note up' = upsert_current[OF up ok]
  have r: "r = b" by (simp add: up'(5) b_def)
  have "block_consumption c cost x r db1 \<noteq> (Inr v, db')" for x by (simp add: block_consumption_def)
  with rest show below: "?consumed \<le> bdg_limit b" by (auto simp: r Let_def split: if_splits)
  define charged_row where "charged_row = b\<lparr>bdg_consumed := ?consumed, bdg_updated_at := bc_now c\<rparr>"
  from rest below obtain db2 db3 where
    1: "update_budget c (bdg_id b) (\<lambda>x. x\<lparr>bdg_consumed := ?consumed\<rparr>) db1 = (Inr (), db2)" and
    2: "add_event (budget_event_of c (bc_event_id c) ''CONSUME'' cost ''LIVE'' (usage_metadata ?consumed (bdg_limit b))) db2 = (Inr (), db3)" and
    3: "alert_after_charge c ?consumed charged_row db3 = (Inr (), db')"
    by (auto simp: r charge_budget_def charged_row_def Let_def)
  from update_budget_Inr[OF 1 up'(1) _ up'(2)[unfolded r]] have u: "budget_db_ok db2" "others_keep c db1 db2"
    "find_budget (bc_tenant_id c) (bc_agent_id c) db2 = Some charged_row" "bdb_events db2 = bdb_events db1"
    by (simp_all add: charged_row_def)
  from add_event_effect[OF 2 u(1), of c] have a: "budget_db_ok db3" "others_keep c db2 db3"
    "find_budget (bc_tenant_id c) (bc_agent_id c) db3 = Some charged_row"
    "bdb_events db3 = bdb_events db2 @ [budget_event_of c (bc_event_id c) ''CONSUME'' cost ''LIVE'' (usage_metadata ?consumed (bdg_limit b))]"
    using u by simp_all
  from alert_after_charge_Inr[OF 3 a(1,3)] obtain alerts r' where l: "budget_db_ok db'" "others_keep c db3 db'"
    "find_budget (bc_tenant_id c) (bc_agent_id c) db' = Some r'" "bdg_consumed r' = bdg_consumed charged_row"
    "bdg_limit r' = bdg_limit charged_row" "bdb_events db' = bdb_events db3 @ alerts" "\<forall>e \<in> set alerts. bev_kind e \<noteq> ''CONSUME''"
    "bdg_alert_level charged_row = Some ''WARN_80'' \<longrightarrow> alerts = [] \<and> r' = charged_row" by blast
  have keep: "others_keep c db db'"
    using others_keep_trans[OF up'(3) others_keep_trans[OF u(2) others_keep_trans[OF a(2) l(2)]]] .
  have "charged c cost ?consumed alerts db db'"
    using l keep up'(4) u(4) a(4) unfolding charged_def
    by (auto simp: charged_row_def b_def is_charge_def intro!: exI[of _ "budget_event_of c (bc_event_id c) ''CONSUME'' cost ''LIVE'' (usage_metadata ?consumed (bdg_limit b))"])
  then show "\<exists>alerts. charged c cost ?consumed alerts db db' \<and>
      (bdg_alert_level b = Some ''WARN_80'' \<longrightarrow> alerts = [] \<and>
        map_option bdg_alert_level (find_budget (bc_tenant_id c) (bc_agent_id c) db') = Some (Some ''WARN_80''))"
    using l(3,8) by (intro exI[of _ alerts]) (auto simp: charged_row_def)
qed

lemma worker_consume_Inr:
  assumes run: "worker_consume_budget c execution cost db = (Inr v, db')" and ok: "budget_db_ok db"
  shows "\<exists>alerts. charged c cost (round_cents (bdg_consumed (current_budget c db) + cost)) alerts db db'"
proof -
  define b where "b = current_budget c db"
  let ?consumed = "round_cents (bdg_consumed b + cost)"
  let ?level = "worker_alert_level ?consumed b"
  let ?c = "c\<lparr>bc_request_id := Some execution\<rparr>"
  define e where "e = budget_event_of ?c (bc_event_id c) ''CONSUME'' cost ''LIVE'' [(''consumedBrl'', JNum (Fin ?consumed)),
    (''executionId'', JStr execution), (''limitBrl'', JNum (Fin (bdg_limit b)))]"
  from run obtain r db1 db2 db3 where up: "upsert_budget c default_budget_limit (\<lambda>r. r) db = (Inr r, db1)"
    and rb: "r = b \<Longrightarrow> update_budget c (bdg_id b) (\<lambda>x. x\<lparr>bdg_consumed := ?consumed, bdg_alert_level := ?level\<rparr>) db1 = (Inr (), db2) \<and>
      add_event e db2 = (Inr (), db3) \<and>
      (if ?level = Some ''WARN_80'' \<or> ?level = Some ''BLOCK_100'' then
         add_event (budget_event_of ?c (bc_alert_id c) (the ?level) 0 ''LIVE''
           [(''consumedBrl'', JNum (Fin ?consumed)), (''executionId'', JStr execution), (''limitBrl'', JNum (Fin (bdg_limit b))),
            (''message'', JStr (if ?level = Some ''WARN_80'' then ''Agent '' @ bc_agent_id c @ '' crossed the 80% budget threshold.''
               else ''Agent '' @ bc_agent_id c @ '' reached the configured budget cap.''))])
       else give ()) db3 = (Inr (), db')"
    unfolding worker_consume_budget_def Let_def in_transaction_Inr then_do_Inr e_def by auto
  note up' = upsert_current[OF up ok]
  have "r = b" by (simp add: up'(5) b_def)
  note rb = rb[OF this]
  define charged_row where "charged_row = b\<lparr>bdg_consumed := ?consumed, bdg_alert_level := ?level, bdg_updated_at := bc_now c\<rparr>"
  from rb have 1: "update_budget c (bdg_id b) (\<lambda>x. x\<lparr>bdg_consumed := ?consumed, bdg_alert_level := ?level\<rparr>) db1 = (Inr (), db2)"
    and 2: "add_event e db2 = (Inr (), db3)" by simp_all
  from update_budget_Inr[OF 1 up'(1) _ up'(2)[unfolded \<open>r = b\<close>]] have u: "budget_db_ok db2" "others_keep c db1 db2"
    "find_budget (bc_tenant_id c) (bc_agent_id c) db2 = Some charged_row" "bdb_events db2 = bdb_events db1"
    by (simp_all add: charged_row_def)
  from add_event_effect[OF 2 u(1), of c] have a: "budget_db_ok db3" "others_keep c db2 db3"
    "find_budget (bc_tenant_id c) (bc_agent_id c) db3 = Some charged_row" "bdb_events db3 = bdb_events db2 @ [e]"
    using u by (simp_all add: e_def budget_event_of_def)
  have "\<exists>alerts. budget_db_ok db' \<and> others_keep c db3 db' \<and> find_budget (bc_tenant_id c) (bc_agent_id c) db' = Some charged_row \<and>
      bdb_events db' = bdb_events db3 @ alerts \<and> (\<forall>e \<in> set alerts. bev_kind e \<noteq> ''CONSUME'')"
  proof (cases "?level = Some ''WARN_80'' \<or> ?level = Some ''BLOCK_100''")
    case True
    with rb obtain m where add: "add_event (budget_event_of ?c (bc_alert_id c) (the ?level) 0 ''LIVE'' m) db3 = (Inr (), db')" by auto
    from add_event_effect[OF this a(1), of c] a(3) True show ?thesis
      by (intro exI[of _ "[budget_event_of ?c (bc_alert_id c) (the ?level) 0 ''LIVE'' m]"]) (auto simp: budget_event_of_def)
  next
    case False
    with rb have "db' = db3" by auto
    with a show ?thesis by (intro exI[of _ "[]"]) auto
  qed
  then obtain alerts where l: "budget_db_ok db'" "others_keep c db3 db'" "find_budget (bc_tenant_id c) (bc_agent_id c) db' = Some charged_row"
      "bdb_events db' = bdb_events db3 @ alerts" "\<forall>e \<in> set alerts. bev_kind e \<noteq> ''CONSUME''" by blast
  have keep: "others_keep c db db'"
    using others_keep_trans[OF up'(3) others_keep_trans[OF u(2) others_keep_trans[OF a(2) l(2)]]] .
  have "is_charge (bc_tenant_id c) (bc_agent_id c) e" "bev_cost e = cost"
    by (simp_all add: e_def is_charge_def budget_event_of_def)
  with l keep up'(4) u(4) a(4) show ?thesis
    unfolding charged_def b_def[symmetric]
    by (intro exI[of _ alerts] conjI exI[of _ charged_row] exI[of _ e]) (auto simp: charged_row_def)
qed

subsection \<open>The ledger\<close>

definition balanced :: "budget_db \<Rightarrow> bool" where
  "balanced db \<longleftrightarrow> budget_db_ok db \<and>
     (\<forall>t a. consumed_of t a db = charged_to t a db \<and> whole_cents (consumed_of t a db))"

lemma balancedD:
  assumes "balanced db"
  shows "budget_db_ok db" "consumed_of t a db = charged_to t a db" "whole_cents (consumed_of t a db)"
  using assms unfolding balanced_def by blast+

text \<open>What a way of charging promises: a charge that succeeds adds its cost, rounded, and records
  it; one that fails changes nothing.\<close>

locale budget_charge =
  fixes charge :: "budget_call \<Rightarrow> rat \<Rightarrow> (budget_db, 'r) operation"
    and rounded :: "rat \<Rightarrow> rat"
  assumes charges: "charge c cost db = (Inr v, db') \<Longrightarrow> budget_db_ok db \<Longrightarrow>
      \<exists>alerts. charged c cost (rounded (bdg_consumed (current_budget c db) + cost)) alerts db db'"
    and refuses: "charge c cost db = (Inl e, db') \<Longrightarrow> db' = db"
    and rounded_cents: "whole_cents q \<Longrightarrow> rounded q = q"
begin

lemma charge_amounts:
  assumes "charge c cost db = (Inr v, db')" and "balanced db" and "whole_cents cost"
  shows "budget_db_ok db'" and "others_keep c db db'"
    and "consumed_of (bc_tenant_id c) (bc_agent_id c) db' = consumed_of (bc_tenant_id c) (bc_agent_id c) db + cost"
    and "charged_to (bc_tenant_id c) (bc_agent_id c) db' = charged_to (bc_tenant_id c) (bc_agent_id c) db + cost"
proof -
  note ok = balancedD(1)[OF assms(2)]
  from whole_cents_add[OF balancedD(3)[OF assms(2)] assms(3), of "bc_tenant_id c" "bc_agent_id c"] have "whole_cents (bdg_consumed (current_budget c db) + cost)"
    by (simp only: consumed_of_current)
  with charges[OF assms(1) ok] rounded_cents obtain alerts where
    ch: "charged c cost (bdg_consumed (current_budget c db) + cost) alerts db db'" by auto
  then show "budget_db_ok db'" and "others_keep c db db'" by (auto simp: charged_def)
  from charged_amounts[OF ch]
  show "consumed_of (bc_tenant_id c) (bc_agent_id c) db' = consumed_of (bc_tenant_id c) (bc_agent_id c) db + cost"
    and "charged_to (bc_tenant_id c) (bc_agent_id c) db' = charged_to (bc_tenant_id c) (bc_agent_id c) db + cost"
    by (simp_all add: consumed_of_current)
qed

lemma charge_balanced:
  assumes "whole_cents cost"
  shows "keeps balanced (charge c cost)"
  unfolding keeps_def
proof (intro allI impI)
  fix db assume b: "balanced db"
  show "balanced (snd (charge c cost db))"
  proof (cases "charge c cost db")
    case (Pair r db')
    show ?thesis
    proof (cases r)
      case (Inl e)
      with Pair have "db' = db" by (auto dest: refuses)
      with Pair b show ?thesis by simp
    next
      case (Inr v)
      note amounts = charge_amounts[OF Pair[unfolded Inr] b assms]
      have "consumed_of t a db' = charged_to t a db' \<and> whole_cents (consumed_of t a db')" for t a
      proof (cases "(t, a) = (bc_tenant_id c, bc_agent_id c)")
        case True
        with amounts(3,4) balancedD(2)[OF b, of t a] whole_cents_add[OF balancedD(3)[OF b] assms, of t a] show ?thesis
          by simp
      next
        case False
        with amounts(2) have "find_budget t a db' = find_budget t a db" "charged_to t a db' = charged_to t a db"
          by (auto simp: others_keep_def)
        with balancedD(2,3)[OF b, of t a] show ?thesis by (simp add: consumed_of_def)
      qed
      with amounts(1) have "balanced db'" unfolding balanced_def by blast
      with Pair show ?thesis by simp
    qed
  qed
qed

end

interpretation api_charge: budget_charge "\<lambda>c. consume_budget c False" "to_fixed 4"
proof unfold_locales
  fix c cost db v db'
  assume "consume_budget c False cost db = (Inr v, db')" and "budget_db_ok db"
  from consume_budget_Inr(2)[OF this]
  show "\<exists>alerts. charged c cost (to_fixed 4 (bdg_consumed (current_budget c db) + cost)) alerts db db'" by blast
next
  fix c cost db e db'
  assume "consume_budget c False cost db = (Inl e, db')"
  then show "db' = db" by (simp add: consume_budget_def)
qed (rule to_fixed_4_whole)

interpretation worker_charge: budget_charge "\<lambda>c. worker_consume_budget c execution" round_cents for execution
proof unfold_locales
  fix c cost db v db'
  assume "worker_consume_budget c execution cost db = (Inr v, db')" and "budget_db_ok db"
  then show "\<exists>alerts. charged c cost (round_cents (bdg_consumed (current_budget c db) + cost)) alerts db db'"
    by (rule worker_consume_Inr)
next
  fix c cost db e db'
  assume "worker_consume_budget c execution cost db = (Inl e, db')"
  then show "db' = db" by (simp add: worker_consume_budget_def)
qed (rule round_cents_whole)

subsection \<open>Every operation keeps the balance\<close>

lemma update_where_same [simp]: "update_where P (\<lambda>r. r) rows = rows"
  by (induction rows) auto

text \<open>An update by id of what the ledger does not read, on any row.\<close>

lemma update_keeps_balance:
  assumes "keeps_key f" and "\<And>r. bdg_consumed (f r) = bdg_consumed r"
  shows "keeps balanced (on_budgets (update_unique n budget_indexes (\<lambda>x. bdg_id x = i) f))"
  unfolding on_budgets_def
proof (rule keeps_on_table)
  fix db rows
  assume b: "balanced db" and "update_unique n budget_indexes (\<lambda>x. bdg_id x = i) f (bdb_budgets db) = Inr rows"
  then have rows: "rows = update_where (\<lambda>x. bdg_id x = i) f (bdb_budgets db)" and ok: "indexes_ok budget_indexes rows"
    by (simp_all add: table_simps)
  have "find_budget t a (db\<lparr>bdb_budgets := rows\<rparr>) = map_option (\<lambda>x. if bdg_id x = i then f x else x) (find_budget t a db)" for t a
    unfolding find_budget_def rows using assms(1) by (simp add: find_update_where keeps_key_def)
  then have "consumed_of t a (db\<lparr>bdb_budgets := rows\<rparr>) = consumed_of t a db" for t a
    using assms(2) by (simp add: consumed_of_def split: option.split)
  moreover have "charged_to t a (db\<lparr>bdb_budgets := rows\<rparr>) = charged_to t a db" for t a
    by (simp add: charged_to_def)
  ultimately show "balanced (db\<lparr>bdb_budgets := rows\<rparr>)"
    using ok balancedD[OF b] by (simp add: balanced_def budget_db_ok_def)
qed

lemma create_keeps_balance: "keeps balanced (on_budgets (create_row budget_indexes (new_budget c limit)))"
  unfolding on_budgets_def
proof (rule keeps_on_table)
  fix db rows
  assume b: "balanced db" and "create_row budget_indexes (new_budget c limit) (bdb_budgets db) = Inr rows"
  then have rows: "rows = bdb_budgets db @ [new_budget c limit]" and ok: "indexes_ok budget_indexes rows"
    by (simp_all add: table_simps)
  have "consumed_of t a (db\<lparr>bdb_budgets := rows\<rparr>) = consumed_of t a db" for t a
    unfolding consumed_of_def find_budget_def rows
    by (auto simp: find_append or_opt_def new_budget_def split: option.split)
  moreover have "charged_to t a (db\<lparr>bdb_budgets := rows\<rparr>) = charged_to t a db" for t a
    by (simp add: charged_to_def)
  ultimately show "balanced (db\<lparr>bdb_budgets := rows\<rparr>)"
    using ok balancedD[OF b] by (simp add: balanced_def budget_db_ok_def)
qed

lemma add_event_keeps_balance:
  assumes "bev_kind e \<noteq> ''CONSUME''"
  shows "keeps balanced (add_event e)"
  unfolding add_event_def
proof (rule keeps_on_table)
  fix db rows
  assume b: "balanced db" and "create_row event_indexes e (bdb_events db) = Inr rows"
  then have rows: "rows = bdb_events db @ [e]" by (simp add: table_simps)
  have "consumed_of t a (db\<lparr>bdb_events := rows\<rparr>) = consumed_of t a db" for t a
    by (simp add: consumed_of_def find_budget_def)
  moreover have "charged_to t a (db\<lparr>bdb_events := rows\<rparr>) = charged_to t a db" for t a
    using assms by (simp add: charged_to_def rows is_charge_def)
  ultimately show "balanced (db\<lparr>bdb_events := rows\<rparr>)"
    using balancedD[OF b] by (simp add: balanced_def budget_db_ok_def)
qed

lemma upsert_keeps_balance:
  "keeps_key f \<Longrightarrow> (\<And>r. bdg_consumed (f r) = bdg_consumed r) \<Longrightarrow> keeps balanced (upsert_budget c limit f)"
  unfolding upsert_budget_def Let_def
  by (intro keeps_cases update_keeps_balance create_keeps_balance) simp_all

lemma update_budget_keeps_balance:
  "keeps_key f \<Longrightarrow> (\<And>r. bdg_consumed (f r) = bdg_consumed r) \<Longrightarrow> keeps balanced (update_budget c i f)"
  unfolding update_budget_def by (rule update_keeps_balance) (simp_all add: keeps_key_def)

lemmas balance_kept = upsert_keeps_balance update_budget_keeps_balance add_event_keeps_balance

datatype budget_op =
    SetLimit budget_call rat
  | ReadRecord budget_call
  | Consume budget_call bool rat
  | Preflight budget_call string rat
  | WorkerCharge budget_call string rat

fun run_budget_op :: "budget_op \<Rightarrow> budget_db \<Rightarrow> budget_db" where
  "run_budget_op (SetLimit c limit) db = snd (set_limit c limit db)"
| "run_budget_op (ReadRecord c) db = snd (get_record c db)"
| "run_budget_op (Consume c dry_run cost) db = snd (consume_budget c dry_run cost db)"
| "run_budget_op (Preflight c execution cost) db = snd (ensure_budget_headroom c execution cost db)"
| "run_budget_op (WorkerCharge c execution cost) db = snd (worker_consume_budget c execution cost db)"

fun charges_cents :: "budget_op \<Rightarrow> bool" where
  "charges_cents (Consume c dry_run cost) \<longleftrightarrow> whole_cents cost"
| "charges_cents (WorkerCharge c execution cost) \<longleftrightarrow> whole_cents cost"
| "charges_cents _ \<longleftrightarrow> True"

lemma run_budget_op_balanced: "charges_cents op \<Longrightarrow> balanced db \<Longrightarrow> balanced (run_budget_op op db)"
proof (induction op)
  case (SetLimit c limit)
  have "keeps balanced (set_limit c limit)"
    unfolding set_limit_def by (intro keeps_cases balance_kept) simp_all
  with SetLimit show ?case by (simp add: keeps_def)
next
  case (ReadRecord c)
  have "keeps balanced (get_record c)"
    unfolding get_record_def by (intro keeps_cases balance_kept) simp_all
  with ReadRecord show ?case by (simp add: keeps_def)
next
  case (Consume c dry_run cost)
  have "keeps balanced (consume_budget c True cost)"
    unfolding consume_budget_def if_True by (intro keeps_cases balance_kept) (simp_all add: dry_run_event_def)
  with Consume api_charge.charge_balanced show ?case by (cases dry_run) (auto simp: keeps_def)
next
  case (Preflight c execution cost)
  have "keeps balanced (ensure_budget_headroom c execution cost)"
    unfolding ensure_budget_headroom_def by (intro keeps_cases balance_kept) simp_all
  with Preflight show ?case by (simp add: keeps_def)
next
  case (WorkerCharge c execution cost)
  with worker_charge.charge_balanced show ?case by (auto simp: keeps_def)
qed

definition no_budgets :: budget_db where
  "no_budgets = \<lparr>bdb_budgets = [], bdb_events = []\<rparr>"

lemma no_budgets_balanced: "balanced no_budgets"
  by (simp add: balanced_def budget_db_ok_def no_budgets_def indexes_ok_def index_ok_def list_all_iff
      map_filter_simps consumed_of_def find_budget_def charged_to_def)

text \<open>
  Property C22. Whatever calls are made of the service and of the worker, in any order, succeeding or
  failing, the consumed amount of every budget is the sum of the charges recorded for it, when no
  charge has fractions of a cent.
\<close>

theorem budgets_balance:
  assumes "list_all charges_cents ops"
  shows "consumed_of t a (fold run_budget_op ops no_budgets) = charged_to t a (fold run_budget_op ops no_budgets)"
proof -
  have "balanced (fold run_budget_op ops db)" if "balanced db" "list_all charges_cents ops" for db
    using that by (induction ops arbitrary: db) (simp_all add: run_budget_op_balanced)
  from balancedD(2)[OF this[OF no_budgets_balanced assms]] show ?thesis .
qed

definition sample_call :: "string \<Rightarrow> budget_call" where
  "sample_call i = \<lparr>bc_tenant_id = ''t'', bc_organization_id = ''o'', bc_agent_id = ''a'', bc_actor_id = ''u'',
     bc_request_id = None, bc_now = 0, bc_budget_id = ''b'', bc_event_id = i, bc_alert_id = i @ ''!''\<rparr>"

lemma budgets_balance_witness:
  "consumed_of ''t'' ''a'' (fold run_budget_op [Consume (sample_call ''1'') False 60, WorkerCharge (sample_call ''2'') ''x'' 50] no_budgets) = 110 \<and>
   charged_to ''t'' ''a'' (fold run_budget_op [Consume (sample_call ''1'') False 60, WorkerCharge (sample_call ''2'') ''x'' 50] no_budgets) = 110"
proof -
  let ?ops = "[Consume (sample_call ''1'') False 60, WorkerCharge (sample_call ''2'') ''x'' 50]"
  have "list_all charges_cents ?ops" by (simp add: whole_cents_def)
  note budgets_balance[OF this, of "''t''" "''a''"]
  moreover have "consumed_of ''t'' ''a'' (fold run_budget_op ?ops no_budgets) = 110" by code_simp
  ultimately show ?thesis by simp
qed

subsection \<open>Limits\<close>

text \<open>
  A live consumption through the service either stays within the limit, and then adds
  its cost to the budget and records it, or it fails and leaves nothing behind. A consumption above
  the limit always fails, so that neither the alert level nor the entry it writes before it throws
  is ever stored.
\<close>

theorem consumption_within_limit:
  assumes "consume_budget c False cost db = (r, db')" and "budget_db_ok db"
  shows "(case r of
      Inr _ \<Rightarrow> to_fixed 4 (bdg_consumed (current_budget c db) + cost) \<le> bdg_limit (current_budget c db) \<and>
        consumed_of (bc_tenant_id c) (bc_agent_id c) db' = to_fixed 4 (bdg_consumed (current_budget c db) + cost) \<and>
        charged_to (bc_tenant_id c) (bc_agent_id c) db' = charged_to (bc_tenant_id c) (bc_agent_id c) db + cost \<and>
        others_keep c db db'
    | Inl _ \<Rightarrow> db' = db) \<and>
    (bdg_limit (current_budget c db) < to_fixed 4 (bdg_consumed (current_budget c db) + cost) \<longrightarrow> db' = db)"
proof (cases r)
  case (Inl e)
  with assms(1) have "db' = db" by (simp add: api_charge.refuses)
  with Inl show ?thesis by simp
next
  case (Inr v)
  note run = assms(1)[unfolded Inr]
  from consume_budget_Inr(2)[OF run assms(2)] obtain alerts where
    ch: "charged c cost (to_fixed 4 (bdg_consumed (current_budget c db) + cost)) alerts db db'" by blast
  then have "others_keep c db db'" by (simp add: charged_def)
  with charged_amounts[OF ch] consume_budget_Inr(1)[OF run assms(2)] Inr show ?thesis by simp
qed

definition sample_budgets :: budget_db where
  "sample_budgets = snd (consume_budget (sample_call ''1'') False 85 no_budgets)"

lemma sample_budgets_ok: "budget_db_ok sample_budgets"
  unfolding budget_db_ok_def by code_simp

lemma consumption_within_limit_witness:
  "snd (consume_budget (sample_call ''2'') False 16 sample_budgets) = sample_budgets \<and>
   consumed_of ''t'' ''a'' (snd (consume_budget (sample_call ''2'') False 15 sample_budgets)) = 100"
proof -
  have over: "bdg_limit (current_budget (sample_call ''2'') sample_budgets) <
      to_fixed 4 (bdg_consumed (current_budget (sample_call ''2'') sample_budgets) + 16)" by code_simp
  have sum: "to_fixed 4 (bdg_consumed (current_budget (sample_call ''2'') sample_budgets) + 15) = 100" by code_simp
  have paid: "case_sum (\<lambda>_. False) (\<lambda>_. True) (fst (consume_budget (sample_call ''2'') False 15 sample_budgets))" by code_simp
  have call: "bc_tenant_id (sample_call ''2'') = ''t''" "bc_agent_id (sample_call ''2'') = ''a''" by (simp_all add: sample_call_def)
  from consumption_within_limit[OF prod.collapse[symmetric] sample_budgets_ok, of "sample_call ''2''" 16] over
    consumption_within_limit[OF prod.collapse[symmetric] sample_budgets_ok, of "sample_call ''2''" 15] sum paid
  show ?thesis by (auto simp: call split: sum.splits)
qed

text \<open>
  A budget that has warned at 80% never alerts again through the service: every later
  charge records itself and nothing else, even the one that uses the budget up.
\<close>

theorem warned_budget_stays_silent:
  assumes "consume_budget c False cost db = (Inr v, db')" and "budget_db_ok db"
    and "find_budget (bc_tenant_id c) (bc_agent_id c) db = Some r" and "bdg_alert_level r = Some ''WARN_80''"
  shows "(\<exists>e. bev_kind e = ''CONSUME'' \<and> bdb_events db' = bdb_events db @ [e]) \<and>
    map_option bdg_alert_level (find_budget (bc_tenant_id c) (bc_agent_id c) db') = Some (Some ''WARN_80'')"
proof -
  have "current_budget c db = r" by (simp add: current_budget_def assms(3))
  with consume_budget_Inr(2)[OF assms(1,2)] assms(4) show ?thesis
    by (auto simp: charged_def is_charge_def)
qed

lemma warned_budget_stays_silent_witness:
  "map bev_kind (bdb_events (snd (consume_budget (sample_call ''2'') False 15 sample_budgets))) =
     map bev_kind (bdb_events sample_budgets) @ [''CONSUME''] \<and>
   consumed_of ''t'' ''a'' (snd (consume_budget (sample_call ''2'') False 15 sample_budgets)) = 100"
proof -
  have "case_sum (\<lambda>_. False) (\<lambda>_. True) (fst (consume_budget (sample_call ''2'') False 15 sample_budgets))" by code_simp
  then obtain v db' where run: "consume_budget (sample_call ''2'') False 15 sample_budgets = (Inr v, db')"
    by (cases "consume_budget (sample_call ''2'') False 15 sample_budgets") (auto split: sum.splits)
  have "map_option bdg_alert_level (find_budget (bc_tenant_id (sample_call ''2'')) (bc_agent_id (sample_call ''2'')) sample_budgets) =
      Some (Some ''WARN_80'')" by code_simp
  then obtain r where "find_budget (bc_tenant_id (sample_call ''2'')) (bc_agent_id (sample_call ''2'')) sample_budgets = Some r"
    "bdg_alert_level r = Some ''WARN_80''" by auto
  from warned_budget_stays_silent[OF run sample_budgets_ok this] have "\<exists>e. bev_kind e = ''CONSUME'' \<and>
    bdb_events (snd (consume_budget (sample_call ''2'') False 15 sample_budgets)) = bdb_events sample_budgets @ [e]"
    by (auto simp: run)
  moreover have "consumed_of ''t'' ''a'' (snd (consume_budget (sample_call ''2'') False 15 sample_budgets)) = 100" by code_simp
  ultimately show ?thesis by auto
qed

subsection \<open>The check before an execution\<close>

lemma upsert_existing:
  assumes "budget_db_ok db" and "find_budget (bc_tenant_id c) (bc_agent_id c) db = Some r"
  shows "upsert_budget c limit (\<lambda>r. r) db = (Inr r, db)"
  using assms find_budget_row[OF assms(2)]
  by (auto simp: upsert_budget_def then_do_def ask_def on_budgets_def on_table_def update_unique_def update_many_def
      commit_rows_def budget_db_ok_def indexes_ok_def list_all_iff find_None_iff give_def split: option.split sum.split)
    (auto simp: find_Some_iff)

lemma headroom_existing:
  assumes "budget_db_ok db" and "find_budget (bc_tenant_id c) (bc_agent_id c) db = Some r"
    and "round_cents (bdg_consumed r + cost) \<le> bdg_limit r"
  shows "ensure_budget_headroom c execution cost db = (Inr (bdg_consumed r, bdg_limit r), db)"
  unfolding ensure_budget_headroom_def then_do_def upsert_existing[OF assms(1,2)]
  using assms(3) by (simp add: Let_def give_def)

fun worker_charges :: "(budget_call \<times> string \<times> rat) list \<Rightarrow> budget_db \<Rightarrow> budget_db option" where
  "worker_charges [] db = Some db"
| "worker_charges ((c, execution, cost) # xs) db =
     (case worker_consume_budget c execution cost db of
        (Inr _, db') \<Rightarrow> worker_charges xs db' | (Inl _, _) \<Rightarrow> None)"

lemma worker_charges_add_up:
  assumes "worker_charges xs db = Some db'" and "balanced db"
    and "\<forall>(c, execution, cost) \<in> set xs. bc_tenant_id c = t \<and> bc_agent_id c = a \<and> whole_cents cost"
  shows "consumed_of t a db' = consumed_of t a db + (\<Sum>(c, execution, cost) \<leftarrow> xs. cost)"
  using assms
proof (induction xs arbitrary: db)
  case (Cons x xs)
  obtain c execution cost where x: "x = (c, execution, cost)" by (cases x)
  from Cons.prems(1) obtain v db1 where run: "worker_consume_budget c execution cost db = (Inr v, db1)"
    and rest: "worker_charges xs db1 = Some db'" by (auto simp: x split: prod.splits sum.splits)
  from Cons.prems(3) have c: "bc_tenant_id c = t" "bc_agent_id c = a" "whole_cents cost" by (auto simp: x)
  have "balanced db1"
    using worker_charge.charge_balanced[OF c(3)] Cons.prems(2) run by (auto dest: keepsD)
  from Cons.IH[OF rest this] Cons.prems(3) worker_charge.charge_amounts(3)[OF run Cons.prems(2) c(3)] show ?case
    by (simp add: x c(1,2))
qed simp

text \<open>
  The check before an execution reserves nothing: executions whose checks all come
  before their charges all pass when each one alone fits, and are all charged in full, whatever
  their sum does to the limit.
\<close>

theorem preflight_reserves_nothing:
  assumes "balanced db" and "find_budget t a db = Some r"
    and "\<forall>(c, execution, cost) \<in> set xs. bc_tenant_id c = t \<and> bc_agent_id c = a \<and> whole_cents cost \<and>
      bdg_consumed r + cost \<le> bdg_limit r"
    and "worker_charges xs db = Some db'"
  shows "(\<forall>(c, execution, cost) \<in> set xs.
      ensure_budget_headroom c execution cost db = (Inr (bdg_consumed r, bdg_limit r), db)) \<and>
    consumed_of t a db' = bdg_consumed r + (\<Sum>(c, execution, cost) \<leftarrow> xs. cost)"
proof
  have r: "consumed_of t a db = bdg_consumed r" by (simp add: consumed_of_def assms(2))
  show "consumed_of t a db' = bdg_consumed r + (\<Sum>(c, execution, cost) \<leftarrow> xs. cost)"
    unfolding r[symmetric] by (rule worker_charges_add_up[OF assms(4,1)]) (use assms(3) in auto)
  show "\<forall>(c, execution, cost) \<in> set xs.
      ensure_budget_headroom c execution cost db = (Inr (bdg_consumed r, bdg_limit r), db)"
  proof safe
    fix c execution cost
    assume "(c, execution, cost) \<in> set xs"
    with assms(3) have c: "bc_tenant_id c = t" "bc_agent_id c = a" "whole_cents cost" "bdg_consumed r + cost \<le> bdg_limit r" by auto
    have "whole_cents (bdg_consumed r + cost)"
      using whole_cents_add[OF balancedD(3)[OF assms(1), of t a] c(3)] by (simp add: r)
    then show "ensure_budget_headroom c execution cost db = (Inr (bdg_consumed r, bdg_limit r), db)"
      using assms(2) c by (intro headroom_existing balancedD(1)[OF assms(1)]) (simp_all add: round_cents_whole)
  qed
qed

definition rival_executions :: "(budget_call \<times> string \<times> rat) list" where
  "rival_executions = [(sample_call ''2'', ''x'', 10), (sample_call ''3'', ''y'', 15), (sample_call ''4'', ''z'', 12)]"

lemma preflight_reserves_nothing_witness:
  "\<exists>db'. worker_charges rival_executions sample_budgets = Some db' \<and> consumed_of ''t'' ''a'' db' = 122"
proof -
  have "balanced sample_budgets"
    unfolding sample_budgets_def
    using api_charge.charge_balanced[of 85 "sample_call ''1''"] no_budgets_balanced by (simp add: keeps_def whole_cents_def)
  moreover have "map_option (\<lambda>r. (bdg_consumed r, bdg_limit r)) (find_budget ''t'' ''a'' sample_budgets) = Some (85, 100)" by code_simp
  then obtain r where r: "find_budget ''t'' ''a'' sample_budgets = Some r" "bdg_consumed r = 85" "bdg_limit r = 100" by auto
  moreover have "\<forall>(c, execution, cost) \<in> set rival_executions. bc_tenant_id c = ''t'' \<and> bc_agent_id c = ''a'' \<and>
      whole_cents cost \<and> bdg_consumed r + cost \<le> bdg_limit r"
    by (simp add: rival_executions_def sample_call_def whole_cents_def r)
  moreover have "worker_charges rival_executions sample_budgets \<noteq> None" by code_simp
  ultimately show ?thesis using preflight_reserves_nothing[of sample_budgets "''t''" "''a''" r rival_executions]
    by (force simp: rival_executions_def)
qed

text \<open>
  An execution whose charge follows its check with nothing in between stays within the
  limit.
\<close>

theorem checked_charge_within_limit:
  assumes "ensure_budget_headroom c execution cost db = (Inr x, db1)"
    and "worker_consume_budget c' execution cost db1 = (Inr y, db2)" and "budget_db_ok db"
    and "bc_tenant_id c' = bc_tenant_id c" and "bc_agent_id c' = bc_agent_id c"
  shows "\<exists>r. find_budget (bc_tenant_id c) (bc_agent_id c) db2 = Some r \<and> bdg_consumed r \<le> bdg_limit r \<and>
    bdg_consumed r = round_cents (bdg_consumed (current_budget c db) + cost)"
proof -
  from assms(1) obtain r where up: "upsert_budget c default_budget_limit (\<lambda>r. r) db = (Inr r, db1)"
    and fits: "round_cents (bdg_consumed r + cost) \<le> bdg_limit r"
    by (auto simp: ensure_budget_headroom_def Let_def split: if_splits)
  note up' = upsert_current[OF up assms(3)]
  have cur: "current_budget c' db1 = r" using up'(2) by (simp add: current_budget_def assms(4,5))
  from worker_consume_Inr[OF assms(2) up'(1)] cur show ?thesis
    using fits up'(5) by (auto simp: charged_def assms(4,5))
qed

lemma checked_charge_within_limit_witness:
  "\<exists>r. find_budget ''t'' ''a'' (snd (worker_consume_budget (sample_call ''2'') ''x'' 15 sample_budgets)) = Some r \<and>
     bdg_consumed r \<le> bdg_limit r"
proof -
  have "case_sum (\<lambda>_. False) (\<lambda>x. True) (fst (ensure_budget_headroom (sample_call ''2'') ''x'' 15 sample_budgets))"
    "snd (ensure_budget_headroom (sample_call ''2'') ''x'' 15 sample_budgets) = sample_budgets" by code_simp+
  then obtain x where x: "ensure_budget_headroom (sample_call ''2'') ''x'' 15 sample_budgets = (Inr x, sample_budgets)"
    by (cases "ensure_budget_headroom (sample_call ''2'') ''x'' 15 sample_budgets") (auto split: sum.splits)
  have "case_sum (\<lambda>_. False) (\<lambda>x. True) (fst (worker_consume_budget (sample_call ''2'') ''x'' 15 sample_budgets))" by code_simp
  then obtain y db2 where y: "worker_consume_budget (sample_call ''2'') ''x'' 15 sample_budgets = (Inr y, db2)"
    by (cases "worker_consume_budget (sample_call ''2'') ''x'' 15 sample_budgets") (auto split: sum.splits)
  have call: "bc_tenant_id (sample_call ''2'') = ''t''" "bc_agent_id (sample_call ''2'') = ''a''" by (simp_all add: sample_call_def)
  from checked_charge_within_limit[OF x y sample_budgets_ok refl refl] show ?thesis
    unfolding y snd_conv call by blast
qed

subsection \<open>The export\<close>

text \<open>
  The exported file splits back into the header and the fields of every charge and dry
  run of the organization, oldest first, when no field holds a comma or a line break: the export
  quotes nothing.
\<close>

theorem usage_csv_roundtrip:
  assumes "\<forall>e \<in> set (exported_events organization tenant db). \<forall>f \<in> set (csv_fields e).
    CHR '','' \<notin> set f \<and> CHR 0x0A \<notin> set f"
  shows "map (split_on CHR '','') (split_on CHR 0x0A (export_usage_csv organization tenant db)) =
    split_on CHR '','' csv_header # map csv_fields (exported_events organization tenant db)"
proof -
  have joined: "set (join_with [d] ws) \<subseteq> insert d (\<Union>w \<in> set ws. set w)" for d and ws :: "string list"
    by (induction "[d]" ws rule: join_with.induct) auto
  have header: "CHR 0x0A \<notin> set csv_header" by code_simp
  have "split_on CHR 0x0A (export_usage_csv organization tenant db) =
      csv_header # map (\<lambda>e. join_with '','' (csv_fields e)) (exported_events organization tenant db)"
    unfolding export_usage_csv_def
    by (rule split_join) (use assms joined[of "CHR '',''"] header in fastforce)+
  moreover have "split_on CHR '','' (join_with '','' (csv_fields e)) = csv_fields e"
    if "e \<in> set (exported_events organization tenant db)" for e
    by (rule split_join) (use assms that in \<open>auto simp: csv_fields_def\<close>)
  ultimately show ?thesis by simp
qed

lemma usage_csv_roundtrip_witness:
  "map (split_on CHR '','') (split_on CHR 0x0A (export_usage_csv ''o'' ''t'' sample_budgets)) =
     [split_on CHR '','' csv_header, [''1'', ''t'', ''a'', ''LIVE'', ''85'', ''1970-01-01T00:00:00.000Z'', ''u'', []]]"
proof -
  have "list_all (\<lambda>e. list_all (\<lambda>f. \<not> List.member f CHR '','' \<and> \<not> List.member f CHR 0x0A) (csv_fields e))
      (exported_events ''o'' ''t'' sample_budgets)" by code_simp
  then have free: "\<forall>e \<in> set (exported_events ''o'' ''t'' sample_budgets). \<forall>f \<in> set (csv_fields e).
      CHR '','' \<notin> set f \<and> CHR 0x0A \<notin> set f" by (simp add: list_all_iff)
  have "map csv_fields (exported_events ''o'' ''t'' sample_budgets) =
      [[''1'', ''t'', ''a'', ''LIVE'', ''85'', ''1970-01-01T00:00:00.000Z'', ''u'', []]]" by code_simp
  with usage_csv_roundtrip[OF free] show ?thesis by simp
qed

end
