(* ===== verification/RuntimeCorrect.thy ===== *)
theory RuntimeCorrect
  imports AgentRuntime PlanCorrect BudgetCorrect
begin

text \<open>
  What an execution of an agent leaves behind: one charge of the cost the preflight has checked,
  one artifact, one learning record; a denied tool leaves nothing, and an execution that is asked
  for again runs no tool and is charged again.
\<close>

subsection \<open>What each stage touches\<close>

text \<open>The parts of the state that only the charge, the artifact and the executor change.\<close>

definition at_rest :: "artifact_row list \<Rightarrow> budget_db \<Rightarrow> executor_state \<Rightarrow> 'x agent_db_scheme \<Rightarrow> bool" where
  "at_rest A B R s \<longleftrightarrow> gdb_artifacts s = A \<and> gdb_budget s = B \<and> gdb_redis s = R"

lemma at_rest_self [simp, intro]: "at_rest (gdb_artifacts s) (gdb_budget s) (gdb_redis s) s"
  by (simp add: at_rest_def)

lemma keeps_on_audit [intro]: "keeps (at_rest A B R) (on_audit m)"
  by (auto simp: keeps_def on_audit_def on_part_def at_rest_def split: prod.split)

lemma keeps_on_conversations [intro]: "keeps (at_rest A B R) (on_conversations m)"
  by (auto simp: keeps_def on_conversations_def on_part_def at_rest_def split: prod.split)

lemma keeps_on_executions [intro]: "keeps (at_rest A B R) (on_executions stmt)"
  unfolding on_executions_def by (rule keeps_on_table) (simp add: at_rest_def)

lemma keeps_swallow [intro]: "keeps I m \<Longrightarrow> keeps I (swallow m)"
  by (simp add: keeps_def swallow_def)

lemma keeps_message [intro]: "keeps (at_rest A B R) (append_runtime_message E side agent content corr org role session tenant)"
  unfolding append_runtime_message_def by (intro keeps_case_option keeps_then_do) auto

lemma keeps_persist [intro]: "keeps (at_rest A B R) (persist_logs i logs)"
  unfolding persist_logs_def by auto

lemma keeps_add_entry [intro]: "keeps (at_rest A B R) (add_entry r)"
  unfolding add_entry_def by auto

lemma keeps_resolve_agent [intro]: "keeps (at_rest A B R) (resolve_runtime_agent E agent catalog_agent tenant)"
  unfolding resolve_runtime_agent_def Let_def by (intro keeps_case_option keeps_then_do) auto

lemma keeps_prepare [intro]: "keeps (at_rest A B R) (prepare_runtime E q)"
  unfolding prepare_runtime_def by (intro keeps_case_option keeps_then_do) auto

lemma on_budget_eq: "on_budget m s = (r, s') \<longleftrightarrow> (\<exists>b. m (gdb_budget s) = (r, b) \<and> s' = s\<lparr>gdb_budget := b\<rparr>)"
  by (auto simp: on_budget_def on_part_def split: prod.splits)

lemma swallow_eq [simp]: "swallow m s = (r, s') \<longleftrightarrow> r = Inr () \<and> s' = snd (m s)"
  by (auto simp: swallow_def)

lemma restD:
  assumes "keeps (at_rest (gdb_artifacts s) (gdb_budget s) (gdb_redis s)) m" and "m s = (r, s')"
  shows "gdb_artifacts s' = gdb_artifacts s" "gdb_budget s' = gdb_budget s" "gdb_redis s' = gdb_redis s"
  using keepsD[OF assms(1) at_rest_self assms(2)] by (simp_all add: at_rest_def)

lemma prepared:
  assumes "prepare_runtime E q s = (Inr st, s')"
  shows "gdb_artifacts s' = gdb_artifacts s" "gdb_budget s' = gdb_budget s" "gdb_redis s' = gdb_redis s"
    and "rst_plan st = build_agent_runtime_plan (setup_manifest st) (rr_tenant_id q) (rr_input q) (rr_context_summary q) (rst_shared st)"
proof -
  show "gdb_artifacts s' = gdb_artifacts s" "gdb_budget s' = gdb_budget s" "gdb_redis s' = gdb_redis s"
    using restD[OF keeps_prepare assms] by simp_all
  show "rst_plan st = build_agent_runtime_plan (setup_manifest st) (rr_tenant_id q) (rr_input q) (rr_context_summary q) (rst_shared st)"
    using assms by (auto simp: prepare_runtime_def setup_manifest_def split: option.splits)
qed

definition setup_cost :: "runtime_env \<Rightarrow> runtime_setup \<Rightarrow> rat" where
  "setup_cost E st = planned_cost (rc_default_tool_cost (rn_config E)) (setup_manifest st) (rp_tool_calls (rst_plan st))"

definition setup_call :: "runtime_env \<Rightarrow> runtime_request \<Rightarrow> runtime_setup \<Rightarrow> string \<Rightarrow> ms \<Rightarrow> budget_call" where
  "setup_call E q st step now = runtime_budget_call E step (rr_tenant_id q) (rst_organization st)
     (ag_runtime_id (rst_resolved st)) (or_else (rr_user_id q) ''system'') now"

lemma setup_call_simps [simp]: "bc_tenant_id (setup_call E q st step now) = rr_tenant_id q"
    "bc_agent_id (setup_call E q st step now) = ag_runtime_id (rst_resolved st)"
  by (simp_all add: setup_call_def runtime_budget_call_def)

text \<open>The preflight: whatever happens, only the budget has been looked at.\<close>

lemma preflight_run:
  assumes run: "preflight E q st s = (r, s')"
  shows "gdb_artifacts s' = gdb_artifacts s" "gdb_redis s' = gdb_redis s"
    and "gdb_budget s' = gdb_budget s \<and> (\<exists>e. r = Inl e) \<or>
      (\<exists>v. ensure_budget_headroom (setup_call E q st ''check'' (db_now s)) (rr_execution_id q) (setup_cost E st)
             (gdb_budget s) = (v, gdb_budget s') \<and> (\<forall>e. v = Inl e \<longrightarrow> (\<exists>e. r = Inl e)))"
proof -
  define msg :: "('a agent_db_scheme, unit) operation" where "msg = append_runtime_message E ''user'' (ag_runtime_id (rst_resolved st)) (or_else (stringify (JObj (rr_input q))) [])
    (Some (rr_execution_id q)) (Some (rst_organization st)) RoleUser (read_session_id (rr_input q)) (rr_tenant_id q)"
  define s1 where "s1 = snd (msg s)"
  have keep: "keeps (at_rest A B R) msg" for A B R unfolding msg_def by auto
  have s1: "gdb_artifacts s1 = gdb_artifacts s" "gdb_budget s1 = gdb_budget s" "gdb_redis s1 = gdb_redis s"
    using restD[OF keep, of s] by (simp_all add: s1_def prod_eq_iff)
  obtain a s2 where p: "persist_logs (rr_execution_id q) (rp_logs (rst_plan st)) s1 = (a, s2)" by fastforce
  note s2 = restD[OF keeps_persist p]
  obtain v b where h: "ensure_budget_headroom (setup_call E q st ''check'' (db_now s2)) (rr_execution_id q) (setup_cost E st)
      (gdb_budget s2) = (v, b)" by fastforce
  define s3 where "s3 = s2\<lparr>gdb_budget := b\<rparr>"
  define logs where "logs = rp_logs (rst_plan st) @ [preflight_line (setup_cost E st)]"
  obtain c s4 where p2: "persist_logs (rr_execution_id q) logs s3 = (c, s4)" by fastforce
  note s4 = restD[OF keeps_persist p2]
  have r: "(r, s') = (case a of Inl e \<Rightarrow> (Inl e, s2) | Inr _ \<Rightarrow> (case v of Inl e \<Rightarrow> (Inl e, s3) | Inr _ \<Rightarrow>
      (case c of Inl e \<Rightarrow> (Inl e, s4) | Inr _ \<Rightarrow> (Inr logs, s4))))"
    using p h p2 unfolding run[symmetric] preflight_def Let_def msg_def[symmetric] setup_call_def[symmetric] setup_cost_def[symmetric]
      logs_def[symmetric]
    by (simp add: then_do_def swallow_def s1_def[symmetric] ask_def on_budget_def on_part_def s3_def[symmetric] give_def split: sum.split)
  show "gdb_artifacts s' = gdb_artifacts s" "gdb_redis s' = gdb_redis s"
    using r s1 s2 s4 by (auto simp: s3_def split: sum.splits)
  have "db_now s2 = db_now s" using s1 s2 by (simp add: db_now_def)
  with r s1 s2 s4 h show "gdb_budget s' = gdb_budget s \<and> (\<exists>e. r = Inl e) \<or>
      (\<exists>v. ensure_budget_headroom (setup_call E q st ''check'' (db_now s)) (rr_execution_id q) (setup_cost E st)
             (gdb_budget s) = (v, gdb_budget s') \<and> (\<forall>e. v = Inl e \<longrightarrow> (\<exists>e. r = Inl e)))"
    by (auto simp: s3_def split: sum.splits)
qed

text \<open>The executor.\<close>

lemma run_setup_run:
  assumes run: "run_setup E q st logs s = (r, s')"
  shows "gdb_artifacts s' = gdb_artifacts s" "gdb_budget s' = gdb_budget s"
    and "\<exists>x. execute_plan (setup_env E q st) (executor_options_of (rn_config E) (setup_manifest st)) (setup_request q st)
        ((gdb_redis s)\<lparr>xs_breakers := [], xs_reported := []\<rparr>) = (x, gdb_redis s') \<and>
        (\<forall>p logs'. r = Inr (p, logs') \<longrightarrow> x = Inr p)"
proof -
  obtain x R where x: "execute_plan (setup_env E q st) (executor_options_of (rn_config E) (setup_manifest st)) (setup_request q st)
        ((gdb_redis s)\<lparr>xs_breakers := [], xs_reported := []\<rparr>) = (x, R)" by fastforce
  define s1 where "s1 = s\<lparr>gdb_redis := R\<rparr>"
  define hooks where "hooks = logs @ List.map_filter (log_of_hook (length (rp_tool_calls (rst_plan st)))) (xs_reported R)"
  obtain a s2 where p: "persist_logs (rr_execution_id q) hooks s1 = (a, s2)" by fastforce
  note s2 = restD[OF keeps_persist p]
  have r: "(r, s') = (case a of Inl e \<Rightarrow> (Inl e, s2) | Inr _ \<Rightarrow>
      ((case x of Inl e \<Rightarrow> Inl (Failure (exec_message e)) | Inr p \<Rightarrow> Inr (p, hooks)), s2))"
    using x p unfolding run[symmetric] run_setup_def with_hook_logs_def run_executor_def hooks_def s1_def
    by (auto split: sum.splits prod.splits)
  show "gdb_artifacts s' = gdb_artifacts s" "gdb_budget s' = gdb_budget s"
    using r s2 by (auto simp: s1_def split: sum.splits)
  show "\<exists>x. execute_plan (setup_env E q st) (executor_options_of (rn_config E) (setup_manifest st)) (setup_request q st)
        ((gdb_redis s)\<lparr>xs_breakers := [], xs_reported := []\<rparr>) = (x, gdb_redis s') \<and>
        (\<forall>p logs'. r = Inr (p, logs') \<longrightarrow> x = Inr p)"
    using r s2 x by (auto simp: s1_def split: sum.splits)
qed

text \<open>The end of an execution.\<close>

lemmas rest_after = restD[OF keeps_add_entry] restD[OF keeps_on_audit] restD[OF keeps_message] restD[OF keeps_persist]

lemma created_artifact:
  assumes "create_output_artifact E content i m org approval tenant type user s = (Inr v, s')"
  shows "gdb_budget s' = gdb_budget s \<and> gdb_redis s' = gdb_redis s \<and>
    (\<exists>a. gdb_artifacts s' = gdb_artifacts s @ [a] \<and> art_id a = v \<and> art_tenant_id a = tenant \<and>
      art_status a = (if approval then ''WAITING_APPROVAL'' else ''COMPLETED''))"
proof -
  from assms obtain s1 a e where "on_artifacts (create_row artifact_indexes a) s = (Inr (), s1)" "add_entry e s1 = (Inr (), s')"
    and a: "art_id a = v" "art_tenant_id a = tenant" "art_status a = (if approval then ''WAITING_APPROVAL'' else ''COMPLETED'')"
    unfolding create_output_artifact_def Let_def then_do_Inr by auto
  with rest_after(1-3)[of e s1] show ?thesis by (auto simp: on_artifacts_def table_simps)
qed

lemma published:
  assumes "publish_outcome E q st p logs now budget s = (Inr r, s')"
  shows "gdb_budget s' = gdb_budget s \<and> gdb_redis s' = gdb_redis s \<and> rres_tool_cost r = pr_cost_total p \<and>
    (\<exists>a. gdb_artifacts s' = gdb_artifacts s @ [a] \<and> art_id a = rres_artifact_id r \<and> art_tenant_id a = rr_tenant_id q \<and>
      art_status a = (if rres_waiting r then ''WAITING_APPROVAL'' else ''COMPLETED''))"
proof -
  from assms obtain c t approval artifact s1 e s2 m and k :: string and s3 msg s4 ls u u' where
    1: "create_output_artifact E c (rr_execution_id q) (setup_manifest st) (rst_organization st) approval
      (rr_tenant_id q) t (rr_user_id q) s = (Inr artifact, s1)"
    and 2: "add_entry e s1 = (Inr u, s2)" and 3: "on_audit m s2 = (Inr k, s3)"
    and s4: "s4 = snd (append_runtime_message E ''assistant'' (ag_runtime_id (rst_resolved st)) msg
      (Some (rr_execution_id q)) (Some (rst_organization st)) RoleAssistant (read_session_id (rr_input q)) (rr_tenant_id q) s3)"
    and 5: "persist_logs (rr_execution_id q) ls s4 = (Inr u', s')"
    and r: "rres_artifact_id r = artifact \<and> rres_tool_cost r = pr_cost_total p \<and> rres_waiting r = approval"
    unfolding publish_outcome_def Let_def then_do_Inr swallow_eq give_eq sum.inject
    by (elim exE conjE) (rule that, (assumption+)[4], simp_all)
  obtain v4 where 4: "append_runtime_message E ''assistant'' (ag_runtime_id (rst_resolved st)) msg
      (Some (rr_execution_id q)) (Some (rst_organization st)) RoleAssistant (read_session_id (rr_input q)) (rr_tenant_id q) s3 = (v4, s4)"
    unfolding s4 by (metis prod.collapse)
  from created_artifact[OF 1] rest_after(1-3)[OF 2] rest_after(4-6)[OF 3] rest_after(7-9)[OF 4] rest_after(10-12)[OF 5] r
  show ?thesis by auto
qed

lemma settled:
  assumes run: "settle E q st p logs s = (Inr r, s')"
  shows "\<exists>v. worker_consume_budget (setup_call E q st ''charge'' (db_now s)) (rr_execution_id q) (pr_cost_total p)
      (gdb_budget s) = (Inr v, gdb_budget s')"
    and "gdb_redis s' = gdb_redis s"
    and "\<exists>a. gdb_artifacts s' = gdb_artifacts s @ [a] \<and> art_id a = rres_artifact_id r \<and> art_tenant_id a = rr_tenant_id q \<and>
      art_status a = (if rres_waiting r then ''WAITING_APPROVAL'' else ''COMPLETED'')"
    and "rres_tool_cost r = pr_cost_total p"
proof -
  from run obtain v b where charge: "worker_consume_budget (setup_call E q st ''charge'' (db_now s)) (rr_execution_id q)
      (pr_cost_total p) (gdb_budget s) = (Inr v, b)"
    and rest: "publish_outcome E q st p logs (db_now s) v (s\<lparr>gdb_budget := b\<rparr>) = (Inr r, s')"
    unfolding settle_def setup_call_def[symmetric] then_do_Inr ask_eq on_budget_eq by blast
  obtain x y z where v: "v = (x, y, z)" by (cases v)
  from published[OF rest] charge[unfolded v]
  show "\<exists>v. worker_consume_budget (setup_call E q st ''charge'' (db_now s)) (rr_execution_id q) (pr_cost_total p)
      (gdb_budget s) = (Inr v, gdb_budget s')" "gdb_redis s' = gdb_redis s" "rres_tool_cost r = pr_cost_total p"
    "\<exists>a. gdb_artifacts s' = gdb_artifacts s @ [a] \<and> art_id a = rres_artifact_id r \<and> art_tenant_id a = rr_tenant_id q \<and>
      art_status a = (if rres_waiting r then ''WAITING_APPROVAL'' else ''COMPLETED'')"
    by auto
qed

subsection \<open>The calls that were made\<close>

lemma retry_loop_ran:
  "retry_loop E opts tool call started attempt left s = (Inr out, s') \<Longrightarrow>
     \<exists>n timeout el. ee_run E n (pc_tool call) (pc_input call) timeout = (Inr out, el)"
proof (induction left arbitrary: attempt s)
  case (Suc left)
  from Suc.prems show ?case
  proof (cases rule: retry_loop_Suc)
    case (finished s1 o2 s2)
    then show ?thesis by (auto simp: run_tool_def split: sum.splits prod.splits)
  next
    case (again s1 e s2)
    from Suc.IH[OF again(3)] show ?thesis .
  qed auto
qed simp

definition step_made :: "executor_env \<Rightarrow> executor_options \<Rightarrow> plan_step \<Rightarrow> bool" where
  "step_made E opts st \<longleftrightarrow> (\<exists>tool. eo_tools opts (pc_tool (ps_call st)) = Some tool \<and>
     ps_estimated_cost st = estimate_tool_cost tool) \<and>
     (\<exists>n timeout el. ee_run E n (pc_tool (ps_call st)) (pc_input (ps_call st)) timeout = (Inr (ps_output st), el))"

lemma calls_made:
  "run_calls_from E opts req started index cs p s = (Inr p', s') \<Longrightarrow> list_all (step_made E opts) (pp_steps p) \<Longrightarrow>
     list_all (step_made E opts) (pp_steps p')"
proof (induction cs arbitrary: index p s)
  case (Cons c cs)
  from Cons.prems(1) obtain p1 s1 where one: "run_call E opts req started index c p s = (Inr p1, s1)"
    and rest: "run_calls_from E opts req started (index + 1) cs p1 s1 = (Inr p', s')"
    by (auto simp: x_then_Inr)
  from one have "list_all (step_made E opts) (pp_steps p1)"
  proof (cases rule: run_call_cases)
    case (finished tool out st s2 l)
    have "step_made E opts st"
      using retry_loop_ran[OF finished(3)[unfolded execute_with_retry_def]] finished by (auto simp: step_made_def)
    with finished Cons.prems(2) show ?thesis by simp
  qed auto
  from Cons.IH[OF rest this] show ?case .
qed simp

lemma plan_made:
  assumes "execute_plan E opts req s = (Inr r, s')" and "cached_result (er_execution_id req) s = None"
  shows "list_all (step_made E opts) (pr_steps r)" and "map ps_call (pr_steps r) = plan_of req"
    and "pr_cost_total r = sum_list (map ps_estimated_cost (pr_steps r))"
proof -
  from assms obtain s1 s2 where "run_plan E opts req s1 = (Inr r, s2)"
    by (cases rule: execute_plan_cases) auto
  then obtain p l s3 where calls: "run_calls_from E opts req (xs_now s1) 0 (plan_of req) \<lparr>pp_steps = [], pp_context = er_input req,
      pp_total = 0, pp_nodes = [\<lparr>tn_id = ''trace_'' @ er_execution_id req, tn_type = TracePlan,
        tn_label = ''agent:'' @ er_agent_id req, tn_parent = None\<rparr>]\<rparr> (s1\<lparr>xs_reported := l\<rparr>) = (Inr p, s3)"
    and r: "pr_steps r = pp_steps p" "pr_cost_total r = pp_total p"
    by (rule run_plan_Inr)
  from calls_made[OF calls] run_calls_progress[OF calls]
  show "list_all (step_made E opts) (pr_steps r)" "map ps_call (pr_steps r) = plan_of req"
    "pr_cost_total r = sum_list (map ps_estimated_cost (pr_steps r))" by (auto simp: r)
qed

subsection \<open>The check of the budget\<close>

definition ledger_kept :: "(string \<Rightarrow> string \<Rightarrow> rat) \<Rightarrow> budget_db \<Rightarrow> bool" where
  "ledger_kept C db \<longleftrightarrow> budget_db_ok db \<and> (\<forall>t a. charged_to t a db = C t a)"

lemma keeps_ledger_budgets:
  assumes "\<And>rows rows'. stmt rows = Inr rows' \<Longrightarrow> indexes_ok budget_indexes rows'"
  shows "keeps (ledger_kept C) (on_budgets stmt)"
  unfolding on_budgets_def
  by (rule keeps_on_table) (auto simp: ledger_kept_def budget_db_ok_def charged_to_def dest: assms)

lemma keeps_ledger_event:
  assumes "bev_kind e \<noteq> ''CONSUME''"
  shows "keeps (ledger_kept C) (add_event e)"
  unfolding add_event_def
  by (rule keeps_on_table) (use assms in \<open>auto simp: ledger_kept_def budget_db_ok_def charged_to_def table_simps is_charge_def\<close>)

lemma keeps_ledger_upsert: "keeps (ledger_kept C) (upsert_budget c limit f)"
  unfolding upsert_budget_def Let_def
  by (intro keeps_then_do keeps_ask keeps_case_option keeps_ledger_budgets keeps_give) (auto simp: table_simps)

lemma keeps_ledger_update: "keeps (ledger_kept C) (update_budget c i f)"
  unfolding update_budget_def by (rule keeps_ledger_budgets) (auto simp: table_simps)

lemma keeps_ledger_headroom: "keeps (ledger_kept C) (ensure_budget_headroom c i cost)"
proof -
  have "keeps (ledger_kept C) (if b then give v else then_do (update_budget c j f) (\<lambda>_. then_do (add_event
      (budget_event_of c' k ''BLOCK_100'' cost mode md)) (\<lambda>_. throw e)))" for b v j f c' k mode md e
    by (simp add: keeps_then_do keeps_ledger_update keeps_ledger_event)
  then show ?thesis
    unfolding ensure_budget_headroom_def Let_def by (intro keeps_then_do keeps_ledger_upsert)
qed

lemma headroom_Inr:
  assumes run: "ensure_budget_headroom c i cost db = (Inr v, db')" and ok: "budget_db_ok db"
    and that: "bc_tenant_id c' = bc_tenant_id c" "bc_agent_id c' = bc_agent_id c"
  shows "budget_db_ok db' \<and> current_budget c' db' = current_budget c db \<and>
    round_cents (bdg_consumed (current_budget c db) + cost) \<le> bdg_limit (current_budget c db)"
proof -
  from run obtain r where up: "upsert_budget c default_budget_limit (\<lambda>r. r) db = (Inr r, db')"
    and le: "round_cents (bdg_consumed r + cost) \<le> bdg_limit r"
    unfolding ensure_budget_headroom_def Let_def by (auto split: if_splits)
  from upsert_current[OF up ok] le that show ?thesis by (simp add: current_budget_def or_else_def)
qed

lemma headroom_ledger:
  assumes "ensure_budget_headroom c i cost db = (v, db')" and "budget_db_ok db"
  shows "budget_db_ok db' \<and> (\<forall>t a. charged_to t a db' = charged_to t a db)"
proof -
  have "ledger_kept (\<lambda>t a. charged_to t a db) db" using assms(2) by (simp add: ledger_kept_def)
  from keepsD[OF keeps_ledger_headroom this assms(1)] show ?thesis unfolding ledger_kept_def .
qed

subsection \<open>The whole execution\<close>

lemma runtime_id:
  assumes "prepare_runtime E q s = (Inr st, s')"
  shows "ag_runtime_id (rst_resolved st) = rr_agent_id q"
  using assms
  by (auto simp: prepare_runtime_def resolve_runtime_agent_def find_agent_def Let_def or_else_def
      split: option.splits dest!: find_Some_iff_mem)

text \<open>A run that is stopped before its charge has changed no artifact and no ledger; one that is not
  has gone through all four stages.\<close>

lemma runtime_cases:
  assumes run: "execute_manifest_agent_runtime E q s = (r, s')" and ok: "budget_db_ok (gdb_budget s)"
  obtains (stopped) e where "r = Inl e" "gdb_artifacts s' = gdb_artifacts s"
      "\<And>t a. charged_to t a (gdb_budget s') = charged_to t a (gdb_budget s)"
  | (reached) st p b0 b1 R v s3 logs where
      "rst_plan st = build_agent_runtime_plan (setup_manifest st) (rr_tenant_id q) (rr_input q) (rr_context_summary q) (rst_shared st)"
      "ag_runtime_id (rst_resolved st) = rr_agent_id q"
      "\<exists>w s2. prepare_runtime E q s = (Inr st, w) \<and> preflight E q st w = (Inr v, s2)"
      "ensure_budget_headroom (setup_call E q st ''check'' (db_now s)) (rr_execution_id q) (setup_cost E st) (gdb_budget s) = (Inr b0, b1)"
      "execute_plan (setup_env E q st) (executor_options_of (rn_config E) (setup_manifest st)) (setup_request q st)
        ((gdb_redis s)\<lparr>xs_breakers := [], xs_reported := []\<rparr>) = (Inr p, R)"
      "gdb_artifacts s3 = gdb_artifacts s" "gdb_budget s3 = b1" "gdb_redis s3 = R"
      "settle E q st p logs s3 = (r, s')"
proof -
  obtain x s1 where 1: "prepare_runtime E q s = (x, s1)" by fastforce
  note s1 = restD[OF keeps_prepare 1]
  have now: "db_now s1 = db_now s" using s1 by (simp add: db_now_def)
  show thesis
  proof (cases x)
    case (Inl e)
    with run 1 s1 show thesis by (intro stopped[of e]) (auto simp: execute_manifest_agent_runtime_def then_do_def)
  next
    case x: (Inr st)
    obtain y s2 where 2: "preflight E q st s1 = (y, s2)" by fastforce
    note s2 = preflight_run(1,2)[OF 2]
    from preflight_run(3)[OF 2] consider (none) e where "gdb_budget s2 = gdb_budget s1" "y = Inl e"
      | (checked) w where "ensure_budget_headroom (setup_call E q st ''check'' (db_now s)) (rr_execution_id q) (setup_cost E st)
          (gdb_budget s) = (w, gdb_budget s2)" "\<forall>e. w = Inl e \<longrightarrow> (\<exists>e. y = Inl e)"
      using s1 now by auto
    then have ledger: "charged_to t a (gdb_budget s2) = charged_to t a (gdb_budget s)" for t a
    proof cases
      case none
      with s1 show ?thesis by simp
    next
      case (checked w)
      from headroom_ledger[OF checked(1) ok] show ?thesis by blast
    qed
    show thesis
    proof (cases y)
      case (Inl e)
      with run 1 x 2 s1 s2 ledger show thesis
        by (intro stopped[of e]) (auto simp: execute_manifest_agent_runtime_def then_do_def)
    next
      case y: (Inr logs)
      with preflight_run(3)[OF 2] obtain b0 where check: "ensure_budget_headroom (setup_call E q st ''check'' (db_now s))
          (rr_execution_id q) (setup_cost E st) (gdb_budget s) = (Inr b0, gdb_budget s2)"
        using s1 now by (metis Inl_Inr_False old.sum.exhaust)
      obtain z s3 where 3: "run_setup E q st logs s2 = (z, s3)" by fastforce
      note s3 = run_setup_run(1,2)[OF 3]
      from run_setup_run(3)[OF 3] s1 s2 obtain u where exec: "execute_plan (setup_env E q st)
          (executor_options_of (rn_config E) (setup_manifest st)) (setup_request q st)
          ((gdb_redis s)\<lparr>xs_breakers := [], xs_reported := []\<rparr>) = (u, gdb_redis s3)"
        "\<And>p logs'. z = Inr (p, logs') \<Longrightarrow> u = Inr p" by auto
      show thesis
      proof (cases z)
        case (Inl e)
        with run 1 x 2 y 3 s1 s2 s3 ledger show thesis
          by (intro stopped[of e]) (auto simp: execute_manifest_agent_runtime_def then_do_def)
      next
        case (Inr pl)
        then obtain p logs' where z: "z = Inr (p, logs')" by (cases pl) auto
        from run 1 x 2 y 3 z have "settle E q st p logs' s3 = (r, s')"
          by (simp add: execute_manifest_agent_runtime_def then_do_def)
        then show thesis
          using prepared(4)[OF 1[unfolded x]] runtime_id[OF 1[unfolded x]] 1 x 2 y check exec z s1 s2 s3
          by (intro reached[of st logs b0 "gdb_budget s2" p "gdb_redis s3" s3 logs']) auto
      qed
    qed
  qed
qed

subsection \<open>Planned and executed cost\<close>

lemma planned_tools:
  "map pc_tool (rp_tool_calls (build_agent_runtime_plan m tenant input context shared)) = map cm_id (am_tools m)"
  by (simp add: build_agent_runtime_plan_def plan_call_def Let_def comp_def case_prod_beta
      flip: map_map[of cm_id fst, unfolded comp_def])

lemma setup_calls: "map pc_tool (plan_of (setup_request q st)) = map pc_tool (rp_tool_calls (rst_plan st))"
  by (simp add: plan_of_def setup_request_def or_else_def comp_def)

lemma sum_whole: "(\<And>q. q \<in> set qs \<Longrightarrow> whole_cents q) \<Longrightarrow> whole_cents (sum_list qs)"
  by (induction qs) (simp_all add: whole_cents_add)

text \<open>What the schema of the manifest and of the configuration promise.\<close>

definition costs_sane :: "runtime_env \<Rightarrow> agent_manifest \<Rightarrow> bool" where
  "costs_sane E m \<longleftrightarrow> 0 \<le> rc_default_tool_cost (rn_config E) \<and> list_all (\<lambda>t. 0 \<le> tm_timeout_ms t) (am_tools m)"

lemma step_cost:
  assumes "step_made X (executor_options_of (rn_config E) m) st" and "costs_sane E m" and "pc_tool (ps_call st) \<in> cm_id ` set (am_tools m)"
  shows "ps_estimated_cost st = cost_of_call (rc_default_tool_cost (rn_config E)) m (pc_tool (ps_call st)) \<and>
    whole_cents (ps_estimated_cost st)"
proof -
  let ?d = "rc_default_tool_cost (rn_config E)"
  from assms(3) obtain t where t: "named_tool m (pc_tool (ps_call st)) = Some t"
    using named_tool_planned by fastforce
  then have "t \<in> set (am_tools m)" unfolding named_tool_def by (auto dest: find_Some_iff_mem)
  with assms(2) have nonneg: "0 \<le> tool_cost ?d t" by (auto simp: costs_sane_def list_all_iff intro: tool_cost_nonneg)
  from assms(1) have "ps_estimated_cost st = estimate_tool_cost \<lparr>te_timeout_ms = runtime_tool_timeout (CapabilityTool t),
      te_cost = Fin (tool_cost ?d t)\<rparr>"
    using named_tool_entry(3)[OF t] by (auto simp: step_made_def executor_options_of_def)
  with nonneg show ?thesis using named_tool_entry(2)[OF t, of ?d] by (auto simp: estimate_tool_cost_def)
qed

lemma executed_cost:
  assumes exec: "execute_plan X (executor_options_of (rn_config E) (setup_manifest st)) (setup_request q st) x = (Inr p, x')"
    and fresh: "cached_result (rr_execution_id q) x = None" and sane: "costs_sane E (setup_manifest st)"
    and plan: "rst_plan st = build_agent_runtime_plan (setup_manifest st) tenant input context shared"
  shows "pr_cost_total p = setup_cost E st"
proof -
  let ?d = "rc_default_tool_cost (rn_config E)" and ?m = "setup_manifest st"
  have "cached_result (er_execution_id (setup_request q st)) x = None" using fresh by (simp add: setup_request_def)
  note made = plan_made[OF exec this]
  have tools: "map (\<lambda>s. pc_tool (ps_call s)) (pr_steps p) = map pc_tool (rp_tool_calls (rst_plan st))"
    using arg_cong[OF made(2), of "map pc_tool"] by (simp add: setup_calls comp_def)
  have names: "map (\<lambda>s. pc_tool (ps_call s)) (pr_steps p) = map cm_id (am_tools ?m)"
    unfolding tools by (simp add: plan planned_tools)
  have each: "ps_estimated_cost s = cost_of_call ?d ?m (pc_tool (ps_call s)) \<and> whole_cents (ps_estimated_cost s)"
    if "s \<in> set (pr_steps p)" for s
  proof (rule step_cost[OF _ sane])
    show "step_made X (executor_options_of (rn_config E) ?m) s" using made(1) that by (simp add: list_all_iff)
    show "pc_tool (ps_call s) \<in> cm_id ` set (am_tools ?m)"
      using arg_cong[OF names, of set] that by auto
  qed
  have "pr_cost_total p = sum_list (map (\<lambda>s. cost_of_call ?d ?m (pc_tool (ps_call s))) (pr_steps p))"
    unfolding made(3) using each by (intro arg_cong[of _ _ sum_list] map_cong) auto
  also have "\<dots> = sum_list (map (cost_of_call ?d ?m) (map (\<lambda>s. pc_tool (ps_call s)) (pr_steps p)))" by (simp add: comp_def)
  also have "\<dots> = sum_list (map (\<lambda>c. cost_of_call ?d ?m (pc_tool c)) (rp_tool_calls (rst_plan st)))"
    unfolding tools by (simp add: comp_def)
  finally have total: "pr_cost_total p = sum_list (map (\<lambda>c. cost_of_call ?d ?m (pc_tool c)) (rp_tool_calls (rst_plan st)))" .
  have "whole_cents (pr_cost_total p)" unfolding made(3) by (rule sum_whole) (use conjunct2[OF each] in \<open>auto simp del: sum_list.Cons\<close>)
  then show ?thesis using total by (simp add: setup_cost_def planned_cost_def round_cents_whole)
qed

subsection \<open>What an execution leaves behind\<close>

lemma settle_ledger:
  assumes "settle E q st p logs s = (Inr r, s')" and ok: "budget_db_ok (gdb_budget s)"
    and agent: "ag_runtime_id (rst_resolved st) = rr_agent_id q"
  shows "charged_to t a (gdb_budget s') = charged_to t a (gdb_budget s) +
      (if t = rr_tenant_id q \<and> a = rr_agent_id q then rres_tool_cost r else 0)"
    and "\<exists>row. find_budget (rr_tenant_id q) (rr_agent_id q) (gdb_budget s') = Some row \<and>
      bdg_consumed row = round_cents (bdg_consumed (current_budget (setup_call E q st ''charge'' (db_now s)) (gdb_budget s)) + rres_tool_cost r) \<and>
      bdg_limit row = bdg_limit (current_budget (setup_call E q st ''charge'' (db_now s)) (gdb_budget s))"
proof -
  let ?c = "setup_call E q st ''charge'' (db_now s)"
  note s = settled[OF assms(1)]
  from s(1) obtain v where "worker_consume_budget ?c (rr_execution_id q) (rres_tool_cost r) (gdb_budget s) = (Inr v, gdb_budget s')"
    unfolding s(4) by blast
  from worker_consume_Inr[OF this ok] obtain alerts where
    ch: "charged ?c (rres_tool_cost r) (round_cents (bdg_consumed (current_budget ?c (gdb_budget s)) + rres_tool_cost r)) alerts
      (gdb_budget s) (gdb_budget s')" by blast
  show "charged_to t a (gdb_budget s') = charged_to t a (gdb_budget s) +
      (if t = rr_tenant_id q \<and> a = rr_agent_id q then rres_tool_cost r else 0)"
  proof (cases "t = rr_tenant_id q \<and> a = rr_agent_id q")
    case True
    with charged_amounts(2)[OF ch] show ?thesis by (simp add: agent)
  next
    case False
    with ch show ?thesis by (auto simp: charged_def others_keep_def agent)
  qed
  from ch show "\<exists>row. find_budget (rr_tenant_id q) (rr_agent_id q) (gdb_budget s') = Some row \<and>
      bdg_consumed row = round_cents (bdg_consumed (current_budget ?c (gdb_budget s)) + rres_tool_cost r) \<and>
      bdg_limit row = bdg_limit (current_budget ?c (gdb_budget s))"
    by (auto simp: charged_def agent)
qed

lemma runtime_effect:
  assumes run: "execute_manifest_agent_runtime E q s = (Inr r, s')" and ok: "budget_db_ok (gdb_budget s)"
  shows "charged_to t a (gdb_budget s') = charged_to t a (gdb_budget s) +
      (if t = rr_tenant_id q \<and> a = rr_agent_id q then rres_tool_cost r else 0)"
    and "\<exists>x. gdb_artifacts s' = gdb_artifacts s @ [x] \<and> art_id x = rres_artifact_id r \<and> art_tenant_id x = rr_tenant_id q \<and>
      art_status x = (if rres_waiting r then ''WAITING_APPROVAL'' else ''COMPLETED'')"
  using run ok
proof (atomize (full), cases rule: runtime_cases)
  case (reached st p b0 b1 R v s3 logs)
  note b1 = headroom_ledger[OF reached(4) ok]
  have "charged_to t a (gdb_budget s') = charged_to t a (gdb_budget s3) +
      (if t = rr_tenant_id q \<and> a = rr_agent_id q then rres_tool_cost r else 0)"
    using settle_ledger(1)[OF reached(9) _ reached(2)] b1 reached(7) by simp
  then show "charged_to t a (gdb_budget s') = charged_to t a (gdb_budget s) +
      (if t = rr_tenant_id q \<and> a = rr_agent_id q then rres_tool_cost r else 0) \<and>
    (\<exists>x. gdb_artifacts s' = gdb_artifacts s @ [x] \<and> art_id x = rres_artifact_id r \<and> art_tenant_id x = rr_tenant_id q \<and>
      art_status x = (if rres_waiting r then ''WAITING_APPROVAL'' else ''COMPLETED''))"
    using settled(3)[OF reached(9)] b1 reached(6,7) by simp
qed simp

lemma cached_new_executor [simp]: "cached_result i (x\<lparr>xs_breakers := b, xs_reported := l\<rparr>) = cached_result i x"
  by (simp add: cached_result_def split: option.split)

text \<open>
  Property C18. An execution that succeeds leaves exactly one new artifact, the one it names, waiting
  for an approval exactly when the result says so, and adds its cost to the ledger of its own agent
  and tenant and to no other.
\<close>

theorem execution_settles_once:
  assumes "execute_manifest_agent_runtime E q s = (Inr r, s')" and "budget_db_ok (gdb_budget s)"
  shows "(\<exists>x. gdb_artifacts s' = gdb_artifacts s @ [x] \<and> art_id x = rres_artifact_id r \<and> art_tenant_id x = rr_tenant_id q \<and>
      art_status x = (if rres_waiting r then ''WAITING_APPROVAL'' else ''COMPLETED'')) \<and>
    (\<forall>t a. charged_to t a (gdb_budget s') = charged_to t a (gdb_budget s) +
      (if t = rr_tenant_id q \<and> a = rr_agent_id q then rres_tool_cost r else 0))"
  using runtime_effect[OF assms] by blast

text \<open>
  Property C15. A successful execution that really runs is charged the very cost its preflight has checked
  against the budget: the cost of the plan is compared with the headroom before anything runs, that much and no more is
  charged to the agent in the end, and the budget is then within its limit.
\<close>

theorem execution_stays_within_budget:
  assumes run: "execute_manifest_agent_runtime E q s = (Inr r, s')" and ok: "budget_db_ok (gdb_budget s)"
    and fresh: "cached_result (rr_execution_id q) (gdb_redis s) = None"
    and sane: "list_all (\<lambda>e. costs_sane E (ce_manifest e)) (rn_catalog E)"
  shows "\<exists>st w b b' row. prepare_runtime E q s = (Inr st, w) \<and>
    ensure_budget_headroom (setup_call E q st ''check'' (db_now s)) (rr_execution_id q) (setup_cost E st) (gdb_budget s) = (Inr b, b') \<and>
    charged_to (rr_tenant_id q) (rr_agent_id q) (gdb_budget s') = charged_to (rr_tenant_id q) (rr_agent_id q) (gdb_budget s) + setup_cost E st \<and>
    find_budget (rr_tenant_id q) (rr_agent_id q) (gdb_budget s') = Some row \<and> bdg_consumed row \<le> bdg_limit row"
  using run ok
proof (cases rule: runtime_cases)
  case (reached st p b0 b1 R v s3 logs)
  from reached(3) obtain w where "prepare_runtime E q s = (Inr st, w)" by blast
  then have "setup_manifest st \<in> ce_manifest ` set (rn_catalog E)"
    by (auto simp: prepare_runtime_def resolve_runtime_agent_def setup_manifest_def find_manifest_catalog_entry_def Let_def
        split: option.splits dest!: find_Some_iff_mem)
  with sane have "costs_sane E (setup_manifest st)" by (auto simp: list_all_iff)
  moreover have "cached_result (rr_execution_id q) ((gdb_redis s)\<lparr>xs_breakers := [], xs_reported := []\<rparr>) = None"
    using fresh by simp
  ultimately have cost: "rres_tool_cost r = setup_cost E st"
    using executed_cost[OF reached(5) _ _ reached(1)] settled(4)[OF reached(9)] by simp
  let ?c = "setup_call E q st ''charge'' (db_now s3)"
  from headroom_Inr[OF reached(4) ok, of ?c] have h: "budget_db_ok (gdb_budget s3)"
    "current_budget ?c (gdb_budget s3) = current_budget (setup_call E q st ''check'' (db_now s)) (gdb_budget s)"
    "round_cents (bdg_consumed (current_budget ?c (gdb_budget s3)) + setup_cost E st) \<le> bdg_limit (current_budget ?c (gdb_budget s3))"
    by (auto simp: reached(7))
  from settle_ledger(2)[OF reached(9) h(1) reached(2)] h(3) obtain row where
    "find_budget (rr_tenant_id q) (rr_agent_id q) (gdb_budget s') = Some row" "bdg_consumed row \<le> bdg_limit row" by (auto simp: cost)
  moreover have "charged_to (rr_tenant_id q) (rr_agent_id q) (gdb_budget s') = charged_to (rr_tenant_id q) (rr_agent_id q) (gdb_budget s) + setup_cost E st"
    using runtime_effect[OF run ok] by (simp add: cost)
  ultimately show ?thesis using \<open>prepare_runtime E q s = (Inr st, w)\<close> reached(4) by blast
qed simp

text \<open>
  Property C17. An execution asked for again while its result is kept runs no tool, but is charged once
  more and leaves one more artifact.
\<close>

theorem replayed_execution_charges_again:
  assumes run: "execute_manifest_agent_runtime E q s = (Inr r, s')" and ok: "budget_db_ok (gdb_budget s)"
    and cached: "cached_result (rr_execution_id q) (gdb_redis s) = Some p"
  shows "xs_runs (gdb_redis s') = xs_runs (gdb_redis s) \<and>
    charged_to (rr_tenant_id q) (rr_agent_id q) (gdb_budget s') =
      charged_to (rr_tenant_id q) (rr_agent_id q) (gdb_budget s) + pr_cost_total p \<and>
    length (gdb_artifacts s') = length (gdb_artifacts s) + 1"
  using run ok
proof (cases rule: runtime_cases)
  case (reached st p' b0 b1 R v s3 logs)
  have "cached_result (er_execution_id (setup_request q st)) ((gdb_redis s)\<lparr>xs_breakers := [], xs_reported := []\<rparr>) = Some p"
    using cached by (simp add: setup_request_def)
  with reached(5) have "p' = p" "R = (gdb_redis s)\<lparr>xs_breakers := [], xs_reported := []\<rparr>"
    by (auto simp: execute_plan_def)
  then show ?thesis
    using runtime_effect[OF run ok] settled(2,4)[OF reached(9)] reached(8) by fastforce
qed simp

text \<open>
  Property C16. When one tool of the manifest is not granted by the rules of the execution, the
  execution fails and leaves no artifact and no charge.
\<close>

theorem denied_tool_leaves_nothing:
  assumes run: "execute_manifest_agent_runtime E q s = (r, s')" and ok: "budget_db_ok (gdb_budget s)"
    and fresh: "cached_result (rr_execution_id q) (gdb_redis s) = None"
    and st: "prepare_runtime E q s = (Inr st, s1)" and t: "t \<in> set (am_tools (setup_manifest st))"
    and denied: "\<not> granted (evaluate (setup_rules st) (ad_id (am_agent (setup_manifest st))) (''tool.'' @ cm_id t) (Some (rr_tenant_id q)))"
  shows "(\<exists>e. r = Inl e) \<and> gdb_artifacts s' = gdb_artifacts s \<and>
    (\<forall>t a. charged_to t a (gdb_budget s') = charged_to t a (gdb_budget s))"
  using run ok
proof (cases rule: runtime_cases)
  case (reached st' p b0 b1 R v s3 logs)
  from reached(3) st have [simp]: "st' = st" by auto
  have "cached_result (er_execution_id (setup_request q st)) ((gdb_redis s)\<lparr>xs_breakers := [], xs_reported := []\<rparr>) = None"
    using fresh by (simp add: setup_request_def)
  note made = plan_made[OF reached(5)[simplified] this]
  have "map (\<lambda>x. pc_tool (ps_call x)) (pr_steps p) = map cm_id (am_tools (setup_manifest st))"
    using arg_cong[OF made(2), of "map pc_tool"] reached(1) by (simp add: setup_calls planned_tools comp_def)
  then have "cm_id t \<in> set (map (\<lambda>x. pc_tool (ps_call x)) (pr_steps p))" using t by simp
  then obtain x where "x \<in> set (pr_steps p)" "pc_tool (ps_call x) = cm_id t" by auto
  with made(1) obtain n timeout el where "ee_run (setup_env E q st) n (cm_id t) (pc_input (ps_call x)) timeout = (Inr (ps_output x), el)"
    by (auto simp: list_all_iff step_made_def)
  with denied have False
    by (simp add: setup_env_def executor_env_of_def run_runtime_tool_def Let_def split: option.splits if_splits)
  then show ?thesis ..
qed simp

text \<open>
  Property C19. The last managed policy decides the rules of its id: a rule of the manifest with the same
  policy id and action is gone, also one that denies.
\<close>

theorem managed_policy_replaces_rule:
  assumes "map_enabled p \<noteq> Some False" and "action \<in> set (map_actions p)" and "normalize_policy_action action \<noteq> []"
  shows "\<exists>x \<in> set (build_runtime_policy_rules m (ps @ [p])).
    rule_id x = map_id p @ '':'' @ normalize_policy_action action \<and> rule_effect x = map_effect p \<and>
    (\<forall>y \<in> set (build_runtime_policy_rules m (ps @ [p])). rule_id y = rule_id x \<longrightarrow> y = x)"
proof -
  let ?n = "normalize_policy_action action"
  let ?own = "List.map_filter (runtime_rule (map_id p) (map_effect p)) (map_actions p)"
  let ?earlier = "rules_from_manifest m @ rules_from_managed_policies ps"
  have own: "rules_from_manifest m @ rules_from_managed_policies (ps @ [p]) = ?earlier @ ?own"
    using assms(1) by (cases "map_enabled p") (auto simp: rules_from_managed_policies_def or_else_def)
  define x where "x = the (runtime_rule (map_id p) (map_effect p) action)"
  have x: "runtime_rule (map_id p) (map_effect p) action = Some x" "rule_id x = map_id p @ '':'' @ ?n" "rule_effect x = map_effect p"
    using assms(3) by (simp_all add: x_def runtime_rule_def Let_def)
  have "x \<in> set ?own" using assms(2) x(1) by (force simp: List.map_filter_def)
  then obtain y where y: "List.find (\<lambda>z. rule_id z = rule_id x) (rev ?own) = Some y"
    using find_None_iff[of "\<lambda>z. rule_id z = rule_id x" "rev ?own"] by (cases "List.find (\<lambda>z. rule_id z = rule_id x) (rev ?own)") auto
  then have "y \<in> set ?own \<and> rule_id y = rule_id x" by (auto dest: find_Some_iff_mem)
  then have "y = x" using x(2,3) by (auto simp: List.map_filter_def runtime_rule_def Let_def x_def split: if_splits)
  with y have found: "List.find (\<lambda>z. rule_id z = rule_id x) (rev (?earlier @ ?own)) = Some x"
    by (simp add: find_append or_opt_def)
  have "x \<in> set (build_runtime_policy_rules m (ps @ [p]))"
    unfolding build_rules_mem own using found .
  moreover have "z = x" if "z \<in> set (build_runtime_policy_rules m (ps @ [p]))" "rule_id z = rule_id x" for z
    using that(1) found unfolding build_rules_mem own that(2) by simp
  ultimately show ?thesis using x(2,3) by blast
qed

subsection \<open>A sample execution\<close>

definition runtime_manifest :: agent_manifest where
  "runtime_manifest = \<lparr>am_agent = \<lparr>ad_changelog = [], ad_description = ''d'', ad_id = ''a'', ad_is_catalog = False,
     ad_name = ''A'', ad_prompt = ''p'', ad_tenant_id = ''catalog'', ad_version = ''1''\<rparr>, am_keywords = [''k''],
     am_policies = [\<lparr>pm_actions = [''tool:execute''], pm_effect = Allow, pm_id = ''p'', pm_name = ''P''\<rparr>],
     am_skills = [], am_tags = \<lparr>mt_domain = [], mt_level = [], mt_persona = [], mt_use_case = [], mt_industry = []\<rparr>,
     am_tools = [\<lparr>cm_description = ''d'', cm_id = ''x'', cm_name = ''X'', cm_input_schema = JNull,
       cm_output_schema = JNull, tm_timeout_ms = 15000\<rparr>]\<rparr>"

definition sample_runtime :: runtime_env where
  "sample_runtime = \<lparr>rn_catalog = [\<lparr>ce_manifest = runtime_manifest, ce_path = ''m''\<rparr>],
     rn_config = \<lparr>rc_default_tool_cost = 1 / 4, rc_cooldown_ms = 30000, rc_failures = 3, rc_timeout_ms = 60000,
       rc_max_cost = 10, rc_max_steps = 5, rc_retry_attempts = 3\<rparr>,
     rn_new_id = (\<lambda>n. ''new:'' @ n), rn_hash = (\<lambda>s. ''hash''), rn_draw = (\<lambda>_. 0), rn_elapsed = (\<lambda>_. 5),
     rn_builtin = (\<lambda>_ _. Inr JNull)\<rparr>"

definition sample_request :: runtime_request where
  "sample_request = \<lparr>rr_agent_id = ''a'', rr_catalog_agent_id = None, rr_context_summary = None, rr_execution_id = ''e'',
     rr_input = [], rr_organization_id = Some ''o'', rr_tenant_id = ''t'', rr_user_id = None\<rparr>"

definition empty_agents :: agent_db where
  "empty_agents = \<lparr>gdb_billing = \<lparr>db_orgs = [], db_users = [], db_memberships = [], db_plans = [], db_subscriptions = [],
       db_invoices = [], db_credits = [], db_usage = []\<rparr>, gdb_agents = [], gdb_executions = [], gdb_artifacts = [],
     gdb_conversations = \<lparr>cdb_threads = [], cdb_messages = []\<rparr>, gdb_audit = [],
     gdb_budget = \<lparr>bdb_budgets = [], bdb_events = []\<rparr>,
     gdb_redis = \<lparr>xs_now = 0, xs_results = [], xs_locks = [], xs_breakers = [], xs_runs = 0, xs_reported = []\<rparr>\<rparr>"


text \<open>An execution that has reached its charge succeeds, when nothing is in the way.\<close>

lemma create_succeeds:
  "gdb_artifacts s = [] \<Longrightarrow> \<exists>s'. create_output_artifact E c i m org ap ten ty u s = (Inr (rn_new_id E ''artifact''), s') \<and>
     gdb_executions s' = gdb_executions s"
  by (simp add: create_output_artifact_def Let_def then_do_def ask_def on_artifacts_def on_table_def create_row_def
      commit_rows_def artifact_indexes_def index_ok_def add_entry_def on_audit_def on_part_def give_def List.map_filter_def)

text \<open>A step that succeeds and leaves no execution behind, and the sequence of two.\<close>

definition goes_on :: "('x agent_db_scheme, 'a) operation \<Rightarrow> 'x agent_db_scheme \<Rightarrow> bool" where
  "goes_on m s \<longleftrightarrow> (\<exists>a s'. m s = (Inr a, s') \<and> gdb_executions s' = [])"

lemma goes_on_then: "goes_on m s \<Longrightarrow> (\<And>a s'. gdb_executions s' = [] \<Longrightarrow> goes_on (f a) s') \<Longrightarrow> goes_on (then_do m f) s"
  by (fastforce simp: goes_on_def then_do_def)

lemma publish_succeeds:
  assumes none: "gdb_artifacts s = []" "gdb_executions s = []" "read_session_id (rr_input q) = None"
    and key: "\<not> blank (rr_tenant_id q)" "\<not> blank (rn_new_id E ''learning'' @ CHR '':'' # ag_runtime_id (rst_resolved st))"
  shows "\<exists>r s'. publish_outcome E q st p logs now budget s = (Inr r, s')"
proof -
  have silent: "append_runtime_message E side agent c corr org role (read_session_id (rr_input q)) tenant = give ()" for side agent c corr org role tenant
    by (simp add: append_runtime_message_def none(3) trimmed_def truthy_def)
  have "goes_on (publish_outcome E q st p logs now budget) s"
    unfolding publish_outcome_def Let_def silent
  proof (intro goes_on_then)
    show "goes_on (create_output_artifact E c i m org ap ten ty u) s" for c i m org ap ten ty u
      using create_succeeds[OF none(1)] none(2) unfolding goes_on_def by metis
    fix s' :: "'a agent_db_scheme"
    assume s': "gdb_executions s' = []"
    show "goes_on (add_entry e) s'" for e using s' by (simp add: goes_on_def add_entry_def on_audit_def on_part_def)
    show "goes_on (on_audit (publish_shared_learning audit_backend now (rr_tenant_id q) (build_learning_record (rn_new_id E ''learning'') now
      (ag_runtime_id (rst_resolved st)) m c (rr_tenant_id q)) None)) s'" for m c
      using key s' by (simp add: goes_on_def on_audit_def on_part_def publish_shared_learning_def build_shared_learning_key_def
          with_key_def on_backend_def build_learning_record_def)
    show "goes_on (swallow (give ())) s'" using s' by (simp add: goes_on_def give_def)
    show "goes_on (persist_logs i ls) s'" for i ls
      using s' by (simp add: goes_on_def persist_logs_def on_executions_def on_table_def update_many_def update_where_def
          commit_rows_def execution_indexes_def index_ok_def List.map_filter_def)
    show "goes_on (give r) s'" for r :: runtime_result using s' by (simp add: goes_on_def)
  qed
  then show ?thesis by (auto simp: goes_on_def)
qed

lemma settle_succeeds:
  assumes charge: "worker_consume_budget (setup_call E q st ''charge'' (db_now s)) (rr_execution_id q) (pr_cost_total p) (gdb_budget s) = (Inr v, b)"
    and "gdb_artifacts s = []" "gdb_executions s = []" "read_session_id (rr_input q) = None"
    and "\<not> blank (rr_tenant_id q)" "\<not> blank (rn_new_id E ''learning'' @ CHR '':'' # ag_runtime_id (rst_resolved st))"
  shows "\<exists>r s'. settle E q st p logs s = (Inr r, s')"
  using publish_succeeds[of "s\<lparr>gdb_budget := b\<rparr>" q E st p logs "db_now s" v] assms
  by (simp add: settle_def then_do_def ask_def on_budget_def on_part_def setup_call_def)

definition sample_stage :: "agent_db \<Rightarrow> (runtime_setup \<times> plan_result \<times> string list \<times> agent_db) option" where
  "sample_stage s = (case prepare_runtime sample_runtime sample_request s of
     (Inr st, s1) \<Rightarrow> (case preflight sample_runtime sample_request st s1 of
       (Inr logs, s2) \<Rightarrow> (case run_setup sample_runtime sample_request st logs s2 of
          (Inr (p, l), s3) \<Rightarrow> Some (st, p, l, s3) | _ \<Rightarrow> None) | _ \<Rightarrow> None) | _ \<Rightarrow> None)"

definition stage_ready :: "runtime_setup \<times> plan_result \<times> string list \<times> agent_db \<Rightarrow> bool" where
  "stage_ready x = (case x of (st, p, l, s) \<Rightarrow>
     length (gdb_artifacts s) = 0 \<and> length (gdb_executions s) = 0 \<and>
     \<not> blank (rn_new_id sample_runtime ''learning'' @ CHR '':'' # ag_runtime_id (rst_resolved st)) \<and>
     (case worker_consume_budget (setup_call sample_runtime sample_request st ''charge'' (db_now s)) (rr_execution_id sample_request)
       (pr_cost_total p) (gdb_budget s) of (Inr _, _) \<Rightarrow> True | _ \<Rightarrow> False))"

lemma stage_runs:
  assumes "(case sample_stage s of Some x \<Rightarrow> stage_ready x | None \<Rightarrow> False)"
  shows "\<exists>r s'. execute_manifest_agent_runtime sample_runtime sample_request s = (Inr r, s')"
proof -
  from assms obtain st p l s3 where stage: "sample_stage s = Some (st, p, l, s3)" and ready: "stage_ready (st, p, l, s3)"
    by (auto split: option.splits)
  from stage obtain s1 logs s2 where run: "prepare_runtime sample_runtime sample_request s = (Inr st, s1)"
      "preflight sample_runtime sample_request st s1 = (Inr logs, s2)"
      "run_setup sample_runtime sample_request st logs s2 = (Inr (p, l), s3)"
    by (auto simp: sample_stage_def split: prod.splits sum.splits)
  from ready obtain v b where charge: "worker_consume_budget (setup_call sample_runtime sample_request st ''charge'' (db_now s3))
      (rr_execution_id sample_request) (pr_cost_total p) (gdb_budget s3) = (Inr v, b)"
    by (auto simp: stage_ready_def split: prod.splits sum.splits)
  have "\<exists>r s'. settle sample_runtime sample_request st p l s3 = (Inr r, s')"
    by (rule settle_succeeds[OF charge]) (use ready in \<open>auto simp: stage_ready_def\<close>, code_simp+)
  with run show ?thesis by (simp add: execute_manifest_agent_runtime_def then_do_def)
qed

lemma empty_ok: "budget_db_ok (gdb_budget empty_agents)"
  by (simp add: budget_db_ok_def indexes_ok_def index_ok_def empty_agents_def budget_indexes_def List.map_filter_def)

lemma sample_execution: "\<exists>r s'. execute_manifest_agent_runtime sample_runtime sample_request empty_agents = (Inr r, s')"
  by (rule stage_runs) code_simp

lemma execution_settles_once_witness:
  "\<exists>r s' x. execute_manifest_agent_runtime sample_runtime sample_request empty_agents = (Inr r, s') \<and>
     gdb_artifacts s' = [x] \<and> art_id x = rres_artifact_id r \<and> charged_to ''t'' ''a'' (gdb_budget s') = rres_tool_cost r"
proof -
  from sample_execution obtain r s' where run: "execute_manifest_agent_runtime sample_runtime sample_request empty_agents = (Inr r, s')" by blast
  from execution_settles_once[OF run empty_ok] run show ?thesis
    by (auto simp: empty_agents_def sample_request_def charged_to_def)
qed

lemma execution_stays_within_budget_witness:
  "\<exists>r s' row. execute_manifest_agent_runtime sample_runtime sample_request empty_agents = (Inr r, s') \<and>
     find_budget ''t'' ''a'' (gdb_budget s') = Some row \<and> bdg_consumed row \<le> bdg_limit row"
proof -
  from sample_execution obtain r s' where run: "execute_manifest_agent_runtime sample_runtime sample_request empty_agents = (Inr r, s')" by blast
  have "cached_result (rr_execution_id sample_request) (gdb_redis empty_agents) = None"
    by (simp add: cached_result_def empty_agents_def)
  moreover have "list_all (\<lambda>e. costs_sane sample_runtime (ce_manifest e)) (rn_catalog sample_runtime)"
    by (simp add: costs_sane_def sample_runtime_def runtime_manifest_def)
  ultimately have "\<exists>row. find_budget (rr_tenant_id sample_request) (rr_agent_id sample_request) (gdb_budget s') = Some row \<and> bdg_consumed row \<le> bdg_limit row"
    using execution_stays_within_budget[OF run empty_ok] by blast
  with run show ?thesis by (simp add: sample_request_def)
qed

text \<open>The same state, with the result of the execution kept in Redis.\<close>

definition kept_result :: plan_result where
  "kept_result = \<lparr>pr_execution_id = ''e'', pr_tenant_id = ''t'', pr_agent_id = ''a'', pr_cached = True,
     pr_cost_total = 27 / 100, pr_output = [], pr_steps = [], pr_trace_id = ''trace_e'', pr_trace_nodes = []\<rparr>"

definition replayed_agents :: agent_db where
  "replayed_agents = empty_agents\<lparr>gdb_redis := (gdb_redis empty_agents)\<lparr>xs_results := [(''e'', (3600000, kept_result))]\<rparr>\<rparr>"

lemma replayed_execution_charges_again_witness:
  "\<exists>r s'. execute_manifest_agent_runtime sample_runtime sample_request replayed_agents = (Inr r, s') \<and>
     xs_runs (gdb_redis s') = 0 \<and> charged_to ''t'' ''a'' (gdb_budget s') = 27 / 100 \<and> length (gdb_artifacts s') = 1"
proof -
  have "\<exists>r s'. execute_manifest_agent_runtime sample_runtime sample_request replayed_agents = (Inr r, s')"
    by (rule stage_runs) code_simp
  then obtain r s' where run: "execute_manifest_agent_runtime sample_runtime sample_request replayed_agents = (Inr r, s')" by blast
  have ok: "budget_db_ok (gdb_budget replayed_agents)" using empty_ok by (simp add: replayed_agents_def)
  have kept: "cached_result (rr_execution_id sample_request) (gdb_redis replayed_agents) = Some kept_result"
    by (simp add: cached_result_def replayed_agents_def empty_agents_def sample_request_def kept_result_def)
  from replayed_execution_charges_again[OF run ok kept] run show ?thesis
    by (simp add: replayed_agents_def empty_agents_def sample_request_def kept_result_def charged_to_def)
qed

text \<open>A manifest whose only policy denies, and the same one under a managed policy of that id.\<close>

definition denying_manifest :: agent_manifest where
  "denying_manifest = runtime_manifest\<lparr>am_policies := [\<lparr>pm_actions = [''tool:execute''], pm_effect = Deny, pm_id = ''p'', pm_name = ''P''\<rparr>]\<rparr>"

definition denying_runtime :: runtime_env where
  "denying_runtime = sample_runtime\<lparr>rn_catalog := [\<lparr>ce_manifest = denying_manifest, ce_path = ''m''\<rparr>]\<rparr>"

lemma denied_tool_leaves_nothing_witness:
  "\<exists>e s'. execute_manifest_agent_runtime denying_runtime sample_request empty_agents = (Inl e, s') \<and>
     gdb_artifacts s' = [] \<and> charged_to ''t'' ''a'' (gdb_budget s') = 0"
proof -
  let ?denied = "\<lambda>st. \<not> granted (evaluate (setup_rules st) (ad_id (am_agent (setup_manifest st))) (''tool.'' @ ''x'') (Some (rr_tenant_id sample_request)))"
  have "(case prepare_runtime denying_runtime sample_request empty_agents of (Inr st, _) \<Rightarrow>
      (case am_tools (setup_manifest st) of [t] \<Rightarrow> cm_id t = ''x'' | _ \<Rightarrow> False) \<and> ?denied st | _ \<Rightarrow> False)" by code_simp
  then obtain st s1 t where st: "prepare_runtime denying_runtime sample_request empty_agents = (Inr st, s1)"
    and t: "am_tools (setup_manifest st) = [t]" "cm_id t = ''x''" and "?denied st"
    by (auto split: prod.splits sum.splits list.splits)
  then have denied: "\<not> granted (evaluate (setup_rules st) (ad_id (am_agent (setup_manifest st))) (''tool.'' @ cm_id t) (Some (rr_tenant_id sample_request)))" by simp
  obtain r s' where run: "execute_manifest_agent_runtime denying_runtime sample_request empty_agents = (r, s')" by fastforce
  have "cached_result (rr_execution_id sample_request) (gdb_redis empty_agents) = None"
    by (simp add: cached_result_def empty_agents_def)
  from denied_tool_leaves_nothing[OF run empty_ok this st _ denied] t run show ?thesis
    by (auto simp: empty_agents_def charged_to_def)
qed

definition lifting_policy :: managed_agent_policy where
  "lifting_policy = \<lparr>map_actions = [''tool:execute''], map_effect = Allow, map_enabled = None, map_id = ''p'',
     map_name = ''P'', map_reason = None\<rparr>"

lemma managed_policy_replaces_rule_witness:
  "\<not> granted (evaluate (build_runtime_policy_rules denying_manifest []) ''a'' ''tool.x'' (Some ''t'')) \<and>
   granted (evaluate (build_runtime_policy_rules denying_manifest [lifting_policy]) ''a'' ''tool.x'' (Some ''t'')) \<and>
   (\<exists>x \<in> set (build_runtime_policy_rules denying_manifest [lifting_policy]). rule_id x = ''p:tool.*'' \<and> rule_effect x = Allow)"
proof -
  have "\<not> granted (evaluate (build_runtime_policy_rules denying_manifest []) ''a'' ''tool.x'' (Some ''t'')) \<and>
     granted (evaluate (build_runtime_policy_rules denying_manifest [lifting_policy]) ''a'' ''tool.x'' (Some ''t''))" by code_simp
  moreover have "normalize_policy_action ''tool:execute'' = ''tool.*''" by code_simp
  ultimately show ?thesis
    using managed_policy_replaces_rule[of lifting_policy "''tool:execute''" denying_manifest "[]"]
    by (auto simp: lifting_policy_def)
qed

end
