(* ===== verification/Marketplace.thy ===== *)
theory Marketplace
  imports AgentManifest "HOL-Library.Multiset"
begin

text \<open>
  \<open>apps/api/src/modules/marketplace/marketplace-service.ts\<close>: the catalogue behind a cache of one
  minute, search, recommendations, the documents of an agent and the approval of agents by the
  feedback of their users.
\<close>

record catalog_cache =
  cc_entries :: "catalog_entry list"
  cc_loaded_at :: ms

definition catalog_cache_ttl_ms :: int where
  "catalog_cache_ttl_ms = 60000"

text \<open>\<open>loaded\<close> is what \<open>loadManifestCatalog\<close> would find below the directory now.\<close>

definition get_catalog :: "string list + catalog_entry list \<Rightarrow> ms \<Rightarrow> bool \<Rightarrow> catalog_cache option \<Rightarrow>
    (string list + catalog_entry list) \<times> catalog_cache option" where
  "get_catalog loaded now force cache =
     (case cache of
        Some c \<Rightarrow> if \<not> force \<and> now - cc_loaded_at c < catalog_cache_ttl_ms then (Inr (cc_entries c), cache)
          else (case loaded of Inl e \<Rightarrow> (Inl e, cache)
                | Inr es \<Rightarrow> (Inr es, Some \<lparr>cc_entries = es, cc_loaded_at = now\<rparr>))
      | None \<Rightarrow> (case loaded of Inl e \<Rightarrow> (Inl e, cache)
                | Inr es \<Rightarrow> (Inr es, Some \<lparr>cc_entries = es, cc_loaded_at = now\<rparr>)))"

text \<open>A filter of the query: one text or several, each a list separated by commas.\<close>

definition normalize_tag_list :: "string list option \<Rightarrow> string list option" where
  "normalize_tag_list v = (case v of
     None \<Rightarrow> None
   | Some vs \<Rightarrow>
       let parsed = filter (\<lambda>s. s \<noteq> []) (map js_trim (split_on CHR '','' (join_with '','' vs)))
       in if parsed = [] then None else Some parsed)"

record marketplace_query =
  mq_domains :: "string list option"
  mq_industries :: "string list option"
  mq_levels :: "string list option"
  mq_page :: "int option"
  mq_page_size :: "int option"
  mq_personas :: "string list option"
  mq_query :: "string option"
  mq_tags :: "string list option"
  mq_use_cases :: "string list option"

definition marketplace_search :: "(string \<Rightarrow> rat) \<Rightarrow> catalog_entry list \<Rightarrow> marketplace_query \<Rightarrow> search_result" where
  "marketplace_search collate catalog q = search_manifest_catalog collate catalog
     \<lparr>si_filters = \<lparr>fl_domains = normalize_tag_list (mq_domains q), fl_industries = normalize_tag_list (mq_industries q),
         fl_levels = normalize_tag_list (mq_levels q), fl_personas = normalize_tag_list (mq_personas q),
         fl_tags = normalize_tag_list (mq_tags q), fl_use_cases = normalize_tag_list (mq_use_cases q)\<rparr>,
      si_include_catalog = False, si_page = mq_page q, si_page_size = mq_page_size q, si_query = truthy (mq_query q)\<rparr>"

subsection \<open>Approval\<close>

record feedback_row =
  fb_agent_id :: string
  fb_rating :: int

record approval_count =
  ac_count :: nat
  ac_positive :: nat

definition count_feedback :: "feedback_row \<Rightarrow> (string \<times> approval_count) list \<Rightarrow> (string \<times> approval_count) list" where
  "count_feedback r grouped =
     (let c = or_else (map_of grouped (fb_agent_id r)) \<lparr>ac_count = 0, ac_positive = 0\<rparr>
      in AList.update (fb_agent_id r)
           \<lparr>ac_count = ac_count c + 1, ac_positive = ac_positive c + (if 0 < fb_rating r then 1 else 0)\<rparr> grouped)"

text \<open>Per agent the share of positive feedback and the number of answers. \<open>has_database\<close>: the
  environment names a database.\<close>

definition get_approval_stats :: "bool \<Rightarrow> string list \<Rightarrow> feedback_row list \<Rightarrow> (string \<times> (rat \<times> nat)) list" where
  "get_approval_stats has_database agents rows =
     (if agents = [] \<or> \<not> has_database then []
      else map (\<lambda>(a, c). (a, ((if 0 < ac_count c then of_nat (ac_positive c) / of_nat (ac_count c) else 0), ac_count c)))
        (fold count_feedback (filter (\<lambda>r. fb_agent_id r \<in> set agents) rows) []))"

subsection \<open>Documents\<close>

definition effect_name :: "policy_effect \<Rightarrow> string" where
  "effect_name e = (case e of Allow \<Rightarrow> ''allow'' | Deny \<Rightarrow> ''deny'')"

definition capability_line :: "'a capability_manifest_scheme \<Rightarrow> string" where
  "capability_line c = ''- **'' @ cm_name c @ ''**: '' @ cm_description c"

definition agent_docs :: "agent_manifest \<Rightarrow> string" where
  "agent_docs m = join_with [CHR 0x0A]
     ([''# '' @ ad_name (am_agent m), [], ad_description (am_agent m), [], ''## Keywords''] @
      map (\<lambda>k. ''- '' @ k) (am_keywords m) @ [[], ''## Policies''] @
      map (\<lambda>p. ''- **'' @ pm_name p @ ''** ('' @ effect_name (pm_effect p) @ ''): '' @ join_with '', '' (pm_actions p))
        (am_policies m) @
      [[], ''## Prompt'', ad_prompt (am_agent m), [], ''## Skills''] @ map capability_line (am_skills m) @
      [[], ''## Tools''] @ map capability_line (am_tools m))"

definition get_agent_docs :: "catalog_entry list \<Rightarrow> string \<Rightarrow> string option" where
  "get_agent_docs catalog agent = map_option (agent_docs \<circ> ce_manifest) (find_manifest_catalog_entry catalog agent)"

definition get_agent_changelog :: "catalog_entry list \<Rightarrow> string \<Rightarrow> string list option" where
  "get_agent_changelog catalog agent =
     map_option (\<lambda>e. ad_changelog (am_agent (ce_manifest e))) (find_manifest_catalog_entry catalog agent)"

record capability_row =
  cr_agent_id :: string
  cr_agent_name :: string
  cr_domain :: "string list"
  cr_keywords :: "string list"
  cr_tools :: "string list"

definition get_capability_matrix :: "catalog_entry list \<Rightarrow> capability_row list" where
  "get_capability_matrix catalog =
     map (\<lambda>e. let m = ce_manifest e
        in \<lparr>cr_agent_id = ad_id (am_agent m), cr_agent_name = ad_name (am_agent m), cr_domain = mt_domain (am_tags m),
            cr_keywords = am_keywords m, cr_tools = map cm_name (am_tools m)\<rparr>)
       (filter (\<lambda>e. is_installable_manifest (ce_manifest e)) catalog)"

subsection \<open>Agent ids\<close>

lemma replace_runs_id: "\<forall>c \<in> set s. \<not> P c \<Longrightarrow> replace_runs P s = s"
  by (induction P s rule: replace_runs.induct) auto

lemma replace_runs_set: "set (replace_runs P s) \<subseteq> insert CHR ''-'' {c \<in> set s. \<not> P c}"
proof (induction P s rule: replace_runs.induct)
  case (2 P c s)
  then show ?case using set_dropWhileD[of _ P s] by (auto split: if_splits)
qed simp

text \<open>A dash stands for every run of dashes.\<close>

fun no_double_dash :: "string \<Rightarrow> bool" where
  "no_double_dash (a # b # s) \<longleftrightarrow> (a \<noteq> CHR ''-'' \<or> b \<noteq> CHR ''-'') \<and> no_double_dash (b # s)"
| "no_double_dash _ \<longleftrightarrow> True"

lemma dash_runs_single: "no_double_dash (replace_runs (\<lambda>c. c = CHR ''-'') s)"
proof (induction "\<lambda>c. c = CHR ''-''" s rule: replace_runs.induct)
  case (2 c s)
  show ?case
  proof (cases "c = CHR ''-''")
    case True
    let ?rest = "dropWhile (\<lambda>c. c = CHR ''-'') s"
    have "no_double_dash (CHR ''-'' # replace_runs (\<lambda>c. c = CHR ''-'') ?rest)"
    proof (cases ?rest)
      case (Cons d ds)
      then have "d \<noteq> CHR ''-''" using hd_dropWhile[of "\<lambda>c. c = CHR ''-''" s] by auto
      with 2(1)[OF True] Cons show ?thesis by simp
    next
      case Nil
      show ?thesis unfolding Nil by simp
    qed
    with True show ?thesis by simp
  next
    case False
    with 2(2)[OF False] show ?thesis
      by (cases "replace_runs (\<lambda>c. c = CHR ''-'') s") simp_all
  qed
qed simp

lemma dash_runs_fixed: "no_double_dash s \<Longrightarrow> replace_runs (\<lambda>c. c = CHR ''-'') s = s"
proof (induction s)
  case (Cons c s)
  then show ?case by (cases s) auto
qed simp

lemma js_trim_fixed: "\<forall>c \<in> set s. \<not> js_space c \<Longrightarrow> js_trim s = s"
proof -
  have none: "\<forall>c \<in> set t. \<not> js_space c \<Longrightarrow> dropWhile js_space t = t" for t by (cases t) auto
  assume "\<forall>c \<in> set s. \<not> js_space c"
  then show "js_trim s = s" by (simp add: js_trim_def none)
qed

lemma lower_char_idem: "lower_char (lower_char c) = lower_char c"
  by (auto simp: lower_char_def Let_def)

lemma canonicalize_chars:
  assumes "c \<in> set (canonicalize_agent_id v)"
  shows "\<not> js_space c" and "c \<noteq> CHR ''_''" and "lower_char c = c"
proof -
  let ?Q = "\<lambda>c. c = CHR ''_'' \<or> js_space c"
  have "c = CHR ''-'' \<or> (c \<in> set (normalize_text v) \<and> \<not> ?Q c)"
    using assms replace_runs_set[of "\<lambda>c. c = CHR ''-''"] replace_runs_set[of ?Q "normalize_text v"]
    by (fastforce simp: canonicalize_agent_id_def)
  moreover have "\<not> js_space CHR ''-''" by (simp add: js_space_def)
  moreover have "lower_char CHR ''-'' = CHR ''-''" by code_simp
  ultimately show "\<not> js_space c" and "c \<noteq> CHR ''_''" and "lower_char c = c"
    by (auto simp: normalize_text_def js_lower_def lower_char_idem)
qed

text \<open>
  The canonical form of an agent id is its own canonical form, so that an id and its
  canonical form always name the same agent.
\<close>

theorem canonical_id_stable:
  "canonicalize_agent_id (canonicalize_agent_id v) = canonicalize_agent_id v \<and>
   find_manifest_catalog_entry catalog (canonicalize_agent_id v) = find_manifest_catalog_entry catalog v"
proof -
  let ?c = "canonicalize_agent_id v"
  have "js_trim ?c = ?c" by (rule js_trim_fixed) (use canonicalize_chars(1) in blast)
  then have "normalize_text ?c = ?c"
    using canonicalize_chars(3) by (simp add: normalize_text_def js_lower_def map_idI)
  moreover have "replace_runs (\<lambda>c. c = CHR ''_'' \<or> js_space c) ?c = ?c"
    by (rule replace_runs_id) (use canonicalize_chars(1,2) in blast)
  moreover have "no_double_dash ?c" unfolding canonicalize_agent_id_def by (rule dash_runs_single)
  ultimately have "canonicalize_agent_id ?c = ?c"
    by (simp add: canonicalize_agent_id_def[of ?c] dash_runs_fixed)
  then show ?thesis by (simp add: find_manifest_catalog_entry_def)
qed

subsection \<open>Search\<close>

lemma take_slices:
  assumes "0 < len"
  shows "concat (map (\<lambda>k. slice (int k * len) (int k * len + len) xs) [0..<n]) = take (nat (int n * len)) xs"
proof (induction n)
  case (Suc n)
  have "nat (int (Suc n) * len) = nat (int n * len) + nat len"
    using assms by (simp add: nat_add_distrib distrib_right)
  with Suc assms show ?case by (simp add: slice_def take_add)
qed simp

text \<open>
  The pages of a search, one after the other, list every match once, the highest score
  first, and no entry that is not installable or scores nothing.
\<close>

theorem search_pages_complete:
  assumes "si_page_size i = Some len" and "1 \<le> len" and "len \<le> 100"
    and "sr_total (search_manifest_catalog collate catalog i) \<le> n * nat len"
  shows "let listed = concat (map (\<lambda>k. sr_results (search_manifest_catalog collate catalog (i\<lparr>si_page := Some (int k + 1)\<rparr>))) [0..<n])
    in mset listed = {# (e, score) \<in># mset (map (\<lambda>e. (e, calculate_search_score (ce_manifest e) (si_query i)))
         (filter (entry_matches i) catalog)). 0 < score #} \<and>
       sorted (map (\<lambda>(e, score). - score) listed)"
proof -
  let ?ranked = "rank_entries collate (si_query i) (filter (entry_matches i) catalog)"
  have matches: "entry_matches (i\<lparr>si_page := p\<rparr>) = entry_matches i" for p
    by (rule ext) (simp add: entry_matches_def)
  have page: "sr_results (search_manifest_catalog collate catalog (i\<lparr>si_page := Some (int k + 1)\<rparr>)) =
      slice (int k * len) (int k * len + len) ?ranked" for k
    using assms(1-3) by (simp add: search_manifest_catalog_def page_of_def page_size_of_def matches Let_def)
  have all: "length ?ranked \<le> nat (int n * len)"
    using assms(2,4) by (simp add: search_manifest_catalog_def Let_def nat_mult_distrib)
  have listed: "concat (map (\<lambda>k. sr_results (search_manifest_catalog collate catalog (i\<lparr>si_page := Some (int k + 1)\<rparr>))) [0..<n]) = ?ranked"
    unfolding page using take_slices[of len ?ranked n] assms(2) all by simp
  show ?thesis unfolding listed Let_def
    by (simp add: rank_entries_def mset_filter sorted_sort_key[simplified])
qed

definition sample_manifest :: "string \<Rightarrow> string \<Rightarrow> agent_manifest" where
  "sample_manifest i name = \<lparr>
     am_agent = \<lparr>ad_changelog = [], ad_description = ''sells'', ad_id = i, ad_is_catalog = False, ad_name = name,
       ad_prompt = ''p'', ad_tenant_id = ''catalog'', ad_version = ''1.0.0''\<rparr>,
     am_keywords = [''deal'', ''lead'', ''quota'', ''forecast'', ''crm''],
     am_policies = [\<lparr>pm_actions = [''tool:execute''], pm_effect = Allow, pm_id = ''p'', pm_name = ''p''\<rparr>],
     am_skills = [\<lparr>cm_description = ''s'', cm_id = ''s'', cm_name = ''s'', cm_input_schema = JNull, cm_output_schema = JNull\<rparr>],
     am_tags = \<lparr>mt_domain = [''sales''], mt_level = [''c''], mt_persona = [''exec''], mt_use_case = [''reporting''], mt_industry = [''any'']\<rparr>,
     am_tools = [\<lparr>cm_description = ''looks'', cm_id = ''look'', cm_name = ''Look'', cm_input_schema = JNull, cm_output_schema = JNull,
       tm_timeout_ms = 15000\<rparr>]\<rparr>"

definition sample_catalog :: "catalog_entry list" where
  "sample_catalog = map (\<lambda>(i, n). \<lparr>ce_manifest = sample_manifest i n, ce_path = i\<rparr>)
     [(''cro'', ''Deal desk''), (''ceo'', ''Chief''), (''cfo'', ''Deal'')]"

definition sample_search :: search_input where
  "sample_search = \<lparr>si_filters = \<lparr>fl_domains = Some ['' Sales''], fl_industries = None, fl_levels = None, fl_personas = None,
     fl_tags = None, fl_use_cases = None\<rparr>, si_include_catalog = False, si_page = None, si_page_size = Some 2, si_query = Some ''deal''\<rparr>"

lemma search_pages_complete_witness:
  "(let listed = concat (map (\<lambda>k. sr_results (search_manifest_catalog (\<lambda>_. 0) sample_catalog (sample_search\<lparr>si_page := Some (int k + 1)\<rparr>))) [0..<2])
    in map (\<lambda>(e, score). (ad_name (am_agent (ce_manifest e)), score)) listed = [(''Deal'', 60), (''Deal desk'', 28), (''Chief'', 8)] \<and>
      sorted (map (\<lambda>(e, score). - score) listed))"
proof -
  have len: "si_page_size sample_search = Some 2" by (simp add: sample_search_def)
  have all: "sr_total (search_manifest_catalog (\<lambda>_. 0) sample_catalog sample_search) \<le> 2 * nat 2" by code_simp
  have "map (\<lambda>(e, score). (ad_name (am_agent (ce_manifest e)), score))
      (concat (map (\<lambda>k. sr_results (search_manifest_catalog (\<lambda>_. 0) sample_catalog (sample_search\<lparr>si_page := Some (int k + 1)\<rparr>))) [0..<2])) =
      [(''Deal'', 60), (''Deal desk'', 28), (''Chief'', 8)]" by code_simp
  moreover have "sorted (map (\<lambda>(e, score). - score)
      (concat (map (\<lambda>k. sr_results (search_manifest_catalog (\<lambda>_. 0) sample_catalog (sample_search\<lparr>si_page := Some (int k + 1)\<rparr>))) [0..<2])))"
    using search_pages_complete[OF len _ _ all] unfolding Let_def by simp
  ultimately show ?thesis unfolding Let_def by blast
qed

end
