(* ===== verification/Notifications.thy ===== *)
theory Notifications
  imports AuthDb Json
begin

text \<open>
  Notifications and preferences: \<open>packages/database/src/repositories/engagement.ts\<close>, the service of
  \<open>apps/api/src/modules/notifications/service.ts\<close> in front of it, and the e-mails the worker sends
  (\<open>apps/worker/src/notifications/emailQueue.ts\<close>). The outbound webhooks share the state.

  A queue is the list of the jobs put into it; who takes them when is up to the queue. The answers of the
  mail service are given.
\<close>

datatype cookie_consent = ConsentAccepted | ConsentPending | ConsentRejected

record preference_row =
  prf_id :: string
  prf_tenant_id :: string
  prf_organization_id :: string
  prf_user_id :: string
  prf_in_app :: bool
  prf_email :: bool
  prf_marketing :: bool
  prf_push :: bool
  prf_cookie :: cookie_consent

record notification_row =
  ntf_id :: string
  ntf_tenant_id :: string
  ntf_organization_id :: string
  ntf_user_id :: string
  ntf_type :: string
  ntf_content :: string
  ntf_link :: "string option"
  ntf_metadata :: "js_val option"
  ntf_is_read :: bool
  ntf_read_at :: "ms option"
  ntf_created_at :: ms

datatype endpoint_status = EndpointActive | EndpointDisabled

record endpoint_row =
  wep_id :: string
  wep_tenant_id :: string
  wep_organization_id :: string
  wep_created_by :: "string option"
  wep_url :: string
  wep_secret :: string
  wep_topics :: "string list"
  wep_status :: endpoint_status
  wep_failures :: int
  wep_last_delivered_at :: "ms option"
  wep_last_failure_at :: "ms option"
  wep_created_at :: ms

record delivery_row =
  dlv_id :: string
  dlv_endpoint_id :: string
  dlv_tenant_id :: string
  dlv_organization_id :: string
  dlv_topic :: string
  dlv_payload :: js_val
  dlv_signature :: string
  dlv_attempt :: int
  dlv_success :: bool
  dlv_status_code :: "int option"
  dlv_response_body :: "string option"
  dlv_error_message :: "string option"
  dlv_delivered_at :: "ms option"
  dlv_created_at :: ms

datatype email_type = CriticalErrorMail | WorkflowCompletedMail

record email_job =
  ejb_context :: "(string \<times> js_val) list"
  ejb_organization_id :: string
  ejb_tenant_id :: string
  ejb_type :: email_type
  ejb_user_id :: string

record webhook_job =
  wjb_attempt :: "int option"
  wjb_endpoint_id :: string
  wjb_organization_id :: string
  wjb_payload :: "(string \<times> js_val) list"
  wjb_tenant_id :: string
  wjb_topic :: string

record engagement_db =
  edb_tenants :: "tenant_row list"
  edb_users :: "user_row list"
  edb_memberships :: "membership_row list"
  edb_preferences :: "preference_row list"
  edb_notifications :: "notification_row list"
  edb_endpoints :: "endpoint_row list"
  edb_deliveries :: "delivery_row list"
  edb_email_queue :: "email_job list"
  edb_webhook_queue :: "webhook_job list"

definition preference_indexes :: "preference_row index list" where
  "preference_indexes = [(''id'', \<lambda>r. Some (prf_id r)),
     (''organizationId_userId'', \<lambda>r. Some (compound_key (prf_organization_id r) (prf_user_id r)))]"

definition notification_indexes :: "notification_row index list" where
  "notification_indexes = [(''id'', \<lambda>r. Some (ntf_id r))]"

definition on_preferences :: "(preference_row list \<Rightarrow> db_error + preference_row list) \<Rightarrow> (engagement_db, unit) operation" where
  "on_preferences = on_table edb_preferences (\<lambda>rows db. db\<lparr>edb_preferences := rows\<rparr>)"

definition on_notifications :: "(notification_row list \<Rightarrow> db_error + notification_row list) \<Rightarrow> (engagement_db, unit) operation" where
  "on_notifications = on_table edb_notifications (\<lambda>rows db. db\<lparr>edb_notifications := rows\<rparr>)"

subsection \<open>Preferences\<close>

definition find_preference :: "string \<Rightarrow> string \<Rightarrow> engagement_db \<Rightarrow> preference_row option" where
  "find_preference org user db =
     List.find (\<lambda>r. prf_organization_id r = org \<and> prf_user_id r = user) (edb_preferences db)"

definition default_preference :: "string \<Rightarrow> string \<Rightarrow> string \<Rightarrow> string \<Rightarrow> preference_row" where
  "default_preference i tenant org user = \<lparr>prf_id = i, prf_tenant_id = tenant, prf_organization_id = org, prf_user_id = user,
     prf_in_app = True, prf_email = True, prf_marketing = False, prf_push = False, prf_cookie = ConsentPending\<rparr>"

text \<open>The values a caller gives; what is left out keeps its value, or the default of the schema.\<close>

record preference_changes =
  pch_cookie :: "cookie_consent option"
  pch_email :: "bool option"
  pch_in_app :: "bool option"
  pch_marketing :: "bool option"
  pch_push :: "bool option"

definition no_changes :: preference_changes where
  "no_changes = \<lparr>pch_cookie = None, pch_email = None, pch_in_app = None, pch_marketing = None, pch_push = None\<rparr>"

definition apply_changes :: "preference_changes \<Rightarrow> preference_row \<Rightarrow> preference_row" where
  "apply_changes c r = r\<lparr>prf_in_app := or_else (pch_in_app c) (prf_in_app r), prf_email := or_else (pch_email c) (prf_email r),
     prf_marketing := or_else (pch_marketing c) (prf_marketing r), prf_push := or_else (pch_push c) (prf_push r),
     prf_cookie := or_else (pch_cookie c) (prf_cookie r)\<rparr>"

definition update_user_preference :: "string \<Rightarrow> preference_changes \<Rightarrow> string \<Rightarrow> string \<Rightarrow> string \<Rightarrow>
    (engagement_db, preference_row) operation" where
  "update_user_preference i c tenant org user =
     then_do (ask (find_preference org user)) (\<lambda>found. case found of
       Some r \<Rightarrow> then_do (on_preferences (update_unique ''userPreference'' preference_indexes (\<lambda>x. prf_id x = prf_id r) (apply_changes c)))
         (\<lambda>_. give (apply_changes c r))
     | None \<Rightarrow> let r = apply_changes c (default_preference i tenant org user)
         in then_do (on_preferences (create_row preference_indexes r)) (\<lambda>_. give r))"

definition ensure_user_preference :: "string \<Rightarrow> string \<Rightarrow> string \<Rightarrow> string \<Rightarrow> (engagement_db, preference_row) operation" where
  "ensure_user_preference i = update_user_preference i no_changes"

subsection \<open>Notifications\<close>

record notification_input =
  nin_content :: string
  nin_link :: "string option"
  nin_metadata :: "js_val option"
  nin_organization_id :: string
  nin_tenant_id :: string
  nin_type :: string

definition new_notification :: "string \<Rightarrow> ms \<Rightarrow> notification_input \<Rightarrow> string \<Rightarrow> notification_row" where
  "new_notification i now n user = \<lparr>ntf_id = i, ntf_tenant_id = nin_tenant_id n, ntf_organization_id = nin_organization_id n,
     ntf_user_id = user, ntf_type = nin_type n, ntf_content = nin_content n, ntf_link = nin_link n,
     ntf_metadata = nin_metadata n, ntf_is_read = False, ntf_read_at = None, ntf_created_at = now\<rparr>"

text \<open>\<open>ids\<close> gives the identifiers of the rows: of the preference, and of one notification after the other.\<close>

definition create_notification_for_user :: "(nat \<Rightarrow> string) \<Rightarrow> ms \<Rightarrow> notification_input \<Rightarrow> string \<Rightarrow>
    (engagement_db, notification_row option) operation" where
  "create_notification_for_user ids now n user =
     then_do (ensure_user_preference (ids 0) (nin_tenant_id n) (nin_organization_id n) user) (\<lambda>p.
     if \<not> prf_in_app p then give None
     else let r = new_notification (ids 1) now n user
       in then_do (on_notifications (create_row notification_indexes r)) (\<lambda>_. give (Some r)))"

text \<open>Every member of the organization with one of the roles whose preference there does not say no.\<close>

definition notified_members :: "role list \<Rightarrow> notification_input \<Rightarrow> engagement_db \<Rightarrow> string list" where
  "notified_members roles n db =
     map mem_user_id (filter (\<lambda>m. case find_preference (nin_organization_id n) (mem_user_id m) db of
         Some p \<Rightarrow> prf_in_app p | None \<Rightarrow> True)
       (filter (\<lambda>m. mem_organization_id m = nin_organization_id n \<and> mem_role m \<in> set roles \<and> mem_tenant_id m = nin_tenant_id n)
         (edb_memberships db)))"

definition create_notification_for_roles :: "(nat \<Rightarrow> string) \<Rightarrow> ms \<Rightarrow> role list option \<Rightarrow> notification_input \<Rightarrow>
    (engagement_db, nat) operation" where
  "create_notification_for_roles ids now roles n =
     then_do (ask (notified_members (or_else roles [OWNER, ADMIN]) n)) (\<lambda>users.
     if users = [] then give 0
     else then_do (on_notifications (\<lambda>rows. commit_rows notification_indexes
         (rows @ map (\<lambda>(k, u). new_notification (ids (Suc k)) now n u) (zip [0..<length users] users))))
       (\<lambda>_. give (length users)))"

text \<open>The feed: newest first, ties by id. A row stands before another when its time and id are larger.\<close>

definition of_user :: "string \<Rightarrow> string \<Rightarrow> notification_row \<Rightarrow> bool" where
  "of_user tenant user r \<longleftrightarrow> ntf_tenant_id r = tenant \<and> ntf_user_id r = user"

definition char_codes :: "string \<Rightarrow> nat list" where
  "char_codes s = map of_char s"

fun codes_less :: "nat list \<Rightarrow> nat list \<Rightarrow> bool" where
  "codes_less [] ys = (ys \<noteq> [])"
| "codes_less (x # xs) [] = False"
| "codes_less (x # xs) (y # ys) = (x < y \<or> x = y \<and> codes_less xs ys)"

definition stands_before :: "notification_row \<Rightarrow> notification_row \<Rightarrow> bool" where
  "stands_before r q \<longleftrightarrow> ntf_created_at q < ntf_created_at r \<or>
     ntf_created_at q = ntf_created_at r \<and> codes_less (char_codes (ntf_id q)) (char_codes (ntf_id r))"

fun insert_newest :: "notification_row \<Rightarrow> notification_row list \<Rightarrow> notification_row list" where
  "insert_newest r [] = [r]"
| "insert_newest r (q # qs) = (if stands_before q r then q # insert_newest r qs else r # q # qs)"

definition user_feed :: "string \<Rightarrow> string \<Rightarrow> engagement_db \<Rightarrow> notification_row list" where
  "user_feed tenant user db = fold insert_newest (filter (of_user tenant user) (edb_notifications db)) []"

text \<open>A \<open>cursor\<close> starts the list at the row with that id, wherever that row belongs; without such a row
  nothing is found.\<close>

definition from_cursor :: "string option \<Rightarrow> engagement_db \<Rightarrow> notification_row list \<Rightarrow> notification_row list" where
  "from_cursor cursor db rows = (case truthy cursor of
     None \<Rightarrow> rows
   | Some c \<Rightarrow> (case List.find (\<lambda>r. ntf_id r = c) (edb_notifications db) of
       None \<Rightarrow> []
     | Some q \<Rightarrow> drop 1 (dropWhile (\<lambda>r. stands_before r q) rows)))"

record notification_page =
  npg_items :: "notification_row list"
  npg_next_cursor :: "string option"
  npg_unread :: nat

definition page_limit :: "int option \<Rightarrow> nat" where
  "page_limit limit = nat (min (max (or_else limit 10) 1) 50)"

definition list_notifications :: "string option \<Rightarrow> int option \<Rightarrow> string \<Rightarrow> string \<Rightarrow> engagement_db \<Rightarrow> notification_page" where
  "list_notifications cursor limit tenant user db =
     (let n = page_limit limit; rows = take (n + 1) (from_cursor cursor db (user_feed tenant user db))
      in \<lparr>npg_items = take n rows,
          npg_next_cursor = (if n < length rows then Some (ntf_id (rows ! (n - 1))) else None),
          npg_unread = length (filter (\<lambda>r. of_user tenant user r \<and> \<not> ntf_is_read r) (edb_notifications db))\<rparr>)"

definition mark_read :: "ms \<Rightarrow> notification_row \<Rightarrow> notification_row" where
  "mark_read now r = r\<lparr>ntf_is_read := True, ntf_read_at := Some now\<rparr>"

definition mark_notification_as_read :: "ms \<Rightarrow> string \<Rightarrow> string \<Rightarrow> string \<Rightarrow> (engagement_db, nat) operation" where
  "mark_notification_as_read now i tenant user =
     then_do (ask (\<lambda>db. length (filter (\<lambda>r. ntf_id r = i \<and> of_user tenant user r) (edb_notifications db)))) (\<lambda>n.
     then_do (on_notifications (update_many notification_indexes (\<lambda>r. ntf_id r = i \<and> of_user tenant user r) (mark_read now)))
       (\<lambda>_. give n))"

definition mark_all_notifications_as_read :: "ms \<Rightarrow> string \<Rightarrow> string \<Rightarrow> (engagement_db, nat) operation" where
  "mark_all_notifications_as_read now tenant user =
     then_do (ask (\<lambda>db. length (filter (\<lambda>r. \<not> ntf_is_read r \<and> of_user tenant user r) (edb_notifications db)))) (\<lambda>n.
     then_do (on_notifications (update_many notification_indexes (\<lambda>r. \<not> ntf_is_read r \<and> of_user tenant user r) (mark_read now)))
       (\<lambda>_. give n))"

subsection \<open>The service\<close>

definition organization_not_found :: api_error where
  "organization_not_found = Problem 404 ''Organization not found for the active tenant context.''"

definition with_organization :: "string \<Rightarrow> (tenant_row \<Rightarrow> (engagement_db, 'a) operation) \<Rightarrow> (engagement_db, 'a) operation" where
  "with_organization reference f =
     then_do (ask (\<lambda>db. List.find (\<lambda>t. org_id t = reference \<or> org_slug t = reference \<or> org_tenant_id t = reference) (edb_tenants db)))
       (\<lambda>found. case found of None \<Rightarrow> throw organization_not_found | Some t \<Rightarrow> f t)"

definition get_notification_feed :: "string \<Rightarrow> string option \<Rightarrow> int option \<Rightarrow> string \<Rightarrow> string \<Rightarrow>
    (engagement_db, notification_page) operation" where
  "get_notification_feed i cursor limit reference user = with_organization reference (\<lambda>t.
     then_do (ensure_user_preference i (org_tenant_id t) (org_id t) user) (\<lambda>_.
     ask (list_notifications cursor limit (org_tenant_id t) user)))"

definition mark_notification_read_for_user :: "ms \<Rightarrow> string \<Rightarrow> string \<Rightarrow> string \<Rightarrow> (engagement_db, nat) operation" where
  "mark_notification_read_for_user now i reference user = with_organization reference (\<lambda>t.
     mark_notification_as_read now i (org_tenant_id t) user)"

definition mark_all_notifications_read_for_user :: "ms \<Rightarrow> string \<Rightarrow> string \<Rightarrow> (engagement_db, nat) operation" where
  "mark_all_notifications_read_for_user now reference user = with_organization reference (\<lambda>t.
     mark_all_notifications_as_read now (org_tenant_id t) user)"

definition get_notification_preferences :: "string \<Rightarrow> string \<Rightarrow> string \<Rightarrow> (engagement_db, preference_row) operation" where
  "get_notification_preferences i reference user = with_organization reference (\<lambda>t.
     ensure_user_preference i (org_tenant_id t) (org_id t) user)"

definition save_notification_preferences :: "string \<Rightarrow> preference_changes \<Rightarrow> string \<Rightarrow> string \<Rightarrow>
    (engagement_db, preference_row) operation" where
  "save_notification_preferences i c reference user = with_organization reference (\<lambda>t.
     update_user_preference i c (org_tenant_id t) (org_id t) user)"

subsection \<open>E-mails\<close>

text \<open>A template: its lines.\<close>

definition text_lines :: "string list \<Rightarrow> string" where
  "text_lines = join_with [CHR 0x0A]"

definition render_layout :: "string \<Rightarrow> string \<Rightarrow> string \<Rightarrow> string" where
  "render_layout body eyebrow heading = text_lines [
     ''<!doctype html>'',
     ''<html lang=\"pt-BR\">'',
     ''  <body style=\"margin:0;background:#f5efe4;color:#102a43;font-family:Arial,sans-serif;\">'',
     ''    <table role=\"presentation\" width=\"100%\" cellpadding=\"0\" cellspacing=\"0\" style=\"padding:24px;\">'',
     ''      <tr>'',
     ''        <td align=\"center\">'',
     ''          <table role=\"presentation\" width=\"640\" cellpadding=\"0\" cellspacing=\"0\" style=\"background:#ffffff;border-radius:18px;overflow:hidden;border:1px solid #d9e2ec;\">'',
     ''            <tr>'',
     ''              <td style=\"background:#0f766e;color:#fff;padding:20px 28px;\">'',
     ''                <div style=\"font-size:12px;letter-spacing:.16em;text-transform:uppercase;opacity:.82;\">'' @ eyebrow @ ''</div>'',
     ''                <h1 style=\"margin:10px 0 0;font-size:28px;line-height:1.2;\">'' @ heading @ ''</h1>'',
     ''              </td>'',
     ''            </tr>'',
     ''            <tr>'',
     ''              <td style=\"padding:28px;\">'',
     ''                '' @ body,
     ''              </td>'',
     ''            </tr>'',
     ''          </table>'',
     ''        </td>'',
     ''      </tr>'',
     ''    </table>'',
     ''  </body>'',
     ''</html>'']"

definition read_context_text :: "(string \<times> js_val) list \<Rightarrow> string \<Rightarrow> string \<Rightarrow> string" where
  "read_context_text c key fallback = (case obj_get c key of
     JStr s \<Rightarrow> s | JNum n \<Rightarrow> show_num n | JBool b \<Rightarrow> (if b then ''true'' else ''false'') | _ \<Rightarrow> fallback)"

definition context_link :: "(string \<times> js_val) list \<Rightarrow> string" where
  "context_link c = (case obj_get c ''link'' of JStr s \<Rightarrow> s | _ \<Rightarrow> [])"

definition render_workflow_completed_html :: "(string \<times> js_val) list \<Rightarrow> string" where
  "render_workflow_completed_html c = (let execution = read_context_text c ''executionId'' ''n/a''; agent = read_context_text c ''agentId'' ''workflow'';
          link = context_link c
      in render_layout (text_lines [[],
     ''      <p style=\"margin-top:0;\">O fluxo vinculado ao agente <strong>'' @ agent @ ''</strong> terminou com sucesso.</p>'',
     ''      <p><strong>Execucao:</strong> '' @ execution @ ''</p>'',
     ''      '' @ (if link = [] then [] else ''<p><a href=\"'' @ link @ ''\" style=\"display:inline-block;background:#0f766e;color:#fff;padding:12px 18px;border-radius:999px;text-decoration:none;\">Abrir execucao</a></p>''),
     ''      <p style=\"color:#486581;font-size:14px;\">Voce esta recebendo este aviso porque habilitou e-mails transacionais na BirthHub.</p>'',
     ''    ''])
         ''Workflow'' ''Workflow terminou'')"

definition render_critical_error_html :: "(string \<times> js_val) list \<Rightarrow> string" where
  "render_critical_error_html c = (let execution = read_context_text c ''executionId'' ''n/a''; agent = read_context_text c ''agentId'' ''agent'';
          err = read_context_text c ''errorMessage'' ''Erro nao informado.'';
          link = context_link c
      in render_layout (text_lines [[],
     ''      <p style=\"margin-top:0;\">Detectamos uma falha critica durante a execucao do agente <strong>'' @ agent @ ''</strong>.</p>'',
     ''      <p><strong>Execucao:</strong> '' @ execution @ ''</p>'',
     ''      <p><strong>Erro:</strong> '' @ err @ ''</p>'',
     ''      '' @ (if link = [] then [] else ''<p><a href=\"'' @ link @ ''\" style=\"display:inline-block;background:#b42318;color:#fff;padding:12px 18px;border-radius:999px;text-decoration:none;\">Ver log</a></p>''),
     ''      <p style=\"color:#486581;font-size:14px;\">O envio externo respeita sua preferencia de notificacoes.</p>'',
     ''    ''])
         ''Critical Error'' ''Erro critico detectado'')"

definition enqueue_email_notification :: "email_job \<Rightarrow> (engagement_db, unit) operation" where
  "enqueue_email_notification j db = (Inr (), db\<lparr>edb_email_queue := edb_email_queue db @ [j]\<rparr>)"

record mail_message =
  mail_from :: string
  mail_html :: string
  mail_subject :: string
  mail_to :: string

text \<open>What the worker is given: its address, the key of SendGrid if there is one, and what SendGrid answers,
  an error of the connection or the status with its \<open>ok\<close>.\<close>

record mail_env =
  me_from :: string
  me_sendgrid_key :: "string option"
  me_post :: "string \<Rightarrow> mail_message \<Rightarrow> string + bool \<times> int"

definition send_via_sendgrid :: "mail_env \<Rightarrow> mail_message \<Rightarrow> (engagement_db, int) operation" where
  "send_via_sendgrid E m = (case truthy (me_sendgrid_key E) of
     None \<Rightarrow> give 200
   | Some k \<Rightarrow> (case me_post E k m of
       Inl e \<Rightarrow> throw (Failure e)
     | Inr (ok, code) \<Rightarrow>
         if ok then give code else throw (Failure (''SendGrid delivery failed with status '' @ show_int code))))"

definition email_message :: "mail_env \<Rightarrow> email_job \<Rightarrow> user_row \<Rightarrow> mail_message" where
  "email_message E j u = \<lparr>mail_from = me_from E,
     mail_html = (case ejb_type j of CriticalErrorMail \<Rightarrow> render_critical_error_html (ejb_context j)
       | WorkflowCompletedMail \<Rightarrow> render_workflow_completed_html (ejb_context j)),
     mail_subject = (case ejb_type j of CriticalErrorMail \<Rightarrow> ''BirthHub360: erro critico detectado''
       | WorkflowCompletedMail \<Rightarrow> ''BirthHub360: workflow terminou''),
     mail_to = user_email u\<rparr>"

text \<open>The status, or nothing when the job is skipped.\<close>

definition process_email_notification_job :: "mail_env \<Rightarrow> string \<Rightarrow> email_job \<Rightarrow> (engagement_db, int option) operation" where
  "process_email_notification_job E i j =
     then_do (ask (\<lambda>db. List.find (\<lambda>u. user_id u = ejb_user_id j) (edb_users db))) (\<lambda>found. case found of
       None \<Rightarrow> give None
     | Some u \<Rightarrow>
         then_do (ensure_user_preference i (ejb_tenant_id j) (ejb_organization_id j) (ejb_user_id j)) (\<lambda>p.
         if \<not> prf_email p then give None
         else then_do (send_via_sendgrid E (email_message E j u)) (\<lambda>code. give (Some code))))"

end
