(* ===== verification/OutboundWebhooks.thy ===== *)
theory OutboundWebhooks
  imports Notifications
begin

text \<open>
  Outbound webhooks: the worker that delivers them (\<open>apps/worker/src/webhooks/outbound.ts\<close>) behind its
  rate limiter (\<open>apps/worker/src/lib/rate-limiter.ts\<close>), and the settings of the API
  (\<open>apps/api/src/modules/webhooks/settings.service.ts\<close>).

  The signature, the host of a URL and what a request is answered are given. A job runs without another
  in between; a row it has read is still there when it writes.
\<close>

subsection \<open>The rate limiter\<close>

text \<open>Redis counters with their expiry.\<close>

type_synonym limit_store = "(string \<times> (ms \<times> int)) list"

definition limit_key :: "ms \<Rightarrow> string \<Rightarrow> int \<Rightarrow> string" where
  "limit_key now key window = ''rate_limit:'' @ key @ '':'' @ show_int (now div 1000 div window)"

definition counted_so_far :: "ms \<Rightarrow> string \<Rightarrow> limit_store \<Rightarrow> int" where
  "counted_so_far now k s = (case map_of s k of Some (t, n) \<Rightarrow> if now < t then n else 0 | None \<Rightarrow> 0)"

text \<open>\<open>INCR\<close> and \<open>EXPIRE\<close>, then the comparison: a refused call has been counted too.\<close>

definition consume_limit :: "ms \<Rightarrow> string \<Rightarrow> int \<Rightarrow> int \<Rightarrow> (limit_store, unit) operation" where
  "consume_limit now key limit window s =
     (let k = limit_key now key window; n = counted_so_far now k s + 1;
          s' = AList.update k (now + window * 2 * 1000, n) s
      in if limit < n then (Inl (Failure (''Rate limit exceeded for key: '' @ key)), s') else (Inr (), s'))"

subsection \<open>Delivery\<close>

record delivery_world =
  ww_db :: engagement_db
  ww_limits :: limit_store

record webhook_env =
  we_now :: ms
  we_delivery_id :: string
  we_sign :: "string \<Rightarrow> string \<Rightarrow> string"
  we_host :: "string \<Rightarrow> string option"
  we_request :: "string \<Rightarrow> string \<Rightarrow> string \<Rightarrow> string \<Rightarrow> string + bool \<times> int \<times> string"
  we_limited :: bool

definition on_endpoints :: "(endpoint_row list \<Rightarrow> db_error + endpoint_row list) \<Rightarrow> (delivery_world, unit) operation" where
  "on_endpoints = on_table (\<lambda>w. edb_endpoints (ww_db w)) (\<lambda>rows w. w\<lparr>ww_db := (ww_db w)\<lparr>edb_endpoints := rows\<rparr>\<rparr>)"

definition on_deliveries :: "(delivery_row list \<Rightarrow> db_error + delivery_row list) \<Rightarrow> (delivery_world, unit) operation" where
  "on_deliveries = on_table (\<lambda>w. edb_deliveries (ww_db w)) (\<lambda>rows w. w\<lparr>ww_db := (ww_db w)\<lparr>edb_deliveries := rows\<rparr>\<rparr>)"

definition on_limits :: "(limit_store, 'a) operation \<Rightarrow> (delivery_world, 'a) operation" where
  "on_limits = on_part ww_limits (\<lambda>l w. w\<lparr>ww_limits := l\<rparr>)"

definition endpoint_indexes :: "endpoint_row index list" where
  "endpoint_indexes = [(''id'', \<lambda>r. Some (wep_id r))]"

definition delivery_indexes :: "delivery_row index list" where
  "delivery_indexes = [(''id'', \<lambda>r. Some (dlv_id r))]"

definition update_endpoint :: "string \<Rightarrow> (endpoint_row \<Rightarrow> endpoint_row) \<Rightarrow> (delivery_world, unit) operation" where
  "update_endpoint i f = on_endpoints (update_unique ''webhookEndpoint'' endpoint_indexes (\<lambda>r. wep_id r = i) f)"

definition update_delivery :: "string \<Rightarrow> (delivery_row \<Rightarrow> delivery_row) \<Rightarrow> (delivery_world, unit) operation" where
  "update_delivery i f = on_deliveries (update_unique ''webhookDelivery'' delivery_indexes (\<lambda>r. dlv_id r = i) f)"

definition failure_limit :: int where
  "failure_limit = 10"

text \<open>The counter is set from the row the job has read, and with it the status, whatever it is by now.\<close>

definition count_failure :: "ms \<Rightarrow> endpoint_row \<Rightarrow> endpoint_row \<Rightarrow> endpoint_row" where
  "count_failure now read r = (let n = wep_failures read + 1
     in r\<lparr>wep_failures := n, wep_last_failure_at := Some now,
          wep_status := (if failure_limit \<le> n then EndpointDisabled else EndpointActive)\<rparr>)"

definition rate_limit_delivery :: "webhook_env \<Rightarrow> webhook_job \<Rightarrow> endpoint_row \<Rightarrow> (delivery_world, unit) operation" where
  "rate_limit_delivery E j p =
     (if \<not> we_limited E then give ()
      else case we_host E (wep_url p) of
        None \<Rightarrow> throw (Failure ''Invalid URL'')
      | Some host \<Rightarrow> on_limits (consume_limit (we_now E) (''webhook:'' @ wjb_tenant_id j @ '':'' @ host) 10 1))"

text \<open>The body of the \<open>try\<close>.\<close>

definition deliver :: "webhook_env \<Rightarrow> webhook_job \<Rightarrow> endpoint_row \<Rightarrow> string \<Rightarrow> (delivery_world, string \<times> int) operation" where
  "deliver E j p text =
     then_do (rate_limit_delivery E j p) (\<lambda>_.
     case we_request E (wep_url p) text (we_sign E (wep_secret p) text) (wjb_topic j) of
       Inl m \<Rightarrow> throw (Failure m)
     | Inr (ok, code, body) \<Rightarrow>
         then_do (update_delivery (we_delivery_id E) (\<lambda>d. d\<lparr>dlv_delivered_at := Some (we_now E), dlv_response_body := Some body,
           dlv_status_code := Some code, dlv_success := ok\<rparr>)) (\<lambda>_.
         if \<not> ok then
           then_do (update_endpoint (wep_id p) (count_failure (we_now E) p)) (\<lambda>_.
           throw (Failure (''Webhook delivery failed with status '' @ show_int code)))
         else
           then_do (update_endpoint (wep_id p) (\<lambda>r. r\<lparr>wep_failures := 0, wep_last_delivered_at := Some (we_now E)\<rparr>)) (\<lambda>_.
           give (we_delivery_id E, code))))"

definition error_text :: "api_error \<Rightarrow> string" where
  "error_text e = (case e of Failure m \<Rightarrow> m | External m \<Rightarrow> m | CacheFailure m \<Rightarrow> m | Problem _ m \<Rightarrow> m | Database _ \<Rightarrow> [])"

text \<open>The \<open>catch\<close>: an error whose text has the word in it is taken for one that has been counted.\<close>

definition deliver_or_record :: "webhook_env \<Rightarrow> webhook_job \<Rightarrow> endpoint_row \<Rightarrow> string \<Rightarrow> (delivery_world, string \<times> int) operation" where
  "deliver_or_record E j p text w = (case deliver E j p text w of
     (Inr v, w') \<Rightarrow> (Inr v, w')
   | (Inl e, w') \<Rightarrow>
       then_do (update_delivery (we_delivery_id E) (\<lambda>d. d\<lparr>dlv_error_message := Some (error_text e)\<rparr>)) (\<lambda>_.
       then_do (if str_includes (error_text e) ''status'' then give ()
         else update_endpoint (wep_id p) (count_failure (we_now E) p)) (\<lambda>_.
       throw e)) w')"

datatype delivery_answer = DeliverySkipped | DeliverySent string int

definition process_outbound_webhook_job :: "webhook_env \<Rightarrow> webhook_job \<Rightarrow> (delivery_world, delivery_answer) operation" where
  "process_outbound_webhook_job E j =
     then_do (ask (\<lambda>w. List.find (\<lambda>r. wep_id r = wjb_endpoint_id j) (edb_endpoints (ww_db w)))) (\<lambda>found. case found of
       None \<Rightarrow> give DeliverySkipped
     | Some p \<Rightarrow>
         if wep_status p = EndpointDisabled then give DeliverySkipped
         else if \<not> List.member (wep_topics p) (wjb_topic j) then give DeliverySkipped
         else let text = or_else (stringify (JObj (wjb_payload j))) [];
                d = \<lparr>dlv_id = we_delivery_id E, dlv_endpoint_id = wep_id p, dlv_tenant_id = wjb_tenant_id j,
                  dlv_organization_id = wjb_organization_id j, dlv_topic = wjb_topic j, dlv_payload = JObj (wjb_payload j),
                  dlv_signature = we_sign E (wep_secret p) text, dlv_attempt = or_else (wjb_attempt j) 1, dlv_success = False,
                  dlv_status_code = None, dlv_response_body = None, dlv_error_message = None, dlv_delivered_at = None,
                  dlv_created_at = we_now E\<rparr>
           in then_do (on_deliveries (create_row delivery_indexes d)) (\<lambda>_.
              then_do (deliver_or_record E j p text) (\<lambda>(i, code). give (DeliverySent i code))))"

text \<open>One job for every active endpoint of the organization that has the topic.\<close>

definition enqueue_webhook_topic_deliveries :: "string \<Rightarrow> (string \<times> js_val) list \<Rightarrow> string \<Rightarrow> string \<Rightarrow>
    (engagement_db, unit) operation" where
  "enqueue_webhook_topic_deliveries org payload tenant topic db =
     (Inr (), db\<lparr>edb_webhook_queue := edb_webhook_queue db @ map (\<lambda>p. \<lparr>wjb_attempt = Some 1, wjb_endpoint_id = wep_id p,
         wjb_organization_id = org, wjb_payload = payload, wjb_tenant_id = tenant, wjb_topic = topic\<rparr>)
       (filter (\<lambda>p. wep_organization_id p = org \<and> wep_status p = EndpointActive \<and> List.member (wep_topics p) topic)
         (edb_endpoints db))\<rparr>)"

subsection \<open>The settings\<close>

definition list_tenant_webhook_endpoints :: "string \<Rightarrow> (engagement_db, (endpoint_row \<times> nat) list) operation" where
  "list_tenant_webhook_endpoints reference = with_organization reference (\<lambda>t.
     ask (\<lambda>db. map (\<lambda>p. (p, length (filter (\<lambda>d. dlv_endpoint_id d = wep_id p) (edb_deliveries db))))
       (sort_key (\<lambda>p. - wep_created_at p) (filter (\<lambda>p. wep_organization_id p = org_id t) (edb_endpoints db)))))"

definition on_engagement_endpoints :: "(endpoint_row list \<Rightarrow> db_error + endpoint_row list) \<Rightarrow> (engagement_db, unit) operation" where
  "on_engagement_endpoints = on_table edb_endpoints (\<lambda>rows db. db\<lparr>edb_endpoints := rows\<rparr>)"

definition create_tenant_webhook_endpoint :: "string \<Rightarrow> string \<Rightarrow> ms \<Rightarrow> string option \<Rightarrow> string \<Rightarrow> string list \<Rightarrow> string \<Rightarrow>
    (engagement_db, endpoint_row) operation" where
  "create_tenant_webhook_endpoint i secret now creator reference topics url = with_organization reference (\<lambda>t.
     let p = \<lparr>wep_id = i, wep_tenant_id = org_tenant_id t, wep_organization_id = org_id t, wep_created_by = creator,
           wep_url = url, wep_secret = secret, wep_topics = topics, wep_status = EndpointActive, wep_failures = 0,
           wep_last_delivered_at = None, wep_last_failure_at = None, wep_created_at = now\<rparr>
     in then_do (on_engagement_endpoints (create_row endpoint_indexes p)) (\<lambda>_. give p))"

definition change_endpoint :: "endpoint_status option \<Rightarrow> string list option \<Rightarrow> string option \<Rightarrow> endpoint_row \<Rightarrow> endpoint_row" where
  "change_endpoint status topics url p = p\<lparr>wep_status := or_else status (wep_status p),
     wep_topics := or_else topics (wep_topics p), wep_url := or_else url (wep_url p)\<rparr>"

definition update_tenant_webhook_endpoint :: "string \<Rightarrow> endpoint_status option \<Rightarrow> string \<Rightarrow> string list option \<Rightarrow> string option \<Rightarrow>
    (engagement_db, endpoint_row) operation" where
  "update_tenant_webhook_endpoint i status reference topics url = with_organization reference (\<lambda>t.
     then_do (ask (\<lambda>db. List.find (\<lambda>p. wep_id p = i \<and> wep_organization_id p = org_id t) (edb_endpoints db))) (\<lambda>found. case found of
       None \<Rightarrow> throw (Problem 404 ''Webhook endpoint not found for the active tenant.'')
     | Some p \<Rightarrow> then_do (on_engagement_endpoints (update_unique ''webhookEndpoint'' endpoint_indexes (\<lambda>r. wep_id r = wep_id p)
           (change_endpoint status topics url))) (\<lambda>_. give (change_endpoint status topics url p))))"

definition list_tenant_webhook_deliveries :: "string \<Rightarrow> int option \<Rightarrow> string \<Rightarrow> (engagement_db, delivery_row list) operation" where
  "list_tenant_webhook_deliveries i limit reference = with_organization reference (\<lambda>t.
     ask (\<lambda>db. take (nat (min (max (or_else limit 25) 1) 100)) (sort_key (\<lambda>d. - dlv_created_at d)
       (filter (\<lambda>d. dlv_endpoint_id d = i \<and> dlv_organization_id d = org_id t) (edb_deliveries db)))))"

definition payload_fields :: "js_val \<Rightarrow> (string \<times> js_val) list" where
  "payload_fields v = (case v of JObj fs \<Rightarrow> fs | _ \<Rightarrow> [])"

definition retry_webhook_delivery :: "string \<Rightarrow> string \<Rightarrow> (engagement_db, string \<times> string) operation" where
  "retry_webhook_delivery i reference = with_organization reference (\<lambda>t.
     then_do (ask (\<lambda>db. List.find (\<lambda>d. dlv_id d = i \<and> dlv_organization_id d = org_id t) (edb_deliveries db))) (\<lambda>found. case found of
       None \<Rightarrow> throw (Problem 404 ''Webhook delivery not found for the active tenant.'')
     | Some d \<Rightarrow> (\<lambda>db. (Inr (dlv_endpoint_id d, dlv_topic d),
         db\<lparr>edb_webhook_queue := edb_webhook_queue db @ [\<lparr>wjb_attempt = Some 1, wjb_endpoint_id = dlv_endpoint_id d,
           wjb_organization_id = dlv_organization_id d, wjb_payload = payload_fields (dlv_payload d),
           wjb_tenant_id = dlv_tenant_id d, wjb_topic = dlv_topic d\<rparr>]\<rparr>))))"

end
