(* ===== verification/WebhooksCorrect.thy ===== *)
theory WebhooksCorrect
  imports OutboundWebhooks
begin

text \<open>
  The circuit of an endpoint. Whatever jobs the worker takes and in whatever order, the counter and the
  status of an endpoint follow a small automaton driven by how the attempts on it ended; and the worker's own
  rate limiter is one of the things that end an attempt.
\<close>

subsection \<open>The automaton\<close>

datatype delivery_end = Succeeded | CountedFailure | UncountedFailure

type_synonym circuit = "int \<times> bool"

text \<open>The failures in a row and whether the endpoint is still served.\<close>

fun circuit_step :: "delivery_end \<Rightarrow> circuit \<Rightarrow> circuit" where
  "circuit_step a (n, False) = (n, False)"
| "circuit_step Succeeded (n, True) = (0, True)"
| "circuit_step CountedFailure (n, True) = (n + 1, n + 1 < failure_limit)"
| "circuit_step UncountedFailure (n, True) = (n, True)"

definition circuit_of :: "endpoint_row \<Rightarrow> circuit" where
  "circuit_of p = (wep_failures p, wep_status p = EndpointActive)"

definition failed_with :: "string \<Rightarrow> delivery_end" where
  "failed_with m = (if str_includes m ''status'' then UncountedFailure else CountedFailure)"

definition limiter_refusal :: "webhook_env \<Rightarrow> webhook_job \<Rightarrow> endpoint_row \<Rightarrow> limit_store \<Rightarrow> string option" where
  "limiter_refusal E j p l =
     (if \<not> we_limited E then None
      else case we_host E (wep_url p) of
        None \<Rightarrow> Some ''Invalid URL''
      | Some host \<Rightarrow> (case fst (consume_limit (we_now E) (''webhook:'' @ wjb_tenant_id j @ '':'' @ host) 10 1 l) of
          Inl e \<Rightarrow> Some (error_text e) | Inr _ \<Rightarrow> None))"

definition job_text :: "webhook_job \<Rightarrow> string" where
  "job_text j = or_else (stringify (JObj (wjb_payload j))) []"

definition attempt_of :: "webhook_env \<Rightarrow> webhook_job \<Rightarrow> endpoint_row \<Rightarrow> limit_store \<Rightarrow> delivery_end" where
  "attempt_of E j p l = (case limiter_refusal E j p l of
     Some m \<Rightarrow> failed_with m
   | None \<Rightarrow> (case we_request E (wep_url p) (job_text j) (we_sign E (wep_secret p) (job_text j)) (wjb_topic j) of
       Inl m \<Rightarrow> failed_with m
     | Inr (ok, _, _) \<Rightarrow> if ok then Succeeded else CountedFailure))"

definition find_endpoint :: "string \<Rightarrow> delivery_world \<Rightarrow> endpoint_row option" where
  "find_endpoint i w = List.find (\<lambda>r. wep_id r = i) (edb_endpoints (ww_db w))"

definition served :: "webhook_job \<Rightarrow> endpoint_row \<Rightarrow> bool" where
  "served j p \<longleftrightarrow> wep_status p = EndpointActive \<and> List.member (wep_topics p) (wjb_topic j)"

text \<open>The attempts a sequence of jobs makes on one endpoint.\<close>

definition run_job :: "webhook_env \<times> webhook_job \<Rightarrow> delivery_world \<Rightarrow> delivery_world" where
  "run_job = (\<lambda>(E, j) w. snd (process_outbound_webhook_job E j w))"

fun attempts_on :: "string \<Rightarrow> (webhook_env \<times> webhook_job) list \<Rightarrow> delivery_world \<Rightarrow> delivery_end list" where
  "attempts_on i [] w = []"
| "attempts_on i ((E, j) # js) w =
     (case find_endpoint i w of
        Some p \<Rightarrow> if wjb_endpoint_id j = i \<and> served j p then [attempt_of E j p (ww_limits w)] else []
      | None \<Rightarrow> []) @ attempts_on i js (run_job (E, j) w)"

subsection \<open>One job\<close>

definition tables_ok :: "delivery_world \<Rightarrow> bool" where
  "tables_ok w \<longleftrightarrow> indexes_ok endpoint_indexes (edb_endpoints (ww_db w)) \<and> indexes_ok delivery_indexes (edb_deliveries (ww_db w))"

definition fresh_delivery :: "string \<Rightarrow> delivery_world \<Rightarrow> bool" where
  "fresh_delivery i w \<longleftrightarrow> i \<notin> dlv_id ` set (edb_deliveries (ww_db w))"

definition set_endpoints :: "(endpoint_row list \<Rightarrow> endpoint_row list) \<Rightarrow> delivery_world \<Rightarrow> delivery_world" where
  "set_endpoints f w = w\<lparr>ww_db := (ww_db w)\<lparr>edb_endpoints := f (edb_endpoints (ww_db w))\<rparr>\<rparr>"

definition set_deliveries :: "(delivery_row list \<Rightarrow> delivery_row list) \<Rightarrow> delivery_world \<Rightarrow> delivery_world" where
  "set_deliveries f w = w\<lparr>ww_db := (ww_db w)\<lparr>edb_deliveries := f (edb_deliveries (ww_db w))\<rparr>\<rparr>"

lemma set_parts [simp]:
  "edb_endpoints (ww_db (set_endpoints f w)) = f (edb_endpoints (ww_db w))"
  "edb_deliveries (ww_db (set_endpoints f w)) = edb_deliveries (ww_db w)"
  "ww_limits (set_endpoints f w) = ww_limits w"
  "edb_endpoints (ww_db (set_deliveries g w)) = edb_endpoints (ww_db w)"
  "edb_deliveries (ww_db (set_deliveries g w)) = g (edb_deliveries (ww_db w))"
  "ww_limits (set_deliveries g w) = ww_limits w"
  by (simp_all add: set_endpoints_def set_deliveries_def)

lemma update_endpoint_run:
  assumes "tables_ok w" and "p \<in> set (edb_endpoints (ww_db w))" and "wep_id p = i" and "\<And>r. wep_id (f r) = wep_id r"
  shows "update_endpoint i f w = (Inr (), set_endpoints (update_where (\<lambda>r. wep_id r = i) f) w)"
proof -
  have "indexes_ok endpoint_indexes (update_where (\<lambda>r. wep_id r = i) f (edb_endpoints (ww_db w)))"
    using assms(1,4) unfolding tables_ok_def by (intro indexes_ok_update_keep) (auto simp: endpoint_indexes_def)
  then show ?thesis using assms(2,3) by (auto simp: update_endpoint_def on_endpoints_def table_simps set_endpoints_def)
qed

lemma update_delivery_run:
  assumes "tables_ok w" and "d \<in> set (edb_deliveries (ww_db w))" and "dlv_id d = i" and "\<And>r. dlv_id (f r) = dlv_id r"
  shows "update_delivery i f w = (Inr (), set_deliveries (update_where (\<lambda>r. dlv_id r = i) f) w)"
proof -
  have "indexes_ok delivery_indexes (update_where (\<lambda>r. dlv_id r = i) f (edb_deliveries (ww_db w)))"
    using assms(1,4) unfolding tables_ok_def by (intro indexes_ok_update_keep) (auto simp: delivery_indexes_def)
  then show ?thesis using assms(2,3) by (auto simp: update_delivery_def on_deliveries_def table_simps set_deliveries_def)
qed

lemma map_filter_keys: "List.map_filter (\<lambda>r. Some (f r)) xs = map f xs"
  by (induction xs) (auto simp: map_filter_simps)

lemma tables_ok_ids: "tables_ok w \<longleftrightarrow>
    distinct (map wep_id (edb_endpoints (ww_db w))) \<and> distinct (map dlv_id (edb_deliveries (ww_db w)))"
  by (simp add: tables_ok_def indexes_ok_def index_ok_def endpoint_indexes_def delivery_indexes_def map_filter_keys)

lemma ids_update [simp]: "(\<And>r. wep_id (f r) = wep_id r) \<Longrightarrow> map wep_id (update_where P f rows) = map wep_id rows"
  by (simp add: update_where_def)

lemma delivery_ids_update [simp]: "(\<And>r. dlv_id (f r) = dlv_id r) \<Longrightarrow> map dlv_id (update_where P f rows) = map dlv_id rows"
  by (simp add: update_where_def)

text \<open>What an attempt does to the endpoints: nothing, or a change of its own row that leaves the settings alone.\<close>

definition same_settings :: "endpoint_row \<Rightarrow> endpoint_row \<Rightarrow> bool" where
  "same_settings q p \<longleftrightarrow> wep_id q = wep_id p \<and> wep_url q = wep_url p \<and> wep_secret q = wep_secret p \<and>
     wep_topics q = wep_topics p \<and> wep_organization_id q = wep_organization_id p"

definition attempt_leads :: "endpoint_row \<Rightarrow> delivery_end \<Rightarrow> delivery_world \<Rightarrow> delivery_world \<Rightarrow> bool" where
  "attempt_leads p a w w' \<longleftrightarrow> map dlv_id (edb_deliveries (ww_db w')) = map dlv_id (edb_deliveries (ww_db w)) \<and>
     (\<exists>f. edb_endpoints (ww_db w') = update_where (\<lambda>r. wep_id r = wep_id p) f (edb_endpoints (ww_db w)) \<and>
        (\<forall>r. same_settings (f r) r) \<and> circuit_of (f p) = circuit_step a (circuit_of p))"

definition limits_after :: "webhook_env \<Rightarrow> webhook_job \<Rightarrow> endpoint_row \<Rightarrow> limit_store \<Rightarrow> limit_store" where
  "limits_after E j p l = (if \<not> we_limited E then l else case we_host E (wep_url p) of None \<Rightarrow> l
     | Some host \<Rightarrow> snd (consume_limit (we_now E) (''webhook:'' @ wjb_tenant_id j @ '':'' @ host) 10 1 l))"

lemma rate_limit_run:
  "\<exists>w'. ww_db w' = ww_db w \<and> ww_limits w' = limits_after E j p (ww_limits w) \<and>
     (case limiter_refusal E j p (ww_limits w) of
        Some m \<Rightarrow> \<exists>e. rate_limit_delivery E j p w = (Inl e, w') \<and> error_text e = m
      | None \<Rightarrow> rate_limit_delivery E j p w = (Inr (), w'))"
proof (cases "we_limited E")
  case False
  then show ?thesis by (simp add: rate_limit_delivery_def limiter_refusal_def limits_after_def give_def)
next
  case limited: True
  show ?thesis
  proof (cases "we_host E (wep_url p)")
    case None
    then show ?thesis using limited
      by (simp add: rate_limit_delivery_def limiter_refusal_def limits_after_def throw_def error_text_def)
  next
    case (Some host)
    obtain r l where c: "consume_limit (we_now E) (''webhook:'' @ wjb_tenant_id j @ '':'' @ host) 10 1 (ww_limits w) = (r, l)"
      by fastforce
    show ?thesis using limited Some c
      by (intro exI[of _ "w\<lparr>ww_limits := l\<rparr>"])
        (auto simp: rate_limit_delivery_def limiter_refusal_def limits_after_def on_limits_def on_part_def split: sum.split)
  qed
qed

lemma status_in_refusal: "str_includes (''Webhook delivery failed with status '' @ s) ''status''"
  by simp

lemma count_failure_settings: "same_settings (count_failure now p r) r"
  by (simp add: count_failure_def same_settings_def Let_def)

lemma circuit_of_count_failure:
  "wep_status p = EndpointActive \<Longrightarrow> circuit_of (count_failure now p p) = circuit_step CountedFailure (circuit_of p)"
  by (auto simp: circuit_of_def count_failure_def Let_def)

lemma leads_trans:
  assumes "attempt_leads p a w w'" and "edb_endpoints (ww_db w'') = edb_endpoints (ww_db w')"
    and "map dlv_id (edb_deliveries (ww_db w'')) = map dlv_id (edb_deliveries (ww_db w'))"
  shows "attempt_leads p a w w''"
  using assms by (simp add: attempt_leads_def)

lemma leads_start:
  assumes "attempt_leads p a w' w''" and "edb_endpoints (ww_db w') = edb_endpoints (ww_db w)"
    and "map dlv_id (edb_deliveries (ww_db w')) = map dlv_id (edb_deliveries (ww_db w))"
  shows "attempt_leads p a w w''"
  using assms by (simp add: attempt_leads_def)

lemma leads_tables_ok: "attempt_leads p a w w' \<Longrightarrow> tables_ok w \<Longrightarrow> tables_ok w'"
  by (auto simp: attempt_leads_def tables_ok_ids same_settings_def)

lemma leads_idle: "wep_status p = EndpointActive \<Longrightarrow> attempt_leads p UncountedFailure w w"
  unfolding attempt_leads_def by (intro conjI exI[of _ "\<lambda>r. r"])
    (auto simp: same_settings_def circuit_of_def update_where_def)

lemma leads_update:
  assumes "\<And>r. same_settings (f r) r" and "circuit_of (f p) = circuit_step a (circuit_of p)"
  shows "attempt_leads p a w (set_endpoints (update_where (\<lambda>r. wep_id r = wep_id p) f) w)"
  using assms by (auto simp: attempt_leads_def)

text \<open>The \<open>catch\<close>: the text of the error is put down, and the failure counted or not.\<close>

definition record_failure :: "webhook_env \<Rightarrow> endpoint_row \<Rightarrow> api_error \<Rightarrow> (delivery_world, string \<times> int) operation" where
  "record_failure E p e = then_do (update_delivery (we_delivery_id E) (\<lambda>d. d\<lparr>dlv_error_message := Some (error_text e)\<rparr>)) (\<lambda>_.
     then_do (if str_includes (error_text e) ''status'' then give ()
       else update_endpoint (wep_id p) (count_failure (we_now E) p)) (\<lambda>_.
     throw e))"

definition at_work :: "webhook_env \<Rightarrow> endpoint_row \<Rightarrow> delivery_world \<Rightarrow> bool" where
  "at_work E p w \<longleftrightarrow> tables_ok w \<and> wep_id p \<in> wep_id ` set (edb_endpoints (ww_db w)) \<and> wep_status p = EndpointActive \<and>
     we_delivery_id E \<in> dlv_id ` set (edb_deliveries (ww_db w))"

lemma at_work_update_endpoint:
  assumes "at_work E p w" and "\<And>r. wep_id (f r) = wep_id r"
  shows "update_endpoint (wep_id p) f w = (Inr (), set_endpoints (update_where (\<lambda>r. wep_id r = wep_id p) f) w)"
  using assms update_endpoint_run[of w _ "wep_id p" f] by (auto simp: at_work_def)

lemma at_work_update_delivery:
  assumes "at_work E p w" and "\<And>r. dlv_id (f r) = dlv_id r"
  shows "\<exists>w'. update_delivery (we_delivery_id E) f w = (Inr (), w') \<and> at_work E p w' \<and> ww_limits w' = ww_limits w \<and>
    edb_endpoints (ww_db w') = edb_endpoints (ww_db w) \<and>
    map dlv_id (edb_deliveries (ww_db w')) = map dlv_id (edb_deliveries (ww_db w))"
proof -
  from assms obtain d where d: "d \<in> set (edb_deliveries (ww_db w))" "dlv_id d = we_delivery_id E" "tables_ok w"
    by (auto simp: at_work_def)
  note * = update_delivery_run[OF d(3,1,2), of f, OF assms(2)]
  have ids: "dlv_id ` set (edb_deliveries (ww_db (set_deliveries (update_where P f) w))) = dlv_id ` set (edb_deliveries (ww_db w))" for P
    using assms(2) by (simp flip: set_map)
  show ?thesis
    using assms(1) ids by (intro exI[of _ "set_deliveries (update_where (\<lambda>r. dlv_id r = we_delivery_id E) f) w"])
      (simp add: * at_work_def tables_ok_ids assms(2))
qed

lemma record_failure_run:
  assumes "at_work E p w"
  obtains w' where "record_failure E p e w = (Inl e, w')" and "attempt_leads p (failed_with (error_text e)) w w'"
    and "ww_limits w' = ww_limits w"
proof -
  define f :: "delivery_row \<Rightarrow> delivery_row" where "f = (\<lambda>d. d\<lparr>dlv_error_message := Some (error_text e)\<rparr>)"
  from at_work_update_delivery[OF assms, of f] obtain w1 where
    1: "update_delivery (we_delivery_id E) f w = (Inr (), w1)" "at_work E p w1" "ww_limits w1 = ww_limits w"
      "edb_endpoints (ww_db w1) = edb_endpoints (ww_db w)"
      "map dlv_id (edb_deliveries (ww_db w1)) = map dlv_id (edb_deliveries (ww_db w))"
    by (auto simp: f_def)
  have active: "wep_status p = EndpointActive" using assms by (simp add: at_work_def)
  define w2 where "w2 = (if str_includes (error_text e) ''status'' then w1
    else set_endpoints (update_where (\<lambda>r. wep_id r = wep_id p) (count_failure (we_now E) p)) w1)"
  have "attempt_leads p (failed_with (error_text e)) w1 w2"
    using leads_idle[OF active] leads_update[of "count_failure (we_now E) p" p CountedFailure] count_failure_settings
      circuit_of_count_failure[OF active] by (auto simp: w2_def failed_with_def)
  then have "attempt_leads p (failed_with (error_text e)) w w2" using 1(4,5) by (rule leads_start)
  moreover have "record_failure E p e w = (Inl e, w2)"
    using at_work_update_endpoint[OF 1(2), of "count_failure (we_now E) p"] count_failure_settings
    by (auto simp: record_failure_def f_def[symmetric] 1(1) then_do_def w2_def throw_def give_def same_settings_def)
  moreover have "ww_limits w2 = ww_limits w" by (simp add: w2_def 1(3))
  ultimately show thesis using that by blast
qed

lemma deliver_or_record_eq: "deliver_or_record E j p t w = (case deliver E j p t w of
     (Inr v, w') \<Rightarrow> (Inr v, w') | (Inl e, w') \<Rightarrow> record_failure E p e w')"
  by (simp add: deliver_or_record_def record_failure_def split: prod.split sum.split)

text \<open>The answer of the endpoint, once the limiter has let the attempt pass.\<close>

definition take_answer :: "webhook_env \<Rightarrow> endpoint_row \<Rightarrow> bool \<Rightarrow> int \<Rightarrow> string \<Rightarrow> (delivery_world, string \<times> int) operation" where
  "take_answer E p ok code body =
     then_do (update_delivery (we_delivery_id E) (\<lambda>d. d\<lparr>dlv_delivered_at := Some (we_now E), dlv_response_body := Some body,
       dlv_status_code := Some code, dlv_success := ok\<rparr>)) (\<lambda>_.
     if \<not> ok then
       then_do (update_endpoint (wep_id p) (count_failure (we_now E) p)) (\<lambda>_.
       throw (Failure (''Webhook delivery failed with status '' @ show_int code)))
     else
       then_do (update_endpoint (wep_id p) (\<lambda>r. r\<lparr>wep_failures := 0, wep_last_delivered_at := Some (we_now E)\<rparr>)) (\<lambda>_.
       give (we_delivery_id E, code)))"

lemma take_answer_run:
  assumes "at_work E p w"
  obtains r w' where "take_answer E p ok code body w = (r, w')" and "at_work E p w'" and "ww_limits w' = ww_limits w"
    and "attempt_leads p (if ok then Succeeded else CountedFailure) w w'"
    and "r = (if ok then Inr (we_delivery_id E, code) else Inl (Failure (''Webhook delivery failed with status '' @ show_int code)))"
proof -
  define f :: "delivery_row \<Rightarrow> delivery_row" where "f = (\<lambda>d. d\<lparr>dlv_delivered_at := Some (we_now E), dlv_response_body := Some body,
       dlv_status_code := Some code, dlv_success := ok\<rparr>)"
  from at_work_update_delivery[OF assms, of f] obtain w1 where
    1: "update_delivery (we_delivery_id E) f w = (Inr (), w1)" "at_work E p w1" "ww_limits w1 = ww_limits w"
      "edb_endpoints (ww_db w1) = edb_endpoints (ww_db w)"
      "map dlv_id (edb_deliveries (ww_db w1)) = map dlv_id (edb_deliveries (ww_db w))"
    by (auto simp: f_def)
  define g where "g = (if ok then (\<lambda>r. r\<lparr>wep_failures := 0, wep_last_delivered_at := Some (we_now E)\<rparr>)
    else count_failure (we_now E) p)"
  have g: "same_settings (g r) r" for r using count_failure_settings by (auto simp: g_def same_settings_def)
  define w2 where "w2 = set_endpoints (update_where (\<lambda>r. wep_id r = wep_id p) g) w1"
  have active: "wep_status p = EndpointActive" using assms by (simp add: at_work_def)
  have "circuit_of (g p) = circuit_step (if ok then Succeeded else CountedFailure) (circuit_of p)"
    using circuit_of_count_failure[OF active] active by (auto simp: g_def circuit_of_def)
  from leads_update[OF g this] have "attempt_leads p (if ok then Succeeded else CountedFailure) w1 w2" by (simp add: w2_def)
  then have leads: "attempt_leads p (if ok then Succeeded else CountedFailure) w w2" using 1(4,5) by (rule leads_start)
  have "at_work E p w2"
    using 1(2) g by (auto simp: at_work_def tables_ok_ids w2_def same_settings_def simp flip: set_map)
  moreover have "update_endpoint (wep_id p) g w1 = (Inr (), w2)"
    using at_work_update_endpoint[OF 1(2), of g] g by (simp add: w2_def same_settings_def)
  then have "take_answer E p ok code body w = (if ok then Inr (we_delivery_id E, code)
      else Inl (Failure (''Webhook delivery failed with status '' @ show_int code)), w2)"
    by (auto simp: take_answer_def f_def[symmetric] 1(1) then_do_def throw_def give_def g_def)
  ultimately show thesis using leads 1(3) by (intro that) (auto simp: w2_def)
qed

lemma deliver_eq: "deliver E j p t = then_do (rate_limit_delivery E j p) (\<lambda>_.
     case we_request E (wep_url p) t (we_sign E (wep_secret p) t) (wjb_topic j) of
       Inl m \<Rightarrow> throw (Failure m)
     | Inr (ok, code, body) \<Rightarrow> take_answer E p ok code body)"
  unfolding deliver_def take_answer_def by (rule refl)

lemma deliver_or_record_run:
  assumes "at_work E p w"
  shows "\<exists>r w'. deliver_or_record E j p (job_text j) w = (r, w') \<and>
    attempt_leads p (attempt_of E j p (ww_limits w)) w w' \<and> ww_limits w' = limits_after E j p (ww_limits w)"
proof -
  let ?catch = "\<lambda>x. case x of (Inr v, w') \<Rightarrow> (Inr v, w') | (Inl e, w') \<Rightarrow> record_failure E p e w'"
  obtain w1 where w1: "ww_db w1 = ww_db w" "ww_limits w1 = limits_after E j p (ww_limits w)"
    and lim: "case limiter_refusal E j p (ww_limits w) of
        Some m \<Rightarrow> \<exists>e. rate_limit_delivery E j p w = (Inl e, w1) \<and> error_text e = m
      | None \<Rightarrow> rate_limit_delivery E j p w = (Inr (), w1)"
    using rate_limit_run[where E = E and j = j and p = p and w = w] by blast
  have at: "at_work E p w1" using assms w1(1) by (simp add: at_work_def tables_ok_def)
  have failed: "\<exists>r w'. record_failure E p e w1 = (r, w') \<and> attempt_leads p (failed_with (error_text e)) w w' \<and>
      ww_limits w' = limits_after E j p (ww_limits w)" for e
    by (rule record_failure_run[OF at, of e]) (use w1 leads_start in fastforce)
  show ?thesis
  proof (cases "limiter_refusal E j p (ww_limits w)")
    case (Some m)
    with lim obtain e where "deliver E j p (job_text j) w = (Inl e, w1)" "error_text e = m"
      by (auto simp: deliver_eq then_do_def)
    with failed[of e] Some show ?thesis by (simp add: deliver_or_record_eq attempt_of_def)
  next
    case None
    let ?answer = "we_request E (wep_url p) (job_text j) (we_sign E (wep_secret p) (job_text j)) (wjb_topic j)"
    from None lim have pass: "deliver E j p (job_text j) w = (case ?answer of Inl m \<Rightarrow> throw (Failure m)
        | Inr (ok, code, body) \<Rightarrow> take_answer E p ok code body) w1"
      by (simp add: deliver_eq then_do_def)
    show ?thesis
    proof (cases ?answer)
      case (Inl m)
      with pass have "deliver E j p (job_text j) w = (Inl (Failure m), w1)" by (simp add: throw_def)
      with failed[of "Failure m"] Inl None show ?thesis by (simp add: deliver_or_record_eq attempt_of_def error_text_def)
    next
      case (Inr a)
      obtain ok code body where a: "a = (ok, code, body)" by (cases a)
      from take_answer_run[OF at, of ok code body] obtain r w2 where
        2: "take_answer E p ok code body w1 = (r, w2)" "at_work E p w2" "ww_limits w2 = ww_limits w1"
          "attempt_leads p (if ok then Succeeded else CountedFailure) w1 w2"
          "r = (if ok then Inr (we_delivery_id E, code) else Inl (Failure (''Webhook delivery failed with status '' @ show_int code)))"
        by blast
      have leads: "attempt_leads p (attempt_of E j p (ww_limits w)) w w2"
        using leads_start[OF 2(4)] w1(1) Inr a None by (simp add: attempt_of_def)
      show ?thesis
      proof (cases ok)
        case True
        with 2(1,3,5) w1(2) leads pass Inr a show ?thesis by (simp add: deliver_or_record_eq)
      next
        case False
        define e where "e = Failure (''Webhook delivery failed with status '' @ show_int code)"
        obtain d where "update_delivery (we_delivery_id E) (\<lambda>d. d\<lparr>dlv_error_message := Some (error_text e)\<rparr>) w2 = (Inr (), d)"
          "ww_limits d = ww_limits w2" "edb_endpoints (ww_db d) = edb_endpoints (ww_db w2)"
          "map dlv_id (edb_deliveries (ww_db d)) = map dlv_id (edb_deliveries (ww_db w2))"
          using at_work_update_delivery[OF 2(2), of "\<lambda>d. d\<lparr>dlv_error_message := Some (error_text e)\<rparr>"] by auto
        moreover have "str_includes (error_text e) ''status''" unfolding e_def error_text_def by (simp add: status_in_refusal)
        ultimately have "record_failure E p e w2 = (Inl e, d)" "attempt_leads p (attempt_of E j p (ww_limits w)) w d"
            "ww_limits d = limits_after E j p (ww_limits w)"
          using leads_trans[OF leads] 2(3) w1(2) by (auto simp: record_failure_def then_do_def give_def throw_def)
        with 2(1,5) pass Inr a False show ?thesis by (auto simp: deliver_or_record_eq e_def)
      qed
    qed
  qed
qed

lemma skipped_job:
  assumes "\<And>p. find_endpoint (wjb_endpoint_id j) w = Some p \<Longrightarrow> \<not> served j p"
  shows "run_job (E, j) w = w"
proof (cases "find_endpoint (wjb_endpoint_id j) w")
  case None
  then show ?thesis by (simp add: run_job_def process_outbound_webhook_job_def then_do_def ask_def give_def find_endpoint_def)
next
  case (Some p)
  with assms have "wep_status p = EndpointDisabled \<or> \<not> List.member (wep_topics p) (wjb_topic j)"
    by (cases "wep_status p") (auto simp: served_def)
  with Some show ?thesis
    by (auto simp: run_job_def process_outbound_webhook_job_def then_do_def ask_def give_def find_endpoint_def)
qed

lemma served_job:
  assumes ok: "tables_ok w" "fresh_delivery (we_delivery_id E) w"
    and p: "find_endpoint (wjb_endpoint_id j) w = Some p" "served j p"
  shows "tables_ok (run_job (E, j) w)"
    and "\<exists>f. edb_endpoints (ww_db (run_job (E, j) w)) = update_where (\<lambda>r. wep_id r = wep_id p) f (edb_endpoints (ww_db w)) \<and>
      (\<forall>r. same_settings (f r) r) \<and> circuit_of (f p) = circuit_step (attempt_of E j p (ww_limits w)) (circuit_of p)"
    and "dlv_id ` set (edb_deliveries (ww_db (run_job (E, j) w))) =
      insert (we_delivery_id E) (dlv_id ` set (edb_deliveries (ww_db w)))"
    and "ww_limits (run_job (E, j) w) = limits_after E j p (ww_limits w)"
proof -
  define d where "d = \<lparr>dlv_id = we_delivery_id E, dlv_endpoint_id = wep_id p, dlv_tenant_id = wjb_tenant_id j,
    dlv_organization_id = wjb_organization_id j, dlv_topic = wjb_topic j, dlv_payload = JObj (wjb_payload j),
    dlv_signature = we_sign E (wep_secret p) (job_text j), dlv_attempt = or_else (wjb_attempt j) 1, dlv_success = False,
    dlv_status_code = None, dlv_response_body = None, dlv_error_message = None, dlv_delivered_at = None,
    dlv_created_at = we_now E\<rparr>"
  define w1 where "w1 = set_deliveries (\<lambda>ds. ds @ [d]) w"
  from ok have ok1: "tables_ok w1" by (auto simp: tables_ok_ids w1_def fresh_delivery_def d_def)
  then have c: "on_deliveries (create_row delivery_indexes d) w = (Inr (), w1)"
    by (simp add: on_deliveries_def table_simps w1_def tables_ok_def set_deliveries_def)
  from p have mem: "p \<in> set (edb_endpoints (ww_db w))" by (simp add: find_endpoint_def find_Some_iff_mem)
  with ok1 p(2) have "at_work E p w1" by (auto simp: at_work_def served_def w1_def d_def)
  from deliver_or_record_run[OF this, of j] obtain r w' where
    run: "deliver_or_record E j p (job_text j) w1 = (r, w')" "attempt_leads p (attempt_of E j p (ww_limits w)) w1 w'"
      "ww_limits w' = limits_after E j p (ww_limits w)" by (auto simp: w1_def)
  have "process_outbound_webhook_job E j w = then_do (deliver_or_record E j p (job_text j)) (\<lambda>(i, code). give (DeliverySent i code)) w1"
    using p c by (simp add: process_outbound_webhook_job_def then_do_def ask_def find_endpoint_def served_def Let_def
        job_text_def d_def)
  with run(1) have w': "run_job (E, j) w = w'"
    by (auto simp: run_job_def then_do_def give_def split: sum.split)
  show "tables_ok (run_job (E, j) w)" using leads_tables_ok[OF run(2) ok1] w' by simp
  have "dlv_id ` set (edb_deliveries (ww_db w')) = dlv_id ` set (edb_deliveries (ww_db w1))"
    using run(2) unfolding attempt_leads_def by (metis set_map)
  then show "dlv_id ` set (edb_deliveries (ww_db (run_job (E, j) w))) =
      insert (we_delivery_id E) (dlv_id ` set (edb_deliveries (ww_db w)))" using w' by (simp add: w1_def d_def)
  show "\<exists>f. edb_endpoints (ww_db (run_job (E, j) w)) = update_where (\<lambda>r. wep_id r = wep_id p) f (edb_endpoints (ww_db w)) \<and>
      (\<forall>r. same_settings (f r) r) \<and> circuit_of (f p) = circuit_step (attempt_of E j p (ww_limits w)) (circuit_of p)"
    using run(2) w' by (auto simp: attempt_leads_def w1_def)
  show "ww_limits (run_job (E, j) w) = limits_after E j p (ww_limits w)" using run(3) w' by simp
qed

text \<open>The circuit of one endpoint over one job.\<close>

definition endpoint_circuit :: "string \<Rightarrow> delivery_world \<Rightarrow> circuit option" where
  "endpoint_circuit i w = map_option circuit_of (find_endpoint i w)"

lemma find_endpoint_id: "find_endpoint i w = Some p \<Longrightarrow> wep_id p = i"
  by (auto simp: find_endpoint_def dest: find_Some_iff_mem)

lemma job_circuit:
  assumes "tables_ok w" "fresh_delivery (we_delivery_id E) w"
  shows "endpoint_circuit i (run_job (E, j) w) = map_option (fold circuit_step (attempts_on i [(E, j)] w)) (endpoint_circuit i w)"
    and "tables_ok (run_job (E, j) w)"
    and "dlv_id ` set (edb_deliveries (ww_db (run_job (E, j) w))) \<subseteq> insert (we_delivery_id E) (dlv_id ` set (edb_deliveries (ww_db w)))"
proof -
  have "endpoint_circuit i (run_job (E, j) w) = map_option (fold circuit_step (attempts_on i [(E, j)] w)) (endpoint_circuit i w) \<and>
    tables_ok (run_job (E, j) w) \<and>
    dlv_id ` set (edb_deliveries (ww_db (run_job (E, j) w))) \<subseteq> insert (we_delivery_id E) (dlv_id ` set (edb_deliveries (ww_db w)))"
  proof (cases "\<exists>p. find_endpoint (wjb_endpoint_id j) w = Some p \<and> served j p")
    case False
    then have w: "run_job (E, j) w = w" by (intro skipped_job) blast
    have "attempts_on i [(E, j)] w = []" using False by (auto split: option.split)
    with w assms show ?thesis by (auto simp: option.map_id0 id_def[symmetric])
  next
    case True
    then obtain p where p: "find_endpoint (wjb_endpoint_id j) w = Some p" "served j p" by blast
    note run = served_job[OF assms p]
    from run(2) obtain f where f: "edb_endpoints (ww_db (run_job (E, j) w)) =
        update_where (\<lambda>r. wep_id r = wep_id p) f (edb_endpoints (ww_db w))"
      "\<forall>r. same_settings (f r) r" "circuit_of (f p) = circuit_step (attempt_of E j p (ww_limits w)) (circuit_of p)" by blast
    have "find_endpoint i (run_job (E, j) w) = map_option (\<lambda>r. if wep_id r = wep_id p then f r else r) (find_endpoint i w)"
      using f(1,2) unfolding find_endpoint_def f(1) by (intro find_update_where) (auto simp: same_settings_def)
    with f(3) p find_endpoint_id[OF p(1)] find_endpoint_id[of i w] run(1,3) show ?thesis
      by (auto simp: endpoint_circuit_def split: option.split)
  qed
  then show "endpoint_circuit i (run_job (E, j) w) = map_option (fold circuit_step (attempts_on i [(E, j)] w)) (endpoint_circuit i w)"
    "tables_ok (run_job (E, j) w)"
    "dlv_id ` set (edb_deliveries (ww_db (run_job (E, j) w))) \<subseteq> insert (we_delivery_id E) (dlv_id ` set (edb_deliveries (ww_db w)))"
    by blast+
qed

definition new_deliveries :: "(webhook_env \<times> webhook_job) list \<Rightarrow> delivery_world \<Rightarrow> bool" where
  "new_deliveries js w \<longleftrightarrow> distinct (map (\<lambda>x. we_delivery_id (fst x)) js) \<and>
     (\<forall>x \<in> set js. fresh_delivery (we_delivery_id (fst x)) w)"

lemma new_deliveries_Cons:
  assumes "tables_ok w" and "new_deliveries ((E, j) # js) w"
  shows "fresh_delivery (we_delivery_id E) w" and "new_deliveries js (run_job (E, j) w)"
proof -
  from assms show fresh: "fresh_delivery (we_delivery_id E) w" by (simp add: new_deliveries_def)
  have "fresh_delivery k (run_job (E, j) w)" if "fresh_delivery k w" "k \<noteq> we_delivery_id E" for k
    using job_circuit(3)[OF assms(1) fresh, of j] that unfolding fresh_delivery_def by blast
  moreover have "we_delivery_id (fst x) \<noteq> we_delivery_id E" "fresh_delivery (we_delivery_id (fst x)) w" if "x \<in> set js" for x
    using assms(2) that by (force simp: new_deliveries_def)+
  ultimately show "new_deliveries js (run_job (E, j) w)" using assms(2) by (simp add: new_deliveries_def)
qed

text \<open>
  Property C20. Whatever jobs the worker runs, in whatever order and on whatever endpoints, the failures in a
  row and the status of one endpoint are those of the automaton run over the attempts made on it: a delivery
  closes the row, a refusal by the endpoint, by the connection or by the worker's own limiter adds one to it, the
  tenth disables the endpoint for good, and an error whose text has the word status in it is passed over.
\<close>

theorem endpoint_follows_circuit:
  assumes "tables_ok w" and "new_deliveries js w"
  shows "endpoint_circuit i (fold run_job js w) = map_option (fold circuit_step (attempts_on i js w)) (endpoint_circuit i w)"
  using assms
proof (induction js arbitrary: w)
  case (Cons x js)
  obtain E j where x: "x = (E, j)" by (cases x)
  note new = new_deliveries_Cons[OF Cons.prems(1), of E j js, folded x, OF Cons.prems(2)]
  note step = job_circuit(1)[OF Cons.prems(1) new(1), of i j] job_circuit(2)[OF Cons.prems(1) new(1), of j]
  have split: "attempts_on i ((E, j) # js) w = attempts_on i [(E, j)] w @ attempts_on i js (run_job (E, j) w)"
    by (simp split: option.split)
  from Cons.IH[OF step(2)] new(2) show ?case
    unfolding x split by (simp add: x step(1) option.map_comp comp_def del: attempts_on.simps)
qed (simp add: option.map_id0 id_def[symmetric])

definition busy_job :: "ms \<Rightarrow> string \<Rightarrow> string \<Rightarrow> string \<Rightarrow> string \<Rightarrow> webhook_env \<times> webhook_job \<Rightarrow> bool" where
  "busy_job now i tenant topic host x \<longleftrightarrow> we_now (fst x) = now \<and> we_limited (fst x) \<and> (\<forall>u. we_host (fst x) u = Some host) \<and>
     (\<forall>u t s c. case we_request (fst x) u t s c of Inr (ok, _, _) \<Rightarrow> ok | Inl _ \<Rightarrow> False) \<and>
     wjb_endpoint_id (snd x) = i \<and> wjb_tenant_id (snd x) = tenant \<and> wjb_topic (snd x) = topic"

definition second_key :: "ms \<Rightarrow> string \<Rightarrow> string \<Rightarrow> string" where
  "second_key now tenant host = limit_key now (''webhook:'' @ tenant @ '':'' @ host) 1"

text \<open>Where the endpoint is after so many jobs of the second.\<close>

definition after_burst :: "nat \<Rightarrow> circuit" where
  "after_burst k = (if k \<le> 10 then (0, True) else if k < 20 then (int k - 10, True) else (10, False))"

definition in_burst :: "ms \<Rightarrow> string \<Rightarrow> string \<Rightarrow> string \<Rightarrow> string \<Rightarrow> nat \<Rightarrow> delivery_world \<Rightarrow> bool" where
  "in_burst now i tenant topic host k w \<longleftrightarrow> tables_ok w \<and>
     (\<exists>p. find_endpoint i w = Some p \<and> List.member (wep_topics p) topic \<and> circuit_of p = after_burst k) \<and>
     counted_so_far now (second_key now tenant host) (ww_limits w) = int k"

lemma counted_update [simp]: "now < t \<Longrightarrow> counted_so_far now k (AList.update k (t, n) l) = n"
  by (simp add: counted_so_far_def update_conv)

lemma limiter_in_burst:
  assumes "busy_job now i tenant topic host (E, j)"
    and "counted_so_far now (second_key now tenant host) l = int k"
  shows "limiter_refusal E j p l =
      (if k < 10 then None else Some (''Rate limit exceeded for key: '' @ ''webhook:'' @ tenant @ '':'' @ host))"
    and "counted_so_far now (second_key now tenant host) (limits_after E j p l) = int (Suc k)"
  using assms by (auto simp: limiter_refusal_def limits_after_def busy_job_def consume_limit_def Let_def second_key_def error_text_def)

lemma burst_step:
  assumes burst: "in_burst now i tenant topic host k w" and k: "k < 20"
    and busy: "busy_job now i tenant topic host (E, j)" and new: "fresh_delivery (we_delivery_id E) w"
    and no: "\<not> str_includes (''Rate limit exceeded for key: '' @ ''webhook:'' @ tenant @ '':'' @ host) ''status''"
  shows "in_burst now i tenant topic host (Suc k) (run_job (E, j) w)"
proof -
  from burst obtain p where p: "find_endpoint i w = Some p" "List.member (wep_topics p) topic" "circuit_of p = after_burst k"
    and ok: "tables_ok w" and n: "counted_so_far now (second_key now tenant host) (ww_limits w) = int k"
    by (auto simp: in_burst_def)
  from p(3) k have active: "wep_status p = EndpointActive" by (auto simp: circuit_of_def after_burst_def split: if_splits)
  have j: "wjb_endpoint_id j = i" "wjb_topic j = topic" using busy by (simp_all add: busy_job_def)
  have served: "served j p" using p(2) active j by (simp add: served_def)
  note lim = limiter_in_burst[OF busy n, of p]
  have a: "attempt_of E j p (ww_limits w) = (if k < 10 then Succeeded else CountedFailure)"
  proof (cases "k < 10")
    case True
    have "\<forall>u t s c. case we_request E u t s c of Inr (ok, _, _) \<Rightarrow> ok | Inl _ \<Rightarrow> False" using busy by (simp add: busy_job_def)
    then have "case we_request E (wep_url p) (job_text j) (we_sign E (wep_secret p) (job_text j)) (wjb_topic j) of
        Inr (ok, _, _) \<Rightarrow> ok | Inl _ \<Rightarrow> False" by blast
    with True lim(1) show ?thesis by (auto simp: attempt_of_def split: sum.splits)
  qed (use lim(1) no in \<open>simp add: attempt_of_def failed_with_def\<close>)
  note run = served_job[OF ok new p(1)[folded j(1)] served]
  from run(2) obtain f where f: "edb_endpoints (ww_db (run_job (E, j) w)) =
        update_where (\<lambda>r. wep_id r = wep_id p) f (edb_endpoints (ww_db w))"
      "\<forall>r. same_settings (f r) r" "circuit_of (f p) = circuit_step (attempt_of E j p (ww_limits w)) (circuit_of p)" by blast
  have "find_endpoint i (run_job (E, j) w) = map_option (\<lambda>r. if wep_id r = wep_id p then f r else r) (find_endpoint i w)"
    using f(1,2) unfolding find_endpoint_def f(1) by (intro find_update_where) (auto simp: same_settings_def)
  then have "find_endpoint i (run_job (E, j) w) = Some (f p)" using p(1) by simp
  moreover have "List.member (wep_topics (f p)) topic" using f(2) p(2) by (simp add: same_settings_def)
  moreover have "circuit_of (f p) = after_burst (Suc k)" using f(3) a p(3) k
    by (auto simp: after_burst_def failure_limit_def)
  ultimately show ?thesis using run(1,4) lim(2) by (simp add: in_burst_def)
qed

text \<open>
  A busy endpoint that answers every request it gets with success is disabled: of twenty
  deliveries within one second for one tenant the first ten are made, the worker's own limiter refuses the
  next ten, and each refusal counts as a failure of the endpoint. (The exception is an address or a tenant
  with the word status in it, whose failures are not counted at all.)
\<close>

theorem busy_endpoint_disabled:
  assumes "tables_ok w" and "find_endpoint i w = Some p" and "circuit_of p = (0, True)" and "List.member (wep_topics p) topic"
    and "length js = 20" and "new_deliveries js w" and "list_all (busy_job now i tenant topic host) js"
    and "counted_so_far now (second_key now tenant host) (ww_limits w) = 0"
    and "\<not> str_includes (''Rate limit exceeded for key: webhook:'' @ tenant @ '':'' @ host) ''status''"
  shows "map_option wep_status (find_endpoint i (fold run_job js w)) = Some EndpointDisabled"
proof -
  have "in_burst now i tenant topic host (k + length js) (fold run_job js w)"
    if "in_burst now i tenant topic host k w" "k + length js \<le> 20" "new_deliveries js w"
      "list_all (busy_job now i tenant topic host) js" for k
    using that
  proof (induction js arbitrary: k w)
    case (Cons x js)
    obtain E j where x: "x = (E, j)" by (cases x)
    have ok: "tables_ok w" using Cons.prems(1) by (simp add: in_burst_def)
    note new = new_deliveries_Cons[OF ok, of E j js, folded x, OF Cons.prems(3)]
    have "in_burst now i tenant topic host (Suc k) (run_job (E, j) w)"
      using Cons.prems new assms(9) by (intro burst_step) (auto simp: x)
    from Cons.IH[OF this] Cons.prems(2,4) new(2) show ?case by (simp add: x)
  qed simp
  moreover have "in_burst now i tenant topic host 0 w" using assms by (simp add: in_burst_def after_burst_def)
  ultimately have "in_burst now i tenant topic host 20 (fold run_job js w)" using assms(5-7) by fastforce
  then show ?thesis by (auto simp: in_burst_def circuit_of_def after_burst_def)
    (metis endpoint_status.exhaust)
qed

subsection \<open>Concrete runs\<close>

definition sample_endpoint :: "int \<Rightarrow> endpoint_row" where
  "sample_endpoint n = \<lparr>wep_id = ''e'', wep_tenant_id = ''t'', wep_organization_id = ''o'', wep_created_by = None,
     wep_url = ''https://h/'', wep_secret = ''k'', wep_topics = [''agent.failed''], wep_status = EndpointActive,
     wep_failures = n, wep_last_delivered_at = None, wep_last_failure_at = None, wep_created_at = 0\<rparr>"

definition sample_webhooks :: "int \<Rightarrow> delivery_world" where
  "sample_webhooks n = \<lparr>ww_db = \<lparr>edb_tenants = [], edb_users = [], edb_memberships = [], edb_preferences = [],
     edb_notifications = [], edb_endpoints = [sample_endpoint n], edb_deliveries = [], edb_email_queue = [],
     edb_webhook_queue = []\<rparr>, ww_limits = []\<rparr>"

definition sample_attempt :: "bool \<Rightarrow> nat \<Rightarrow> webhook_env \<times> webhook_job" where
  "sample_attempt ok k = (\<lparr>we_now = 5000, we_delivery_id = replicate k CHR ''d'', we_sign = \<lambda>_ _. ''s'', we_host = \<lambda>_. Some ''h'',
     we_request = \<lambda>_ _ _ _. Inr (ok, (if ok then 200 else 500), []), we_limited = True\<rparr>,
     \<lparr>wjb_attempt = Some 1, wjb_endpoint_id = ''e'', wjb_organization_id = ''o'', wjb_payload = [], wjb_tenant_id = ''t'',
      wjb_topic = ''agent.failed''\<rparr>)"

lemma sample_webhooks_simps: "tables_ok (sample_webhooks n)" "edb_deliveries (ww_db (sample_webhooks n)) = []"
    "find_endpoint ''e'' (sample_webhooks n) = Some (sample_endpoint n)" "circuit_of (sample_endpoint n) = (n, True)"
    "wep_topics (sample_endpoint n) = [''agent.failed'']" "ww_limits (sample_webhooks n) = []"
  by (simp_all add: sample_webhooks_def tables_ok_ids find_endpoint_def sample_endpoint_def circuit_of_def)

theorem endpoint_follows_circuit_witness:
  "endpoint_circuit ''e'' (fold run_job [sample_attempt False 1, sample_attempt True 2] (sample_webhooks 9)) = Some (10, False)"
proof -
  have "attempts_on ''e'' [sample_attempt False 1, sample_attempt True 2] (sample_webhooks 9) = [CountedFailure]"
    by code_simp
  moreover have "new_deliveries [sample_attempt False 1, sample_attempt True 2] (sample_webhooks 9)"
    by (simp add: sample_webhooks_simps new_deliveries_def fresh_delivery_def sample_attempt_def numeral_2_eq_2)
  ultimately show ?thesis
    by (simp only: endpoint_follows_circuit[OF sample_webhooks_simps(1)])
      (simp add: sample_webhooks_simps endpoint_circuit_def failure_limit_def)
qed

theorem busy_endpoint_disabled_witness:
  "map_option wep_status (find_endpoint ''e'' (fold run_job (map (sample_attempt True) [0..<20]) (sample_webhooks 0))) =
     Some EndpointDisabled"
  by (rule busy_endpoint_disabled[where p = "sample_endpoint 0" and topic = "''agent.failed''" and now = 5000 and tenant = "''t''"
      and host = "''h''"])
    (simp_all add: sample_webhooks_simps new_deliveries_def fresh_delivery_def sample_attempt_def list_all_iff busy_job_def
      counted_so_far_def distinct_map inj_on_def comp_def)

end
