(* ===== verification/AgentWorker.thy ===== *)
theory AgentWorker
  imports AgentRuntime OutboundWebhooks BillingSnapshot
begin

text \<open>
  The jobs of the worker (\<open>apps/worker/src/worker.ts\<close>): what a job is read as and whether it is let
  through, the execution row it opens and settles, the billing lock in front of the runtime, the notifications,
  mails and webhooks that follow, and the agent a workflow calls.

  The state is the one of the runtime with the engagement tables, the secrets and the billing states the
  worker has cached in Redis. The HMAC is given, as is what the schemas of the jobs make of the data.
\<close>

record handoff_row =
  hof_id :: string
  hof_tenant_id :: string
  hof_organization_id :: string
  hof_thread_id :: "string option"
  hof_source_agent_id :: string
  hof_target_agent_id :: string
  hof_source_execution_id :: "string option"
  hof_correlation_id :: string
  hof_status :: string
  hof_summary :: string
  hof_context :: js_val
  hof_created_at :: ms

record worker_db = agent_db +
  wdb_engagement :: engagement_db
  wdb_handoffs :: "handoff_row list"
  wdb_secrets :: "(string \<times> string) list"
  wdb_billing_cache :: "(string \<times> (ms \<times> (bool \<times> subscription_status option))) list"

definition on_engagement :: "(engagement_db, 'a) operation \<Rightarrow> (worker_db, 'a) operation" where
  "on_engagement = on_part wdb_engagement (\<lambda>t s. s\<lparr>wdb_engagement := t\<rparr>)"

subsection \<open>Jobs\<close>

datatype execution_mode = Live | DryRun

record job_context =
  jc_actor_id :: string
  jc_job_id :: string
  jc_organization_id :: string
  jc_scoped_at :: string
  jc_tenant_id :: string

record task_job =
  tk_agent_id :: string
  tk_approval_required :: bool
  tk_context :: "job_context option"
  tk_estimated_cost :: rat
  tk_mode :: execution_mode
  tk_payload :: "(string \<times> js_val) list"
  tk_request_id :: string
  tk_signature :: string
  tk_tenant_id :: "string option"
  tk_type :: string
  tk_user_id :: "string option"

record agent_job_data =
  ej_agent_id :: string
  ej_catalog_agent_id :: "string option"
  ej_execution_id :: string
  ej_input :: "(string \<times> js_val) list"
  ej_organization_id :: "string option"
  ej_tenant_id :: string
  ej_user_id :: "string option"

definition nullable :: "string option \<Rightarrow> js_val" where
  "nullable v = (case v of None \<Rightarrow> JNull | Some s \<Rightarrow> JStr s)"

definition mode_name :: "execution_mode \<Rightarrow> string" where
  "mode_name m = (case m of Live \<Rightarrow> ''LIVE'' | DryRun \<Rightarrow> ''DRY_RUN'')"

definition serialize_legacy_task_signature_payload :: "job_context \<Rightarrow> task_job \<Rightarrow> string" where
  "serialize_legacy_task_signature_payload c t = or_else (stringify (JObj [
     (''agentId'', JStr (tk_agent_id t)),
     (''approvalRequired'', JBool (tk_approval_required t)),
     (''context'', JObj [(''actorId'', JStr (jc_actor_id c)), (''jobId'', JStr (jc_job_id c)),
       (''organizationId'', JStr (jc_organization_id c)), (''scopedAt'', JStr (jc_scoped_at c)),
       (''tenantId'', JStr (jc_tenant_id c))]),
     (''estimatedCostBRL'', JNum (Fin (tk_estimated_cost t))),
     (''executionMode'', JStr (mode_name (tk_mode t))),
     (''payload'', JObj (tk_payload t)),
     (''requestId'', JStr (tk_request_id t)),
     (''tenantId'', nullable (tk_tenant_id t)),
     (''type'', JStr (tk_type t)),
     (''userId'', nullable (tk_user_id t)),
     (''version'', JStr ''1'')])) []"

definition job_context_of :: "ms \<Rightarrow> string \<Rightarrow> task_job \<Rightarrow> job_context" where
  "job_context_of now i t = or_else (tk_context t) \<lparr>jc_actor_id = or_else (tk_user_id t) ''system'', jc_job_id = i,
     jc_organization_id = or_else (tk_tenant_id t) ''default-tenant'', jc_scoped_at = iso_string now,
     jc_tenant_id = or_else (tk_tenant_id t) ''default-tenant''\<rparr>"

definition validate_legacy_task_job :: "(string \<Rightarrow> string \<Rightarrow> string) \<Rightarrow> ms \<Rightarrow> string \<Rightarrow> string \<Rightarrow> task_job \<Rightarrow> string option \<Rightarrow>
    api_error + string" where
  "validate_legacy_task_job hmac now fallback i t secret =
     (let c = job_context_of now i t
      in case truthy (tk_tenant_id t) of
           None \<Rightarrow> Inl (Failure ''JOB_CONTEXT_TENANT_MISMATCH'')
         | Some tenant \<Rightarrow>
             if tenant \<noteq> jc_tenant_id c then Inl (Failure ''JOB_CONTEXT_TENANT_MISMATCH'')
             else if truthy (tk_user_id t) \<noteq> Some (jc_actor_id c) then Inl (Failure ''JOB_CONTEXT_ACTOR_MISMATCH'')
             else if jc_job_id c \<noteq> i then Inl (Failure ''JOB_CONTEXT_ID_MISMATCH'')
             else if tk_signature t \<noteq> ''unsigned'' \<and>
               hmac (or_else secret fallback) (serialize_legacy_task_signature_payload c t) \<noteq> tk_signature t
             then Inl (Failure ''JOB_SIGNATURE_INVALID'')
             else Inr tenant)"

record worker_config =
  wc_queue_name :: string
  wc_fallback_secret :: string
  wc_grace_days :: int
  wc_billing_ttl_seconds :: int
  wc_web_base_url :: string

record worker_env =
  wn_config :: worker_config
  wn_runtime :: runtime_env
  wn_hmac :: "string \<Rightarrow> string \<Rightarrow> string"
  wn_read_task :: "js_val \<Rightarrow> string + task_job"
  wn_read_execution :: "js_val \<Rightarrow> string + agent_job_data"
  wn_ids :: "nat \<Rightarrow> string"

record agent_job =
  aj_agent_id :: string
  aj_approval_required :: bool
  aj_catalog_agent_id :: "string option"
  aj_execution_id :: string
  aj_mode :: execution_mode
  aj_input :: "(string \<times> js_val) list"
  aj_organization_id :: "string option"
  aj_request_id :: string
  aj_tenant_id :: string
  aj_user_id :: "string option"

definition resolve_organization_reference :: "string \<Rightarrow> 'x agent_db_scheme \<Rightarrow> org_row option" where
  "resolve_organization_reference reference s = find_organization_by_reference reference (gdb_billing s)"

definition lift_error :: "api_error + 'a \<Rightarrow> ('s, 'a) operation" where
  "lift_error r s = (r, s)"

definition zod_error :: "string + 'a \<Rightarrow> api_error + 'a" where
  "zod_error r = (case r of Inl m \<Rightarrow> Inl (Failure m) | Inr a \<Rightarrow> Inr a)"

text \<open>The agent of a task is its type; its own \<open>agentId\<close> is signed and not used.\<close>

definition read_task_job :: "worker_env \<Rightarrow> string \<Rightarrow> js_val \<Rightarrow> (worker_db, agent_job) operation" where
  "read_task_job W i v =
     then_do (lift_error (zod_error (wn_read_task W v))) (\<lambda>t.
     then_do (ask (resolve_organization_reference (or_else (tk_tenant_id t) ''default-tenant''))) (\<lambda>org.
     then_do (ask (\<lambda>s. Option.bind org (\<lambda>r. truthy (map_of (wdb_secrets s) (org_tenant_id r))))) (\<lambda>secret.
     then_do (ask db_now) (\<lambda>now.
     then_do (lift_error (validate_legacy_task_job (wn_hmac W) now (wc_fallback_secret (wn_config W)) i t secret)) (\<lambda>tenant.
     give \<lparr>aj_agent_id = tk_type t, aj_approval_required = tk_approval_required t, aj_catalog_agent_id = None,
       aj_execution_id = tk_request_id t @ '':'' @ i, aj_mode = tk_mode t, aj_input = tk_payload t,
       aj_organization_id = map_option org_id org, aj_request_id = tk_request_id t, aj_tenant_id = tenant,
       aj_user_id = tk_user_id t\<rparr>)))))"

definition read_execution_job :: "worker_env \<Rightarrow> js_val \<Rightarrow> (worker_db, agent_job) operation" where
  "read_execution_job W v =
     then_do (lift_error (zod_error (wn_read_execution W v))) (\<lambda>e.
     then_do (ask (resolve_organization_reference (or_else (truthy (ej_organization_id e)) (ej_tenant_id e)))) (\<lambda>org.
     give \<lparr>aj_agent_id = ej_agent_id e, aj_approval_required = False, aj_catalog_agent_id = ej_catalog_agent_id e,
       aj_execution_id = ej_execution_id e, aj_mode = Live, aj_input = ej_input e,
       aj_organization_id = or_opt (map_option org_id org) (ej_organization_id e), aj_request_id = ej_execution_id e,
       aj_tenant_id = ej_tenant_id e, aj_user_id = ej_user_id e\<rparr>))"

definition read_job :: "worker_env \<Rightarrow> string \<Rightarrow> string \<Rightarrow> js_val \<Rightarrow> (worker_db, agent_job) operation" where
  "read_job W queue i v = (if queue = wc_queue_name (wn_config W) then read_task_job W i v else read_execution_job W v)"

subsection \<open>The execution row\<close>

record execution_start =
  es_agent_id :: string
  es_execution_id :: string
  es_input :: "(string \<times> js_val) list"
  es_organization_id :: "string option"
  es_source :: agent_execution_source
  es_tenant_id :: string
  es_user_id :: "string option"

definition started_row :: "ms \<Rightarrow> execution_start \<Rightarrow> agent_execution_row" where
  "started_row now x = \<lparr>agx_id = es_execution_id x, agx_tenant_id = es_tenant_id x, agx_organization_id = es_organization_id x,
     agx_user_id = es_user_id x, agx_agent_id = es_agent_id x, agx_status = ExecRunning, agx_source = es_source x,
     agx_input = JObj (es_input x), agx_output = JNull, agx_output_hash = None, agx_error_message = None,
     agx_metadata = JNull, agx_started_at = now, agx_completed_at = None\<rparr>"

text \<open>The row of an earlier attempt, or of the API, is taken over: what is not named stays as it was.\<close>

definition restart_row :: "execution_start \<Rightarrow> agent_execution_row \<Rightarrow> agent_execution_row" where
  "restart_row x r = r\<lparr>agx_agent_id := es_agent_id x, agx_input := JObj (es_input x),
     agx_organization_id := es_organization_id x, agx_source := es_source x, agx_status := ExecRunning,
     agx_tenant_id := es_tenant_id x, agx_user_id := es_user_id x\<rparr>"

text \<open>The foreign keys of the row: an organization and a user that are given have to be there.\<close>

definition known_references :: "execution_start \<Rightarrow> 'x agent_db_scheme \<Rightarrow> bool" where
  "known_references x s \<longleftrightarrow>
     (case es_organization_id x of None \<Rightarrow> True | Some i \<Rightarrow> list_ex (\<lambda>r. org_id r = i) (db_orgs (gdb_billing s))) \<and>
     (case es_user_id x of None \<Rightarrow> True | Some i \<Rightarrow> list_ex (\<lambda>r. user_id r = i) (db_users (gdb_billing s)))"

definition persist_execution_started :: "execution_start \<Rightarrow> ('x agent_db_scheme, unit) operation" where
  "persist_execution_started x =
     then_do (ask db_now) (\<lambda>now.
     then_do (ask (known_references x)) (\<lambda>known.
     if \<not> known then throw (Database (P2003 ''agentExecution''))
     else on_executions (\<lambda>rows. if List.find (\<lambda>r. agx_id r = es_execution_id x) rows = None
       then create_row execution_indexes (started_row now x) rows
       else update_many execution_indexes (\<lambda>r. agx_id r = es_execution_id x) (restart_row x) rows)))"

record execution_finish =
  ef_error_message :: "string option"
  ef_metadata :: "js_val option"
  ef_output :: "js_val option"
  ef_output_hash :: "string option"
  ef_status :: agent_execution_status

definition finish_row :: "ms \<Rightarrow> execution_finish \<Rightarrow> agent_execution_row \<Rightarrow> agent_execution_row" where
  "finish_row now f r = r\<lparr>agx_completed_at := (if ef_status f = ExecWaitingApproval then None else Some now),
     agx_error_message := ef_error_message f, agx_output_hash := ef_output_hash f,
     agx_metadata := or_else (ef_metadata f) (agx_metadata r), agx_output := or_else (ef_output f) (agx_output r),
     agx_status := ef_status f\<rparr>"

definition persist_execution_finished :: "string \<Rightarrow> execution_finish \<Rightarrow> ('x agent_db_scheme, unit) operation" where
  "persist_execution_finished i f =
     then_do (ask db_now) (\<lambda>now.
     on_executions (update_unique ''agentExecution'' execution_indexes (\<lambda>r. agx_id r = i) (finish_row now f)))"

definition failed_finish :: "string \<Rightarrow> execution_finish" where
  "failed_finish m = \<lparr>ef_error_message = Some m, ef_metadata = None, ef_output = None, ef_output_hash = None, ef_status = ExecFailed\<rparr>"

definition runtime_finish :: "runtime_result \<Rightarrow> execution_finish" where
  "runtime_finish r = \<lparr>ef_error_message = None, ef_metadata = Some (rres_metadata r), ef_output = Some (output_object (rres_output r)),
     ef_output_hash = Some (rres_output_hash r), ef_status = (if rres_waiting r then ExecWaitingApproval else ExecSuccess)\<rparr>"

subsection \<open>What follows an execution\<close>

definition humanize_agent_id :: "string \<Rightarrow> string" where
  "humanize_agent_id s = js_upper (js_trim (map (\<lambda>c. if c = CHR ''-'' \<or> c = CHR ''_'' then CHR '' '' else c) s))"

record execution_outcome =
  eo_agent_id :: string
  eo_error_message :: "string option"
  eo_execution_id :: string
  eo_organization_id :: "string option"
  eo_status :: agent_execution_status
  eo_tenant_id :: string
  eo_user_id :: "string option"

definition outcome_link :: "string \<Rightarrow> string \<Rightarrow> string" where
  "outcome_link base i = base @ ''/outputs?executionId='' @ encode_uri_component i"

text \<open>The notification of the user the execution ran for, or of the owners and administrators.\<close>

definition notify_outcome :: "(nat \<Rightarrow> string) \<Rightarrow> ms \<Rightarrow> notification_input \<Rightarrow> string option \<Rightarrow> (engagement_db, unit) operation" where
  "notify_outcome ids now n user = (case truthy user of
     Some u \<Rightarrow> then_do (create_notification_for_user ids now n u) (\<lambda>_. give ())
   | None \<Rightarrow> then_do (create_notification_for_roles ids now None n) (\<lambda>_. give ()))"

definition outcome_notification :: "string \<Rightarrow> string \<Rightarrow> execution_outcome \<Rightarrow> notification_input option" where
  "outcome_notification base org x =
     (let label = humanize_agent_id (eo_agent_id x); i = (''executionId'', JStr (eo_execution_id x));
          n = \<lambda>type content meta. \<lparr>nin_content = ''O Agente '' @ label @ content, nin_link = Some (outcome_link base (eo_execution_id x)),
            nin_metadata = Some (JObj meta), nin_organization_id = org, nin_tenant_id = eo_tenant_id x, nin_type = type\<rparr>
      in case eo_status x of
           ExecFailed \<Rightarrow> Some (n ''AGENT_FAILED'' '' falhou ao rodar.'' [(''errorMessage'', nullable (eo_error_message x)), i])
         | ExecWaitingApproval \<Rightarrow> Some (n ''INFO'' '' concluiu a execucao e aguarda aprovacao do output.'' [i])
         | _ \<Rightarrow> None)"

definition outcome_mail :: "string \<Rightarrow> string \<Rightarrow> execution_outcome \<Rightarrow> email_job option" where
  "outcome_mail base org x = (case truthy (eo_user_id x) of
     None \<Rightarrow> None
   | Some u \<Rightarrow>
       (let agent = (''agentId'', JStr (eo_agent_id x)); i = (''executionId'', JStr (eo_execution_id x));
            link = (''link'', JStr (outcome_link base (eo_execution_id x)));
            m = \<lambda>c type. \<lparr>ejb_context = c, ejb_organization_id = org, ejb_tenant_id = eo_tenant_id x, ejb_type = type, ejb_user_id = u\<rparr>
        in case eo_status x of
             ExecFailed \<Rightarrow> Some (m [agent, (''errorMessage'', JStr (or_else (eo_error_message x) ''Falha nao detalhada.'')), i, link]
               CriticalErrorMail)
           | ExecSuccess \<Rightarrow> Some (m [agent, i, link] WorkflowCompletedMail)
           | _ \<Rightarrow> None))"

definition execution_status_name :: "agent_execution_status \<Rightarrow> string" where
  "execution_status_name s = (case s of ExecRunning \<Rightarrow> ''RUNNING'' | ExecSuccess \<Rightarrow> ''SUCCESS'' | ExecFailed \<Rightarrow> ''FAILED''
     | ExecWaitingApproval \<Rightarrow> ''WAITING_APPROVAL'')"

definition outcome_topic :: "agent_execution_status \<Rightarrow> string" where
  "outcome_topic s = (if s = ExecSuccess then ''agent.finished'' else if s = ExecWaitingApproval then ''agent.awaiting_approval''
     else ''agent.failed'')"

definition outcome_payload :: "execution_outcome \<Rightarrow> (string \<times> js_val) list" where
  "outcome_payload x = [(''agentId'', JStr (eo_agent_id x)), (''errorMessage'', nullable (eo_error_message x)),
     (''executionId'', JStr (eo_execution_id x)), (''status'', JStr (execution_status_name (eo_status x))),
     (''tenantId'', JStr (eo_tenant_id x))]"

definition fan_out_execution_outcome :: "(nat \<Rightarrow> string) \<Rightarrow> ms \<Rightarrow> string \<Rightarrow> execution_outcome \<Rightarrow> (engagement_db, unit) operation" where
  "fan_out_execution_outcome ids now base x = (case truthy (eo_organization_id x) of
     None \<Rightarrow> give ()
   | Some org \<Rightarrow>
       then_do (case outcome_notification base org x of None \<Rightarrow> give () | Some n \<Rightarrow> notify_outcome ids now n (eo_user_id x)) (\<lambda>_.
       then_do (case outcome_mail base org x of None \<Rightarrow> give () | Some m \<Rightarrow> enqueue_email_notification m) (\<lambda>_.
       enqueue_webhook_topic_deliveries org (outcome_payload x) (eo_tenant_id x) (outcome_topic (eo_status x)))))"

subsection \<open>The billing lock\<close>

definition billing_cache_key :: "string \<Rightarrow> string" where
  "billing_cache_key reference = ''billing-status:'' @ reference"

definition cached_billing :: "string \<Rightarrow> worker_db \<Rightarrow> (bool \<times> subscription_status option) option" where
  "cached_billing reference s = (case map_of (wdb_billing_cache s) (billing_cache_key reference) of
     Some (t, v) \<Rightarrow> if db_now s < t then Some v else None | None \<Rightarrow> None)"

definition billing_state :: "ms \<Rightarrow> int \<Rightarrow> subscription_row option \<Rightarrow> bool \<times> subscription_status option" where
  "billing_state now days sub = (case sub of
     None \<Rightarrow> (False, None)
   | Some r \<Rightarrow> (sub_status r = sub_past_due \<and> or_else (sub_grace_period_ends_at r) (sub_updated_at r + days * 24 * 60 * 60 * 1000) \<le> now,
       Some (sub_status r)))"

definition resolve_billing_lock :: "worker_config \<Rightarrow> string \<Rightarrow> (worker_db, bool \<times> subscription_status option) operation" where
  "resolve_billing_lock c reference =
     then_do (ask (cached_billing reference)) (\<lambda>cached. case cached of
       Some v \<Rightarrow> give v
     | None \<Rightarrow>
         then_do (ask (\<lambda>s. billing_state (db_now s) (wc_grace_days c)
           (Option.bind (resolve_organization_reference reference s) (\<lambda>r. latest_subscription (org_id r) (gdb_billing s))))) (\<lambda>v.
         then_do (\<lambda>s. (Inr (), s\<lparr>wdb_billing_cache := AList.update (billing_cache_key reference)
           (db_now s + wc_billing_ttl_seconds c * 1000, v) (wdb_billing_cache s)\<rparr>)) (\<lambda>_. give v)))"

subsection \<open>A job\<close>

datatype job_answer =
    JobBlocked ms
  | JobCompleted ms string string string "string option"

definition job_outcome :: "agent_job \<Rightarrow> agent_execution_status \<Rightarrow> string option \<Rightarrow> execution_outcome" where
  "job_outcome j status m = \<lparr>eo_agent_id = aj_agent_id j, eo_error_message = m, eo_execution_id = aj_execution_id j,
     eo_organization_id = aj_organization_id j, eo_status = status, eo_tenant_id = aj_tenant_id j, eo_user_id = aj_user_id j\<rparr>"

definition fan_out_job :: "worker_env \<Rightarrow> agent_job \<Rightarrow> agent_execution_status \<Rightarrow> string option \<Rightarrow> (worker_db, unit) operation" where
  "fan_out_job W j status m =
     then_do (ask db_now) (\<lambda>now.
     on_engagement (fan_out_execution_outcome (wn_ids W) now (wc_web_base_url (wn_config W)) (job_outcome j status m)))"

definition job_start :: "agent_job \<Rightarrow> execution_start" where
  "job_start j = \<lparr>es_agent_id = aj_agent_id j, es_execution_id = aj_execution_id j, es_input = aj_input j,
     es_organization_id = aj_organization_id j, es_source = SourceManual, es_tenant_id = aj_tenant_id j, es_user_id = aj_user_id j\<rparr>"

definition job_request :: "agent_job \<Rightarrow> runtime_request" where
  "job_request j = \<lparr>rr_agent_id = aj_agent_id j, rr_catalog_agent_id = aj_catalog_agent_id j, rr_context_summary = None,
     rr_execution_id = aj_execution_id j, rr_input = aj_input j, rr_organization_id = aj_organization_id j,
     rr_tenant_id = aj_tenant_id j, rr_user_id = aj_user_id j\<rparr>"

definition dry_run_output :: js_val where
  "dry_run_output = JObj [(''logs'', texts [''Simulating LLM call...'', ''Returning MOCK_DATA'']), (''mode'', JStr ''DRY_RUN'')]"

definition approval_output :: js_val where
  "approval_output = JObj [(''message'', JStr ''Awaiting human approval before final output.'')]"

definition answer_job :: "agent_job \<Rightarrow> string \<Rightarrow> string option \<Rightarrow> (worker_db, job_answer) operation" where
  "answer_job j h status = then_do (ask db_now) (\<lambda>now. give (JobCompleted now (aj_execution_id j) h (aj_request_id j) status))"

text \<open>The four ways through the body of the \<open>try\<close>.\<close>

definition block_job :: "worker_env \<Rightarrow> agent_job \<Rightarrow> (worker_db, job_answer) operation" where
  "block_job W j =
     then_do (persist_execution_finished (aj_execution_id j) (failed_finish ''billing_past_due'')) (\<lambda>_.
     then_do (fan_out_job W j ExecFailed (Some ''billing_past_due'')) (\<lambda>_.
     then_do (ask db_now) (\<lambda>now. give (JobBlocked now))))"

definition dry_run_job :: "worker_env \<Rightarrow> agent_job \<Rightarrow> (worker_db, job_answer) operation" where
  "dry_run_job W j = (let h = rn_hash (wn_runtime W) (or_else (stringify dry_run_output) [])
     in then_do (persist_execution_finished (aj_execution_id j) \<lparr>ef_error_message = None,
          ef_metadata = Some (JObj [(''dryRun'', JBool True)]), ef_output = Some dry_run_output,
          ef_output_hash = Some h, ef_status = ExecSuccess\<rparr>) (\<lambda>_. answer_job j h (Some ''COMPLETED'')))"

definition approval_job :: "worker_env \<Rightarrow> agent_job \<Rightarrow> (worker_db, job_answer) operation" where
  "approval_job W j = (let h = rn_hash (wn_runtime W) (or_else (stringify approval_output) [])
     in then_do (persist_execution_finished (aj_execution_id j) \<lparr>ef_error_message = None, ef_metadata = None,
          ef_output = Some approval_output, ef_output_hash = Some h, ef_status = ExecWaitingApproval\<rparr>) (\<lambda>_.
        answer_job j h (Some ''WAITING_APPROVAL'')))"

definition live_job :: "worker_env \<Rightarrow> agent_job \<Rightarrow> (worker_db, job_answer) operation" where
  "live_job W j =
     then_do (execute_manifest_agent_runtime (wn_runtime W) (job_request j)) (\<lambda>r.
     then_do (persist_execution_finished (aj_execution_id j) (runtime_finish r)) (\<lambda>_.
     then_do (fan_out_job W j (ef_status (runtime_finish r)) None) (\<lambda>_.
     answer_job j (rres_output_hash r) None)))"

definition run_agent_job :: "worker_env \<Rightarrow> agent_job \<Rightarrow> (worker_db, job_answer) operation" where
  "run_agent_job W j =
     then_do (resolve_billing_lock (wn_config W) (aj_tenant_id j)) (\<lambda>(locked, _).
     if locked then block_job W j
     else if aj_mode j = DryRun then dry_run_job W j
     else if aj_approval_required j then approval_job W j
     else live_job W j)"

text \<open>The \<open>catch\<close>: whatever has thrown, the execution is failed, told, and the error thrown again.\<close>

definition fail_agent_job :: "worker_env \<Rightarrow> agent_job \<Rightarrow> api_error \<Rightarrow> (worker_db, job_answer) operation" where
  "fail_agent_job W j e =
     then_do (persist_execution_finished (aj_execution_id j) (failed_finish (error_text e))) (\<lambda>_.
     then_do (fan_out_job W j ExecFailed (Some (error_text e))) (\<lambda>_. throw e))"

text \<open>
  \<open>executeTenantJob\<close>: a tenant of blanks is refused before the body, and its \<open>catch\<close>, are entered
  (\<open>packages/database/src/tenant-context.ts\<close>).
\<close>

definition execute_tenant_job :: "string \<Rightarrow> ('s, 'a) operation \<Rightarrow> ('s, 'a) operation" where
  "execute_tenant_job tenant m =
     (if js_trim tenant = [] then throw (Failure ''Tenant context is required for tenant context bootstrap.'') else m)"

definition process_job :: "worker_env \<Rightarrow> string \<Rightarrow> string \<Rightarrow> js_val \<Rightarrow> (worker_db, job_answer) operation" where
  "process_job W queue i v =
     then_do (read_job W queue i v) (\<lambda>j.
     then_do (persist_execution_started (job_start j)) (\<lambda>_.
     execute_tenant_job (aj_tenant_id j) (try_catch (run_agent_job W j) (fail_agent_job W j))))"

subsection \<open>The agent of a workflow\<close>

text \<open>The step names the tenant; a tenant that is no text is left out here.\<close>

definition input_tenant :: "(string \<times> js_val) list \<Rightarrow> string" where
  "input_tenant input = (case obj_get input ''tenantId'' of JStr t \<Rightarrow> t | _ \<Rightarrow> ''default-tenant'')"

definition workflow_agent_request :: "string \<Rightarrow> string \<Rightarrow> string \<Rightarrow> (string \<times> js_val) list \<Rightarrow> string option \<Rightarrow> runtime_request" where
  "workflow_agent_request i agent summary input org = \<lparr>rr_agent_id = agent, rr_catalog_agent_id = Some agent,
     rr_context_summary = Some summary, rr_execution_id = i, rr_input = AList.update ''workflowContextSummary'' (JStr summary) input,
     rr_organization_id = org, rr_tenant_id = input_tenant input, rr_user_id = None\<rparr>"

definition execute_workflow_agent :: "worker_env \<Rightarrow> string \<Rightarrow> string \<Rightarrow> (string \<times> js_val) list \<Rightarrow> (worker_db, js_val) operation" where
  "execute_workflow_agent W agent summary input =
     then_do (ask (resolve_organization_reference (input_tenant input))) (\<lambda>org.
     then_do (ask db_now) (\<lambda>now.
     let i = ''workflow-agent:'' @ show_int now @ '':'' @ agent;
         q = workflow_agent_request i agent summary input (map_option org_id org)
     in then_do (persist_execution_started \<lparr>es_agent_id = agent, es_execution_id = i, es_input = rr_input q,
          es_organization_id = map_option org_id org, es_source = SourceWorkflow, es_tenant_id = input_tenant input,
          es_user_id = None\<rparr>) (\<lambda>_.
        try_catch
          (then_do (execute_manifest_agent_runtime (wn_runtime W) q) (\<lambda>r.
           then_do (persist_execution_finished i (runtime_finish r)) (\<lambda>_. give (output_object (rres_output r)))))
          (\<lambda>e. then_do (persist_execution_finished i (failed_finish (error_text e))) (\<lambda>_. throw e)))))"

subsection \<open>Handoffs\<close>

text \<open>\<open>apps/worker/src/agents/handoffs.ts\<close>: a step that hands over to another agent leaves a row and a message in
  the thread of the correlation.\<close>

record handoff_request =
  hq_context :: "(string \<times> js_val) list"
  hq_context_summary :: string
  hq_correlation_id :: string
  hq_execution_id :: string
  hq_source_agent_id :: string
  hq_summary :: string
  hq_target_agent_id :: string
  hq_tenant_id :: string
  hq_thread_id :: "string option"
  hq_workflow_id :: string

definition handoff_thread :: "handoff_request \<Rightarrow> string \<Rightarrow> thread_request" where
  "handoff_thread q org = \<lparr>tr_channel = ''agent-handoff'', tr_connector_account_id = None,
     tr_correlation_id = Some (hq_correlation_id q), tr_customer_reference = None, tr_external_thread_id = None,
     tr_lead_reference = None, tr_metadata = Some (JObj [(''sourceAgentId'', JStr (hq_source_agent_id q)),
       (''targetAgentId'', JStr (hq_target_agent_id q)), (''workflowId'', JStr (hq_workflow_id q))]),
     tr_organization_id = org, tr_status = None, tr_subject = None, tr_tenant_id = hq_tenant_id q,
     tr_thread_id = truthy (hq_thread_id q)\<rparr>"

definition new_handoff :: "string \<Rightarrow> ms \<Rightarrow> handoff_request \<Rightarrow> string \<Rightarrow> string \<Rightarrow> handoff_row" where
  "new_handoff i now q org thread = \<lparr>hof_id = i, hof_tenant_id = hq_tenant_id q, hof_organization_id = org,
     hof_thread_id = Some thread, hof_source_agent_id = hq_source_agent_id q, hof_target_agent_id = hq_target_agent_id q,
     hof_source_execution_id = Some (hq_execution_id q), hof_correlation_id = hq_correlation_id q, hof_status = ''queued'',
     hof_summary = hq_summary q,
     hof_context = JObj (AList.update ''workflowId'' (JStr (hq_workflow_id q))
       (AList.update ''contextSummary'' (JStr (hq_context_summary q)) (hq_context q))),
     hof_created_at = now\<rparr>"

definition handoff_message :: "handoff_request \<Rightarrow> string \<Rightarrow> handoff_row \<Rightarrow> string \<Rightarrow> message_request" where
  "handoff_message q org h thread = \<lparr>mr_agent_id = Some (hq_source_agent_id q),
     mr_content = JObj [(''correlationId'', JStr (hq_correlation_id q)), (''sourceAgentId'', JStr (hq_source_agent_id q)),
       (''summary'', JStr (hq_summary q)), (''targetAgentId'', JStr (hq_target_agent_id q)),
       (''type'', JStr ''agent_handoff''), (''workflowId'', JStr (hq_workflow_id q))],
     mr_direction = ''internal'', mr_external_message_id = None,
     mr_metadata = Some (JObj [(''executionId'', JStr (hq_execution_id q)), (''handoffId'', JStr (hof_id h))]),
     mr_organization_id = org, mr_role = Some ''system'', mr_tenant_id = hq_tenant_id q, mr_thread_id = thread\<rparr>"

definition handoff_indexes :: "handoff_row index list" where
  "handoff_indexes = [(''id'', \<lambda>r. Some (hof_id r))]"

definition on_handoffs :: "(handoff_row list \<Rightarrow> db_error + handoff_row list) \<Rightarrow> (worker_db, unit) operation" where
  "on_handoffs = on_table wdb_handoffs (\<lambda>t s. s\<lparr>wdb_handoffs := t\<rparr>)"

definition persist_agent_handoff :: "(string \<Rightarrow> string) \<Rightarrow> handoff_request \<Rightarrow> (worker_db, handoff_row) operation" where
  "persist_agent_handoff new_id q =
     then_do (ask (\<lambda>s. List.find (\<lambda>r. org_tenant_id r = hq_tenant_id q) (db_orgs (gdb_billing s)))) (\<lambda>found. case found of
       None \<Rightarrow> throw (Failure (''HANDOFF_ORGANIZATION_NOT_FOUND:'' @ hq_tenant_id q))
     | Some org \<Rightarrow>
         then_do (ask db_now) (\<lambda>now.
         then_do (on_conversations (ensure_conversation_thread (new_id ''thread'') now (handoff_thread q (org_id org)))) (\<lambda>thread.
         let h = new_handoff (new_id ''handoff'') now q (org_id org) (th_id thread)
         in then_do (on_handoffs (create_row handoff_indexes h)) (\<lambda>_.
            then_do (on_conversations (create_conversation_message (new_id ''message'') now
              (handoff_message q (org_id org) h (th_id thread)))) (\<lambda>_.
            give h)))))"

subsection \<open>The queues\<close>

datatype queue_priority = HighPriority | LowPriority | NormalPriority

definition queue_name_for_priority :: "queue_priority \<Rightarrow> string" where
  "queue_name_for_priority p = (case p of HighPriority \<Rightarrow> ''agent-high'' | LowPriority \<Rightarrow> ''agent-low'' | NormalPriority \<Rightarrow> ''agent-normal'')"

definition map_priority :: "queue_priority \<Rightarrow> int" where
  "map_priority p = (case p of HighPriority \<Rightarrow> 1 | NormalPriority \<Rightarrow> 5 | LowPriority \<Rightarrow> 10)"

record queued_agent_job =
  qj_queue :: string
  qj_job_id :: string
  qj_priority :: int
  qj_job :: agent_job_data

text \<open>BullMQ takes a job id it knows for the job it has.\<close>

definition enqueue_agent_job :: "queue_priority option \<Rightarrow> agent_job_data \<Rightarrow> queued_agent_job list \<Rightarrow> queued_agent_job list" where
  "enqueue_agent_job p j queued =
     (let pr = or_else p NormalPriority;
          q = \<lparr>qj_queue = queue_name_for_priority pr, qj_job_id = ej_tenant_id j @ '':'' @ ej_execution_id j,
            qj_priority = map_priority pr, qj_job = j\<rparr>
      in if list_ex (\<lambda>x. qj_queue x = qj_queue q \<and> qj_job_id x = qj_job_id q) queued then queued else queued @ [q])"

end
