(* ===== verification/ConnectorSecrets.thy ===== *)
theory ConnectorSecrets
  imports Crypto Json
begin

text \<open>
  The secrets of connectors (\<open>apps/api/src/lib/encryption.ts\<close>): AES-256-GCM over every text of a nested map,
  written as hexadecimal. The cipher is the parameter of \<^theory_text>\<open>Crypto\<close>; initialization vectors are drawn from a
  stream, one for every text that is not empty.
\<close>

subsection \<open>Hexadecimal\<close>

definition hex_byte :: "8 word \<Rightarrow> string" where
  "hex_byte w = [hex_lower (unat w div 16), hex_lower (unat w mod 16)]"

definition to_hex :: "8 word list \<Rightarrow> string" where
  "to_hex bs = concat (map hex_byte bs)"

text \<open>\<open>Buffer.from(s, "hex")\<close> ends at the first pair that is none.\<close>

fun from_hex :: "string \<Rightarrow> 8 word list" where
  "from_hex (a # b # cs) = (case (hex_value a, hex_value b) of
     (Some x, Some y) \<Rightarrow> word_of_nat (x * 16 + y) # from_hex cs | _ \<Rightarrow> [])"
| "from_hex _ = []"

subsection \<open>One text\<close>

definition encrypt_connector_token :: "aead \<Rightarrow> string \<Rightarrow> 8 word list \<Rightarrow> string \<Rightarrow> string" where
  "encrypt_connector_token ae secret iv s =
     (if s = [] then s
      else case seal ae (derive_key ae secret) iv s of
        (tag, encrypted) \<Rightarrow> to_hex iv @ '':'' @ to_hex tag @ '':'' @ to_hex encrypted)"

definition decrypt_connector_token :: "aead \<Rightarrow> string \<Rightarrow> string \<Rightarrow> string" where
  "decrypt_connector_token ae secret s =
     (if s = [] \<or> CHR '':'' \<notin> set s then s
      else case split_on CHR '':'' s of
        [iv, tag, encrypted] \<Rightarrow>
          if iv = [] \<or> tag = [] \<or> encrypted = [] then s
          else or_else (open_sealed ae (derive_key ae secret) (from_hex iv) (from_hex tag) (from_hex encrypted)) s
      | _ \<Rightarrow> s)"

subsection \<open>Maps\<close>

text \<open>A list is gone through as an object: \<open>Object.entries\<close> gives its indices as keys.\<close>

fun encrypt_value :: "aead \<Rightarrow> string \<Rightarrow> (nat \<Rightarrow> 8 word list) \<Rightarrow> nat \<Rightarrow> js_val \<Rightarrow> js_val \<times> nat"
and encrypt_fields :: "aead \<Rightarrow> string \<Rightarrow> (nat \<Rightarrow> 8 word list) \<Rightarrow> nat \<Rightarrow> (string \<times> js_val) list \<Rightarrow> (string \<times> js_val) list \<times> nat"
and encrypt_items :: "aead \<Rightarrow> string \<Rightarrow> (nat \<Rightarrow> 8 word list) \<Rightarrow> nat \<Rightarrow> nat \<Rightarrow> js_val list \<Rightarrow> (string \<times> js_val) list \<times> nat" where
  "encrypt_value ae secret ivs n (JStr s) = (JStr (encrypt_connector_token ae secret (ivs n) s), if s = [] then n else Suc n)"
| "encrypt_value ae secret ivs n (JObj fs) = (case encrypt_fields ae secret ivs n fs of (fs', n') \<Rightarrow> (JObj fs', n'))"
| "encrypt_value ae secret ivs n (JArr vs) = (case encrypt_items ae secret ivs n 0 vs of (fs', n') \<Rightarrow> (JObj fs', n'))"
| "encrypt_value ae secret ivs n v = (v, n)"
| "encrypt_fields ae secret ivs n [] = ([], n)"
| "encrypt_fields ae secret ivs n ((k, v) # fs) = (case encrypt_value ae secret ivs n v of (v', n') \<Rightarrow>
     (case encrypt_fields ae secret ivs n' fs of (fs', n'') \<Rightarrow> ((k, v') # fs', n'')))"
| "encrypt_items ae secret ivs n i [] = ([], n)"
| "encrypt_items ae secret ivs n i (v # vs) = (case encrypt_value ae secret ivs n v of (v', n') \<Rightarrow>
     (case encrypt_items ae secret ivs n' (Suc i) vs of (fs', n'') \<Rightarrow> ((show_nat i, v') # fs', n'')))"

definition encrypt_connectors_map :: "aead \<Rightarrow> string \<Rightarrow> (nat \<Rightarrow> 8 word list) \<Rightarrow> (string \<times> js_val) list \<Rightarrow> (string \<times> js_val) list" where
  "encrypt_connectors_map ae secret ivs fs = fst (encrypt_fields ae secret ivs 0 fs)"

fun decrypt_value :: "aead \<Rightarrow> string \<Rightarrow> js_val \<Rightarrow> js_val"
and decrypt_fields :: "aead \<Rightarrow> string \<Rightarrow> (string \<times> js_val) list \<Rightarrow> (string \<times> js_val) list"
and decrypt_items :: "aead \<Rightarrow> string \<Rightarrow> nat \<Rightarrow> js_val list \<Rightarrow> (string \<times> js_val) list" where
  "decrypt_value ae secret (JStr s) = JStr (decrypt_connector_token ae secret s)"
| "decrypt_value ae secret (JObj fs) = JObj (decrypt_fields ae secret fs)"
| "decrypt_value ae secret (JArr vs) = JObj (decrypt_items ae secret 0 vs)"
| "decrypt_value ae secret v = v"
| "decrypt_fields ae secret [] = []"
| "decrypt_fields ae secret ((k, v) # fs) = (k, decrypt_value ae secret v) # decrypt_fields ae secret fs"
| "decrypt_items ae secret i [] = []"
| "decrypt_items ae secret i (v # vs) = (show_nat i, decrypt_value ae secret v) # decrypt_items ae secret (Suc i) vs"

definition decrypt_connectors_map :: "aead \<Rightarrow> string \<Rightarrow> (string \<times> js_val) list \<Rightarrow> (string \<times> js_val) list" where
  "decrypt_connectors_map = decrypt_fields"

subsection \<open>Reading back\<close>

text \<open>The map as it can be read back: its lists become objects with their indices for keys.\<close>

fun without_lists :: "js_val \<Rightarrow> js_val"
and fields_without_lists :: "(string \<times> js_val) list \<Rightarrow> (string \<times> js_val) list"
and items_as_fields :: "nat \<Rightarrow> js_val list \<Rightarrow> (string \<times> js_val) list" where
  "without_lists (JObj fs) = JObj (fields_without_lists fs)"
| "without_lists (JArr vs) = JObj (items_as_fields 0 vs)"
| "without_lists v = v"
| "fields_without_lists [] = []"
| "fields_without_lists ((k, v) # fs) = (k, without_lists v) # fields_without_lists fs"
| "items_as_fields i [] = []"
| "items_as_fields i (v # vs) = (show_nat i, without_lists v) # items_as_fields (Suc i) vs"

text \<open>What the cipher and the generator promise.\<close>

definition cipher_opens :: "aead \<Rightarrow> string \<Rightarrow> (nat \<Rightarrow> 8 word list) \<Rightarrow> bool" where
  "cipher_opens ae secret ivs \<longleftrightarrow> (\<forall>n s tag encrypted. s \<noteq> [] \<and> seal ae (derive_key ae secret) (ivs n) s = (tag, encrypted) \<longrightarrow>
     ivs n \<noteq> [] \<and> tag \<noteq> [] \<and> encrypted \<noteq> [] \<and> open_sealed ae (derive_key ae secret) (ivs n) tag encrypted = Some s)"

lemma hex_value_lower: "n < 16 \<Longrightarrow> hex_value (hex_lower n) = Some n"
proof -
  have "list_all (\<lambda>n. hex_value (hex_lower n) = Some n) [0..<16]" by code_simp
  then show "n < 16 \<Longrightarrow> hex_value (hex_lower n) = Some n" by (simp add: list_all_iff)
qed

lemma hex_lower_plain: "n < 16 \<Longrightarrow> hex_lower n \<noteq> CHR '':''"
proof -
  have "list_all (\<lambda>n. hex_lower n \<noteq> CHR '':'') [0..<16]" by code_simp
  then show "n < 16 \<Longrightarrow> hex_lower n \<noteq> CHR '':''" by (simp add: list_all_iff)
qed

lemma byte_digits: "unat (w :: 8 word) div 16 < 16" "unat w mod 16 < 16"
proof -
  have "unat w < 256" using unsigned_less[of w] by simp
  then show "unat w div 16 < 16" "unat w mod 16 < 16" by simp_all
qed

lemma from_to_hex [simp]: "from_hex (to_hex bs) = bs"
proof (induction bs)
  case (Cons b bs)
  have "word_of_nat (unat b div 16 * 16 + unat b mod 16) = b" by (simp only: div_mult_mod_eq) simp
  with Cons show ?case by (simp add: to_hex_def hex_byte_def hex_value_lower byte_digits)
qed (simp add: to_hex_def)

lemma to_hex_plain [simp]: "CHR '':'' \<notin> set (to_hex bs)"
proof -
  have "CHR '':'' \<notin> set (hex_byte b)" for b
    using hex_lower_plain[OF byte_digits(1)[of b]] hex_lower_plain[OF byte_digits(2)[of b]] by (simp add: hex_byte_def)
  then show ?thesis by (simp add: to_hex_def)
qed

lemma to_hex_empty [simp]: "to_hex bs = [] \<longleftrightarrow> bs = []"
  by (cases bs) (simp_all add: to_hex_def hex_byte_def)

lemma char_of_byte: "char_of (unat (of_char c :: 8 word)) = c"
proof -
  have "unat (of_char c :: 8 word) = unat (of_nat (of_char c) :: 8 word)" by (simp only: of_nat_of_char)
  also have "\<dots> = of_char c" using nat_of_char_less_256[of c] by (simp add: unat_of_nat)
  finally show ?thesis by simp
qed

lemma token_roundtrip:
  assumes "cipher_opens ae secret ivs"
  shows "decrypt_connector_token ae secret (encrypt_connector_token ae secret (ivs n) s) = s"
proof (cases "s = []")
  case False
  obtain tag encrypted where sealed: "seal ae (derive_key ae secret) (ivs n) s = (tag, encrypted)" by fastforce
  note ok = assms[unfolded cipher_opens_def, rule_format, OF conjI[OF False sealed]]
  have "split_on CHR '':'' (to_hex (ivs n) @ CHR '':'' # to_hex tag @ CHR '':'' # to_hex encrypted) =
      [to_hex (ivs n), to_hex tag, to_hex encrypted]" by (rule split_three) simp_all
  moreover have "encrypt_connector_token ae secret (ivs n) s = to_hex (ivs n) @ CHR '':'' # to_hex tag @ CHR '':'' # to_hex encrypted"
    using False sealed by (simp add: encrypt_connector_token_def)
  ultimately show ?thesis using ok by (simp add: decrypt_connector_token_def or_else_def)
qed (simp add: encrypt_connector_token_def decrypt_connector_token_def)

text \<open>What is decrypted is what was encrypted, at every depth and whatever was drawn.\<close>

lemma connectors_roundtrip:
  assumes "cipher_opens ae secret ivs"
  shows "decrypt_connectors_map ae secret (encrypt_connectors_map ae secret ivs fs) = fields_without_lists fs"
proof -
  have "decrypt_value ae secret (fst (encrypt_value ae secret ivs n v)) = without_lists v"
    "decrypt_fields ae secret (fst (encrypt_fields ae secret ivs n fs)) = fields_without_lists fs"
    "decrypt_fields ae secret (fst (encrypt_items ae secret ivs n i vs)) = items_as_fields i vs" for n v fs i vs
    using assms
    by (induction ae secret ivs n v and ae secret ivs n fs and ae secret ivs n i vs
        rule: encrypt_value_encrypt_fields_encrypt_items.induct)
      (auto simp: token_roundtrip split: prod.splits)
  then show ?thesis by (simp add: decrypt_connectors_map_def encrypt_connectors_map_def)
qed

lemma sample_cipher_opens: "cipher_opens sample_aead secret (\<lambda>n. [1, 2])"
  by (auto simp: cipher_opens_def sample_aead_def comp_def char_of_byte)

end
