(* ===== verification/InstalledAgents.thy ===== *)
theory InstalledAgents
  imports AgentWorker ConnectorSecrets
begin

text \<open>
  Agents a tenant has installed: the installer of packs (\<open>apps/api/src/modules/packs/pack-installer.service.ts\<close>),
  the service of installed agents (\<open>apps/api/src/modules/agents/service.ts\<close>) and the queue between it and the
  worker (\<open>apps/api/src/modules/agents/queue.ts\<close>).

  The state is the database and Redis as the worker sees them, with the jobs of the queue, the counters of its rate
  limit and the steps of workflows joined with their workflows. The catalogue, the limit of the plan, the ids, the
  hash, the order of \<open>localeCompare\<close>, the initialization vectors and which job ids the queue refuses are given; Redis and the
  database answer.
\<close>

record agent_queue =
  aq_waiting :: "queued_agent_job list"
  aq_delayed :: "queued_agent_job list"
  aq_prioritized :: "queued_agent_job list"
  aq_active :: "queued_agent_job list"
  aq_completed :: "queued_agent_job list"
  aq_failed :: "queued_agent_job list"

record step_use =
  su_tenant_id :: string
  su_type :: string
  su_config :: js_val
  su_workflow_name :: string
  su_workflow_status :: string

record platform_db =
  pl_db :: worker_db
  pl_queue :: agent_queue
  pl_counters :: "(string \<times> (ms \<times> int)) list"
  pl_steps :: "step_use list"

record platform_env =
  pn_catalog :: "catalog_entry list"
  pn_agent_limit :: "string \<Rightarrow> js_num"
  pn_ids :: "string \<Rightarrow> string"
  pn_hash :: "string \<Rightarrow> string"
  pn_collate :: "string \<Rightarrow> rat"
  pn_cipher :: aead
  pn_secret :: string
  pn_ivs :: "nat \<Rightarrow> 8 word list"
  pn_rate_window_seconds :: int
  pn_rate_max :: int
  pn_backpressure :: nat
  pn_queue_refuses :: "string \<Rightarrow> string option"

definition pl_now :: "platform_db \<Rightarrow> ms" where
  "pl_now s = db_now (pl_db s)"

definition agent_indexes :: "agent_row index list" where
  "agent_indexes = [(''id'', \<lambda>r. Some (agt_id r)), (''tenantId_name'', \<lambda>r. Some (compound_key (agt_tenant_id r) (agt_name r)))]"

definition on_agents :: "(agent_row list \<Rightarrow> db_error + agent_row list) \<Rightarrow> (platform_db, unit) operation" where
  "on_agents = on_table (\<lambda>s. gdb_agents (pl_db s)) (\<lambda>t s. s\<lparr>pl_db := (pl_db s)\<lparr>gdb_agents := t\<rparr>\<rparr>)"

definition on_worker :: "(worker_db, 'a) operation \<Rightarrow> (platform_db, 'a) operation" where
  "on_worker = on_part pl_db (\<lambda>t s. s\<lparr>pl_db := t\<rparr>)"

definition log_agents :: "string \<Rightarrow> string \<Rightarrow> js_val \<Rightarrow> string \<Rightarrow> string \<Rightarrow> string \<Rightarrow> (platform_db, unit) operation" where
  "log_agents action actor diff entity entity_type tenant =
     then_do (ask pl_now) (\<lambda>now.
     on_worker (add_entry \<lparr>al_tenant_id = tenant, al_actor_id = Some actor, al_action = action,
       al_entity_type = entity_type, al_entity_id = entity, al_diff = OtherDiff diff, al_created_at = now\<rparr>))"

text \<open>\<open>{ ...config, k: v }\<close>.\<close>

definition with_field :: "string \<Rightarrow> js_val \<Rightarrow> (string \<times> js_val) list \<Rightarrow> (string \<times> js_val) list" where
  "with_field k v fs = AList.update k v fs"

definition config_fields :: "js_val \<Rightarrow> (string \<times> js_val) list" where
  "config_fields v = (case v of JObj fs \<Rightarrow> fs | _ \<Rightarrow> [])"

text \<open>What is not there is an error.\<close>

definition require :: "api_error \<Rightarrow> 'a option \<Rightarrow> ('s, 'a) operation" where
  "require e v = (case v of None \<Rightarrow> throw e | Some a \<Rightarrow> give a)"

lemma require_eq [simp]: "require e v s = (Inr a, s') \<longleftrightarrow> v = Some a \<and> s' = s"
  by (auto simp: require_def split: option.split)

subsection \<open>Packs\<close>

record install_input =
  ii_activate :: bool
  ii_agent_id :: "string option"
  ii_actor_id :: string
  ii_connectors :: "(string \<times> js_val) list"
  ii_pack_id :: "string option"
  ii_tenant_id :: string

definition require_actor_id :: "string option \<Rightarrow> string \<Rightarrow> api_error + string" where
  "require_actor_id actor action = (case trimmed actor of
     None \<Rightarrow> Inl (Failure (''ACTOR_ID_REQUIRED:'' @ action)) | Some a \<Rightarrow> Inr a)"

definition extract_pack_id :: "js_val \<Rightarrow> string option" where
  "extract_pack_id config = as_text (js_prop config ''packId'')"

definition extract_version :: "js_val \<Rightarrow> string \<Rightarrow> string option" where
  "extract_version config field = as_text (js_prop config field)"

definition extract_source_agent_id :: "js_val \<Rightarrow> string option" where
  "extract_source_agent_id config = as_text (js_prop config ''sourceAgentId'')"

definition resolve_requested_agent_id :: "install_input \<Rightarrow> api_error + string" where
  "resolve_requested_agent_id i = (case or_opt (trimmed (ii_agent_id i)) (trimmed (ii_pack_id i)) of
     None \<Rightarrow> Inl (Failure ''agentId or packId is required to install an official agent.'') | Some a \<Rightarrow> Inr a)"

definition tenant_agents :: "string \<Rightarrow> platform_db \<Rightarrow> agent_row list" where
  "tenant_agents tenant s = filter (\<lambda>a. agt_tenant_id a = tenant) (gdb_agents (pl_db s))"

definition status_text :: "bool \<Rightarrow> js_val" where
  "status_text activate = JStr (if activate then ''active'' else ''installed'')"

definition encrypted_connectors :: "platform_env \<Rightarrow> install_input \<Rightarrow> js_val" where
  "encrypted_connectors P i = JObj (encrypt_connectors_map (pn_cipher P) (pn_secret P) (pn_ivs P) (ii_connectors i))"

definition reinstalled :: "platform_env \<Rightarrow> ms \<Rightarrow> install_input \<Rightarrow> string \<Rightarrow> agent_manifest \<Rightarrow> agent_row \<Rightarrow> agent_row" where
  "reinstalled P now i requested m a = a\<lparr>agt_config := JObj (fold (\<lambda>(k, v). with_field k v)
       [(''connectors'', encrypted_connectors P i), (''latestAvailableVersion'', JStr (ad_version (am_agent m))),
        (''packId'', JStr requested), (''sourceAgentId'', JStr (ad_id (am_agent m))), (''status'', status_text (ii_activate i))]
       (config_fields (agt_config a))),
     agt_status := (if ii_activate i then ''ACTIVE'' else ''PAUSED''), agt_updated_at := now\<rparr>"

definition new_agent :: "platform_env \<Rightarrow> ms \<Rightarrow> install_input \<Rightarrow> string \<Rightarrow> agent_manifest \<Rightarrow> string \<Rightarrow> agent_row" where
  "new_agent P now i requested m org = \<lparr>agt_id = pn_ids P ''agent'', agt_tenant_id = ii_tenant_id i, agt_organization_id = org,
     agt_name = ad_name (am_agent m), agt_status = (if ii_activate i then ''ACTIVE'' else ''PAUSED''),
     agt_config = JObj [(''connectors'', encrypted_connectors P i), (''installedAt'', JStr (iso_string now)),
       (''installedVersion'', JStr (ad_version (am_agent m))), (''latestAvailableVersion'', JStr (ad_version (am_agent m))),
       (''packId'', JStr requested), (''sourceAgentId'', JStr (ad_id (am_agent m))), (''status'', status_text (ii_activate i))],
     agt_updated_at = now\<rparr>"

record install_result =
  ir_agent_id :: string
  ir_already_installed :: bool
  ir_installed_agent_id :: string

definition limit_exceeded :: "nat \<Rightarrow> js_num \<Rightarrow> bool" where
  "limit_exceeded count limit = (case limit of Fin q \<Rightarrow> q < of_nat count | _ \<Rightarrow> False)"

definition existing_agent :: "install_input \<Rightarrow> string \<Rightarrow> platform_db \<Rightarrow> agent_row option" where
  "existing_agent i requested s =
     List.find (\<lambda>a. extract_source_agent_id (agt_config a) = Some requested) (tenant_agents (ii_tenant_id i) s)"

definition install_diff :: "install_input \<Rightarrow> string \<Rightarrow> bool \<Rightarrow> js_val" where
  "install_diff i requested already = JObj [(''activateAgents'', JBool (ii_activate i)), (''agentId'', JStr requested),
     (''alreadyInstalled'', JBool already), (''connectors'', JObj (ii_connectors i)), (''packId'', JStr requested)]"

text \<open>The transaction: the agent is written, and the entry that tells of it.\<close>

definition write_install :: "platform_env \<Rightarrow> install_input \<Rightarrow> string \<Rightarrow> string \<Rightarrow> agent_manifest \<Rightarrow> string \<Rightarrow> agent_row option \<Rightarrow>
    (platform_db, unit) operation" where
  "write_install P i actor requested m org existing =
     then_do (ask pl_now) (\<lambda>now.
     in_transaction
       (then_do (case existing of
          Some a \<Rightarrow> on_agents (update_unique ''agent'' agent_indexes (\<lambda>r. agt_id r = agt_id a) (reinstalled P now i requested m))
        | None \<Rightarrow> on_agents (create_row agent_indexes (new_agent P now i requested m org))) (\<lambda>_.
        log_agents ''PACK_INSTALL'' actor (install_diff i requested (existing \<noteq> None)) requested ''agent_pack'' (ii_tenant_id i))))"

definition install_pack_atomic :: "platform_env \<Rightarrow> install_input \<Rightarrow> (platform_db, install_result) operation" where
  "install_pack_atomic P i =
     then_do (lift_error (require_actor_id (Some (ii_actor_id i)) ''install-pack'')) (\<lambda>actor.
     then_do (lift_error (resolve_requested_agent_id i)) (\<lambda>requested.
     then_do (require (Failure (''Installable agent '' @ quoted requested @ '' was not found in catalog.''))
       (List.find (\<lambda>e. ad_id (am_agent (ce_manifest e)) = requested \<and> is_installable_manifest (ce_manifest e)) (pn_catalog P))) (\<lambda>e.
     then_do (ask (\<lambda>s. List.find (\<lambda>r. org_tenant_id r = ii_tenant_id i) (db_orgs (gdb_billing (pl_db s))))) (\<lambda>found.
     then_do (require (Failure (''Tenant '' @ ii_tenant_id i @ '' does not exist.'')) found) (\<lambda>org.
     then_do (ask (\<lambda>s. length (tenant_agents (ii_tenant_id i) s))) (\<lambda>n.
     then_do (ask (existing_agent i requested)) (\<lambda>existing.
     then_do (require (Failure (''agents limit exceeded ('' @ show_nat n @ ''/'' @ show_num (pn_agent_limit P (ii_tenant_id i)) @ '').''))
       (if limit_exceeded (n + (if existing = None then 1 else 0)) (pn_agent_limit P (ii_tenant_id i)) then None else Some ())) (\<lambda>_.
     then_do (write_install P i actor requested (ce_manifest e) (org_id org) existing) (\<lambda>_.
     give \<lparr>ir_agent_id = requested, ir_already_installed = (existing \<noteq> None),
       ir_installed_agent_id = (case existing of Some a \<Rightarrow> agt_id a | None \<Rightarrow> pn_ids P ''agent'')\<rparr>)))))))))"

text \<open>The workflows that stand in the way: those of a live workflow with a step that runs one of the agents.\<close>

definition uses_agent :: "string \<Rightarrow> string list \<Rightarrow> step_use \<Rightarrow> bool" where
  "uses_agent tenant ids u \<longleftrightarrow> su_tenant_id u = tenant \<and> su_type u = ''AGENT_EXECUTE'' \<and>
     su_workflow_status u \<in> {''PUBLISHED'', ''DRAFT''} \<and>
     (case js_prop (su_config u) ''agentId'' of JStr a \<Rightarrow> a \<noteq> [] \<and> a \<in> set ids | _ \<Rightarrow> False)"

definition uninstall_pack_atomic :: "string \<Rightarrow> string \<Rightarrow> string \<Rightarrow> (platform_db, nat) operation" where
  "uninstall_pack_atomic actor pack tenant =
     then_do (lift_error (require_actor_id (Some actor) ''uninstall-pack'')) (\<lambda>actor.
     then_do (ask (\<lambda>s. map agt_id (filter (\<lambda>a. extract_pack_id (agt_config a) = Some pack) (tenant_agents tenant s)))) (\<lambda>ids.
     then_do (ask (\<lambda>s. map su_workflow_name (filter (uses_agent tenant ids) (pl_steps s)))) (\<lambda>used.
     if ids \<noteq> [] \<and> used \<noteq> [] then
       throw (Failure (''Cannot uninstall pack because it is being used by active workflows: '' @ join_with '', '' (js_set used) @
         ''. Please remove the agents from these workflows or archive them first.''))
     else
       then_do (in_transaction
         (then_do (on_agents (\<lambda>rows. Inr (delete_where (\<lambda>r. agt_id r \<in> set ids) rows))) (\<lambda>_.
          log_agents ''PACK_UNINSTALL'' actor (JObj [(''deletedAgents'', JNum (Fin (of_nat (length ids)))), (''packId'', JStr pack)])
            pack ''agent_pack'' tenant))) (\<lambda>_.
       give (length ids)))))"

record pack_status =
  pks_installed_version :: string
  pks_latest_version :: string
  pks_pack_id :: string
  pks_status :: string

definition status_of_agent :: "string \<Rightarrow> agent_row \<Rightarrow> pack_status" where
  "status_of_agent pack a =
     (let v = or_else (extract_version (agt_config a) ''installedVersion'') ''1.0.0''
      in \<lparr>pks_installed_version = v, pks_latest_version = or_else (extract_version (agt_config a) ''latestAvailableVersion'') v,
          pks_pack_id = pack,
          pks_status = (if agt_status a = ''ACTIVE'' then ''active'' else if agt_status a = ''PAUSED'' then ''installed'' else ''failed'')\<rparr>)"

fun first_of_pack :: "string list \<Rightarrow> agent_row list \<Rightarrow> pack_status list" where
  "first_of_pack seen [] = []"
| "first_of_pack seen (a # agents) = (case truthy (extract_pack_id (agt_config a)) of
     None \<Rightarrow> first_of_pack seen agents
   | Some p \<Rightarrow> if List.member seen p then first_of_pack seen agents else status_of_agent p a # first_of_pack (p # seen) agents)"

definition get_pack_status :: "string \<Rightarrow> (platform_db, pack_status list) operation" where
  "get_pack_status tenant = ask (\<lambda>s. first_of_pack [] (tenant_agents tenant s))"

definition update_pack_version :: "string \<Rightarrow> string \<Rightarrow> string \<Rightarrow> string \<Rightarrow> (platform_db, nat) operation" where
  "update_pack_version actor latest pack tenant =
     then_do (lift_error (require_actor_id (Some actor) ''update-pack-version'')) (\<lambda>actor.
     then_do (ask (\<lambda>s. map agt_id (filter (\<lambda>a. extract_pack_id (agt_config a) = Some pack) (tenant_agents tenant s)))) (\<lambda>ids.
     then_do (ask pl_now) (\<lambda>now.
     then_do (in_transaction
       (then_do (on_agents (update_many agent_indexes (\<lambda>r. agt_id r \<in> set ids) (\<lambda>r. r\<lparr>agt_config := JObj (with_field
          ''latestAvailableVersion'' (JStr latest) (config_fields (agt_config r))), agt_updated_at := now\<rparr>))) (\<lambda>_.
        log_agents ''PACK_VERSION_UPDATED'' actor (JObj [(''affectedAgents'', JNum (Fin (of_nat (length ids)))),
          (''latestAvailableVersion'', JStr latest), (''packId'', JStr pack)]) pack ''agent_pack'' tenant))) (\<lambda>_.
     give (length ids)))))"

subsection \<open>What is installed\<close>

record installed_config =
  ic_connectors :: "(string \<times> js_val) list"
  ic_installed_at :: "string option"
  ic_installed_version :: string
  ic_latest_version :: string
  ic_managed_policies :: "managed_agent_policy list"
  ic_pack_id :: "string option"
  ic_provider :: runtime_provider
  ic_source_agent_id :: "string option"
  ic_status :: string

definition parse_installed_config :: "platform_env \<Rightarrow> js_val \<Rightarrow> installed_config" where
  "parse_installed_config P config =
     (let field = \<lambda>k. as_text (js_prop config k); worker = parse_agent_config config;
          version = or_else (field ''installedVersion'') ''1.0.0''
      in \<lparr>ic_connectors = (case js_prop config ''connectors'' of
            JObj fs \<Rightarrow> decrypt_connectors_map (pn_cipher P) (pn_secret P) fs | _ \<Rightarrow> []),
          ic_installed_at = field ''installedAt'', ic_installed_version = version,
          ic_latest_version = or_else (field ''latestAvailableVersion'') version,
          ic_managed_policies = acf_managed_policies worker, ic_pack_id = field ''packId'',
          ic_provider = acf_provider worker, ic_source_agent_id = field ''sourceAgentId'',
          ic_status = or_else (field ''status'') ''installed''\<rparr>)"

definition extract_logs :: "js_val \<Rightarrow> string list" where
  "extract_logs metadata = (case js_prop metadata ''logs'' of
     JArr vs \<Rightarrow> filter (\<lambda>s. js_trim s \<noteq> []) (List.map_filter as_text vs) | _ \<Rightarrow> [])"

definition extract_payload_hash :: "js_val \<Rightarrow> string option" where
  "extract_payload_hash metadata = as_text (js_prop metadata ''payloadHash'')"

datatype shown_status = ShownFailed | ShownRunning | ShownSuccess

definition map_execution_status :: "agent_execution_status \<Rightarrow> shown_status" where
  "map_execution_status s = (case s of ExecFailed \<Rightarrow> ShownFailed | ExecRunning \<Rightarrow> ShownRunning | ExecWaitingApproval \<Rightarrow> ShownRunning
     | ExecSuccess \<Rightarrow> ShownSuccess)"

definition extract_duration_ms :: "agent_execution_row \<Rightarrow> int" where
  "extract_duration_ms r = (case agx_completed_at r of None \<Rightarrow> 0 | Some t \<Rightarrow> max 0 (t - agx_started_at r))"

datatype shown_mode = ShownDryRun | ShownLive | ShownUnknown

definition extract_execution_mode :: "agent_execution_row \<Rightarrow> shown_mode" where
  "extract_execution_mode r =
     (if js_prop (agx_output r) ''executionMode'' = JStr ''DRY_RUN'' then ShownDryRun
      else if js_prop (agx_output r) ''executionMode'' = JStr ''LIVE'' then ShownLive
      else if js_prop (agx_metadata r) ''dryRun'' = JBool True then ShownDryRun
      else case js_prop (agx_metadata r) ''runtimeProvider'' of JStr _ \<Rightarrow> ShownLive | _ \<Rightarrow> ShownUnknown)"

definition flatten_tags :: "agent_manifest \<Rightarrow> string list" where
  "flatten_tags m = (let t = am_tags m
     in js_set (map js_trim (mt_domain t @ mt_industry t @ mt_level t @ mt_persona t @ mt_use_case t)))"

record shown_execution =
  se_duration_ms :: int
  se_id :: string
  se_mode :: shown_mode
  se_started_at :: string
  se_status :: shown_status

record installed_snapshot =
  is_catalog_agent_id :: string
  is_connectors :: "(string \<times> js_val) list"
  is_execution_count :: nat
  is_executions :: "shown_execution list"
  is_fail_rate :: rat
  is_id :: string
  is_keywords :: "string list"
  is_last_run :: "string option"
  is_logs :: "string list"
  is_manifest :: agent_manifest
  is_name :: string
  is_provider :: runtime_provider
  is_source_status :: string
  is_status :: string
  is_tags :: "string list"
  is_version :: string

definition shown_execution_of :: "agent_execution_row \<Rightarrow> shown_execution" where
  "shown_execution_of r = \<lparr>se_duration_ms = extract_duration_ms r, se_id = agx_id r, se_mode = extract_execution_mode r,
     se_started_at = iso_string (agx_started_at r), se_status = map_execution_status (agx_status r)\<rparr>"

definition build_installed_snapshot :: "platform_env \<Rightarrow> agent_row \<Rightarrow> agent_execution_row list \<Rightarrow> agent_manifest \<Rightarrow> installed_snapshot" where
  "build_installed_snapshot P a rows m =
     (let c = parse_installed_config P (agt_config a); es = map shown_execution_of rows;
          failed = length (filter (\<lambda>e. se_status e = ShownFailed) es)
      in \<lparr>is_catalog_agent_id = ad_id (am_agent m), is_connectors = ic_connectors c,
          is_execution_count = length es, is_executions = es,
          is_fail_rate = (if es = [] then 0 else of_nat failed / of_nat (length es)), is_id = agt_id a,
          is_keywords = am_keywords m,
          is_last_run = (case rows of [] \<Rightarrow> None | r # _ \<Rightarrow> Some (iso_string (agx_started_at r))),
          is_logs = (case rows of [] \<Rightarrow> [] | r # _ \<Rightarrow> take 12 (extract_logs (agx_metadata r))), is_manifest = m, is_name = agt_name a,
          is_provider = ic_provider c, is_source_status = agt_status a, is_status = ic_status c, is_tags = flatten_tags m,
          is_version = ic_installed_version c\<rparr>)"

definition with_platform_tenant :: "string \<Rightarrow> (tenant_row \<Rightarrow> (platform_db, 'a) operation) \<Rightarrow> (platform_db, 'a) operation" where
  "with_platform_tenant reference f =
     (let t = js_trim reference
      in if t = [] then throw (Problem 401 ''Authenticated tenant context is required for installed-agent operations.'')
         else then_do (ask (\<lambda>s. List.find (\<lambda>r. org_id r = t \<or> org_slug r = t \<or> org_tenant_id r = t) (edb_tenants (wdb_engagement (pl_db s)))))
           (\<lambda>found. case found of None \<Rightarrow> throw (Problem 404 (''Tenant '' @ t @ '' was not found.'')) | Some r \<Rightarrow> f r))"

record resolved_agent =
  ra_agent :: agent_row
  ra_config :: installed_config
  ra_manifest :: agent_manifest
  ra_tenant :: tenant_row

definition resolve_in :: "platform_env \<Rightarrow> string \<Rightarrow> tenant_row \<Rightarrow> (platform_db, resolved_agent) operation" where
  "resolve_in P i t =
     then_do (ask (\<lambda>s. List.find (\<lambda>a. agt_id a = i \<and> agt_tenant_id a = org_tenant_id t) (gdb_agents (pl_db s)))) (\<lambda>found. case found of
       None \<Rightarrow> throw (Problem 404 (''Installed agent '' @ i @ '' was not found for tenant '' @ org_tenant_id t @ ''.''))
     | Some a \<Rightarrow>
         let c = parse_installed_config P (agt_config a)
         in case truthy (ic_source_agent_id c) of
              None \<Rightarrow> throw (Problem 409 (''Installed agent '' @ i @ '' does not declare a sourceAgentId.''))
            | Some source \<Rightarrow> (case find_manifest_catalog_entry (pn_catalog P) source of
                None \<Rightarrow> throw (Problem 404 (''Catalog agent '' @ source @ '' was not found for installed agent '' @ i @ ''.''))
              | Some e \<Rightarrow> give \<lparr>ra_agent = a, ra_config = c, ra_manifest = ce_manifest e, ra_tenant = t\<rparr>))"

definition resolve_installed_agent :: "platform_env \<Rightarrow> string \<Rightarrow> string \<Rightarrow> (platform_db, resolved_agent) operation" where
  "resolve_installed_agent P i reference = with_platform_tenant reference (resolve_in P i)"

definition executions_of :: "string \<Rightarrow> string \<Rightarrow> platform_db \<Rightarrow> agent_execution_row list" where
  "executions_of agent tenant s = sort_key (\<lambda>r. - agx_started_at r)
     (filter (\<lambda>r. agx_agent_id r = agent \<and> agx_tenant_id r = tenant) (gdb_executions (pl_db s)))"

definition list_installed_agents :: "platform_env \<Rightarrow> string \<Rightarrow> (platform_db, installed_snapshot list) operation" where
  "list_installed_agents P reference = with_platform_tenant reference (\<lambda>t.
     ask (\<lambda>s. List.map_filter (\<lambda>a. Option.bind (truthy (ic_source_agent_id (parse_installed_config P (agt_config a)))) (\<lambda>source.
         map_option (\<lambda>e. build_installed_snapshot P a (take 10 (executions_of (agt_id a) (org_tenant_id t) s)) (ce_manifest e))
           (find_manifest_catalog_entry (pn_catalog P) source)))
       (sort_key (\<lambda>a. - agt_updated_at a) (tenant_agents (org_tenant_id t) s))))"

definition get_installed_agent :: "platform_env \<Rightarrow> string \<Rightarrow> string \<Rightarrow> (platform_db, installed_snapshot) operation" where
  "get_installed_agent P i reference =
     then_do (resolve_installed_agent P i reference) (\<lambda>x.
     ask (\<lambda>s. build_installed_snapshot P (ra_agent x) (take 25 (executions_of (agt_id (ra_agent x)) (org_tenant_id (ra_tenant x)) s)) (ra_manifest x)))"

record execution_replay =
  rpl_execution_id :: string
  rpl_logs :: "string list"
  rpl_output :: js_val
  rpl_status :: string

definition get_execution_replay :: "platform_env \<Rightarrow> string \<Rightarrow> string \<Rightarrow> string \<Rightarrow> (platform_db, execution_replay) operation" where
  "get_execution_replay P execution i reference =
     then_do (resolve_installed_agent P i reference) (\<lambda>x.
     then_do (ask (\<lambda>s. List.find (\<lambda>r. agx_agent_id r = agt_id (ra_agent x) \<and> agx_id r = execution \<and> agx_tenant_id r = org_tenant_id (ra_tenant x))
       (gdb_executions (pl_db s)))) (\<lambda>found. case found of
       None \<Rightarrow> throw (Problem 404 (''Execution '' @ execution @ '' was not found for installed agent '' @ i @ ''.''))
     | Some r \<Rightarrow> give \<lparr>rpl_execution_id = agx_id r, rpl_logs = extract_logs (agx_metadata r),
         rpl_output = (case agx_output r of JObj fs \<Rightarrow> JObj fs | JArr vs \<Rightarrow> JArr vs | _ \<Rightarrow> JNull),
         rpl_status = execution_status_name (agx_status r)\<rparr>))"

subsection \<open>Policies\<close>

definition list_installed_agent_policies :: "platform_env \<Rightarrow> string \<Rightarrow> string \<Rightarrow>
    (platform_db, managed_agent_policy list \<times> policy_manifest list \<times> runtime_provider) operation" where
  "list_installed_agent_policies P i reference =
     then_do (resolve_installed_agent P i reference) (\<lambda>x.
     give (ic_managed_policies (ra_config x), am_policies (ra_manifest x), ic_provider (ra_config x)))"

text \<open>\<open>Map.set\<close> by id: a policy with the id of another takes its place.\<close>

definition by_policy_id :: "managed_agent_policy list \<Rightarrow> managed_agent_policy list" where
  "by_policy_id ps = map snd (fold (\<lambda>p merged. AList.update (map_id p) p merged) ps [])"

definition merge_managed_policies :: "platform_env \<Rightarrow> managed_agent_policy list \<Rightarrow> managed_agent_policy \<Rightarrow> managed_agent_policy list" where
  "merge_managed_policies P ps p = sort_key (\<lambda>p. pn_collate P (map_name p)) (by_policy_id (ps @ [p]))"

text \<open>The config of the agent with the policies, and the entry that tells of it, in one transaction.\<close>

definition store_policies :: "string \<Rightarrow> resolved_agent \<Rightarrow> managed_agent_policy list \<Rightarrow> string \<Rightarrow> js_val \<Rightarrow> string \<Rightarrow> string \<Rightarrow>
    (platform_db, unit) operation" where
  "store_policies actor x ps action diff entity entity_type =
     then_do (ask pl_now) (\<lambda>now.
     in_transaction
       (then_do (on_agents (update_unique ''agent'' agent_indexes (\<lambda>r. agt_id r = agt_id (ra_agent x))
          (\<lambda>r. r\<lparr>agt_config := JObj (with_field ''managedPolicies'' (JArr (map managed_policy_object ps)) (config_fields (agt_config (ra_agent x)))),
            agt_updated_at := now\<rparr>))) (\<lambda>_.
        log_agents action actor diff entity entity_type (org_tenant_id (ra_tenant x)))))"

definition policy_diff :: "resolved_agent \<Rightarrow> managed_agent_policy \<Rightarrow> js_val" where
  "policy_diff x p = JObj [(''installedAgentId'', JStr (agt_id (ra_agent x))), (''policy'', managed_policy_object p)]"

record policy_input =
  poi_actions :: "string list"
  poi_effect :: policy_effect
  poi_enabled :: "bool option"
  poi_name :: string
  poi_policy_id :: "string option"
  poi_reason :: "string option"

definition upsert_installed_agent_policy :: "platform_env \<Rightarrow> string \<Rightarrow> string \<Rightarrow> string \<Rightarrow> policy_input \<Rightarrow>
    (platform_db, managed_agent_policy) operation" where
  "upsert_installed_agent_policy P actor i reference q =
     then_do (resolve_installed_agent P i reference) (\<lambda>x.
     let p = \<lparr>map_actions = poi_actions q, map_effect = poi_effect q, map_enabled = Some (or_else (poi_enabled q) True),
           map_id = or_else (poi_policy_id q) (agt_id (ra_agent x) @ ''.policy.'' @ pn_ids P ''policy''), map_name = poi_name q,
           map_reason = truthy (poi_reason q)\<rparr>
     in then_do (store_policies actor x (merge_managed_policies P (ic_managed_policies (ra_config x)) p) ''AGENT_POLICY_UPSERTED''
          (policy_diff x p) (map_id p) ''agent_policy'') (\<lambda>_. give p))"

record policy_patch =
  pop_actions :: "string list option"
  pop_effect :: "policy_effect option"
  pop_enabled :: "bool option"
  pop_name :: "string option"
  pop_reason :: "string option"

definition patched_policy :: "policy_patch \<Rightarrow> managed_agent_policy \<Rightarrow> managed_agent_policy" where
  "patched_policy q p = \<lparr>map_actions = or_else (pop_actions q) (map_actions p), map_effect = or_else (pop_effect q) (map_effect p),
     map_enabled = Some (or_else (or_opt (pop_enabled q) (map_enabled p)) True), map_id = map_id p,
     map_name = or_else (pop_name q) (map_name p), map_reason = truthy (or_opt (pop_reason q) (map_reason p))\<rparr>"

definition patch_installed_agent_policy :: "platform_env \<Rightarrow> string \<Rightarrow> string \<Rightarrow> string \<Rightarrow> string \<Rightarrow> policy_patch \<Rightarrow>
    (platform_db, managed_agent_policy) operation" where
  "patch_installed_agent_policy P actor i reference policy q =
     then_do (resolve_installed_agent P i reference) (\<lambda>x.
     case List.find (\<lambda>p. map_id p = policy) (ic_managed_policies (ra_config x)) of
       None \<Rightarrow> throw (Problem 404 (''Managed policy '' @ policy @ '' was not found for installed agent '' @ agt_id (ra_agent x) @ ''.''))
     | Some p \<Rightarrow>
         then_do (store_policies actor x (map (\<lambda>r. if map_id r = map_id p then patched_policy q p else r) (ic_managed_policies (ra_config x)))
           ''AGENT_POLICY_UPDATED'' (policy_diff x (patched_policy q p)) (map_id p) ''agent_policy'') (\<lambda>_. give (patched_policy q p)))"

definition templated_policies :: "policy_template \<Rightarrow> string \<Rightarrow> string \<Rightarrow> managed_agent_policy list" where
  "templated_policies template tenant agent = map (\<lambda>(n, r). \<lparr>map_actions = [rule_action r], map_effect = rule_effect r,
       map_enabled = Some True, map_id = rule_id r, map_name = template_name template @ '' template '' @ show_nat (n + 1),
       map_reason = truthy (rule_reason r)\<rparr>)
     (enumerate 0 (create_policy_template template tenant agent))"

definition apply_policy_template :: "platform_env \<Rightarrow> string \<Rightarrow> string \<Rightarrow> string \<Rightarrow> bool option \<Rightarrow> policy_template \<Rightarrow>
    (platform_db, managed_agent_policy list) operation" where
  "apply_policy_template P actor i reference replace template =
     then_do (resolve_installed_agent P i reference) (\<lambda>x.
     let ts = templated_policies template (org_tenant_id (ra_tenant x)) (agt_id (ra_agent x));
         ps = (if or_else replace False then ts else by_policy_id (ic_managed_policies (ra_config x) @ ts))
     in then_do (store_policies actor x ps ''AGENT_POLICY_TEMPLATE_APPLIED'' (JObj [(''installedAgentId'', JStr (agt_id (ra_agent x))),
            (''managedPolicies'', JArr (map managed_policy_object ps)), (''replaceExisting'', JBool (or_else replace False)),
            (''template'', JStr (template_name template))]) (agt_id (ra_agent x)) ''agent_policy_template'') (\<lambda>_. give ps))"

subsection \<open>The queue\<close>

text \<open>The last is what \<open>queue.add\<close> itself throws, for the id of a job.\<close>

datatype queue_error = QueueBackpressure nat nat | TenantQueueRateLimit string int | QueueUnavailable string

definition queue_error_text :: "queue_error \<Rightarrow> string" where
  "queue_error_text e = (case e of
     QueueBackpressure pending threshold \<Rightarrow> ''Queue backlog is '' @ show_nat pending @ '' jobs (threshold '' @ show_nat threshold @ '').''
   | TenantQueueRateLimit tenant threshold \<Rightarrow> ''Tenant '' @ tenant @ '' exceeded the queue rate limit ('' @ show_int threshold @ '').''
   | QueueUnavailable m \<Rightarrow> m)"

text \<open>\<open>INCR\<close>, and \<open>EXPIRE\<close> when the counter is new.\<close>

definition count_queue_call :: "platform_env \<Rightarrow> string \<Rightarrow> platform_db \<Rightarrow> int \<times> platform_db" where
  "count_queue_call P tenant s =
     (let k = ''tenant-agent-queue-rate:'' @ tenant;
          (t, n) = (case map_of (pl_counters s) k of Some (t, n) \<Rightarrow> if pl_now s < t then (t, n + 1) else (pl_now s + pn_rate_window_seconds P * 1000, 1)
            | None \<Rightarrow> (pl_now s + pn_rate_window_seconds P * 1000, 1))
      in (n, s\<lparr>pl_counters := AList.update k (t, n) (pl_counters s)\<rparr>))"

record queue_stats =
  qst_active :: nat
  qst_completed :: nat
  qst_delayed :: nat
  qst_failed :: nat
  qst_pending :: nat
  qst_prioritized :: nat
  qst_waiting :: nat

definition get_installed_agent_queue_stats :: "agent_queue \<Rightarrow> queue_stats" where
  "get_installed_agent_queue_stats q = \<lparr>qst_active = length (aq_active q), qst_completed = length (aq_completed q),
     qst_delayed = length (aq_delayed q), qst_failed = length (aq_failed q),
     qst_pending = length (aq_waiting q) + length (aq_delayed q) + length (aq_prioritized q),
     qst_prioritized = length (aq_prioritized q), qst_waiting = length (aq_waiting q)\<rparr>"

definition known_job :: "agent_queue \<Rightarrow> string \<Rightarrow> bool" where
  "known_job q i \<longleftrightarrow> list_ex (\<lambda>x. qj_job_id x = i)
     (aq_waiting q @ aq_delayed q @ aq_prioritized q @ aq_active q @ aq_completed q @ aq_failed q)"

definition job_of_execution :: "agent_job_data \<Rightarrow> queued_agent_job" where
  "job_of_execution e = \<lparr>qj_queue = ''agent-normal'', qj_job_id = ej_tenant_id e @ '':'' @ ej_execution_id e, qj_priority = 5, qj_job = e\<rparr>"

definition enqueue_installed_agent_execution :: "platform_env \<Rightarrow> agent_job_data \<Rightarrow> platform_db \<Rightarrow>
    (queue_error + string \<times> nat) \<times> platform_db" where
  "enqueue_installed_agent_execution P e s =
     (case count_queue_call P (ej_tenant_id e) s of (n, s1) \<Rightarrow>
        if pn_rate_max P < n then (Inl (TenantQueueRateLimit (ej_tenant_id e) (pn_rate_max P)), s1)
        else let pending = qst_pending (get_installed_agent_queue_stats (pl_queue s1)); j = job_of_execution e
          in if pn_backpressure P \<le> pending then (Inl (QueueBackpressure pending (pn_backpressure P)), s1)
             else case pn_queue_refuses P (qj_job_id j) of
                 Some m \<Rightarrow> (Inl (QueueUnavailable m), s1)
               | None \<Rightarrow> (Inr (qj_job_id j, pending + 1), if known_job (pl_queue s1) (qj_job_id j) then s1
                   else s1\<lparr>pl_queue := (pl_queue s1)\<lparr>aq_prioritized := aq_prioritized (pl_queue s1) @ [j]\<rparr>\<rparr>))"

subsection \<open>A run\<close>

definition on_platform_executions :: "(agent_execution_row list \<Rightarrow> db_error + agent_execution_row list) \<Rightarrow> (platform_db, unit) operation" where
  "on_platform_executions stmt = on_worker (on_executions stmt)"

text \<open>The newest running execution of the agent in the last ten minutes, if it has this payload.\<close>

definition find_reusable_running_execution :: "string \<Rightarrow> string \<Rightarrow> string \<Rightarrow> platform_db \<Rightarrow> agent_execution_row option" where
  "find_reusable_running_execution agent h tenant s =
     (case filter (\<lambda>r. pl_now s - 10 * 60 * 1000 \<le> agx_started_at r \<and> agx_status r = ExecRunning) (executions_of agent tenant s) of
        [] \<Rightarrow> None
      | r # _ \<Rightarrow> if extract_payload_hash (agx_metadata r) = Some h then Some r else None)"

definition provider_name :: "runtime_provider \<Rightarrow> string" where
  "provider_name p = (case p of ManifestRuntime \<Rightarrow> ''manifest-runtime'' | PythonOrchestrator \<Rightarrow> ''python-orchestrator'')"

record agent_run =
  run_catalog_agent_id :: string
  run_execution_id :: string
  run_reused :: bool

definition build_payload_hash :: "platform_env \<Rightarrow> (string \<times> js_val) list \<Rightarrow> string" where
  "build_payload_hash P payload = pn_hash P (or_else (stringify (JObj payload)) [])"

definition run_metadata :: "resolved_agent \<Rightarrow> string \<Rightarrow> string list \<Rightarrow> (string \<times> js_val) list \<Rightarrow> js_val" where
  "run_metadata x h logs queue = JObj ([(''catalogAgentId'', JStr (ad_id (am_agent (ra_manifest x)))), (''logs'', texts logs),
     (''payloadHash'', JStr h)] @ queue @ [(''runtimeProvider'', JStr (provider_name (ic_provider (ra_config x))))])"

definition initial_logs :: "resolved_agent \<Rightarrow> string list" where
  "initial_logs x = [''Resolved installed agent '' @ agt_id (ra_agent x) @ '' from catalog '' @ ad_id (am_agent (ra_manifest x)) @ ''.'',
     ''Queued live execution for runtime provider '' @ provider_name (ic_provider (ra_config x)) @ ''.'']"

definition queued_row :: "ms \<Rightarrow> resolved_agent \<Rightarrow> string \<Rightarrow> string \<Rightarrow> (string \<times> js_val) list \<Rightarrow> string \<Rightarrow> agent_execution_row" where
  "queued_row now x i h payload user = \<lparr>agx_id = i, agx_tenant_id = org_tenant_id (ra_tenant x),
     agx_organization_id = Some (org_id (ra_tenant x)), agx_user_id = Some user, agx_agent_id = agt_id (ra_agent x),
     agx_status = ExecRunning, agx_source = SourceManual, agx_input = JObj payload, agx_output = JNull, agx_output_hash = None,
     agx_error_message = None, agx_metadata = run_metadata x h (initial_logs x) [], agx_started_at = now, agx_completed_at = None\<rparr>"

definition requeue_row :: "agent_execution_row \<Rightarrow> agent_execution_row \<Rightarrow> agent_execution_row" where
  "requeue_row q r = r\<lparr>agx_agent_id := agx_agent_id q, agx_input := agx_input q, agx_metadata := agx_metadata q,
     agx_organization_id := agx_organization_id q, agx_source := agx_source q, agx_started_at := agx_started_at q,
     agx_status := agx_status q, agx_tenant_id := agx_tenant_id q, agx_user_id := agx_user_id q\<rparr>"

definition open_execution :: "agent_execution_row \<Rightarrow> (platform_db, unit) operation" where
  "open_execution q = on_platform_executions (\<lambda>rows. if List.find (\<lambda>r. agx_id r = agx_id q) rows = None
     then create_row execution_indexes q rows
     else update_many execution_indexes (\<lambda>r. agx_id r = agx_id q) (requeue_row q) rows)"

definition update_run :: "string \<Rightarrow> (agent_execution_row \<Rightarrow> agent_execution_row) \<Rightarrow> (platform_db, unit) operation" where
  "update_run i f = on_platform_executions (update_unique ''agentExecution'' execution_indexes (\<lambda>r. agx_id r = i) f)"

definition run_job_data :: "resolved_agent \<Rightarrow> string \<Rightarrow> (string \<times> js_val) list \<Rightarrow> string \<Rightarrow> agent_job_data" where
  "run_job_data x i payload user = \<lparr>ej_agent_id = agt_id (ra_agent x), ej_catalog_agent_id = Some (ad_id (am_agent (ra_manifest x))),
     ej_execution_id = i, ej_input = payload, ej_organization_id = Some (org_id (ra_tenant x)),
     ej_tenant_id = org_tenant_id (ra_tenant x), ej_user_id = Some user\<rparr>"

definition fail_queueing :: "resolved_agent \<Rightarrow> string \<Rightarrow> string \<Rightarrow> string \<Rightarrow> queue_error \<Rightarrow> (platform_db, agent_run) operation" where
  "fail_queueing x i h user e =
     then_do (ask pl_now) (\<lambda>now.
     then_do (in_transaction
       (then_do (update_run i (\<lambda>r. r\<lparr>agx_completed_at := Some now, agx_error_message := Some (queue_error_text e),
          agx_metadata := run_metadata x h (initial_logs x @ [''Falha ao enfileirar execucao live: '' @ queue_error_text e]) [],
          agx_status := ExecFailed\<rparr>)) (\<lambda>_.
        log_agents ''AGENT_LIVE_EXECUTION_QUEUE_FAILED'' user (JObj [(''errorMessage'', JStr (queue_error_text e)), (''executionId'', JStr i),
          (''installedAgentId'', JStr (agt_id (ra_agent x))), (''payloadHash'', JStr h)]) i ''agent_execution'' (org_tenant_id (ra_tenant x))))) (\<lambda>_.
     throw (Problem (case e of TenantQueueRateLimit _ _ \<Rightarrow> 429 | _ \<Rightarrow> 503) (queue_error_text e))))"

definition queue_run :: "platform_env \<Rightarrow> resolved_agent \<Rightarrow> string \<Rightarrow> string \<Rightarrow> (string \<times> js_val) list \<Rightarrow> string \<Rightarrow>
    (platform_db, agent_run) operation" where
  "queue_run P x i h payload user s =
     (case enqueue_installed_agent_execution P (run_job_data x i payload user) s of
        (Inl e, s') \<Rightarrow> fail_queueing x i h user e s'
      | (Inr (job, pending), s') \<Rightarrow>
          then_do (update_run i (\<lambda>r. r\<lparr>agx_metadata := run_metadata x h
             (initial_logs x @ [''Job '' @ job @ '' aceito pela fila com backlog pendente '' @ show_nat pending @ ''.''])
             [(''queueJobId'', JStr job), (''queuePendingJobs'', JNum (Fin (of_nat pending)))]\<rparr>)) (\<lambda>_.
          give \<lparr>run_catalog_agent_id = ad_id (am_agent (ra_manifest x)), run_execution_id = i, run_reused = False\<rparr>) s')"

definition run_installed_agent :: "platform_env \<Rightarrow> string \<Rightarrow> (string \<times> js_val) list \<Rightarrow> string \<Rightarrow> string \<Rightarrow> (platform_db, agent_run) operation" where
  "run_installed_agent P agent payload reference user =
     then_do (resolve_installed_agent P agent reference) (\<lambda>x.
     let h = build_payload_hash P payload; tenant = org_tenant_id (ra_tenant x)
     in then_do (ask (find_reusable_running_execution (agt_id (ra_agent x)) h tenant)) (\<lambda>found. case found of
          Some r \<Rightarrow>
            then_do (log_agents ''AGENT_LIVE_EXECUTION_REUSED'' user (JObj [(''executionId'', JStr (agx_id r)),
              (''installedAgentId'', JStr (agt_id (ra_agent x))), (''payloadHash'', JStr h)]) (agx_id r) ''agent_execution'' tenant) (\<lambda>_.
            give \<lparr>run_catalog_agent_id = ad_id (am_agent (ra_manifest x)), run_execution_id = agx_id r, run_reused = True\<rparr>)
        | None \<Rightarrow>
            then_do (ask pl_now) (\<lambda>now.
            let i = pn_ids P ''execution''
            in then_do (in_transaction
                 (then_do (open_execution (queued_row now x i h payload user)) (\<lambda>_.
                  log_agents ''AGENT_LIVE_EXECUTION_QUEUED'' user (JObj [(''catalogAgentId'', JStr (ad_id (am_agent (ra_manifest x)))),
                    (''executionId'', JStr i), (''installedAgentId'', JStr (agt_id (ra_agent x))), (''mode'', JStr ''LIVE''),
                    (''payloadHash'', JStr h), (''runtimeProvider'', JStr (provider_name (ic_provider (ra_config x))))])
                    i ''agent_execution'' tenant))) (\<lambda>_.
               queue_run P x i h payload user))))"

end
