(* ===== verification/WorkerCorrect.thy ===== *)
theory WorkerCorrect
  imports AgentWorker
begin

text \<open>
  What the worker owes a job: an execution it has opened it settles, whatever throws in between; the lock it
  looks at is the one of the API; and two ways past what the code means to do, an unsigned task and two
  agents called in the same millisecond.
\<close>

subsection \<open>One execution's own row\<close>

text \<open>The table is keyed, the row of the execution is there and of the given tenant, and the other rows are the
  given ones.\<close>

definition own_row :: "string \<Rightarrow> agent_execution_row list \<Rightarrow> string \<Rightarrow> 'x agent_db_scheme \<Rightarrow> bool" where
  "own_row i X t s \<longleftrightarrow> indexes_ok execution_indexes (gdb_executions s) \<and> i \<in> agx_id ` set (gdb_executions s) \<and>
     filter (\<lambda>r. agx_id r \<noteq> i) (gdb_executions s) = X \<and>
     list_all (\<lambda>r. agx_id r = i \<longrightarrow> agx_tenant_id r = t) (gdb_executions s)"

lemma execution_ids_update:
  "(\<And>r. agx_id (f r) = agx_id r) \<Longrightarrow> map agx_id (update_where P f rows) = map agx_id rows"
  by (simp add: update_where_def)

lemma own_row_update:
  assumes "own_row i X t s" and "gdb_executions s' = update_where (\<lambda>r. agx_id r = i) f (gdb_executions s)"
    and "\<And>r. agx_id (f r) = agx_id r" and "\<And>r. agx_tenant_id r = t \<Longrightarrow> agx_tenant_id (f r) = t'"
  shows "own_row i X t' s'"
proof -
  have "indexes_ok execution_indexes (update_where (\<lambda>r. agx_id r = i) f (gdb_executions s))"
    using assms(1,3) unfolding own_row_def by (intro indexes_ok_update_keep) (auto simp: execution_indexes_def)
  moreover have "filter (\<lambda>r. agx_id r \<noteq> i) (update_where (\<lambda>r. agx_id r = i) f (gdb_executions s)) = X"
    using assms(1,3) by (subst filter_update_where_frame) (auto simp: own_row_def)
  moreover have "agx_id ` set (update_where (\<lambda>r. agx_id r = i) f rows) = agx_id ` set rows" for rows
    using arg_cong[OF execution_ids_update[OF assms(3)], of set] unfolding set_map .
  moreover have "list_all (\<lambda>r. agx_id r = i \<longrightarrow> agx_tenant_id r = t') (update_where (\<lambda>r. agx_id r = i) f (gdb_executions s))"
    using assms(1,4) by (auto simp: own_row_def list_all_iff dest!: update_where_mem)
  ultimately show ?thesis using assms(1,2) by (simp add: own_row_def)
qed

lemma keeps_own_row:
  assumes "\<And>s. gdb_executions (snd (m s)) = gdb_executions s"
  shows "keeps (own_row i X t) m"
  using assms by (simp add: keeps_def own_row_def)

lemma on_part_executions:
  assumes "\<And>t s. gdb_executions (wr t s) = gdb_executions s"
  shows "gdb_executions (snd (on_part rd wr m s)) = gdb_executions s"
  using assms by (simp add: on_part_def split: prod.split)

lemma keeps_own_parts [intro]:
  "keeps (own_row i X t) (on_audit m1)" "keeps (own_row i X t) (on_conversations m2)" "keeps (own_row i X t) (on_budget m3)"
  unfolding on_audit_def on_conversations_def on_budget_def by (intro keeps_own_row on_part_executions; simp)+

lemma keeps_own_artifacts [intro]: "keeps (own_row i X t) (on_artifacts stmt)"
  unfolding on_artifacts_def by (rule keeps_on_table) (simp add: own_row_def)

lemma keeps_own_add_entry [intro]: "keeps (own_row i X t) (add_entry r)"
  unfolding add_entry_def by blast

lemma keeps_own_swallow [intro]: "keeps (own_row i X t) m \<Longrightarrow> keeps (own_row i X t) (swallow m)"
  by (simp add: keeps_def swallow_def)

lemma keeps_own_logs [intro]: "keeps (own_row i X t) (persist_logs i logs)"
  unfolding keeps_def persist_logs_def on_executions_def
proof (intro allI impI)
  fix s :: "'a agent_db_scheme" assume own: "own_row i X t s"
  let ?f = "\<lambda>r. r\<lparr>agx_metadata := JObj [(''logs'', texts logs)]\<rparr>"
  obtain r s' where run: "on_table gdb_executions (\<lambda>t s. s\<lparr>gdb_executions := t\<rparr>)
    (update_many execution_indexes (\<lambda>r. agx_id r = i) ?f) s = (r, s')" by fastforce
  then have "gdb_executions s' = update_where (\<lambda>r. agx_id r = i) ?f (gdb_executions s) \<or> s' = s"
    by (auto simp: on_table_def table_simps split: sum.splits)
  with own own_row_update[OF own, of s' ?f t] run show "own_row i X t (snd (on_table gdb_executions (\<lambda>t s. s\<lparr>gdb_executions := t\<rparr>)
    (update_many execution_indexes (\<lambda>r. agx_id r = i) ?f) s))" by auto
qed

lemma keeps_own_message [intro]:
  "keeps (own_row i X t) (append_runtime_message E side agent content corr org role session tenant)"
  unfolding append_runtime_message_def by (intro keeps_case_option keeps_then_do) auto

lemma keeps_own_resolve [intro]: "keeps (own_row i X t) (resolve_runtime_agent E agent catalog_agent tenant)"
  unfolding resolve_runtime_agent_def Let_def by (intro keeps_case_option keeps_then_do) auto

lemma keeps_own_prepare: "keeps (own_row i X t) (prepare_runtime E q)"
  unfolding prepare_runtime_def by (intro keeps_case_option keeps_then_do) auto

lemma keeps_own_preflight: "rr_execution_id q = i \<Longrightarrow> keeps (own_row i X t) (preflight E q st)"
  unfolding preflight_def Let_def by (intro keeps_then_do) auto

lemma keeps_own_executor: "keeps (own_row i X t) (run_executor a b c)"
  by (rule keeps_own_row) (simp add: run_executor_def split: prod.split)

lemma keeps_with_hook_logs:
  assumes "keeps I m" and "\<And>logs. keeps I (persist_logs i logs)"
  shows "keeps I (with_hook_logs i logs n m)"
  unfolding keeps_def
proof (intro allI impI)
  fix s assume "I s"
  obtain r s1 where m: "m s = (r, s1)" by fastforce
  obtain u s2 where p: "persist_logs i (logs @ List.map_filter (log_of_hook n) (xs_reported (gdb_redis s1))) s1 = (u, s2)" by fastforce
  have "I s2" using keepsD[OF assms(2) keepsD[OF assms(1) \<open>I s\<close> m] p] .
  then show "I (snd (with_hook_logs i logs n m s))" by (simp add: with_hook_logs_def m p split: sum.split)
qed

lemma keeps_own_run: "rr_execution_id q = i \<Longrightarrow> keeps (own_row i X t) (run_setup E q st logs)"
  unfolding run_setup_def by (auto intro: keeps_with_hook_logs keeps_own_executor)

lemma keeps_own_settle: "rr_execution_id q = i \<Longrightarrow> keeps (own_row i X t) (settle E q st p logs)"
  unfolding settle_def publish_outcome_def create_output_artifact_def Let_def by (intro keeps_then_do) auto

lemma keeps_own_runtime:
  assumes "rr_execution_id q = i"
  shows "keeps (own_row i X t) (execute_manifest_agent_runtime E q)"
  unfolding execute_manifest_agent_runtime_def
  by (intro keeps_then_do keeps_own_prepare keeps_own_preflight[OF assms] keeps_case_prod keeps_own_run[OF assms]
      keeps_own_settle[OF assms])

subsection \<open>Opening and settling\<close>

definition row_of :: "string \<Rightarrow> 'x agent_db_scheme \<Rightarrow> agent_execution_row option" where
  "row_of i s = List.find (\<lambda>r. agx_id r = i) (gdb_executions s)"

definition others :: "string \<Rightarrow> 'x agent_db_scheme \<Rightarrow> agent_execution_row list" where
  "others i s = filter (\<lambda>r. agx_id r \<noteq> i) (gdb_executions s)"

lemma keyed_rows:
  assumes "indexes_ok execution_indexes rows" and "q \<in> set rows" and "r \<in> set rows" and "agx_id q = agx_id r"
  shows "q = r"
proof -
  have "distinct (map agx_id rows)"
    using assms(1) by (simp add: indexes_ok_def index_ok_def execution_indexes_def map_filter_def comp_def)
  with assms(2-4) show ?thesis by (auto simp: distinct_map inj_on_def)
qed

lemma unknown_start:
  "\<not> known_references x s \<Longrightarrow> persist_execution_started x s = (Inl (Database (P2003 ''agentExecution'')), s)"
  by (simp add: persist_execution_started_def then_do_def ask_def throw_def)

lemma started:
  assumes "indexes_ok execution_indexes (gdb_executions s)" and known: "known_references x s"
  obtains s' where "persist_execution_started x s = (Inr (), s')" and "own_row (es_execution_id x) (others (es_execution_id x) s) (es_tenant_id x) s'"
    and "\<exists>rows. s' = s\<lparr>gdb_executions := rows\<rparr>"
    and "row_of (es_execution_id x) s' = Some (case row_of (es_execution_id x) s of None \<Rightarrow> started_row (db_now s) x | Some r \<Rightarrow> restart_row x r)"
proof -
  let ?i = "es_execution_id x" and ?rows = "gdb_executions s"
  show thesis
  proof (cases "row_of ?i s")
    case None
    then have fresh: "\<forall>r \<in> set ?rows. agx_id r \<noteq> ?i" by (simp add: row_of_def find_None_iff)
    have key: "\<And>rows. indexes_ok execution_indexes rows \<longleftrightarrow> distinct (map agx_id rows)"
      by (simp add: indexes_ok_def index_ok_def execution_indexes_def map_filter_def comp_def)
    have ok: "indexes_ok execution_indexes (?rows @ [started_row (db_now s) x])"
      using assms fresh by (auto simp: key started_row_def)
    show thesis
    proof (rule that[of "s\<lparr>gdb_executions := ?rows @ [started_row (db_now s) x]\<rparr>"])
      show "persist_execution_started x s = (Inr (), s\<lparr>gdb_executions := ?rows @ [started_row (db_now s) x]\<rparr>)"
        using None ok known by (simp add: persist_execution_started_def on_executions_def row_of_def table_simps then_do_def ask_def)
      show "own_row ?i (others ?i s) (es_tenant_id x) (s\<lparr>gdb_executions := ?rows @ [started_row (db_now s) x]\<rparr>)"
        using ok fresh by (simp add: own_row_def others_def started_row_def list_all_iff)
      show "row_of ?i (s\<lparr>gdb_executions := ?rows @ [started_row (db_now s) x]\<rparr>) =
          Some (case row_of ?i s of None \<Rightarrow> started_row (db_now s) x | Some r \<Rightarrow> restart_row x r)"
        using None by (simp add: row_of_def find_append or_opt_def started_row_def)
    qed blast
  next
    case (Some r)
    let ?s' = "s\<lparr>gdb_executions := update_where (\<lambda>r. agx_id r = ?i) (restart_row x) ?rows\<rparr>"
    have "own_row ?i (others ?i s) (agx_tenant_id r) s"
      using keyed_rows[OF assms(1)] find_Some_iff_mem[OF Some[unfolded row_of_def]] assms
      by (force simp: own_row_def others_def list_all_iff)
    from own_row_update[OF this, of ?s' "restart_row x" "es_tenant_id x"]
    have own: "own_row ?i (others ?i s) (es_tenant_id x) ?s'" by (simp add: restart_row_def)
    show thesis
    proof (rule that[OF _ own])
      show "persist_execution_started x s = (Inr (), ?s')"
        using Some own known by (simp add: persist_execution_started_def on_executions_def row_of_def table_simps then_do_def ask_def own_row_def)
      show "row_of ?i ?s' = Some (case row_of ?i s of None \<Rightarrow> started_row (db_now s) x | Some r \<Rightarrow> restart_row x r)"
        using Some find_Some_iff_mem[OF Some[unfolded row_of_def]] unfolding row_of_def
        by (simp add: find_update_where restart_row_def)
    qed blast
  qed
qed

lemma finished:
  assumes own: "own_row i X t s"
  obtains s' r where "persist_execution_finished i f s = (Inr (), s')" and "own_row i X t s'"
    and "\<exists>rows. s' = s\<lparr>gdb_executions := rows\<rparr>" and "row_of i s = Some r" and "row_of i s' = Some (finish_row (db_now s) f r)"
proof -
  let ?s' = "s\<lparr>gdb_executions := update_where (\<lambda>r. agx_id r = i) (finish_row (db_now s) f) (gdb_executions s)\<rparr>"
  from own_row_update[OF own, of ?s' "finish_row (db_now s) f" t] have own': "own_row i X t ?s'" by (simp add: finish_row_def)
  from own obtain r where r: "row_of i s = Some r"
    by (cases "row_of i s") (auto simp: own_row_def row_of_def find_None_iff)
  show thesis
  proof (rule that[OF _ own' _ r])
    show "persist_execution_finished i f s = (Inr (), ?s')"
      using own own' by (auto simp: persist_execution_finished_def on_executions_def table_simps then_do_def ask_def own_row_def)
    show "row_of i ?s' = Some (finish_row (db_now s) f r)"
      using r find_Some_iff_mem[OF r[unfolded row_of_def]] unfolding row_of_def by (simp add: find_update_where finish_row_def)
  qed blast
qed

lemma fan_out_executions: "gdb_executions (snd (fan_out_job W j status m s)) = gdb_executions s"
  by (simp add: fan_out_job_def then_do_def ask_def on_engagement_def on_part_executions)

lemma keeps_own_engagement: "keeps (own_row i X t) (fan_out_job W j status m)"
  by (rule keeps_own_row) (rule fan_out_executions)

lemma keeps_own_lock: "keeps (own_row i X t) (resolve_billing_lock c reference)"
  unfolding resolve_billing_lock_def
  by (intro keeps_then_do keeps_case_option keeps_ask keeps_give) (rule keeps_own_row, simp)

text \<open>What the table promises of an execution that is over.\<close>

definition settled_row :: "agent_execution_row \<Rightarrow> bool" where
  "settled_row r = (case agx_status r of
     ExecRunning \<Rightarrow> False
   | ExecFailed \<Rightarrow> agx_error_message r \<noteq> None \<and> agx_output_hash r = None \<and> agx_completed_at r \<noteq> None
   | ExecSuccess \<Rightarrow> agx_error_message r = None \<and> agx_output_hash r \<noteq> None \<and> agx_completed_at r \<noteq> None
   | ExecWaitingApproval \<Rightarrow> agx_error_message r = None \<and> agx_output_hash r \<noteq> None \<and> agx_completed_at r = None)"

definition fails :: "api_error + job_answer \<Rightarrow> bool" where
  "fails r = (case r of Inl _ \<Rightarrow> True | Inr (JobBlocked _) \<Rightarrow> True | Inr _ \<Rightarrow> False)"

text \<open>A job that answers with a hash answers with the one its row has.\<close>

definition answers :: "string \<Rightarrow> agent_execution_row \<Rightarrow> api_error + job_answer \<Rightarrow> bool" where
  "answers i row r = (case r of Inr (JobCompleted _ e h _ _) \<Rightarrow> e = i \<and> agx_output_hash row = Some h | _ \<Rightarrow> True)"

definition settles :: "string \<Rightarrow> agent_execution_row list \<Rightarrow> string \<Rightarrow> (api_error + job_answer) \<times> 'x agent_db_scheme \<Rightarrow> bool" where
  "settles i X t o' = (case o' of (r, s) \<Rightarrow> own_row i X t s \<and>
     (\<exists>row. row_of i s = Some row \<and> settled_row row \<and> (agx_status row = ExecFailed \<longleftrightarrow> fails r) \<and> answers i row r))"

lemma settlesI:
  assumes "own_row i X t s" and "row_of i s = Some row" and "settled_row row" and "agx_status row = ExecFailed \<longleftrightarrow> fails r"
    and "answers i row r"
  shows "settles i X t (r, s)"
  using assms by (auto simp: settles_def)

text \<open>A failing attempt, whether or not the fan-out that follows throws.\<close>

lemma fail_settles:
  assumes "own_row (aj_execution_id j) X t s"
  shows "settles (aj_execution_id j) X t (fail_agent_job W j e s)"
proof -
  from finished[OF assms, of "failed_finish (error_text e)"] obtain s1 r where
    1: "persist_execution_finished (aj_execution_id j) (failed_finish (error_text e)) s = (Inr (), s1)"
      "own_row (aj_execution_id j) X t s1" "row_of (aj_execution_id j) s1 = Some (finish_row (db_now s) (failed_finish (error_text e)) r)"
    by metis
  obtain u s2 where 2: "fan_out_job W j ExecFailed (Some (error_text e)) s1 = (u, s2)" by fastforce
  have same: "gdb_executions s2 = gdb_executions s1"
    using fan_out_executions[of W j ExecFailed "Some (error_text e)" s1] by (simp add: 2)
  have "fail_agent_job W j e s = (case u of Inl e2 \<Rightarrow> Inl e2 | Inr _ \<Rightarrow> Inl e, s2)"
    using 1(1) 2 by (simp add: fail_agent_job_def then_do_def throw_def split: sum.split)
  moreover have "settles (aj_execution_id j) X t (case u of Inl e2 \<Rightarrow> Inl e2 | Inr _ \<Rightarrow> Inl e, s2)"
    using 1(2,3) same by (intro settlesI[where row = "finish_row (db_now s) (failed_finish (error_text e)) r"])
      (auto simp: own_row_def row_of_def settled_row_def finish_row_def failed_finish_def fails_def answers_def split: sum.split)
  ultimately show ?thesis by simp
qed

text \<open>A body that throws leaves the row to the \<open>catch\<close>; one that answers has settled it.\<close>

definition settles_or_throws :: "string \<Rightarrow> agent_execution_row list \<Rightarrow> string \<Rightarrow> (api_error + job_answer) \<times> 'x agent_db_scheme \<Rightarrow> bool" where
  "settles_or_throws i X t o' = (case o' of (Inl _, s) \<Rightarrow> own_row i X t s | (Inr a, s) \<Rightarrow> settles i X t (Inr a, s))"

lemma settles_or_throws_then:
  assumes "keeps (own_row i X t) m" and "own_row i X t s"
    and "\<And>a s'. m s = (Inr a, s') \<Longrightarrow> own_row i X t s' \<Longrightarrow> settles_or_throws i X t (f a s')"
  shows "settles_or_throws i X t (then_do m f s)"
proof -
  obtain r s' where m: "m s = (r, s')" by fastforce
  from keepsD[OF assms(1,2) m] assms(3) show ?thesis
    by (cases r) (simp_all add: then_do_def m settles_or_throws_def)
qed

text \<open>The last steps of a body: the row is finished, the outcome told, the answer given.\<close>

lemma finish_settles:
  assumes own: "own_row i X t s" and f: "\<And>now r. settled_row (finish_row now f r)"
    and m: "\<And>s'. gdb_executions (snd (m s')) = gdb_executions s'"
    and a: "\<And>u s'. \<exists>v. a u s' = (Inr v, s') \<and> (fails (Inr v) \<longleftrightarrow> ef_status f = ExecFailed) \<and>
      (\<forall>row. agx_output_hash row = ef_output_hash f \<longrightarrow> answers i row (Inr v))"
  shows "settles_or_throws i X t (then_do (persist_execution_finished i f) (\<lambda>_. then_do m a) s)"
proof -
  from finished[OF own, of f] obtain s1 r where
    1: "persist_execution_finished i f s = (Inr (), s1)" "own_row i X t s1" "row_of i s1 = Some (finish_row (db_now s) f r)"
    by metis
  obtain u s2 where 2: "m s1 = (u, s2)" by fastforce
  have same: "gdb_executions s2 = gdb_executions s1" using m[of s1] by (simp add: 2)
  show ?thesis
  proof (cases u)
    case (Inl e)
    then show ?thesis using 1(1,2) 2 same by (simp add: then_do_def settles_or_throws_def own_row_def)
  next
    case (Inr b)
    from a[of b s2] obtain v where v: "a b s2 = (Inr v, s2)" "fails (Inr v) \<longleftrightarrow> ef_status f = ExecFailed"
      "\<forall>row. agx_output_hash row = ef_output_hash f \<longrightarrow> answers i row (Inr v)" by blast
    have "settles i X t (Inr v, s2)"
      using 1(2,3) same f[of "db_now s" r] v(2,3)
      by (intro settlesI[where row = "finish_row (db_now s) f r"]) (auto simp: own_row_def row_of_def finish_row_def)
    then show ?thesis using 1(1) 2 Inr v(1) by (simp add: then_do_def settles_or_throws_def)
  qed
qed

lemma settlesD: "settles i X t (r, s) \<Longrightarrow> own_row i X t s"
  by (simp add: settles_def)

lemma answered: "\<exists>v. answer_job j h st s' = (Inr v, s') \<and> \<not> fails (Inr v) \<and>
    (\<forall>row. agx_output_hash row = Some h \<longrightarrow> answers (aj_execution_id j) row (Inr v))"
  by (simp add: answer_job_def then_do_def ask_def give_def fails_def answers_def)

lemma block_settles: "own_row (aj_execution_id j) X t s \<Longrightarrow> settles_or_throws (aj_execution_id j) X t (block_job W j s)"
  unfolding block_job_def
  by (rule finish_settles)
    (auto simp: fan_out_executions settled_row_def finish_row_def failed_finish_def then_do_def ask_def give_def fails_def answers_def)

lemma then_give: "then_do (give ()) (\<lambda>_. m) = m"
  by (rule ext) (simp add: then_do_def give_def)

lemma dry_run_settles: "own_row (aj_execution_id j) X t s \<Longrightarrow> settles_or_throws (aj_execution_id j) X t (dry_run_job W j s)"
  unfolding dry_run_job_def Let_def
  by (subst then_give[symmetric], rule finish_settles)
    (use answered in \<open>auto simp: settled_row_def finish_row_def give_def\<close>)

lemma approval_settles: "own_row (aj_execution_id j) X t s \<Longrightarrow> settles_or_throws (aj_execution_id j) X t (approval_job W j s)"
  unfolding approval_job_def Let_def
  by (subst then_give[symmetric], rule finish_settles)
    (use answered in \<open>auto simp: settled_row_def finish_row_def give_def\<close>)

lemma live_settles:
  assumes "own_row (aj_execution_id j) X t s"
  shows "settles_or_throws (aj_execution_id j) X t (live_job W j s)"
  unfolding live_job_def
proof (rule settles_or_throws_then[OF keeps_own_runtime assms])
  show "rr_execution_id (job_request j) = aj_execution_id j" by (simp add: job_request_def)
  fix r and s' :: worker_db assume "own_row (aj_execution_id j) X t s'"
  then show "settles_or_throws (aj_execution_id j) X t (then_do (persist_execution_finished (aj_execution_id j) (runtime_finish r)) (\<lambda>_.
     then_do (fan_out_job W j (ef_status (runtime_finish r)) None) (\<lambda>_. answer_job j (rres_output_hash r) None)) s')"
    by (rule finish_settles) (use answered in \<open>auto simp: fan_out_executions settled_row_def finish_row_def runtime_finish_def\<close>)
qed

lemma run_settles:
  assumes own: "own_row (aj_execution_id j) X t s"
  shows "settles_or_throws (aj_execution_id j) X t (run_agent_job W j s)"
  unfolding run_agent_job_def
  by (rule settles_or_throws_then[OF keeps_own_lock own])
    (auto simp: block_settles dry_run_settles approval_settles live_settles)

lemma caught_settles:
  assumes "own_row (aj_execution_id j) X t s"
  shows "settles (aj_execution_id j) X t (try_catch (run_agent_job W j) (fail_agent_job W j) s)"
proof -
  obtain r s' where run: "run_agent_job W j s = (r, s')" by fastforce
  with run_settles[OF assms, of W] show ?thesis
    by (cases r) (auto simp: try_catch_def settles_or_throws_def intro: fail_settles)
qed

subsection \<open>Reading a job changes nothing\<close>

lemma lift_error_eq [simp]: "lift_error v s = (r, s') \<longleftrightarrow> r = v \<and> s' = s"
  by (auto simp: lift_error_def)

lemma keeps_lift_error [simp, intro]: "keeps I (lift_error v)"
  by (simp add: keeps_def lift_error_def)

lemma read_job_state: "read_job W queue i v s = (r, s') \<Longrightarrow> s' = s"
proof -
  assume run: "read_job W queue i v s = (r, s')"
  have "keeps (\<lambda>x. x = s) (read_job W queue i v)"
    unfolding read_job_def read_task_job_def read_execution_job_def by (intro keeps_If keeps_then_do) auto
  from keepsD[OF this _ run] show "s' = s" by simp
qed

lemma process_job_cases:
  assumes "process_job W queue i v s = (r, s')" and "indexes_ok execution_indexes (gdb_executions s)"
  obtains (refused) e where "read_job W queue i v s = (Inl e, s)" "r = Inl e" "s' = s"
  | (unknown) j e where "read_job W queue i v s = (Inr j, s)" "\<not> known_references (job_start j) s" "r = Inl e" "s' = s"
  | (blank) j e rows row where "read_job W queue i v s = (Inr j, s)" "known_references (job_start j) s" "js_trim (aj_tenant_id j) = []" "r = Inl e"
      "own_row (aj_execution_id j) (others (aj_execution_id j) s) (aj_tenant_id j) s'" "s' = s\<lparr>gdb_executions := rows\<rparr>"
      "row_of (aj_execution_id j) s' = Some row" "agx_status row = ExecRunning"
  | (taken) j s1 where "read_job W queue i v s = (Inr j, s)" "own_row (aj_execution_id j) (others (aj_execution_id j) s) (aj_tenant_id j) s1"
      "\<exists>rows. s1 = s\<lparr>gdb_executions := rows\<rparr>" "try_catch (run_agent_job W j) (fail_agent_job W j) s1 = (r, s')"
      "known_references (job_start j) s" "js_trim (aj_tenant_id j) \<noteq> []"
proof -
  obtain x s0 where read: "read_job W queue i v s = (x, s0)" by fastforce
  with read_job_state[OF this] have s0: "s0 = s" by simp
  show thesis
  proof (cases x)
    case (Inl e)
    with read s0 assms(1) show thesis by (intro refused) (auto simp: process_job_def then_do_def)
  next
    case (Inr j)
    show thesis
    proof (cases "known_references (job_start j) s")
      case False
      with read s0 Inr assms(1) show thesis by (intro unknown) (auto simp: process_job_def then_do_def unknown_start)
    next
      case True
      have i: "es_execution_id (job_start j) = aj_execution_id j" "es_tenant_id (job_start j) = aj_tenant_id j" by (simp_all add: job_start_def)
      obtain s1 where s1: "persist_execution_started (job_start j) s = (Inr (), s1)"
        "own_row (aj_execution_id j) (others (aj_execution_id j) s) (aj_tenant_id j) s1" "\<exists>rows. s1 = s\<lparr>gdb_executions := rows\<rparr>"
        and opened_row: "row_of (aj_execution_id j) s1 = Some (case row_of (aj_execution_id j) s of
          None \<Rightarrow> started_row (db_now s) (job_start j) | Some r \<Rightarrow> restart_row (job_start j) r)"
        by (rule started[OF assms(2) True, unfolded i])
      have running: "agx_status (case row_of (aj_execution_id j) s of
          None \<Rightarrow> started_row (db_now s) (job_start j) | Some r \<Rightarrow> restart_row (job_start j) r) = ExecRunning"
        by (simp add: started_row_def restart_row_def split: option.split)
      show thesis
      proof (cases "js_trim (aj_tenant_id j) = []")
        case blank_tenant: True
        with read s0 Inr assms(1) s1(1) have "r = Inl (Failure ''Tenant context is required for tenant context bootstrap.'')" "s' = s1"
          by (auto simp: process_job_def then_do_def execute_tenant_job_def throw_def)
        with blank_tenant read s0 Inr True s1 opened_row running show thesis by (auto intro: blank)
      next
        case False
        with read s0 Inr assms(1) s1 True show thesis
          by (intro taken) (auto simp: process_job_def then_do_def execute_tenant_job_def)
      qed
    qed
  qed
qed

lemma processed_job_settles:
  assumes run: "process_job W queue i v s = (r, s')" and ok: "indexes_ok execution_indexes (gdb_executions s)"
    and read: "read_job W queue i v s = (Inr j, s)"
  shows "if \<not> known_references (job_start j) s then (\<exists>e. r = Inl e) \<and> s' = s
    else others (aj_execution_id j) s' = others (aj_execution_id j) s \<and> (\<exists>row. row_of (aj_execution_id j) s' = Some row \<and>
      (if js_trim (aj_tenant_id j) = [] then (\<exists>e. r = Inl e) \<and> agx_status row = ExecRunning
       else settled_row row \<and> (agx_status row = ExecFailed \<longleftrightarrow> fails r) \<and> answers (aj_execution_id j) row r))"
  using run ok
proof (cases rule: process_job_cases)
  case (taken j' s1)
  with read have "j' = j" by simp
  with caught_settles[OF taken(2), of W] taken(4-6) show ?thesis
    by (auto simp: settles_def own_row_def others_def)
next
  case (blank j' e rows row)
  with read have "j' = j" by simp
  with blank(2-5,7,8) show ?thesis by (auto simp: own_row_def others_def)
qed (use read in simp_all)

text \<open>
  Property C9. A job that is read settles its execution. Whatever the runtime, the budget, the database or the
  fan-out do, afterwards the row of its execution is no longer running: it is FAILED, with an error, exactly if
  the job threw or was blocked, and otherwise SUCCESS or WAITING_APPROVAL without an error and with the hash the job answers;
  every other execution is as it was. There are two exceptions: an organization or a user that is not there lets
  the job fail before a row is touched, and a tenant of blanks after the row is opened, which then stays running.
\<close>

theorem job_settles_execution:
  assumes run: "process_job W queue i v s = (r, s')" and ok: "indexes_ok execution_indexes (gdb_executions s)"
    and read: "read_job W queue i v s = (Inr j, s)"
  shows "if \<not> known_references (job_start j) s then (\<exists>e. r = Inl e) \<and> s' = s
    else others (aj_execution_id j) s' = others (aj_execution_id j) s \<and> (\<exists>row. row_of (aj_execution_id j) s' = Some row \<and>
      (if js_trim (aj_tenant_id j) = [] then (\<exists>e. r = Inl e) \<and> agx_status row = ExecRunning
       else settled_row row \<and> (agx_status row = ExecFailed \<longleftrightarrow> fails r) \<and> answers (aj_execution_id j) row r))"
  using assms by (rule processed_job_settles)

subsection \<open>The rows over many jobs\<close>

lemma own_row_all:
  assumes "own_row i (others i s) t s'" and "list_all P (gdb_executions s)"
    and "\<And>q. q \<in> set (gdb_executions s') \<Longrightarrow> agx_id q = i \<Longrightarrow> P q"
  shows "list_all P (gdb_executions s')"
  unfolding list_all_iff
proof
  fix q assume q: "q \<in> set (gdb_executions s')"
  show "P q"
  proof (cases "agx_id q = i")
    case True
    with q show ?thesis by (rule assms(3))
  next
    case False
    with q have "q \<in> set (filter (\<lambda>r. agx_id r \<noteq> i) (gdb_executions s'))" by simp
    then have "q \<in> set (others i s)" using assms(1) by (simp only: own_row_def)
    with assms(2) show ?thesis by (simp add: others_def list_all_iff)
  qed
qed


definition serve_job :: "worker_env \<times> string \<times> string \<times> js_val \<Rightarrow> worker_db \<Rightarrow> worker_db" where
  "serve_job = (\<lambda>(W, queue, i, v) s. snd (process_job W queue i v s))"

text \<open>
  Property C11. The table of executions keeps its form over every sequence of jobs, read or not, failing or not:
  ids stay unique, no row keeps the hash of a result beside an error, and none is left running, except where the tenant
  is a text of blanks.
\<close>

theorem executions_stay_settled:
  assumes "indexes_ok execution_indexes (gdb_executions s)"
    and "list_all (\<lambda>r. settled_row r \<or> js_trim (agx_tenant_id r) = []) (gdb_executions s)"
  shows "indexes_ok execution_indexes (gdb_executions (fold serve_job js s)) \<and>
    list_all (\<lambda>r. settled_row r \<or> js_trim (agx_tenant_id r) = []) (gdb_executions (fold serve_job js s))"
  using assms
proof (induction js arbitrary: s)
  case (Cons x js)
  obtain W queue i v where x: "x = (W, queue, i, v)" by (cases x) auto
  obtain r s' where run: "process_job W queue i v s = (r, s')" by fastforce
  have "indexes_ok execution_indexes (gdb_executions s') \<and> list_all (\<lambda>r. settled_row r \<or> js_trim (agx_tenant_id r) = []) (gdb_executions s')"
    using run Cons.prems(1)
  proof (cases rule: process_job_cases)
    case (taken j s1)
    from caught_settles[OF taken(2), of W] taken(4) obtain row where
      own: "own_row (aj_execution_id j) (others (aj_execution_id j) s) (aj_tenant_id j) s'" and row: "row_of (aj_execution_id j) s' = Some row" "settled_row row"
      by (auto simp: settles_def)
    have "settled_row q" if "q \<in> set (gdb_executions s')" "agx_id q = aj_execution_id j" for q
      using keyed_rows[of "gdb_executions s'" q row] find_Some_iff_mem[OF row(1)[unfolded row_of_def]] that own row(2) by (simp add: own_row_def)
    with own_row_all[OF own] Cons.prems(2) own show ?thesis by (auto simp: own_row_def)
  next
    case (blank j e rows row)
    have "js_trim (agx_tenant_id q) = []" if "q \<in> set (gdb_executions s')" "agx_id q = aj_execution_id j" for q
      using blank(3,5) that by (simp add: own_row_def list_all_iff)
    with own_row_all[OF blank(5)] Cons.prems(2) blank(5) show ?thesis by (auto simp: own_row_def)
  qed (use Cons.prems in auto)
  with Cons.IH[of s'] run show ?case by (simp add: x serve_job_def)
qed simp

subsection \<open>The billing lock\<close>

lemma snapshot_lock:
  assumes "load_billing_snapshot env days reference db = (Inr snap, db')"
  shows "\<exists>org. find_organization_by_reference reference db = Some org \<and>
    billing_state (env_now env) days (latest_subscription (org_id org) db) = (snap_hard_locked snap, snap_status snap)"
  using assms
  by (auto simp: load_billing_snapshot_def build_snapshot_def billing_state_def resolve_grace_period_ends_at_def Let_def or_else_def
      day_ms_def split: option.splits)

lemma keeps_rest_engagement: "gdb_budget (snd (fan_out_job W j status m s)) = gdb_budget s \<and>
    gdb_artifacts (snd (fan_out_job W j status m s)) = gdb_artifacts s \<and> gdb_redis (snd (fan_out_job W j status m s)) = gdb_redis s"
  by (simp add: fan_out_job_def then_do_def ask_def on_engagement_def on_part_def split: prod.split)

definition untouched :: "budget_db \<Rightarrow> artifact_row list \<Rightarrow> executor_state \<Rightarrow> 'x agent_db_scheme \<Rightarrow> bool" where
  "untouched B A R s \<longleftrightarrow> gdb_budget s = B \<and> gdb_artifacts s = A \<and> gdb_redis s = R"

lemma keeps_untouched_fan_out: "keeps (untouched B A R) (fan_out_job W j status m)"
  by (simp add: keeps_def untouched_def keeps_rest_engagement)

lemma keeps_untouched_finished: "keeps (untouched B A R) (persist_execution_finished i f)"
  unfolding persist_execution_finished_def on_executions_def
  by (intro keeps_then_do keeps_ask keeps_on_table) (simp add: untouched_def)

lemma keeps_untouched_block: "keeps (untouched B A R) (block_job W j)"
  unfolding block_job_def by (intro keeps_then_do keeps_ask keeps_give keeps_untouched_finished keeps_untouched_fan_out)

lemma keeps_untouched_fail: "keeps (untouched B A R) (fail_agent_job W j e)"
  unfolding fail_agent_job_def by (intro keeps_then_do keeps_throw keeps_untouched_finished keeps_untouched_fan_out)

text \<open>
  Property C10. The worker honours the lock of the API. When the snapshot the API computes for the tenant of a job
  says hard locked, for the same clock and days of grace, the job runs nothing: no budget is
  charged, no artifact made, no plan or tool run, and it fails. What is relied on is that the worker has no other answer
  cached: an unlocked one it keeps for \<open>wc_billing_ttl_seconds\<close>, and for that long a tenant locked meanwhile still runs.
\<close>

theorem hard_locked_tenant_runs_nothing:
  assumes run: "process_job W queue i v s = (r, s')" and ok: "indexes_ok execution_indexes (gdb_executions s)"
    and read: "read_job W queue i v s = (Inr j, s)"
    and snap: "load_billing_snapshot env (wc_grace_days (wn_config W)) (aj_tenant_id j) (gdb_billing s) = (Inr snap, db')"
    and now: "env_now env = db_now s" and locked: "snap_hard_locked snap"
    and cache: "case cached_billing (aj_tenant_id j) s of None \<Rightarrow> True | Some (lock, _) \<Rightarrow> lock"
  shows "fails r \<and> gdb_budget s' = gdb_budget s \<and> gdb_artifacts s' = gdb_artifacts s \<and> gdb_redis s' = gdb_redis s"
  using run ok
proof (cases rule: process_job_cases)
  case (taken j' s1)
  with read have j: "j' = j" by simp
  from taken(3) obtain rows where s1: "s1 = s\<lparr>gdb_executions := rows\<rparr>" by blast
  from snapshot_lock[OF snap] obtain org where org: "find_organization_by_reference (aj_tenant_id j) (gdb_billing s) = Some org"
      "billing_state (db_now s) (wc_grace_days (wn_config W)) (latest_subscription (org_id org) (gdb_billing s)) = (True, snap_status snap)"
    using now locked by auto
  have same: "db_now s1 = db_now s" "gdb_billing s1 = gdb_billing s" "cached_billing (aj_tenant_id j) s1 = cached_billing (aj_tenant_id j) s"
    by (auto simp: s1 db_now_def cached_billing_def split: option.splits)
  obtain status cached where lock: "resolve_billing_lock (wn_config W) (aj_tenant_id j) s1 = (Inr (True, status), s1\<lparr>wdb_billing_cache := cached\<rparr>)"
  proof (cases "cached_billing (aj_tenant_id j) s")
    case None
    with org same show thesis
      by (intro that) (simp add: resolve_billing_lock_def then_do_def ask_def give_def resolve_organization_reference_def)
  next
    case (Some v)
    with cache same show thesis
      by (intro that[of "snd v" "wdb_billing_cache s1"]) (simp add: resolve_billing_lock_def then_do_def ask_def give_def split: prod.splits)
  qed
  define s2 where "s2 = s1\<lparr>wdb_billing_cache := cached\<rparr>"
  have body: "run_agent_job W j s1 = block_job W j s2" by (simp add: run_agent_job_def then_do_def lock s2_def)
  have start: "untouched (gdb_budget s) (gdb_artifacts s) (gdb_redis s) s2" by (simp add: untouched_def s2_def s1)
  obtain x s3 where x: "block_job W j s2 = (x, s3)" by fastforce
  have s3: "untouched (gdb_budget s) (gdb_artifacts s) (gdb_redis s) s3" by (rule keepsD[OF keeps_untouched_block start x])
  show ?thesis
  proof (cases x)
    case (Inl e)
    then have fail: "fail_agent_job W j e s3 = (r, s')" using taken(4) by (simp add: try_catch_def j body x)
    then have "fails r" by (auto simp: fail_agent_job_def then_do_def throw_def fails_def split: prod.splits sum.splits)
    with keepsD[OF keeps_untouched_fail s3 fail] show ?thesis by (simp add: untouched_def)
  next
    case (Inr a)
    then have "r = Inr a" "s' = s3" using taken(4) by (simp_all add: try_catch_def j body x)
    moreover have "fails (Inr a)" using x Inr by (auto simp: block_job_def fails_def)
    ultimately show ?thesis using s3 by (simp add: untouched_def)
  qed
qed (use read in \<open>simp_all add: fails_def\<close>)

subsection \<open>Unsigned tasks\<close>

text \<open>
  Property C12. A task job is let through exactly if it names a tenant and a user, its context agrees with them and
  with the job, and it bears the HMAC of itself under the secret of the tenant, or the word unsigned, which the
  schema also puts where no signature is given: whoever can write to the queue runs a task for any tenant
  and any user without knowing a secret.
\<close>

theorem task_job_accepted_iff:
  "validate_legacy_task_job hmac now fallback i t secret = Inr tenant \<longleftrightarrow>
     tk_tenant_id t = Some tenant \<and> tenant \<noteq> [] \<and>
     (\<exists>u. tk_user_id t = Some u \<and> u \<noteq> [] \<and>
       (case tk_context t of None \<Rightarrow> True | Some c \<Rightarrow> jc_tenant_id c = tenant \<and> jc_actor_id c = u \<and> jc_job_id c = i)) \<and>
     (tk_signature t = ''unsigned'' \<or>
      tk_signature t = hmac (or_else secret fallback) (serialize_legacy_task_signature_payload (job_context_of now i t) t))"
  by (cases "tk_context t"; cases "tk_tenant_id t"; cases "tk_user_id t")
    (auto simp: validate_legacy_task_job_def job_context_of_def Let_def truthy_def or_else_def)

subsection \<open>Two agents in one millisecond\<close>

definition workflow_execution_id :: "ms \<Rightarrow> string \<Rightarrow> string" where
  "workflow_execution_id now agent = ''workflow-agent:'' @ show_int now @ '':'' @ agent"

lemma keeps_own_finished: "keeps (own_row i X t) (persist_execution_finished i f)"
  unfolding keeps_def by (metis finished snd_conv)

lemma resolved_reference_mem:
  "resolve_organization_reference reference s = Some r \<Longrightarrow> r \<in> set (db_orgs (gdb_billing s))"
  by (auto simp: resolve_organization_reference_def find_organization_by_reference_def dest: find_Some_iff_mem)

lemma workflow_agent_row:
  assumes run: "execute_workflow_agent W agent summary input s = (r, s')" and ok: "indexes_ok execution_indexes (gdb_executions s)"
  shows "own_row (workflow_execution_id (db_now s) agent) (others (workflow_execution_id (db_now s) agent) s) (input_tenant input) s'"
proof -
  let ?i = "workflow_execution_id (db_now s) agent"
  define q where "q = workflow_agent_request ?i agent summary input (map_option org_id (resolve_organization_reference (input_tenant input) s))"
  define x where "x = \<lparr>es_agent_id = agent, es_execution_id = ?i, es_input = rr_input q,
    es_organization_id = map_option org_id (resolve_organization_reference (input_tenant input) s), es_source = SourceWorkflow,
    es_tenant_id = input_tenant input, es_user_id = None\<rparr>"
  have "known_references x s"
    by (cases "resolve_organization_reference (input_tenant input) s") (auto simp: x_def known_references_def list_ex_iff dest: resolved_reference_mem)
  from started[OF ok this] obtain s1 where s1: "persist_execution_started x s = (Inr (), s1)" "own_row ?i (others ?i s) (input_tenant input) s1"
    by (metis x_def execution_start.select_convs(2,6))
  have q: "rr_execution_id q = ?i" by (simp add: q_def workflow_agent_request_def)
  have body: "keeps (own_row ?i (others ?i s) (input_tenant input)) (try_catch (then_do (execute_manifest_agent_runtime (wn_runtime W) q) (\<lambda>r.
      then_do (persist_execution_finished ?i (runtime_finish r)) (\<lambda>_. give (output_object (rres_output r)))))
      (\<lambda>e. then_do (persist_execution_finished ?i (failed_finish (error_text e))) (\<lambda>_. throw e)))"
    by (intro keeps_try_catch keeps_then_do keeps_own_runtime[OF q] keeps_own_finished keeps_give keeps_throw)
  have "(r, s') = try_catch (then_do (execute_manifest_agent_runtime (wn_runtime W) q) (\<lambda>r.
      then_do (persist_execution_finished ?i (runtime_finish r)) (\<lambda>_. give (output_object (rres_output r)))))
      (\<lambda>e. then_do (persist_execution_finished ?i (failed_finish (error_text e))) (\<lambda>_. throw e)) s1"
    using run s1(1) unfolding execute_workflow_agent_def Let_def workflow_execution_id_def[symmetric]
    by (simp add: then_do_def[of "ask _"] then_do_def[of "persist_execution_started _"] ask_def x_def q_def workflow_execution_id_def)
  from keepsD[OF body s1(2) this[symmetric]] show ?thesis .
qed

lemma one_row:
  assumes "distinct (map agx_id rs)" and "i \<in> agx_id ` set rs"
  shows "\<exists>r. filter (\<lambda>r. agx_id r = i) rs = [r]"
  using assms
proof (induction rs)
  case (Cons a rs)
  show ?case
  proof (cases "agx_id a = i")
    case True
    with Cons.prems(1) have "i \<notin> agx_id ` set rs" by simp
    then have "\<forall>x \<in> set rs. agx_id x \<noteq> i" by auto
    then have "filter (\<lambda>r. agx_id r = i) rs = []" by (simp add: filter_empty_conv)
    with True show ?thesis by simp
  qed (use Cons in auto)
qed simp

text \<open>
  Property C13. The execution of an agent a workflow calls is named by the millisecond and the agent alone. Two
  calls of one agent that begin in the same millisecond share a row, also those of two tenants: when both are
  over there is one row, it belongs to the tenant of the later call, and the earlier tenant has none.
\<close>

theorem simultaneous_agents_share_row:
  assumes one: "execute_workflow_agent W agent sum1 in1 s = (r1, s1)" and two: "execute_workflow_agent W agent sum2 in2 s1 = (r2, s2)"
    and ok: "indexes_ok execution_indexes (gdb_executions s)" and now: "db_now s1 = db_now s"
    and new: "row_of (workflow_execution_id (db_now s) agent) s = None"
  shows "\<exists>row. filter (\<lambda>r. r \<notin> set (gdb_executions s)) (gdb_executions s2) = [row] \<and>
    agx_id row = workflow_execution_id (db_now s) agent \<and> agx_tenant_id row = input_tenant in2"
proof -
  let ?i = "workflow_execution_id (db_now s) agent"
  note own1 = workflow_agent_row[OF one ok]
  then have ok1: "indexes_ok execution_indexes (gdb_executions s1)" by (simp add: own_row_def)
  have all: "others ?i s = gdb_executions s" using new by (simp add: others_def row_of_def find_None_iff)
  have "others ?i s1 = gdb_executions s" using own1 all by (simp add: own_row_def others_def)
  with workflow_agent_row[OF two ok1, unfolded now] have own: "own_row ?i (gdb_executions s) (input_tenant in2) s2" by simp
  have fresh: "agx_id r \<noteq> ?i" if "r \<in> set (gdb_executions s)" for r using that new by (auto simp: row_of_def find_None_iff)
  have rows: "filter (\<lambda>r. agx_id r \<noteq> ?i) (gdb_executions s2) = gdb_executions s" using own by (simp add: own_row_def)
  have "r \<in> set (gdb_executions s) \<longleftrightarrow> agx_id r \<noteq> ?i" if "r \<in> set (gdb_executions s2)" for r
    using that fresh arg_cong[OF rows, of set] by auto
  then have same: "filter (\<lambda>r. r \<notin> set (gdb_executions s)) (gdb_executions s2) = filter (\<lambda>r. agx_id r = ?i) (gdb_executions s2)"
    by (intro filter_cong) auto
  have d: "distinct (map agx_id (gdb_executions s2))"
    using own by (simp add: own_row_def indexes_ok_def index_ok_def execution_indexes_def map_filter_def comp_def)
  obtain row where row: "filter (\<lambda>r. agx_id r = ?i) (gdb_executions s2) = [row]"
    using one_row[OF d, of ?i] own by (auto simp: own_row_def)
  then have "row \<in> set (filter (\<lambda>r. agx_id r = ?i) (gdb_executions s2))" by simp
  then have "row \<in> set (gdb_executions s2)" "agx_id row = ?i" by simp_all
  with own have "agx_tenant_id row = input_tenant in2" by (simp add: own_row_def list_all_iff)
  with row same \<open>agx_id row = ?i\<close> show ?thesis by simp
qed

subsection \<open>Concrete jobs\<close>

definition idle_worker :: worker_env where
  "idle_worker = \<lparr>wn_config = \<lparr>wc_queue_name = ''tasks'', wc_fallback_secret = ''k'', wc_grace_days = 3,
       wc_billing_ttl_seconds = 60, wc_web_base_url = ''w''\<rparr>,
     wn_runtime = \<lparr>rn_catalog = [], rn_config = \<lparr>rc_default_tool_cost = 1 / 4, rc_cooldown_ms = 30000, rc_failures = 3,
         rc_timeout_ms = 60000, rc_max_cost = 10, rc_max_steps = 5, rc_retry_attempts = 3\<rparr>,
       rn_new_id = (\<lambda>n. n), rn_hash = (\<lambda>s. ''hash''), rn_draw = (\<lambda>_. 0), rn_elapsed = (\<lambda>_. 5), rn_builtin = (\<lambda>_ _. Inr JNull)\<rparr>,
     wn_hmac = (\<lambda>_ _. ''mac''), wn_read_task = (\<lambda>_. Inl ''no task''),
     wn_read_execution = (\<lambda>_. Inr \<lparr>ej_agent_id = ''a'', ej_catalog_agent_id = None, ej_execution_id = ''e'', ej_input = [],
       ej_organization_id = None, ej_tenant_id = ''t'', ej_user_id = None\<rparr>),
     wn_ids = (\<lambda>n. show_nat n)\<rparr>"

definition overdue_tenant :: org_row where
  "overdue_tenant = \<lparr>org_id = ''o'', org_tenant_id = ''t'', org_name = ''O'', org_settings = JNull,
     org_stripe_customer_id = None, org_plan_id = None\<rparr>"

definition sample_plan_row :: plan_row where
  "sample_plan_row = \<lparr>plan_id = ''p'', plan_code = ''starter'', plan_name = ''S'', plan_description = [], plan_stripe_product_id = None,
     plan_stripe_price_id = None, plan_limits = JNull, plan_monthly_price_cents = 0, plan_yearly_price_cents = None,
     plan_currency = ''usd'', plan_active = True\<rparr>"

definition overdue_subscription :: subscription_row where
  "overdue_subscription = \<lparr>sub_id = ''s'', sub_tenant_id = ''t'', sub_organization_id = ''o'', sub_plan_id = ''p'',
     sub_stripe_subscription_id = None, sub_stripe_customer_id = None, sub_status = sub_past_due, sub_current_period_end = None,
     sub_canceled_at = None, sub_grace_period_ends_at = Some 10, sub_updated_at = 0\<rparr>"

definition sample_worker_db :: "ms \<Rightarrow> worker_db" where
  "sample_worker_db now = \<lparr>gdb_billing = \<lparr>db_orgs = [overdue_tenant], db_users = [], db_memberships = [], db_plans = [sample_plan_row],
       db_subscriptions = [overdue_subscription], db_invoices = [], db_credits = [], db_usage = []\<rparr>,
     gdb_agents = [], gdb_executions = [], gdb_artifacts = [], gdb_conversations = \<lparr>cdb_threads = [], cdb_messages = []\<rparr>,
     gdb_audit = [], gdb_budget = \<lparr>bdb_budgets = [], bdb_events = []\<rparr>,
     gdb_redis = \<lparr>xs_now = now, xs_results = [], xs_locks = [], xs_breakers = [], xs_runs = 0, xs_reported = []\<rparr>,
     wdb_engagement = \<lparr>edb_tenants = [], edb_users = [], edb_memberships = [], edb_preferences = [], edb_notifications = [],
       edb_endpoints = [], edb_deliveries = [], edb_email_queue = [], edb_webhook_queue = []\<rparr>,
     wdb_handoffs = [], wdb_secrets = [], wdb_billing_cache = []\<rparr>"

definition sample_agent_job :: agent_job where
  "sample_agent_job = \<lparr>aj_agent_id = ''a'', aj_approval_required = False, aj_catalog_agent_id = None, aj_execution_id = ''e'',
     aj_mode = Live, aj_input = [], aj_organization_id = Some ''o'', aj_request_id = ''e'', aj_tenant_id = ''t'', aj_user_id = None\<rparr>"

lemma sample_read: "read_job idle_worker ''agent-normal'' ''1'' JNull (sample_worker_db now) = (Inr sample_agent_job, sample_worker_db now)"
  by (simp add: read_job_def read_execution_job_def idle_worker_def sample_worker_db_def resolve_organization_reference_def
      find_organization_by_reference_def overdue_tenant_def sample_agent_job_def then_do_def ask_def give_def lift_error_def zod_error_def
      truthy_def or_else_def)

lemma sample_keyed: "indexes_ok execution_indexes (gdb_executions (sample_worker_db now))" "gdb_executions (sample_worker_db now) = []"
  by (simp_all add: sample_worker_db_def indexes_ok_def index_ok_def execution_indexes_def map_filter_def)

lemma sample_known: "known_references (job_start sample_agent_job) (sample_worker_db now)"
  by (simp add: known_references_def job_start_def sample_agent_job_def sample_worker_db_def overdue_tenant_def)

theorem job_settles_execution_witness:
  "\<exists>row. row_of ''e'' (snd (process_job idle_worker ''agent-normal'' ''1'' JNull (sample_worker_db 5))) = Some row \<and> settled_row row"
proof -
  obtain r s' where run: "process_job idle_worker ''agent-normal'' ''1'' JNull (sample_worker_db 5) = (r, s')" by fastforce
  have "js_trim (aj_tenant_id sample_agent_job) \<noteq> []" by code_simp
  moreover have "aj_execution_id sample_agent_job = ''e''" by (simp add: sample_agent_job_def)
  ultimately show ?thesis
    using job_settles_execution[OF run sample_keyed(1) sample_read] run by (auto simp: sample_known)
qed

theorem executions_stay_settled_witness:
  "list_all (\<lambda>r. settled_row r \<or> js_trim (agx_tenant_id r) = [])
    (gdb_executions (fold serve_job [(idle_worker, ''agent-normal'', ''1'', JNull), (idle_worker, ''tasks'', ''2'', JNull)]
     (sample_worker_db 5)))"
  using executions_stay_settled[of "sample_worker_db 5"
      "[(idle_worker, ''agent-normal'', ''1'', JNull), (idle_worker, ''tasks'', ''2'', JNull)]"] sample_keyed[of 5] by simp

theorem hard_locked_tenant_runs_nothing_witness:
  "fails (fst (process_job idle_worker ''agent-normal'' ''1'' JNull (sample_worker_db 20)))"
proof -
  define env where "env = \<lparr>env_now = 20, env_plan_id = ''x'', env_subscription_id = ''x'', env_invoice_id = ''x'', env_credit_id = ''x''\<rparr>"
  obtain r s' where run: "process_job idle_worker ''agent-normal'' ''1'' JNull (sample_worker_db 20) = (r, s')" by fastforce
  have "(case load_billing_snapshot \<lparr>env_now = 20, env_plan_id = ''x'', env_subscription_id = ''x'', env_invoice_id = ''x'', env_credit_id = ''x''\<rparr>
    (wc_grace_days (wn_config idle_worker)) (aj_tenant_id sample_agent_job) (gdb_billing (sample_worker_db 20)) of
      (Inr snap, _) \<Rightarrow> snap_hard_locked snap | _ \<Rightarrow> False)" by code_simp
  then obtain snap db' where "load_billing_snapshot env (wc_grace_days (wn_config idle_worker)) (aj_tenant_id sample_agent_job)
      (gdb_billing (sample_worker_db 20)) = (Inr snap, db')" "snap_hard_locked snap"
    unfolding env_def by (auto split: prod.splits sum.splits)
  moreover have "env_now env = db_now (sample_worker_db 20)" by (simp add: env_def sample_worker_db_def db_now_def)
  moreover have "case cached_billing (aj_tenant_id sample_agent_job) (sample_worker_db 20) of None \<Rightarrow> True | Some (lock, _) \<Rightarrow> lock"
    by (simp add: cached_billing_def sample_worker_db_def)
  ultimately have "fails r"
    using hard_locked_tenant_runs_nothing[OF run sample_keyed(1) sample_read] by blast
  then show ?thesis by (simp add: run)
qed

text \<open>Without a catalogue an agent fails at once, and the clock stands.\<close>

lemma no_catalog: "rn_catalog E = [] \<Longrightarrow> \<exists>e. execute_manifest_agent_runtime E q s = (Inl e, s)"
  by (simp add: execute_manifest_agent_runtime_def prepare_runtime_def resolve_runtime_agent_def then_do_def ask_def Let_def throw_def
      find_manifest_catalog_entry_def)

lemma keeps_clock_executions: "keeps (\<lambda>s. db_now s = n) (on_executions stmt)"
  unfolding on_executions_def by (rule keeps_on_table) (simp add: db_now_def)

lemma idle_clock: "keeps (\<lambda>s. db_now s = n) (execute_workflow_agent idle_worker agent summary input)"
proof -
  have "keeps (\<lambda>s. db_now s = n) (execute_manifest_agent_runtime (wn_runtime idle_worker) q :: (worker_db, _) operation)" for q
    using no_catalog[of "wn_runtime idle_worker" q] unfolding keeps_def idle_worker_def by (metis (no_types, lifting) runtime_env.select_convs(1) snd_conv worker_env.select_convs(2))
  then show ?thesis
    unfolding execute_workflow_agent_def Let_def persist_execution_started_def persist_execution_finished_def
    by (intro keeps_then_do keeps_ask keeps_try_catch keeps_If keeps_clock_executions keeps_give keeps_throw)
qed

theorem simultaneous_agents_share_row_witness:
  "\<exists>row. gdb_executions (snd (execute_workflow_agent idle_worker ''a'' ''s'' [(''tenantId'', JStr ''u'')]
     (snd (execute_workflow_agent idle_worker ''a'' ''s'' [(''tenantId'', JStr ''t'')] (sample_worker_db 5))))) = [row] \<and>
     agx_tenant_id row = ''u''"
proof -
  obtain r1 s1 where 1: "execute_workflow_agent idle_worker ''a'' ''s'' [(''tenantId'', JStr ''t'')] (sample_worker_db 5) = (r1, s1)" by fastforce
  obtain r2 s2 where 2: "execute_workflow_agent idle_worker ''a'' ''s'' [(''tenantId'', JStr ''u'')] s1 = (r2, s2)" by fastforce
  have now: "db_now s1 = db_now (sample_worker_db 5)" by (rule keepsD[OF idle_clock _ 1]) simp
  have "row_of i (sample_worker_db 5) = None" for i by (simp add: row_of_def sample_keyed)
  from simultaneous_agents_share_row[OF 1 2 sample_keyed(1) now this] show ?thesis
    by (auto simp: 1 2 sample_keyed(2) input_tenant_def obj_get_def)
qed

end
