(* ===== verification/InstalledCorrect.thy ===== *)
theory InstalledCorrect
  imports InstalledAgents WorkerCorrect
begin

text \<open>
  Installing, running and settling: what the installer keeps of the limit and of the secrets, what becomes of a run
  the API has queued when the worker takes it, and why the API does not know a run again.
\<close>

subsection \<open>Installing\<close>

lemma log_agents_run:
  assumes "log_agents action actor diff entity entity_type tenant s = (r, s')"
  shows "r = Inr ()" and "gdb_agents (pl_db s') = gdb_agents (pl_db s)" and "pl_queue s' = pl_queue s"
    and "gdb_executions (pl_db s') = gdb_executions (pl_db s)"
    and "\<exists>e. gdb_audit (pl_db s') = gdb_audit (pl_db s) @ [e] \<and> al_diff e = OtherDiff diff \<and> al_action e = action"
  using assms
  by (auto simp: log_agents_def then_do_def ask_def on_worker_def on_part_def add_entry_def on_audit_def)

lemma on_agents_Inr:
  "on_agents stmt s = (Inr u, s') \<longleftrightarrow> (\<exists>rows. stmt (gdb_agents (pl_db s)) = Inr rows \<and> s' = s\<lparr>pl_db := (pl_db s)\<lparr>gdb_agents := rows\<rparr>\<rparr>)"
  by (simp add: on_agents_def)

lemma install_cases:
  assumes "install_pack_atomic P i s = (Inr v, s')"
  obtains actor requested m org where
    "\<not> limit_exceeded (length (tenant_agents (ii_tenant_id i) s) + (if existing_agent i requested s = None then 1 else 0))
       (pn_agent_limit P (ii_tenant_id i))"
    "write_install P i actor requested m org (existing_agent i requested s) s = (Inr (), s')"
    "ir_installed_agent_id v = (case existing_agent i requested s of Some a \<Rightarrow> agt_id a | None \<Rightarrow> pn_ids P ''agent'')"
proof -
  have refused: "(if c then None else Some ()) = Some () \<longleftrightarrow> \<not> c" for c by simp
  show thesis
    using assms by (clarsimp simp: install_pack_atomic_def refused) (rule that[rotated 1], assumption, simp, simp)
qed

text \<open>One row of the tenant is written, or one is added.\<close>

lemma write_install_run:
  assumes "write_install P i actor requested m org existing s = (Inr (), s')"
  obtains now where "gdb_audit (pl_db s') \<noteq> []" "al_action (last (gdb_audit (pl_db s'))) = ''PACK_INSTALL''"
    "al_diff (last (gdb_audit (pl_db s'))) = OtherDiff (install_diff i requested (existing \<noteq> None))"
    "gdb_agents (pl_db s') = (case existing of
       Some a \<Rightarrow> update_where (\<lambda>r. agt_id r = agt_id a) (reinstalled P now i requested m) (gdb_agents (pl_db s))
     | None \<Rightarrow> gdb_agents (pl_db s) @ [new_agent P now i requested m org])"
proof -
  from assms obtain now s1 where 1: "(case existing of
       Some a \<Rightarrow> on_agents (update_unique ''agent'' agent_indexes (\<lambda>r. agt_id r = agt_id a) (reinstalled P now i requested m))
     | None \<Rightarrow> on_agents (create_row agent_indexes (new_agent P now i requested m org))) s = (Inr (), s1)"
    and 2: "log_agents ''PACK_INSTALL'' actor (install_diff i requested (existing \<noteq> None)) requested ''agent_pack'' (ii_tenant_id i) s1 = (Inr (), s')"
    by (auto simp: write_install_def)
  from 1 have "gdb_agents (pl_db s1) = (case existing of
       Some a \<Rightarrow> update_where (\<lambda>r. agt_id r = agt_id a) (reinstalled P now i requested m) (gdb_agents (pl_db s))
     | None \<Rightarrow> gdb_agents (pl_db s) @ [new_agent P now i requested m org])"
    by (cases existing) (auto simp: on_agents_Inr table_simps)
  with log_agents_run[OF 2] show thesis by (intro that[of now]) auto
qed

lemma installed_config [simp]:
  "js_prop (agt_config (new_agent P now i requested m org)) ''connectors'' = encrypted_connectors P i"
  "js_prop (agt_config (reinstalled P now i requested m a)) ''connectors'' = encrypted_connectors P i"
  "agt_id (reinstalled P now i requested m a) = agt_id a" "agt_id (new_agent P now i requested m org) = pn_ids P ''agent''"
  "agt_tenant_id (reinstalled P now i requested m a) = agt_tenant_id a" "agt_tenant_id (new_agent P now i requested m org) = ii_tenant_id i"
  by (simp_all add: new_agent_def reinstalled_def js_prop_def obj_get_def or_else_def with_field_def map_of_update)


text \<open>
  Property C7. Installing keeps the limit of the plan: a tenant within a finite limit is within it afterwards,
  whether the installation succeeds, updates or is refused, and the agents of other tenants are as they were.
\<close>

theorem install_keeps_agent_limit:
  assumes run: "install_pack_atomic P i s = (Inr v, s')" and limit: "pn_agent_limit P (ii_tenant_id i) = Fin q"
    and ids: "indexes_ok agent_indexes (gdb_agents (pl_db s))"
  shows "of_nat (length (tenant_agents (ii_tenant_id i) s')) \<le> q \<and>
    filter (\<lambda>a. agt_tenant_id a \<noteq> ii_tenant_id i) (gdb_agents (pl_db s')) = filter (\<lambda>a. agt_tenant_id a \<noteq> ii_tenant_id i) (gdb_agents (pl_db s))"
proof -
  from run obtain actor requested m org where
    le: "\<not> limit_exceeded (length (tenant_agents (ii_tenant_id i) s) + (if existing_agent i requested s = None then 1 else 0))
       (pn_agent_limit P (ii_tenant_id i))"
    and w: "write_install P i actor requested m org (existing_agent i requested s) s = (Inr (), s')"
    by (rule install_cases)
  from w obtain now where agents: "gdb_agents (pl_db s') = (case existing_agent i requested s of
       Some a \<Rightarrow> update_where (\<lambda>r. agt_id r = agt_id a) (reinstalled P now i requested m) (gdb_agents (pl_db s))
     | None \<Rightarrow> gdb_agents (pl_db s) @ [new_agent P now i requested m org])"
    by (rule write_install_run)
  show ?thesis
  proof (cases "existing_agent i requested s")
    case None
    with le limit agents show ?thesis by (simp add: tenant_agents_def limit_exceeded_def not_less)
  next
    case (Some a)
    then have a: "a \<in> set (gdb_agents (pl_db s))" "agt_tenant_id a = ii_tenant_id i"
      using find_Some_iff_mem[OF Some[unfolded existing_agent_def]] by (auto simp: tenant_agents_def)
    have same: "r = a" if "r \<in> set (gdb_agents (pl_db s))" "agt_id r = agt_id a" for r
    proof -
      have "distinct (map agt_id (gdb_agents (pl_db s)))"
        using ids by (simp add: indexes_ok_def index_ok_def agent_indexes_def map_filter_def comp_def)
      with that a(1) show ?thesis by (auto simp: distinct_map inj_on_def)
    qed
    have "length (filter (\<lambda>r. agt_tenant_id r = t) (update_where (\<lambda>r. agt_id r = agt_id a) (reinstalled P now i requested m) rows)) =
        length (filter (\<lambda>r. agt_tenant_id r = t) rows)" for t rows
      by (induction rows) auto
    moreover have "filter (\<lambda>r. agt_tenant_id r \<noteq> ii_tenant_id i) (update_where (\<lambda>r. agt_id r = agt_id a) (reinstalled P now i requested m) rows) =
        filter (\<lambda>r. agt_tenant_id r \<noteq> ii_tenant_id i) rows" if "set rows \<subseteq> set (gdb_agents (pl_db s))" for rows
      using that a(2) same by (induction rows) auto
    ultimately show ?thesis using le limit agents Some by (simp add: tenant_agents_def limit_exceeded_def not_less)
  qed
qed

subsection \<open>A run and the worker\<close>

lemma on_platform_executions_Inr:
  "on_platform_executions stmt s = (Inr u, s') \<longleftrightarrow>
     (\<exists>rows. stmt (gdb_executions (pl_db s)) = Inr rows \<and> s' = s\<lparr>pl_db := (pl_db s)\<lparr>gdb_executions := rows\<rparr>\<rparr>)"
  by (auto simp: on_platform_executions_def on_worker_def on_part_eq on_executions_def on_table_def split: sum.splits)

lemma update_run_own:
  assumes "update_run i f s = (Inr u, s')" and "own_row i X t (pl_db s)"
    and "\<forall>r. agx_id (f r) = agx_id r \<and> agx_tenant_id (f r) = agx_tenant_id r"
  shows "own_row i X t (pl_db s')" and "pl_queue s' = pl_queue s"
proof -
  from assms(1) have "gdb_executions (pl_db s') = update_where (\<lambda>r. agx_id r = i) f (gdb_executions (pl_db s))" "pl_queue s' = pl_queue s"
    by (auto simp: update_run_def on_platform_executions_Inr table_simps)
  with own_row_update[OF assms(2), of "pl_db s'" f t] assms(3) show "own_row i X t (pl_db s')" "pl_queue s' = pl_queue s" by auto
qed

lemma opened:
  assumes run: "open_execution q s = (Inr u, s')" and ok: "indexes_ok execution_indexes (gdb_executions (pl_db s))"
    and new: "row_of (agx_id q) (pl_db s) = None"
  shows "own_row (agx_id q) (gdb_executions (pl_db s)) (agx_tenant_id q) (pl_db s')" and "pl_queue s' = pl_queue s"
proof -
  from new have none: "List.find (\<lambda>r. agx_id r = agx_id q) (gdb_executions (pl_db s)) = None"
    and fresh: "\<And>r. r \<in> set (gdb_executions (pl_db s)) \<Longrightarrow> agx_id r \<noteq> agx_id q"
    by (auto simp: row_of_def find_None_iff)
  from run none have "gdb_executions (pl_db s') = gdb_executions (pl_db s) @ [q]"
      "indexes_ok execution_indexes (gdb_executions (pl_db s) @ [q])" "pl_queue s' = pl_queue s"
    by (auto simp: open_execution_def on_platform_executions_Inr table_simps)
  with fresh show "own_row (agx_id q) (gdb_executions (pl_db s)) (agx_tenant_id q) (pl_db s')" "pl_queue s' = pl_queue s"
    by (auto simp: own_row_def list_all_iff filter_id_conv)
qed


lemma log_agents_frame:
  "log_agents action actor diff entity entity_type tenant s = (r, s') \<Longrightarrow>
     pl_queue s' = pl_queue s \<and> gdb_executions (pl_db s') = gdb_executions (pl_db s)"
  using log_agents_run(3,4) by (intro conjI)

lemma with_platform_tenant_Inr:
  "with_platform_tenant reference f s = (Inr v, s') \<longleftrightarrow> (\<exists>t. js_trim reference \<noteq> [] \<and> f t s = (Inr v, s') \<and>
     List.find (\<lambda>r. org_id r = js_trim reference \<or> org_slug r = js_trim reference \<or> org_tenant_id r = js_trim reference)
       (edb_tenants (wdb_engagement (pl_db s))) = Some t)"
  by (auto simp: with_platform_tenant_def Let_def then_do_def ask_def throw_def split: option.split)

lemma resolved:
  assumes run: "resolve_installed_agent P agent reference s = (Inr x, s')"
  shows "s' = s" and "ra_tenant x \<in> set (edb_tenants (wdb_engagement (pl_db s)))"
proof -
  from run[unfolded resolve_installed_agent_def with_platform_tenant_Inr] obtain t
    where t: "List.find (\<lambda>r. org_id r = js_trim reference \<or> org_slug r = js_trim reference \<or> org_tenant_id r = js_trim reference)
       (edb_tenants (wdb_engagement (pl_db s))) = Some t" and body: "resolve_in P agent t s = (Inr x, s')"
    unfolding resolve_in_def by (elim exE conjE)
  from body have "s' = s \<and> ra_tenant x = t"
    by (auto simp: resolve_in_def then_do_def ask_def throw_def give_def Let_def split: option.split_asm)
  with find_Some_iff_mem[OF t] show "s' = s" "ra_tenant x \<in> set (edb_tenants (wdb_engagement (pl_db s)))" by simp_all
qed

lemma resolving_keeps: "resolve_installed_agent P agent reference s = (r, s') \<Longrightarrow> s' = s"
  by (auto simp: resolve_installed_agent_def with_platform_tenant_def resolve_in_def Let_def then_do_def ask_def throw_def give_def
      split: if_splits option.splits)

text \<open>Opening a new row and writing the row of a run never fail.\<close>

lemma opens_new_row:
  assumes ok: "indexes_ok execution_indexes (gdb_executions (pl_db s))" and new: "row_of (agx_id q) (pl_db s) = None"
  obtains s' where "open_execution q s = (Inr (), s')"
proof -
  from new have none: "List.find (\<lambda>r. agx_id r = agx_id q) (gdb_executions (pl_db s)) = None" by (simp add: row_of_def)
  have key: "\<And>rows. indexes_ok execution_indexes rows \<longleftrightarrow> distinct (map agx_id rows)"
    by (simp add: indexes_ok_def index_ok_def execution_indexes_def map_filter_def comp_def)
  have "indexes_ok execution_indexes (gdb_executions (pl_db s) @ [q])"
    using ok none by (auto simp: key find_None_iff)
  with none show thesis by (intro that) (simp add: open_execution_def on_platform_executions_Inr table_simps)
qed

lemma updating:
  assumes own: "own_row i X t (pl_db s)" and f: "\<And>r. agx_id (f r) = agx_id r \<and> agx_tenant_id (f r) = agx_tenant_id r"
  obtains s' r where "update_run i f s = (Inr (), s')" and "own_row i X t (pl_db s')" and "pl_queue s' = pl_queue s"
    and "row_of i (pl_db s) = Some r" and "row_of i (pl_db s') = Some (f r)"
proof -
  let ?rows = "update_where (\<lambda>r. agx_id r = i) f (gdb_executions (pl_db s))"
  obtain r where r: "List.find (\<lambda>r. agx_id r = i) (gdb_executions (pl_db s)) = Some r"
    using own by (cases "List.find (\<lambda>r. agx_id r = i) (gdb_executions (pl_db s))") (auto simp: own_row_def find_None_iff)
  have ok: "indexes_ok execution_indexes ?rows"
    using own_row_update[OF own, of "(pl_db s)\<lparr>gdb_executions := ?rows\<rparr>" f t] f by (simp add: own_row_def)
  with r find_Some_iff_mem[OF r] have upd: "update_run i f s = (Inr (), s\<lparr>pl_db := (pl_db s)\<lparr>gdb_executions := ?rows\<rparr>\<rparr>)"
    by (auto simp: update_run_def on_platform_executions_Inr table_simps)
  have "row_of i (pl_db (s\<lparr>pl_db := (pl_db s)\<lparr>gdb_executions := ?rows\<rparr>\<rparr>)) = Some (f r)"
    using r find_Some_iff_mem[OF r] f by (simp add: row_of_def find_update_where)
  with update_run_own[OF upd own] f r show thesis by (intro that[OF upd]) (simp_all add: row_of_def)
qed

text \<open>What the queue answers, and what becomes of a run it refuses.\<close>

lemma enqueueing:
  assumes "enqueue_installed_agent_execution P e s = (y, s')"
    and "\<not> known_job (pl_queue s) (ej_tenant_id e @ '':'' @ ej_execution_id e)"
  shows "pl_db s' = pl_db s" and "case y of Inl _ \<Rightarrow> pl_queue s' = pl_queue s
    | Inr (job, _) \<Rightarrow> pn_queue_refuses P (qj_job_id (job_of_execution e)) = None \<and>
        pl_queue s' = (pl_queue s)\<lparr>aq_prioritized := aq_prioritized (pl_queue s) @ [job_of_execution e]\<rparr>"
  using assms
  by (auto simp: enqueue_installed_agent_execution_def count_queue_call_def Let_def job_of_execution_def split: option.splits if_splits prod.splits)

definition failed_run :: "string \<Rightarrow> queue_error \<Rightarrow> api_error + agent_run \<Rightarrow> 'x agent_db_scheme \<Rightarrow> bool" where
  "failed_run i e r s \<longleftrightarrow> r = Inl (Problem (case e of TenantQueueRateLimit _ _ \<Rightarrow> 429 | _ \<Rightarrow> 503) (queue_error_text e)) \<and>
     (\<exists>row. row_of i s = Some row \<and> settled_row row \<and> agx_status row = ExecFailed \<and> agx_error_message row = Some (queue_error_text e))"

lemma refused_run:
  assumes run: "fail_queueing x i h user e s = (r, s')" and own: "own_row i X t (pl_db s)"
    and hash: "\<And>row. row_of i (pl_db s) = Some row \<Longrightarrow> agx_output_hash row = None"
  shows "own_row i X t (pl_db s')" and "pl_queue s' = pl_queue s" and "failed_run i e r (pl_db s')"
proof -
  let ?f = "\<lambda>r. r\<lparr>agx_completed_at := Some (pl_now s), agx_error_message := Some (queue_error_text e),
          agx_metadata := run_metadata x h (initial_logs x @ [''Falha ao enfileirar execucao live: '' @ queue_error_text e]) [],
          agx_status := ExecFailed\<rparr>"
  obtain s1 q where 1: "update_run i ?f s = (Inr (), s1)" "own_row i X t (pl_db s1)" "pl_queue s1 = pl_queue s"
    "row_of i (pl_db s) = Some q" "row_of i (pl_db s1) = Some (?f q)" by (rule updating[OF own, of ?f]) simp_all
  obtain u s2 where 2: "log_agents ''AGENT_LIVE_EXECUTION_QUEUE_FAILED'' user (JObj [(''errorMessage'', JStr (queue_error_text e)), (''executionId'', JStr i),
          (''installedAgentId'', JStr (agt_id (ra_agent x))), (''payloadHash'', JStr h)]) i ''agent_execution'' (org_tenant_id (ra_tenant x)) s1 = (u, s2)"
    by fastforce
  from log_agents_run(1)[OF 2] log_agents_frame[OF 2] 1 2 run have s': "s' = s2"
    "r = Inl (Problem (case e of TenantQueueRateLimit _ _ \<Rightarrow> 429 | _ \<Rightarrow> 503) (queue_error_text e))"
    by (auto simp: fail_queueing_def then_do_def ask_def in_transaction_def throw_def)
  from 1 s' log_agents_frame[OF 2] hash[OF 1(4)] show "own_row i X t (pl_db s')" "pl_queue s' = pl_queue s" "failed_run i e r (pl_db s')"
    by (simp_all add: own_row_def row_of_def failed_run_def settled_row_def)
qed

text \<open>
  The outcomes of a run: nothing is opened (the agent is not resolved, or a running execution is answered with), the row
  is opened and fails because the queue refuses, or the row is running and one more job waits.
\<close>

lemma run_outcomes:
  assumes run: "run_installed_agent P agent payload reference user s = (r, s')"
    and ok: "indexes_ok execution_indexes (gdb_executions (pl_db s))" and fresh: "row_of (pn_ids P ''execution'') (pl_db s) = None"
    and unknown: "list_all (\<lambda>t. \<not> known_job (pl_queue s) (org_tenant_id t @ '':'' @ pn_ids P ''execution'')) (edb_tenants (wdb_engagement (pl_db s)))"
  obtains (unopened) "pl_queue s' = pl_queue s" "gdb_executions (pl_db s') = gdb_executions (pl_db s)"
      "case r of Inl _ \<Rightarrow> True | Inr v \<Rightarrow> run_reused v"
  | (failed) t e where "pl_queue s' = pl_queue s" "own_row (pn_ids P ''execution'') (gdb_executions (pl_db s)) t (pl_db s')"
      "failed_run (pn_ids P ''execution'') e r (pl_db s')"
  | (queued) t x v where "t \<in> set (edb_tenants (wdb_engagement (pl_db s)))" "x = run_job_data v (pn_ids P ''execution'') payload user" "ra_tenant v = t"
      "case r of Inl _ \<Rightarrow> False | Inr w \<Rightarrow> run_execution_id w = pn_ids P ''execution'' \<and> \<not> run_reused w"
      "pn_queue_refuses P (qj_job_id (job_of_execution x)) = None"
      "pl_queue s' = (pl_queue s)\<lparr>aq_prioritized := aq_prioritized (pl_queue s) @ [job_of_execution x]\<rparr>"
      "own_row (pn_ids P ''execution'') (gdb_executions (pl_db s)) (org_tenant_id t) (pl_db s')"
proof -
  let ?i = "pn_ids P ''execution''" and ?X = "gdb_executions (pl_db s)"
  obtain y s0 where res: "resolve_installed_agent P agent reference s = (y, s0)" by fastforce
  with resolving_keeps have s0: "s0 = s" by blast
  show thesis
  proof (cases y)
    case (Inl e)
    with res s0 run show thesis by (intro unopened) (auto simp: run_installed_agent_def then_do_def)
  next
    case (Inr x)
    note x = res[unfolded Inr s0]
    define h where "h = build_payload_hash P payload"
    let ?t = "org_tenant_id (ra_tenant x)"
    show thesis
    proof (cases "find_reusable_running_execution (agt_id (ra_agent x)) h ?t s")
      case (Some q)
      with run x show thesis
        by (intro unopened) (auto simp: run_installed_agent_def Let_def then_do_def[of "resolve_installed_agent _ _ _"] h_def[symmetric]
            then_do_def[of "ask _"] then_do_def[of "log_agents _ _ _ _ _ _"] ask_def give_def
            dest!: log_agents_frame split: prod.splits sum.splits)
    next
      case None
      let ?q = "queued_row (pl_now s) x ?i h payload user"
      have q: "agx_id ?q = ?i" "agx_tenant_id ?q = ?t" "agx_output_hash ?q = None" by (simp_all add: queued_row_def)
      obtain s1 where s1: "open_execution ?q s = (Inr (), s1)" using opens_new_row[of s ?q] ok fresh q by auto
      from opened[OF s1 ok] fresh q have own1: "own_row ?i ?X ?t (pl_db s1)" "pl_queue s1 = pl_queue s" by auto
      from s1 fresh q(1) have rows1: "gdb_executions (pl_db s1) = ?X @ [?q]"
        by (auto simp: open_execution_def on_platform_executions_Inr table_simps row_of_def)
      obtain u s2 where lg: "log_agents ''AGENT_LIVE_EXECUTION_QUEUED'' user (JObj [(''catalogAgentId'', JStr (ad_id (am_agent (ra_manifest x)))),
                    (''executionId'', JStr ?i), (''installedAgentId'', JStr (agt_id (ra_agent x))), (''mode'', JStr ''LIVE''),
                    (''payloadHash'', JStr h), (''runtimeProvider'', JStr (provider_name (ic_provider (ra_config x))))])
                    ?i ''agent_execution'' ?t s1 = (u, s2)" by fastforce
      note s2 = log_agents_run(1)[OF lg] log_agents_frame[OF lg]
      have body: "queue_run P x ?i h payload user s2 = (r, s')"
        using run None lg s1 s2(1)
        by (simp add: run_installed_agent_def Let_def then_do_def[of "resolve_installed_agent _ _ _"] x h_def[symmetric]
            then_do_def[of "ask _"] ask_def then_do_def[of "in_transaction _"] then_do_def[of "open_execution _"] in_transaction_def)
      have own2: "own_row ?i ?X ?t (pl_db s2)" "pl_queue s2 = pl_queue s" using own1 s2(2) by (simp_all add: own_row_def)
      have hash: "agx_output_hash row = None" if "row_of ?i (pl_db s2) = Some row" for row
        using that s2(2) rows1 fresh q by (auto simp: row_of_def find_append or_opt_def)
      define d where "d = run_job_data x ?i payload user"
      have mem: "ra_tenant x \<in> set (edb_tenants (wdb_engagement (pl_db s)))" by (rule resolved(2)[OF x])
      with unknown own2(2) have free: "\<not> known_job (pl_queue s2) (ej_tenant_id d @ '':'' @ ej_execution_id d)"
        by (simp add: list_all_iff d_def run_job_data_def)
      obtain z s3 where enq: "enqueue_installed_agent_execution P d s2 = (z, s3)" by fastforce
      note s3 = enqueueing[OF enq free]
      have own3: "own_row ?i ?X ?t (pl_db s3)" using own2 s3(1) by simp
      show thesis
      proof (cases z)
        case (Inl e)
        then have "fail_queueing x ?i h user e s3 = (r, s')" using body enq by (simp add: queue_run_def d_def)
        from refused_run[OF this own3] hash s3 Inl own2(2) show thesis by (intro failed[of ?t e]) auto
      next
        case (Inr jp)
        obtain job pending where jp: "jp = (job, pending)" by (cases jp)
        let ?f = "\<lambda>r. r\<lparr>agx_metadata := run_metadata x h
             (initial_logs x @ [''Job '' @ job @ '' aceito pela fila com backlog pendente '' @ show_nat pending @ ''.''])
             [(''queueJobId'', JStr job), (''queuePendingJobs'', JNum (Fin (of_nat pending)))]\<rparr>"
        obtain s4 p where s4: "update_run ?i ?f s3 = (Inr (), s4)" "own_row ?i ?X ?t (pl_db s4)" "pl_queue s4 = pl_queue s3"
          by (rule updating[OF own3, of ?f]) simp_all
        then have r: "r = Inr \<lparr>run_catalog_agent_id = ad_id (am_agent (ra_manifest x)), run_execution_id = ?i, run_reused = False\<rparr>" "s' = s4"
          using body enq by (simp_all add: queue_run_def d_def Inr jp then_do_def give_def)
        show thesis
          by (rule queued[of "ra_tenant x" d x]) (use mem r s3 s4 Inr jp own2(2) in \<open>simp_all add: d_def\<close>)
      qed
    qed
  qed
qed

text \<open>
  What a worker makes of a job: whatever state it finds and whatever the runtime, the budget or the fan-out then do, the row
  of the execution is settled and no other row has changed, provided it knows the organization and the user and the tenant is no
  text of blanks.
\<close>

definition worker_settles :: "string \<Rightarrow> queued_agent_job \<Rightarrow> worker_env \<Rightarrow> js_val \<Rightarrow> worker_db \<Rightarrow> bool" where
  "worker_settles i j W d w = (case process_job W (qj_queue j) (qj_job_id j) d w of (_, w') \<Rightarrow>
     others i w' = others i w \<and> (case row_of i w' of None \<Rightarrow> False | Some row \<Rightarrow> settled_row row))"

definition takes_job :: "queued_agent_job \<Rightarrow> worker_env \<Rightarrow> js_val \<Rightarrow> worker_db \<Rightarrow> bool" where
  "takes_job j W d w \<longleftrightarrow> wn_read_execution W d = Inr (qj_job j) \<and> wc_queue_name (wn_config W) \<noteq> qj_queue j \<and>
     indexes_ok execution_indexes (gdb_executions w) \<and> js_trim (ej_tenant_id (qj_job j)) \<noteq> [] \<and>
     (case read_job W (qj_queue j) (qj_job_id j) d w of (Inl _, _) \<Rightarrow> False | (Inr a, _) \<Rightarrow> known_references (job_start a) w)"

lemma taken_job_settled:
  assumes "takes_job j W d w"
  shows "worker_settles (ej_execution_id (qj_job j)) j W d w"
proof -
  let ?i = "ej_execution_id (qj_job j)"
  from assms obtain a where a: "read_job W (qj_queue j) (qj_job_id j) d w = (Inr a, w)" "known_references (job_start a) w"
    and ids: "aj_execution_id a = ?i" "aj_tenant_id a = ej_tenant_id (qj_job j)"
    by (auto simp: takes_job_def read_job_def read_execution_job_def zod_error_def lift_error_def then_do_def ask_def give_def)
  obtain r w' where w: "process_job W (qj_queue j) (qj_job_id j) d w = (r, w')" by fastforce
  from processed_job_settles[OF w _ a(1)] a(2) ids assms show ?thesis
    by (auto simp: worker_settles_def w takes_job_def)
qed

text \<open>
  Property C5. Every execution a run of the API opens is settled. Whatever the run answers, one of three things has happened.
  Nothing was opened, no row and no job, and the answer is an error or the running execution it is a repetition of. Or one
  row was opened beside the others and the queue took no job, by its rate limit, its backlog or because it refuses the
  job id: then the row is FAILED with the error of the answer, a 429 or 503. Or the queue took the id and there is one row and one
  more job, the last of the queue, that bears tenant, organization, user and id of the row: then whatever worker takes this job,
  and in whatever state of the tables, the row is settled afterwards and no other has changed.
\<close>

theorem opened_run_is_settled:
  assumes run: "run_installed_agent P agent payload reference user s = (r, s')"
    and ok: "indexes_ok execution_indexes (gdb_executions (pl_db s))" and fresh: "row_of (pn_ids P ''execution'') (pl_db s) = None"
    and unknown: "list_all (\<lambda>t. \<not> known_job (pl_queue s) (org_tenant_id t @ '':'' @ pn_ids P ''execution'')) (edb_tenants (wdb_engagement (pl_db s)))"
  shows "pl_queue s' = pl_queue s \<and> gdb_executions (pl_db s') = gdb_executions (pl_db s) \<and>
      (case r of Inl _ \<Rightarrow> True | Inr v \<Rightarrow> run_reused v) \<or>
    pl_queue s' = pl_queue s \<and> others (pn_ids P ''execution'') (pl_db s') = gdb_executions (pl_db s) \<and>
      (\<exists>e. failed_run (pn_ids P ''execution'') e r (pl_db s')) \<or>
    (\<exists>x j. ra_tenant x \<in> set (edb_tenants (wdb_engagement (pl_db s))) \<and>
      j = job_of_execution (run_job_data x (pn_ids P ''execution'') payload user) \<and>
      pl_queue s' = (pl_queue s)\<lparr>aq_prioritized := aq_prioritized (pl_queue s) @ [j]\<rparr> \<and> pn_queue_refuses P (qj_job_id j) = None \<and>
      (case r of Inl _ \<Rightarrow> False | Inr v \<Rightarrow> run_execution_id v = pn_ids P ''execution'' \<and> \<not> run_reused v) \<and>
      own_row (pn_ids P ''execution'') (gdb_executions (pl_db s)) (org_tenant_id (ra_tenant x)) (pl_db s') \<and>
      (\<forall>W d w. takes_job j W d w \<longrightarrow> worker_settles (pn_ids P ''execution'') j W d w))"
  using assms
proof (cases rule: run_outcomes)
  case (failed t e)
  then show ?thesis by (auto simp: own_row_def others_def)
next
  case (queued t d x)
  have settled: "worker_settles (pn_ids P ''execution'') (job_of_execution d) W v w" if "takes_job (job_of_execution d) W v w" for W v w
    using taken_job_settled[OF that] by (simp add: queued(2) job_of_execution_def run_job_data_def)
  with queued show ?thesis
    by (intro disjI2 exI[of _ x] exI[of _ "job_of_execution d"]) simp
qed simp

text \<open>
  BullMQ of the pinned version refuses a custom job id with one colon (it takes none, or the two of its repeatable jobs). The id the
  API gives is tenant and execution joined by a colon, so where neither has one no job is ever queued: every run that
  is opened ends as FAILED.
\<close>

definition colons :: "string \<Rightarrow> nat" where
  "colons i = length (filter (\<lambda>c. c = CHR '':'') i)"

lemma live_run_refused_by_queue:
  assumes run: "run_installed_agent P agent payload reference user s = (r, s')"
    and ok: "indexes_ok execution_indexes (gdb_executions (pl_db s))" and fresh: "row_of (pn_ids P ''execution'') (pl_db s) = None"
    and unknown: "list_all (\<lambda>t. \<not> known_job (pl_queue s) (org_tenant_id t @ '':'' @ pn_ids P ''execution'')) (edb_tenants (wdb_engagement (pl_db s)))"
    and bull: "\<And>i. colons i = 1 \<Longrightarrow> pn_queue_refuses P i \<noteq> None"
    and plain: "list_all (\<lambda>t. colons (org_tenant_id t) = 0) (edb_tenants (wdb_engagement (pl_db s)))" "colons (pn_ids P ''execution'') = 0"
  shows "pl_queue s' = pl_queue s \<and> (case r of Inl _ \<Rightarrow> True | Inr v \<Rightarrow> run_reused v)"
  using run ok fresh unknown
proof (cases rule: run_outcomes)
  case (queued t d x)
  with plain have "colons (qj_job_id (job_of_execution d)) = 1"
    by (simp add: list_all_iff job_of_execution_def run_job_data_def colons_def)
  with bull queued(5) show ?thesis by blast
qed (auto simp: failed_run_def)



subsection \<open>Concrete installations\<close>

definition crm_manifest :: agent_manifest where
  "crm_manifest = \<lparr>am_agent = \<lparr>ad_changelog = [], ad_description = ''d'', ad_id = ''crm'', ad_is_catalog = False,
     ad_name = ''CRM'', ad_prompt = ''p'', ad_tenant_id = ''catalog'', ad_version = ''2.0.0''\<rparr>, am_keywords = [''k''],
     am_policies = [], am_skills = [], am_tags = \<lparr>mt_domain = [], mt_level = [], mt_persona = [], mt_use_case = [], mt_industry = []\<rparr>,
     am_tools = []\<rparr>"

definition sample_platform :: platform_env where
  "sample_platform = \<lparr>pn_catalog = [\<lparr>ce_manifest = crm_manifest, ce_path = ''m''\<rparr>], pn_agent_limit = (\<lambda>_. Fin 1),
     pn_ids = (\<lambda>n. ''new-'' @ n), pn_hash = (\<lambda>s. ''hash''), pn_collate = (\<lambda>_. 0), pn_cipher = sample_aead, pn_secret = ''k'',
     pn_ivs = (\<lambda>_. [1, 2]), pn_rate_window_seconds = 60, pn_rate_max = 10, pn_backpressure = 100, pn_queue_refuses = (\<lambda>_. None)\<rparr>"

definition sample_install :: install_input where
  "sample_install = \<lparr>ii_activate = True, ii_agent_id = Some ''crm'', ii_actor_id = ''u'', ii_connectors = [(''token'', JStr ''s'')],
     ii_pack_id = None, ii_tenant_id = ''t''\<rparr>"

definition crm_agent :: agent_row where
  "crm_agent = \<lparr>agt_id = ''g'', agt_tenant_id = ''t'', agt_organization_id = ''o'', agt_name = ''CRM'', agt_status = ''ACTIVE'',
     agt_config = JObj [(''sourceAgentId'', JStr ''crm'')], agt_updated_at = 0\<rparr>"


definition sample_platform_db :: "agent_row list \<Rightarrow> agent_execution_row list \<Rightarrow> platform_db" where
  "sample_platform_db agents rows = \<lparr>pl_db = (sample_worker_db 5)\<lparr>gdb_billing := (gdb_billing (sample_worker_db 5))\<lparr>db_users := [\<lparr>user_id = ''u'', user_email = ''u@o'', user_name = ''U'', user_password_hash = [],
         user_status = UserActive, user_suspended_at = None, user_mfa_enabled = False, user_mfa_secret = None\<rparr>]\<rparr>,
       gdb_agents := agents, gdb_executions := rows,
       wdb_engagement := (wdb_engagement (sample_worker_db 5))\<lparr>edb_tenants := [\<lparr>org_id = ''o'', org_tenant_id = ''t'', org_name = ''O'',
         org_settings = JNull, org_stripe_customer_id = None, org_plan_id = None, org_slug = ''o''\<rparr>]\<rparr>\<rparr>,
     pl_queue = \<lparr>aq_waiting = [], aq_delayed = [], aq_prioritized = [], aq_active = [], aq_completed = [], aq_failed = []\<rparr>,
     pl_counters = [], pl_steps = []\<rparr>"

lemma sample_install_runs: "\<exists>v s'. install_pack_atomic sample_platform sample_install (sample_platform_db [] []) = (Inr v, s')"
proof -
  have "(case install_pack_atomic sample_platform sample_install (sample_platform_db [] []) of (Inr v, _) \<Rightarrow> True | _ \<Rightarrow> False)" by code_simp
  then show ?thesis by (auto split: prod.splits sum.splits)
qed


theorem install_keeps_agent_limit_witness:
  "length (tenant_agents ''t'' (snd (install_pack_atomic sample_platform sample_install (sample_platform_db [] [])))) \<le> 1"
proof -
  obtain v s' where run: "install_pack_atomic sample_platform sample_install (sample_platform_db [] []) = (Inr v, s')" using sample_install_runs by blast
  have "pn_agent_limit sample_platform (ii_tenant_id sample_install) = Fin 1" by (simp add: sample_platform_def)
  moreover have "indexes_ok agent_indexes (gdb_agents (pl_db (sample_platform_db [] [])))"
    by (simp add: sample_platform_db_def indexes_ok_def index_ok_def agent_indexes_def map_filter_def)
  ultimately show ?thesis using install_keeps_agent_limit[OF run] run by (simp add: sample_install_def)
qed

definition bull_platform :: platform_env where
  "bull_platform = sample_platform\<lparr>pn_queue_refuses := \<lambda>i. if colons i = 1 then Some ''Custom Id cannot contain :'' else None\<rparr>"

definition bull_run :: "(api_error + agent_run) \<times> platform_db" where
  "bull_run = run_installed_agent bull_platform ''g'' [] ''o'' ''u'' (sample_platform_db [crm_agent] [])"

definition sample_run :: "(api_error + agent_run) \<times> platform_db" where
  "sample_run = run_installed_agent sample_platform ''g'' [] ''o'' ''u'' (sample_platform_db [crm_agent] [])"

lemma sample_platform_fresh:
  "indexes_ok execution_indexes (gdb_executions (pl_db (sample_platform_db [crm_agent] [])))"
  "row_of i (pl_db (sample_platform_db [crm_agent] [])) = None"
  "list_all (\<lambda>t. \<not> known_job (pl_queue (sample_platform_db [crm_agent] [])) (org_tenant_id t @ '':'' @ i))
    (edb_tenants (wdb_engagement (pl_db (sample_platform_db [crm_agent] []))))"
  by (simp_all add: sample_platform_db_def indexes_ok_def index_ok_def execution_indexes_def map_filter_def row_of_def known_job_def)

lemma sample_platform_references:
  "list_ex (\<lambda>r. org_id r = ''o'') (db_orgs (gdb_billing (pl_db (snd sample_run)))) \<and>
   list_ex (\<lambda>r. user_id r = ''u'') (db_users (gdb_billing (pl_db (snd sample_run)))) \<and>
   map_option org_id (resolve_organization_reference ''o'' (pl_db (snd sample_run))) = Some ''o''"
  by code_simp

theorem opened_run_is_settled_witness:
  "(\<exists>row. row_of ''new-execution'' (pl_db (snd bull_run)) = Some row \<and> agx_status row = ExecFailed) \<and>
   (\<exists>j row. aq_prioritized (pl_queue (snd sample_run)) = [j] \<and>
     row_of ''new-execution'' (snd (process_job (idle_worker\<lparr>wn_read_execution := \<lambda>_. Inr (qj_job j)\<rparr>) ''agent-normal'' (qj_job_id j) JNull
       (pl_db (snd sample_run)))) = Some row \<and> settled_row row)"
proof
  let ?s = "sample_platform_db [crm_agent] []"
  have ids: "pn_ids bull_platform ''execution'' = ''new-execution''" "pn_ids sample_platform ''execution'' = ''new-execution''"
    by (simp_all add: bull_platform_def sample_platform_def)
  have none: "gdb_executions (pl_db ?s) = []" "aq_prioritized (pl_queue ?s) = []" by (simp_all add: sample_platform_db_def)
  have opens: "gdb_executions (pl_db (snd bull_run)) \<noteq> []" and refused: "case fst bull_run of Inl _ \<Rightarrow> True | Inr _ \<Rightarrow> False"
    and accepted: "case fst sample_run of Inl _ \<Rightarrow> False | Inr v \<Rightarrow> \<not> run_reused v" by code_simp+
  have runs: "run_installed_agent bull_platform ''g'' [] ''o'' ''u'' ?s = (fst bull_run, snd bull_run)"
    "run_installed_agent sample_platform ''g'' [] ''o'' ''u'' ?s = (fst sample_run, snd sample_run)"
    by (simp_all add: bull_run_def sample_run_def)
  show "\<exists>row. row_of ''new-execution'' (pl_db (snd bull_run)) = Some row \<and> agx_status row = ExecFailed"
    using opened_run_is_settled[OF runs(1) sample_platform_fresh] opens refused none
    by (auto simp: failed_run_def ids split: sum.splits)
  from opened_run_is_settled[OF runs(2) sample_platform_fresh] accepted obtain x j where
    x: "ra_tenant x \<in> set (edb_tenants (wdb_engagement (pl_db ?s)))" and j: "j = job_of_execution (run_job_data x ''new-execution'' [] ''u'')"
    and queue: "pl_queue (snd sample_run) = (pl_queue ?s)\<lparr>aq_prioritized := aq_prioritized (pl_queue ?s) @ [j]\<rparr>"
    and own: "own_row ''new-execution'' (gdb_executions (pl_db ?s)) (org_tenant_id (ra_tenant x)) (pl_db (snd sample_run))"
    and settles: "\<And>W d w. takes_job j W d w \<Longrightarrow> worker_settles ''new-execution'' j W d w"
    by (auto simp: failed_run_def ids split: sum.splits)
  have t: "org_tenant_id (ra_tenant x) = ''t''" "org_id (ra_tenant x) = ''o''" using x by (simp_all add: sample_platform_db_def)
  have trim: "js_trim ''t'' \<noteq> []" by code_simp
  let ?W = "idle_worker\<lparr>wn_read_execution := \<lambda>_. Inr (qj_job j)\<rparr>"
  have "takes_job j ?W JNull (pl_db (snd sample_run))"
    using own t trim sample_platform_references
    by (auto simp: takes_job_def own_row_def j job_of_execution_def run_job_data_def idle_worker_def read_job_def read_execution_job_def
        zod_error_def lift_error_def then_do_def ask_def give_def truthy_def or_else_def or_opt_def known_references_def job_start_def)
  from settles[OF this] have "worker_settles ''new-execution'' j ?W JNull (pl_db (snd sample_run))" .
  moreover have "qj_queue j = ''agent-normal''" by (simp add: j job_of_execution_def)
  ultimately show "\<exists>j row. aq_prioritized (pl_queue (snd sample_run)) = [j] \<and>
     row_of ''new-execution'' (snd (process_job (idle_worker\<lparr>wn_read_execution := \<lambda>_. Inr (qj_job j)\<rparr>) ''agent-normal'' (qj_job_id j) JNull
       (pl_db (snd sample_run)))) = Some row \<and> settled_row row"
    using queue none by (intro exI[of _ j]) (auto simp: worker_settles_def split: prod.splits option.splits)
qed



end
