(* ===== verification/Spec2Isabelle.thy ===== *)
theory Spec2Isabelle
  imports Prelude DagValidator PolicyEngine CacheStore BillingOperations StripeWebhook UsersCorrect WorkflowApi NodeCorrect MemoryCorrect RuntimeCorrect Marketplace WebhooksCorrect InstalledCorrect
begin

text \<open>
  Verification of the BirthHub 360 backend: the API (\<open>apps/api\<close>), the worker (\<open>apps/worker\<close>) and the
  packages both are built on (\<open>packages/agents-core\<close>, \<open>packages/workflows-core\<close>, \<open>packages/database\<close>).

  \<^bold>\<open>The parts and how they meet.\<close> A request passes the guards of the middleware and reaches a service of the API, which
  reads and writes Postgres through Prisma, caches in Redis and puts jobs on BullMQ queues. The worker takes the jobs: it
  runs workflows step by step, and agents as plans of tool calls under a policy, a budget and a lock in Redis, and tells
  the outcome by notifications, mails and webhooks. Stripe calls the API back. API and worker share tables, and
  each looks at what the other has written: the budget of an agent, the row of an execution, the billing state.

  \<^bold>\<open>The shape of the model.\<close> A service is a set of state transformers \<open>('s, 'a) operation = 's \<Rightarrow> (api_error + 'a) \<times> 's\<close>
  (theory Schema): \<open>Inl\<close> is what the code throws, and the state beside it is what was written before; \<open>in_transaction\<close> rolls
  back, \<open>try_catch\<close> is \<open>try\<close>/\<open>catch\<close>. A table is the list of its rows with its unique indexes; \<open>create_row\<close>,
  \<open>update_many\<close> and \<open>update_unique\<close> fail with \<open>P2002\<close> or \<open>P2025\<close> as Prisma does. Parts of a state that
  another part owns are reached through \<open>on_part\<close>.

  \<^bold>\<open>Theories and sources.\<close>
  \<^item> Prelude (maps, keyed lists, named collections), JsText and JsValue and Json (strings, JSON values, \<open>JSON.stringify\<close>),
    Schema (enums, tables, operations; \<open>packages/database/prisma/schema.prisma\<close>).
  \<^item> CacheStore (\<open>common/cache/cache-store.ts\<close>: the locale \<open>cache_contract\<close>, interpreted for
    no store, the map in memory and the store that falls back from Redis); PlanLimits (\<open>billing/plan.utils.ts\<close>).
  \<^item> BillingDb, BillingSnapshot, BillingWebhooks, BillingOperations (\<open>modules/billing/service.ts\<close>: tables and catalogue,
    \<open>getBillingSnapshot\<close> and its cache, the five handlers of \<open>processStripeBillingEvent\<close>, checkout, portal and
    listings); BillingCorrect (indexes, one organization per event, the grace window); StripeWebhook
    (\<open>webhooks/stripe.router.ts\<close>: signature, lock, states of a delivery, and that an event takes effect once).
  \<^item> Totp (\<open>auth/mfa.service.ts\<close>, with 32-bit words), Crypto (\<open>auth/crypto.ts\<close>), AuthDb and Auth (\<open>auth/auth.service.ts\<close>),
    Guards (\<open>middleware\<close>, \<open>common/guards\<close>), Users (\<open>users/router.ts\<close>); AuthInvariant keeps, over all sequences
    of calls, the indexes and the marks never taken back, and AuthCorrect, AuthFactors and UsersCorrect rest on it.
  \<^item> DagValidator (\<open>parser/dagValidator.ts\<close>), WorkflowTypes, StepSchema, Interpolation and StepNodes (\<open>types.ts\<close>,
    \<open>schemas\<close>, \<open>interpolation\<close>, \<open>nodes\<close> of workflows-core) with NodeCorrect.
  \<^item> EngineDb and Runner (\<open>worker/src/engine/runner.ts\<close>); RunnerEffect describes what one job does to the tables,
    RunnerInvariant is the step relation of all deliveries with its invariant, RunnerCorrect and RunnerAttempts the
    bounds and the life of one attempt. WorkflowService (\<open>workflows/service.ts\<close>, \<open>runnerQueue.ts\<close>,
    \<open>webhooks/router.ts\<close>, \<open>webhooks/eventBus.ts\<close>); WorkflowCorrect, WorkflowRuns and WorkflowApi join the API and the runner.
  \<^item> PolicyEngine (\<open>policy/engine.ts\<close>), AgentMemory and MemoryService (\<open>memory/memoryService.ts\<close> over the locale of its
    backend, interpreted for the map and for the audit log of the worker) with MemoryCorrect, AgentManifest (\<open>manifest\<close>),
    Marketplace (\<open>marketplace-service.ts\<close>), AgentPlan (\<open>runtime/manifestRuntime.ts\<close>), PlanExecutor and PlanCorrect
    (\<open>executors/planExecutor.ts\<close>), AgentBudget and BudgetCorrect (\<open>budget.service.ts\<close> and the worker's own charge).
  \<^item> AgentTools, Conversations and AgentRuntime (\<open>worker/src/agents/runtime.ts\<close>, \<open>conversations.ts\<close>) with
    RuntimeCorrect; Notifications and OutboundWebhooks (\<open>repositories/engagement.ts\<close>, \<open>emailQueue.ts\<close>,
    \<open>webhooks/outbound.ts\<close>, \<open>settings.service.ts\<close>) with WebhooksCorrect; AgentWorker (\<open>worker.ts\<close>, \<open>handoffs.ts\<close>,
    \<open>agentQueue.ts\<close>, \<open>tenant-execution.ts\<close>) with WorkerCorrect; ConnectorSecrets (\<open>lib/encryption.ts\<close>) and InstalledAgents
    (\<open>pack-installer.service.ts\<close>, \<open>agents/service.ts\<close>, \<open>agents/queue.ts\<close>) with InstalledCorrect, which
    follows a run from the request through the queue to the row the worker settles.

  \<^bold>\<open>What the properties show.\<close> C1, C2, C32 and C33 are the Stripe events: authenticated, taken once, rolled back whole, and
  kept to one organization. C3, C4, C8, C14 and C23 hold of the runner for every order and number of deliveries; C26 to C29 of the
  workflows of the API and the two sides together. C5 to C7, C9 to C13 and C21 follow an agent from the installation
  to the settled execution; C15 to C19, C22, C24 and C25 are the runtime, its policy, its budget and the bounds of its
  plan; C20 is the refinement of the circuit of a webhook endpoint to an automaton, C30 and C31 the memory. C34 to C37 are
  sessions, logins and roles, C38 to C40 the validator of graphs and the policy engine against declarative
  specifications. Where the code falls short of what it means to do the property states what it does, and the difference
  is a finding of the manifest.

  \<^bold>\<open>Termination and fuel.\<close> No operation of the code takes fuel (only \<open>all_pages\<close>, a client that follows the
  cursors of a listing, does, and as many pages as there are rows are enough): the loops of the code are structural recursions or functions with a
  measure (the searches of DagValidator by the nodes not yet visited, the retry loop of PlanExecutor by the attempts
  left). That the runner comes to rest is proved over its step relation (C3), that a plan ends in bounded time under
  the limit that \<open>BaseTool.withTimeout\<close> sets to a tool (C25).

  \<^bold>\<open>What is given.\<close> Parameters of the definitions stand for what is outside the sources: hashes, HMAC, AES-GCM and scrypt,
  random bytes and fresh identifiers, the clock, what zod makes of a text, the URL parser, the sandbox of code steps,
  the answers of Stripe, of fetch, of connectors and of tools, the order of \<open>localeCompare\<close> (a sort key), and which job ids a
  queue refuses. What a property relies on of them is among its assumptions.

  \<^bold>\<open>What is abstracted.\<close>
  \<^item> An operation reads the clock once (the plan executor has a clock that moves); a job or request runs without
    another in between, save where a step relation interleaves them (deliveries of jobs, calls, requests of the API).
  \<^item> Characters are 8-bit; numbers are exact rationals with the infinities and NaN, except the bit converters of Totp; an \<open>Int\<close>
    column is unbounded; properties of \<open>Object.prototype\<close> and the reordering of integer-like keys are left out;
    \<open>JSON.parse\<close> undoes \<open>JSON.stringify\<close> on what the program itself has cached.
  \<^item> Rows are kept in the order of their insertion, which decides ties; a \<open>null\<close> in a Json column is a JSON null; an upsert
    with an empty update leaves \<open>updatedAt\<close>. Foreign keys are checked where a job brings the ids from outside
    (\<open>known_references\<close>) and followed where a deletion cascades. A statement that fails inside a Postgres
    transaction aborts it: a \<open>P2002\<close> caught there is modelled as an error of the transaction.
  \<^item> Parts that share a table but look at different columns each have their own record of it (organizations as billing,
    as authentication and as the worker see them).
  \<^item> A queue is the list of the jobs it has taken; BullMQ's delays, retries and redeliveries are the step relation that delivers
    them. The ids of repeatable jobs and those the runner gives are taken as accepted. Logging, metrics and traces are left out.

  \<^bold>\<open>What is not modelled.\<close> The user interfaces, the other applications of the repository (gateway, orchestrator, voice engine, the
  Python agents), scripts and infrastructure, and the parts of the API the manifest lists with their reasons: mostly listings,
  exports and routes that only check their input and call a service that is modelled.
\<close>

end
